(* ===== verification/Prelude.thy ===== *)
theory Prelude
  imports Main
begin

text \<open>
  Shared vocabulary of the development: HTTP errors and results, time, and the part of
  JavaScript's string library that the modelled services call.

  A JavaScript string is a list of code units; the model keeps the code units below 256, which is
  what \<open>char\<close> holds.  \<open>js_space\<close>, \<open>js_lower\<close> and \<open>js_upper\<close> are the ECMAScript operations on
  that range (the two upper-case images that leave it, of U+00B5 and U+00FF, are kept unchanged).
  Times and durations are \<open>int\<close> milliseconds since the epoch.
\<close>

named_theorems js_text "facts about the JavaScript string operations"
named_theorems table_simps "facts about database tables as lists of rows"

subsection \<open>Results of handlers\<close>

datatype http_error =
    BadRequest string
  | Unauthorized string
  | Forbidden string
  | NotFound string
  | Conflict string
  | TooManyRequests string "int option"
  | ServiceUnavailable string
  | InternalError string

type_synonym 'a result = "http_error + 'a"

text \<open>A handler that changes state returns its result and the state it leaves, on every path:
  an exception does not undo the writes made before it.\<close>

type_synonym ('a, 's) outcome = "'a result \<times> 's"

type_synonym time = int

definition ms_second :: int where [simp]: "ms_second = 1000"
definition ms_minute :: int where [simp]: "ms_minute = 60 * 1000"
definition ms_hour :: int where [simp]: "ms_hour = 60 * 60 * 1000"
definition ms_day :: int where [simp]: "ms_day = 24 * 60 * 60 * 1000"

text \<open>\<open>Math.ceil(a / b)\<close> and \<open>Math.floor(a / b)\<close> on integers with a positive divisor.\<close>

definition ceil_div :: "int \<Rightarrow> int \<Rightarrow> int" where
  "ceil_div a b = - ((- a) div b)"

lemma ceil_div_bounds:
  assumes "0 < b"
  shows "a \<le> b * ceil_div a b" and "b * ceil_div a b < a + b"
proof -
  have "(- a) mod b = (- a) - b * ((- a) div b)"
    by (simp add: minus_div_mult_eq_mod [symmetric] mult.commute)
  moreover have "0 \<le> (- a) mod b" "(- a) mod b < b"
    using assms by simp_all
  ultimately show "a \<le> b * ceil_div a b" and "b * ceil_div a b < a + b"
    by (simp_all add: ceil_div_def)
qed

subsection \<open>JavaScript strings\<close>

text \<open>White space and line terminators of ECMAScript (what \<open>trim\<close> removes and \<open>\s\<close> matches).\<close>

definition js_space :: "char \<Rightarrow> bool" where
  "js_space c = (let n = (of_char c :: nat) in
     n = 9 \<or> n = 10 \<or> n = 11 \<or> n = 12 \<or> n = 13 \<or> n = 32 \<or> n = 160)"

definition js_trim :: "string \<Rightarrow> string" where
  "js_trim s = rev (dropWhile js_space (rev (dropWhile js_space s)))"

definition lower_char :: "char \<Rightarrow> char" where
  "lower_char c = (let n = (of_char c :: nat) in
     if 65 \<le> n \<and> n \<le> 90 \<or> 192 \<le> n \<and> n \<le> 222 \<and> n \<noteq> 215 then char_of (n + 32) else c)"

definition js_lower :: "string \<Rightarrow> string" where
  "js_lower s = map lower_char s"

text \<open>\<open>'\<szlig>'.toUpperCase()\<close> is \<open>'SS'\<close> (U+00DF is 223).\<close>

definition upper_char :: "char \<Rightarrow> string" where
  "upper_char c = (let n = (of_char c :: nat) in
     if 97 \<le> n \<and> n \<le> 122 \<or> 224 \<le> n \<and> n \<le> 254 \<and> n \<noteq> 247 then [char_of (n - 32)]
     else if n = 223 then ''SS'' else [c])"

definition js_upper :: "string \<Rightarrow> string" where
  "js_upper s = concat (map upper_char s)"

definition starts_with :: "string \<Rightarrow> string \<Rightarrow> bool" where
  "starts_with p s = (take (length p) s = p)"

definition ends_with :: "string \<Rightarrow> string \<Rightarrow> bool" where
  "ends_with p s = starts_with (rev p) (rev s)"

fun js_includes :: "string \<Rightarrow> string \<Rightarrow> bool" where
  "js_includes p [] = (p = [])"
| "js_includes p (c # s) = (starts_with p (c # s) \<or> js_includes p s)"

text \<open>\<open>s.split(c)\<close> for a one-character separator, and \<open>parts.join(sep)\<close>.\<close>

fun js_split :: "char \<Rightarrow> string \<Rightarrow> string list" where
  "js_split sep [] = [[]]"
| "js_split sep (c # s) =
     (if c = sep then [] # js_split sep s
      else case js_split sep s of [] \<Rightarrow> [[c]] | p # ps \<Rightarrow> (c # p) # ps)"

fun js_join :: "string \<Rightarrow> string list \<Rightarrow> string" where
  "js_join sep [] = []"
| "js_join sep [p] = p"
| "js_join sep (p # ps) = p @ sep @ js_join sep ps"

text \<open>\<open>[...new Set(xs)]\<close>, which keeps the first of equal values, and \<open>s.replace(a, b)\<close> for characters, which replaces
  the first.\<close>

definition js_unique :: "'a list \<Rightarrow> 'a list" where
  "js_unique xs = foldl (\<lambda>acc x. if x \<in> set acc then acc else acc @ [x]) [] xs"

fun replace_first :: "char \<Rightarrow> char \<Rightarrow> string \<Rightarrow> string" where
  "replace_first a b [] = []"
| "replace_first a b (c # s) = (if c = a then b # s else c # replace_first a b s)"

definition is_digit :: "char \<Rightarrow> bool" where
  "is_digit c = (let n = (of_char c :: nat) in 48 \<le> n \<and> n \<le> 57)"

definition digit_val :: "char \<Rightarrow> nat" where
  "digit_val c = of_char c - 48"

definition digit_char :: "nat \<Rightarrow> char" where
  "digit_char d = char_of (48 + d)"

fun show_nat :: "nat \<Rightarrow> string" where
  "show_nat n = (if n < 10 then [digit_char n] else show_nat (n div 10) @ [digit_char (n mod 10)])"

declare show_nat.simps [simp del]

definition show_int :: "int \<Rightarrow> string" where
  "show_int i = (if i < 0 then ''-'' @ show_nat (nat (- i)) else show_nat (nat i))"

definition nat_of_digits :: "string \<Rightarrow> nat" where
  "nat_of_digits s = foldl (\<lambda>n c. 10 * n + digit_val c) 0 s"

text \<open>\<open>parseInt(s, 10)\<close>: leading white space, an optional sign, then the longest run of decimal
  digits; \<open>None\<close> is NaN.\<close>

definition parse_int10 :: "string \<Rightarrow> int option" where
  "parse_int10 s =
     (let t = dropWhile js_space s;
          (neg, u) = (case t of [] \<Rightarrow> (False, [])
                      | c # r \<Rightarrow> if c = CHR ''-'' then (True, r)
                                 else if c = CHR ''+'' then (False, r) else (False, t));
          ds = takeWhile is_digit u
      in if ds = [] then None
         else Some ((if neg then -1 else 1) * int (nat_of_digits ds)))"

text \<open>\<open>Number(s)\<close> where it is an integer, \<open>None\<close> where it is not (NaN included): decimal literals with
  fraction and exponent, and the \<open>0x\<close>, \<open>0o\<close> and \<open>0b\<close> forms.  The value is the literal's exact one, which is
  the double for every literal of at most 15 significant digits and magnitude below \<open>2 ^ 53\<close>; longer ones
  are outside the model.\<close>

definition hex_val :: "char \<Rightarrow> nat option" where
  "hex_val c = (let n = (of_char c :: nat) in
     if 48 \<le> n \<and> n \<le> 57 then Some (n - 48)
     else if 97 \<le> n \<and> n \<le> 102 then Some (n - 87)
     else if 65 \<le> n \<and> n \<le> 70 then Some (n - 55) else None)"

definition radix_digits :: "nat \<Rightarrow> string \<Rightarrow> nat option" where
  "radix_digits b s =
     (if s \<noteq> [] \<and> list_all (\<lambda>c. case hex_val c of Some d \<Rightarrow> d < b | None \<Rightarrow> False) s
      then Some (foldl (\<lambda>n c. b * n + the (hex_val c)) 0 s) else None)"

definition split_sign :: "string \<Rightarrow> int \<times> string" where
  "split_sign s = (case s of [] \<Rightarrow> (1, [])
     | c # r \<Rightarrow> if c = CHR ''-'' then (-1, r) else if c = CHR ''+'' then (1, r) else (1, s))"

definition js_decimal_integer :: "string \<Rightarrow> int option" where
  "js_decimal_integer s =
     (let (sgn, u) = split_sign s;
          ip = takeWhile is_digit u;
          v = dropWhile is_digit u;
          (fp, w) = (case v of c # r \<Rightarrow> if c = CHR ''.'' then (takeWhile is_digit r, dropWhile is_digit r) else ([], v)
                     | [] \<Rightarrow> ([], []));
          ex = (case w of [] \<Rightarrow> Some 0
                | c # r \<Rightarrow> if c = CHR ''e'' \<or> c = CHR ''E''
                    then (let (es, d) = split_sign r in
                          if d \<noteq> [] \<and> list_all is_digit d then Some (es * int (nat_of_digits d)) else None)
                    else None)
      in if ip = [] \<and> fp = [] then None
         else case ex of None \<Rightarrow> None
         | Some e \<Rightarrow>
             (let m = int (nat_of_digits (ip @ fp)); k = e - int (length fp) in
              if 0 \<le> k then Some (sgn * m * 10 ^ nat k)
              else if m mod 10 ^ nat (- k) = 0 then Some (sgn * (m div 10 ^ nat (- k))) else None))"

definition js_number_integer :: "string \<Rightarrow> int option" where
  "js_number_integer s =
     (let t = js_trim s in
      if t = [] then Some 0
      else case t of
        z # x # r \<Rightarrow>
          if z = CHR ''0'' \<and> (x = CHR ''x'' \<or> x = CHR ''X'') then map_option int (radix_digits 16 r)
          else if z = CHR ''0'' \<and> (x = CHR ''o'' \<or> x = CHR ''O'') then map_option int (radix_digits 8 r)
          else if z = CHR ''0'' \<and> (x = CHR ''b'' \<or> x = CHR ''B'') then map_option int (radix_digits 2 r)
          else js_decimal_integer t
      | _ \<Rightarrow> js_decimal_integer t)"

subsection \<open>Facts about the string operations\<close>

lemma of_char_char_of_nat [simp]: "n < 256 \<Longrightarrow> (of_char (char_of n) :: nat) = n"
  by simp

lemma digit_char_simps [simp, js_text]:
  "d < 10 \<Longrightarrow> is_digit (digit_char d)"
  "d < 10 \<Longrightarrow> digit_val (digit_char d) = d"
  by (simp_all add: is_digit_def digit_val_def digit_char_def)

lemma is_digit_not_space: "is_digit c \<Longrightarrow> \<not> js_space c"
  by (auto simp: is_digit_def js_space_def Let_def)

lemma show_nat_digits: "list_all is_digit (show_nat n) \<and> show_nat n \<noteq> []"
proof (induction n rule: show_nat.induct)
  case (1 n)
  then show ?case by (auto simp: show_nat.simps [of n])
qed

lemma nat_of_digits_snoc: "nat_of_digits (s @ [c]) = 10 * nat_of_digits s + digit_val c"
  by (simp add: nat_of_digits_def)

lemma nat_of_digits_show: "nat_of_digits (show_nat n) = n"
proof (induction n rule: show_nat.induct)
  case (1 n)
  show ?case
  proof (cases "n < 10")
    case True
    then show ?thesis by (simp add: show_nat.simps [of n] nat_of_digits_def)
  next
    case False
    with 1 show ?thesis by (simp add: show_nat.simps [of n] nat_of_digits_snoc)
  qed
qed

lemma parse_int10_show [simp, js_text]: "parse_int10 (show_nat n) = Some (int n)"
proof -
  obtain c r where cr: "show_nat n = c # r" using show_nat_digits by (cases "show_nat n") auto
  have dig: "is_digit c" "list_all is_digit (c # r)" using show_nat_digits [of n] by (auto simp: cr)
  have nsp: "\<not> js_space c" using dig(1) by (rule is_digit_not_space)
  have sgn: "c \<noteq> CHR ''-''" "c \<noteq> CHR ''+''" using dig(1) by (auto simp: is_digit_def)
  have "takeWhile is_digit (c # r) = c # r"
    using dig(2) by (simp only: takeWhile_eq_all_conv list_all_iff)
  then show ?thesis
    using nat_of_digits_show [of n] nsp sgn by (simp add: parse_int10_def cr)
qed

lemma js_split_nonempty [simp]: "js_split sep s \<noteq> []"
  by (induction s) (auto split: list.split)

lemma js_split_append: "sep \<notin> set p \<Longrightarrow> js_split sep (p @ sep # s) = p # js_split sep s"
  by (induction p) auto

lemma js_split_none: "sep \<notin> set p \<Longrightarrow> js_split sep p = [p]"
  by (induction p) auto

lemma dropWhile_hd_false: "dropWhile P s = c # r \<Longrightarrow> \<not> P c"
  by (metis dropWhile_eq_Cons_conv)

lemma dropWhile_idem [simp]: "dropWhile P (dropWhile P s) = dropWhile P s"
  by (cases "dropWhile P s") (auto dest: dropWhile_hd_false)

definition rtrim :: "string \<Rightarrow> string" where
  "rtrim s = rev (dropWhile js_space (rev s))"

lemma js_trim_rtrim: "js_trim s = rtrim (dropWhile js_space s)"
  by (simp add: js_trim_def rtrim_def)

lemma rtrim_prefix: "\<exists>t. s = rtrim s @ t"
proof -
  have "rev s = takeWhile js_space (rev s) @ dropWhile js_space (rev s)" by simp
  then have "s = rtrim s @ rev (takeWhile js_space (rev s))"
    by (metis rev_append rev_rev_ident rtrim_def)
  then show ?thesis ..
qed

lemma dropWhile_rtrim:
  assumes "dropWhile js_space s = s"
  shows "dropWhile js_space (rtrim s) = rtrim s"
proof (cases "rtrim s")
  case (Cons c r)
  with rtrim_prefix [of s] obtain t where "s = c # r @ t" by auto
  with assms have "\<not> js_space c" by (metis dropWhile_hd_false)
  with Cons show ?thesis by simp
qed simp

lemma js_trim_idem [simp, js_text]: "js_trim (js_trim s) = js_trim s"
  by (simp add: js_trim_rtrim dropWhile_rtrim) (simp add: rtrim_def)

lemma set_js_trim: "set (js_trim s) \<subseteq> set s"
  unfolding js_trim_def by (metis set_dropWhileD set_rev subsetI)

lemma js_trim_ends:
  assumes "js_trim s \<noteq> []"
  shows "\<not> js_space (hd (js_trim s)) \<and> \<not> js_space (last (js_trim s))"
proof
  have "dropWhile js_space (js_trim s) = js_trim s"
    by (simp add: js_trim_rtrim dropWhile_rtrim)
  then show "\<not> js_space (hd (js_trim s))" using assms
    by (metis dropWhile_hd_false list.collapse)
  obtain c r where "dropWhile js_space (rev (dropWhile js_space s)) = c # r"
    using assms by (cases "dropWhile js_space (rev (dropWhile js_space s))") (auto simp: js_trim_def)
  then show "\<not> js_space (last (js_trim s))"
    by (metis dropWhile_hd_false js_trim_def last_rev list.sel(1) list.discI)
qed

lemma lower_char_idem [simp]: "lower_char (lower_char c) = lower_char c"
proof -
  define n :: nat where "n = of_char c"
  have lt: "n < 256" by (simp add: n_def)
  have c: "c = char_of n" by (simp add: n_def)
  have "65 \<le> n \<and> n \<le> 90 \<or> 192 \<le> n \<and> n \<le> 222 \<Longrightarrow> n + 32 < 256" by auto
  then show ?thesis
    using lt unfolding c lower_char_def Let_def by (auto simp del: char_of_eq_iff)
qed

lemma js_lower_idem [simp, js_text]: "js_lower (js_lower s) = js_lower s"
  by (simp add: js_lower_def)

lemma length_js_lower [simp]: "length (js_lower s) = length s"
  by (simp add: js_lower_def)

lemma starts_with_append [simp]: "starts_with p (p @ s)"
  by (simp add: starts_with_def)

lemma starts_with_iff: "starts_with p s \<longleftrightarrow> (\<exists>t. s = p @ t)"
  by (metis append_eq_conv_conj append_take_drop_id starts_with_def)

lemma js_includes_iff: "js_includes p s \<longleftrightarrow> (\<exists>a b. s = a @ p @ b)"
proof (induction s)
  case Nil
  then show ?case by simp
next
  case (Cons c s)
  note IH = Cons
  show ?case
  proof
    assume "js_includes p (c # s)"
    then consider t where "c # s = p @ t" | a b where "s = a @ p @ b"
      by (auto simp: starts_with_iff Cons)
    then show "\<exists>a b. c # s = a @ p @ b"
    proof cases
      case 1
      then show ?thesis by (intro exI [of _ "[]"] exI [of _ t]) simp
    next
      case 2
      then show ?thesis by (intro exI [of _ "c # a"] exI [of _ b]) simp
    qed
  next
    assume "\<exists>a b. c # s = a @ p @ b"
    then obtain a b where ab: "c # s = a @ p @ b" by blast
    show "js_includes p (c # s)"
    proof (cases a)
      case Nil
      with ab have "starts_with p (c # s)" by (simp add: starts_with_iff)
      then show ?thesis by simp
    next
      case (Cons d a')
      with ab have "s = a' @ p @ b" by simp
      with IH show ?thesis by auto
    qed
  qed
qed

lemma js_includes_singleton [simp]: "js_includes [c] s \<longleftrightarrow> c \<in> set s"
  by (metis append_Cons append_Nil in_set_conv_decomp js_includes_iff)

subsection \<open>Facts about lists\<close>

lemma find_map_update:
  "(\<And>x. P x \<Longrightarrow> P (f x)) \<Longrightarrow>
   List.find P (map (\<lambda>x. if P x then f x else x) xs) = map_option f (List.find P xs)"
  by (induction xs) auto

lemma find_map_same:
  "(\<And>x. x \<in> set xs \<Longrightarrow> P (g x) = P x) \<Longrightarrow> (\<And>x. x \<in> set xs \<Longrightarrow> P x \<Longrightarrow> g x = x) \<Longrightarrow>
   List.find P (map g xs) = List.find P xs"
  by (induction xs) auto

lemma find_Some_in: "List.find P xs = Some x \<Longrightarrow> x \<in> set xs \<and> P x"
  by (auto simp: find_Some_iff)

lemma find_append: "List.find P (xs @ ys) = (case List.find P xs of None \<Rightarrow> List.find P ys | Some x \<Rightarrow> Some x)"
  by (induction xs) auto

lemma js_unique_fold:
  "distinct acc \<Longrightarrow> distinct (foldl (\<lambda>acc x. if x \<in> set acc then acc else acc @ [x]) acc xs)
     \<and> set (foldl (\<lambda>acc x. if x \<in> set acc then acc else acc @ [x]) acc xs) = set acc \<union> set xs"
  by (induction xs arbitrary: acc) auto

lemma distinct_js_unique [simp]: "distinct (js_unique xs)"
  and set_js_unique [simp]: "set (js_unique xs) = set xs"
  using js_unique_fold [of "[]" xs] by (simp_all add: js_unique_def)

end
