(* ===== verification/Store.thy ===== *)
theory Store
  imports Prelude
begin

text \<open>
  The state behind the services: a database table is the list of its rows in insertion order.
  The services reach it through Prisma, which is not part of the repository; the operations below
  are the state changes its documented calls stand for (\<open>findUnique\<close>, \<open>findFirst\<close>, \<open>count\<close>,
  \<open>create\<close>, \<open>update\<close>, \<open>updateMany\<close>, \<open>deleteMany\<close>), each applied to the table the service names.
  An \<open>orderBy\<close> on ties keeps insertion order.  The locale \<open>keyed_table\<close> is the contract the
  read-modify-write handlers rely on; it is interpreted for each table in the theory that owns it.
\<close>

subsection \<open>Table operations\<close>

definition tbl_find :: "('r \<Rightarrow> 'k) \<Rightarrow> 'k \<Rightarrow> 'r list \<Rightarrow> 'r option" where
  "tbl_find key k t = List.find (\<lambda>r. key r = k) t"

definition tbl_count :: "('r \<Rightarrow> bool) \<Rightarrow> 'r list \<Rightarrow> nat" where
  "tbl_count p t = length (filter p t)"

definition tbl_create :: "'r \<Rightarrow> 'r list \<Rightarrow> 'r list" where
  "tbl_create r t = t @ [r]"

definition tbl_update :: "('r \<Rightarrow> 'k) \<Rightarrow> 'k \<Rightarrow> ('r \<Rightarrow> 'r) \<Rightarrow> 'r list \<Rightarrow> 'r list" where
  "tbl_update key k f t = map (\<lambda>r. if key r = k then f r else r) t"

definition tbl_update_many :: "('r \<Rightarrow> bool) \<Rightarrow> ('r \<Rightarrow> 'r) \<Rightarrow> 'r list \<Rightarrow> 'r list" where
  "tbl_update_many p f t = map (\<lambda>r. if p r then f r else r) t"

definition tbl_delete_many :: "('r \<Rightarrow> bool) \<Rightarrow> 'r list \<Rightarrow> 'r list" where
  "tbl_delete_many p t = filter (\<lambda>r. \<not> p r) t"

text \<open>\<open>orderBy: { field: 'desc' }\<close>.\<close>

definition tbl_desc :: "('r \<Rightarrow> int) \<Rightarrow> 'r list \<Rightarrow> 'r list" where
  "tbl_desc field t = sort_key (\<lambda>r. - field r) t"

definition tbl_asc :: "('r \<Rightarrow> int) \<Rightarrow> 'r list \<Rightarrow> 'r list" where
  "tbl_asc field t = sort_key field t"

text \<open>\<open>skip\<close> and \<open>take\<close> of a page.\<close>

definition tbl_page :: "nat \<Rightarrow> nat \<Rightarrow> 'r list \<Rightarrow> 'r list" where
  "tbl_page skip lim t = take lim (drop skip t)"

text \<open>\<open>contains\<close> and \<open>equals\<close> with \<open>mode: 'insensitive'\<close>, for ASCII text; \<open>gte\<close> and \<open>lte\<close>, which a NULL never satisfies.\<close>

definition contains_ci :: "string \<Rightarrow> string \<Rightarrow> bool" where
  "contains_ci value text = js_includes (js_lower value) (js_lower text)"

definition equals_ci :: "string \<Rightarrow> string \<Rightarrow> bool" where
  "equals_ci value text = (js_lower value = js_lower text)"

definition range_filter :: "'a :: linorder option \<Rightarrow> 'a option \<Rightarrow> 'a option \<Rightarrow> bool" where
  "range_filter lo hi v =
     (if lo = None \<and> hi = None then True
      else case v of None \<Rightarrow> False
        | Some x \<Rightarrow> (case lo of None \<Rightarrow> True | Some l \<Rightarrow> l \<le> x) \<and> (case hi of None \<Rightarrow> True | Some h \<Rightarrow> x \<le> h))"

lemma set_tbl_desc [simp, table_simps]: "set (tbl_desc f t) = set t"
  by (simp add: tbl_desc_def)

lemma set_tbl_asc [simp, table_simps]: "set (tbl_asc f t) = set t"
  by (simp add: tbl_asc_def)

lemma length_tbl_desc [simp]: "length (tbl_desc f t) = length t"
  by (simp add: tbl_desc_def)

lemma tbl_desc_nil_iff [simp]: "tbl_desc f t = [] \<longleftrightarrow> t = []"
  by (metis length_0_conv length_tbl_desc)

lemma tbl_desc_hd:
  assumes "tbl_desc f t = r # rs" and "x \<in> set t"
  shows "f x \<le> f r"
proof -
  have "sorted (map (\<lambda>r. - f r) (r # rs))"
    unfolding assms(1) [symmetric] by (simp add: tbl_desc_def)
  moreover have "x \<in> set (r # rs)"
    unfolding assms(1) [symmetric] using assms(2) by simp
  ultimately show ?thesis by auto
qed

lemma tbl_find_Some: "tbl_find key k t = Some r \<Longrightarrow> r \<in> set t \<and> key r = k"
  by (auto simp: tbl_find_def find_Some_iff)

lemma tbl_find_None [table_simps]: "tbl_find key k t = None \<longleftrightarrow> k \<notin> key ` set t"
  by (auto simp: tbl_find_def find_None_iff)

lemma tbl_find_distinct:
  "distinct (map key t) \<Longrightarrow> r \<in> set t \<Longrightarrow> tbl_find key (key r) t = Some r"
  by (induction t) (auto simp: tbl_find_def rev_image_eqI)

lemma in_tbl_update: "r \<in> set (tbl_update key k f t) \<longleftrightarrow> (\<exists>q \<in> set t. r = (if key q = k then f q else q))"
  unfolding tbl_update_def by (induction t) auto

lemma length_tbl_update [simp, table_simps]: "length (tbl_update key k f t) = length t"
  by (simp add: tbl_update_def)

lemma length_tbl_update_many [simp, table_simps]: "length (tbl_update_many p f t) = length t"
  by (simp add: tbl_update_many_def)

lemma tbl_update_keys:
  "(\<And>r. key (f r) = key r) \<Longrightarrow> map key (tbl_update key k f t) = map key t"
  by (induction t) (auto simp: tbl_update_def)

lemma tbl_count_create [table_simps]:
  "tbl_count p (tbl_create r t) = tbl_count p t + (if p r then 1 else 0)"
  by (simp add: tbl_count_def tbl_create_def)

lemma tbl_count_le: "tbl_count p t \<le> length t"
  by (simp add: tbl_count_def)

lemma tbl_count_zero_iff: "tbl_count p t = 0 \<longleftrightarrow> (\<forall>r \<in> set t. \<not> p r)"
  by (simp add: tbl_count_def filter_empty_conv)

lemma set_tbl_delete_many [simp, table_simps]: "set (tbl_delete_many p t) = {r \<in> set t. \<not> p r}"
  by (auto simp: tbl_delete_many_def)

lemma tbl_delete_many_length:
  "length (tbl_delete_many p t) + tbl_count p t = length t"
  by (induction t) (auto simp: tbl_delete_many_def tbl_count_def)

lemma tbl_update_many_count_gone:
  "(\<And>r. p r \<Longrightarrow> \<not> q (f r)) \<Longrightarrow> (\<And>r. \<not> p r \<Longrightarrow> \<not> q r) \<Longrightarrow> tbl_count q (tbl_update_many p f t) = 0"
  by (auto simp: tbl_count_zero_iff tbl_update_many_def)

lemma tbl_update_many_all:
  "r \<in> set (tbl_update_many p f t) \<Longrightarrow> (\<And>q. p q \<Longrightarrow> P (f q)) \<Longrightarrow> (\<And>q. \<not> p q \<Longrightarrow> P q) \<Longrightarrow> P r"
  by (auto simp: tbl_update_many_def split: if_splits)

lemma tbl_find_update_by:
  assumes "\<And>r. key' (f r) = key' r"
  shows "tbl_find key' h (tbl_update key k f t) = map_option (\<lambda>r. if key r = k then f r else r) (tbl_find key' h t)"
  unfolding tbl_find_def tbl_update_def using assms by (induction t) auto

lemma tbl_find_create:
  "tbl_find key k (tbl_create r t) =
     (case tbl_find key k t of Some q \<Rightarrow> Some q | None \<Rightarrow> if key r = k then Some r else None)"
  by (auto simp: tbl_find_def tbl_create_def find_append split: option.split)

lemma pages_concat: "concat (map (\<lambda>p. tbl_page (p * l) l xs) [0..<n]) = take (n * l) xs"
proof (induction n)
  case (Suc n)
  have "take (Suc n * l) xs = take (n * l) xs @ take l (drop (n * l) xs)"
    by (metis add.commute mult_Suc take_add)
  then show ?case using Suc by (simp add: tbl_page_def)
qed simp

text \<open>The pages up to \<open>Math.ceil(total / limit)\<close> are all rows.\<close>

lemma all_pages:
  assumes "0 < l" and "int (length xs) \<le> int n * int l"
  shows "concat (map (\<lambda>p. tbl_page ((p - 1) * l) l xs) [1..<Suc n]) = xs"
proof -
  have "concat (map (\<lambda>p. tbl_page ((p - 1) * l) l xs) [1..<Suc n]) = concat (map (\<lambda>p. tbl_page (p * l) l xs) [0..<n])"
    by (simp only: map_Suc_upt [symmetric] map_map o_def One_nat_def) simp
  then show ?thesis using assms by (simp add: pages_concat flip: of_nat_mult)
qed

lemma ceil_div_pages: "0 < l \<Longrightarrow> int n \<le> int (nat (ceil_div (int n) (int l))) * int l"
  using ceil_div_bounds(1) [of "int l" "int n"] by (smt (verit) mult.commute mult_nonneg_nonpos of_nat_0_less_iff of_nat_0_le_iff int_nat_eq mult_less_0_iff)

subsection \<open>The contract of a keyed table\<close>

locale keyed_table =
  fixes key :: "'r \<Rightarrow> 'k"
    and lookup :: "'k \<Rightarrow> 't \<Rightarrow> 'r option"
    and update :: "'k \<Rightarrow> ('r \<Rightarrow> 'r) \<Rightarrow> 't \<Rightarrow> 't"
    and insert :: "'r \<Rightarrow> 't \<Rightarrow> 't"
  assumes lookup_key: "lookup k t = Some r \<Longrightarrow> key r = k"
    and lookup_update: "(\<And>r. key r = k \<Longrightarrow> key (f r) = k) \<Longrightarrow>
      lookup k' (update k f t) = (if k' = k then map_option f (lookup k t) else lookup k' t)"
    and lookup_insert: "lookup k (insert r t) =
      (case lookup k t of Some q \<Rightarrow> Some q | None \<Rightarrow> if key r = k then Some r else None)"
begin

definition all_rows :: "('r \<Rightarrow> bool) \<Rightarrow> 't \<Rightarrow> bool" where
  "all_rows P t \<longleftrightarrow> (\<forall>k r. lookup k t = Some r \<longrightarrow> P r)"

lemma update_same:
  "lookup k t = Some r \<Longrightarrow> (\<And>r. key r = k \<Longrightarrow> key (f r) = k) \<Longrightarrow>
   lookup k (update k f t) = Some (f r)"
  by (simp add: lookup_update)

lemma update_other:
  "k' \<noteq> k \<Longrightarrow> (\<And>r. key r = k \<Longrightarrow> key (f r) = k) \<Longrightarrow> lookup k' (update k f t) = lookup k' t"
  by (simp add: lookup_update)

lemma insert_fresh: "lookup (key r) t = None \<Longrightarrow> lookup (key r) (insert r t) = Some r"
  by (simp add: lookup_insert)

lemma insert_other: "k \<noteq> key r \<Longrightarrow> lookup k (insert r t) = lookup k t"
  by (auto simp: lookup_insert split: option.split)

lemma update_all_rows:
  assumes "all_rows P t" and "\<And>r. key r = k \<Longrightarrow> key (f r) = k"
    and "\<And>r. lookup k t = Some r \<Longrightarrow> P r \<Longrightarrow> P (f r)"
  shows "all_rows P (update k f t)"
  using assms by (auto simp: all_rows_def lookup_update split: if_splits)

lemma insert_all_rows: "all_rows P t \<Longrightarrow> P r \<Longrightarrow> all_rows P (insert r t)"
  by (auto simp: all_rows_def lookup_insert split: option.splits if_splits)

end

text \<open>Every table of the development, keyed by any of its columns, keeps this contract.\<close>

lemma keyed_table_tbl: "keyed_table key (tbl_find key) (tbl_update key) tbl_create"
proof
  show "tbl_find key k t = Some r \<Longrightarrow> key r = k" for k r and t :: "'a list"
    by (drule tbl_find_Some) simp
next
  fix k :: 'b and f :: "'a \<Rightarrow> 'a" and k' and t :: "'a list"
  assume keep: "\<And>r. key r = k \<Longrightarrow> key (f r) = k"
  show "tbl_find key k' (tbl_update key k f t) =
      (if k' = k then map_option f (tbl_find key k t) else tbl_find key k' t)"
    using keep by (induction t) (auto simp: tbl_find_def tbl_update_def)
next
  fix k :: 'b and r :: 'a and t :: "'a list"
  show "tbl_find key k (tbl_create r t) =
      (case tbl_find key k t of Some q \<Rightarrow> Some q | None \<Rightarrow> if key r = k then Some r else None)"
    by (auto simp: tbl_find_def tbl_create_def find_append split: option.split)
qed

end
