(* ===== verification/Status_Machines.thy ===== *)
theory Status_Machines
  imports Prelude
begin

text \<open>
  The two status life cycles: \<open>src/transactions/transaction-status.constants.ts\<close> and
  \<open>src/properties/property-status.constants.ts\<close>.  Both files export the same interface, a table
  of allowed next statuses and a check that also allows the no-op transition; the locale
  \<open>status_machine\<close> is that interface, and its lemmas are about whole histories of accepted
  transitions.
\<close>

subsection \<open>The interface\<close>

locale status_machine =
  fixes can :: "'s \<Rightarrow> 's \<Rightarrow> bool"
    and nexts :: "'s \<Rightarrow> 's list"
  assumes can_iff: "can s t \<longleftrightarrow> s = t \<or> t \<in> set (nexts s)"
begin

definition terminal :: "'s \<Rightarrow> bool" where
  "terminal s \<longleftrightarrow> nexts s = []"

definition closed :: "'s set \<Rightarrow> bool" where
  "closed S \<longleftrightarrow> (\<forall>s \<in> S. set (nexts s) \<subseteq> S)"

lemma can_refl: "can s s"
  by (simp add: can_iff)

lemma closed_history:
  assumes "can\<^sup>*\<^sup>* s t" and "closed S" and "s \<in> S"
  shows "t \<in> S"
  using assms(1,3)
proof (induction rule: rtranclp_induct)
  case (step t u)
  then show ?case using assms(2) by (auto simp: can_iff closed_def)
qed

lemma terminal_history: "can\<^sup>*\<^sup>* s t \<Longrightarrow> terminal s \<Longrightarrow> t = s"
  using closed_history [of s t "{s}"] by (simp add: closed_def terminal_def)

lemma edge_history: "t \<in> set (nexts s) \<Longrightarrow> can\<^sup>*\<^sup>* t u \<Longrightarrow> can\<^sup>*\<^sup>* s u"
  by (rule converse_rtranclp_into_rtranclp [of can s t]) (simp_all add: can_iff)

end

subsection \<open>Transactions\<close>

datatype transaction_status = Tx_PENDING | Tx_COMPLETED | Tx_CANCELLED

definition DEFAULT_TRANSACTION_STATUS :: transaction_status where
  "DEFAULT_TRANSACTION_STATUS = Tx_PENDING"

fun allowed_transaction_next :: "transaction_status \<Rightarrow> transaction_status list" where
  "allowed_transaction_next Tx_PENDING = [Tx_COMPLETED, Tx_CANCELLED]"
| "allowed_transaction_next Tx_COMPLETED = []"
| "allowed_transaction_next Tx_CANCELLED = []"

definition canTransitionTransactionStatus :: "transaction_status \<Rightarrow> transaction_status \<Rightarrow> bool" where
  "canTransitionTransactionStatus cur nxt =
     (if cur = nxt then True else List.member (allowed_transaction_next cur) nxt)"

interpretation tx_status: status_machine canTransitionTransactionStatus allowed_transaction_next
  by unfold_locales (auto simp: canTransitionTransactionStatus_def)

lemma tx_terminal: "s \<noteq> Tx_PENDING \<Longrightarrow> tx_status.terminal s"
  by (cases s) (simp_all add: tx_status.terminal_def)

subsection \<open>Properties\<close>

datatype property_status =
  DRAFT | PENDING | ACTIVE | UNDER_CONTRACT | SOLD | RENTED | ARCHIVED | EXPIRED

definition DEFAULT_PROPERTY_STATUS :: property_status where
  "DEFAULT_PROPERTY_STATUS = PENDING"

fun getAllowedNextPropertyStatuses :: "property_status \<Rightarrow> property_status list" where
  "getAllowedNextPropertyStatuses DRAFT = [PENDING, ARCHIVED, EXPIRED]"
| "getAllowedNextPropertyStatuses PENDING = [ACTIVE, DRAFT, ARCHIVED, EXPIRED]"
| "getAllowedNextPropertyStatuses ACTIVE = [UNDER_CONTRACT, RENTED, ARCHIVED, EXPIRED]"
| "getAllowedNextPropertyStatuses UNDER_CONTRACT = [SOLD, ACTIVE]"
| "getAllowedNextPropertyStatuses SOLD = [ARCHIVED]"
| "getAllowedNextPropertyStatuses RENTED = [ACTIVE, ARCHIVED]"
| "getAllowedNextPropertyStatuses ARCHIVED = [DRAFT]"
| "getAllowedNextPropertyStatuses EXPIRED = [ACTIVE, DRAFT, ARCHIVED]"

definition canTransitionPropertyStatus :: "property_status \<Rightarrow> property_status \<Rightarrow> bool" where
  "canTransitionPropertyStatus cur nxt =
     (if cur = nxt then True else List.member (getAllowedNextPropertyStatuses cur) nxt)"

interpretation prop_status: status_machine canTransitionPropertyStatus getAllowedNextPropertyStatuses
  by unfold_locales (auto simp: canTransitionPropertyStatus_def)

lemma prop_edge: "t \<in> set (getAllowedNextPropertyStatuses s) \<Longrightarrow> canTransitionPropertyStatus s t"
  by (simp add: canTransitionPropertyStatus_def)

text \<open>Every status can be left and brought back to \<open>DRAFT\<close>.\<close>

lemma prop_to_draft: "canTransitionPropertyStatus\<^sup>*\<^sup>* s DRAFT"
proof -
  have arch: "canTransitionPropertyStatus\<^sup>*\<^sup>* ARCHIVED DRAFT"
    by (rule prop_status.edge_history [of DRAFT]) simp_all
  have "canTransitionPropertyStatus\<^sup>*\<^sup>* SOLD DRAFT" "canTransitionPropertyStatus\<^sup>*\<^sup>* ACTIVE DRAFT"
    by (rule prop_status.edge_history [OF _ arch], simp)+
  then have "canTransitionPropertyStatus\<^sup>*\<^sup>* UNDER_CONTRACT DRAFT"
    by - (rule prop_status.edge_history [of SOLD], simp_all)
  moreover have "s \<noteq> UNDER_CONTRACT \<Longrightarrow> s \<noteq> ARCHIVED \<Longrightarrow>
      ARCHIVED \<in> set (getAllowedNextPropertyStatuses s)"
    by (cases s) simp_all
  ultimately show ?thesis
    using arch prop_status.edge_history [OF _ arch, of s] by metis
qed

lemma draft_to_any: "canTransitionPropertyStatus\<^sup>*\<^sup>* DRAFT s"
proof -
  have pend: "canTransitionPropertyStatus\<^sup>*\<^sup>* DRAFT PENDING"
    by (rule r_into_rtranclp) (simp add: prop_edge)
  then have act: "canTransitionPropertyStatus\<^sup>*\<^sup>* DRAFT ACTIVE"
    by (rule rtranclp.rtrancl_into_rtrancl) (simp add: prop_edge)
  then have uc: "canTransitionPropertyStatus\<^sup>*\<^sup>* DRAFT UNDER_CONTRACT"
    by (rule rtranclp.rtrancl_into_rtrancl) (simp add: prop_edge)
  from uc have "canTransitionPropertyStatus\<^sup>*\<^sup>* DRAFT SOLD"
    by (rule rtranclp.rtrancl_into_rtrancl) (simp add: prop_edge)
  moreover from act have "canTransitionPropertyStatus\<^sup>*\<^sup>* DRAFT RENTED"
    by (rule rtranclp.rtrancl_into_rtrancl) (simp add: prop_edge)
  moreover have "canTransitionPropertyStatus\<^sup>*\<^sup>* DRAFT ARCHIVED"
      "canTransitionPropertyStatus\<^sup>*\<^sup>* DRAFT EXPIRED"
    by (rule r_into_rtranclp, simp add: prop_edge)+
  ultimately show ?thesis using pend act uc by (cases s) simp_all
qed

subsection \<open>Property\<close>

text \<open>No property listing is ever stuck: from every status every other status can be reached by allowed
  transitions, although an offer under contract cannot be archived or withdrawn to draft directly.\<close>

theorem property_status_connected:
  "canTransitionPropertyStatus\<^sup>*\<^sup>* s t
   \<and> \<not> canTransitionPropertyStatus UNDER_CONTRACT ARCHIVED \<and> \<not> canTransitionPropertyStatus UNDER_CONTRACT DRAFT"
  using rtranclp_trans [OF prop_to_draft draft_to_any] by (simp add: canTransitionPropertyStatus_def)

end
