(* ===== verification/Doubles.thy ===== *)
theory Doubles
  imports Prelude Complex_Main
begin

text \<open>
  JavaScript numbers where the program computes with fractions: IEEE 754 binary64, as the rationals it
  can represent.  \<open>dbl\<close> rounds an exact result to the nearest double, ties to even, the way every
  arithmetic operator does; the exponent range is unbounded, so overflow to infinity and subnormal
  results are outside the model (the program's quantities stay between \<open>10 ^ -300\<close> and \<open>10 ^ 300\<close>).
\<close>

function bit_count :: "int \<Rightarrow> nat" where
  "bit_count n = (if n \<le> 0 then 0 else Suc (bit_count (n div 2)))"
  by pat_completeness auto
termination by (relation "measure nat") auto

declare bit_count.simps [simp del]

definition bin_exp :: "rat \<Rightarrow> int" where
  "bin_exp x =
     (let (n, d) = quotient_of x;
          k = int (bit_count n) - int (bit_count d)
      in if 2 powi k \<le> x then k else k - 1)"

definition round_half_even :: "rat \<Rightarrow> int" where
  "round_half_even x =
     (let f = \<lfloor>x\<rfloor>; r = x - of_int f in
      if r < 1 / 2 then f else if 1 / 2 < r then f + 1 else if even f then f else f + 1)"

definition dbl_pos :: "rat \<Rightarrow> rat" where
  "dbl_pos x = (let s = 52 - bin_exp x in of_int (round_half_even (x * 2 powi s)) * 2 powi (- s))"

definition dbl :: "rat \<Rightarrow> rat" where
  "dbl x = (if x = 0 then 0 else if x < 0 then - dbl_pos (- x) else dbl_pos x)"

text \<open>\<open>Math.round\<close>, \<open>Math.floor\<close> and \<open>Math.ceil\<close> on a double.\<close>

definition math_round :: "rat \<Rightarrow> int" where "math_round x = \<lfloor>x + 1 / 2\<rfloor>"

subsection \<open>The binary exponent\<close>

lemma halves: "P \<le> n div 2 \<Longrightarrow> n div 2 < 2 * P \<Longrightarrow> 2 * P \<le> n \<and> n < 2 * (2 * P :: int)"
  by presburger

lemma powi_add2: "(2::rat) powi i * 2 powi j = 2 powi (i + j)"
  by (simp add: power_int_add)

lemma bit_count_bounds: "0 < n \<Longrightarrow> 2 ^ (bit_count n - 1) \<le> n \<and> n < 2 ^ bit_count n \<and> 0 < bit_count n"
proof (induction n rule: bit_count.induct)
  case (1 n)
  show ?case
  proof (cases "n div 2 \<le> 0")
    case True
    then have "n = 1" using 1(2) by auto
    then show ?thesis by (simp add: bit_count.simps [of 1] bit_count.simps [of 0])
  next
    case False
    let ?b = "bit_count (n div 2)"
    have IH: "2 ^ (?b - 1) \<le> n div 2" "n div 2 < 2 ^ ?b" "0 < ?b"
      using 1(1) 1(2) False by auto
    have "2 ^ ?b = 2 * (2::int) ^ (?b - 1)" using IH(3) by (cases ?b) simp_all
    moreover have "bit_count n = Suc ?b" using 1(2) by (simp add: bit_count.simps [of n])
    ultimately show ?thesis using IH halves [of "2 ^ (?b - 1)" n] by simp
  qed
qed

lemma bit_count_rat:
  assumes "0 < n"
  shows "(2::rat) powi (int (bit_count n) - 1) \<le> of_int n" "of_int n < (2::rat) powi int (bit_count n)"
proof -
  let ?a = "bit_count n"
  have b: "2 ^ (?a - 1) \<le> n" "n < 2 ^ ?a" "0 < ?a"
    using bit_count_bounds [OF assms] by simp_all
  have "(of_int (2 ^ (?a - 1)) :: rat) \<le> of_int n" "(of_int n :: rat) < of_int (2 ^ ?a)"
    using b(1,2) by (simp_all only: of_int_le_iff of_int_less_iff)
  moreover have "(2::rat) powi int m = of_int (2 ^ m)" for m by simp
  moreover have "int ?a - 1 = int (?a - 1)" using b(3) by simp
  ultimately show "(2::rat) powi (int ?a - 1) \<le> of_int n" "of_int n < (2::rat) powi int ?a"
    by (simp_all only:)
qed

lemma bin_exp_bounds:
  assumes "0 < x"
  shows "2 powi (bin_exp x) \<le> x" and "x < 2 powi (bin_exp x + 1)"
proof -
  obtain n d where nd: "quotient_of x = (n, d)" by fastforce
  have d: "0 < d" using quotient_of_denom_pos [OF nd] .
  have x: "x = of_int n / of_int d" using quotient_of_div [OF nd] .
  have n: "0 < n" using assms x d by (simp add: zero_less_divide_iff)
  define a where "a = bit_count n"
  define b where "b = bit_count d"
  note na = bit_count_rat [OF n, folded a_def] and db = bit_count_rat [OF d, folded b_def]
  have dpos: "(0::rat) < of_int d" using d by simp
  define k where "k = int a - int b"
  have upper: "x < 2 powi (k + 1)"
  proof -
    have "of_int n < (2::rat) powi int a" by (rule na(2))
    also have "\<dots> = 2 powi (k + 1) * 2 powi (int b - 1)"
      by (simp only: powi_add2) (simp add: k_def)
    also have "\<dots> \<le> 2 powi (k + 1) * of_int d"
      by (intro mult_left_mono db(1)) simp
    finally show ?thesis using dpos by (simp add: x divide_less_eq)
  qed
  have lower: "2 powi (k - 1) \<le> x"
  proof -
    have "2 powi (k - 1) * of_int d \<le> 2 powi (k - 1) * (2::rat) powi int b"
      by (intro mult_left_mono less_imp_le [OF db(2)]) simp
    also have "\<dots> = 2 powi (int a - 1)" by (simp only: powi_add2) (simp add: k_def)
    also have "\<dots> \<le> of_int n" by (rule na(1))
    finally show ?thesis using dpos by (simp add: x le_divide_eq)
  qed
  have e: "bin_exp x = (if 2 powi k \<le> x then k else k - 1)"
    by (simp add: bin_exp_def nd Let_def a_def b_def k_def)
  show "2 powi (bin_exp x) \<le> x" using lower by (simp add: e)
  show "x < 2 powi (bin_exp x + 1)" using upper by (simp add: e)
qed

subsection \<open>Rounding\<close>

lemma round_half_even_near: "\<bar>of_int (round_half_even x) - x\<bar> \<le> 1 / 2"
proof -
  have "0 \<le> x - of_int \<lfloor>x\<rfloor>" "x - of_int \<lfloor>x\<rfloor> < 1" by linarith+
  then show ?thesis unfolding round_half_even_def Let_def by (simp add: abs_le_iff split: if_split)
qed

lemma round_half_even_of_int [simp]: "round_half_even (of_int n) = n"
  by (simp add: round_half_even_def)

lemma round_half_even_mono:
  assumes "x \<le> y"
  shows "round_half_even x \<le> round_half_even y"
proof (cases "\<lfloor>x\<rfloor> = \<lfloor>y\<rfloor>")
  case True
  then show ?thesis using assms by (auto simp: round_half_even_def Let_def)
next
  case False
  then have "\<lfloor>x\<rfloor> + 1 \<le> \<lfloor>y\<rfloor>" using floor_mono [OF assms] by linarith
  moreover have "round_half_even x \<le> \<lfloor>x\<rfloor> + 1" by (simp add: round_half_even_def Let_def)
  moreover have "\<lfloor>y\<rfloor> \<le> round_half_even y" by (simp add: round_half_even_def Let_def)
  ultimately show ?thesis by linarith
qed

text \<open>The significand of a positive number lies in \<open>[2 ^ 52, 2 ^ 53]\<close>.\<close>

definition significand :: "rat \<Rightarrow> rat" where
  "significand x = x * 2 powi (52 - bin_exp x)"

lemma dbl_pos_eq: "dbl_pos x = of_int (round_half_even (significand x)) * 2 powi (bin_exp x - 52)"
  by (simp add: dbl_pos_def Let_def significand_def)

lemma significand_back: "significand x * 2 powi (bin_exp x - 52) = x"
proof -
  have "x * (2 powi (52 - bin_exp x) * 2 powi (bin_exp x - 52)) = x"
    by (simp only: powi_add2) simp
  then show ?thesis by (simp add: significand_def mult.assoc)
qed

lemma significand_bounds:
  assumes "0 < x"
  shows "2 ^ 52 \<le> significand x" "significand x < 2 ^ 53"
proof -
  have p: "(0::rat) < 2 powi (52 - bin_exp x)" by simp
  have "2 powi bin_exp x * 2 powi (52 - bin_exp x) \<le> significand x"
    unfolding significand_def using bin_exp_bounds(1) [OF assms] p by (intro mult_right_mono) simp_all
  then show "2 ^ 52 \<le> significand x" unfolding powi_add2 by simp
  have "significand x < 2 powi (bin_exp x + 1) * 2 powi (52 - bin_exp x)"
    unfolding significand_def using bin_exp_bounds(2) [OF assms] p by (intro mult_strict_right_mono)
  then show "significand x < 2 ^ 53" unfolding powi_add2 by simp
qed

lemma rounded_significand:
  assumes "0 < x"
  shows "2 ^ 52 \<le> round_half_even (significand x)" "round_half_even (significand x) \<le> 2 ^ 53"
  using round_half_even_mono [of "of_int (2 ^ 52)" "significand x"] round_half_even_mono [of "significand x" "of_int (2 ^ 53)"]
    significand_bounds [OF assms]
  by (simp_all only: round_half_even_of_int) simp_all

lemma dbl_pos_error:
  assumes "0 < x"
  shows "\<bar>dbl_pos x - x\<bar> \<le> x / 2 ^ 53"
proof -
  let ?u = "2 powi (bin_exp x - 52) :: rat"
  have "dbl_pos x - x = (of_int (round_half_even (significand x)) - significand x) * ?u"
    using significand_back [of x] by (simp add: dbl_pos_eq left_diff_distrib)
  then have "\<bar>dbl_pos x - x\<bar> = \<bar>of_int (round_half_even (significand x)) - significand x\<bar> * ?u"
    by (simp add: abs_mult)
  also have "\<dots> \<le> 1 / 2 * ?u"
    using round_half_even_near by (intro mult_right_mono) simp_all
  also have "\<dots> \<le> (significand x / 2 ^ 53) * ?u"
    using significand_bounds(1) [OF assms] by (intro mult_right_mono) simp_all
  also have "\<dots> = x / 2 ^ 53" using significand_back [of x] by simp
  finally show ?thesis .
qed

lemma dbl_error: "\<bar>dbl x - x\<bar> \<le> \<bar>x\<bar> / 2 ^ 53"
proof (cases "x < 0")
  case True
  have "\<bar>- dbl_pos (- x) - x\<bar> = \<bar>dbl_pos (- x) - (- x)\<bar>" by linarith
  then show ?thesis using dbl_pos_error [of "- x"] True by (simp add: dbl_def)
qed (use dbl_pos_error [of x] in \<open>auto simp: dbl_def\<close>)

lemma dbl_pos_pos: "0 < x \<Longrightarrow> 0 < dbl_pos x"
  using rounded_significand(1) [of x] by (simp add: dbl_pos_eq)

lemma bin_exp_mono:
  assumes "0 < x" "x \<le> y"
  shows "bin_exp x \<le> bin_exp y"
proof (rule ccontr)
  assume "\<not> bin_exp x \<le> bin_exp y"
  then have "(2::rat) powi (bin_exp y + 1) \<le> 2 powi bin_exp x"
    by (intro power_int_increasing) simp_all
  then show False using bin_exp_bounds(2) [of y] bin_exp_bounds(1) [of x] assms by linarith
qed

lemma dbl_pos_mono:
  assumes "0 < x" "x \<le> y"
  shows "dbl_pos x \<le> dbl_pos y"
proof (cases "bin_exp x = bin_exp y")
  case True
  then have "significand x \<le> significand y"
    using assms by (simp add: significand_def)
  then have "round_half_even (significand x) \<le> round_half_even (significand y)" by (rule round_half_even_mono)
  then show ?thesis using True by (simp add: dbl_pos_eq)
next
  case False
  then have e: "bin_exp x + 1 \<le> bin_exp y" using bin_exp_mono [OF assms] by simp
  have "dbl_pos x \<le> of_int (2 ^ 53) * 2 powi (bin_exp x - 52)"
    unfolding dbl_pos_eq using rounded_significand(2) [OF assms(1)]
    by (intro mult_right_mono) (simp_all only: of_int_le_iff zero_le_power_int zero_le_numeral)
  also have "\<dots> = 2 powi (bin_exp x + 1)"
    using powi_add2 [of 53 "bin_exp x - 52"] by (simp add: add.commute)
  also have "\<dots> \<le> 2 powi (bin_exp y)" using e by (intro power_int_increasing) simp_all
  also have "\<dots> = of_int (2 ^ 52) * 2 powi (bin_exp y - 52)"
    using powi_add2 [of 52 "bin_exp y - 52"] by simp
  also have "\<dots> \<le> dbl_pos y"
    unfolding dbl_pos_eq using rounded_significand(1) [OF less_le_trans [OF assms]]
    by (intro mult_right_mono) (simp_all only: of_int_le_iff zero_le_power_int zero_le_numeral)
  finally show ?thesis .
qed

lemma dbl_mono:
  assumes "x \<le> y"
  shows "dbl x \<le> dbl y"
proof -
  consider "0 < x" | "x = 0" | "x < 0" "0 \<le> y" | "y < 0" using assms by linarith
  then show ?thesis
  proof cases
    case 1
    then show ?thesis using dbl_pos_mono [of x y] assms by (simp add: dbl_def)
  next
    case 2
    then show ?thesis using dbl_pos_pos [of y] assms by (auto simp: dbl_def intro: less_imp_le)
  next
    case 3
    then show ?thesis using dbl_pos_pos [of y] dbl_pos_pos [of "- x"] by (auto simp: dbl_def)
  next
    case 4
    then show ?thesis using dbl_pos_mono [of "- y" "- x"] assms by (auto simp: dbl_def)
  qed
qed

lemma dbl_0 [simp]: "dbl 0 = 0"
  by (simp add: dbl_def)

lemma dbl_nonneg: "0 \<le> x \<Longrightarrow> 0 \<le> dbl x"
  using dbl_mono [of 0 x] by simp

text \<open>Numbers with a 53-bit significand are exact.\<close>

lemma dbl_exact_pos:
  assumes "0 < m" "m \<le> 2 ^ 53"
  shows "dbl_pos (of_int m) = of_int m"
proof (cases "m = 2 ^ 53")
  case True
  have x: "(of_int m :: rat) = 2 powi 53" by (simp add: True)
  have "bin_exp (of_int m) = 53"
  proof -
    have "(2::rat) powi 53 \<le> of_int m" "(of_int m :: rat) < 2 powi 54" by (simp_all add: x)
    moreover note bin_exp_bounds [of "of_int m"]
    ultimately have "(2::rat) powi 53 < 2 powi (bin_exp (of_int m) + 1)" "(2::rat) powi bin_exp (of_int m) < 2 powi 54"
      using assms(1) by auto
    then have "\<not> bin_exp (of_int m) + 1 \<le> 53" "\<not> 54 \<le> bin_exp (of_int m)"
      using power_int_increasing [of "bin_exp (of_int m) + 1" 53 "2::rat"] power_int_increasing [of 54 "bin_exp (of_int m)" "2::rat"]
      by linarith+
    then show ?thesis by linarith
  qed
  then have "significand (of_int m) = of_int (2 ^ 52)"
    by (simp add: significand_def True power_int_minus)
  then have "of_int (round_half_even (significand (of_int m))) = significand (of_int m)" by (metis round_half_even_of_int)
  then show ?thesis using significand_back [of "of_int m"] by (simp add: dbl_pos_eq)
next
  case False
  have "bin_exp (of_int m) \<le> 52"
  proof (rule ccontr)
    assume "\<not> bin_exp (of_int m) \<le> 52"
    then have "(2::rat) powi 53 \<le> 2 powi bin_exp (of_int m)" by (intro power_int_increasing) simp_all
    also have "\<dots> \<le> of_int m" using bin_exp_bounds(1) assms(1) by simp
    finally have "(of_int (2 ^ 53) :: rat) \<le> of_int m" by simp
    then show False using assms(2) False by (simp only: of_int_le_iff)
  qed
  then have "significand (of_int m) = of_int (m * 2 ^ nat (52 - bin_exp (of_int m)))"
    by (simp add: significand_def power_int_def)
  then have "of_int (round_half_even (significand (of_int m))) = significand (of_int m)" by (metis round_half_even_of_int)
  then show ?thesis using significand_back [of "of_int m"] by (simp add: dbl_pos_eq)
qed

lemma dbl_of_int:
  assumes "\<bar>m\<bar> \<le> 2 ^ 53"
  shows "dbl (of_int m) = of_int m"
  using dbl_exact_pos [of m] dbl_exact_pos [of "- m"] assms by (auto simp: dbl_def)

lemma dbl_of_nat: "n \<le> 2 ^ 53 \<Longrightarrow> dbl (of_nat n) = of_nat n"
  using dbl_of_int [of "int n"] by (simp flip: of_nat_le_iff)

lemma bin_exp_unique:
  assumes "2 powi k \<le> x" "x < 2 powi (k + 1)"
  shows "bin_exp x = k"
proof -
  have "(0::rat) < 2 powi k" by simp
  then have x: "0 < x" using assms(1) by linarith
  note b = bin_exp_bounds [OF x]
  have "(2::rat) powi k < 2 powi (bin_exp x + 1)" "(2::rat) powi bin_exp x < 2 powi (k + 1)"
    using assms b by linarith+
  then have "\<not> bin_exp x + 1 \<le> k" "\<not> k + 1 \<le> bin_exp x"
    using power_int_increasing [of "bin_exp x + 1" k "2::rat"] power_int_increasing [of "k + 1" "bin_exp x" "2::rat"]
    by fastforce+
  then show ?thesis by linarith
qed

lemma dbl_pos_half:
  assumes "0 < x"
  shows "dbl_pos (x / 2) = dbl_pos x / 2"
proof -
  have two: "y / 2 = y * 2 powi (- 1)" for y :: rat by simp
  have "bin_exp (x / 2) = bin_exp x - 1"
  proof (rule bin_exp_unique)
    have "2 powi bin_exp x * 2 powi (- 1) \<le> x / 2"
      unfolding two using bin_exp_bounds(1) [OF assms] by (intro mult_right_mono) simp_all
    then show "2 powi (bin_exp x - 1) \<le> x / 2" unfolding powi_add2 by simp
    have "x / 2 < 2 powi (bin_exp x + 1) * 2 powi (- 1)"
      unfolding two using bin_exp_bounds(2) [OF assms] by (intro mult_strict_right_mono) simp_all
    then show "x / 2 < 2 powi (bin_exp x - 1 + 1)" unfolding powi_add2 by simp
  qed
  moreover have "significand (x / 2) = significand x" if "bin_exp (x / 2) = bin_exp x - 1"
  proof -
    have "(2::rat) powi (52 - (bin_exp x - 1)) = 2 powi 1 * 2 powi (52 - bin_exp x)"
      unfolding powi_add2 by (simp add: algebra_simps)
    then show ?thesis by (simp add: significand_def that)
  qed
  moreover have "(2::rat) powi (bin_exp x - 1 - 52) = 2 powi (bin_exp x - 52) * 2 powi (- 1)"
    unfolding powi_add2 by (simp add: algebra_simps)
  ultimately show ?thesis by (simp add: dbl_pos_eq)
qed

lemma dbl_half: "dbl (x / 2) = dbl x / 2"
  using dbl_pos_half [of x] dbl_pos_half [of "- x"] by (auto simp: dbl_def)

lemma dbl_half_int: "\<bar>m\<bar> \<le> 2 ^ 53 \<Longrightarrow> dbl (of_int m / 2) = of_int m / 2"
  by (simp add: dbl_half dbl_of_int)

lemma dbl_one [simp]: "dbl 1 = 1"
  using dbl_of_int [of 1] by simp

lemma dbl_one_half [simp]: "dbl (1 / 2) = 1 / 2"
  using dbl_half_int [of 1] by simp

lemma dbl_numeral [simp]: "numeral n \<le> (2 ^ 53 :: int) \<Longrightarrow> dbl (numeral n) = numeral n"
  using dbl_of_int [of "numeral n"] by simp

lemma math_round_mono: "x \<le> y \<Longrightarrow> math_round x \<le> math_round y"
  by (simp add: math_round_def floor_mono)

lemma math_round_of_int [simp]: "math_round (of_int n) = n"
proof -
  have "\<lfloor>(of_int n :: rat) + 1 / 2\<rfloor> = n + \<lfloor>(1 / 2 :: rat)\<rfloor>" by (metis add.commute floor_add_int)
  moreover have "\<lfloor>(1 / 2 :: rat)\<rfloor> = 0" by (simp add: floor_eq_iff)
  ultimately show ?thesis by (simp add: math_round_def)
qed

end
