(* ===== verification/Retry.thy ===== *)
theory Retry
  imports Doubles
begin

text \<open>
  The retry helpers: \<open>src/auth/retry.util.ts\<close>, \<open>src/users/retry.util.ts\<close> and
  \<open>src/properties/retry.util.ts\<close> (the same \<open>retryWithBackoff\<close>), the listing read path
  \<open>src/properties/listing-retry.util.ts\<close> and the unjittered \<open>src/investments/retry.util.ts\<close>.

  The retried function is the list of its results, \<open>call i\<close> being what its \<open>i\<close>-th invocation
  does (\<open>Inl\<close> for a rejected promise).  A run returns what the helper's promise settles to
  (\<open>Inl None\<close> would be \<open>throw undefined\<close>), the number of invocations and the delays slept between
  them.  \<open>random()\<close> is a number in \<open>[0, 1)\<close>; the jitter is computed in doubles (theory \<open>Doubles\<close>), and
  delays are integers of magnitude at most \<open>2 ^ 53\<close>.
\<close>

type_synonym ('e, 'a) retry_result = "('e option + 'a) \<times> nat \<times> int list"

definition valid_random :: "(nat \<Rightarrow> rat) \<Rightarrow> bool" where
  "valid_random rand \<longleftrightarrow> (\<forall>i. 0 \<le> rand i \<and> rand i < 1)"

subsection \<open>Delays\<close>

definition backoffDelayMs :: "nat \<Rightarrow> int \<Rightarrow> int \<Rightarrow> rat \<Rightarrow> int" where
  "backoffDelayMs retry baseDelayMs maxDelayMs random =
     (let exponential = min maxDelayMs (baseDelayMs * 2 ^ (retry - 1))
      in math_round (dbl (of_int exponential * dbl (1 / 2 + dbl (random * (1 / 2))))))"

definition listingBackoffDelayMs :: "nat \<Rightarrow> int \<Rightarrow> int \<Rightarrow> rat \<Rightarrow> int" where
  "listingBackoffDelayMs retry baseDelayMs maxDelayMs random =
     (let exponential = min maxDelayMs (baseDelayMs * 2 ^ (retry - 1))
      in math_round (dbl (of_int exponential * dbl (1 / 2 + dbl (random * (1 / 2))))))"

lemma listing_delay_eq: "listingBackoffDelayMs = backoffDelayMs"
  by (intro ext) (simp add: listingBackoffDelayMs_def backoffDelayMs_def)

lemma jitter_factor:
  assumes "0 \<le> random" and "random < 1"
  shows "1 / 2 \<le> dbl (1 / 2 + dbl (random * (1 / 2)))" "dbl (1 / 2 + dbl (random * (1 / 2))) \<le> 1"
proof -
  have "0 \<le> dbl (random * (1 / 2))" "dbl (random * (1 / 2)) \<le> dbl (1 / 2)"
    using dbl_mono [of "random * (1 / 2)" "1 / 2"] dbl_nonneg [of "random * (1 / 2)"] assms by simp_all
  then have "1 / 2 \<le> 1 / 2 + dbl (random * (1 / 2))" "1 / 2 + dbl (random * (1 / 2)) \<le> 1"
    by simp_all
  from this [THEN dbl_mono] show "1 / 2 \<le> dbl (1 / 2 + dbl (random * (1 / 2)))"
      "dbl (1 / 2 + dbl (random * (1 / 2))) \<le> 1"
    by simp_all
qed

lemma math_round_half: "e \<le> 2 * math_round (of_int e / 2)"
proof -
  have "(of_int e :: rat) / 2 + 1 / 2 < of_int (math_round (of_int e / 2)) + 1"
    unfolding math_round_def by linarith
  then have "(of_int e :: rat) < of_int (2 * math_round (of_int e / 2) + 1)" by simp
  then show ?thesis by linarith
qed

lemma backoff_bounds:
  assumes "0 \<le> random" and "random < 1" and "0 \<le> baseDelayMs" and "0 \<le> maxDelayMs" and "maxDelayMs \<le> 2 ^ 53"
  shows "min maxDelayMs (baseDelayMs * 2 ^ (retry - 1)) \<le> 2 * backoffDelayMs retry baseDelayMs maxDelayMs random"
    and "backoffDelayMs retry baseDelayMs maxDelayMs random \<le> min maxDelayMs (baseDelayMs * 2 ^ (retry - 1))"
proof -
  define e where "e = min maxDelayMs (baseDelayMs * 2 ^ (retry - 1))"
  have e: "0 \<le> e" "e \<le> 2 ^ 53" using assms by (auto simp: e_def min_def)
  let ?f = "dbl (1 / 2 + dbl (random * (1 / 2)))"
  note f = jitter_factor [OF assms(1,2)]
  have "of_int e * ?f \<le> of_int e * 1"
    by (rule mult_left_mono) (use f e(1) in simp_all)
  then have "dbl (of_int e * ?f) \<le> of_int e"
    using dbl_mono [of "of_int e * ?f" "of_int e"] dbl_of_int [of e] e by simp
  then have "math_round (dbl (of_int e * ?f)) \<le> e"
    using math_round_mono by fastforce
  then show "backoffDelayMs retry baseDelayMs maxDelayMs random \<le> min maxDelayMs (baseDelayMs * 2 ^ (retry - 1))"
    by (simp add: backoffDelayMs_def Let_def e_def)
  have "of_int e * (1 / 2) \<le> of_int e * ?f"
    by (rule mult_left_mono) (use f e(1) in simp_all)
  then have "of_int e / 2 \<le> dbl (of_int e * ?f)"
    using dbl_mono [of "of_int e / 2" "of_int e * ?f"] dbl_half_int [of e] e by simp
  then have "math_round (of_int e / 2) \<le> math_round (dbl (of_int e * ?f))" by (rule math_round_mono)
  then have "e \<le> 2 * math_round (dbl (of_int e * ?f))" using math_round_half [of e] by linarith
  then show "min maxDelayMs (baseDelayMs * 2 ^ (retry - 1)) \<le> 2 * backoffDelayMs retry baseDelayMs maxDelayMs random"
    by (simp add: backoffDelayMs_def Let_def e_def)
qed

lemma backoff_le_cap:
  assumes "0 \<le> random" and "random < 1" and "maxDelayMs \<le> 2 ^ 53"
  shows "backoffDelayMs retry baseDelayMs maxDelayMs random \<le> max 0 maxDelayMs"
proof -
  define e where "e = min maxDelayMs (baseDelayMs * 2 ^ (retry - 1))"
  have e: "e \<le> 2 ^ 53" using assms(3) by (simp add: e_def min_def)
  let ?f = "dbl (1 / 2 + dbl (random * (1 / 2)))"
  note f = jitter_factor [OF assms(1,2)]
  have "of_int e * ?f \<le> of_int (max 0 e) * 1"
  proof (cases "0 \<le> e")
    case True
    then show ?thesis using f by (intro mult_mono) simp_all
  next
    case False
    then have "of_int e * ?f \<le> (0 :: rat)" using f by (intro mult_nonpos_nonneg) simp_all
    then show ?thesis using False by simp
  qed
  then have "dbl (of_int e * ?f) \<le> of_int (max 0 e)"
    using dbl_mono [of "of_int e * ?f" "of_int (max 0 e)"] dbl_of_int [of "max 0 e"] e
    by (simp only: mult_1_right) (simp add: max_def split: if_splits)
  then have "math_round (dbl (of_int e * ?f)) \<le> max 0 e"
    using math_round_mono by fastforce
  also have "\<dots> \<le> max 0 maxDelayMs" by (simp add: e_def)
  finally show ?thesis by (simp add: backoffDelayMs_def Let_def e_def)
qed

subsection \<open>The loops\<close>

text \<open>\<open>for (attempt = 1; attempt <= Math.max(1, attempts); attempt++)\<close>.\<close>

function retry_loop ::
  "(nat \<Rightarrow> 'e + 'a) \<Rightarrow> ('e \<Rightarrow> bool) \<Rightarrow> (nat \<Rightarrow> int) \<Rightarrow> int \<Rightarrow> nat \<Rightarrow> 'e option \<Rightarrow> ('e, 'a) retry_result" where
  "retry_loop call isRetryable delay attempts attempt lastError =
     (if int attempt \<le> max 1 attempts then
        (case call attempt of
           Inr v \<Rightarrow> (Inr v, attempt, [])
         | Inl e \<Rightarrow>
             if attempts \<le> int attempt \<or> \<not> isRetryable e then (Inl (Some e), attempt, [])
             else let (r, n, ds) = retry_loop call isRetryable delay attempts (Suc attempt) (Some e)
                  in (r, n, delay attempt # ds))
      else (Inl lastError, attempt - 1, []))"
  by pat_completeness auto
termination
  by (relation "measure (\<lambda>(c, q, d, attempts, attempt, l). nat (max 1 attempts + 1 - int attempt))") auto

declare retry_loop.simps [simp del]

definition retryWithBackoff ::
  "int \<Rightarrow> int \<Rightarrow> int \<Rightarrow> ('e \<Rightarrow> bool) \<Rightarrow> (nat \<Rightarrow> rat) \<Rightarrow> (nat \<Rightarrow> 'e + 'a) \<Rightarrow> ('e, 'a) retry_result" where
  "retryWithBackoff attempts baseDelayMs maxDelayMs isRetryable random call =
     retry_loop call isRetryable (\<lambda>k. backoffDelayMs k baseDelayMs maxDelayMs (random k)) attempts 1 None"

text \<open>The error object of the listing path, as far as \<open>isTransientListingReadError\<close> looks at it:
  absent fields are \<open>None\<close>.\<close>

record js_error =
  err_code :: "string option"
  err_name :: "string option"
  err_message :: "string option"

definition TRANSIENT_PRISMA_CODES :: "string list" where
  "TRANSIENT_PRISMA_CODES = [''P1001'', ''P1002'', ''P1008'', ''P1017'']"

definition TRANSIENT_NETWORK :: "string list" where
  "TRANSIENT_NETWORK = [''ECONNRESET'', ''ECONNREFUSED'', ''EPIPE'', ''ETIMEDOUT'', ''EAI_AGAIN'',
     ''ENOTFOUND'', ''socket hang up'', ''Client has encountered a connection error'',
     ''connection pool timeout'', ''Timeout expired'']"

text \<open>A case-insensitive alternation of literals, matched anywhere.\<close>

definition matches_any_ci :: "string list \<Rightarrow> string \<Rightarrow> bool" where
  "matches_any_ci alts s = list_ex (\<lambda>a. js_includes (js_lower a) (js_lower s)) alts"

definition isTransientListingReadError :: "js_error option \<Rightarrow> bool" where
  "isTransientListingReadError error =
     (case error of None \<Rightarrow> False
      | Some err \<Rightarrow>
          if (case err_code err of Some c \<Rightarrow> List.member TRANSIENT_PRISMA_CODES c | None \<Rightarrow> False) then True
          else if err_name err = Some ''PrismaClientKnownRequestError'' then False
          else matches_any_ci TRANSIENT_NETWORK (case err_message err of None \<Rightarrow> '''' | Some m \<Rightarrow> m))"

definition retryListingQuery ::
  "int \<Rightarrow> int \<Rightarrow> int \<Rightarrow> (nat \<Rightarrow> rat) \<Rightarrow> (nat \<Rightarrow> js_error option + 'a) \<Rightarrow> (js_error option, 'a) retry_result" where
  "retryListingQuery attempts baseDelayMs maxDelayMs random call =
     retry_loop call isTransientListingReadError
       (\<lambda>k. listingBackoffDelayMs k baseDelayMs maxDelayMs (random k)) attempts 1 None"

text \<open>\<open>for (attempt = 0; attempt <= retries; attempt++)\<close>; \<open>call\<close> is still indexed by the number
  of the invocation.\<close>

function investments_loop ::
  "(nat \<Rightarrow> 'e + 'a) \<Rightarrow> int \<Rightarrow> int \<Rightarrow> nat \<Rightarrow> 'e option \<Rightarrow> ('e, 'a) retry_result" where
  "investments_loop call retries baseDelayMs attempt lastError =
     (if int attempt \<le> retries then
        (case call (Suc attempt) of
           Inr v \<Rightarrow> (Inr v, Suc attempt, [])
         | Inl e \<Rightarrow>
             if int attempt = retries then (Inl (Some e), Suc attempt, [])
             else let (r, n, ds) = investments_loop call retries baseDelayMs (Suc attempt) (Some e)
                  in (r, n, baseDelayMs * 2 ^ attempt # ds))
      else (Inl lastError, attempt, []))"
  by pat_completeness auto
termination
  by (relation "measure (\<lambda>(c, retries, b, attempt, l). nat (retries + 1 - int attempt))") auto

declare investments_loop.simps [simp del]

definition retryWithBackoff_investments ::
  "int \<Rightarrow> int \<Rightarrow> (nat \<Rightarrow> 'e + 'a) \<Rightarrow> ('e, 'a) retry_result" where
  "retryWithBackoff_investments retries baseDelayMs call = investments_loop call retries baseDelayMs 0 None"

lemma sum_list_le_mult: "(\<And>d. d \<in> set ds \<Longrightarrow> d \<le> c) \<Longrightarrow> sum_list ds \<le> int (length ds) * (c :: int)"
proof (induction ds)
  case (Cons d ds)
  then have "d \<le> c" "sum_list ds \<le> int (length ds) * c" by simp_all
  then show ?case by (simp add: algebra_simps)
qed simp

subsection \<open>The contract of a retry helper\<close>

text \<open>\<open>budget\<close> bounds the invocations, \<open>cap\<close> a single delay (where \<open>jitter_ok\<close>, that the
  random source is in range).\<close>

locale bounded_retry =
  fixes run :: "(nat \<Rightarrow> 'e + 'a) \<Rightarrow> ('e, 'a) retry_result"
    and budget :: nat
    and retryable :: "'e \<Rightarrow> bool"
    and cap :: int
    and jitter_ok :: bool
  assumes runs: "run call = (r, n, ds) \<Longrightarrow> 1 \<le> n \<and> n \<le> budget \<and> length ds = n - 1"
    and before: "run call = (r, n, ds) \<Longrightarrow> 1 \<le> i \<Longrightarrow> i < n \<Longrightarrow> \<exists>e. call i = Inl e \<and> retryable e"
    and settles: "run call = (r, n, ds) \<Longrightarrow>
      (case call n of Inr v \<Rightarrow> r = Inr v | Inl e \<Rightarrow> r = Inl (Some e) \<and> (n = budget \<or> \<not> retryable e))"
    and delays: "run call = (r, n, ds) \<Longrightarrow> jitter_ok \<Longrightarrow> d \<in> set ds \<Longrightarrow> d \<le> cap"
begin

text \<open>The first invocation that is not a retryable failure ends the run.\<close>

lemma stops_at:
  assumes "\<And>i. 1 \<le> i \<Longrightarrow> i < k \<Longrightarrow> \<exists>e. call i = Inl e \<and> retryable e"
    and "1 \<le> k" and "k \<le> budget"
    and "\<And>e. call k = Inl e \<Longrightarrow> k = budget \<or> \<not> retryable e"
  shows "\<exists>ds. run call = (case call k of Inr v \<Rightarrow> Inr v | Inl e \<Rightarrow> Inl (Some e), k, ds)"
proof -
  obtain r n ds where run: "run call = (r, n, ds)" by (cases "run call")
  note facts = runs [OF run] settles [OF run]
  have "n = k"
  proof (rule linorder_cases [of n k])
    assume "n < k"
    then obtain e where "call n = Inl e" "retryable e" using assms(1) facts(1) by blast
    with facts(2) \<open>n < k\<close> assms(3) show ?thesis by auto
  next
    assume "k < n"
    then obtain e where "call k = Inl e" "retryable e" using before [OF run] assms(2) by blast
    with assms(4) \<open>k < n\<close> facts(1) show ?thesis by auto
  qed simp
  then show ?thesis
    using run facts(2) by (cases "call k") auto
qed

lemma result_is_last_call:
  assumes "run call = (r, n, ds)"
  shows "r = (case call n of Inr v \<Rightarrow> Inr v | Inl e \<Rightarrow> Inl (Some e))"
  using settles [OF assms] by (cases "call n") auto

lemma never_undefined: "fst (run call) \<noteq> Inl None"
  by (cases "run call") (auto dest!: result_is_last_call split: sum.splits)

lemma total_delay:
  assumes "run call = (r, n, ds)" and "jitter_ok" and "0 \<le> cap"
  shows "sum_list ds \<le> int (budget - 1) * cap"
proof -
  have "sum_list ds \<le> int (length ds) * cap"
    using delays [OF assms(1,2)] by (rule sum_list_le_mult)
  also have "\<dots> \<le> int (budget - 1) * cap"
    using runs [OF assms(1)] assms(3) by (intro mult_right_mono) auto
  finally show ?thesis .
qed

end

subsection \<open>The loops keep it\<close>

definition run_spec ::
  "(nat \<Rightarrow> 'e + 'a) \<Rightarrow> ('e \<Rightarrow> bool) \<Rightarrow> (nat \<Rightarrow> int) \<Rightarrow> nat \<Rightarrow> nat \<Rightarrow> ('e, 'a) retry_result \<Rightarrow> bool" where
  "run_spec call q delay first budget res = (case res of (r, n, ds) \<Rightarrow>
     first \<le> n \<and> n \<le> budget \<and> ds = map delay [first..<n] \<and>
     (\<forall>i. first \<le> i \<and> i < n \<longrightarrow> (\<exists>e. call i = Inl e \<and> q e)) \<and>
     (case call n of Inr v \<Rightarrow> r = Inr v | Inl e \<Rightarrow> r = Inl (Some e) \<and> (n = budget \<or> \<not> q e)))"

lemma run_spec_here:
  "call k = Inr v \<Longrightarrow> k \<le> budget \<Longrightarrow> run_spec call q delay k budget (Inr v, k, [])"
  "call k = Inl e \<Longrightarrow> k \<le> budget \<Longrightarrow> k = budget \<or> \<not> q e \<Longrightarrow> run_spec call q delay k budget (Inl (Some e), k, [])"
  by (auto simp: run_spec_def)

lemma run_spec_later:
  assumes "run_spec call q delay (Suc k) budget (r, n, ds)" and "call k = Inl e" and "q e"
  shows "run_spec call q delay k budget (r, n, delay k # ds)"
proof -
  have "k < n" using assms(1) by (simp add: run_spec_def)
  then have "delay k # map delay [Suc k..<n] = map delay [k..<n]"
    by (simp add: upt_conv_Cons)
  moreover have "\<exists>e. call i = Inl e \<and> q e" if "k \<le> i" "i < n" for i
    using assms that by (cases "i = k") (auto simp: run_spec_def)
  ultimately show ?thesis
    using assms(1) by (auto simp: run_spec_def)
qed

lemma retry_loop_spec:
  assumes "int attempt \<le> max 1 attempts" and "1 \<le> attempt"
  shows "run_spec call q delay attempt (nat (max 1 attempts))
    (retry_loop call q delay attempts attempt l)"
  using assms
proof (induction call q delay attempts attempt l rule: retry_loop.induct)
  case (1 call q delay attempts attempt l)
  note unfold = retry_loop.simps [of call q delay attempts attempt l]
  show ?case
  proof (cases "call attempt")
    case (Inr v)
    with "1.prems" show ?thesis by (auto simp: unfold intro: run_spec_here)
  next
    case (Inl e)
    show ?thesis
    proof (cases "attempts \<le> int attempt \<or> \<not> q e")
      case True
      then have "attempt = nat (max 1 attempts) \<or> \<not> q e"
        using "1.prems" by linarith
      with Inl "1.prems" True show ?thesis by (auto simp: unfold intro!: run_spec_here)
    next
      case False
      obtain r n ds where rest: "retry_loop call q delay attempts (Suc attempt) (Some e) = (r, n, ds)"
        by (cases "retry_loop call q delay attempts (Suc attempt) (Some e)")
      have "run_spec call q delay (Suc attempt) (nat (max 1 attempts)) (r, n, ds)"
        using "1.IH" [OF "1.prems"(1) Inl False] False rest by simp
      then have "run_spec call q delay attempt (nat (max 1 attempts)) (r, n, delay attempt # ds)"
        using False Inl run_spec_later by fast
      then show ?thesis using False Inl rest "1.prems" by (simp add: unfold)
    qed
  qed
qed

lemma investments_loop_spec:
  assumes "attempt \<le> retries"
  shows "run_spec call (\<lambda>_. True) (\<lambda>k. b * 2 ^ (k - 1)) (Suc attempt) (Suc retries)
    (investments_loop call (int retries) b attempt l)"
  using assms
proof (induction call "int retries" b attempt l rule: investments_loop.induct)
  case (1 call b attempt l)
  note unfold = investments_loop.simps [of call "int retries" b attempt l]
  show ?case
  proof (cases "call (Suc attempt)")
    case (Inr v)
    with 1 show ?thesis by (auto simp: unfold intro: run_spec_here)
  next
    case (Inl e)
    show ?thesis
    proof (cases "attempt = retries")
      case True
      have "run_spec call (\<lambda>_. True) (\<lambda>k. b * 2 ^ (k - 1)) (Suc attempt) (Suc retries)
          (Inl (Some e), Suc attempt, [])"
        using Inl True by (intro run_spec_here) simp_all
      moreover have "investments_loop call (int retries) b attempt l = (Inl (Some e), Suc attempt, [])"
        using Inl True by (subst unfold) simp
      ultimately show ?thesis by simp
    next
      case False
      obtain r n ds where rest: "investments_loop call (int retries) b (Suc attempt) (Some e) = (r, n, ds)"
        by (cases "investments_loop call (int retries) b (Suc attempt) (Some e)")
      have "run_spec call (\<lambda>_. True) (\<lambda>k. b * 2 ^ (k - 1)) (Suc (Suc attempt)) (Suc retries) (r, n, ds)"
        using "1.hyps" Inl False rest "1.prems" by simp
      from run_spec_later [OF this Inl] have
        "run_spec call (\<lambda>_. True) (\<lambda>k. b * 2 ^ (k - 1)) (Suc attempt) (Suc retries)
          (r, n, b * 2 ^ attempt # ds)"
        by simp
      moreover have "investments_loop call (int retries) b attempt l = (r, n, b * 2 ^ attempt # ds)"
        using False Inl rest "1.prems" by (subst unfold) simp
      ultimately show ?thesis by simp
    qed
  qed
qed

interpretation auth_retry: bounded_retry
  "retryWithBackoff attempts baseDelayMs maxDelayMs isRetryable random" "nat (max 1 attempts)"
  isRetryable "max 0 maxDelayMs" "valid_random random \<and> maxDelayMs \<le> 2 ^ 53"
  for attempts baseDelayMs maxDelayMs isRetryable random
proof
  fix call :: "nat \<Rightarrow> 'a + 'b" and r n ds i d
  assume "retryWithBackoff attempts baseDelayMs maxDelayMs isRetryable random call = (r, n, ds)"
  then have spec: "run_spec call isRetryable (\<lambda>k. backoffDelayMs k baseDelayMs maxDelayMs (random k)) 1
      (nat (max 1 attempts)) (r, n, ds)"
    using retry_loop_spec [of 1 attempts] by (metis max.cobounded1 of_nat_1 order_refl retryWithBackoff_def)
  show "1 \<le> n \<and> n \<le> nat (max 1 attempts) \<and> length ds = n - 1"
    using spec by (simp add: run_spec_def)
  show "1 \<le> i \<Longrightarrow> i < n \<Longrightarrow> \<exists>e. call i = Inl e \<and> isRetryable e"
    using spec by (simp add: run_spec_def)
  show "case call n of Inr v \<Rightarrow> r = Inr v
      | Inl e \<Rightarrow> r = Inl (Some e) \<and> (n = nat (max 1 attempts) \<or> \<not> isRetryable e)"
    using spec by (simp add: run_spec_def)
  show "valid_random random \<and> maxDelayMs \<le> 2 ^ 53 \<Longrightarrow> d \<in> set ds \<Longrightarrow> d \<le> max 0 maxDelayMs"
    using spec by (auto simp: run_spec_def valid_random_def intro: backoff_le_cap)
qed

lemma retryListingQuery_eq:
  "retryListingQuery attempts b m random =
   retryWithBackoff attempts b m isTransientListingReadError random"
  by (intro ext) (simp add: retryListingQuery_def retryWithBackoff_def listing_delay_eq)

interpretation listing_retry: bounded_retry
  "retryListingQuery attempts baseDelayMs maxDelayMs random" "nat (max 1 attempts)"
  isTransientListingReadError "max 0 maxDelayMs" "valid_random random \<and> maxDelayMs \<le> 2 ^ 53"
  for attempts baseDelayMs maxDelayMs random
  unfolding retryListingQuery_eq by (rule auth_retry.bounded_retry_axioms)

interpretation investments_retry: bounded_retry
  "retryWithBackoff_investments (int retries) baseDelayMs" "Suc retries" "\<lambda>_. True"
  "max 0 baseDelayMs * 2 ^ retries" True
  for retries baseDelayMs
proof
  fix call :: "nat \<Rightarrow> 'a + 'b" and r n ds i d
  assume "retryWithBackoff_investments (int retries) baseDelayMs call = (r, n, ds)"
  then have spec: "run_spec call (\<lambda>_. True) (\<lambda>k. baseDelayMs * 2 ^ (k - 1)) 1 (Suc retries) (r, n, ds)"
    using investments_loop_spec [of 0 retries] by (metis One_nat_def le0 retryWithBackoff_investments_def)
  show "1 \<le> n \<and> n \<le> Suc retries \<and> length ds = n - 1"
    using spec by (simp add: run_spec_def)
  show "1 \<le> i \<Longrightarrow> i < n \<Longrightarrow> \<exists>e. call i = Inl e \<and> True"
    using spec by (simp add: run_spec_def)
  show "case call n of Inr v \<Rightarrow> r = Inr v
      | Inl e \<Rightarrow> r = Inl (Some e) \<and> (n = Suc retries \<or> \<not> True)"
    using spec by (simp add: run_spec_def)
  assume "d \<in> set ds"
  moreover have "ds = map (\<lambda>k. baseDelayMs * 2 ^ (k - 1)) [1..<n]" and n: "n \<le> Suc retries"
    using spec by (simp_all add: run_spec_def)
  ultimately obtain k where "k \<in> set [1..<n]" and d: "d = baseDelayMs * 2 ^ (k - 1)"
    by auto
  then have k: "k - 1 \<le> retries" using n by auto
  have "d \<le> max 0 baseDelayMs * 2 ^ (k - 1)" by (simp add: d)
  also have "\<dots> \<le> max 0 baseDelayMs * 2 ^ retries"
    using k by (intro mult_left_mono power_increasing) simp_all
  finally show "d \<le> max 0 baseDelayMs * 2 ^ retries" .
qed

subsection \<open>Properties\<close>

text \<open>\<open>retryWithBackoff\<close> returns the result of the first call that succeeds or fails with an error that is
  not retryable, or of the last one its attempts allow, and makes no call after it.\<close>

theorem retry_stops_at_first_final_call:
  assumes "\<And>i. 1 \<le> i \<Longrightarrow> i < k \<Longrightarrow> \<exists>e. call i = Inl e \<and> isRetryable e"
    and "1 \<le> k" and "k \<le> nat (max 1 attempts)"
    and "\<And>e. call k = Inl e \<Longrightarrow> k = nat (max 1 attempts) \<or> \<not> isRetryable e"
  shows "\<exists>ds. retryWithBackoff attempts baseDelayMs maxDelayMs isRetryable random call =
    (case call k of Inr v \<Rightarrow> Inr v | Inl e \<Rightarrow> Inl (Some e), k, ds)"
  by (rule auth_retry.stops_at [OF assms])

theorem retry_stops_at_first_final_call_witness:
  "\<exists>ds. retryWithBackoff 3 100 1000 (\<lambda>e. e = ''timeout'') (\<lambda>_. 1 / 2)
     (\<lambda>i. if i < 2 then Inl ''timeout'' else Inr i) = (Inr 2, 2, ds)"
  using retry_stops_at_first_final_call [of 2 "\<lambda>i. if i < 2 then Inl ''timeout'' else Inr i" "\<lambda>e. e = ''timeout''" 3 100 1000 "\<lambda>_. 1 / 2"]
  by simp

text \<open>The time a retried operation sleeps is bounded: every delay lies between half and all of the capped
  exponential step, so that a whole run sleeps at most its retries times the cap.\<close>

theorem retry_sleep_bounds:
  assumes "valid_random random" and "0 \<le> baseDelayMs" and "0 \<le> maxDelayMs" and "maxDelayMs \<le> 2 ^ 53"
    and "retryWithBackoff attempts baseDelayMs maxDelayMs isRetryable random call = (r, n, ds)"
  shows "sum_list ds \<le> int (nat (max 1 attempts) - 1) * maxDelayMs
    \<and> min maxDelayMs (baseDelayMs * 2 ^ (k - 1)) \<le> 2 * backoffDelayMs k baseDelayMs maxDelayMs (random k)
    \<and> backoffDelayMs k baseDelayMs maxDelayMs (random k) \<le> min maxDelayMs (baseDelayMs * 2 ^ (k - 1))"
proof -
  have "sum_list ds \<le> int (nat (max 1 attempts) - 1) * max 0 maxDelayMs"
    using assms(1,4) by (intro auth_retry.total_delay [OF assms(5)]) simp_all
  moreover have "0 \<le> random k" "random k < 1" using assms(1) by (simp_all add: valid_random_def)
  ultimately show ?thesis using backoff_bounds [of "random k" baseDelayMs maxDelayMs k] assms(2-4) by simp
qed

theorem retry_sleep_bounds_witness:
  "sum_list (snd (snd (retryWithBackoff 3 100 1000 (\<lambda>_. True) (\<lambda>_. 1 / 2) (\<lambda>i. Inl i :: nat + nat)))) \<le> 2000"
proof -
  obtain r n ds where run: "retryWithBackoff 3 100 1000 (\<lambda>_. True) (\<lambda>_. 1 / 2) (\<lambda>i. Inl i :: nat + nat) = (r, n, ds)"
    by (metis prod_cases3)
  show ?thesis
    using retry_sleep_bounds [of "\<lambda>_. 1 / 2" 100 1000 3 "\<lambda>_. True", OF _ _ _ _ run] by (simp add: valid_random_def run)
qed

end
