(* ===== verification/Security_Utils.thy ===== *)
theory Security_Utils
  imports Prelude "HOL-Library.Word"
begin

unbundle bit_operations_syntax

text \<open>
  \<open>src/auth/security.utils.ts\<close>: base32 secrets, time-based one-time passwords, recovery codes and
  durations.  Bytes are \<open>8 word\<close>, the values JavaScript's bitwise operators work on are
  \<open>32 word\<close>.  The hash functions of the \<open>crypto\<close> module are arguments: \<open>sha256\<close> maps a string to
  its hex digest, \<open>hmac_sha1\<close> a key and a message to the digest bytes.
\<close>

type_synonym byte = "8 word"

subsection \<open>Base32\<close>

definition BASE32_ALPHABET :: string where
  "BASE32_ALPHABET = ''ABCDEFGHIJKLMNOPQRSTUVWXYZ234567''"

fun index_of :: "char \<Rightarrow> string \<Rightarrow> nat option" where
  "index_of c [] = None"
| "index_of c (d # s) = (if c = d then Some 0 else map_option Suc (index_of c s))"

text \<open>\<open>input.replace(/=+$/g, '').toUpperCase()\<close>.\<close>

definition b32_normalize :: "string \<Rightarrow> string" where
  "b32_normalize input = js_upper (rev (dropWhile (\<lambda>c. c = CHR ''='') (rev input)))"

text \<open>One round of the loop, on the number of pending bits, the 32-bit shift register and the
  output so far.\<close>

definition b32_step :: "nat \<times> 32 word \<times> byte list \<Rightarrow> char \<Rightarrow> nat \<times> 32 word \<times> byte list" where
  "b32_step st c = (case st of (bits, value, out) \<Rightarrow>
     (case index_of c BASE32_ALPHABET of
        None \<Rightarrow> (bits, value, out)
      | Some index \<Rightarrow>
          (let value = push_bit 5 value OR of_nat index;
               bits = bits + 5
           in if 8 \<le> bits
              then (bits - 8, value, out @ [ucast (drop_bit (bits - 8) value AND 255)])
              else (bits, value, out))))"

definition decodeBase32 :: "string \<Rightarrow> byte list" where
  "decodeBase32 input = snd (snd (foldl b32_step (0, 0, []) (b32_normalize input)))"

text \<open>\<open>randomBase32Secret\<close> draws one random byte per character.\<close>

definition randomBase32Secret :: "nat \<Rightarrow> (nat \<Rightarrow> byte) \<Rightarrow> string" where
  "randomBase32Secret len random_byte =
     map (\<lambda>i. BASE32_ALPHABET ! (unat (random_byte i) mod length BASE32_ALPHABET)) [0..<len]"

subsubsection \<open>The reference: the text is a bit string, cut into bytes\<close>

fun msb_bits :: "nat \<Rightarrow> nat \<Rightarrow> bool list" where
  "msb_bits 0 v = []"
| "msb_bits (Suc n) v = odd (v div 2 ^ n) # msb_bits n v"

definition bits_nat :: "bool list \<Rightarrow> nat" where
  "bits_nat bs = foldl (\<lambda>n b. 2 * n + of_bool b) 0 bs"

definition b32_bits :: "string \<Rightarrow> bool list" where
  "b32_bits s = concat (map (msb_bits 5) (List.map_filter (\<lambda>c. index_of c BASE32_ALPHABET) s))"

text \<open>Complete groups of eight bits; a shorter rest is dropped.\<close>

function octets :: "bool list \<Rightarrow> byte list" where
  "octets bs = (if length bs < 8 then [] else of_nat (bits_nat (take 8 bs)) # octets (drop 8 bs))"
  by pat_completeness auto
termination
  by (relation "measure length") auto

declare octets.simps [simp del]

lemma length_msb_bits [simp]: "length (msb_bits n v) = n"
  by (induction n) auto

lemma bits_nat_append: "bits_nat (xs @ ys) = bits_nat xs * 2 ^ length ys + bits_nat ys"
proof (induction ys rule: rev_induct)
  case (snoc y ys)
  have snoc': "bits_nat (zs @ [y]) = 2 * bits_nat zs + of_bool y" for zs
    by (simp add: bits_nat_def)
  show ?case
    by (simp add: append_assoc [symmetric] snoc' snoc del: append_assoc)
qed (simp add: bits_nat_def)

lemma bits_nat_msb: "bits_nat (msb_bits n v) = v mod 2 ^ n"
proof (induction n)
  case (Suc n)
  have "bits_nat (msb_bits (Suc n) v) = bits_nat ([odd (v div 2 ^ n)] @ msb_bits n v)"
    by simp
  also have "\<dots> = of_bool (odd (v div 2 ^ n)) * 2 ^ n + v mod 2 ^ n"
    unfolding bits_nat_append Suc by (simp add: bits_nat_def)
  also have "\<dots> = v mod 2 ^ Suc n"
    using mod_mult2_eq [of v "2 ^ n" 2] by (simp add: mult.commute mod_2_eq_odd)
  finally show ?case .
qed (simp add: bits_nat_def)

lemma bits_nat_less: "bits_nat bs < 2 ^ length bs"
proof (induction bs rule: rev_induct)
  case (snoc b bs)
  then show ?case by (simp add: bits_nat_append) (simp add: bits_nat_def)
qed (simp add: bits_nat_def)

lemma octets_short: "length bs < 8 \<Longrightarrow> octets bs = []"
  by (simp add: octets.simps)

lemma length_octets: "length (octets bs) = length bs div 8"
proof (induction bs rule: octets.induct)
  case (1 bs)
  then show ?case by (auto simp: octets.simps [of bs] le_div_geq)
qed

lemma octets_append:
  assumes "length xs mod 8 = 0"
  shows "octets (xs @ ys) = octets xs @ octets ys"
  using assms
proof (induction xs rule: octets.induct)
  case (1 xs)
  show ?case
  proof (cases "xs = []")
    case False
    with 1 have len: "8 \<le> length xs" by (cases "length xs < 8") auto
    have "octets (drop 8 xs @ ys) = octets (drop 8 xs) @ octets ys"
      using 1 len by (simp add: mod_if)
    with len show ?thesis
      by (simp add: octets.simps [of xs] octets.simps [of "xs @ ys"])
  qed (simp add: octets_short)
qed

text \<open>The shift register holds the pending bits in its low positions.\<close>

lemma register_shift:
  assumes "n + 5 \<le> 32" and "i < 32"
  shows "unat (push_bit 5 w OR of_nat i :: 32 word) mod 2 ^ (n + 5) = (unat w mod 2 ^ n) * 32 + i"
proof -
  have or: "push_bit 5 m OR i = 32 * m + i" for m :: nat
  proof -
    have "\<not> bit (push_bit 5 m) k \<or> \<not> bit i k" for k
    proof (cases "k < 5")
      case True
      then show ?thesis by (simp add: bit_push_bit_iff)
    next
      case False
      have "i < 2 ^ k" using assms(2) False power_increasing [of 5 k "2::nat"] by simp
      then show ?thesis by (simp add: bit_iff_odd)
    qed
    then have "push_bit 5 m + i = push_bit 5 m OR i"
      by (rule disjunctive_add)
    then show ?thesis by (simp add: push_bit_eq_mult mult.commute)
  qed
  have "unat (of_nat i :: 32 word) = i"
    using assms(2) by (simp add: unat_of_nat take_bit_nat_eq_self)
  then have "unat (push_bit 5 w OR of_nat i :: 32 word) = take_bit 32 (push_bit 5 (unat w)) OR i"
    by (simp add: unsigned_or_eq unsigned_push_bit_eq)
  also have "\<dots> = take_bit 32 (push_bit 5 (unat w) OR i)"
    using assms(2) by (simp add: take_bit_or take_bit_nat_eq_self)
  finally have "unat (push_bit 5 w OR of_nat i :: 32 word) = (32 * unat w + i) mod 2 ^ 32"
    by (simp only: or take_bit_eq_mod)
  then have "unat (push_bit 5 w OR of_nat i :: 32 word) mod 2 ^ (n + 5) = (32 * unat w + i) mod 2 ^ (n + 5)"
    using mod_mod_cancel [OF le_imp_power_dvd [of "n + 5" 32 "2::nat"]] assms(1) by simp
  also have "\<dots> = (32 * unat w + i) mod (32 * 2 ^ n)" by (simp add: power_add mult.commute)
  also have "\<dots> = (unat w mod 2 ^ n) * 32 + i"
    using assms(2) by (simp add: mod_mult2_eq)
  finally show ?thesis .
qed

lemma register_byte:
  assumes "8 \<le> n" and "n \<le> 32"
  shows "(ucast (drop_bit (n - 8) w AND 255 :: 32 word) :: byte) = of_nat (unat w mod 2 ^ n div 2 ^ (n - 8))"
proof -
  have mask8: "(255 :: 32 word) = mask 8" by (simp add: mask_eq_exp_minus_1)
  have "unat (drop_bit (n - 8) w AND 255 :: 32 word) = take_bit 8 (drop_bit (n - 8) (unat w))"
    unfolding mask8 take_bit_eq_mask [symmetric]
    by (simp add: unsigned_take_bit_eq unat_drop_bit_eq)
  also have "\<dots> = drop_bit (n - 8) (take_bit n (unat w))"
    using assms(1) by (simp add: drop_bit_take_bit)
  also have "\<dots> = unat w mod 2 ^ n div 2 ^ (n - 8)"
    by (simp add: drop_bit_eq_div take_bit_eq_mod)
  finally show ?thesis
    by (metis of_nat_unat)
qed

text \<open>The loop invariant: what was output, followed by the pending bits, are the bits read.\<close>

definition b32_inv :: "bool list \<Rightarrow> nat \<times> 32 word \<times> byte list \<Rightarrow> bool" where
  "b32_inv bs st = (case st of (n, w, out) \<Rightarrow>
     n < 8 \<and> length bs mod 8 = n \<and> out = octets bs \<and>
     unat w mod 2 ^ n = bits_nat (drop (length bs - n) bs))"

lemma index_of_less: "index_of c s = Some i \<Longrightarrow> i < length s"
  by (induction s arbitrary: i) (auto split: if_splits)

lemma b32_index_less: "index_of c BASE32_ALPHABET = Some i \<Longrightarrow> i < 32"
  by (drule index_of_less) (simp add: BASE32_ALPHABET_def)

lemma b32_inv_step:
  assumes inv: "b32_inv bs (n, w, out)" and idx: "index_of c BASE32_ALPHABET = Some i"
  shows "b32_inv (bs @ msb_bits 5 i) (b32_step (n, w, out) c)"
proof -
  define v where "v = (push_bit 5 w OR of_nat i :: 32 word)"
  define pend where "pend = drop (length bs - n) bs @ msb_bits 5 i"
  define whole where "whole = take (length bs - n) bs"
  have n: "n < 8" "length bs mod 8 = n" and out: "out = octets bs"
    and reg: "unat w mod 2 ^ n = bits_nat (drop (length bs - n) bs)"
    using inv by (simp_all add: b32_inv_def)
  have nle: "n \<le> length bs" using n(2) mod_less_eq_dividend by metis
  have i: "i < 32" using idx by (rule b32_index_less)
  have bs: "bs @ msb_bits 5 i = whole @ pend"
    by (simp add: whole_def pend_def flip: append_assoc)
  have lenw: "length whole mod 8 = 0" "length pend = n + 5"
    using n(2) nle by (auto simp: whole_def pend_def minus_mod_eq_mult_div)
  have out': "out = octets whole"
  proof -
    have "octets bs = octets (whole @ drop (length bs - n) bs)" by (simp add: whole_def)
    also have "\<dots> = octets whole"
      using octets_append [OF lenw(1)] n(1) nle by (simp add: octets_short)
    finally show ?thesis using out by simp
  qed
  have v: "unat v mod 2 ^ (n + 5) = bits_nat pend"
    unfolding v_def pend_def bits_nat_append bits_nat_msb
    using register_shift [of n i w] n(1) i reg by simp
  have len: "length (bs @ msb_bits 5 i) mod 8 = (n + 5) mod 8"
  proof -
    have "(length bs + 5) mod 8 = (length bs mod 8 + 5) mod 8"
      by (rule mod_add_left_eq [symmetric])
    then show ?thesis using n(2) by simp
  qed
  show ?thesis
  proof (cases "8 \<le> n + 5")
    case False
    have "b32_step (n, w, out) c = (n + 5, v, out)"
      using False idx by (simp add: b32_step_def v_def)
    moreover have "octets (bs @ msb_bits 5 i) = out"
      unfolding bs octets_append [OF lenw(1)] using False lenw(2) out' by (simp add: octets_short)
    moreover have "drop (length (bs @ msb_bits 5 i) - (n + 5)) (bs @ msb_bits 5 i) = pend"
      unfolding bs using lenw(2) by simp
    ultimately show ?thesis
      unfolding b32_inv_def using False v len by simp
  next
    case True
    let ?m = "n + 5 - 8"
    have m: "n + 5 = 8 + ?m" "?m < 8" using True n(1) by simp_all
    have pend: "pend = take 8 pend @ drop 8 pend" by simp
    have lens: "length (take 8 pend) = 8" "length (drop 8 pend) = ?m"
      using True lenw(2) by simp_all
    have split: "bits_nat pend = bits_nat (take 8 pend) * 2 ^ ?m + bits_nat (drop 8 pend)"
      using bits_nat_append [of "take 8 pend" "drop 8 pend"] lens by simp
    have low: "bits_nat (drop 8 pend) < 2 ^ ?m"
      using bits_nat_less [of "drop 8 pend"] lens by simp
    have "(ucast (drop_bit ?m v AND 255) :: byte) = of_nat (bits_nat pend div 2 ^ ?m)"
      using register_byte [of "n + 5" v] True n(1) v by simp
    also have "bits_nat pend div 2 ^ ?m = bits_nat (take 8 pend)"
      unfolding split using low by simp
    finally have step: "b32_step (n, w, out) c = (?m, v, out @ [of_nat (bits_nat (take 8 pend))])"
      using True idx by (simp add: b32_step_def v_def Let_def)
    have "octets pend = [of_nat (bits_nat (take 8 pend))]"
      using lens m(2) by (subst octets.simps) (simp add: octets_short)
    then have o: "octets (bs @ msb_bits 5 i) = out @ [of_nat (bits_nat (take 8 pend))]"
      unfolding bs octets_append [OF lenw(1)] out' by simp
    have "drop (length (bs @ msb_bits 5 i) - ?m) (bs @ msb_bits 5 i) = drop 8 pend"
      unfolding bs using lenw(2) m(1) by simp
    moreover have "unat v mod 2 ^ ?m = bits_nat (drop 8 pend)"
    proof -
      have "unat v mod 2 ^ ?m = unat v mod 2 ^ (n + 5) mod 2 ^ ?m"
        using mod_mod_cancel [OF le_imp_power_dvd [of ?m "n + 5" "2::nat"]] by simp
      also have "\<dots> = bits_nat (drop 8 pend)"
        unfolding v split using low by simp
      finally show ?thesis .
    qed
    ultimately show ?thesis
      unfolding b32_inv_def step using o len m by (simp add: mod_if)
  qed
qed

lemma b32_loop:
  assumes "b32_inv bs st"
  shows "b32_inv (bs @ b32_bits s) (foldl b32_step st s)"
  using assms
proof (induction s arbitrary: bs st)
  case (Cons c s)
  obtain n w out where st: "st = (n, w, out)" by (cases st)
  show ?case
  proof (cases "index_of c BASE32_ALPHABET")
    case None
    then show ?thesis
      using Cons by (simp add: b32_bits_def b32_step_def st List.map_filter_simps)
  next
    case (Some i)
    have "b32_inv (bs @ msb_bits 5 i) (b32_step st c)"
      using Cons.prems Some unfolding st by (rule b32_inv_step)
    from Cons.IH [OF this] show ?thesis
      using Some by (simp add: b32_bits_def List.map_filter_simps)
  qed
qed (simp add: b32_bits_def List.map_filter_simps)

lemma decodeBase32_octets: "decodeBase32 input = octets (b32_bits (b32_normalize input))"
proof -
  have "b32_inv [] (0, 0, [])" by (simp add: b32_inv_def octets_short bits_nat_def)
  from b32_loop [OF this, of "b32_normalize input"] show ?thesis
    by (auto simp: decodeBase32_def b32_inv_def split: prod.splits)
qed

subsection \<open>Property\<close>

text \<open>The 32-bit shift register of \<open>decodeBase32\<close> never loses a bit: for every input, whatever its length
  and padding, the result is the bit string of its base32 characters cut into octets, the incomplete
  rest dropped.\<close>

theorem base32_decodes_bit_string:
  "decodeBase32 input = octets (b32_bits (b32_normalize input))"
  by (rule decodeBase32_octets)

end
