(* ===== verification/Totp.thy ===== *)
theory Totp
  imports Security_Utils
begin

unbundle bit_operations_syntax

text \<open>
  The second factors of \<open>src/auth/security.utils.ts\<close>: \<open>generateTotpCode\<close>, \<open>verifyTotpCode\<close>
  and \<open>verifyBackupCode\<close>.  \<open>None\<close> is the RangeError that \<open>writeBigUInt64BE\<close> throws for a counter
  outside 64 bits.  Timestamps are integers, so \<open>Math.floor(timestamp / 1000 / period)\<close> is an
  integer division.
\<close>

type_synonym hmac = "byte list \<Rightarrow> byte list \<Rightarrow> byte list"

definition be64 :: "nat \<Rightarrow> byte list" where
  "be64 n = map (\<lambda>i. of_nat (n div 256 ^ (7 - i))) [0..<8]"

text \<open>\<open>buf[i]\<close> used as a number: out of range it is \<open>undefined\<close>, which bitwise operators read as 0.\<close>

definition byte_at :: "byte list \<Rightarrow> nat \<Rightarrow> byte" where
  "byte_at bs i = (if i < length bs then bs ! i else 0)"

definition pad_start :: "nat \<Rightarrow> char \<Rightarrow> string \<Rightarrow> string" where
  "pad_start n c s = replicate (n - length s) c @ s"

definition truncate_hmac :: "byte list \<Rightarrow> 32 word" where
  "truncate_hmac hmac =
     (let offset = unat (byte_at hmac (length hmac - 1) AND 0x0f);
          b = (\<lambda>k. byte_at hmac (offset + k))
      in push_bit 24 (ucast (b 0 AND 0x7f)) OR push_bit 16 (ucast (b 1 AND 0xff))
         OR push_bit 8 (ucast (b 2 AND 0xff)) OR ucast (b 3 AND 0xff))"

definition generateTotpCode :: "hmac \<Rightarrow> string \<Rightarrow> nat \<Rightarrow> int \<Rightarrow> time \<Rightarrow> string option" where
  "generateTotpCode hmac_sha1 secret digits period timestamp =
     (let counter = timestamp div (1000 * period)
      in if counter < 0 \<or> 2 ^ 64 \<le> counter then None
         else let binaryCode = truncate_hmac (hmac_sha1 (decodeBase32 secret) (be64 (nat counter)))
              in Some (pad_start digits CHR ''0'' (show_nat (nat (sint binaryCode) mod 10 ^ digits))))"

text \<open>\<open>for (offset = -window; offset <= window; offset += 1)\<close>, over the offsets in order.\<close>

fun totp_search :: "(int \<Rightarrow> string option) \<Rightarrow> string \<Rightarrow> int list \<Rightarrow> bool option" where
  "totp_search code_at normalizedCode [] = Some False"
| "totp_search code_at normalizedCode (offset # offsets) =
     (case code_at offset of
        None \<Rightarrow> None
      | Some expectedCode \<Rightarrow>
          if expectedCode = normalizedCode then Some True
          else totp_search code_at normalizedCode offsets)"

definition verifyTotpCode ::
  "hmac \<Rightarrow> string \<Rightarrow> string \<Rightarrow> nat \<Rightarrow> int \<Rightarrow> int \<Rightarrow> time \<Rightarrow> bool option" where
  "verifyTotpCode hmac_sha1 secret code digits period window timestamp =
     totp_search (\<lambda>offset. generateTotpCode hmac_sha1 secret digits period (timestamp + offset * period * 1000))
       (js_trim code) [- window..window]"

text \<open>\<open>find\<close> on the stored hashes; equality of the two UTF-8 buffers is equality of the strings.\<close>

definition verifyBackupCode :: "(string \<Rightarrow> string) \<Rightarrow> string \<Rightarrow> string list \<Rightarrow> string option" where
  "verifyBackupCode sha256 candidate backupCodeHashes =
     (let digest = sha256 (js_upper (js_trim candidate))
      in List.find (\<lambda>hash. length digest = length hash \<and> digest = hash) backupCodeHashes)"

subsection \<open>The code is the RFC 4226 truncation\<close>

lemma or_disjoint_add: "a < 2 ^ n \<Longrightarrow> push_bit n b OR a = b * 2 ^ n + (a :: nat)"
proof -
  assume a: "a < 2 ^ n"
  have "push_bit n b AND a = 0"
  proof (rule bit_eqI)
    fix k
    show "bit (push_bit n b AND a) k \<longleftrightarrow> bit (0 :: nat) k"
    proof (cases "k < n")
      case False
      then have "(2 :: nat) ^ n \<le> 2 ^ k" by (simp add: power_increasing)
      with a have "a < 2 ^ k" by (rule order.strict_trans2)
      then show ?thesis by (simp add: bit_and_iff bit_iff_odd [of a])
    qed (simp add: bit_and_iff bit_push_bit_iff)
  qed
  then have "push_bit n b + a = push_bit n b OR a" by (rule disjunctive_add_eq_or)
  then show ?thesis by (simp add: push_bit_eq_mult)
qed

definition rfc4226_number :: "byte list \<Rightarrow> nat" where
  "rfc4226_number hmac =
     (let offset = unat (byte_at hmac (length hmac - 1)) mod 16;
          b = (\<lambda>k. unat (byte_at hmac (offset + k)))
      in (b 0 mod 128) * 256 ^ 3 + b 1 * 256 ^ 2 + b 2 * 256 + b 3)"

lemma unat_and_mask: "unat (w AND mask n :: byte) = unat w mod 2 ^ n"
proof -
  have "unat (w AND mask n) = take_bit n (unat w)"
    by (metis take_bit_eq_mask unsigned_take_bit_eq)
  then show ?thesis by (simp add: take_bit_eq_mod)
qed

lemma byte_masks: "(0x0f :: byte) = mask 4" "(0x7f :: byte) = mask 7" "(0xff :: byte) = mask 8"
  by (simp_all add: mask_eq_exp_minus_1)

lemma unat_byte_less: "unat (w :: byte) < 256"
  using unsigned_less [of w] by simp

lemma unat_ucast_byte: "unat (ucast (w :: byte) :: 32 word) = unat w"
  by (simp add: unsigned_ucast_eq take_bit_nat_eq_self unat_byte_less less_trans [OF unat_byte_less])

lemma unat_push_byte:
  assumes "n \<le> 24"
  shows "unat (push_bit n (ucast (w :: byte)) :: 32 word) = push_bit n (unat w)"
proof -
  have "unat w * 2 ^ n < 2 ^ 8 * 2 ^ n"
    using unat_byte_less [of w] by (intro mult_strict_right_mono) simp_all
  also have "(2::nat) ^ 8 * 2 ^ n \<le> 2 ^ 32"
    using power_increasing [of "8 + n" 32 "2 :: nat"] assms by (simp add: power_add)
  finally have "push_bit n (unat w) < 2 ^ 32" by (simp add: push_bit_eq_mult)
  then show ?thesis
    by (simp add: unsigned_push_bit_eq unat_ucast_byte take_bit_nat_eq_self)
qed

lemma unat_truncate_hmac: "unat (truncate_hmac hmac) = rfc4226_number hmac"
proof -
  define b where "b k = byte_at hmac (unat (byte_at hmac (length hmac - 1)) mod 16 + k)" for k
  have b0: "unat (b 0 AND mask 7) = unat (b 0) mod 128" by (simp add: unat_and_mask)
  have full: "w AND mask 8 = w" for w :: byte
    by (rule bit_word_eqI) (simp add: bit_and_iff bit_mask_iff)
  have lt: "unat (b k) < 256" for k by (rule unat_byte_less)
  let ?n3 = "unat (b 3)" and ?n2 = "unat (b 2)" and ?n1 = "unat (b 1)" and ?n0 = "unat (b 0) mod 128"
  have "truncate_hmac hmac = push_bit 24 (ucast (b 0 AND mask 7)) OR (push_bit 16 (ucast (b 1))
      OR (push_bit 8 (ucast (b 2)) OR ucast (b 3)))"
    by (simp add: truncate_hmac_def b_def byte_masks unat_and_mask full or.assoc Let_def)
  then have "unat (truncate_hmac hmac) = push_bit 24 ?n0 OR (push_bit 16 ?n1 OR (push_bit 8 ?n2 OR ?n3))"
    by (simp add: unsigned_or_eq unat_push_byte unat_ucast_byte b0)
  also have "push_bit 8 ?n2 OR ?n3 = ?n2 * 256 + ?n3"
    using or_disjoint_add [of ?n3 8 ?n2] lt by simp
  also have "push_bit 16 ?n1 OR (?n2 * 256 + ?n3) = ?n1 * 65536 + (?n2 * 256 + ?n3)"
    using or_disjoint_add [of "?n2 * 256 + ?n3" 16 ?n1] lt [of 2] lt [of 3] by simp
  also have "push_bit 24 ?n0 OR (?n1 * 65536 + (?n2 * 256 + ?n3)) =
      ?n0 * 16777216 + (?n1 * 65536 + (?n2 * 256 + ?n3))"
    using or_disjoint_add [of "?n1 * 65536 + (?n2 * 256 + ?n3)" 24 ?n0] lt [of 1] lt [of 2] lt [of 3]
    by simp
  finally show ?thesis by (simp add: rfc4226_number_def b_def Let_def)
qed

lemma rfc4226_less: "rfc4226_number hmac < 2 ^ 31"
proof -
  define b where "b k = unat (byte_at hmac (unat (byte_at hmac (length hmac - 1)) mod 16 + k))" for k
  have "b k < 256" for k by (simp add: b_def unat_byte_less)
  from this [of 1] this [of 2] this [of 3]
  have "b 0 mod 128 * 256 ^ 3 + b 1 * 256 ^ 2 + b 2 * 256 + b 3 < 2 ^ 31"
    using mod_less_divisor [of 128 "b 0"] by simp
  then show ?thesis by (simp add: rfc4226_number_def b_def Let_def)
qed

lemma sint_truncate_hmac: "sint (truncate_hmac hmac) = int (rfc4226_number hmac)"
proof -
  have "uint (truncate_hmac hmac) = int (rfc4226_number hmac)"
    by (metis uint_nat unat_truncate_hmac)
  then show ?thesis
    using rfc4226_less [of hmac] by (simp add: sint_uint signed_take_bit_int_eq_self)
qed

lemma generateTotpCode_rfc:
  "generateTotpCode hmac_sha1 secret digits period timestamp =
     (let counter = timestamp div (1000 * period)
      in if counter < 0 \<or> 2 ^ 64 \<le> counter then None
         else Some (pad_start digits CHR ''0''
           (show_nat (rfc4226_number (hmac_sha1 (decodeBase32 secret) (be64 (nat counter))) mod 10 ^ digits))))"
  by (simp add: generateTotpCode_def sint_truncate_hmac Let_def)

lemma length_show_nat: "n < 10 ^ d \<Longrightarrow> 0 < d \<Longrightarrow> length (show_nat n) \<le> d"
proof (induction n arbitrary: d rule: show_nat.induct)
  case (1 n)
  show ?case
  proof (cases "n < 10")
    case False
    then obtain e where d: "d = Suc e" "0 < e"
      using "1.prems" by (cases d; cases "d - 1") auto
    have "n div 10 < 10 ^ e" using "1.prems" d by (simp add: less_mult_imp_div_less mult.commute)
    with "1.IH" [OF False this] d False show ?thesis by (simp add: show_nat.simps [of n])
  qed (use 1 in \<open>simp add: show_nat.simps [of n]\<close>)
qed

lemma totp_code_shape:
  assumes "generateTotpCode hmac_sha1 secret digits period timestamp = Some code" and "0 < digits"
  shows "length code = digits \<and> list_all is_digit code"
proof -
  define n where "n = rfc4226_number (hmac_sha1 (decodeBase32 secret)
    (be64 (nat (timestamp div (1000 * period))))) mod 10 ^ digits"
  have n: "n < 10 ^ digits" by (simp add: n_def)
  have code: "code = pad_start digits CHR ''0'' (show_nat n)"
    using assms(1) by (auto simp: generateTotpCode_rfc Let_def n_def split: if_splits)
  have "length (show_nat n) \<le> digits" using length_show_nat [OF n assms(2)] .
  moreover have "list_all is_digit (show_nat n)" using show_nat_digits by blast
  ultimately show ?thesis
    by (auto simp: code pad_start_def list_all_iff is_digit_def)
qed

subsection \<open>Acceptance\<close>

lemma totp_search_True_iff:
  assumes "\<And>k. k \<in> set ks \<Longrightarrow> code_at k \<noteq> None"
  shows "totp_search code_at c ks = Some (\<exists>k \<in> set ks. code_at k = Some c)"
  using assms by (induction ks) (auto split: option.split)

lemma totp_search_accepts: "totp_search code_at c ks = Some True \<Longrightarrow> \<exists>k \<in> set ks. code_at k = Some c"
  by (induction ks) (auto split: option.splits if_splits)

lemma digits_trim: "list_all is_digit s \<Longrightarrow> js_trim s = s"
proof -
  assume d: "list_all is_digit s"
  have drop: "dropWhile js_space t = t" if "list_all is_digit t" for t
    using that by (cases t) (auto dest: is_digit_not_space)
  show ?thesis using d by (simp add: js_trim_def drop list_all_rev)
qed

lemma js_trim_lemma_rev: "list_all is_digit (rev s) = list_all is_digit s"
  by simp

text \<open>The slots a timestamp is compared with.\<close>

lemma slot_shift: "0 < period \<Longrightarrow> (t + k * period * 1000) div (1000 * period) = t div (1000 * period) + (k :: int)"
proof -
  assume "0 < period"
  have eq: "t + k * period * 1000 = t + k * (1000 * period)" by simp
  have "1000 * period \<noteq> 0" using \<open>0 < period\<close> by simp
  then show ?thesis unfolding eq by (subst div_mult_self1) simp_all
qed

lemma slot_distance:
  assumes "0 < p" and "\<bar>t - u\<bar> \<le> w * (p :: int)"
  shows "\<bar>t div p - u div p\<bar> \<le> w"
proof -
  have le: "t \<le> u + w * p" "u \<le> t + w * p" using assms(2) by linarith+
  have "t div p \<le> (u + w * p) div p" "u div p \<le> (t + w * p) div p"
    using zdiv_mono1 [OF le(1) assms(1)] zdiv_mono1 [OF le(2) assms(1)] .
  then show ?thesis using assms(1) by simp
qed

lemma totp_depends_on_slot:
  "t div (1000 * period) = u div (1000 * period) \<Longrightarrow>
   generateTotpCode h secret digits period t = generateTotpCode h secret digits period u"
  by (simp add: generateTotpCode_def)

lemma verifyTotp_accepts:
  assumes gen: "generateTotpCode h secret digits period t = Some code"
    and p: "0 < period" and d: "0 < digits"
    and near: "\<bar>t - now\<bar> \<le> window * (1000 * period)"
    and range: "window \<le> now div (1000 * period)" "now div (1000 * period) + window < 2 ^ 64"
  shows "verifyTotpCode h secret code digits period window now = Some True"
proof -
  let ?at = "\<lambda>k. generateTotpCode h secret digits period (now + k * period * 1000)"
  have slot: "(now + k * period * 1000) div (1000 * period) = now div (1000 * period) + k" for k
    using p by (rule slot_shift)
  define k where "k = t div (1000 * period) - now div (1000 * period)"
  have "\<bar>k\<bar> \<le> window"
    unfolding k_def using p near by (intro slot_distance) simp_all
  then have "k \<in> set [- window..window]" by auto
  moreover have "?at k = Some code"
    using totp_depends_on_slot [of "now + k * period * 1000" period t h secret digits] gen
    by (simp add: slot k_def)
  moreover have "?at j \<noteq> None" if "j \<in> set [- window..window]" for j
    using that range by (simp add: generateTotpCode_def slot Let_def)
  moreover have "js_trim code = code"
    using totp_code_shape [OF gen d] by (simp add: digits_trim)
  ultimately have "\<exists>k \<in> set [- window..window]. ?at k = Some (js_trim code)"
      and "\<And>j. j \<in> set [- window..window] \<Longrightarrow> ?at j \<noteq> None"
    by (metis, blast)
  then show ?thesis
    unfolding verifyTotpCode_def by (subst totp_search_True_iff) simp_all
qed

lemma verifyTotp_non_digits:
  assumes p: "0 < period" and d: "0 < digits" and "\<not> list_all is_digit (js_trim code)"
    and range: "window \<le> now div (1000 * period)" "now div (1000 * period) + window < 2 ^ 64"
  shows "verifyTotpCode h secret code digits period window now = Some False"
proof -
  let ?at = "\<lambda>k. generateTotpCode h secret digits period (now + k * period * 1000)"
  have slot: "(now + k * period * 1000) div (1000 * period) = now div (1000 * period) + k" for k
    using p by (rule slot_shift)
  have "?at j \<noteq> None" if "j \<in> set [- window..window]" for j
    using that range by (simp add: generateTotpCode_def slot Let_def)
  then have "verifyTotpCode h secret code digits period window now =
      Some (\<exists>k \<in> set [- window..window]. ?at k = Some (js_trim code))"
    unfolding verifyTotpCode_def by (rule totp_search_True_iff)
  moreover have "?at k \<noteq> Some (js_trim code)" for k
    using totp_code_shape [OF _ d] assms(3) by blast
  ultimately show ?thesis by simp
qed

lemma verifyTotp_accepted_codes:
  "card {c. js_trim c = c \<and> verifyTotpCode h secret c digits period window now = Some True} \<le> nat (2 * window + 1)"
proof -
  let ?at = "\<lambda>k. generateTotpCode h secret digits period (now + k * period * 1000)"
  have "{c. js_trim c = c \<and> verifyTotpCode h secret c digits period window now = Some True}
      \<subseteq> (\<lambda>k. the (?at k)) ` set [- window..window]" (is "?A \<subseteq> ?f ` ?K")
    by (auto simp: verifyTotpCode_def dest!: totp_search_accepts intro: rev_image_eqI)
  then have "card ?A \<le> card ?K"
    by (meson List.finite_set card_image_le card_mono finite_imageI le_trans)
  also have "\<dots> = nat (2 * window + 1)" by simp
  finally show ?thesis .
qed

lemma verifyBackupCode_Some:
  "verifyBackupCode sha256 candidate hashes = Some h \<longleftrightarrow>
   h = sha256 (js_upper (js_trim candidate)) \<and> h \<in> set hashes"
  unfolding verifyBackupCode_def Let_def
  by (induction hashes) auto

subsection \<open>Properties\<close>

text \<open>A code generated within one period of the server's clock is accepted, a stale one never by chance
  for more than a few values: at every time at most three codes are accepted.\<close>

theorem totp_window:
  assumes "generateTotpCode h secret 6 30 t = Some code" and "\<bar>t - now\<bar> \<le> 30000"
    and "30000 \<le> now" and "now < 2 ^ 64"
  shows "verifyTotpCode h secret code 6 30 1 now = Some True
    \<and> length code = 6 \<and> list_all is_digit code
    \<and> card {c. js_trim c = c \<and> verifyTotpCode h secret c 6 30 1 now = Some True} \<le> 3"
proof -
  have "1 \<le> now div 30000" using assms(3) zdiv_mono1 [of 30000 now 30000] by simp
  moreover have "now div 30000 + 1 < 2 ^ 64"
    using assms(3,4) zdiv_mono2 [of now 2 30000] by simp
  ultimately have "verifyTotpCode h secret code 6 30 1 now = Some True"
    using verifyTotp_accepts [OF assms(1), of now 1] assms(2) by simp
  then show ?thesis
    using totp_code_shape [OF assms(1)] verifyTotp_accepted_codes [of h secret 6 30 1 now] by simp
qed

theorem totp_window_witness:
  "\<exists>code. generateTotpCode (\<lambda>k m. []) ''GEZDGNBV'' 6 30 60000 = Some code
     \<and> verifyTotpCode (\<lambda>k m. []) ''GEZDGNBV'' code 6 30 1 89999 = Some True"
proof -
  obtain code where code: "generateTotpCode (\<lambda>k m. []) ''GEZDGNBV'' 6 30 60000 = Some code"
    by (simp add: generateTotpCode_def Let_def)
  then show ?thesis using totp_window [OF code, of 89999] by simp
qed

text \<open>C29: The generated code is RFC 4226's: the big-endian 31-bit number at the offset the last octet names,
  modulo \<open>10 ^ digits\<close>, padded with zeros; the signed 32-bit operations never make it negative.\<close>

theorem totp_is_rfc4226:
  "generateTotpCode h secret digits period t =
     (let counter = t div (1000 * period) in
      if counter < 0 \<or> 2 ^ 64 \<le> counter then None
      else Some (pad_start digits CHR ''0''
        (show_nat (rfc4226_number (h (decodeBase32 secret) (be64 (nat counter))) mod 10 ^ digits))))"
  by (rule generateTotpCode_rfc)

end
