(* ===== verification/Fixed_Window.thy ===== *)
theory Fixed_Window
  imports Prelude
begin

text \<open>
  The contract of a fixed-window limiter, which two components of the program provide: the
  cache-backed \<open>RateLimitService\<close> (theory \<open>Rate_Limit\<close>) and the in-memory
  \<open>InvestmentRateLimitGuard\<close> (at the end of this theory, \<open>src/investments/investment-rate-limit.guard.ts\<close>).

  \<open>active now s\<close> is the window a request at \<open>now\<close> would count in: its count and its end.
\<close>

definition next_window :: "(int \<times> time) option \<Rightarrow> time \<Rightarrow> int \<Rightarrow> int \<times> time" where
  "next_window act now windowMs = (case act of Some (c, r) \<Rightarrow> (c + 1, r) | None \<Rightarrow> (1, now + windowMs))"

locale fixed_window =
  fixes hit :: "time \<Rightarrow> 's \<Rightarrow> bool \<times> 's"
    and active :: "time \<Rightarrow> 's \<Rightarrow> (int \<times> time) option"
    and limit :: int
    and windowMs :: int
  assumes active_open: "active now s = Some (c, r) \<Longrightarrow> now < r"
    and hit_admits: "fst (hit now s) \<longleftrightarrow> fst (next_window (active now s) now windowMs) \<le> limit"
    and hit_active: "0 < windowMs \<Longrightarrow> now \<le> t \<Longrightarrow> active t (snd (hit now s)) =
      (let w = next_window (active now s) now windowMs in if t < snd w then Some w else None)"
begin

fun run :: "time list \<Rightarrow> 's \<Rightarrow> bool list" where
  "run [] s = []"
| "run (t # ts) s = fst (hit t s) # run ts (snd (hit t s))"

definition admitted :: "time list \<Rightarrow> 's \<Rightarrow> int" where
  "admitted ts s = int (length (filter id (run ts s)))"

lemma admitted_Nil [simp]: "admitted [] s = 0"
  by (simp add: admitted_def)

lemma admitted_Cons: "admitted (t # ts) s = (if fst (hit t s) then 1 else 0) + admitted ts (snd (hit t s))"
  by (simp add: admitted_def)

text \<open>Requests inside one window: the count goes up by one each, whatever is answered.\<close>

lemma in_window_run:
  assumes "0 < windowMs" and "sorted (t0 # ts)" and "\<And>t. t \<in> set ts \<Longrightarrow> t < r"
    and "\<And>t. t0 \<le> t \<Longrightarrow> active t s = (if t < r then Some (c, r) else None)"
  shows "run ts s = map (\<lambda>i. c + int i + 1 \<le> limit) [0..<length ts]"
  using assms(2-)
proof (induction ts arbitrary: t0 s c)
  case (Cons t ts)
  have t: "t0 \<le> t" "t < r" using Cons.prems by simp_all
  then have act: "active t s = Some (c, r)" using Cons.prems by simp
  have "run ts (snd (hit t s)) = map (\<lambda>i. c + 1 + int i + 1 \<le> limit) [0..<length ts]"
  proof (rule Cons.IH [of t])
    show "active u (snd (hit t s)) = (if u < r then Some (c + 1, r) else None)" if "t \<le> u" for u
      using hit_active [OF assms(1) that, of s] by (simp add: act next_window_def)
  qed (use Cons.prems in auto)
  moreover have "fst (hit t s) \<longleftrightarrow> c + 1 \<le> limit"
    by (simp add: hit_admits act next_window_def)
  ultimately show ?case
    by (simp add: map_upt_Suc algebra_simps del: upt_Suc)
qed simp

lemma count_upto: "length (filter (\<lambda>i. c + int i + 1 \<le> limit) [0..<n]) = nat (min (int n) (max 0 (limit - c)))"
proof (induction n)
  case (Suc n)
  then show ?case by auto
qed simp

lemma in_window_admitted:
  assumes "0 < windowMs" and "sorted (t0 # ts)" and "\<And>t. t \<in> set ts \<Longrightarrow> t < r"
    and "\<And>t. t0 \<le> t \<Longrightarrow> active t s = (if t < r then Some (c, r) else None)"
  shows "admitted ts s = min (int (length ts)) (max 0 (limit - c))"
  using in_window_run [OF assms] count_upto [of c "length ts"]
  by (simp add: admitted_def filter_map comp_def)

text \<open>A fresh window admits exactly the first \<open>limit\<close> requests of any sequence that stays in it.\<close>

lemma fresh_window:
  assumes "0 < windowMs" and "sorted (t0 # ts)" and "active t0 s = None"
    and "\<And>t. t \<in> set ts \<Longrightarrow> t < t0 + windowMs"
  shows "run (t0 # ts) s = map (\<lambda>i. int i < limit) [0..<Suc (length ts)]"
proof -
  have "run ts (snd (hit t0 s)) = map (\<lambda>i. 1 + int i + 1 \<le> limit) [0..<length ts]"
  proof (rule in_window_run [OF assms(1,2,4)])
    show "active u (snd (hit t0 s)) = (if u < t0 + windowMs then Some (1, t0 + windowMs) else None)"
      if "t0 \<le> u" for u
      using hit_active [OF assms(1) that, of s] by (simp add: assms(3) next_window_def)
  qed
  moreover have "fst (hit t0 s) \<longleftrightarrow> 1 \<le> limit"
    by (simp add: hit_admits assms(3) next_window_def)
  ultimately show ?thesis
    by (auto simp: map_upt_Suc simp del: upt_Suc)
qed

lemma fresh_window_admitted:
  assumes "0 < windowMs" and "sorted (t0 # ts)" and "active t0 s = None"
    and "\<And>t. t \<in> set ts \<Longrightarrow> t < t0 + windowMs"
  shows "admitted (t0 # ts) s = min (int (Suc (length ts))) (max 0 limit)"
proof -
  have "(\<lambda>i. int i < limit) = (\<lambda>i. 0 + int i + 1 \<le> limit)" by (intro ext) auto
  then show ?thesis
    using fresh_window [OF assms] count_upto [of 0 "Suc (length ts)"]
    by (simp add: admitted_def filter_map comp_def del: upt_Suc)
qed

text \<open>Windows are not aligned with an observer's clock: any span shorter than a window meets at most
  two of them.\<close>

lemma burst_bound:
  assumes W: "0 < windowMs" and L: "0 \<le> limit" and srt: "sorted (t0 # ts)" and h: "h \<le> t0"
    and span: "\<And>t. t \<in> set ts \<Longrightarrow> t < h + windowMs"
    and known: "\<And>t. t0 \<le> t \<Longrightarrow> active t s = (if t < r then Some (c, r) else None)"
  shows "admitted ts s \<le> max 0 (limit - c) + limit"
  using srt h span known
proof (induction ts arbitrary: s c r t0)
  case (Cons t ts)
  have t: "t0 \<le> t" "sorted (t # ts)" "h \<le> t" using Cons.prems(1,2) by simp_all
  show ?case
  proof (cases "t < r")
    case True
    then have act: "active t s = Some (c, r)" using Cons.prems(4) t(1) by simp
    have "admitted ts (snd (hit t s)) \<le> max 0 (limit - (c + 1)) + limit"
    proof (rule Cons.IH [OF t(2,3)])
      show "active u (snd (hit t s)) = (if u < r then Some (c + 1, r) else None)" if "t \<le> u" for u
        using hit_active [OF W that, of s] by (simp add: act next_window_def)
    qed (use Cons.prems(3) in simp)
    moreover have "fst (hit t s) \<longleftrightarrow> c + 1 \<le> limit"
      by (simp add: hit_admits act next_window_def)
    ultimately show ?thesis by (cases "c + 1 \<le> limit") (simp_all add: admitted_Cons max_def split: if_splits)
  next
    case False
    then have act: "active t s = None" using Cons.prems(4) t(1) by simp
    have "u < t + windowMs" if "u \<in> set ts" for u
      using Cons.prems(3) [of u] that t(3) by simp
    then have "admitted (t # ts) s = min (int (Suc (length ts))) (max 0 limit)"
      using fresh_window_admitted [OF W t(2) act] by blast
    then show ?thesis using L by simp
  qed
qed (use L in simp)

end

subsection \<open>\<open>InvestmentRateLimitGuard\<close>\<close>

text \<open>The guard's \<open>hits\<close> map, from client address to the count and end of its window.\<close>

type_synonym hits = "string \<Rightarrow> (int \<times> time) option"

definition INVESTMENT_windowMs :: int where "INVESTMENT_windowMs = 60000"
definition INVESTMENT_max :: int where "INVESTMENT_max = 30"

text \<open>\<open>req.ip || 'unknown'\<close>.\<close>

definition investment_key :: "string option \<Rightarrow> string" where
  "investment_key ip = (case ip of None \<Rightarrow> ''unknown'' | Some a \<Rightarrow> if a = [] then ''unknown'' else a)"

definition investment_canActivate :: "string option \<Rightarrow> time \<Rightarrow> hits \<Rightarrow> (bool, hits) outcome" where
  "investment_canActivate ip now hits =
     (let key = investment_key ip in
      case hits key of
        None \<Rightarrow> (Inr True, hits(key \<mapsto> (1, now + INVESTMENT_windowMs)))
      | Some (count, resetAt) \<Rightarrow>
          if resetAt \<le> now then (Inr True, hits(key \<mapsto> (1, now + INVESTMENT_windowMs)))
          else
            (let hits' = hits(key \<mapsto> (count + 1, resetAt)) in
             if INVESTMENT_max < count + 1
             then (Inl (TooManyRequests ''Too many requests, please try again later'' None), hits')
             else (Inr True, hits')))"

definition investment_hit :: "string option \<Rightarrow> time \<Rightarrow> hits \<Rightarrow> bool \<times> hits" where
  "investment_hit ip now hits =
     (let (res, hits') = investment_canActivate ip now hits in (res = Inr True, hits'))"

definition investment_active :: "string option \<Rightarrow> time \<Rightarrow> hits \<Rightarrow> (int \<times> time) option" where
  "investment_active ip now hits = (case hits (investment_key ip) of
     Some (c, r) \<Rightarrow> if now < r then Some (c, r) else None | None \<Rightarrow> None)"

interpretation investment: fixed_window "investment_hit ip" "investment_active ip" INVESTMENT_max INVESTMENT_windowMs
  for ip
proof
  fix now t :: time and s :: hits and c r
  show "investment_active ip now s = Some (c, r) \<Longrightarrow> now < r"
    by (auto simp: investment_active_def split: option.splits if_splits)
  show "fst (investment_hit ip now s) =
      (fst (next_window (investment_active ip now s) now INVESTMENT_windowMs) \<le> INVESTMENT_max)"
    by (auto simp: investment_hit_def investment_canActivate_def investment_active_def next_window_def
        Let_def INVESTMENT_max_def split: option.splits prod.splits if_splits)
  show "0 < INVESTMENT_windowMs \<Longrightarrow> now \<le> t \<Longrightarrow>
      investment_active ip t (snd (investment_hit ip now s)) =
      (let w = next_window (investment_active ip now s) now INVESTMENT_windowMs
       in if t < snd w then Some w else None)"
    by (auto simp: investment_hit_def investment_canActivate_def investment_active_def next_window_def
        Let_def split: option.splits prod.splits)
qed

subsection \<open>Property\<close>

fun investment_answers :: "string option \<Rightarrow> time list \<Rightarrow> hits \<Rightarrow> bool list" where
  "investment_answers ip [] s = []"
| "investment_answers ip (t # ts) s =
     (let (res, s') = investment_canActivate ip t s in (res = Inr True) # investment_answers ip ts s')"

lemma investment_answers_run: "investment_answers ip ts s = investment.run ip ts s"
  by (induction ts arbitrary: s) (simp_all add: investment_hit_def Let_def case_prod_beta)

text \<open>A client of the investments API gets exactly the first thirty requests of a minute that starts with
  none of its requests counted, and every further one is refused until the minute is over.\<close>

theorem investments_exact_limit:
  assumes "sorted (t0 # ts)" and "\<forall>t \<in> set ts. t < t0 + 60000"
    and "case s (investment_key ip) of Some (c, r) \<Rightarrow> r \<le> t0 | None \<Rightarrow> True"
  shows "investment_answers ip (t0 # ts) s = map (\<lambda>i. i < 30) [0..<Suc (length ts)]"
proof -
  have "investment_active ip t0 s = None"
    using assms(3) by (auto simp: investment_active_def split: option.splits)
  then have "investment.run ip (t0 # ts) s = map (\<lambda>i. int i < INVESTMENT_max) [0..<Suc (length ts)]"
    using assms(2) by (intro investment.fresh_window [OF _ assms(1)]) (simp_all add: INVESTMENT_windowMs_def)
  then show ?thesis by (simp only: investment_answers_run INVESTMENT_max_def) (simp del: upt_Suc)
qed

theorem investments_exact_limit_witness:
  "investment_answers (Some ''1.2.3.4'') [0, 10, 59999] (\<lambda>_. None) = [True, True, True]"
  using investments_exact_limit [of 0 "[10, 59999]" "\<lambda>_. None" "Some ''1.2.3.4''"] by (simp add: upt_rec)

end
