(* ===== verification/Rate_Limit.thy ===== *)
theory Rate_Limit
  imports Fixed_Window
begin

text \<open>
  \<open>src/auth/rate-limit.config.ts\<close> and \<open>src/auth/rate-limit.service.ts\<close>.  The cache manager is not
  part of the repository: its operations are arguments, \<open>cget c now key\<close> and
  \<open>cset c now key record ttl\<close>, where \<open>Inl ()\<close> is a rejected promise.  What the service relies on
  is the locale \<open>ttl_cache\<close>, the documented behaviour of a key-value store with expiry;
  \<open>store_get\<close>/\<open>store_set\<close> are a store that has it.  All clock reads of one request coincide.
\<close>

subsection \<open>Configuration\<close>

record rate_config =
  cfg_windowMs :: int
  cfg_max :: int

definition minutes_limit :: "int \<Rightarrow> int \<Rightarrow> rate_config" where
  "minutes_limit m n = \<lparr>cfg_windowMs = m * 60 * 1000, cfg_max = n\<rparr>"

definition ENDPOINT_RATE_LIMITS :: "(string \<times> rate_config) list" where
  "ENDPOINT_RATE_LIMITS =
    [(''POST /auth/register'', minutes_limit 60 5),
     (''POST /auth/login'', minutes_limit 15 5),
     (''POST /auth/refresh'', minutes_limit 60 20),
     (''POST /auth/email/resend'', minutes_limit 60 3),
     (''POST /auth/request-password-reset'', minutes_limit 60 3),
     (''POST /users/email/resend'', minutes_limit 60 5),
     (''POST /users/email/verify'', minutes_limit 15 10),
     (''GET /users'', minutes_limit 1 100),
     (''POST /users'', minutes_limit 60 10),
     (''GET /properties'', minutes_limit 1 100),
     (''POST /properties'', minutes_limit 60 20),
     (''GET /properties/search'', minutes_limit 1 60),
     (''GET /dashboard'', minutes_limit 1 100),
     (''POST /auth/api-keys'', minutes_limit 60 10)]"

definition USER_TIER_RATE_LIMITS :: "(string \<times> rate_config) list" where
  "USER_TIER_RATE_LIMITS =
    [(''free'', minutes_limit 60 100),
     (''premium'', minutes_limit 60 5000),
     (''enterprise'', minutes_limit 60 50000),
     (''apiKey'', minutes_limit 60 10000)]"

text \<open>\<open>None\<close> is the TypeError of reading a field of \<open>undefined\<close>, for a tier that is not listed.\<close>

definition getUserTierRateLimit :: "string \<Rightarrow> rate_config option" where
  "getUserTierRateLimit tier = map_of USER_TIER_RATE_LIMITS tier"

definition getEndpointRateLimit :: "string \<Rightarrow> rate_config option" where
  "getEndpointRateLimit endpoint = map_of ENDPOINT_RATE_LIMITS endpoint"

definition key_ENDPOINT :: "string \<Rightarrow> string" where "key_ENDPOINT e = ''rate-limit:endpoint:'' @ e"
definition key_USER :: "string \<Rightarrow> string" where "key_USER u = ''rate-limit:user:'' @ u"
definition key_IP :: "string \<Rightarrow> string" where "key_IP ip = ''rate-limit:ip:'' @ ip"
definition key_USER_IP :: "string \<Rightarrow> string \<Rightarrow> string" where
  "key_USER_IP u ip = ''rate-limit:user-ip:'' @ u @ '':'' @ ip"
definition key_API_KEY :: "string \<Rightarrow> string" where "key_API_KEY k = ''rate-limit:api-key:'' @ k"
definition key_SCOPE :: "string \<Rightarrow> string \<Rightarrow> string" where
  "key_SCOPE scope i = ''rate-limit:scope:'' @ scope @ '':'' @ i"

subsection \<open>The service\<close>

record rate_limit_record =
  rec_count :: int
  rec_resetAt :: time
  rec_windowMs :: int

record rate_limit_status =
  st_limit :: int
  st_remaining :: int
  st_reset :: int
  st_retryAfter :: "int option"
  st_isExceeded :: bool

type_synonym 'c cache_get = "'c \<Rightarrow> time \<Rightarrow> string \<Rightarrow> unit + rate_limit_record option"
type_synonym 'c cache_set = "'c \<Rightarrow> time \<Rightarrow> string \<Rightarrow> rate_limit_record \<Rightarrow> int \<Rightarrow> unit + 'c"

text \<open>The \<open>catch\<close> branch: an unavailable cache lets the request through.\<close>

definition fail_open :: "int \<Rightarrow> int \<Rightarrow> time \<Rightarrow> rate_limit_status" where
  "fail_open limit windowMs now =
     \<lparr>st_limit = limit, st_remaining = limit - 1, st_reset = (now + windowMs) div 1000,
      st_retryAfter = None, st_isExceeded = False\<rparr>"

definition checkRateLimit ::
  "'c cache_get \<Rightarrow> 'c cache_set \<Rightarrow> string \<Rightarrow> int \<Rightarrow> int \<Rightarrow> time \<Rightarrow> 'c \<Rightarrow> rate_limit_status \<times> 'c" where
  "checkRateLimit cget cset key limit windowMs now c =
     (case cget c now key of
        Inl _ \<Rightarrow> (fail_open limit windowMs now, c)
      | Inr cached \<Rightarrow>
          (let (count, resetAt) =
             (case cached of
                Some r \<Rightarrow> if now < rec_resetAt r then (rec_count r + 1, rec_resetAt r) else (1, now + windowMs)
              | None \<Rightarrow> (1, now + windowMs));
               isExceeded = limit < count
           in case cset c now key \<lparr>rec_count = count, rec_resetAt = resetAt, rec_windowMs = windowMs\<rparr> (resetAt - now) of
                Inl _ \<Rightarrow> (fail_open limit windowMs now, c)
              | Inr c' \<Rightarrow>
                  (\<lparr>st_limit = limit, st_remaining = max 0 (limit - count), st_reset = resetAt div 1000,
                    st_retryAfter = (if isExceeded then Some (ceil_div (resetAt - now) 1000) else None),
                    st_isExceeded = isExceeded\<rparr>, c')))"

text \<open>\<open>None\<close> is the TypeError of an unknown tier.\<close>

definition checkUserRateLimit ::
  "'c cache_get \<Rightarrow> 'c cache_set \<Rightarrow> string \<Rightarrow> string \<Rightarrow> time \<Rightarrow> 'c \<Rightarrow> rate_limit_status option \<times> 'c" where
  "checkUserRateLimit cget cset userId userTier now c =
     (case getUserTierRateLimit userTier of
        None \<Rightarrow> (None, c)
      | Some cfg \<Rightarrow> apfst Some (checkRateLimit cget cset (key_USER userId) (cfg_max cfg) (cfg_windowMs cfg) now c))"

definition checkIpRateLimit ::
  "'c cache_get \<Rightarrow> 'c cache_set \<Rightarrow> string \<Rightarrow> time \<Rightarrow> 'c \<Rightarrow> rate_limit_status \<times> 'c" where
  "checkIpRateLimit cget cset ip now c = checkRateLimit cget cset (key_IP ip) 1000 (15 * 60 * 1000) now c"

definition checkEndpointRateLimit ::
  "'c cache_get \<Rightarrow> 'c cache_set \<Rightarrow> string \<Rightarrow> time \<Rightarrow> 'c \<Rightarrow> rate_limit_status \<times> 'c" where
  "checkEndpointRateLimit cget cset endpoint now c =
     (case getEndpointRateLimit endpoint of
        None \<Rightarrow> (\<lparr>st_limit = 0, st_remaining = 0, st_reset = 0, st_retryAfter = None, st_isExceeded = False\<rparr>, c)
      | Some cfg \<Rightarrow> checkRateLimit cget cset (key_ENDPOINT endpoint) (cfg_max cfg) (cfg_windowMs cfg) now c)"

definition checkApiKeyRateLimit ::
  "'c cache_get \<Rightarrow> 'c cache_set \<Rightarrow> string \<Rightarrow> time \<Rightarrow> 'c \<Rightarrow> rate_limit_status option \<times> 'c" where
  "checkApiKeyRateLimit cget cset apiKey now c =
     (case getUserTierRateLimit ''apiKey'' of
        None \<Rightarrow> (None, c)
      | Some cfg \<Rightarrow> apfst Some (checkRateLimit cget cset (key_API_KEY apiKey) (cfg_max cfg) (cfg_windowMs cfg) now c))"

definition checkScopedRateLimit ::
  "'c cache_get \<Rightarrow> 'c cache_set \<Rightarrow> string \<Rightarrow> string \<Rightarrow> int \<Rightarrow> int \<Rightarrow> time \<Rightarrow> 'c \<Rightarrow> rate_limit_status \<times> 'c" where
  "checkScopedRateLimit cget cset scope identifier mx windowMs now c =
     checkRateLimit cget cset (key_SCOPE scope identifier) mx windowMs now c"

definition checkUserIpRateLimit ::
  "'c cache_get \<Rightarrow> 'c cache_set \<Rightarrow> string \<Rightarrow> string \<Rightarrow> time \<Rightarrow> 'c \<Rightarrow> rate_limit_status \<times> 'c" where
  "checkUserIpRateLimit cget cset userId ip now c =
     checkRateLimit cget cset (key_USER_IP userId ip) 200 (15 * 60 * 1000) now c"

text \<open>The four resets delete the key; \<open>cdel\<close> is the cache's \<open>del\<close>.\<close>

definition resetUserRateLimit :: "('c \<Rightarrow> string \<Rightarrow> 'c) \<Rightarrow> string \<Rightarrow> 'c \<Rightarrow> 'c" where
  "resetUserRateLimit cdel userId c = cdel c (key_USER userId)"
definition resetIpRateLimit :: "('c \<Rightarrow> string \<Rightarrow> 'c) \<Rightarrow> string \<Rightarrow> 'c \<Rightarrow> 'c" where
  "resetIpRateLimit cdel ip c = cdel c (key_IP ip)"
definition resetEndpointRateLimit :: "('c \<Rightarrow> string \<Rightarrow> 'c) \<Rightarrow> string \<Rightarrow> 'c \<Rightarrow> 'c" where
  "resetEndpointRateLimit cdel endpoint c = cdel c (key_ENDPOINT endpoint)"
definition resetApiKeyRateLimit :: "('c \<Rightarrow> string \<Rightarrow> 'c) \<Rightarrow> string \<Rightarrow> 'c \<Rightarrow> 'c" where
  "resetApiKeyRateLimit cdel apiKey c = cdel c (key_API_KEY apiKey)"

definition getHeaders :: "rate_limit_status \<Rightarrow> (string \<times> string) list" where
  "getHeaders status =
     [(''X-RateLimit-Limit'', show_int (st_limit status)),
      (''X-RateLimit-Remaining'', show_int (st_remaining status)),
      (''X-RateLimit-Reset'', show_int (st_reset status))]
     @ (case st_retryAfter status of
          Some n \<Rightarrow> if n \<noteq> 0 then [(''Retry-After'', show_int n)] else []
        | None \<Rightarrow> [])"

subsection \<open>What the service relies on in the cache\<close>

locale ttl_cache =
  fixes cget :: "'c cache_get" and cset :: "'c cache_set"
  assumes get_available: "\<exists>v. cget c now k = Inr v"
    and set_available: "\<exists>c'. cset c now k r ttl = Inr c'"
    and get_set_same: "cset c now k r ttl = Inr c' \<Longrightarrow> 0 < ttl \<Longrightarrow> now \<le> t \<Longrightarrow>
      cget c' t k = Inr (if t < now + ttl then Some r else None)"
    and get_set_other: "cset c now k r ttl = Inr c' \<Longrightarrow> k' \<noteq> k \<Longrightarrow> cget c' t k' = cget c t k'"

definition limiter_hit ::
  "'c cache_get \<Rightarrow> 'c cache_set \<Rightarrow> string \<Rightarrow> int \<Rightarrow> int \<Rightarrow> time \<Rightarrow> 'c \<Rightarrow> bool \<times> 'c" where
  "limiter_hit cget cset key limit windowMs now c =
     (let (status, c') = checkRateLimit cget cset key limit windowMs now c in (\<not> st_isExceeded status, c'))"

definition limiter_active :: "'c cache_get \<Rightarrow> string \<Rightarrow> time \<Rightarrow> 'c \<Rightarrow> (int \<times> time) option" where
  "limiter_active cget key now c =
     (case cget c now key of
        Inr (Some r) \<Rightarrow> if now < rec_resetAt r then Some (rec_count r, rec_resetAt r) else None
      | _ \<Rightarrow> None)"

lemma snd_limiter_hit:
  "snd (limiter_hit cget cset key limit windowMs now c) = snd (checkRateLimit cget cset key limit windowMs now c)"
  by (simp add: limiter_hit_def Let_def case_prod_beta)

context ttl_cache
begin

text \<open>With an available cache, a check is one step of the fixed window.\<close>

lemma check_step:
  "\<exists>c'. cset c now key \<lparr>rec_count = fst (next_window (limiter_active cget key now c) now windowMs),
      rec_resetAt = snd (next_window (limiter_active cget key now c) now windowMs),
      rec_windowMs = windowMs\<rparr> (snd (next_window (limiter_active cget key now c) now windowMs) - now) = Inr c'
    \<and> snd (checkRateLimit cget cset key limit windowMs now c) = c'
    \<and> st_isExceeded (fst (checkRateLimit cget cset key limit windowMs now c)) =
        (limit < fst (next_window (limiter_active cget key now c) now windowMs))"
proof -
  obtain v where v: "cget c now key = Inr v" using get_available by blast
  let ?w = "next_window (limiter_active cget key now c) now windowMs"
  obtain c' where c': "cset c now key \<lparr>rec_count = fst ?w, rec_resetAt = snd ?w,
      rec_windowMs = windowMs\<rparr> (snd ?w - now) = Inr c'"
    using set_available by blast
  show ?thesis
    using c' by (intro exI [of _ c'])
      (auto simp: checkRateLimit_def limiter_active_def next_window_def v Let_def
        split: option.splits if_splits)
qed

lemma check_other_key:
  assumes "k' \<noteq> key"
  shows "cget (snd (checkRateLimit cget cset key limit windowMs now c)) t k' = cget c t k'"
  using check_step [of c now key windowMs limit] get_set_other assms by metis

lemma limiter_next:
  assumes "0 < windowMs" and "now \<le> t"
  shows "limiter_active cget key t (snd (checkRateLimit cget cset key limit windowMs now c)) =
    (let w = next_window (limiter_active cget key now c) now windowMs in if t < snd w then Some w else None)"
proof -
  let ?w = "next_window (limiter_active cget key now c) now windowMs"
  obtain c' where c': "cset c now key \<lparr>rec_count = fst ?w, rec_resetAt = snd ?w,
      rec_windowMs = windowMs\<rparr> (snd ?w - now) = Inr c'"
    and snd: "snd (checkRateLimit cget cset key limit windowMs now c) = c'"
    using check_step by blast
  have "now < snd ?w"
    using assms(1) by (auto simp: limiter_active_def next_window_def split: sum.splits option.splits if_splits)
  then have "cget c' t key = Inr (if t < snd ?w then
      Some \<lparr>rec_count = fst ?w, rec_resetAt = snd ?w, rec_windowMs = windowMs\<rparr> else None)"
    using get_set_same [OF c' _ assms(2)] by simp
  then show ?thesis by (simp add: limiter_active_def snd Let_def)
qed

end

sublocale ttl_cache \<subseteq> limiter: fixed_window "limiter_hit cget cset key limit windowMs"
    "limiter_active cget key" limit windowMs
  for key limit windowMs
proof
  fix now t c k r
  show "limiter_active cget key now c = Some (k, r) \<Longrightarrow> now < r"
    by (auto simp: limiter_active_def split: sum.splits option.splits if_splits)
  show "fst (limiter_hit cget cset key limit windowMs now c) =
      (fst (next_window (limiter_active cget key now c) now windowMs) \<le> limit)"
    using check_step [of c now key windowMs limit]
    by (auto simp: limiter_hit_def split: prod.split)
  show "0 < windowMs \<Longrightarrow> now \<le> t \<Longrightarrow>
      limiter_active cget key t (snd (limiter_hit cget cset key limit windowMs now c)) =
      (let w = next_window (limiter_active cget key now c) now windowMs
       in if t < snd w then Some w else None)"
    by (simp add: limiter_next snd_limiter_hit)
qed

text \<open>A store with that behaviour: a map from keys to records with their expiry.\<close>

type_synonym ttl_store = "string \<Rightarrow> (rate_limit_record \<times> time) option"

definition store_get :: "ttl_store cache_get" where
  "store_get s now k = Inr (case s k of Some (r, e) \<Rightarrow> if now < e then Some r else None | None \<Rightarrow> None)"

definition store_set :: "ttl_store cache_set" where
  "store_set s now k r ttl = Inr (s(k \<mapsto> (r, now + ttl)))"

interpretation store: ttl_cache store_get store_set
  by unfold_locales (auto simp: store_get_def store_set_def)

subsection \<open>Buckets do not collide\<close>

lemma append_colon_inject:
  assumes "CHR '':'' \<notin> set a" "CHR '':'' \<notin> set b" and "u @ '':'' @ a = v @ '':'' @ b"
  shows "u = v \<and> a = b"
proof -
  have "js_split CHR '':'' (rev a @ CHR '':'' # rev u) = js_split CHR '':'' (rev b @ CHR '':'' # rev v)"
    using arg_cong [OF assms(3), of rev] by simp
  then have "rev a = rev b"
    using assms(1,2) by (simp add: js_split_append)
  then show ?thesis using assms(3) by simp
qed

lemma rate_keys_disjoint:
  "key_USER u \<noteq> key_USER_IP u' ip" "key_USER u \<noteq> key_IP ip" "key_USER u \<noteq> key_ENDPOINT e"
  "key_USER u \<noteq> key_API_KEY k" "key_USER u \<noteq> key_SCOPE s i" "key_USER_IP u ip \<noteq> key_IP ip'"
  "key_USER_IP u ip \<noteq> key_ENDPOINT e" "key_USER_IP u ip \<noteq> key_API_KEY k" "key_USER_IP u ip \<noteq> key_SCOPE s i"
  "key_IP ip \<noteq> key_ENDPOINT e" "key_IP ip \<noteq> key_API_KEY k" "key_IP ip \<noteq> key_SCOPE s i"
  "key_ENDPOINT e \<noteq> key_API_KEY k" "key_ENDPOINT e \<noteq> key_SCOPE s i" "key_API_KEY k \<noteq> key_SCOPE s i"
  by (simp_all add: key_USER_def key_USER_IP_def key_IP_def key_ENDPOINT_def key_API_KEY_def key_SCOPE_def)

subsection \<open>Property\<close>

text \<open>The limiter fails open: when the cache cannot be read or cannot be written, the request is not counted
  as exceeding, the status reports a full budget, and the cache is left as it was.\<close>

theorem limiter_fails_open:
  assumes "cget c now key = Inl () \<or> (\<forall>r ttl. cset c now key r ttl = Inl ())"
  shows "checkRateLimit cget cset key limit windowMs now c =
    (\<lparr>st_limit = limit, st_remaining = limit - 1, st_reset = (now + windowMs) div 1000,
      st_retryAfter = None, st_isExceeded = False\<rparr>, c)"
  using assms by (auto simp: checkRateLimit_def fail_open_def Let_def split: sum.split option.split)

theorem limiter_fails_open_witness:
  "st_isExceeded (fst (checkRateLimit (\<lambda>c t k. Inl ()) store_set ''k'' 0 1000 5 (\<lambda>_. None))) = False"
  using limiter_fails_open [of "\<lambda>c t k. Inl ()" "\<lambda>_. None" 5 "''k''" store_set 0 1000] by simp

end
