(* ===== verification/Rate_Guards.thy ===== *)
theory Rate_Guards
  imports Rate_Limit
begin

text \<open>
  The guards that put \<open>RateLimitService\<close> in front of a route: \<open>src/auth/guards/rate-limit.guard.ts\<close>,
  \<open>src/auth/guards/auth-route-rate-limit.guard.ts\<close>, \<open>src/users/guards/users-route-rate-limit.guard.ts\<close> and
  \<open>src/properties/guards/properties-route-rate-limit.guard.ts\<close>.

  \<open>createSha256\<close> is Node's hash and an argument \<open>sha\<close>; \<open>process.env.TRUST_PROXY\<close> is an argument.
  Response headers are the list of \<open>setHeader\<close> calls in order.  A guard that throws an
  \<open>HttpException\<close> returns \<open>Inl\<close>; the cache it leaves is returned on every path.
\<close>

subsection \<open>The client address\<close>

text \<open>A header as Node parses it: absent, one string, or several.\<close>

datatype header = No_header | One_header string | Many_headers "string list"

record http_request =
  rq_method :: string
  rq_route_path :: "string option"
  rq_url :: string
  rq_ip :: "string option"
  rq_connection_remote :: "string option"
  rq_socket_remote :: "string option"
  rq_forwarded_for :: header

text \<open>\<open>a || b\<close> on optional strings: the empty string is falsy; \<open>a ?? b\<close> keeps it.\<close>

definition js_or :: "string option \<Rightarrow> string option \<Rightarrow> string option" where
  "js_or a b = (case a of Some s \<Rightarrow> if s \<noteq> [] then Some s else b | None \<Rightarrow> b)"

definition js_nullish :: "'a option \<Rightarrow> 'a option \<Rightarrow> 'a option" where
  "js_nullish a b = (case a of Some s \<Rightarrow> Some s | None \<Rightarrow> b)"

definition in_range :: "char \<Rightarrow> char \<Rightarrow> char \<Rightarrow> bool" where
  "in_range lo hi c = ((of_char lo :: nat) \<le> of_char c \<and> (of_char c :: nat) \<le> of_char hi)"

text \<open>\<open>25[0-5]|2[0-4]\d|1\d\d|[1-9]?\d\<close>, anchored at both ends.\<close>

definition octet_re :: "string \<Rightarrow> bool" where
  "octet_re s = (case s of
     [a] \<Rightarrow> is_digit a
   | [a, b] \<Rightarrow> in_range CHR ''1'' CHR ''9'' a \<and> is_digit b
   | [a, b, c] \<Rightarrow>
       a = CHR ''2'' \<and> b = CHR ''5'' \<and> in_range CHR ''0'' CHR ''5'' c
       \<or> a = CHR ''2'' \<and> in_range CHR ''0'' CHR ''4'' b \<and> is_digit c
       \<or> a = CHR ''1'' \<and> is_digit b \<and> is_digit c
   | _ \<Rightarrow> False)"

definition hex_or_colon :: "char \<Rightarrow> bool" where
  "hex_or_colon c = (is_digit c \<or> in_range CHR ''a'' CHR ''f'' c \<or> in_range CHR ''A'' CHR ''F'' c \<or> c = CHR '':'')"

definition ip_entry_re :: "string \<Rightarrow> bool" where
  "ip_entry_re s =
     (length (js_split CHR ''.'' s) = 4 \<and> list_all octet_re (js_split CHR ''.'' s)
      \<or> s \<noteq> [] \<and> list_all hex_or_colon s)"

definition sanitizeIpEntry :: "string \<Rightarrow> string option" where
  "sanitizeIpEntry entry =
     (if entry = [] then None
      else let trimmed = js_trim entry in
           if trimmed = [] then None
           else if ip_entry_re trimmed then Some trimmed else None)"

definition isTrustProxyEnabled :: "string option \<Rightarrow> bool" where
  "isTrustProxyEnabled env = (case env of
     None \<Rightarrow> False
   | Some value \<Rightarrow> if value = [] then False
       else js_lower (js_trim value) \<notin> {''false'', ''0'', ''none''})"

definition fromSocket :: "http_request \<Rightarrow> string" where
  "fromSocket request =
     the (js_or (rq_ip request) (js_or (rq_connection_remote request)
       (js_or (rq_socket_remote request) (Some ''unknown''))))"

definition forwarded_str :: "header \<Rightarrow> string option" where
  "forwarded_str h = (case h of
     No_header \<Rightarrow> None | One_header s \<Rightarrow> Some s
   | Many_headers xs \<Rightarrow> (case xs of [] \<Rightarrow> None | x # _ \<Rightarrow> Some x))"

definition forwarded_candidates :: "string \<Rightarrow> string list" where
  "forwarded_candidates s = List.map_filter sanitizeIpEntry (js_split CHR '','' s)"

definition resolveRawClientIp :: "string option \<Rightarrow> http_request \<Rightarrow> string" where
  "resolveRawClientIp env request =
     (if \<not> isTrustProxyEnabled env then fromSocket request
      else case forwarded_str (rq_forwarded_for request) of
        None \<Rightarrow> fromSocket request
      | Some s \<Rightarrow>
          if s = [] then fromSocket request
          else let candidates = forwarded_candidates s in
               if candidates = [] then fromSocket request else last candidates)"

definition getClientIp :: "(string \<Rightarrow> string) \<Rightarrow> string option \<Rightarrow> http_request \<Rightarrow> string" where
  "getClientIp sha env request =
     (let rawIp = resolveRawClientIp env request in if rawIp = ''unknown'' then rawIp else sha rawIp)"

subsection \<open>\<open>RateLimitGuard\<close>\<close>

record auth_user =
  au_sub :: string
  au_type :: string
  au_tier :: "string option"

definition endpoint_name :: "http_request \<Rightarrow> string" where
  "endpoint_name request =
     rq_method request @ '' '' @ the (js_or (rq_route_path request) (Some (rq_url request)))"

definition user_tier :: "auth_user \<Rightarrow> string" where
  "user_tier u = (if au_type u = ''api-key'' then ''apiKey''
     else js_lower (the (js_or (au_tier u) (Some ''FREE''))))"

type_synonym headers = "(string \<times> string) list"

text \<open>The endpoint half of the handler, after the caller's own buckets let the request through.\<close>

definition guard_endpoint ::
  "'c cache_get \<Rightarrow> 'c cache_set \<Rightarrow> http_request \<Rightarrow> headers \<Rightarrow> time \<Rightarrow> 'c \<Rightarrow> (bool, 'c \<times> headers) outcome" where
  "guard_endpoint cget cset request hs now c =
     (let (st, c') = checkEndpointRateLimit cget cset (endpoint_name request) now c in
      if 0 < st_limit st then
        (let hs' = hs @ getHeaders st in
         if st_isExceeded st
         then (Inl (TooManyRequests ''Too many requests to this endpoint. Please try again later.''
                 (st_retryAfter st)), c', hs')
         else (Inr True, c', hs'))
      else (Inr True, c', hs))"

text \<open>The caller's buckets: per user and per user and address for an authenticated request (both are
  counted before either is tested), per address otherwise.  An unknown tier is a TypeError, which
  the handler's \<open>catch\<close> turns into \<open>true\<close>.\<close>

definition guard_user ::
  "'c cache_get \<Rightarrow> 'c cache_set \<Rightarrow> http_request \<Rightarrow> auth_user \<Rightarrow> string \<Rightarrow> time \<Rightarrow> 'c \<Rightarrow> (bool, 'c \<times> headers) outcome" where
  "guard_user cget cset request u ip now c =
     (let (userStatus, c1) = checkUserRateLimit cget cset (au_sub u) (user_tier u) now c;
          (userIpStatus, c2) = checkUserIpRateLimit cget cset (au_sub u) ip now c1
      in case userStatus of
           None \<Rightarrow> (Inr True, c2, [])
         | Some us \<Rightarrow>
             if st_isExceeded us then
               (Inl (TooManyRequests (''Rate limit exceeded. Max '' @ show_int (st_limit us)
                   @ '' requests per 15 minutes.'') (st_retryAfter us)), c2, getHeaders us)
             else if st_isExceeded userIpStatus then
               (Inl (TooManyRequests
                   ''Too many requests from this account on this IP. Please try again later.''
                   (st_retryAfter userIpStatus)), c2, getHeaders us)
             else guard_endpoint cget cset request (getHeaders us) now c2)"

definition guard_ip ::
  "'c cache_get \<Rightarrow> 'c cache_set \<Rightarrow> http_request \<Rightarrow> string \<Rightarrow> time \<Rightarrow> 'c \<Rightarrow> (bool, 'c \<times> headers) outcome" where
  "guard_ip cget cset request ip now c =
     (let (st, c1) = checkIpRateLimit cget cset ip now c in
      if st_isExceeded st
      then (Inl (TooManyRequests ''Too many requests from your IP. Please try again later.''
              (st_retryAfter st)), c1, getHeaders st)
      else guard_endpoint cget cset request (getHeaders st) now c1)"

definition RateLimitGuard_canActivate ::
  "(string \<Rightarrow> string) \<Rightarrow> 'c cache_get \<Rightarrow> 'c cache_set \<Rightarrow> string option \<Rightarrow> bool \<Rightarrow> http_request \<Rightarrow> auth_user option \<Rightarrow>
   time \<Rightarrow> 'c \<Rightarrow> (bool, 'c \<times> headers) outcome" where
  "RateLimitGuard_canActivate sha cget cset env skip request authUser now c =
     (if skip then (Inr True, c, [])
      else let ip = getClientIp sha env request in
        case authUser of
          Some u \<Rightarrow> if au_sub u \<noteq> [] then guard_user cget cset request u ip now c
                    else guard_ip cget cset request ip now c
        | None \<Rightarrow> guard_ip cget cset request ip now c)"

subsection \<open>The per-route guards\<close>

record route_limit_options =
  ro_max :: int
  ro_windowMs :: int

text \<open>The answer the three guards derive from a status.\<close>

definition route_limit_answer :: "rate_limit_status \<times> 'c \<Rightarrow> (bool, 'c \<times> headers) outcome" where
  "route_limit_answer r =
     (let (st, c') = r in
      if st_isExceeded st
      then (Inl (TooManyRequests ''Too many requests. Please try again later.'' (st_retryAfter st)), c',
            (case st_retryAfter st of Some n \<Rightarrow> [(''Retry-After'', show_int n)] | None \<Rightarrow> []))
      else (Inr True, c', []))"

definition route_name :: "http_request \<Rightarrow> string" where
  "route_name request =
     rq_method request @ '' '' @ the (js_nullish (rq_route_path request) (Some (rq_url request)))"

definition auth_route_client :: "(string \<Rightarrow> string) \<Rightarrow> http_request \<Rightarrow> string" where
  "auth_route_client sha request =
     sha (the (js_nullish (rq_ip request) (js_nullish (rq_socket_remote request) (Some ''unknown''))))"

definition AuthRouteRateLimitGuard_canActivate ::
  "(string \<Rightarrow> string) \<Rightarrow> 'c cache_get \<Rightarrow> 'c cache_set \<Rightarrow> route_limit_options option \<Rightarrow> http_request \<Rightarrow> time \<Rightarrow> 'c \<Rightarrow>
   (bool, 'c \<times> headers) outcome" where
  "AuthRouteRateLimitGuard_canActivate sha cget cset options request now c =
     (case options of
        None \<Rightarrow> (Inr True, c, [])
      | Some ro \<Rightarrow> route_limit_answer
          (checkScopedRateLimit cget cset (''auth-route:'' @ route_name request)
            (auth_route_client sha request) (ro_max ro) (ro_windowMs ro) now c))"

text \<open>\<open>authSub\<close> and \<open>userSub\<close> are \<open>request.authUser?.sub\<close> and \<open>request.user?.sub\<close>.\<close>

definition route_caller :: "string option \<Rightarrow> string option \<Rightarrow> http_request \<Rightarrow> string" where
  "route_caller authSub userSub request =
     the (js_nullish authSub (js_nullish userSub (js_nullish (rq_ip request) (Some ''unknown''))))"

definition UsersRouteRateLimitGuard_canActivate ::
  "'c cache_get \<Rightarrow> 'c cache_set \<Rightarrow> route_limit_options option \<Rightarrow> string option \<Rightarrow> string option \<Rightarrow> http_request \<Rightarrow>
   time \<Rightarrow> 'c \<Rightarrow> (bool, 'c \<times> headers) outcome" where
  "UsersRouteRateLimitGuard_canActivate cget cset options authSub userSub request now c =
     (case options of
        None \<Rightarrow> (Inr True, c, [])
      | Some ro \<Rightarrow> route_limit_answer
          (checkScopedRateLimit cget cset (''users-route:'' @ route_name request)
            (route_caller authSub userSub request) (ro_max ro) (ro_windowMs ro) now c))"

definition PropertiesRouteRateLimitGuard_canActivate ::
  "'c cache_get \<Rightarrow> 'c cache_set \<Rightarrow> route_limit_options option \<Rightarrow> string option \<Rightarrow> string option \<Rightarrow> http_request \<Rightarrow>
   time \<Rightarrow> 'c \<Rightarrow> (bool, 'c \<times> headers) outcome" where
  "PropertiesRouteRateLimitGuard_canActivate cget cset options authSub userSub request now c =
     (case options of
        None \<Rightarrow> (Inr True, c, [])
      | Some ro \<Rightarrow> route_limit_answer
          (checkScopedRateLimit cget cset (''properties-route:'' @ route_name request)
            (route_caller authSub userSub request) (ro_max ro) (ro_windowMs ro) now c))"

subsection \<open>Facts about the client address\<close>

lemma digit_char_cases:
  "is_digit c \<longleftrightarrow> (\<exists>d<10. c = digit_char d)"
proof
  assume "is_digit c"
  then show "\<exists>d<10. c = digit_char d"
    by (intro exI [of _ "of_char c - 48"]) (auto simp: is_digit_def digit_char_def Let_def)
qed auto

lemma sanitizeIpEntry_Some:
  "sanitizeIpEntry e = Some ip \<Longrightarrow> ip \<noteq> [] \<and> ip = js_trim e \<and> ip_entry_re ip"
  by (auto simp: sanitizeIpEntry_def Let_def split: if_splits)

lemma js_split_concat: "c \<in> set s \<Longrightarrow> c = sep \<or> (\<exists>p \<in> set (js_split sep s). c \<in> set p)"
  by (induction s) (auto split: list.splits)

lemma octet_re_digits: "octet_re s \<Longrightarrow> list_all is_digit s"
proof (induction s rule: induct_list012)
  case (3 a b s)
  then show ?case
    by (cases s) (auto simp: octet_re_def in_range_def is_digit_def Let_def split: list.splits)
qed (auto simp: octet_re_def)

lemma ip_entry_chars:
  assumes "ip_entry_re s" "c \<in> set s"
  shows "hex_or_colon c \<or> c = CHR ''.''"
proof (cases "s \<noteq> [] \<and> list_all hex_or_colon s")
  case True
  then show ?thesis using assms(2) by (auto simp: list_all_iff)
next
  case False
  then have "list_all octet_re (js_split CHR ''.'' s)" using assms(1) by (auto simp: ip_entry_re_def)
  then have "c = CHR ''.'' \<or> is_digit c"
    using js_split_concat [OF assms(2), of "CHR ''.''"] octet_re_digits by (fastforce simp: list_all_iff)
  then show ?thesis by (auto simp: hex_or_colon_def)
qed

lemma js_split_snoc:
  assumes "sep \<notin> set q"
  shows "js_split sep (p @ sep # q) = js_split sep p @ [q]"
  using js_split_none [OF assms]
  by (induction p) (auto split: list.split)

lemma forwarded_candidates_snoc:
  "CHR '','' \<notin> set q \<Longrightarrow> sanitizeIpEntry q = Some ip \<Longrightarrow>
   forwarded_candidates (p @ '','' @ q) = forwarded_candidates p @ [ip]"
  using js_split_snoc [of "CHR '',''" q p]
  by (simp add: forwarded_candidates_def List.map_filter_def)

lemma last_candidate_sane:
  assumes "forwarded_candidates s \<noteq> []"
  shows "ip_entry_re (last (forwarded_candidates s))"
proof -
  have "\<forall>ip \<in> set (forwarded_candidates s). ip_entry_re ip"
    using sanitizeIpEntry_Some by (fastforce simp: forwarded_candidates_def List.map_filter_def)
  then show ?thesis using assms by simp
qed

subsection \<open>The route guards are fixed-window limiters\<close>

definition route_hit :: "(time \<Rightarrow> 'c \<Rightarrow> (bool, 'c \<times> headers) outcome) \<Rightarrow> time \<Rightarrow> 'c \<Rightarrow> bool \<times> 'c" where
  "route_hit handler now c = (let (res, c', hs) = handler now c in (res = Inr True, c'))"

lemma route_limit_answer_hit:
  "(fst (route_limit_answer r) = Inr True) = (\<not> st_isExceeded (fst r))"
  "fst (snd (route_limit_answer r)) = snd r"
  by (auto simp: route_limit_answer_def Let_def split: prod.split)

lemma route_hit_limiter:
  "(\<And>now c. handler now c = route_limit_answer (checkRateLimit cget cset key mx w now c)) \<Longrightarrow>
   route_hit handler = limiter_hit cget cset key mx w"
  by (intro ext) (auto simp: route_hit_def limiter_hit_def route_limit_answer_hit Let_def case_prod_beta)

definition auth_route_key :: "(string \<Rightarrow> string) \<Rightarrow> http_request \<Rightarrow> string" where
  "auth_route_key sha request = key_SCOPE (''auth-route:'' @ route_name request) (auth_route_client sha request)"
definition users_route_key :: "string option \<Rightarrow> string option \<Rightarrow> http_request \<Rightarrow> string" where
  "users_route_key a u request = key_SCOPE (''users-route:'' @ route_name request) (route_caller a u request)"
definition properties_route_key :: "string option \<Rightarrow> string option \<Rightarrow> http_request \<Rightarrow> string" where
  "properties_route_key a u request =
     key_SCOPE (''properties-route:'' @ route_name request) (route_caller a u request)"

lemma route_guards_hit:
  "route_hit (AuthRouteRateLimitGuard_canActivate sha cget cset (Some ro) request) =
     limiter_hit cget cset (auth_route_key sha request) (ro_max ro) (ro_windowMs ro)"
  "route_hit (UsersRouteRateLimitGuard_canActivate cget cset (Some ro) a u request) =
     limiter_hit cget cset (users_route_key a u request) (ro_max ro) (ro_windowMs ro)"
  "route_hit (PropertiesRouteRateLimitGuard_canActivate cget cset (Some ro) a u request) =
     limiter_hit cget cset (properties_route_key a u request) (ro_max ro) (ro_windowMs ro)"
  by (rule route_hit_limiter; simp add: AuthRouteRateLimitGuard_canActivate_def
      UsersRouteRateLimitGuard_canActivate_def PropertiesRouteRateLimitGuard_canActivate_def
      checkScopedRateLimit_def auth_route_key_def users_route_key_def properties_route_key_def)+

text \<open>The answers of a sequence of requests to one guarded route.\<close>

fun route_answers :: "(time \<Rightarrow> 'c \<Rightarrow> (bool, 'c \<times> headers) outcome) \<Rightarrow> time list \<Rightarrow> 'c \<Rightarrow> bool list" where
  "route_answers handler [] c = []"
| "route_answers handler (t # ts) c =
     (fst (handler t c) = Inr True) # route_answers handler ts (fst (snd (handler t c)))"

context ttl_cache
begin

lemma route_answers_run:
  assumes "route_hit handler = limiter_hit cget cset key mx w"
  shows "route_answers handler ts c = limiter.run key mx w ts c"
proof -
  have "fst (handler t c) = Inr True \<longleftrightarrow> fst (limiter_hit cget cset key mx w t c)"
       "fst (snd (handler t c)) = snd (limiter_hit cget cset key mx w t c)" for t c
    using assms [symmetric] by (simp_all add: route_hit_def Let_def case_prod_beta)
  then show ?thesis by (induction ts arbitrary: c) simp_all
qed

text \<open>A user request that the guard lets through was within its own user bucket.\<close>

lemma guard_user_admits:
  assumes "fst (guard_user cget cset request u ip now c) = Inr True"
    and "getUserTierRateLimit (user_tier u) = Some cfg"
  shows "fst (limiter_hit cget cset (key_USER (au_sub u)) (cfg_max cfg) (cfg_windowMs cfg) now c)"
  using assms
  by (auto simp: guard_user_def checkUserRateLimit_def checkUserIpRateLimit_def limiter_hit_def
      apfst_def Let_def map_prod_def split: prod.splits if_splits)

end

text \<open>What a window gives the answers of a guarded route.\<close>

context ttl_cache
begin

lemma route_fresh:
  assumes hit: "route_hit handler = limiter_hit cget cset key mx w" and "0 < w" and "sorted (t0 # ts)"
    and "\<forall>t \<in> set ts. t < t0 + w" and "cget c t0 key = Inr None"
  shows "route_answers handler (t0 # ts) c = map (\<lambda>i. int i < mx) [0..<Suc (length ts)]"
proof -
  have "limiter_active cget key t0 c = None" using assms(5) by (simp add: limiter_active_def)
  then have "limiter.run key mx w (t0 # ts) c = map (\<lambda>i. int i < mx) [0..<Suc (length ts)]"
    using assms(4) by (intro limiter.fresh_window [OF assms(2,3)]) simp_all
  then show ?thesis by (simp only: route_answers_run [OF hit])
qed

text \<open>Whatever the bucket held before, a span shorter than a window sees at most two full budgets.\<close>

lemma route_burst:
  assumes hit: "route_hit handler = limiter_hit cget cset key mx w" and w: "0 < w" and "0 \<le> mx"
    and srt: "sorted (t0 # ts)" and span: "\<forall>t \<in> set ts. t < t0 + w"
    and old: "\<And>r. cget c t0 key = Inr (Some r) \<Longrightarrow> 0 \<le> rec_count r"
  shows "int (length (filter id (route_answers handler (t0 # ts) c))) \<le> 2 * mx"
proof -
  obtain k r where nw: "next_window (limiter_active cget key t0 c) t0 w = (k, r)" by fastforce
  have k: "1 \<le> k"
    using nw old by (auto simp: next_window_def limiter_active_def split: option.splits sum.splits if_splits)
  have act: "limiter_active cget key u (snd (limiter_hit cget cset key mx w t0 c)) = (if u < r then Some (k, r) else None)"
    if "t0 \<le> u" for u
    using limiter.hit_active [OF w that, of key mx c] by (simp add: nw)
  have "limiter.admitted key mx w ts (snd (limiter_hit cget cset key mx w t0 c)) \<le> max 0 (mx - k) + mx"
    using span by (intro limiter.burst_bound [OF w assms(3) srt order_refl _ act]) auto
  moreover have "fst (limiter_hit cget cset key mx w t0 c) \<longleftrightarrow> k \<le> mx"
    using limiter.hit_admits [of key mx w t0 c] by (simp add: nw)
  ultimately have "limiter.admitted key mx w (t0 # ts) c \<le> 2 * mx"
    using k assms(3) by (simp add: limiter.admitted_Cons max_def split: if_splits)
  then show ?thesis by (simp only: limiter.admitted_def route_answers_run [OF hit])
qed

end

subsection \<open>Traffic of many callers through \<open>RateLimitGuard\<close>\<close>

record guard_event =
  ge_time :: time
  ge_skip :: bool
  ge_request :: http_request
  ge_user :: "auth_user option"

definition guard_step ::
  "(string \<Rightarrow> string) \<Rightarrow> 'c cache_get \<Rightarrow> 'c cache_set \<Rightarrow> string option \<Rightarrow> guard_event \<Rightarrow> 'c \<Rightarrow> (bool, 'c \<times> headers) outcome" where
  "guard_step sha cget cset env e c =
     RateLimitGuard_canActivate sha cget cset env (ge_skip e) (ge_request e) (ge_user e) (ge_time e) c"

fun guard_trace ::
  "(string \<Rightarrow> string) \<Rightarrow> 'c cache_get \<Rightarrow> 'c cache_set \<Rightarrow> string option \<Rightarrow> guard_event list \<Rightarrow> 'c \<Rightarrow> (guard_event \<times> bool) list" where
  "guard_trace sha cget cset env [] c = []"
| "guard_trace sha cget cset env (e # es) c =
     (let (res, c', hs) = guard_step sha cget cset env e c in
      (e, res = Inr True) # guard_trace sha cget cset env es c')"

definition by_user :: "string \<Rightarrow> string \<Rightarrow> guard_event \<Rightarrow> bool" where
  "by_user sub tier e \<longleftrightarrow> \<not> ge_skip e \<and> sub \<noteq> [] \<and>
     (case ge_user e of Some u \<Rightarrow> au_sub u = sub \<and> user_tier u = tier | None \<Rightarrow> False)"

definition not_by_user :: "string \<Rightarrow> guard_event \<Rightarrow> bool" where
  "not_by_user sub e \<longleftrightarrow> ge_skip e \<or>
     (case ge_user e of Some u \<Rightarrow> au_sub u \<noteq> sub | None \<Rightarrow> True)"

definition admitted_of :: "string \<Rightarrow> (guard_event \<times> bool) list \<Rightarrow> int" where
  "admitted_of sub tr = int (length (filter (\<lambda>(e, ok). ok \<and> \<not> not_by_user sub e) tr))"

lemma admitted_of_Cons:
  "admitted_of sub ((e, ok) # tr) = (if ok \<and> \<not> not_by_user sub e then 1 else 0) + admitted_of sub tr"
  by (simp add: admitted_of_def)

context ttl_cache
begin

lemma endpoint_other_key:
  assumes "\<forall>e. k \<noteq> key_ENDPOINT e"
  shows "cget (fst (snd (guard_endpoint cget cset request hs now c))) t k = cget c t k"
proof -
  have "cget (snd (checkEndpointRateLimit cget cset e now c)) t k = cget c t k" for e
    using assms by (simp add: checkEndpointRateLimit_def check_other_key split: option.split)
  moreover have "fst (snd (guard_endpoint cget cset request hs now c)) =
      snd (checkEndpointRateLimit cget cset (endpoint_name request) now c)"
    by (simp add: guard_endpoint_def Let_def split: prod.split)
  ultimately show ?thesis by simp
qed

lemma user_check_other_key:
  "k \<noteq> key_USER sub \<Longrightarrow> cget (snd (checkUserRateLimit cget cset sub tier now c)) t k = cget c t k"
  by (simp add: checkUserRateLimit_def check_other_key split: option.split)

lemma guard_ip_user_key: "cget (fst (snd (guard_ip cget cset request ip now c))) t (key_USER sub) = cget c t (key_USER sub)"
proof -
  have "cget (snd (checkIpRateLimit cget cset ip now c)) t (key_USER sub) = cget c t (key_USER sub)"
    by (simp add: checkIpRateLimit_def check_other_key rate_keys_disjoint)
  then show ?thesis
    by (auto simp: guard_ip_def endpoint_other_key rate_keys_disjoint split: prod.splits)
qed

lemma guard_user_key:
  "cget (fst (snd (guard_user cget cset request u ip now c))) t (key_USER sub) =
   cget (snd (checkUserRateLimit cget cset (au_sub u) (user_tier u) now c)) t (key_USER sub)"
proof -
  have "cget (snd (checkUserIpRateLimit cget cset (au_sub u) ip now c')) t (key_USER sub) = cget c' t (key_USER sub)" for c'
    by (simp add: checkUserIpRateLimit_def check_other_key rate_keys_disjoint)
  from this [of "snd (checkUserRateLimit cget cset (au_sub u) (user_tier u) now c)"] show ?thesis
    by (auto simp: guard_user_def endpoint_other_key rate_keys_disjoint split: prod.splits option.splits)
qed

lemma step_other_user:
  assumes "not_by_user sub e"
  shows "cget (fst (snd (guard_step sha cget cset env e c))) t (key_USER sub) = cget c t (key_USER sub)"
proof -
  have "cget (snd (checkUserRateLimit cget cset (au_sub u) tier now c)) t (key_USER sub) = cget c t (key_USER sub)"
    if "au_sub u \<noteq> sub" for u tier now
    by (rule user_check_other_key) (use that in \<open>simp add: key_USER_def\<close>)
  then show ?thesis
    using assms
    by (auto simp: guard_step_def RateLimitGuard_canActivate_def not_by_user_def Let_def
        guard_user_key guard_ip_user_key split: option.splits)
qed

lemma step_by_user:
  assumes "by_user sub tier e" "getUserTierRateLimit tier = Some cfg" "0 < cfg_windowMs cfg" "ge_time e \<le> t"
  shows "limiter_active cget (key_USER sub) t (fst (snd (guard_step sha cget cset env e c))) =
      (let w = next_window (limiter_active cget (key_USER sub) (ge_time e) c) (ge_time e) (cfg_windowMs cfg)
       in if t < snd w then Some w else None)"
    and "fst (guard_step sha cget cset env e c) = Inr True \<Longrightarrow>
      fst (next_window (limiter_active cget (key_USER sub) (ge_time e) c) (ge_time e) (cfg_windowMs cfg)) \<le> cfg_max cfg"
proof -
  obtain u where u: "ge_user e = Some u" "au_sub u = sub" "user_tier u = tier" "sub \<noteq> []" "\<not> ge_skip e"
    using assms(1) by (auto simp: by_user_def split: option.splits)
  define ip where "ip = getClientIp sha env (ge_request e)"
  have step: "guard_step sha cget cset env e c = guard_user cget cset (ge_request e) u ip (ge_time e) c"
    using u by (simp add: guard_step_def RateLimitGuard_canActivate_def Let_def ip_def)
  have "snd (checkUserRateLimit cget cset sub tier (ge_time e) c) =
      snd (checkRateLimit cget cset (key_USER sub) (cfg_max cfg) (cfg_windowMs cfg) (ge_time e) c)"
    by (simp add: checkUserRateLimit_def assms(2))
  then have "limiter_active cget (key_USER sub) t (fst (snd (guard_step sha cget cset env e c))) =
      limiter_active cget (key_USER sub) t
        (snd (checkRateLimit cget cset (key_USER sub) (cfg_max cfg) (cfg_windowMs cfg) (ge_time e) c))"
    using u(2,3) by (simp add: limiter_active_def step guard_user_key)
  then show "limiter_active cget (key_USER sub) t (fst (snd (guard_step sha cget cset env e c))) =
      (let w = next_window (limiter_active cget (key_USER sub) (ge_time e) c) (ge_time e) (cfg_windowMs cfg)
       in if t < snd w then Some w else None)"
    using limiter_next [OF assms(3,4)] by simp
  show "fst (next_window (limiter_active cget (key_USER sub) (ge_time e) c) (ge_time e) (cfg_windowMs cfg)) \<le> cfg_max cfg"
    if "fst (guard_step sha cget cset env e c) = Inr True"
    using guard_user_admits [of "ge_request e" u ip "ge_time e" c cfg] that assms(2) u(2,3)
    by (simp add: step limiter.hit_admits)
qed

lemma admitted_in_window:
  assumes cfg: "getUserTierRateLimit tier = Some cfg" "0 < cfg_windowMs cfg"
    and "sorted (t0 # map ge_time es)"
    and "\<forall>e \<in> set es. (by_user sub tier e \<or> not_by_user sub e) \<and> ge_time e < r"
    and "\<And>t. t0 \<le> t \<Longrightarrow> limiter_active cget (key_USER sub) t c = (if t < r then Some (k, r) else None)"
  shows "admitted_of sub (guard_trace sha cget cset env es c) \<le> max 0 (cfg_max cfg - k)"
  using assms(3-)
proof (induction es arbitrary: t0 c k)
  case (Cons e es)
  obtain res c' hs where step: "guard_step sha cget cset env e c = (res, c', hs)"
    by (metis prod_cases3)
  have t: "t0 \<le> ge_time e" "sorted (ge_time e # map ge_time es)" "ge_time e < r"
    using Cons.prems by simp_all
  have rest: "\<forall>e \<in> set es. (by_user sub tier e \<or> not_by_user sub e) \<and> ge_time e < r"
    using Cons.prems(2) by simp
  show ?case
  proof (cases "not_by_user sub e")
    case True
    have "limiter_active cget (key_USER sub) u c' = (if u < r then Some (k, r) else None)" if "ge_time e \<le> u" for u
      using step_other_user [OF True, of sha env c u] Cons.prems(3) [of u] that t(1)
      by (simp add: step limiter_active_def)
    then have "admitted_of sub (guard_trace sha cget cset env es c') \<le> max 0 (cfg_max cfg - k)"
      using Cons.IH [OF t(2) rest] by blast
    then show ?thesis by (simp add: step admitted_of_Cons True)
  next
    case False
    then have mine: "by_user sub tier e" using Cons.prems(2) by auto
    have act: "limiter_active cget (key_USER sub) (ge_time e) c = Some (k, r)"
      using Cons.prems(3) [OF t(1)] t(3) by simp
    have "limiter_active cget (key_USER sub) u c' = (if u < r then Some (k + 1, r) else None)" if "ge_time e \<le> u" for u
      using step_by_user(1) [OF mine cfg that, of sha env c] by (simp add: step act next_window_def)
    then have "admitted_of sub (guard_trace sha cget cset env es c') \<le> max 0 (cfg_max cfg - (k + 1))"
      using Cons.IH [OF t(2) rest] by blast
    moreover have "res = Inr True \<Longrightarrow> k + 1 \<le> cfg_max cfg"
      using step_by_user(2) [OF mine cfg order_refl, of sha env c] by (simp add: step act next_window_def)
    ultimately show ?thesis by (auto simp: step admitted_of_Cons)
  qed
qed (simp add: admitted_of_def)

lemma admitted_fresh:
  assumes cfg: "getUserTierRateLimit tier = Some cfg" "0 < cfg_windowMs cfg"
    and "sorted (t0 # map ge_time es)"
    and "\<forall>e \<in> set es. (by_user sub tier e \<or> not_by_user sub e) \<and> ge_time e < t0 + cfg_windowMs cfg"
    and "\<And>t. t0 \<le> t \<Longrightarrow> limiter_active cget (key_USER sub) t c = None"
  shows "admitted_of sub (guard_trace sha cget cset env es c) \<le> max 0 (cfg_max cfg)"
  using assms(3-)
proof (induction es arbitrary: c)
  case (Cons e es)
  obtain res c' hs where step: "guard_step sha cget cset env e c = (res, c', hs)"
    by (metis prod_cases3)
  have t: "t0 \<le> ge_time e" "sorted (ge_time e # map ge_time es)" "sorted (t0 # map ge_time es)"
    using Cons.prems(1) by simp_all
  have rest: "\<forall>e \<in> set es. (by_user sub tier e \<or> not_by_user sub e) \<and> ge_time e < t0 + cfg_windowMs cfg"
    using Cons.prems(2) by simp
  show ?case
  proof (cases "not_by_user sub e")
    case True
    have "limiter_active cget (key_USER sub) u c' = None" if "t0 \<le> u" for u
      using step_other_user [OF True, of sha env c u] Cons.prems(3) [OF that]
      by (simp add: step limiter_active_def)
    then show ?thesis using Cons.IH [OF t(3) rest] by (simp add: step admitted_of_Cons True)
  next
    case False
    then have mine: "by_user sub tier e" using Cons.prems(2) by auto
    have act: "limiter_active cget (key_USER sub) (ge_time e) c = None" using Cons.prems(3) t(1) by blast
    let ?r = "ge_time e + cfg_windowMs cfg"
    have nxt: "limiter_active cget (key_USER sub) u c' = (if u < ?r then Some (1, ?r) else None)"
      if "ge_time e \<le> u" for u
      using step_by_user(1) [OF mine cfg that, of sha env c] by (simp add: step act next_window_def)
    have "\<forall>e \<in> set es. (by_user sub tier e \<or> not_by_user sub e) \<and> ge_time e < ?r"
      using rest t(1) by fastforce
    then have "admitted_of sub (guard_trace sha cget cset env es c') \<le> max 0 (cfg_max cfg - 1)"
      using admitted_in_window [OF cfg t(2) _ nxt] by blast
    moreover have "res = Inr True \<Longrightarrow> 1 \<le> cfg_max cfg"
      using step_by_user(2) [OF mine cfg order_refl, of sha env c] by (simp add: step act next_window_def)
    ultimately show ?thesis by (auto simp: step admitted_of_Cons)
  qed
qed (simp add: admitted_of_def)

end

lemma tier_window_pos: "getUserTierRateLimit tier = Some cfg \<Longrightarrow> 0 < cfg_windowMs cfg \<and> 0 < cfg_max cfg"
  by (auto simp: getUserTierRateLimit_def USER_TIER_RATE_LIMITS_def minutes_limit_def split: if_splits)

subsection \<open>Properties\<close>

text \<open>A guarded auth route admits exactly the first \<open>max\<close> requests of a client in a window that
  starts with no record of that client, however many follow in the window.\<close>

theorem auth_route_exact_limit:
  assumes "ttl_cache cget cset" and "0 < ro_windowMs ro" and "sorted (t0 # ts)"
    and "\<forall>t \<in> set ts. t < t0 + ro_windowMs ro"
    and "cget c t0 (auth_route_key sha request) = Inr None"
  shows "route_answers (AuthRouteRateLimitGuard_canActivate sha cget cset (Some ro) request) (t0 # ts) c =
    map (\<lambda>i. int i < ro_max ro) [0..<Suc (length ts)]"
  by (rule ttl_cache.route_fresh [OF assms(1) route_guards_hit(1) assms(2-)])

definition example_request :: http_request where
  "example_request = \<lparr>rq_method = ''POST'', rq_route_path = Some ''/auth/refresh'', rq_url = ''/auth/refresh'',
     rq_ip = Some ''10.0.0.7'', rq_connection_remote = None, rq_socket_remote = None, rq_forwarded_for = No_header\<rparr>"

theorem auth_route_exact_limit_witness:
  "route_answers (AuthRouteRateLimitGuard_canActivate id store_get store_set
      (Some \<lparr>ro_max = 2, ro_windowMs = 60000\<rparr>) example_request) [0, 10, 20] (\<lambda>_. None) = [True, True, False]"
  using auth_route_exact_limit [OF store.ttl_cache_axioms, of "\<lparr>ro_max = 2, ro_windowMs = 60000\<rparr>" 0 "[10, 20]"
      "\<lambda>_. None" id example_request]
  by (simp add: store_get_def upt_rec)

text \<open>In any span shorter than one window, from any earlier state of the caller's bucket, a guarded
  properties route admits at most twice its budget: the price of windows that are not sliding.\<close>

theorem properties_route_burst:
  assumes "ttl_cache cget cset" and "0 < ro_windowMs ro" and "0 \<le> ro_max ro" and "sorted (t0 # ts)"
    and "\<forall>t \<in> set ts. t < t0 + ro_windowMs ro"
    and "\<And>r. cget c t0 (properties_route_key a u request) = Inr (Some r) \<Longrightarrow> 0 \<le> rec_count r"
  shows "int (length (filter id
    (route_answers (PropertiesRouteRateLimitGuard_canActivate cget cset (Some ro) a u request) (t0 # ts) c))) \<le> 2 * ro_max ro"
  by (rule ttl_cache.route_burst [OF assms(1) route_guards_hit(3) assms(2-)])

theorem properties_route_burst_witness:
  "int (length (filter id
    (route_answers (PropertiesRouteRateLimitGuard_canActivate store_get store_set
      (Some \<lparr>ro_max = 1, ro_windowMs = 1000\<rparr>) (Some ''u1'') None example_request) [0, 10, 999] (\<lambda>_. None)))) \<le> 2"
  using properties_route_burst [OF store.ttl_cache_axioms, of "\<lparr>ro_max = 1, ro_windowMs = 1000\<rparr>" 0 "[10, 999]"
      "\<lambda>_. None" "Some ''u1''" None example_request]
  by (simp add: store_get_def)

text \<open>Buckets of one route belong to one caller: a request of another caller or to another route of
  the users API leaves them as they were, for caller ids without a colon.\<close>

theorem users_route_isolation:
  assumes "ttl_cache cget cset"
    and "CHR '':'' \<notin> set (route_caller a u request)" "CHR '':'' \<notin> set (route_caller a' u' request')"
    and "(route_name request, route_caller a u request) \<noteq> (route_name request', route_caller a' u' request')"
  shows "cget (fst (snd (UsersRouteRateLimitGuard_canActivate cget cset (Some ro) a u request now c))) t
      (users_route_key a' u' request') = cget c t (users_route_key a' u' request')"
proof -
  have "users_route_key a' u' request' \<noteq> users_route_key a u request"
    using assms(2-) append_colon_inject [OF assms(2,3), of "route_name request" "route_name request'"]
    by (auto simp: users_route_key_def key_SCOPE_def)
  then show ?thesis
    using ttl_cache.check_other_key [OF assms(1)]
    by (auto simp: UsersRouteRateLimitGuard_canActivate_def checkScopedRateLimit_def route_limit_answer_hit
        users_route_key_def)
qed

theorem users_route_isolation_witness:
  "store_get (fst (snd (UsersRouteRateLimitGuard_canActivate store_get store_set
      (Some \<lparr>ro_max = 5, ro_windowMs = 1000\<rparr>) (Some ''u1'') None example_request 0 (\<lambda>_. None)))) 1
      (users_route_key (Some ''u2'') None example_request) = Inr None"
  using users_route_isolation [OF store.ttl_cache_axioms, of "Some ''u1''" None example_request "Some ''u2''" None
      example_request "\<lparr>ro_max = 5, ro_windowMs = 1000\<rparr>" 0 "\<lambda>_. None" 1]
  by (simp add: route_caller_def js_nullish_def store_get_def)

text \<open>C28: Over any traffic of any callers, routes and addresses that stays within one window of a user's
  tier, the guard admits at most the tier's budget of that user's requests.\<close>

theorem user_budget_over_any_traffic:
  assumes "ttl_cache cget cset" and "getUserTierRateLimit tier = Some cfg"
    and "sorted (t0 # map ge_time es)"
    and "\<forall>e \<in> set es. (by_user sub tier e \<or> not_by_user sub e) \<and> ge_time e < t0 + cfg_windowMs cfg"
    and "\<And>t. t0 \<le> t \<Longrightarrow> cget c t (key_USER sub) = Inr None"
  shows "admitted_of sub (guard_trace sha cget cset env es c) \<le> cfg_max cfg"
proof -
  have "limiter_active cget (key_USER sub) t c = None" if "t0 \<le> t" for t
    using assms(5) [OF that] by (simp add: limiter_active_def)
  then have "admitted_of sub (guard_trace sha cget cset env es c) \<le> max 0 (cfg_max cfg)"
    using ttl_cache.admitted_fresh [OF assms(1,2) _ assms(3,4)] tier_window_pos [OF assms(2)] by blast
  then show ?thesis using tier_window_pos [OF assms(2)] by simp
qed

theorem user_budget_over_any_traffic_witness:
  "admitted_of ''u1'' (guard_trace id store_get store_set None
     [\<lparr>ge_time = 0, ge_skip = False, ge_request = example_request,
       ge_user = Some \<lparr>au_sub = ''u1'', au_type = ''access'', au_tier = Some ''FREE''\<rparr>\<rparr>,
      \<lparr>ge_time = 5, ge_skip = False, ge_request = example_request, ge_user = None\<rparr>] (\<lambda>_. None)) \<le> 100"
proof -
  have "user_tier \<lparr>au_sub = ''u1'', au_type = ''access'', au_tier = Some ''FREE''\<rparr> = ''free''" by code_simp
  moreover have "getUserTierRateLimit ''free'' = Some (minutes_limit 60 100)" by code_simp
  ultimately show ?thesis
  using user_budget_over_any_traffic [OF store.ttl_cache_axioms, of "''free''" "minutes_limit 60 100" 0
     "[\<lparr>ge_time = 0, ge_skip = False, ge_request = example_request,
       ge_user = Some \<lparr>au_sub = ''u1'', au_type = ''access'', au_tier = Some ''FREE''\<rparr>\<rparr>,
      \<lparr>ge_time = 5, ge_skip = False, ge_request = example_request, ge_user = None\<rparr>]" "''u1''" "\<lambda>_. None" id None]
    by (simp add: minutes_limit_def by_user_def not_by_user_def store_get_def del: guard_trace.simps)
qed

text \<open>The client address cannot be forged through \<open>X-Forwarded-For\<close>: without a trusted proxy the
  header has no effect, and behind one only the last entry, the one the proxy appends, decides,
  whatever the client wrote before it.\<close>

theorem client_ip_not_forgeable:
  "(\<not> isTrustProxyEnabled env \<longrightarrow>
     getClientIp sha env (request\<lparr>rq_forwarded_for := h\<rparr>) = getClientIp sha env request)
   \<and> (isTrustProxyEnabled env \<and> CHR '','' \<notin> set entry \<and> sanitizeIpEntry entry = Some ip \<longrightarrow>
     getClientIp sha env (request\<lparr>rq_forwarded_for := One_header (forged @ '','' @ entry)\<rparr>) = sha ip)"
proof (intro conjI impI; (elim conjE)?)
  show "getClientIp sha env (request\<lparr>rq_forwarded_for := h\<rparr>) = getClientIp sha env request"
    if "\<not> isTrustProxyEnabled env"
    using that by (simp add: getClientIp_def resolveRawClientIp_def fromSocket_def)
  assume "isTrustProxyEnabled env" "CHR '','' \<notin> set entry" and ip: "sanitizeIpEntry entry = Some ip"
  moreover have "ip \<noteq> ''unknown''"
    using ip_entry_chars [of ip "CHR ''u''"] sanitizeIpEntry_Some [OF ip]
    by (auto simp: hex_or_colon_def is_digit_def in_range_def)
  ultimately show "getClientIp sha env (request\<lparr>rq_forwarded_for := One_header (forged @ '','' @ entry)\<rparr>) = sha ip"
    using forwarded_candidates_snoc [of entry ip forged]
    by (simp add: getClientIp_def resolveRawClientIp_def forwarded_str_def Let_def)
qed

theorem client_ip_not_forgeable_witness:
  "getClientIp (\<lambda>s. ''#'' @ s) None (example_request\<lparr>rq_forwarded_for := One_header ''1.1.1.1''\<rparr>) =
     getClientIp (\<lambda>s. ''#'' @ s) None example_request
   \<and> getClientIp (\<lambda>s. ''#'' @ s) (Some ''1'')
       (example_request\<lparr>rq_forwarded_for := One_header (''9.9.9.9, junk'' @ '','' @ '' 10.0.0.255'')\<rparr>) = ''#10.0.0.255''"
proof -
  have t: "isTrustProxyEnabled (Some ''1'')" "\<not> isTrustProxyEnabled None"
    by (simp_all add: isTrustProxyEnabled_def js_trim_def js_space_def js_lower_def lower_char_def)
  have s: "sanitizeIpEntry '' 10.0.0.255'' = Some ''10.0.0.255''"
    by code_simp
  show ?thesis
    using client_ip_not_forgeable [of None "\<lambda>s. ''#'' @ s" "One_header ''1.1.1.1''" example_request]
      client_ip_not_forgeable [of "Some ''1''" "\<lambda>s. ''#'' @ s" No_header example_request "'' 10.0.0.255''" "''10.0.0.255''" "''9.9.9.9, junk''"]
      t s by simp
qed

end
