(* ===== verification/Login_Lockout.thy ===== *)
theory Login_Lockout
  imports Store
begin

text \<open>
  \<open>src/auth/login-rate-limit.service.ts\<close>: the \<open>LoginAttempt\<close> table and the operations that lock an
  account after repeated failures.  \<open>attemptTime\<close> is the column's default, the time of the insert.
  \<open>cleanupOldAttempts\<close> counts days of 24 hours (the server's clock without daylight saving).
\<close>

record login_attempt =
  la_email :: string
  la_ip :: "string option"
  la_userAgent :: "string option"
  la_success :: bool
  la_time :: time
  la_lockedOut :: bool
  la_unlockAt :: "time option"

type_synonym attempts = "login_attempt list"

record login_config =
  maxAttempts :: int
  lockoutDurationMinutes :: int

definition DEFAULT_MAX_ATTEMPTS :: int where "DEFAULT_MAX_ATTEMPTS = 5"
definition DEFAULT_LOCKOUT_DURATION_MINUTES :: int where "DEFAULT_LOCKOUT_DURATION_MINUTES = 30"

text \<open>\<open>raw\<close> is what the configuration service returns for the key.\<close>

definition readPositiveInt :: "string option \<Rightarrow> int \<Rightarrow> int" where
  "readPositiveInt raw fallback = (case raw of
     None \<Rightarrow> fallback
   | Some s \<Rightarrow>
       if js_trim s = [] then fallback
       else case js_number_integer s of
         None \<Rightarrow> fallback
       | Some value \<Rightarrow> if value \<le> 0 then fallback else value)"

definition login_config_of :: "(string \<Rightarrow> string option) \<Rightarrow> login_config" where
  "login_config_of env =
     \<lparr>maxAttempts = readPositiveInt (env ''LOGIN_MAX_ATTEMPTS'') DEFAULT_MAX_ATTEMPTS,
      lockoutDurationMinutes = readPositiveInt (env ''LOGIN_LOCKOUT_MINUTES'') DEFAULT_LOCKOUT_DURATION_MINUTES\<rparr>"

definition lockout_ms :: "login_config \<Rightarrow> int" where
  "lockout_ms cfg = lockoutDurationMinutes cfg * 60 * 1000"

text \<open>The \<open>where\<close> clauses the operations share.\<close>

definition locked_row :: "string \<Rightarrow> time \<Rightarrow> login_attempt \<Rightarrow> bool" where
  "locked_row email now r \<longleftrightarrow> la_email r = email \<and> la_lockedOut r \<and>
     (case la_unlockAt r of Some u \<Rightarrow> now < u | None \<Rightarrow> False)"

definition failed_row :: "login_config \<Rightarrow> string \<Rightarrow> time \<Rightarrow> login_attempt \<Rightarrow> bool" where
  "failed_row cfg email now r \<longleftrightarrow> la_email r = email \<and> \<not> la_success r \<and> now - lockout_ms cfg \<le> la_time r"

definition isAccountLocked :: "string \<Rightarrow> time \<Rightarrow> attempts \<Rightarrow> bool" where
  "isAccountLocked email now t =
     (List.find (locked_row (js_lower email) now) (tbl_desc la_time t) \<noteq> None)"

definition recordFailedAttempt ::
  "login_config \<Rightarrow> string \<Rightarrow> string option \<Rightarrow> string option \<Rightarrow> time \<Rightarrow> attempts \<Rightarrow> bool \<times> attempts" where
  "recordFailedAttempt cfg email ipAddress userAgent now t =
     (let normalizedEmail = js_lower email;
          recentFailures = int (tbl_count (failed_row cfg normalizedEmail now) t);
          shouldLock = maxAttempts cfg \<le> recentFailures + 1;
          unlockAt = (if shouldLock then Some (now + lockout_ms cfg) else None)
      in (shouldLock, tbl_create \<lparr>la_email = normalizedEmail, la_ip = ipAddress, la_userAgent = userAgent,
            la_success = False, la_time = now, la_lockedOut = shouldLock, la_unlockAt = unlockAt\<rparr> t))"

definition recordSuccessfulAttempt ::
  "string \<Rightarrow> string option \<Rightarrow> string option \<Rightarrow> time \<Rightarrow> attempts \<Rightarrow> attempts" where
  "recordSuccessfulAttempt email ipAddress userAgent now t =
     tbl_create \<lparr>la_email = js_lower email, la_ip = ipAddress, la_userAgent = userAgent,
       la_success = True, la_time = now, la_lockedOut = False, la_unlockAt = None\<rparr> t"

definition getFailedAttemptsCount :: "login_config \<Rightarrow> string \<Rightarrow> time \<Rightarrow> attempts \<Rightarrow> nat" where
  "getFailedAttemptsCount cfg email now t = tbl_count (failed_row cfg (js_lower email) now) t"

definition unlockAccount :: "string \<Rightarrow> time \<Rightarrow> attempts \<Rightarrow> attempts" where
  "unlockAccount email now t =
     tbl_update_many (locked_row (js_lower email) now) (\<lambda>r. r\<lparr>la_lockedOut := False, la_unlockAt := None\<rparr>) t"

record lockout_info =
  li_isLocked :: bool
  li_failedAttempts :: nat
  li_unlockAt :: "time option"
  li_remainingLockoutMinutes :: "int option"

definition getLockoutInfo :: "login_config \<Rightarrow> string \<Rightarrow> time \<Rightarrow> attempts \<Rightarrow> lockout_info option" where
  "getLockoutInfo cfg email now t =
     (let normalizedEmail = js_lower email;
          failedAttempts = getFailedAttemptsCount cfg normalizedEmail now t;
          isLocked = isAccountLocked normalizedEmail now t
      in if \<not> isLocked \<and> failedAttempts = 0 then None
         else
           (let unlockAt =
              (if isLocked
               then case List.find (locked_row normalizedEmail now) (tbl_desc la_time t) of
                      Some r \<Rightarrow> la_unlockAt r | None \<Rightarrow> None
               else None)
            in Some \<lparr>li_isLocked = isLocked, li_failedAttempts = failedAttempts, li_unlockAt = unlockAt,
                 li_remainingLockoutMinutes = map_option (\<lambda>u. ceil_div (u - now) (1000 * 60)) unlockAt\<rparr>))"

definition cleanupOldAttempts :: "int \<Rightarrow> time \<Rightarrow> attempts \<Rightarrow> nat \<times> attempts" where
  "cleanupOldAttempts olderThanDays now t =
     (let cutoffDate = now - olderThanDays * ms_day;
          p = (\<lambda>r. la_time r < cutoffDate)
      in (tbl_count p t, tbl_delete_many p t))"

subsection \<open>Facts about the operations\<close>

lemma readPositiveInt_pos: "0 < fallback \<Longrightarrow> 0 < readPositiveInt raw fallback"
  by (simp add: readPositiveInt_def split: option.split)

lemma login_config_pos: "0 < maxAttempts (login_config_of env) \<and> 0 < lockoutDurationMinutes (login_config_of env)"
  by (simp add: login_config_of_def readPositiveInt_pos DEFAULT_MAX_ATTEMPTS_def DEFAULT_LOCKOUT_DURATION_MINUTES_def)

lemma find_tbl_desc_None: "List.find P (tbl_desc f t) = None \<longleftrightarrow> (\<forall>r \<in> set t. \<not> P r)"
  by (auto simp: find_None_iff)

lemma isAccountLocked_iff: "isAccountLocked email now t \<longleftrightarrow> (\<exists>r \<in> set t. locked_row (js_lower email) now r)"
  using find_tbl_desc_None [of "locked_row (js_lower email) now" la_time t] by (auto simp: isAccountLocked_def)

lemma find_tbl_desc_locked:
  "isAccountLocked email now t \<Longrightarrow>
   \<exists>r u. List.find (locked_row (js_lower email) now) (tbl_desc la_time t) = Some r \<and> la_unlockAt r = Some u \<and> now < u"
  unfolding isAccountLocked_def
  by (cases "List.find (locked_row (js_lower email) now) (tbl_desc la_time t)")
    (auto dest!: find_Some_in simp: locked_row_def simp del: find_Some_iff split: option.splits)

lemma recordFailed_locks:
  "fst (recordFailedAttempt cfg email ip ua now t) \<Longrightarrow>
   isAccountLocked email u (snd (recordFailedAttempt cfg email ip ua now t))
     \<longleftrightarrow> u < now + lockout_ms cfg \<or> isAccountLocked email u t"
  by (auto simp: recordFailedAttempt_def isAccountLocked_iff tbl_create_def locked_row_def Let_def)

lemma recordFailed_result:
  "fst (recordFailedAttempt cfg email ip ua now t) \<longleftrightarrow> maxAttempts cfg \<le> int (getFailedAttemptsCount cfg email now t) + 1"
  by (simp add: recordFailedAttempt_def getFailedAttemptsCount_def Let_def)

lemma recordFailed_count:
  "getFailedAttemptsCount cfg email u (snd (recordFailedAttempt cfg email' ip ua now t)) =
   getFailedAttemptsCount cfg email u t + (if js_lower email' = js_lower email \<and> u - lockout_ms cfg \<le> now then 1 else 0)"
  by (simp add: recordFailedAttempt_def getFailedAttemptsCount_def Let_def table_simps failed_row_def)

lemma recordFailed_other:
  "js_lower email' \<noteq> js_lower email \<Longrightarrow>
   isAccountLocked email u (snd (recordFailedAttempt cfg email' ip ua now t)) \<longleftrightarrow> isAccountLocked email u t"
  by (auto simp: recordFailedAttempt_def isAccountLocked_iff tbl_create_def locked_row_def Let_def)

lemma unlock_count [simp]:
  "getFailedAttemptsCount cfg email u (unlockAccount email' now t) = getFailedAttemptsCount cfg email u t"
proof -
  have "failed_row cfg e u (r\<lparr>la_lockedOut := False, la_unlockAt := None\<rparr>) = failed_row cfg e u r" for e r
    by (simp add: failed_row_def)
  then show ?thesis
    by (simp add: getFailedAttemptsCount_def unlockAccount_def tbl_update_many_def tbl_count_def filter_map comp_def if_distrib cong: if_cong)
qed

lemma unlock_unlocks:
  assumes "now \<le> u"
  shows "\<not> isAccountLocked email u (unlockAccount email now t)"
proof -
  have "\<not> locked_row e u r" if "\<not> locked_row e now r" for e r
    using that assms by (auto simp: locked_row_def split: option.splits)
  then show ?thesis
    by (auto simp: isAccountLocked_iff unlockAccount_def tbl_update_many_def locked_row_def)
qed

lemma success_neutral:
  "isAccountLocked email u (recordSuccessfulAttempt email' ip ua now t) \<longleftrightarrow> isAccountLocked email u t"
  "getFailedAttemptsCount cfg email u (recordSuccessfulAttempt email' ip ua now t) = getFailedAttemptsCount cfg email u t"
  by (auto simp: recordSuccessfulAttempt_def isAccountLocked_iff getFailedAttemptsCount_def tbl_create_def
      tbl_count_def locked_row_def failed_row_def)

text \<open>The results of a sequence of failures of one account at given times.\<close>

fun failures :: "login_config \<Rightarrow> string \<Rightarrow> time list \<Rightarrow> attempts \<Rightarrow> bool list \<times> attempts" where
  "failures cfg email [] t = ([], t)"
| "failures cfg email (now # ts) t =
     (let (locked, t') = recordFailedAttempt cfg email None None now t;
          (rest, t'') = failures cfg email ts t'
      in (locked # rest, t''))"

lemma failures_in_window:
  assumes "sorted (t0 # ts)" and "\<forall>u \<in> set ts. u \<le> t0 + lockout_ms cfg"
    and "\<And>u. t0 \<le> u \<Longrightarrow> u \<le> t0 + lockout_ms cfg \<Longrightarrow> getFailedAttemptsCount cfg email u t = k"
  shows "fst (failures cfg email ts t) = map (\<lambda>i. maxAttempts cfg \<le> int (k + i) + 1) [0..<length ts]"
  using assms
proof (induction ts arbitrary: t k)
  case (Cons now ts)
  let ?t' = "snd (recordFailedAttempt cfg email None None now t)"
  have now: "t0 \<le> now" "now \<le> t0 + lockout_ms cfg" "sorted (t0 # ts)" using Cons.prems by simp_all
  have head: "fst (recordFailedAttempt cfg email None None now t) \<longleftrightarrow> maxAttempts cfg \<le> int k + 1"
    using Cons.prems(3) [OF now(1,2)] by (simp add: recordFailed_result)
  have "getFailedAttemptsCount cfg email u ?t' = Suc k" if "t0 \<le> u" "u \<le> t0 + lockout_ms cfg" for u
    using Cons.prems(3) [OF that] that now(1) by (simp add: recordFailed_count)
  then have "fst (failures cfg email ts ?t') = map (\<lambda>i. maxAttempts cfg \<le> int (Suc k + i) + 1) [0..<length ts]"
    using Cons.IH [OF now(3)] Cons.prems(2) by simp
  then show ?case
    using head by (simp add: Let_def case_prod_beta map_upt_Suc del: upt_Suc)
qed simp

lemma failures_locked:
  "isAccountLocked email u (snd (failures cfg email ts t)) \<longleftrightarrow>
   isAccountLocked email u t \<or> (\<exists>(locked, s) \<in> set (zip (fst (failures cfg email ts t)) ts). locked \<and> u < s + lockout_ms cfg)"
proof (induction ts arbitrary: t)
  case (Cons now ts)
  obtain locked t' where step: "recordFailedAttempt cfg email None None now t = (locked, t')" by fastforce
  have "isAccountLocked email u t' \<longleftrightarrow> isAccountLocked email u t \<or> locked \<and> u < now + lockout_ms cfg"
  proof (cases locked)
    case True
    then show ?thesis using recordFailed_locks [of cfg email None None now t u] by (auto simp: step)
  next
    case False
    then have "t' = tbl_create \<lparr>la_email = js_lower email, la_ip = None, la_userAgent = None, la_success = False,
        la_time = now, la_lockedOut = False, la_unlockAt = None\<rparr> t"
      using step by (auto simp: recordFailedAttempt_def Let_def)
    then show ?thesis using False by (auto simp: isAccountLocked_iff tbl_create_def locked_row_def)
  qed
  then show ?case using Cons.IH [of t'] by (auto simp: step Let_def case_prod_beta)
qed simp

lemma set_zip_map_upt: "set (zip (map f [0..<length ts]) ts) = (\<lambda>i. (f i, ts ! i)) ` {..<length ts}"
proof -
  have "set (zip (map f [0..<length ts]) ts) = {(f i, ts ! i) | i. i < length ts}"
    by (auto simp: set_zip) (metis add_0 diff_zero length_upt nth_map nth_upt)
  then show ?thesis by auto
qed

subsection \<open>Properties\<close>

text \<open>From a clean record, failures within one lockout period are answered \<open>not locked\<close> until the
  configured maximum is reached and \<open>locked\<close> from then on; the account is then locked exactly until the
  last locking failure's lockout has passed.\<close>

theorem lockout_exactly_at_max:
  assumes "\<forall>r \<in> set t. la_email r \<noteq> js_lower email"
    and "sorted (t0 # ts)" and "\<forall>u \<in> set ts. u \<le> t0 + lockout_ms cfg"
  shows "fst (failures cfg email ts t) = map (\<lambda>i. maxAttempts cfg \<le> int i + 1) [0..<length ts]
    \<and> (isAccountLocked email u (snd (failures cfg email ts t)) \<longleftrightarrow>
        (\<exists>i<length ts. maxAttempts cfg \<le> int i + 1 \<and> u < ts ! i + lockout_ms cfg))"
proof -
  have "getFailedAttemptsCount cfg email v t = 0" for v
    using assms(1) by (auto simp: getFailedAttemptsCount_def tbl_count_zero_iff failed_row_def)
  then have results: "fst (failures cfg email ts t) = map (\<lambda>i. maxAttempts cfg \<le> int i + 1) [0..<length ts]"
    using failures_in_window [OF assms(2,3), of email t 0] by simp
  moreover have "\<not> isAccountLocked email u t"
    using assms(1) by (auto simp: isAccountLocked_iff locked_row_def)
  ultimately show ?thesis
    by (auto simp: failures_locked set_zip_map_upt)
qed

theorem lockout_exactly_at_max_witness:
  "fst (failures (login_config_of (\<lambda>_. None)) ''a@b.c'' [0, 1, 2, 3, 4] []) = [False, False, False, False, True]
   \<and> isAccountLocked ''a@b.c'' 1800003 (snd (failures (login_config_of (\<lambda>_. None)) ''a@b.c'' [0, 1, 2, 3, 4] []))"
proof -
  have cfg: "login_config_of (\<lambda>_. None) = \<lparr>maxAttempts = 5, lockoutDurationMinutes = 30\<rparr>"
    by code_simp
  have "\<exists>i<Suc (Suc (Suc (Suc (Suc 0)))). 4 \<le> i \<and> (3::int) < [0, 1, 2, 3, 4] ! i"
    by (intro exI [of _ 4]) simp
  then show ?thesis
    using lockout_exactly_at_max [of "[]" "''a@b.c''" 0 "[0, 1, 2, 3, 4]" "login_config_of (\<lambda>_. None)" 1800003]
    by (simp add: cfg lockout_ms_def upt_rec del: failures.simps)
qed

text \<open>Unlocking an account lifts every lock but keeps the recorded failures: an account that was
  unlocked after reaching the maximum is locked again by its very next failure within the period.\<close>

theorem unlock_keeps_failure_count:
  assumes "now \<le> u"
  shows "\<not> isAccountLocked email u (unlockAccount email now t)
    \<and> getFailedAttemptsCount cfg email u (unlockAccount email now t) = getFailedAttemptsCount cfg email u t
    \<and> (fst (recordFailedAttempt cfg email ip ua u (unlockAccount email now t)) \<longleftrightarrow>
         maxAttempts cfg \<le> int (getFailedAttemptsCount cfg email u t) + 1)"
  using unlock_unlocks [OF assms] by (simp add: recordFailed_result)

theorem unlock_keeps_failure_count_witness:
  "(let t = snd (failures (login_config_of (\<lambda>_. None)) ''a@b.c'' [0, 1, 2, 3, 4] []) in
    \<not> isAccountLocked ''a@b.c'' 10 (unlockAccount ''a@b.c'' 9 t)
    \<and> fst (recordFailedAttempt (login_config_of (\<lambda>_. None)) ''a@b.c'' None None 10 (unlockAccount ''a@b.c'' 9 t)))"
proof -
  define t where "t = snd (failures (login_config_of (\<lambda>_. None)) ''a@b.c'' [0, 1, 2, 3, 4] [])"
  have "getFailedAttemptsCount (login_config_of (\<lambda>_. None)) ''a@b.c'' 10 t = 5"
    unfolding t_def by code_simp
  moreover have "maxAttempts (login_config_of (\<lambda>_. None)) = 5" by code_simp
  ultimately show ?thesis
    using unlock_keeps_failure_count [of 9 10 "''a@b.c''" t "login_config_of (\<lambda>_. None)" None None]
    by (simp add: Let_def t_def [symmetric] del: failures.simps)
qed

text \<open>The lockout report is absent exactly for accounts with neither a lock nor a recent failure;
  otherwise it repeats the lock state and failure count, and for a locked account names an unlock
  time in the future that the reported minutes reach but do not exceed by a minute.\<close>

theorem lockout_info_consistent:
  "case getLockoutInfo cfg email now t of
     None \<Rightarrow> \<not> isAccountLocked email now t \<and> getFailedAttemptsCount cfg email now t = 0
   | Some info \<Rightarrow>
       li_isLocked info = isAccountLocked email now t
       \<and> li_failedAttempts info = getFailedAttemptsCount cfg email now t
       \<and> (case (li_unlockAt info, li_remainingLockoutMinutes info) of
            (Some u, Some m) \<Rightarrow> isAccountLocked email now t \<and> now < u \<and> 1 \<le> m
              \<and> u \<le> now + m * 60000 \<and> now + m * 60000 < u + 60000
          | (None, None) \<Rightarrow> \<not> isAccountLocked email now t
          | _ \<Rightarrow> False)"
proof -
  have low: "isAccountLocked (js_lower email) now t = isAccountLocked email now t"
    "getFailedAttemptsCount cfg (js_lower email) now t = getFailedAttemptsCount cfg email now t"
    by (simp_all add: isAccountLocked_def getFailedAttemptsCount_def)
  have minutes: "1 \<le> ceil_div (u - now) 60000 \<and> u \<le> now + ceil_div (u - now) 60000 * 60000
      \<and> now + ceil_div (u - now) 60000 * 60000 < u + 60000" if "now < u" for u
    using ceil_div_bounds [of 60000 "u - now"] that by simp
  show ?thesis
    using find_tbl_desc_locked [of email now t] minutes
    by (auto simp: getLockoutInfo_def Let_def low)
qed

end
