(* ===== verification/Calendar.thy ===== *)
theory Calendar
  imports Prelude
begin

text \<open>
  The calendar operations of JavaScript's \<open>Date\<close> that the services use, on a server whose time zone
  is UTC: the start of the current day and month, and the start of the next month.  Days are counted
  from 1970-01-01; the civil date of a day is computed in 400-year eras that start on 1 March.
\<close>

definition day_number :: "time \<Rightarrow> int" where
  "day_number t = t div ms_day"

text \<open>Month (counted from March) and day of month of a day of such a year.\<close>

definition month_day :: "int \<Rightarrow> int \<times> int" where
  "month_day doy = (let mp = (5 * doy + 2) div 153 in (mp, doy - (153 * mp + 2) div 5 + 1))"

definition civil_of_days :: "int \<Rightarrow> int \<times> int \<times> int" where
  "civil_of_days z =
     (let zz = z + 719468;
          era = zz div 146097;
          doe = zz mod 146097;
          yoe = (doe - doe div 1460 + doe div 36524 - doe div 146096) div 365;
          doy = doe - (365 * yoe + yoe div 4 - yoe div 100);
          (mp, d) = month_day doy;
          m = (if mp < 10 then mp + 3 else mp - 9)
      in (yoe + era * 400 + (if m \<le> 2 then 1 else 0), m, d))"

definition leap_year :: "int \<Rightarrow> bool" where
  "leap_year y \<longleftrightarrow> y mod 4 = 0 \<and> (y mod 100 \<noteq> 0 \<or> y mod 400 = 0)"

definition days_in_month :: "int \<Rightarrow> int \<Rightarrow> int" where
  "days_in_month y m =
     (if m = 2 then (if leap_year y then 29 else 28) else if m \<in> {4, 6, 9, 11} then 30 else 31)"

definition start_of_day :: "time \<Rightarrow> time" where
  "start_of_day t = day_number t * ms_day"

definition start_of_month :: "time \<Rightarrow> time" where
  "start_of_month t = (let (y, m, d) = civil_of_days (day_number t) in (day_number t - (d - 1)) * ms_day)"

definition start_of_next_month :: "time \<Rightarrow> time" where
  "start_of_next_month t =
     (let (y, m, d) = civil_of_days (day_number t) in (day_number t - (d - 1) + days_in_month y m) * ms_day)"

lemma civil_examples:
  "civil_of_days 0 = (1970, 1, 1)" "civil_of_days 19782 = (2024, 2, 29)" "civil_of_days 20453 = (2025, 12, 31)"
  by code_simp+

lemma start_of_day_le: "start_of_day t \<le> t"
  using minus_mod_eq_div_mult [of t ms_day] pos_mod_sign [of ms_day t]
  by (simp add: start_of_day_def day_number_def)

lemma month_day_pos: "1 \<le> snd (month_day doy)"
proof -
  have "153 * ((5 * doy + 2) div 153) \<le> 5 * doy + 2"
    using minus_mod_eq_mult_div [of "5 * doy + 2" 153] pos_mod_sign [of 153 "5 * doy + 2"] by linarith
  then have "(153 * ((5 * doy + 2) div 153) + 2) div 5 \<le> (5 * doy + 4) div 5"
    by (intro zdiv_mono1) auto
  also have "(5 * doy + 4) div 5 = doy" by simp
  finally show ?thesis by (simp add: month_day_def Let_def)
qed

lemma civil_day: "\<exists>doy. snd (snd (civil_of_days z)) = snd (month_day doy)"
  unfolding civil_of_days_def Let_def by (auto simp only: split_def snd_conv)

lemma day_of_month_pos: "civil_of_days z = (y, m, d) \<Longrightarrow> 1 \<le> d"
  using civil_day [of z] month_day_pos by (metis snd_conv)

lemma start_of_month_le: "start_of_month t \<le> start_of_day t"
proof -
  obtain y m d where c: "civil_of_days (day_number t) = (y, m, d)" by (metis prod_cases3)
  have "(day_number t - (d - 1)) * ms_day \<le> day_number t * ms_day"
    using day_of_month_pos [OF c] by (intro mult_right_mono) simp_all
  then show ?thesis by (simp add: start_of_month_def start_of_day_def c)
qed

end
