(* ===== verification/Api_Keys.thy ===== *)
theory Api_Keys
  imports Store Calendar
begin

text \<open>
  API keys: scopes (\<open>src/auth/constants/api-key-scopes.ts\<close>), the guards that read them
  (\<open>guards/key-permissions.guard.ts\<close>, \<open>guards/roles.guard.ts\<close>), their transport
  (\<open>guards/api-key-auth.guard.ts\<close>, \<open>guards/jwt-auth.guard.ts\<close>), their life cycle in
  \<open>auth.service.ts\<close> (create, list, rotate, revoke, update permissions, usage, validate) and the monthly
  quota of \<open>api-key-analytics.service.ts\<close>.

  \<open>sha\<close> is SHA-256; the random part of a new key and the identifiers the database assigns are
  arguments.  \<open>owner\<close> gives the user row a key belongs to.  A set of scopes is a list.
\<close>

subsection \<open>Scopes\<close>

definition FULL_ACCESS_PERMISSIONS :: "string list" where
  "FULL_ACCESS_PERMISSIONS = [''*'', ''admin'', ''all'']"

text \<open>The loop over the stored permissions; \<open>None\<close> is its early return.\<close>

fun scope_loop :: "string list \<Rightarrow> string list \<Rightarrow> string list option" where
  "scope_loop [] granted = Some granted"
| "scope_loop (raw # rest) granted =
     (let permission = js_lower (js_trim raw) in
      if permission = [] then scope_loop rest granted
      else if permission \<in> set FULL_ACCESS_PERMISSIONS then None
      else scope_loop rest (granted @ [permission]))"

definition resolveApiKeyScopes :: "string list \<Rightarrow> string list" where
  "resolveApiKeyScopes permissions =
     (if permissions = [] then [''read'', ''write'']
      else case scope_loop permissions [] of
        None \<Rightarrow> [''read'', ''write'']
      | Some granted \<Rightarrow> if ''write'' \<in> set granted then granted @ [''read''] else granted)"

definition apiKeyHasScopes :: "string list \<Rightarrow> string list \<Rightarrow> bool" where
  "apiKeyHasScopes permissions required =
     (required = [] \<or> list_all (\<lambda>scope. scope \<in> set (resolveApiKeyScopes permissions)) required)"

datatype auth_type = Access_token | Api_key_token

record auth_payload =
  ap_sub :: string
  ap_email :: string
  ap_role :: string
  ap_tier :: string
  ap_type :: auth_type
  ap_apiKeyId :: "string option"
  ap_apiKeyPermissions :: "string list"

definition KeyPermissionsGuard_canActivate :: "string list \<Rightarrow> auth_payload option \<Rightarrow> bool result" where
  "KeyPermissionsGuard_canActivate requiredScopes user =
     (if requiredScopes = [] then Inr True
      else case user of
        None \<Rightarrow> Inl (Forbidden ''Authentication required'')
      | Some u \<Rightarrow>
          if ap_type u \<noteq> Api_key_token then Inr True
          else if apiKeyHasScopes (ap_apiKeyPermissions u) requiredScopes then Inr True
          else Inl (Forbidden (''API key is missing required scope(s): '' @ js_join '', '' requiredScopes)))"

definition RolesGuard_canActivate :: "string list option \<Rightarrow> auth_payload option \<Rightarrow> bool result" where
  "RolesGuard_canActivate requiredRoles user =
     (case requiredRoles of
        None \<Rightarrow> Inr True
      | Some roles \<Rightarrow>
          (case user of
             None \<Rightarrow> Inl (Forbidden ''User role not found'')
           | Some u \<Rightarrow>
               if ap_role u = [] then Inl (Forbidden ''User role not found'')
               else if ap_role u \<in> set roles then Inr True
               else Inl (Forbidden ''Insufficient permissions'')))"

subsection \<open>Transport\<close>

text \<open>\<open>const [scheme, token] = header.split(' ')\<close>; a missing or empty token is falsy.\<close>

definition scheme_token :: "string \<Rightarrow> string \<Rightarrow> string option" where
  "scheme_token wanted hdr = (case js_split CHR '' '' hdr of
     scheme # tok # _ \<Rightarrow> if scheme = wanted \<and> tok \<noteq> [] then Some tok else None
   | _ \<Rightarrow> None)"

definition extractBearerToken :: "string option \<Rightarrow> string option" where
  "extractBearerToken hdr = (case hdr of
     None \<Rightarrow> None | Some h \<Rightarrow> if h = [] then None else scheme_token ''Bearer'' h)"

text \<open>A header value is a list: one element for a string, several for an array, none when absent.\<close>

definition firstHeaderValue :: "string list \<Rightarrow> string option" where
  "firstHeaderValue value = (case value of
     [] \<Rightarrow> None | raw # _ \<Rightarrow> if js_trim raw \<noteq> [] then Some (js_trim raw) else None)"

definition extractApiKey :: "(string \<Rightarrow> string list) \<Rightarrow> string option" where
  "extractApiKey headers =
     (case firstHeaderValue (headers ''api-key'') of
        Some k \<Rightarrow> Some k
      | None \<Rightarrow>
          (case firstHeaderValue (headers ''x-api-key'') of
             Some k \<Rightarrow> Some k
           | None \<Rightarrow>
               (case firstHeaderValue (headers ''authorization'') of
                  None \<Rightarrow> None
                | Some h \<Rightarrow> scheme_token ''ApiKey'' h)))"

subsection \<open>The key table\<close>

record api_key =
  ak_id :: string
  ak_userId :: string
  ak_name :: string
  ak_keyPrefix :: string
  ak_keyHash :: string
  ak_permissions :: "string list"
  ak_usageCount :: int
  ak_monthlyQuota :: "int option"
  ak_lastUsedAt :: "time option"
  ak_expiresAt :: "time option"
  ak_revokedAt :: "time option"
  ak_createdAt :: time

record usage_daily =
  ud_apiKeyId :: string
  ud_date :: time
  ud_requestCount :: int

record key_state =
  ks_keys :: "api_key list"
  ks_usage :: "usage_daily list"

record key_owner =
  ow_email :: string
  ow_role :: string
  ow_tier :: string
  ow_isBlocked :: bool

record create_api_key_dto =
  dto_name :: string
  dto_permissions :: "string list"
  dto_monthlyQuota :: "int option"
  dto_expiresAt :: "time option"

record api_key_response =
  resp_id :: string
  resp_name :: string
  resp_keyPrefix :: string
  resp_permissions :: "string list"
  resp_usageCount :: int
  resp_monthlyQuota :: "int option"
  resp_lastUsedAt :: "time option"
  resp_expiresAt :: "time option"
  resp_revokedAt :: "time option"
  resp_createdAt :: time

definition toApiKeyResponse :: "api_key \<Rightarrow> api_key_response" where
  "toApiKeyResponse k =
     \<lparr>resp_id = ak_id k, resp_name = ak_name k, resp_keyPrefix = ak_keyPrefix k,
      resp_permissions = ak_permissions k, resp_usageCount = ak_usageCount k,
      resp_monthlyQuota = ak_monthlyQuota k, resp_lastUsedAt = ak_lastUsedAt k,
      resp_expiresAt = ak_expiresAt k, resp_revokedAt = ak_revokedAt k, resp_createdAt = ak_createdAt k\<rparr>"

definition normalizePermissions :: "string list \<Rightarrow> string list" where
  "normalizePermissions permissions = js_unique (filter (\<lambda>p. p \<noteq> []) (map js_trim permissions))"

definition generateApiKeyValue :: "string \<Rightarrow> string" where
  "generateApiKeyValue rnd = ''pc_'' @ rnd"

text \<open>\<open>keyHash\<close> is unique in the schema: a second key with the same hash is refused by the database.\<close>

definition createApiKey ::
  "(string \<Rightarrow> string) \<Rightarrow> string \<Rightarrow> string \<Rightarrow> string \<Rightarrow> create_api_key_dto \<Rightarrow> time \<Rightarrow> key_state \<Rightarrow>
   (string \<times> api_key_response, key_state) outcome" where
  "createApiKey sha rnd newId sub data now s =
     (let apiKeyValue = generateApiKeyValue rnd;
          record = \<lparr>ak_id = newId, ak_userId = sub, ak_name = dto_name data, ak_keyPrefix = take 12 apiKeyValue,
            ak_keyHash = sha apiKeyValue, ak_permissions = normalizePermissions (dto_permissions data),
            ak_usageCount = 0, ak_monthlyQuota = dto_monthlyQuota data, ak_lastUsedAt = None,
            ak_expiresAt = dto_expiresAt data, ak_revokedAt = None, ak_createdAt = now\<rparr>
      in if tbl_find ak_keyHash (sha apiKeyValue) (ks_keys s) \<noteq> None
         then (Inl (InternalError ''Unique constraint failed''), s)
         else (Inr (apiKeyValue, toApiKeyResponse record), s\<lparr>ks_keys := tbl_create record (ks_keys s)\<rparr>))"

definition own_key :: "string \<Rightarrow> string \<Rightarrow> key_state \<Rightarrow> api_key option" where
  "own_key sub apiKeyId s = List.find (\<lambda>k. ak_id k = apiKeyId \<and> ak_userId k = sub) (ks_keys s)"

text \<open>Without page and limit.\<close>

definition listApiKeys :: "string \<Rightarrow> key_state \<Rightarrow> api_key_response list" where
  "listApiKeys sub s = map toApiKeyResponse (tbl_desc ak_createdAt (filter (\<lambda>k. ak_userId k = sub) (ks_keys s)))"

definition revoke_key :: "string \<Rightarrow> time \<Rightarrow> key_state \<Rightarrow> key_state" where
  "revoke_key apiKeyId now s =
     s\<lparr>ks_keys := tbl_update ak_id apiKeyId (\<lambda>k. k\<lparr>ak_revokedAt := Some now\<rparr>) (ks_keys s)\<rparr>"

definition rotateApiKey ::
  "(string \<Rightarrow> string) \<Rightarrow> string \<Rightarrow> string \<Rightarrow> string \<Rightarrow> string \<Rightarrow> time \<Rightarrow> key_state \<Rightarrow>
   (string \<times> api_key_response, key_state) outcome" where
  "rotateApiKey sha rnd newId sub apiKeyId now s =
     (case own_key sub apiKeyId s of
        None \<Rightarrow> (Inl (NotFound ''API key not found''), s)
      | Some k \<Rightarrow>
          createApiKey sha rnd newId sub
            \<lparr>dto_name = ak_name k, dto_permissions = ak_permissions k, dto_monthlyQuota = None,
             dto_expiresAt = ak_expiresAt k\<rparr> now (revoke_key (ak_id k) now s))"

definition revokeApiKey :: "string \<Rightarrow> string \<Rightarrow> time \<Rightarrow> key_state \<Rightarrow> (unit, key_state) outcome" where
  "revokeApiKey sub apiKeyId now s =
     (case own_key sub apiKeyId s of
        None \<Rightarrow> (Inl (NotFound ''API key not found''), s)
      | Some k \<Rightarrow> (Inr (), revoke_key (ak_id k) now s))"

definition updateApiKeyPermissions ::
  "string \<Rightarrow> string \<Rightarrow> string list \<Rightarrow> key_state \<Rightarrow> (api_key_response, key_state) outcome" where
  "updateApiKeyPermissions sub apiKeyId permissions s =
     (case own_key sub apiKeyId s of
        None \<Rightarrow> (Inl (NotFound ''API key not found''), s)
      | Some k \<Rightarrow>
          (Inr (toApiKeyResponse (k\<lparr>ak_permissions := normalizePermissions permissions\<rparr>)),
           s\<lparr>ks_keys := tbl_update ak_id (ak_id k)
               (\<lambda>r. r\<lparr>ak_permissions := normalizePermissions permissions\<rparr>) (ks_keys s)\<rparr>))"

definition getApiKeyUsage :: "string \<Rightarrow> string \<Rightarrow> key_state \<Rightarrow> api_key result" where
  "getApiKeyUsage sub apiKeyId s =
     (case own_key sub apiKeyId s of None \<Rightarrow> Inl (NotFound ''API key not found'') | Some k \<Rightarrow> Inr k)"

subsection \<open>Usage and quota\<close>

definition getMonthlyUsage :: "string \<Rightarrow> time \<Rightarrow> key_state \<Rightarrow> int" where
  "getMonthlyUsage apiKeyId now s =
     sum_list (map ud_requestCount
       (filter (\<lambda>u. ud_apiKeyId u = apiKeyId \<and> start_of_month now \<le> ud_date u) (ks_usage s)))"

definition recordUsage :: "string \<Rightarrow> time \<Rightarrow> key_state \<Rightarrow> key_state" where
  "recordUsage apiKeyId now s =
     (let today = start_of_day now;
          key = (\<lambda>u. (ud_apiKeyId u, ud_date u))
      in case tbl_find key (apiKeyId, today) (ks_usage s) of
           Some _ \<Rightarrow> s\<lparr>ks_usage := tbl_update key (apiKeyId, today)
               (\<lambda>u. u\<lparr>ud_requestCount := ud_requestCount u + 1\<rparr>) (ks_usage s)\<rparr>
         | None \<Rightarrow> s\<lparr>ks_usage := tbl_create
               \<lparr>ud_apiKeyId = apiKeyId, ud_date = today, ud_requestCount = 1\<rparr> (ks_usage s)\<rparr>)"

definition getSecondsUntilMonthReset :: "time \<Rightarrow> int" where
  "getSecondsUntilMonthReset now = ceil_div (start_of_next_month now - now) 1000"

text \<open>A quota of 0 is falsy: no quota.\<close>

definition checkQuota :: "string \<Rightarrow> time \<Rightarrow> key_state \<Rightarrow> unit result" where
  "checkQuota apiKeyId now s =
     (case tbl_find ak_id apiKeyId (ks_keys s) of
        None \<Rightarrow> Inr ()
      | Some k \<Rightarrow>
          (case ak_monthlyQuota k of
             None \<Rightarrow> Inr ()
           | Some quota \<Rightarrow>
               if quota = 0 then Inr ()
               else if quota \<le> getMonthlyUsage apiKeyId now s
               then Inl (TooManyRequests ''Monthly API key quota exceeded'' (Some (getSecondsUntilMonthReset now)))
               else Inr ()))"

definition validateApiKey ::
  "(string \<Rightarrow> string) \<Rightarrow> (string \<Rightarrow> key_owner) \<Rightarrow> string \<Rightarrow> time \<Rightarrow> key_state \<Rightarrow> (auth_payload, key_state) outcome" where
  "validateApiKey sha owner apiKeyValue now s =
     (case tbl_find ak_keyHash (sha apiKeyValue) (ks_keys s) of
        None \<Rightarrow> (Inl (Unauthorized ''Invalid API key''), s)
      | Some k \<Rightarrow>
          if ak_revokedAt k \<noteq> None \<or> (case ak_expiresAt k of Some e \<Rightarrow> e < now | None \<Rightarrow> False)
          then (Inl (Unauthorized ''Invalid API key''), s)
          else if ow_isBlocked (owner (ak_userId k)) then (Inl (Unauthorized ''User account is blocked''), s)
          else case checkQuota (ak_id k) now s of
            Inl e \<Rightarrow> (Inl e, s)
          | Inr _ \<Rightarrow>
              (let u = owner (ak_userId k);
                   s1 = s\<lparr>ks_keys := tbl_update ak_id (ak_id k)
                     (\<lambda>r. r\<lparr>ak_lastUsedAt := Some now, ak_usageCount := ak_usageCount r + 1\<rparr>) (ks_keys s)\<rparr>
               in (Inr \<lparr>ap_sub = ak_userId k, ap_email = ow_email u, ap_role = ow_role u, ap_tier = ow_tier u,
                     ap_type = Api_key_token, ap_apiKeyId = Some (ak_id k),
                     ap_apiKeyPermissions = ak_permissions k\<rparr>,
                   recordUsage (ak_id k) now s1)))"

interpretation key_ids: keyed_table ak_id "tbl_find ak_id" "tbl_update ak_id" tbl_create
  by (rule keyed_table_tbl)

interpretation key_hashes: keyed_table ak_keyHash "tbl_find ak_keyHash" "tbl_update ak_keyHash" tbl_create
  by (rule keyed_table_tbl)

interpretation usage_days: keyed_table "\<lambda>u. (ud_apiKeyId u, ud_date u)"
  "tbl_find (\<lambda>u. (ud_apiKeyId u, ud_date u))" "tbl_update (\<lambda>u. (ud_apiKeyId u, ud_date u))" tbl_create
  by (rule keyed_table_tbl)

subsection \<open>Facts about scopes\<close>

definition norm_permission :: "string \<Rightarrow> string" where
  "norm_permission p = js_lower (js_trim p)"

lemma scope_loop_eq:
  "scope_loop ps granted =
     (if \<exists>p \<in> set ps. norm_permission p \<in> set FULL_ACCESS_PERMISSIONS then None
      else Some (granted @ filter (\<lambda>p. p \<noteq> []) (map norm_permission ps)))"
  by (induction ps arbitrary: granted) (auto simp: norm_permission_def FULL_ACCESS_PERMISSIONS_def Let_def)

lemma granted_scopes:
  "c \<in> set (resolveApiKeyScopes ps) \<longleftrightarrow>
     (if ps = [] \<or> (\<exists>p \<in> set ps. norm_permission p \<in> set FULL_ACCESS_PERMISSIONS)
      then c = ''read'' \<or> c = ''write''
      else c \<noteq> [] \<and> (\<exists>p \<in> set ps. norm_permission p = c)
        \<or> c = ''read'' \<and> (\<exists>p \<in> set ps. norm_permission p = ''write''))"
  by (auto simp: resolveApiKeyScopes_def scope_loop_eq) (metis imageI)

subsection \<open>Facts about the life cycle\<close>

lemmas key_update_facts [table_simps] = tbl_find_update_by tbl_find_create

text \<open>A row found by its hash keeps its identity under every operation; once revoked it stays so.\<close>

definition revoked_hash :: "string \<Rightarrow> key_state \<Rightarrow> bool" where
  "revoked_hash h s \<longleftrightarrow> (case tbl_find ak_keyHash h (ks_keys s) of Some k \<Rightarrow> ak_revokedAt k \<noteq> None | None \<Rightarrow> False)"

lemma revoked_create: "revoked_hash h s \<Longrightarrow> revoked_hash h (snd (createApiKey sha rnd newId sub data now s))"
  by (auto simp: revoked_hash_def createApiKey_def Let_def tbl_find_create split: option.splits)

lemma revoked_revoke_key: "revoked_hash h s \<Longrightarrow> revoked_hash h (revoke_key i now s)"
  by (auto simp: revoked_hash_def revoke_key_def tbl_find_update_by split: option.splits)

lemma ks_keys_recordUsage [simp]: "ks_keys (recordUsage i now s) = ks_keys s"
  by (simp add: recordUsage_def Let_def split: option.split)

lemma revoked_validate: "revoked_hash h s \<Longrightarrow> revoked_hash h (snd (validateApiKey sha owner v now s))"
  by (auto simp: validateApiKey_def revoked_hash_def Let_def tbl_find_update_by split: option.splits sum.splits)

lemma revoked_update: "revoked_hash h s \<Longrightarrow> revoked_hash h (snd (updateApiKeyPermissions sub i ps s))"
  by (auto simp: updateApiKeyPermissions_def revoked_hash_def tbl_find_update_by split: option.splits)

lemma revoked_rotate: "revoked_hash h s \<Longrightarrow> revoked_hash h (snd (rotateApiKey sha rnd newId sub i now s))"
  by (auto simp: rotateApiKey_def revoked_create revoked_revoke_key split: option.split)

lemma revoked_revokeApiKey: "revoked_hash h s \<Longrightarrow> revoked_hash h (snd (revokeApiKey sub i now s))"
  by (auto simp: revokeApiKey_def revoked_revoke_key split: option.split)

text \<open>The operations on the table, as steps.\<close>

inductive key_step :: "(string \<Rightarrow> string) \<Rightarrow> (string \<Rightarrow> key_owner) \<Rightarrow> key_state \<Rightarrow> key_state \<Rightarrow> bool"
  for sha owner where
  create: "key_step sha owner s (snd (createApiKey sha rnd newId sub data now s))"
| rotate: "key_step sha owner s (snd (rotateApiKey sha rnd newId sub i now s))"
| revoke: "key_step sha owner s (snd (revokeApiKey sub i now s))"
| update: "key_step sha owner s (snd (updateApiKeyPermissions sub i ps s))"
| validate: "key_step sha owner s (snd (validateApiKey sha owner v now s))"

lemma revoked_steps: "(key_step sha owner)\<^sup>*\<^sup>* s s' \<Longrightarrow> revoked_hash h s \<Longrightarrow> revoked_hash h s'"
proof (induction rule: rtranclp_induct)
  case (step s' s'')
  from step.hyps(2) step.IH [OF step.prems] show ?case
    by cases (simp_all add: revoked_create revoked_rotate revoked_revokeApiKey revoked_update revoked_validate)
qed

lemma revoked_hash_rejected:
  "revoked_hash (sha v) s \<Longrightarrow> validateApiKey sha owner v now s = (Inl (Unauthorized ''Invalid API key''), s)"
  by (auto simp: revoked_hash_def validateApiKey_def split: option.splits)

lemma own_key_Some: "own_key sub i s = Some k \<Longrightarrow> ak_id k = i \<and> ak_userId k = sub"
  by (auto simp: own_key_def dest: find_Some_in)

lemma revoke_key_revokes:
  "tbl_find ak_keyHash h (ks_keys s) = Some k \<Longrightarrow> revoked_hash h (revoke_key (ak_id k) now s)"
  by (simp add: revoked_hash_def revoke_key_def tbl_find_update_by)

subsection \<open>Facts about the quota\<close>

definition usage_key :: "usage_daily \<Rightarrow> string \<times> time" where
  "usage_key u = (ud_apiKeyId u, ud_date u)"

definition usage_unique :: "key_state \<Rightarrow> bool" where
  "usage_unique s \<longleftrightarrow> distinct (map usage_key (ks_usage s))"

lemma recordUsage_alt:
  "recordUsage i now s =
     (case tbl_find usage_key (i, start_of_day now) (ks_usage s) of
        Some _ \<Rightarrow> s\<lparr>ks_usage := tbl_update usage_key (i, start_of_day now)
            (\<lambda>u. u\<lparr>ud_requestCount := ud_requestCount u + 1\<rparr>) (ks_usage s)\<rparr>
      | None \<Rightarrow> s\<lparr>ks_usage := tbl_create
            \<lparr>ud_apiKeyId = i, ud_date = start_of_day now, ud_requestCount = 1\<rparr> (ks_usage s)\<rparr>)"
  by (simp add: recordUsage_def usage_key_def [abs_def] Let_def split: option.split)

lemma usage_unique_record: "usage_unique s \<Longrightarrow> usage_unique (recordUsage i now s)"
proof -
  assume "usage_unique s"
  moreover have "map usage_key (tbl_update usage_key k (\<lambda>u. u\<lparr>ud_requestCount := ud_requestCount u + 1\<rparr>) t) =
      map usage_key t" for k t
    by (rule tbl_update_keys) (simp add: usage_key_def)
  moreover have "usage_key \<lparr>ud_apiKeyId = i, ud_date = start_of_day now, ud_requestCount = 1\<rparr> = (i, start_of_day now)"
    by (simp add: usage_key_def)
  ultimately show ?thesis
    by (auto simp: recordUsage_alt usage_unique_def tbl_find_None tbl_create_def split: option.split)
qed

lemma sum_update_one:
  assumes "distinct (map key t)" "tbl_find key k t = Some r" "p r" "\<And>u. p (f u) = p u" "\<And>u. g (f u) = g u + (1::int)"
  shows "sum_list (map g (filter p (tbl_update key k f t))) = sum_list (map g (filter p t)) + 1"
  using assms(1,2)
proof (induction t)
  case (Cons a t)
  show ?case
  proof (cases "key a = k")
    case True
    then have "tbl_update key k f t = t"
      using Cons.prems(1) by (auto simp: tbl_update_def intro!: map_idI) (metis imageI)
    moreover have "p a" using Cons.prems(2) True assms(3) by (simp add: tbl_find_def)
    ultimately show ?thesis using True assms(4,5) by (simp add: tbl_update_def)
  next
    case False
    then show ?thesis using Cons by (simp add: tbl_update_def tbl_find_def)
  qed
qed (simp add: tbl_find_def)

lemma getMonthlyUsage_record:
  assumes "usage_unique s" and "start_of_month t = start_of_month now"
  shows "getMonthlyUsage i t (recordUsage i now s) = getMonthlyUsage i t s + 1"
proof (cases "tbl_find usage_key (i, start_of_day now) (ks_usage s)")
  case None
  then show ?thesis
    using start_of_month_le [of now] assms(2)
    by (simp add: recordUsage_alt getMonthlyUsage_def tbl_create_def)
next
  case (Some r)
  then have "ud_apiKeyId r = i" "ud_date r = start_of_day now"
    by (auto dest: tbl_find_Some simp: usage_key_def)
  then show ?thesis
    using sum_update_one [of usage_key "ks_usage s", OF _ Some] assms start_of_month_le [of now]
    by (simp add: recordUsage_alt Some getMonthlyUsage_def usage_unique_def)
qed

text \<open>The answers to a sequence of requests that present the same key.\<close>

fun validations :: "(string \<Rightarrow> string) \<Rightarrow> (string \<Rightarrow> key_owner) \<Rightarrow> string \<Rightarrow> time list \<Rightarrow> key_state \<Rightarrow> bool list" where
  "validations sha owner v [] s = []"
| "validations sha owner v (t # ts) s =
     (let (res, s') = validateApiKey sha owner v t s in
      (case res of Inr _ \<Rightarrow> True | Inl _ \<Rightarrow> False) # validations sha owner v ts s')"

text \<open>An active key: its row is the one its hash and its id find, and it is neither revoked nor expiring.\<close>

definition active_key :: "(string \<Rightarrow> string) \<Rightarrow> (string \<Rightarrow> key_owner) \<Rightarrow> string \<Rightarrow> string \<Rightarrow> int \<Rightarrow> key_state \<Rightarrow> bool" where
  "active_key sha owner v i quota s \<longleftrightarrow>
     (case (tbl_find ak_keyHash (sha v) (ks_keys s), tbl_find ak_id i (ks_keys s)) of
        (Some k, Some k') \<Rightarrow> k' = k \<and> ak_id k = i \<and> ak_revokedAt k = None \<and> ak_expiresAt k = None
          \<and> ak_monthlyQuota k = Some quota \<and> \<not> ow_isBlocked (owner (ak_userId k))
      | _ \<Rightarrow> False)"

lemma active_key_step:
  assumes "active_key sha owner v i quota s" "0 < quota"
  shows "active_key sha owner v i quota (snd (validateApiKey sha owner v now s))"
    and "(case fst (validateApiKey sha owner v now s) of Inr _ \<Rightarrow> True | Inl _ \<Rightarrow> False) \<longleftrightarrow> getMonthlyUsage i now s < quota"
    and "getMonthlyUsage i now s < quota \<Longrightarrow>
      \<exists>s1. snd (validateApiKey sha owner v now s) = recordUsage i now s1 \<and> ks_usage s1 = ks_usage s"
    and "\<not> getMonthlyUsage i now s < quota \<Longrightarrow> snd (validateApiKey sha owner v now s) = s"
proof -
  obtain k where k: "tbl_find ak_keyHash (sha v) (ks_keys s) = Some k" "tbl_find ak_id i (ks_keys s) = Some k"
    "ak_id k = i" "ak_revokedAt k = None" "ak_expiresAt k = None" "ak_monthlyQuota k = Some quota"
    "\<not> ow_isBlocked (owner (ak_userId k))"
    using assms(1) by (auto simp: active_key_def split: option.splits)
  show "active_key sha owner v i quota (snd (validateApiKey sha owner v now s))"
    using k by (auto simp: validateApiKey_def active_key_def Let_def tbl_find_update_by split: sum.split)
  show "(case fst (validateApiKey sha owner v now s) of Inr _ \<Rightarrow> True | Inl _ \<Rightarrow> False) \<longleftrightarrow> getMonthlyUsage i now s < quota"
    using k assms(2) by (auto simp: validateApiKey_def checkQuota_def Let_def)
  show "\<exists>s1. snd (validateApiKey sha owner v now s) = recordUsage i now s1 \<and> ks_usage s1 = ks_usage s"
    if "getMonthlyUsage i now s < quota"
    using k assms(2) that
    by (intro exI [of _ "s\<lparr>ks_keys := tbl_update ak_id i
        (\<lambda>r. r\<lparr>ak_lastUsedAt := Some now, ak_usageCount := ak_usageCount r + 1\<rparr>) (ks_keys s)\<rparr>"])
      (simp add: validateApiKey_def checkQuota_def Let_def)
  show "snd (validateApiKey sha owner v now s) = s" if "\<not> getMonthlyUsage i now s < quota"
    using k assms(2) that by (simp add: validateApiKey_def checkQuota_def Let_def)
qed

lemma getMonthlyUsage_cong: "ks_usage s = ks_usage s' \<Longrightarrow> getMonthlyUsage i t s = getMonthlyUsage i t s'"
  by (simp add: getMonthlyUsage_def)

lemma quota_answers:
  assumes "0 < quota" and "active_key sha owner v i quota s" and "usage_unique s"
    and "\<forall>t \<in> set ts. start_of_month t = m"
    and "\<And>t. start_of_month t = m \<Longrightarrow> getMonthlyUsage i t s = used"
  shows "validations sha owner v ts s = map (\<lambda>j. used + int j < quota) [0..<length ts]"
  using assms(2-)
proof (induction ts arbitrary: s used)
  case (Cons t ts)
  let ?s' = "snd (validateApiKey sha owner v t s)"
  have m: "start_of_month t = m" "\<forall>t \<in> set ts. start_of_month t = m" using Cons.prems(3) by simp_all
  have used: "getMonthlyUsage i t s = used" using Cons.prems(4) [OF m(1)] .
  note step = active_key_step [OF Cons.prems(1) assms(1), of t]
  have "validations sha owner v ts ?s' = map (\<lambda>j. used + int (Suc j) < quota) [0..<length ts]"
  proof (cases "used < quota")
    case True
    then obtain s1 where s1: "?s' = recordUsage i t s1" "ks_usage s1 = ks_usage s" using step(3) used by blast
    have uniq: "usage_unique s1" using Cons.prems(2) s1(2) by (simp add: usage_unique_def)
    have "getMonthlyUsage i u ?s' = used + 1" if "start_of_month u = m" for u
      using getMonthlyUsage_record [OF uniq, of u t i] that m(1) Cons.prems(4) [OF that] getMonthlyUsage_cong [OF s1(2), of i u]
      by (simp add: s1(1))
    then show ?thesis
      using Cons.IH [OF step(1) _ m(2), of "used + 1"] usage_unique_record [OF uniq] by (simp add: s1(1) add.assoc)
  next
    case False
    then have "?s' = s" using step(4) used by blast
    then show ?thesis using Cons.IH [OF Cons.prems(1,2) m(2) Cons.prems(4)] False by simp
  qed
  then show ?case
    using step(2) used by (simp add: Let_def case_prod_beta map_upt_Suc del: upt_Suc)
qed simp

subsection \<open>Properties\<close>

text \<open>A key may write exactly if it is a legacy key without permissions or one of its permissions is,
  up to case and surrounding space, \<open>write\<close> or a full-access label; it may read exactly if it may
  write or holds \<open>read\<close>; a scope other than these two is never granted by a full-access label.\<close>

theorem api_key_scope_grants:
  "apiKeyHasScopes ps [''write''] =
     (ps = [] \<or> (\<exists>p \<in> set ps. js_lower (js_trim p) \<in> {''write'', ''*'', ''admin'', ''all''}))
   \<and> apiKeyHasScopes ps [''read''] =
     (ps = [] \<or> (\<exists>p \<in> set ps. js_lower (js_trim p) \<in> {''read'', ''write'', ''*'', ''admin'', ''all''}))
   \<and> (c \<notin> {''read'', ''write''} \<longrightarrow>
       apiKeyHasScopes ps [c] =
         (c \<noteq> [] \<and> (\<exists>p \<in> set ps. js_lower (js_trim p) = c)
          \<and> (\<forall>p \<in> set ps. js_lower (js_trim p) \<notin> {''*'', ''admin'', ''all''})))"
proof -
  have has: "apiKeyHasScopes ps [d] \<longleftrightarrow> d \<in> set (resolveApiKeyScopes ps)" for d
    by (simp add: apiKeyHasScopes_def)
  show ?thesis
    unfolding has granted_scopes
    by (auto simp: norm_permission_def FULL_ACCESS_PERMISSIONS_def)
qed

theorem api_key_scope_grants_witness:
  "\<not> apiKeyHasScopes [''*''] [''*''] \<and> \<not> apiKeyHasScopes [''read''] [''write''] \<and> apiKeyHasScopes ['' Write ''] [''read'']"
proof -
  have "js_lower (js_trim '' Write '') = ''write''" "js_lower (js_trim ''*'') = ''*''" "js_lower (js_trim ''read'') = ''read''"
    by code_simp+
  then show ?thesis
    using api_key_scope_grants [of "[''*'']" "''*''"] api_key_scope_grants [of "[''read'']" "''*''"]
      api_key_scope_grants [of "['' Write '']" "''*''"] by simp
qed

text \<open>C19: Revocation is final for a key value: once its row is revoked, no sequence of key operations,
  rotations included, makes the value valid again.\<close>

theorem revoked_key_never_validates:
  assumes "tbl_find ak_keyHash (sha v) (ks_keys s) = Some k"
    and "(key_step sha owner)\<^sup>*\<^sup>* (snd (revokeApiKey (ak_userId k) (ak_id k) now s)) s'"
    and "own_key (ak_userId k) (ak_id k) s = Some k"
  shows "fst (validateApiKey sha owner v later s') = Inl (Unauthorized ''Invalid API key'')"
proof -
  have "revoked_hash (sha v) (snd (revokeApiKey (ak_userId k) (ak_id k) now s))"
    using revoke_key_revokes [OF assms(1)] by (simp add: revokeApiKey_def assms(3))
  then show ?thesis
    using revoked_steps [OF assms(2)] revoked_hash_rejected by fastforce
qed

definition example_key :: api_key where
  "example_key = \<lparr>ak_id = ''k1'', ak_userId = ''u1'', ak_name = ''ci'', ak_keyPrefix = ''pc_00'', ak_keyHash = ''#pc_00'',
     ak_permissions = [''read''], ak_usageCount = 0, ak_monthlyQuota = Some 2, ak_lastUsedAt = None,
     ak_expiresAt = None, ak_revokedAt = None, ak_createdAt = 0\<rparr>"

definition example_keys :: key_state where
  "example_keys = \<lparr>ks_keys = [example_key], ks_usage = []\<rparr>"

definition example_owner :: "string \<Rightarrow> key_owner" where
  "example_owner u = \<lparr>ow_email = ''a@b.c'', ow_role = ''USER'', ow_tier = ''FREE'', ow_isBlocked = False\<rparr>"

theorem revoked_key_never_validates_witness:
  "fst (validateApiKey (\<lambda>v. ''#'' @ v) example_owner ''pc_00'' 9
     (snd (revokeApiKey ''u1'' ''k1'' 5 example_keys))) = Inl (Unauthorized ''Invalid API key'')"
  using revoked_key_never_validates [of "\<lambda>v. ''#'' @ v" "''pc_00''" example_keys example_key example_owner 5
      "snd (revokeApiKey ''u1'' ''k1'' 5 example_keys)" 9]
  by (simp add: example_keys_def tbl_find_def own_key_def example_key_def)

text \<open>Rotation replaces a key: the old value stops working, the new one works at once with the same
  owner and the same permissions, but the new key carries no monthly quota, whatever the old one had.\<close>

theorem rotation_replaces_key:
  assumes "tbl_find ak_keyHash (sha v) (ks_keys s) = Some k"
    and "own_key (ak_userId k) (ak_id k) s = Some k"
    and "ak_expiresAt k = None" and "\<not> ow_isBlocked (owner (ak_userId k))"
    and "tbl_find ak_keyHash (sha (''pc_'' @ rnd)) (ks_keys s) = None"
    and "tbl_find ak_id newId (ks_keys s) = None"
    and "ak_permissions k = normalizePermissions (ak_permissions k)"
  shows "let s' = snd (rotateApiKey sha rnd newId (ak_userId k) (ak_id k) now s) in
      fst (validateApiKey sha owner v later s') = Inl (Unauthorized ''Invalid API key'')
      \<and> (case fst (validateApiKey sha owner (''pc_'' @ rnd) later s') of
           Inr p \<Rightarrow> ap_sub p = ak_userId k \<and> ap_apiKeyPermissions p = ak_permissions k | Inl _ \<Rightarrow> False)
      \<and> map_option ak_monthlyQuota (tbl_find ak_id newId (ks_keys s')) = Some None"
proof -
  define s1 where "s1 = revoke_key (ak_id k) now s"
  define new where "new = \<lparr>ak_id = newId, ak_userId = ak_userId k, ak_name = ak_name k,
    ak_keyPrefix = take 12 (''pc_'' @ rnd), ak_keyHash = sha (''pc_'' @ rnd),
    ak_permissions = ak_permissions k, ak_usageCount = 0, ak_monthlyQuota = None, ak_lastUsedAt = None,
    ak_expiresAt = None, ak_revokedAt = None, ak_createdAt = now\<rparr>"
  have fresh: "tbl_find ak_keyHash (sha (''pc_'' @ rnd)) (ks_keys s1) = None" "tbl_find ak_id newId (ks_keys s1) = None"
    using assms(5,6) by (simp_all add: s1_def revoke_key_def tbl_find_update_by)
  have s': "snd (rotateApiKey sha rnd newId (ak_userId k) (ak_id k) now s) = s1\<lparr>ks_keys := tbl_create new (ks_keys s1)\<rparr>"
    using fresh assms(3) assms(7) [symmetric]
    by (simp add: rotateApiKey_def assms(2) createApiKey_def generateApiKeyValue_def Let_def s1_def new_def)
  have "revoked_hash (sha v) (snd (rotateApiKey sha rnd newId (ak_userId k) (ak_id k) now s))"
    using revoke_key_revokes [OF assms(1)] by (simp add: rotateApiKey_def assms(2) revoked_create)
  then have "fst (validateApiKey sha owner v later (s1\<lparr>ks_keys := tbl_create new (ks_keys s1)\<rparr>)) =
      Inl (Unauthorized ''Invalid API key'')"
    using revoked_hash_rejected s' by (metis fst_conv)
  then show ?thesis
    using fresh assms(4)
    by (simp add: s' Let_def validateApiKey_def checkQuota_def tbl_find_create new_def)
qed

theorem rotation_replaces_key_witness:
  "fst (validateApiKey (\<lambda>v. ''#'' @ v) example_owner ''pc_00'' 9
     (snd (rotateApiKey (\<lambda>v. ''#'' @ v) ''11'' ''k2'' ''u1'' ''k1'' 5 example_keys))) = Inl (Unauthorized ''Invalid API key'')
   \<and> map_option ak_monthlyQuota (tbl_find ak_id ''k2''
       (ks_keys (snd (rotateApiKey (\<lambda>v. ''#'' @ v) ''11'' ''k2'' ''u1'' ''k1'' 5 example_keys)))) = Some None"
proof -
  have "normalizePermissions [''read''] = [''read'']" by code_simp
  then show ?thesis
    using rotation_replaces_key [of "\<lambda>v. ''#'' @ v" "''pc_00''" example_keys example_key example_owner "''11''" "''k2''" 5 9]
    by (simp add: example_keys_def tbl_find_def own_key_def example_key_def example_owner_def Let_def)
qed

text \<open>Within a month, a key with a quota is accepted for exactly as many requests as its quota has
  left, and refused from then on.\<close>

theorem monthly_quota_exact:
  assumes "0 < quota" and "active_key sha owner v i quota s" and "usage_unique s"
    and "\<forall>t \<in> set ts. start_of_month t = m"
    and "\<And>t. start_of_month t = m \<Longrightarrow> getMonthlyUsage i t s = used"
  shows "validations sha owner v ts s = map (\<lambda>j. used + int j < quota) [0..<length ts]"
  by (rule quota_answers [OF assms])

theorem monthly_quota_exact_witness:
  "validations (\<lambda>v. ''#'' @ v) example_owner ''pc_00'' [0, 10, 86400000, 90000000] example_keys = [True, True, False, False]"
proof -
  have "start_of_month 0 = 0" "start_of_month 10 = 0" "start_of_month 86400000 = 0" "start_of_month 90000000 = 0"
    by code_simp+
  then show ?thesis
    using monthly_quota_exact [of 2 "\<lambda>v. ''#'' @ v" example_owner "''pc_00''" "''k1''" example_keys
        "[0, 10, 86400000, 90000000]" 0 0]
    by (simp add: active_key_def example_keys_def tbl_find_def example_key_def example_owner_def usage_unique_def
        getMonthlyUsage_def upt_rec del: validations.simps)
qed

end
