(* ===== verification/Two_Factor.thy ===== *)
theory Two_Factor
  imports Store Totp
begin

text \<open>
  Trusted devices and recovery codes (\<open>src/auth/two-factor.service.ts\<close>) and the guard that asks for a
  fresh second factor (\<open>src/auth/guards/fresh-two-factor.guard.ts\<close>).  \<open>sha\<close> is SHA-256; random tokens
  and codes and the database's identifiers are arguments.  \<open>touch_ok\<close> says whether the update of
  \<open>lastUsedAt\<close> succeeds: its failure is caught and ignored.
\<close>

subsection \<open>Trusted devices\<close>

record trusted_device =
  td_id :: string
  td_userId :: string
  td_tokenHash :: string
  td_label :: "string option"
  td_userAgent :: "string option"
  td_ipAddress :: "string option"
  td_createdAt :: time
  td_lastUsedAt :: "time option"
  td_expiresAt :: time
  td_revokedAt :: "time option"

record device_summary =
  ds_id :: string
  ds_label :: "string option"
  ds_userAgent :: "string option"
  ds_ipAddress :: "string option"
  ds_createdAt :: time
  ds_lastUsedAt :: "time option"
  ds_expiresAt :: time

type_synonym devices = "trusted_device list"

definition DEFAULT_TRUSTED_DEVICE_TTL_DAYS :: int where "DEFAULT_TRUSTED_DEVICE_TTL_DAYS = 30"

definition trustedDeviceTtlMs :: "string option \<Rightarrow> int" where
  "trustedDeviceTtlMs env =
     (let parsed = parse_int10 (case env of Some s \<Rightarrow> s | None \<Rightarrow> []);
          days = (case parsed of Some n \<Rightarrow> if 0 < n then n else DEFAULT_TRUSTED_DEVICE_TTL_DAYS
                  | None \<Rightarrow> DEFAULT_TRUSTED_DEVICE_TTL_DAYS)
      in days * 24 * 60 * 60 * 1000)"

definition toSummary :: "trusted_device \<Rightarrow> device_summary" where
  "toSummary d = \<lparr>ds_id = td_id d, ds_label = td_label d, ds_userAgent = td_userAgent d,
     ds_ipAddress = td_ipAddress d, ds_createdAt = td_createdAt d, ds_lastUsedAt = td_lastUsedAt d,
     ds_expiresAt = td_expiresAt d\<rparr>"

definition isTrustedDevice ::
  "(string \<Rightarrow> string) \<Rightarrow> bool \<Rightarrow> string \<Rightarrow> string option \<Rightarrow> time \<Rightarrow> devices \<Rightarrow> bool \<times> devices" where
  "isTrustedDevice sha touch_ok userId token now t =
     (let normalized = (case token of Some s \<Rightarrow> js_trim s | None \<Rightarrow> []) in
      if normalized = [] then (False, t)
      else case tbl_find td_tokenHash (sha normalized) t of
        None \<Rightarrow> (False, t)
      | Some device \<Rightarrow>
          if td_userId device \<noteq> userId \<or> td_revokedAt device \<noteq> None then (False, t)
          else if td_expiresAt device \<le> now then (False, t)
          else (True, if touch_ok
                      then tbl_update td_id (td_id device) (\<lambda>d. d\<lparr>td_lastUsedAt := Some now\<rparr>) t else t))"

record remember_options =
  ro_label :: "string option"
  ro_userAgent :: "string option"
  ro_ipAddress :: "string option"

text \<open>\<open>tokenHash\<close> is unique in the schema.\<close>

definition rememberDevice ::
  "(string \<Rightarrow> string) \<Rightarrow> string option \<Rightarrow> string \<Rightarrow> string \<Rightarrow> string \<Rightarrow> remember_options \<Rightarrow> time \<Rightarrow> devices \<Rightarrow>
   (string \<times> device_summary, devices) outcome" where
  "rememberDevice sha ttl_env token newId userId options now t =
     (let device = \<lparr>td_id = newId, td_userId = userId, td_tokenHash = sha token, td_label = ro_label options,
            td_userAgent = ro_userAgent options, td_ipAddress = ro_ipAddress options, td_createdAt = now,
            td_lastUsedAt = None, td_expiresAt = now + trustedDeviceTtlMs ttl_env, td_revokedAt = None\<rparr>
      in if tbl_find td_tokenHash (sha token) t \<noteq> None
         then (Inl (InternalError ''Unique constraint failed''), t)
         else (Inr (token, toSummary device), tbl_create device t))"

definition listDevices :: "string \<Rightarrow> time \<Rightarrow> devices \<Rightarrow> device_summary list" where
  "listDevices userId now t =
     map toSummary (tbl_desc td_createdAt
       (filter (\<lambda>d. td_userId d = userId \<and> td_revokedAt d = None \<and> now < td_expiresAt d) t))"

definition revokeDevice :: "string \<Rightarrow> string \<Rightarrow> time \<Rightarrow> devices \<Rightarrow> (string \<times> bool, devices) outcome" where
  "revokeDevice userId deviceId now t =
     (case tbl_find td_id deviceId t of
        None \<Rightarrow> (Inl (NotFound ''Trusted device not found''), t)
      | Some device \<Rightarrow>
          if td_userId device \<noteq> userId then (Inl (NotFound ''Trusted device not found''), t)
          else if td_revokedAt device \<noteq> None then (Inr (td_id device, True), t)
          else (Inr (td_id device, False),
                tbl_update td_id (td_id device) (\<lambda>d. d\<lparr>td_revokedAt := Some now\<rparr>) t))"

definition revokeAllDevices :: "string \<Rightarrow> time \<Rightarrow> devices \<Rightarrow> nat \<times> devices" where
  "revokeAllDevices userId now t =
     (let active = (\<lambda>d. td_userId d = userId \<and> td_revokedAt d = None)
      in (tbl_count active t, tbl_update_many active (\<lambda>d. d\<lparr>td_revokedAt := Some now\<rparr>) t))"

interpretation device_ids: keyed_table td_id "tbl_find td_id" "tbl_update td_id" tbl_create
  by (rule keyed_table_tbl)

interpretation device_hashes: keyed_table td_tokenHash "tbl_find td_tokenHash" "tbl_update td_tokenHash" tbl_create
  by (rule keyed_table_tbl)

subsection \<open>Recovery codes and the fresh-factor guard\<close>

record twofa_user =
  tu_id :: string
  tu_twoFactorEnabled :: bool
  tu_twoFactorSecret :: "string option"
  tu_twoFactorBackupCodes :: "string list"

type_synonym 'a twofa_users = "'a twofa_user_scheme list"

text \<open>The two factors live in the user row, which theory \<open>Accounts\<close> extends; the operations are polymorphic
  in the rest of the row.\<close>

interpretation twofa_users: keyed_table tu_id "tbl_find tu_id" "tbl_update tu_id" tbl_create
  by (rule keyed_table_tbl)

text \<open>\<open>codes\<close> are the codes \<open>generateBackupCodes\<close> draws; updating a user that does not exist is refused
  by the database.\<close>

definition regenerateRecoveryCodes ::
  "(string \<Rightarrow> string) \<Rightarrow> string list \<Rightarrow> string \<Rightarrow> 'a twofa_users \<Rightarrow> (string list, 'a twofa_users) outcome" where
  "regenerateRecoveryCodes sha codes userId us =
     (if tbl_find tu_id userId us = None then (Inl (InternalError ''Record to update not found''), us)
      else (Inr codes, tbl_update tu_id userId (\<lambda>u. u\<lparr>tu_twoFactorBackupCodes := map sha codes\<rparr>) us))"

text \<open>The request's \<open>x-2fa-code\<close> header and its body, where they are strings.\<close>

definition extractCode :: "string option \<Rightarrow> (string \<Rightarrow> string option) \<Rightarrow> string option" where
  "extractCode hdr body =
     (case hdr of
        Some h \<Rightarrow> if js_trim h \<noteq> [] then Some (js_trim h) else
          map_option js_trim (List.find (\<lambda>v. js_trim v \<noteq> [])
            (List.map_filter body [''totpCode'', ''twoFactorCode'', ''code'']))
      | None \<Rightarrow>
          map_option js_trim (List.find (\<lambda>v. js_trim v \<noteq> [])
            (List.map_filter body [''totpCode'', ''twoFactorCode'', ''code''])))"

definition FreshTwoFactorGuard_canActivate ::
  "hmac \<Rightarrow> (string \<Rightarrow> string) \<Rightarrow> string option \<Rightarrow> string option \<Rightarrow> (string \<Rightarrow> string option) \<Rightarrow> time \<Rightarrow> 'a twofa_users \<Rightarrow>
   (bool, 'a twofa_users) outcome" where
  "FreshTwoFactorGuard_canActivate hmac_sha1 sha sub hdr body now us =
     (case sub of
        None \<Rightarrow> (Inl (Forbidden ''Authentication required''), us)
      | Some sub' \<Rightarrow>
          if sub' = [] then (Inl (Forbidden ''Authentication required''), us)
          else case tbl_find tu_id sub' us of
            None \<Rightarrow> (Inl (Forbidden ''Authentication required''), us)
          | Some user \<Rightarrow>
              if \<not> tu_twoFactorEnabled user then (Inr True, us)
              else case extractCode hdr body of
                None \<Rightarrow> (Inl (Forbidden
                  ''Fresh two-factor authentication required. Provide a current TOTP or recovery code.''), us)
              | Some code \<Rightarrow>
                  (case (case tu_twoFactorSecret user of
                           Some secret \<Rightarrow> if secret = [] then Some False
                                          else verifyTotpCode hmac_sha1 secret code 6 30 1 now
                         | None \<Rightarrow> Some False) of
                     None \<Rightarrow> (Inl (InternalError ''RangeError''), us)
                   | Some True \<Rightarrow> (Inr True, us)
                   | Some False \<Rightarrow>
                       (case verifyBackupCode sha code (tu_twoFactorBackupCodes user) of
                          None \<Rightarrow> (Inl (Forbidden ''Invalid two-factor authentication code''), us)
                        | Some matching \<Rightarrow>
                            (Inr True, tbl_update tu_id sub'
                               (\<lambda>u. u\<lparr>tu_twoFactorBackupCodes :=
                                  filter (\<lambda>hash. hash \<noteq> matching) (tu_twoFactorBackupCodes user)\<rparr>) us))))"

subsection \<open>Facts about trusted devices\<close>

lemma ttl_pos: "0 < trustedDeviceTtlMs env"
  by (auto simp: trustedDeviceTtlMs_def DEFAULT_TRUSTED_DEVICE_TTL_DAYS_def Let_def split: option.split)

definition trusted_row :: "string \<Rightarrow> time \<Rightarrow> trusted_device \<Rightarrow> bool" where
  "trusted_row userId now d \<longleftrightarrow> td_userId d = userId \<and> td_revokedAt d = None \<and> now < td_expiresAt d"

lemma isTrustedDevice_iff:
  "js_trim token \<noteq> [] \<Longrightarrow>
   fst (isTrustedDevice sha ok userId (Some token) now t) \<longleftrightarrow>
     (case tbl_find td_tokenHash (sha (js_trim token)) t of Some d \<Rightarrow> trusted_row userId now d | None \<Rightarrow> False)"
  by (auto simp: isTrustedDevice_def trusted_row_def Let_def split: option.split)

text \<open>A hash whose device is revoked; no operation clears it.\<close>

definition revoked_device :: "string \<Rightarrow> devices \<Rightarrow> bool" where
  "revoked_device h t \<longleftrightarrow> (case tbl_find td_tokenHash h t of Some d \<Rightarrow> td_revokedAt d \<noteq> None | None \<Rightarrow> False)"

inductive device_step :: "(string \<Rightarrow> string) \<Rightarrow> devices \<Rightarrow> devices \<Rightarrow> bool" for sha where
  check: "device_step sha t (snd (isTrustedDevice sha ok userId token now t))"
| remember: "device_step sha t (snd (rememberDevice sha ttl_env token newId userId options now t))"
| revoke: "device_step sha t (snd (revokeDevice userId deviceId now t))"
| revoke_all: "device_step sha t (snd (revokeAllDevices userId now t))"

lemma tbl_find_update_many:
  "(\<And>r. key (f r) = key r) \<Longrightarrow>
   tbl_find key h (tbl_update_many p f t) = map_option (\<lambda>r. if p r then f r else r) (tbl_find key h t)"
  unfolding tbl_find_def tbl_update_many_def by (induction t) auto

lemma revoked_device_step: "device_step sha t t' \<Longrightarrow> revoked_device h t \<Longrightarrow> revoked_device h t'"
proof (induction rule: device_step.induct)
  case (check t ok userId token now)
  then show ?case
    by (auto simp: isTrustedDevice_def revoked_device_def Let_def tbl_find_update_by split: option.splits)
next
  case (remember t ttl_env token newId userId options now)
  then show ?case
    by (auto simp: rememberDevice_def revoked_device_def Let_def tbl_find_create split: option.splits)
next
  case (revoke t userId deviceId now)
  then show ?case
    by (auto simp: revokeDevice_def revoked_device_def tbl_find_update_by split: option.splits)
next
  case (revoke_all t userId now)
  then show ?case
    by (auto simp: revokeAllDevices_def revoked_device_def Let_def tbl_find_update_many split: option.splits)
qed

lemma revoked_device_steps: "(device_step sha)\<^sup>*\<^sup>* t t' \<Longrightarrow> revoked_device h t \<Longrightarrow> revoked_device h t'"
  by (induction rule: rtranclp_induct) (auto intro: revoked_device_step)

lemma revoked_device_untrusted: "revoked_device (sha (js_trim token)) t \<Longrightarrow>
   \<not> fst (isTrustedDevice sha ok userId (Some token) now t)"
  by (auto simp: revoked_device_def isTrustedDevice_def Let_def split: option.splits)

subsection \<open>Properties\<close>

text \<open>A remembered device is trusted for its own user, and only for that user, exactly until its
  lifetime has passed.\<close>

theorem remembered_device_lifetime:
  assumes "tbl_find td_tokenHash (sha token) t = None" and "token \<noteq> []" and "js_trim token = token"
  shows "fst (isTrustedDevice sha ok u (Some token) later
      (snd (rememberDevice sha ttl_env token newId userId options now t)))
    \<longleftrightarrow> u = userId \<and> later < now + trustedDeviceTtlMs ttl_env"
  using assms
  by (auto simp: isTrustedDevice_iff rememberDevice_def Let_def tbl_find_create trusted_row_def)

theorem remembered_device_lifetime_witness:
  "fst (isTrustedDevice id True ''u1'' (Some ''ab'') 2591999999
     (snd (rememberDevice id None ''ab'' ''d1'' ''u1'' \<lparr>ro_label = None, ro_userAgent = None, ro_ipAddress = None\<rparr> 0 [])))
   \<and> \<not> fst (isTrustedDevice id True ''u1'' (Some ''ab'') 2592000000
     (snd (rememberDevice id None ''ab'' ''d1'' ''u1'' \<lparr>ro_label = None, ro_userAgent = None, ro_ipAddress = None\<rparr> 0 [])))"
proof -
  have "js_trim ''ab'' = ''ab''" "trustedDeviceTtlMs None = 2592000000" by code_simp+
  then show ?thesis
    using remembered_device_lifetime [of id "''ab''" "[]" True "''u1''" _ None "''d1''" "''u1''"
        "\<lparr>ro_label = None, ro_userAgent = None, ro_ipAddress = None\<rparr>" 0]
    by (simp add: tbl_find_def)
qed

text \<open>After all devices of a user are revoked, as every change of the second factor does, no token of
  any of them is trusted again, whatever device operations follow.\<close>

theorem revoke_all_is_final:
  assumes "tbl_find td_tokenHash (sha (js_trim token)) t = Some d" and "td_userId d = userId"
    and "(device_step sha)\<^sup>*\<^sup>* (snd (revokeAllDevices userId now t)) t'"
  shows "\<not> fst (isTrustedDevice sha ok u (Some token) later t')"
proof -
  have "revoked_device (sha (js_trim token)) (snd (revokeAllDevices userId now t))"
    using assms(1,2) by (auto simp: revoked_device_def revokeAllDevices_def Let_def tbl_find_update_many)
  from revoked_device_steps [OF assms(3) this] show ?thesis by (rule revoked_device_untrusted)
qed

definition example_devices :: devices where
  "example_devices = snd (rememberDevice id None ''ab'' ''d1'' ''u1''
     \<lparr>ro_label = None, ro_userAgent = None, ro_ipAddress = None\<rparr> 0 [])"

theorem revoke_all_is_final_witness:
  "\<not> fst (isTrustedDevice id True ''u1'' (Some ''ab'') 7 (snd (revokeAllDevices ''u1'' 5 example_devices)))"
proof -
  have "js_trim ''ab'' = ''ab''" by code_simp
  then show ?thesis
    using revoke_all_is_final [of id "''ab''" example_devices "hd example_devices" "''u1''" 5
        "snd (revokeAllDevices ''u1'' 5 example_devices)" True "''u1''" 7]
    by (simp add: example_devices_def rememberDevice_def Let_def tbl_find_def tbl_create_def)
qed

text \<open>A recovery code opens the fresh-factor guard once: accepting it removes exactly its hash, so the
  same code is refused afterwards while every other code is still accepted.\<close>

theorem recovery_code_single_use:
  assumes "tbl_find tu_id sub us = Some user" and "sub \<noteq> []" and "tu_twoFactorEnabled user"
    and "extractCode hdr body = Some code" and "tu_twoFactorSecret user = Some secret"
    and "verifyTotpCode h secret code 6 30 1 now = Some False"
    and "verifyTotpCode h secret code 6 30 1 later = Some False"
    and "sha (js_upper (js_trim code)) \<in> set (tu_twoFactorBackupCodes user)"
  shows "let (res, us') = FreshTwoFactorGuard_canActivate h sha (Some sub) hdr body now us in
      res = Inr True
      \<and> fst (FreshTwoFactorGuard_canActivate h sha (Some sub) hdr body later us') =
          Inl (Forbidden ''Invalid two-factor authentication code'')
      \<and> map_option (\<lambda>u. set (tu_twoFactorBackupCodes u)) (tbl_find tu_id sub us') =
          Some (set (tu_twoFactorBackupCodes user) - {sha (js_upper (js_trim code))})"
proof -
  let ?h = "sha (js_upper (js_trim code))"
  have match: "verifyBackupCode sha code (tu_twoFactorBackupCodes user) = Some ?h"
    using assms(8) by (simp add: verifyBackupCode_Some)
  define us' where "us' = tbl_update tu_id sub
    (\<lambda>u. u\<lparr>tu_twoFactorBackupCodes := filter (\<lambda>hash. hash \<noteq> ?h) (tu_twoFactorBackupCodes user)\<rparr>) us"
  have totp: "(if secret = [] then Some False else verifyTotpCode h secret code 6 30 1 v) = Some False"
    if "v = now \<or> v = later" for v using that assms(6,7) by auto
  have first: "FreshTwoFactorGuard_canActivate h sha (Some sub) hdr body now us = (Inr True, us')"
    using assms(1-5) match totp [of now] by (simp add: FreshTwoFactorGuard_canActivate_def us'_def)
  have row: "tbl_find tu_id sub us' = Some (user\<lparr>tu_twoFactorBackupCodes := filter (\<lambda>hash. hash \<noteq> ?h) (tu_twoFactorBackupCodes user)\<rparr>)"
    unfolding us'_def by (rule twofa_users.update_same [OF assms(1)]) simp
  have "verifyBackupCode sha code (filter (\<lambda>hash. hash \<noteq> ?h) (tu_twoFactorBackupCodes user)) = None"
    using verifyBackupCode_Some [of sha code "filter (\<lambda>hash. hash \<noteq> ?h) (tu_twoFactorBackupCodes user)"]
    by (cases "verifyBackupCode sha code (filter (\<lambda>hash. hash \<noteq> ?h) (tu_twoFactorBackupCodes user))") auto
  then have "fst (FreshTwoFactorGuard_canActivate h sha (Some sub) hdr body later us') =
      Inl (Forbidden ''Invalid two-factor authentication code'')"
    using assms(2-5) totp [of later] by (simp add: FreshTwoFactorGuard_canActivate_def row)
  then show ?thesis by (auto simp: first row)
qed

definition example_users :: "unit twofa_users" where
  "example_users = [\<lparr>tu_id = ''u1'', tu_twoFactorEnabled = True, tu_twoFactorSecret = Some ''GEZDGNBV'',
     tu_twoFactorBackupCodes = [''AAAA'', ''BBBB'']\<rparr>]"

theorem recovery_code_single_use_witness:
  "fst (FreshTwoFactorGuard_canActivate (\<lambda>k m. []) id (Some ''u1'') (Some '' aaaa '') (\<lambda>_. None) 200000
     (snd (FreshTwoFactorGuard_canActivate (\<lambda>k m. []) id (Some ''u1'') (Some '' aaaa '') (\<lambda>_. None) 100000 example_users)))
   = Inl (Forbidden ''Invalid two-factor authentication code'')"
proof -
  have "\<not> list_all is_digit (js_trim ''aaaa'')" by code_simp
  then have "verifyTotpCode (\<lambda>k m. []) ''GEZDGNBV'' ''aaaa'' 6 30 1 100000 = Some False"
    "verifyTotpCode (\<lambda>k m. []) ''GEZDGNBV'' ''aaaa'' 6 30 1 200000 = Some False"
    by (rule verifyTotp_non_digits [rotated 2]; simp)+
  moreover have "extractCode (Some '' aaaa '') (\<lambda>_. None) = Some ''aaaa''"
    "js_upper (js_trim ''aaaa'') = ''AAAA''"
    by code_simp+
  ultimately show ?thesis
    using recovery_code_single_use [of "''u1''" example_users "hd example_users" "Some '' aaaa ''" "\<lambda>_. None" "''aaaa''"
        "''GEZDGNBV''" "\<lambda>k m. []" 100000 200000 id]
    by (simp add: example_users_def tbl_find_def Let_def case_prod_beta)
qed

end
