(* ===== verification/Passwords.thy ===== *)
theory Passwords
  imports Prelude
begin

text \<open>
  The password policy, \<open>src/auth/password.utils.ts\<close>.  Configuration values are strings or absent;
  a \<open>PASSWORD_MIN_LENGTH\<close> that is a number but no integer is outside the model.  The character class
  \<open>new RegExp('[' + escaped + ']')\<close> matches the characters of \<open>specialChars\<close>: every character with a meaning
  inside a class is escaped, and the empty class matches nothing.
\<close>

record password_policy =
  pp_minLength :: int
  pp_requireUppercase :: bool
  pp_requireLowercase :: bool
  pp_requireDigit :: bool
  pp_requireSpecial :: bool
  pp_specialChars :: string

definition DEFAULT_SPECIAL_CHARS :: string where
  "DEFAULT_SPECIAL_CHARS = ''!@#$%^&*()_+-=[]{}|;:'' @ [CHR 0x22] @ '',./<>?''"

definition config_flag :: "string option \<Rightarrow> bool" where
  "config_flag v = (case v of None \<Rightarrow> True | Some s \<Rightarrow> s = ''true'')"

definition getPasswordPolicy :: "(string \<Rightarrow> string option) \<Rightarrow> password_policy" where
  "getPasswordPolicy config =
     \<lparr>pp_minLength =
        (case config ''PASSWORD_MIN_LENGTH'' of
           None \<Rightarrow> 8
         | Some s \<Rightarrow> (case js_number_integer s of Some n \<Rightarrow> if 0 < n then n else 8 | None \<Rightarrow> 8)),
      pp_requireUppercase = config_flag (config ''PASSWORD_REQUIRE_UPPERCASE''),
      pp_requireLowercase = config_flag (config ''PASSWORD_REQUIRE_LOWERCASE''),
      pp_requireDigit = config_flag (config ''PASSWORD_REQUIRE_DIGIT''),
      pp_requireSpecial = config_flag (config ''PASSWORD_REQUIRE_SPECIAL''),
      pp_specialChars = (case config ''PASSWORD_SPECIAL_CHARS'' of
        Some s \<Rightarrow> s | None \<Rightarrow> take 32 DEFAULT_SPECIAL_CHARS)\<rparr>"

definition is_upper_AZ :: "char \<Rightarrow> bool" where
  "is_upper_AZ c = (let n = (of_char c :: nat) in 65 \<le> n \<and> n \<le> 90)"

definition is_lower_az :: "char \<Rightarrow> bool" where
  "is_lower_az c = (let n = (of_char c :: nat) in 97 \<le> n \<and> n \<le> 122)"

definition validatePassword :: "(string \<Rightarrow> string option) \<Rightarrow> string \<Rightarrow> string list" where
  "validatePassword config password =
     (let policy = getPasswordPolicy config in
      (if password = [] \<or> int (length password) < pp_minLength policy
       then [''Password must be at least '' @ show_int (pp_minLength policy) @ '' characters long''] else [])
      @ (if pp_requireUppercase policy \<and> \<not> list_ex is_upper_AZ password
         then [''Password must include at least one uppercase letter''] else [])
      @ (if pp_requireLowercase policy \<and> \<not> list_ex is_lower_az password
         then [''Password must include at least one lowercase letter''] else [])
      @ (if pp_requireDigit policy \<and> \<not> list_ex is_digit password
         then [''Password must include at least one digit''] else [])
      @ (if pp_requireSpecial policy \<and> \<not> list_ex (\<lambda>c. c \<in> set (pp_specialChars policy)) password
         then [''Password must include at least one special character''] else []))"

lemma default_policy:
  "getPasswordPolicy (\<lambda>_. None) =
     \<lparr>pp_minLength = 8, pp_requireUppercase = True, pp_requireLowercase = True, pp_requireDigit = True,
      pp_requireSpecial = True, pp_specialChars = DEFAULT_SPECIAL_CHARS\<rparr>"
  by (simp add: getPasswordPolicy_def config_flag_def DEFAULT_SPECIAL_CHARS_def)

lemma if_singleton_Nil: "(if b then [x] else []) = [] \<longleftrightarrow> \<not> b"
  by simp

lemma accepted_iff:
  "validatePassword config password = [] \<longleftrightarrow>
     (let policy = getPasswordPolicy config in
      password \<noteq> [] \<and> pp_minLength policy \<le> int (length password)
      \<and> (pp_requireUppercase policy \<longrightarrow> list_ex is_upper_AZ password)
      \<and> (pp_requireLowercase policy \<longrightarrow> list_ex is_lower_az password)
      \<and> (pp_requireDigit policy \<longrightarrow> list_ex is_digit password)
      \<and> (pp_requireSpecial policy \<longrightarrow> list_ex (\<lambda>c. c \<in> set (pp_specialChars policy)) password))"
  by (simp only: validatePassword_def Let_def append_is_Nil_conv if_singleton_Nil not_less de_Morgan_conj
      de_Morgan_disj not_not imp_conv_disj conj_assoc)

text \<open>Under the default policy a password is accepted exactly when it has eight characters, an upper-case
  and a lower-case letter, a digit and one of the special characters.\<close>

theorem default_policy_exact:
  "validatePassword (\<lambda>_. None) password = [] \<longleftrightarrow>
     8 \<le> length password \<and> (\<exists>c \<in> set password. is_upper_AZ c) \<and> (\<exists>c \<in> set password. is_lower_az c)
     \<and> (\<exists>c \<in> set password. is_digit c) \<and> (\<exists>c \<in> set password. c \<in> set DEFAULT_SPECIAL_CHARS)"
proof -
  have "password \<noteq> [] \<and> 8 \<le> int (length password) \<longleftrightarrow> 8 \<le> length password" by (cases password) auto
  then show ?thesis
    by (simp only: accepted_iff default_policy Let_def password_policy.simps simp_thms list_ex_iff conj_assoc [symmetric])
qed

text \<open>The policy is monotone: whatever the configuration, appending characters to an accepted password
  keeps it accepted.\<close>

theorem accepted_password_extends:
  assumes "validatePassword config password = []"
  shows "validatePassword config (password @ extra) = []"
proof -
  have more: "list_ex p password \<Longrightarrow> list_ex p (password @ extra)" for p by simp
  show ?thesis using assms by (simp only: accepted_iff Let_def) (simp add: more)
qed

theorem accepted_password_extends_witness:
  "validatePassword (\<lambda>_. None) (''Passw0rd!'' @ ''x'') = []"
proof -
  have "validatePassword (\<lambda>_. None) ''Passw0rd!'' = []" by code_simp
  then show ?thesis by (rule accepted_password_extends)
qed

end
