(* ===== verification/Transactions.thy ===== *)
theory Transactions
  imports Store Status_Machines Complex_Main
begin

text \<open>
  Property transactions: \<open>src/transactions/transactions.service.ts\<close>, \<open>transaction-cancellation.service.ts\<close>,
  \<open>transaction-audit.service.ts\<close>, the stage events of \<open>timeline.service.ts\<close>, and the commissions that
  follow a transaction (\<open>src/commissions/commissions.service.ts\<close>).

  The state holds the tables the services write and the notifications they send.  Amounts and rates are
  exact decimals, here \<open>rat\<close>.  Identifiers the database assigns, existence of the property and the
  users, and the agents of a property (its \<open>PropertyAgent\<close> rows, with their commission rates) are
  arguments.  The fee breakdown stored with a transaction and the metrics are not part of the state.
\<close>

subsection \<open>State\<close>

datatype refund_status = Refund_NONE | Refund_PENDING | Refund_PROCESSED | Refund_FAILED

record transaction =
  tx_id :: string
  tx_propertyId :: string
  tx_buyerId :: string
  tx_sellerId :: string
  tx_amount :: rat
  tx_type :: string
  tx_status :: transaction_status
  tx_blockchainHash :: "string option"
  tx_contractAddress :: "string option"
  tx_notes :: "string option"
  tx_escrowStatus :: "string option"
  tx_escrowAmount :: "rat option"
  tx_escrowReleasedAt :: "time option"
  tx_paymentStatus :: "string option"
  tx_cancellationReason :: "string option"
  tx_cancelledById :: "string option"
  tx_cancelledAt :: "time option"
  tx_refundAmount :: "rat option"
  tx_refundStatus :: refund_status
  tx_createdAt :: time

record commission =
  cm_id :: string
  cm_transactionId :: string
  cm_agentId :: string
  cm_propertyId :: string
  cm_amount :: rat
  cm_rate :: rat
  cm_status :: transaction_status

record history_entry =
  th_transactionId :: string
  th_status :: transaction_status
  th_actorId :: "string option"
  th_previous :: transaction_status
  th_new :: transaction_status
  th_createdAt :: time

datatype milestone_status = Milestone_PENDING | Milestone_COMPLETED | Milestone_DELAYED

record milestone =
  mi_id :: string
  mi_transactionId :: string
  mi_title :: string
  mi_description :: "string option"
  mi_status :: milestone_status
  mi_expectedDate :: time
  mi_actualDate :: "time option"
  mi_reminderSentAt :: "time option"

record notification =
  no_userId :: string
  no_title :: string
  no_message :: string
  no_type :: string

record tx_state =
  ts_transactions :: "transaction list"
  ts_commissions :: "commission list"
  ts_history :: "history_entry list"
  ts_milestones :: "milestone list"
  ts_sent :: "notification list"

interpretation transactions: keyed_table tx_id "tbl_find tx_id" "tbl_update tx_id" tbl_create
  by (rule keyed_table_tbl)

interpretation milestones: keyed_table mi_id "tbl_find mi_id" "tbl_update mi_id" tbl_create
  by (rule keyed_table_tbl)

definition find_tx :: "string \<Rightarrow> tx_state \<Rightarrow> transaction option" where
  "find_tx i s = tbl_find tx_id i (ts_transactions s)"

definition update_tx :: "string \<Rightarrow> (transaction \<Rightarrow> transaction) \<Rightarrow> tx_state \<Rightarrow> tx_state" where
  "update_tx i f s = s\<lparr>ts_transactions := tbl_update tx_id i f (ts_transactions s)\<rparr>"

definition send :: "notification \<Rightarrow> tx_state \<Rightarrow> tx_state" where
  "send n s = s\<lparr>ts_sent := ts_sent s @ [n]\<rparr>"

subsection \<open>Statuses in requests\<close>

definition show_tx_status :: "transaction_status \<Rightarrow> string" where
  "show_tx_status st = (case st of Tx_PENDING \<Rightarrow> ''PENDING'' | Tx_COMPLETED \<Rightarrow> ''COMPLETED'' | Tx_CANCELLED \<Rightarrow> ''CANCELLED'')"

definition read_tx_status :: "string \<Rightarrow> transaction_status option" where
  "read_tx_status s =
     (if s = ''PENDING'' then Some Tx_PENDING else if s = ''COMPLETED'' then Some Tx_COMPLETED
      else if s = ''CANCELLED'' then Some Tx_CANCELLED else None)"

text \<open>\<open>TransactionStatusDto\<close>, with the value \<open>FAILED\<close> that no transaction has.\<close>

datatype status_dto = Dto_status transaction_status | Dto_FAILED

subsection \<open>Commissions\<close>

record property_agent =
  pa_agentId :: string
  pa_commissionRate :: rat

definition createCommissionsForTransaction ::
  "(string \<Rightarrow> property_agent list) \<Rightarrow> (string \<Rightarrow> string) \<Rightarrow> string \<Rightarrow> tx_state \<Rightarrow> tx_state" where
  "createCommissionsForTransaction agents_of newId transactionId s =
     (case find_tx transactionId s of
        None \<Rightarrow> s
      | Some t \<Rightarrow>
          (let agents = agents_of (tx_propertyId t);
               existing = map cm_agentId (filter (\<lambda>c. cm_transactionId c = transactionId) (ts_commissions s));
               data = map (\<lambda>a. \<lparr>cm_id = newId (pa_agentId a), cm_transactionId = transactionId,
                   cm_agentId = pa_agentId a, cm_propertyId = tx_propertyId t,
                   cm_amount = tx_amount t * pa_commissionRate a, cm_rate = pa_commissionRate a,
                   cm_status = tx_status t\<rparr>)
                 (filter (\<lambda>a. pa_agentId a \<notin> set existing) agents)
           in s\<lparr>ts_commissions := ts_commissions s @ data\<rparr>))"

text \<open>A status that is neither \<open>COMPLETED\<close> nor \<open>CANCELLED\<close> is written as \<open>PENDING\<close>.\<close>

definition updateCommissionsStatus :: "string \<Rightarrow> string \<Rightarrow> tx_state \<Rightarrow> tx_state" where
  "updateCommissionsStatus transactionId status s =
     (let dbStatus = (if status = ''COMPLETED'' then Tx_COMPLETED
                      else if status = ''CANCELLED'' then Tx_CANCELLED else Tx_PENDING)
      in s\<lparr>ts_commissions := tbl_update_many (\<lambda>c. cm_transactionId c = transactionId)
             (\<lambda>c. c\<lparr>cm_status := dbStatus\<rparr>) (ts_commissions s)\<rparr>)"

record commission_query =
  cq_agentId :: "string option"
  cq_propertyId :: "string option"
  cq_transactionId :: "string option"
  cq_status :: "transaction_status option"
  cq_page :: "nat option"
  cq_limit :: "nat option"

text \<open>An absent or empty query field is no filter.\<close>

definition filter_by :: "string option \<Rightarrow> string \<Rightarrow> bool" where
  "filter_by q v = (case q of None \<Rightarrow> True | Some w \<Rightarrow> w = [] \<or> v = w)"

definition commission_where :: "commission_query \<Rightarrow> string \<Rightarrow> string \<Rightarrow> commission \<Rightarrow> bool" where
  "commission_where q role sub c \<longleftrightarrow>
     (if role = ''AGENT'' then cm_agentId c = sub else filter_by (cq_agentId q) (cm_agentId c))
     \<and> filter_by (cq_propertyId q) (cm_propertyId c) \<and> filter_by (cq_transactionId q) (cm_transactionId c)
     \<and> (case cq_status q of None \<Rightarrow> True | Some st \<Rightarrow> cm_status c = st)"

text \<open>\<open>Commissions_findAll\<close> returns total and page; \<open>created\<close> gives the rows' creation times.\<close>

definition Commissions_findAll ::
  "(commission \<Rightarrow> time) \<Rightarrow> commission_query \<Rightarrow> string \<Rightarrow> string \<Rightarrow> tx_state \<Rightarrow> nat \<times> commission list" where
  "Commissions_findAll created q role sub s =
     (let page = (case cq_page q of Some p \<Rightarrow> p | None \<Rightarrow> 1);
          lim = (case cq_limit q of Some l \<Rightarrow> l | None \<Rightarrow> 20);
          rows = filter (commission_where q role sub) (ts_commissions s)
      in (length rows, take lim (drop ((page - 1) * lim) (tbl_desc created rows))))"

definition Commissions_findOne :: "string \<Rightarrow> string \<Rightarrow> string \<Rightarrow> tx_state \<Rightarrow> commission result" where
  "Commissions_findOne i role sub s =
     (case tbl_find cm_id i (ts_commissions s) of
        None \<Rightarrow> Inl (NotFound ''Commission record not found'')
      | Some c \<Rightarrow>
          if role \<noteq> ''ADMIN'' \<and> cm_agentId c \<noteq> sub
          then Inl (Forbidden ''You are not authorized to view this commission record'')
          else Inr c)"

definition commission_total :: "(commission \<Rightarrow> bool) \<Rightarrow> commission list \<Rightarrow> rat" where
  "commission_total p cs = sum_list (map cm_amount (filter p cs))"

record agent_stats =
  as_earned :: rat
  as_pending :: rat
  as_completedCount :: nat
  as_pendingCount :: nat

text \<open>The agent branch of \<open>getStats\<close>.\<close>

definition getStats_agent :: "string \<Rightarrow> tx_state \<Rightarrow> agent_stats" where
  "getStats_agent sub s =
     (let own = filter (\<lambda>c. cm_agentId c = sub) (ts_commissions s);
          sum = (\<lambda>st. commission_total (\<lambda>c. cm_status c = st) own);
          cnt = (\<lambda>st. tbl_count (\<lambda>c. cm_status c = st) own)
      in \<lparr>as_earned = sum Tx_COMPLETED, as_pending = sum Tx_PENDING,
          as_completedCount = cnt Tx_COMPLETED, as_pendingCount = cnt Tx_PENDING\<rparr>)"

subsection \<open>Creating transactions\<close>

record create_tx_dto =
  ct_propertyId :: string
  ct_buyerId :: string
  ct_sellerId :: string
  ct_amount :: rat
  ct_type :: string
  ct_notes :: "string option"

definition new_tx :: "string \<Rightarrow> create_tx_dto \<Rightarrow> time \<Rightarrow> transaction" where
  "new_tx i dto now = \<lparr>tx_id = i, tx_propertyId = ct_propertyId dto, tx_buyerId = ct_buyerId dto,
     tx_sellerId = ct_sellerId dto, tx_amount = ct_amount dto, tx_type = ct_type dto,
     tx_status = DEFAULT_TRANSACTION_STATUS, tx_blockchainHash = None, tx_contractAddress = None,
     tx_notes = ct_notes dto, tx_escrowStatus = None, tx_escrowAmount = None, tx_escrowReleasedAt = None,
     tx_paymentStatus = None, tx_cancellationReason = None, tx_cancelledById = None, tx_cancelledAt = None,
     tx_refundAmount = None, tx_refundStatus = Refund_NONE, tx_createdAt = now\<rparr>"

text \<open>\<open>auto_hash\<close> is the outcome of the best-effort \<open>autoRecordOnBlockchain\<close>: the hash it stores, or
  \<open>None\<close> where it is disabled or fails.  The commission service is called inside \<open>$transaction\<close> but reads
  through the client outside it, which sees the committed state only: the new row is not in it.\<close>

definition create ::
  "(string \<Rightarrow> bool) \<Rightarrow> (string \<Rightarrow> bool) \<Rightarrow> (string \<Rightarrow> property_agent list) \<Rightarrow> (string \<Rightarrow> string) \<Rightarrow> string option \<Rightarrow> string \<Rightarrow>
   create_tx_dto \<Rightarrow> time \<Rightarrow> tx_state \<Rightarrow> (string, tx_state) outcome" where
  "create property_exists user_exists agents_of newCommissionId auto_hash newId dto now s =
     (if \<not> property_exists (ct_propertyId dto) then (Inl (NotFound ''Property not found''), s)
      else if \<not> user_exists (ct_buyerId dto) then (Inl (NotFound ''Buyer not found''), s)
      else if \<not> user_exists (ct_sellerId dto) then (Inl (NotFound ''Seller not found''), s)
      else
        (let committed = createCommissionsForTransaction agents_of newCommissionId newId s;
             s1 = committed\<lparr>ts_transactions := tbl_create (new_tx newId dto now) (ts_transactions committed)\<rparr>;
             s2 = (case auto_hash of
                     Some h \<Rightarrow> update_tx newId (\<lambda>t. t\<lparr>tx_blockchainHash := Some h\<rparr>) s1
                   | None \<Rightarrow> s1)
         in (Inr newId, s2)))"

text \<open>\<open>createTransaction\<close>, which creates the commissions after the row is committed.\<close>

definition createTransaction ::
  "(string \<Rightarrow> bool) \<Rightarrow> (string \<Rightarrow> bool) \<Rightarrow> (string \<Rightarrow> property_agent list) \<Rightarrow> (string \<Rightarrow> string) \<Rightarrow> string \<Rightarrow>
   create_tx_dto \<Rightarrow> time \<Rightarrow> tx_state \<Rightarrow> (string, tx_state) outcome" where
  "createTransaction property_exists user_exists agents_of newCommissionId newId dto now s =
     (if \<not> property_exists (ct_propertyId dto) then (Inl (NotFound ''Property not found''), s)
      else if \<not> user_exists (ct_buyerId dto) then (Inl (NotFound ''Buyer not found''), s)
      else if \<not> user_exists (ct_sellerId dto) then (Inl (NotFound ''Seller not found''), s)
      else
        (let s1 = s\<lparr>ts_transactions :=
               tbl_create (new_tx newId (dto\<lparr>ct_notes := None\<rparr>) now) (ts_transactions s)\<rparr>
         in (Inr newId, createCommissionsForTransaction agents_of newCommissionId newId s1)))"

subsection \<open>Changing transactions\<close>

definition log_transition ::
  "string \<Rightarrow> transaction_status \<Rightarrow> transaction_status \<Rightarrow> string option \<Rightarrow> time \<Rightarrow> tx_state \<Rightarrow> tx_state" where
  "log_transition i prev nxt actorId now s =
     s\<lparr>ts_history := tbl_create \<lparr>th_transactionId = i, th_status = nxt, th_actorId = actorId,
         th_previous = prev, th_new = nxt, th_createdAt = now\<rparr> (ts_history s)\<rparr>"

definition addStageEvent :: "string \<Rightarrow> string \<Rightarrow> string \<Rightarrow> time \<Rightarrow> tx_state \<Rightarrow> tx_state" where
  "addStageEvent newId transactionId status now s =
     s\<lparr>ts_milestones := tbl_create \<lparr>mi_id = newId, mi_transactionId = transactionId,
         mi_title = ''Status changed to '' @ status,
         mi_description = Some (''Automatic stage event on transition to '' @ status),
         mi_status = Milestone_COMPLETED, mi_expectedDate = now, mi_actualDate = Some now,
         mi_reminderSentAt = None\<rparr> (ts_milestones s)\<rparr>"

definition updateTransactionStatus ::
  "string \<Rightarrow> string \<Rightarrow> string \<Rightarrow> string option \<Rightarrow> time \<Rightarrow> tx_state \<Rightarrow> (transaction, tx_state) outcome" where
  "updateTransactionStatus newMilestoneId transactionId status actorId now s =
     (case find_tx transactionId s of
        None \<Rightarrow> (Inl (NotFound ''Transaction not found''), s)
      | Some t \<Rightarrow>
          (let invalid = Inl (BadRequest (''Invalid status transition from \"'' @ show_tx_status (tx_status t)
                 @ ''\" to \"'' @ status @ ''\"''))
           in case read_tx_status status of
                None \<Rightarrow> (invalid, s)
              | Some nxt \<Rightarrow>
                  if \<not> canTransitionTransactionStatus (tx_status t) nxt then (invalid, s)
                  else
                    (let s1 = update_tx transactionId (\<lambda>t. t\<lparr>tx_status := nxt\<rparr>) s;
                         s2 = log_transition transactionId (tx_status t) nxt actorId now s1;
                         s3 = updateCommissionsStatus transactionId status s2;
                         s4 = addStageEvent newMilestoneId transactionId status now s3
                     in (Inr (t\<lparr>tx_status := nxt\<rparr>), s4))))"

text \<open>\<open>update\<close>: absent fields are left alone.\<close>

definition update_transaction ::
  "string \<Rightarrow> status_dto option \<Rightarrow> string option \<Rightarrow> tx_state \<Rightarrow> (transaction, tx_state) outcome" where
  "update_transaction i dto_status dto_notes s =
     (case find_tx i s of
        None \<Rightarrow> (Inl (NotFound ''Transaction not found''), s)
      | Some t \<Rightarrow>
          if dto_status = Some Dto_FAILED
          then (Inl (BadRequest ''FAILED is not a supported transaction status''), s)
          else if dto_status = Some (Dto_status Tx_COMPLETED)
              \<and> (case tx_escrowStatus t of Some e \<Rightarrow> e \<noteq> [] \<and> e \<noteq> ''RELEASED'' | None \<Rightarrow> False)
          then (Inl (BadRequest ''Escrow must be RELEASED before completing transaction''), s)
          else
            (let f = (\<lambda>t. t\<lparr>tx_status := (case dto_status of Some (Dto_status st) \<Rightarrow> st | _ \<Rightarrow> tx_status t),
                            tx_notes := (case dto_notes of Some n \<Rightarrow> Some n | None \<Rightarrow> tx_notes t)\<rparr>);
                 s1 = update_tx i f s;
                 s2 = (case dto_status of
                         Some (Dto_status st) \<Rightarrow> updateCommissionsStatus i (show_tx_status st) s1
                       | _ \<Rightarrow> s1)
             in (Inr (f t), s2)))"

text \<open>\<open>verification\<close> is what \<open>BlockchainService.verifyBlockchainTransaction\<close> reports for the stored hash.\<close>

definition verifyOnBlockchain ::
  "(string \<Rightarrow> bool \<times> string) \<Rightarrow> string \<Rightarrow> tx_state \<Rightarrow> (bool \<times> string, tx_state) outcome" where
  "verifyOnBlockchain verification i s =
     (case find_tx i s of
        None \<Rightarrow> (Inl (NotFound ''Transaction not found''), s)
      | Some t \<Rightarrow>
          (case tx_blockchainHash t of
             None \<Rightarrow> (Inl (BadRequest ''Transaction not recorded on blockchain''), s)
           | Some h \<Rightarrow>
               if h = [] then (Inl (BadRequest ''Transaction not recorded on blockchain''), s)
               else if fst (verification h) \<and> snd (verification h) = ''success''
               then (Inr (verification h),
                     updateCommissionsStatus i ''COMPLETED'' (update_tx i (\<lambda>t. t\<lparr>tx_status := Tx_COMPLETED\<rparr>) s))
               else (Inr (verification h), s)))"

record escrow_dto =
  es_escrowStatus :: "string option"
  es_escrowAmount :: "rat option"
  es_paymentStatus :: "string option"

definition updateEscrow :: "string \<Rightarrow> escrow_dto \<Rightarrow> time \<Rightarrow> tx_state \<Rightarrow> (transaction, tx_state) outcome" where
  "updateEscrow i dto now s =
     (case find_tx i s of
        None \<Rightarrow> (Inl (NotFound ''Transaction not found''), s)
      | Some t \<Rightarrow>
          (let f = (\<lambda>t. t\<lparr>tx_escrowStatus := (case es_escrowStatus dto of Some x \<Rightarrow> Some x | None \<Rightarrow> tx_escrowStatus t),
                 tx_escrowAmount := (case es_escrowAmount dto of Some x \<Rightarrow> Some x | None \<Rightarrow> tx_escrowAmount t),
                 tx_paymentStatus := (case es_paymentStatus dto of Some x \<Rightarrow> Some x | None \<Rightarrow> tx_paymentStatus t),
                 tx_escrowReleasedAt := (if es_escrowStatus dto = Some ''RELEASED'' then Some now
                                         else tx_escrowReleasedAt t)\<rparr>);
               s1 = update_tx i f s;
               s2 = (if es_escrowStatus dto = Some ''RELEASED'' \<or> es_paymentStatus dto = Some ''COMPLETE''
                     then send \<lparr>no_userId = tx_buyerId t, no_title = ''Payment Milestone Update'',
                       no_message = ''Escrow/payment milestone reached for transaction '' @ i,
                       no_type = ''TRANSACTION_UPDATE''\<rparr> s1
                     else s1)
           in (Inr (f t), s2)))"

subsection \<open>Cancellation and refund\<close>

record cancel_dto =
  ca_reason :: string
  ca_refundAmount :: "rat option"

definition cancel ::
  "string \<Rightarrow> string \<Rightarrow> cancel_dto \<Rightarrow> string \<Rightarrow> time \<Rightarrow> tx_state \<Rightarrow> (transaction, tx_state) outcome" where
  "cancel propertyTitle i dto cancelledById now s =
     (case find_tx i s of
        None \<Rightarrow> (Inl (NotFound (''Transaction '' @ i @ '' not found'')), s)
      | Some t \<Rightarrow>
          if tx_status t = Tx_CANCELLED then (Inl (BadRequest ''Transaction is already cancelled''), s)
          else if tx_status t = Tx_COMPLETED
          then (Inl (BadRequest ''Completed transactions cannot be cancelled''), s)
          else
            (let refundAmount = (case ca_refundAmount dto of Some a \<Rightarrow> a | None \<Rightarrow> tx_amount t);
                 f = (\<lambda>t. t\<lparr>tx_status := Tx_CANCELLED, tx_cancellationReason := Some (ca_reason dto),
                     tx_cancelledById := Some cancelledById, tx_cancelledAt := Some now,
                     tx_refundAmount := Some refundAmount, tx_refundStatus := Refund_PENDING\<rparr>);
                 message = ''Transaction for \"'' @ propertyTitle @ ''\" has been cancelled. Reason: '' @ ca_reason dto;
                 note = (\<lambda>u. \<lparr>no_userId = u, no_title = ''Transaction Cancelled'', no_message = message,
                     no_type = ''TRANSACTION_CANCELLED''\<rparr>)
             in (Inr (f t), send (note (tx_sellerId t)) (send (note (tx_buyerId t)) (update_tx i f s)))))"

text \<open>\<open>show_amount\<close> prints a decimal amount, or \<open>null\<close>.\<close>

definition processRefund :: "(rat option \<Rightarrow> string) \<Rightarrow> string \<Rightarrow> tx_state \<Rightarrow> (transaction, tx_state) outcome" where
  "processRefund show_amount i s =
     (case find_tx i s of
        None \<Rightarrow> (Inl (NotFound (''Transaction '' @ i @ '' not found'')), s)
      | Some t \<Rightarrow>
          if tx_status t \<noteq> Tx_CANCELLED then (Inl (BadRequest ''Transaction is not cancelled''), s)
          else if tx_refundStatus t = Refund_PROCESSED then (Inl (BadRequest ''Refund already processed''), s)
          else (Inr (t\<lparr>tx_refundStatus := Refund_PROCESSED\<rparr>),
                send \<lparr>no_userId = tx_buyerId t, no_title = ''Refund Processed'',
                  no_message = ''Your refund of '' @ show_amount (tx_refundAmount t) @ '' has been processed.'',
                  no_type = ''REFUND_PROCESSED''\<rparr>
                  (update_tx i (\<lambda>t. t\<lparr>tx_refundStatus := Refund_PROCESSED\<rparr>) s)))"

subsection \<open>Facts about the state operations\<close>

definition status_of :: "string \<Rightarrow> tx_state \<Rightarrow> transaction_status option" where
  "status_of i s = map_option tx_status (find_tx i s)"

lemma find_update_tx [simp, table_simps]:
  "(\<And>t. tx_id (f t) = tx_id t) \<Longrightarrow>
   find_tx j (update_tx i f s) = (if j = i then map_option f (find_tx j s) else find_tx j s)"
  unfolding find_tx_def update_tx_def
  by (simp add: transactions.lookup_update)

lemma find_tx_frame [simp, table_simps]:
  "find_tx j (send n s) = find_tx j s"
  "find_tx j (log_transition i prev nxt actor now s) = find_tx j s"
  "find_tx j (addStageEvent m i st now s) = find_tx j s"
  "find_tx j (updateCommissionsStatus i st s) = find_tx j s"
  "find_tx j (createCommissionsForTransaction agents_of newId i s) = find_tx j s"
  by (simp_all add: find_tx_def send_def log_transition_def addStageEvent_def updateCommissionsStatus_def
      createCommissionsForTransaction_def Let_def split: option.split)

lemma commissions_frame [simp, table_simps]:
  "ts_commissions (send n s) = ts_commissions s"
  "ts_commissions (log_transition i prev nxt actor now s) = ts_commissions s"
  "ts_commissions (addStageEvent m i st now s) = ts_commissions s"
  "ts_commissions (update_tx i f s) = ts_commissions s"
  by (simp_all add: send_def log_transition_def addStageEvent_def update_tx_def)

lemma find_tx_create [simp]:
  "find_tx j (s\<lparr>ts_transactions := tbl_create t (ts_transactions s)\<rparr>) =
     (case find_tx j s of Some q \<Rightarrow> Some q | None \<Rightarrow> if tx_id t = j then Some t else None)"
  by (simp add: find_tx_def tbl_find_create)

lemma read_show_status [simp]: "read_tx_status (show_tx_status st) = Some st"
  by (cases st) (simp_all add: read_tx_status_def show_tx_status_def)

lemma read_status_inv: "read_tx_status x = Some st \<Longrightarrow> x = show_tx_status st"
  by (auto simp: read_tx_status_def show_tx_status_def split: if_splits)

subsection \<open>The guarded operations follow the life cycle\<close>

inductive guarded_step :: "tx_state \<Rightarrow> tx_state \<Rightarrow> bool" where
  create: "guarded_step s (snd (create pe ue agents_of newC h newId dto now s))"
| create_test: "guarded_step s (snd (createTransaction pe ue agents_of newC newId dto now s))"
| status: "guarded_step s (snd (updateTransactionStatus m i st actor now s))"
| escrow: "guarded_step s (snd (updateEscrow i e now s))"
| cancel: "guarded_step s (snd (cancel title i c who now s))"
| refund: "guarded_step s (snd (processRefund sh i s))"

lemma status_of_create:
  "status_of j s = Some st \<Longrightarrow> status_of j (snd (create pe ue agents_of newC h newId dto now s)) = Some st"
  by (auto simp: status_of_def create_def Let_def split: option.splits)

lemma status_of_createTransaction:
  "status_of j s = Some st \<Longrightarrow> status_of j (snd (createTransaction pe ue agents_of newC newId dto now s)) = Some st"
  by (auto simp: status_of_def createTransaction_def Let_def split: option.splits)

lemma status_of_status:
  "status_of j s = Some st \<Longrightarrow>
   \<exists>st'. status_of j (snd (updateTransactionStatus m i x actor now s)) = Some st' \<and> canTransitionTransactionStatus st st'"
  by (auto simp: status_of_def updateTransactionStatus_def Let_def tx_status.can_refl split: option.splits)

lemma status_of_escrow:
  "status_of j s = Some st \<Longrightarrow> status_of j (snd (updateEscrow i e now s)) = Some st"
  by (auto simp: status_of_def updateEscrow_def Let_def split: option.splits)

lemma status_of_cancel:
  "status_of j s = Some st \<Longrightarrow>
   \<exists>st'. status_of j (snd (cancel title i c who now s)) = Some st' \<and> canTransitionTransactionStatus st st'"
  by (cases st) (auto simp: status_of_def cancel_def Let_def canTransitionTransactionStatus_def split: option.splits)

lemma status_of_refund:
  "status_of j s = Some st \<Longrightarrow> status_of j (snd (processRefund sh i s)) = Some st"
  by (auto simp: status_of_def processRefund_def split: option.splits)

lemmas status_of_ops = status_of_create status_of_createTransaction status_of_escrow status_of_refund

lemma guarded_step_status:
  assumes "guarded_step s s'" and "status_of j s = Some st"
  shows "\<exists>st'. status_of j s' = Some st' \<and> canTransitionTransactionStatus st st'"
  using assms
proof cases
  case (status m i x actor now)
  then show ?thesis using status_of_status [OF assms(2)] by simp
next
  case (cancel title i c who now)
  then show ?thesis using status_of_cancel [OF assms(2)] by simp
qed (use assms(2) status_of_ops in \<open>simp_all add: tx_status.can_refl\<close>)

lemma guarded_steps_status:
  assumes "guarded_step\<^sup>*\<^sup>* s s'" and "status_of j s = Some st"
  shows "\<exists>st'. status_of j s' = Some st' \<and> canTransitionTransactionStatus\<^sup>*\<^sup>* st st'"
  using assms(1)
proof (induction rule: rtranclp_induct)
  case base
  then show ?case using assms(2) by auto
next
  case (step s' s'')
  then obtain st' where st': "status_of j s' = Some st'" "canTransitionTransactionStatus\<^sup>*\<^sup>* st st'" by blast
  from guarded_step_status [OF step.hyps(2) st'(1)] obtain st''
    where "status_of j s'' = Some st''" "canTransitionTransactionStatus st' st''" by blast
  with st'(2) show ?case by (meson rtranclp.rtrancl_into_rtrancl)
qed

subsection \<open>Facts about commissions\<close>

definition commission_key :: "commission \<Rightarrow> string \<times> string" where
  "commission_key c = (cm_transactionId c, cm_agentId c)"

definition commissions_unique :: "tx_state \<Rightarrow> bool" where
  "commissions_unique s \<longleftrightarrow> distinct (map commission_key (ts_commissions s))"

definition new_commission :: "(string \<Rightarrow> string) \<Rightarrow> transaction \<Rightarrow> property_agent \<Rightarrow> commission" where
  "new_commission newId t a = \<lparr>cm_id = newId (pa_agentId a), cm_transactionId = tx_id t,
     cm_agentId = pa_agentId a, cm_propertyId = tx_propertyId t, cm_amount = tx_amount t * pa_commissionRate a,
     cm_rate = pa_commissionRate a, cm_status = tx_status t\<rparr>"

definition has_commission :: "string \<Rightarrow> string \<Rightarrow> commission list \<Rightarrow> bool" where
  "has_commission i agent cs \<longleftrightarrow> (i, agent) \<in> set (map commission_key cs)"

lemma commission_key_new [simp]: "commission_key (new_commission newId t a) = (tx_id t, pa_agentId a)"
  by (simp add: commission_key_def new_commission_def)

lemma find_tx_id: "find_tx i s = Some t \<Longrightarrow> tx_id t = i"
  unfolding find_tx_def by (rule transactions.lookup_key)

lemma createCommissions_eq:
  assumes "find_tx i s = Some t"
  shows "ts_commissions (createCommissionsForTransaction agents_of newId i s) = ts_commissions s
    @ map (new_commission newId t) (filter (\<lambda>a. \<not> has_commission i (pa_agentId a) (ts_commissions s)) (agents_of (tx_propertyId t)))"
proof -
  have "pa_agentId a \<in> set (map cm_agentId (filter (\<lambda>c. cm_transactionId c = i) cs)) \<longleftrightarrow> has_commission i (pa_agentId a) cs"
    for a :: property_agent and cs :: "commission list"
    by (induction cs) (auto simp: has_commission_def commission_key_def)
  then show ?thesis
    using find_tx_id [OF assms]
    by (simp add: createCommissionsForTransaction_def assms Let_def new_commission_def [abs_def])
qed

lemma createCommissions_unique:
  assumes "commissions_unique s" and "\<And>p. distinct (map pa_agentId (agents_of p))"
  shows "commissions_unique (createCommissionsForTransaction agents_of newId i s)"
proof (cases "find_tx i s")
  case (Some t)
  let ?fresh = "filter (\<lambda>a. \<not> has_commission i (pa_agentId a) (ts_commissions s)) (agents_of (tx_propertyId t))"
  have "distinct (map pa_agentId ?fresh)"
    using assms(2) by (rule distinct_map_filter)
  then have "distinct (map (commission_key \<circ> new_commission newId t) ?fresh)"
    by (simp add: distinct_map inj_on_def)
  moreover have "(tx_id t, pa_agentId a) \<noteq> commission_key c" if "a \<in> set ?fresh" "c \<in> set (ts_commissions s)" for a c
    using that find_tx_id [OF Some] by (auto simp: has_commission_def)
  ultimately show ?thesis
    using assms(1) by (auto simp: commissions_unique_def createCommissions_eq [OF Some])
qed (use assms(1) in \<open>simp add: createCommissionsForTransaction_def\<close>)

lemma createCommissions_covers:
  assumes "find_tx i s = Some t" and "a \<in> set (agents_of (tx_propertyId t))"
  shows "has_commission i (pa_agentId a) (ts_commissions (createCommissionsForTransaction agents_of newId i s))"
  using assms(2) find_tx_id [OF assms(1)]
  by (auto simp: createCommissions_eq [OF assms(1)] has_commission_def image_image)

lemma createCommissions_idem:
  "ts_commissions (createCommissionsForTransaction agents_of newId i (createCommissionsForTransaction agents_of newId i s)) =
   ts_commissions (createCommissionsForTransaction agents_of newId i s)"
proof (cases "find_tx i s")
  case None
  then show ?thesis by (simp add: createCommissionsForTransaction_def)
next
  case (Some t)
  then have "find_tx i (createCommissionsForTransaction agents_of newId i s) = Some t" by simp
  then show ?thesis
    using createCommissions_covers [OF Some] by (simp add: createCommissions_eq)
qed

subsection \<open>Properties\<close>

text \<open>C17: Whatever sequence of creations, administrative status changes, escrow updates, cancellations and
  refunds follows, a completed or cancelled transaction keeps its status for good.\<close>

theorem terminal_status_is_final:
  assumes "guarded_step\<^sup>*\<^sup>* s s'" and "status_of i s = Some st" and "st \<noteq> Tx_PENDING"
  shows "status_of i s' = Some st"
  using guarded_steps_status [OF assms(1,2)] tx_status.terminal_history [OF _ tx_terminal [OF assms(3)]] by blast

definition example_dto :: create_tx_dto where
  "example_dto = \<lparr>ct_propertyId = ''p1'', ct_buyerId = ''b'', ct_sellerId = ''s'', ct_amount = 100,
     ct_type = ''SALE'', ct_notes = None\<rparr>"

definition empty_tx_state :: tx_state where
  "empty_tx_state = \<lparr>ts_transactions = [], ts_commissions = [], ts_history = [], ts_milestones = [], ts_sent = []\<rparr>"

definition example_agents :: "string \<Rightarrow> property_agent list" where
  "example_agents p = [\<lparr>pa_agentId = ''a1'', pa_commissionRate = 3 / 100\<rparr>]"

definition example_tx_state :: tx_state where
  "example_tx_state = empty_tx_state\<lparr>ts_transactions := [new_tx ''t1'' example_dto 0]\<rparr>"

definition cancelled_example :: tx_state where
  "cancelled_example = snd (cancel ''house'' ''t1'' \<lparr>ca_reason = ''no loan'', ca_refundAmount = None\<rparr> ''b'' 5 example_tx_state)"

lemma example_find [simp]: "find_tx ''t1'' example_tx_state = Some (new_tx ''t1'' example_dto 0)"
  by (simp add: find_tx_def tbl_find_def example_tx_state_def empty_tx_state_def new_tx_def)

lemma cancelled_example_status: "status_of ''t1'' cancelled_example = Some Tx_CANCELLED"
  by (simp add: status_of_def cancelled_example_def cancel_def Let_def new_tx_def DEFAULT_TRANSACTION_STATUS_def)

theorem terminal_status_is_final_witness:
  "status_of ''t1'' (snd (updateTransactionStatus ''m1'' ''t1'' ''COMPLETED'' None 9 cancelled_example)) = Some Tx_CANCELLED"
  using terminal_status_is_final [OF r_into_rtranclp [of guarded_step, OF guarded_step.status
      [of cancelled_example "''m1''" "''t1''" "''COMPLETED''" None 9]] cancelled_example_status] by simp

text \<open>The general update does not follow the life cycle: it accepts any supported status from any
  other, a completed or cancelled transaction back to pending included, and refuses only unknown
  transactions, \<open>FAILED\<close>, and completion while an escrow is not released.\<close>

theorem update_ignores_life_cycle:
  "(case update_transaction i (Some (Dto_status st)) notes s of
      (Inr t', s') \<Rightarrow> tx_status t' = st \<and> status_of i s' = Some st
    | (Inl _, s') \<Rightarrow> s' = s \<and>
        (case find_tx i s of None \<Rightarrow> True
         | Some t \<Rightarrow> st = Tx_COMPLETED \<and> tx_escrowStatus t \<notin> {None, Some [], Some ''RELEASED''}))"
  by (auto simp: update_transaction_def status_of_def Let_def split: option.split)

text \<open>A successful status change of the guarded operation gives every commission of the transaction its
  new status, leaves the commissions of other transactions alone, and appends exactly one audit entry
  with both statuses and one completed stage event.\<close>

theorem status_change_effects:
  assumes "updateTransactionStatus m i x actor now s = (Inr t', s')"
  shows "(\<forall>c \<in> set (ts_commissions s'). cm_transactionId c = i \<longrightarrow> cm_status c = tx_status t')
    \<and> filter (\<lambda>c. cm_transactionId c \<noteq> i) (ts_commissions s') = filter (\<lambda>c. cm_transactionId c \<noteq> i) (ts_commissions s)
    \<and> (\<exists>old. status_of i s = Some old \<and> canTransitionTransactionStatus old (tx_status t')
        \<and> ts_history s' = ts_history s @ [\<lparr>th_transactionId = i, th_status = tx_status t', th_actorId = actor,
            th_previous = old, th_new = tx_status t', th_createdAt = now\<rparr>])
    \<and> map mi_status (ts_milestones s') = map mi_status (ts_milestones s) @ [Milestone_COMPLETED]"
proof -
  obtain t st where t: "find_tx i s = Some t" "read_tx_status x = Some st"
      "canTransitionTransactionStatus (tx_status t) st" "t' = t\<lparr>tx_status := st\<rparr>"
    and s': "s' = addStageEvent m i x now (updateCommissionsStatus i x
        (log_transition i (tx_status t) st actor now (update_tx i (\<lambda>t. t\<lparr>tx_status := st\<rparr>) s)))"
    using assms by (auto simp: updateTransactionStatus_def Let_def split: option.splits if_splits)
  define cs where "cs = ts_commissions s"
  define g :: "commission \<Rightarrow> commission" where "g = (\<lambda>c. if cm_transactionId c = i then c\<lparr>cm_status := st\<rparr> else c)"
  have db: "(if x = ''COMPLETED'' then Tx_COMPLETED else if x = ''CANCELLED'' then Tx_CANCELLED else Tx_PENDING) = st"
    using t(2) by (auto simp: read_tx_status_def split: if_splits)
  have "ts_commissions s' = map g cs"
    by (simp add: s' updateCommissionsStatus_def Let_def db cs_def g_def tbl_update_many_def)
  moreover have "filter (\<lambda>c. cm_transactionId c \<noteq> i) (map g cs) = filter (\<lambda>c. cm_transactionId c \<noteq> i) cs"
    by (induction cs) (auto simp: g_def)
  moreover have "ts_history s' = ts_history s @ [\<lparr>th_transactionId = i, th_status = st, th_actorId = actor,
      th_previous = tx_status t, th_new = st, th_createdAt = now\<rparr>]"
    "map mi_status (ts_milestones s') = map mi_status (ts_milestones s) @ [Milestone_COMPLETED]"
    by (simp_all add: s' addStageEvent_def updateCommissionsStatus_def log_transition_def update_tx_def Let_def tbl_create_def)
  moreover have "cm_transactionId (g c) = i \<longrightarrow> cm_status (g c) = st" for c
    by (simp add: g_def)
  then have "\<forall>c \<in> set (map g cs). cm_transactionId c = i \<longrightarrow> cm_status c = st"
    by (simp only: set_map ball_simps) blast
  moreover have "tx_status t' = st" "status_of i s = Some (tx_status t)"
    using t by (simp_all add: status_of_def)
  ultimately show ?thesis
    using t(3) unfolding cs_def by (simp only: simp_thms) blast
qed

theorem status_change_effects_witness:
  "\<exists>t' s'. updateTransactionStatus ''m1'' ''t1'' ''COMPLETED'' (Some ''admin'') 7
        (createCommissionsForTransaction example_agents id ''t1'' example_tx_state) = (Inr t', s')
     \<and> (\<forall>c \<in> set (ts_commissions s'). cm_transactionId c = ''t1'' \<longrightarrow> cm_status c = tx_status t')"
proof -
  let ?s = "createCommissionsForTransaction example_agents id ''t1'' example_tx_state"
  obtain t' s' where run: "updateTransactionStatus ''m1'' ''t1'' ''COMPLETED'' (Some ''admin'') 7 ?s = (Inr t', s')"
    by (simp add: updateTransactionStatus_def Let_def new_tx_def DEFAULT_TRANSACTION_STATUS_def read_tx_status_def
        canTransitionTransactionStatus_def)
  from status_change_effects [OF run] run show ?thesis by blast
qed

text \<open>Commission generation gives every agent of the property exactly one commission of the transaction,
  and running it again changes nothing.\<close>

theorem commissions_once_per_agent:
  assumes "find_tx i s = Some t" and "commissions_unique s"
    and "\<And>p. distinct (map pa_agentId (agents_of p))" and "a \<in> set (agents_of (tx_propertyId t))"
  shows "let s' = createCommissionsForTransaction agents_of newId i s in
    length (filter (\<lambda>c. cm_transactionId c = i \<and> cm_agentId c = pa_agentId a) (ts_commissions s')) = 1
    \<and> ts_commissions (createCommissionsForTransaction agents_of newId i s') = ts_commissions s'"
proof -
  define cs where "cs = ts_commissions (createCommissionsForTransaction agents_of newId i s)"
  have "distinct (map commission_key cs)"
    using createCommissions_unique [of s agents_of] assms(2,3) by (simp add: cs_def commissions_unique_def)
  moreover have "(i, pa_agentId a) \<in> set (map commission_key cs)"
    using createCommissions_covers [of i s t a agents_of, OF assms(1,4)] by (simp add: cs_def has_commission_def)
  ultimately have "length (filter (\<lambda>c. commission_key c = (i, pa_agentId a)) cs) = 1"
  proof (induction cs)
    case (Cons c cs)
    show ?case
    proof (cases "commission_key c = (i, pa_agentId a)")
      case True
      then have "filter (\<lambda>c. commission_key c = (i, pa_agentId a)) cs = []"
        using Cons.prems(1) by (auto simp: filter_empty_conv rev_image_eqI)
      then show ?thesis using True by simp
    qed (use Cons in auto)
  qed simp
  then show ?thesis
    by (simp add: Let_def createCommissions_idem cs_def commission_key_def)
qed

theorem commissions_once_per_agent_witness:
  "length (filter (\<lambda>c. cm_transactionId c = ''t1'' \<and> cm_agentId c = ''a1'')
     (ts_commissions (createCommissionsForTransaction example_agents id ''t1'' example_tx_state))) = 1"
proof -
  have "commissions_unique example_tx_state"
    by (simp add: commissions_unique_def example_tx_state_def empty_tx_state_def)
  moreover have "distinct (map pa_agentId (example_agents p))"
      "\<lparr>pa_agentId = ''a1'', pa_commissionRate = 3 / 100\<rparr> \<in> set (example_agents p)" for p
    by (simp_all add: example_agents_def)
  ultimately show ?thesis
    using commissions_once_per_agent [OF example_find, of example_agents
        "\<lparr>pa_agentId = ''a1'', pa_commissionRate = 3 / 100\<rparr>" id]
    by (simp add: Let_def)
qed

text \<open>The transaction endpoint and the owner-validated one differ: with the same request, \<open>createTransaction\<close>
  records one commission of amount times rate per agent, while \<open>create\<close>, which asks the commission
  service before its own transaction is committed, records none.\<close>

theorem create_records_no_commissions:
  assumes "find_tx i s = None" and "ts_commissions s = []"
    and "fst (create pe ue agents_of newC h i dto now s) = Inr r"
  shows "ts_commissions (snd (create pe ue agents_of newC h i dto now s)) = []
    \<and> map (\<lambda>c. (cm_agentId c, cm_amount c)) (ts_commissions (snd (createTransaction pe ue agents_of newC i dto now s))) =
        map (\<lambda>a. (pa_agentId a, ct_amount dto * pa_commissionRate a)) (agents_of (ct_propertyId dto))"
proof -
  have "ts_commissions (createCommissionsForTransaction agents_of newC i s) = []"
    using assms(1,2) by (simp add: createCommissionsForTransaction_def)
  then have "ts_commissions (snd (create pe ue agents_of newC h i dto now s)) = []"
    using assms(2) by (simp add: create_def Let_def split: option.split)
  moreover define t where "t = new_tx i (dto\<lparr>ct_notes := None\<rparr>) now"
  define s1 where "s1 = s\<lparr>ts_transactions := tbl_create t (ts_transactions s)\<rparr>"
  have t: "find_tx i s1 = Some t"
    using assms(1) by (simp add: s1_def t_def new_tx_def)
  have run: "snd (createTransaction pe ue agents_of newC i dto now s) = createCommissionsForTransaction agents_of newC i s1"
    using assms(3) by (auto simp: createTransaction_def create_def Let_def s1_def t_def split: if_splits)
  have "ts_commissions s1 = []" "tx_propertyId t = ct_propertyId dto" "tx_amount t = ct_amount dto"
    using assms(2) by (simp_all add: s1_def t_def new_tx_def)
  then have "map (\<lambda>c. (cm_agentId c, cm_amount c)) (ts_commissions (createCommissionsForTransaction agents_of newC i s1)) =
      map (\<lambda>a. (pa_agentId a, ct_amount dto * pa_commissionRate a)) (agents_of (ct_propertyId dto))"
    by (simp add: createCommissions_eq [OF t] has_commission_def new_commission_def comp_def)
  ultimately show ?thesis by (simp only: run simp_thms)
qed

theorem create_records_no_commissions_witness:
  "ts_commissions (snd (create (\<lambda>_. True) (\<lambda>_. True) example_agents id None ''t1'' example_dto 0 empty_tx_state)) = []
   \<and> map (\<lambda>c. (cm_agentId c, cm_amount c))
       (ts_commissions (snd (createTransaction (\<lambda>_. True) (\<lambda>_. True) example_agents id ''t1'' example_dto 0 empty_tx_state))) =
     [(''a1'', 3)]"
  using create_records_no_commissions [of "''t1''" empty_tx_state "\<lambda>_. True" "\<lambda>_. True" example_agents id None example_dto 0 "''t1''"]
  by (simp add: empty_tx_state_def find_tx_def tbl_find_def create_def Let_def example_dto_def example_agents_def)

text \<open>A refund is paid once and only for a cancelled transaction: processing succeeds exactly for
  cancelled transactions whose refund is not processed yet, notifies the buyer once, and from then on
  is refused.\<close>

theorem refund_once:
  "case processRefund sh i s of
     (Inr t', s') \<Rightarrow> status_of i s = Some Tx_CANCELLED \<and> status_of i s' = Some Tx_CANCELLED
       \<and> map no_userId (ts_sent s') = map no_userId (ts_sent s) @ [tx_buyerId t']
       \<and> processRefund sh i s' = (Inl (BadRequest ''Refund already processed''), s')
   | (Inl _, s') \<Rightarrow> s' = s \<and>
       (case find_tx i s of None \<Rightarrow> True | Some t \<Rightarrow> \<not> (tx_status t = Tx_CANCELLED \<and> tx_refundStatus t \<noteq> Refund_PROCESSED))"
proof (cases "find_tx i s")
  case (Some t)
  have "ts_sent (send n (update_tx i f s)) = ts_sent s @ [n]" for n f
    by (simp add: send_def update_tx_def)
  then show ?thesis by (simp add: processRefund_def status_of_def Some)
qed (simp add: processRefund_def)

end
