(* ===== verification/Cache.thy ===== *)
theory Cache
  imports Store "HOL-Library.AList"
begin

text \<open>
  The cache service (\<open>src/cache/cache.service.ts\<close>, \<open>cache.types.ts\<close>, \<open>cache-monitoring.service.ts\<close>), the dashboard snapshot
  it serves (\<open>src/analytics/dashboard-metrics.service.ts\<close>) and the readiness probe that asks it about Redis
  (\<open>src/health/health.controller.ts\<close>).

  The state is what Redis holds, a value and the end of its life for a key, the map from tags to keys that one process
  keeps in memory, and the counters.  The cache manager is reached through \<open>get\<close>, \<open>set\<close> and \<open>del\<close>; \<open>ok\<close> says whether Redis
  answers, and \<open>store_api\<close> whether the manager has the property \<open>store\<close> that \<open>setNx\<close> and \<open>getStats\<close> read, which a
  cache manager of version 7, the one the build names, does not have.  \<open>truthy\<close> is JavaScript's test on the values.  Every caller
  passes a positive time to live.
\<close>

subsection \<open>State and results\<close>

datatype 'v cache_result = CACHE_SUCCESS 'v | CACHE_MISS | CACHE_ERROR
datatype cache_status = OP_SUCCESS | OP_ERROR

text \<open>JavaScript takes every object for true, and the results of the service are objects.\<close>

fun object_truthy :: "'a \<Rightarrow> bool" where
  "object_truthy x = True"

record cache_metrics =
  cm_hits :: nat
  cm_misses :: nat
  cm_errors :: nat
  cm_totalRequests :: nat

record 'v cache_state =
  ca_store :: "string \<Rightarrow> ('v \<times> time) option"
  ca_tagMap :: "(string \<times> string list) list"
  ca_metrics :: cache_metrics

definition recordHit :: "'v cache_state \<Rightarrow> 'v cache_state" where
  "recordHit c = c\<lparr>ca_metrics := (ca_metrics c)\<lparr>cm_hits := cm_hits (ca_metrics c) + 1,
     cm_totalRequests := cm_totalRequests (ca_metrics c) + 1\<rparr>\<rparr>"

definition recordMiss :: "'v cache_state \<Rightarrow> 'v cache_state" where
  "recordMiss c = c\<lparr>ca_metrics := (ca_metrics c)\<lparr>cm_misses := cm_misses (ca_metrics c) + 1,
     cm_totalRequests := cm_totalRequests (ca_metrics c) + 1\<rparr>\<rparr>"

definition recordError :: "'v cache_state \<Rightarrow> 'v cache_state" where
  "recordError c = c\<lparr>ca_metrics := (ca_metrics c)\<lparr>cm_errors := cm_errors (ca_metrics c) + 1,
     cm_totalRequests := cm_totalRequests (ca_metrics c) + 1\<rparr>\<rparr>"

subsection \<open>Reading and writing\<close>

definition manager_get :: "string \<Rightarrow> time \<Rightarrow> 'v cache_state \<Rightarrow> 'v option" where
  "manager_get key now c = (case ca_store c key of None \<Rightarrow> None | Some (v, e) \<Rightarrow> if now < e then Some v else None)"

definition manager_del :: "string list \<Rightarrow> 'v cache_state \<Rightarrow> 'v cache_state" where
  "manager_del keys c = c\<lparr>ca_store := (\<lambda>k. if k \<in> set keys then None else ca_store c k)\<rparr>"

definition cacheService_get :: "('v \<Rightarrow> bool) \<Rightarrow> bool \<Rightarrow> string \<Rightarrow> time \<Rightarrow> 'v cache_state \<Rightarrow> 'v cache_result \<times> 'v cache_state" where
  "cacheService_get truthy ok key now c =
     (if \<not> ok then (CACHE_ERROR, recordError c)
      else case manager_get key now c of
          Some value \<Rightarrow> if truthy value then (CACHE_SUCCESS value, recordHit c) else (CACHE_MISS, recordMiss c)
        | None \<Rightarrow> (CACHE_MISS, recordMiss c))"

definition keys_of_tag :: "string \<Rightarrow> 'v cache_state \<Rightarrow> string list" where
  "keys_of_tag tag c = (case map_of (ca_tagMap c) tag of None \<Rightarrow> [] | Some keys \<Rightarrow> keys)"

definition tagKey :: "string \<Rightarrow> string \<Rightarrow> 'v cache_state \<Rightarrow> 'v cache_state" where
  "tagKey tag key c = c\<lparr>ca_tagMap := AList.update tag (js_unique (keys_of_tag tag c @ [key])) (ca_tagMap c)\<rparr>"

definition cacheService_set ::
  "bool \<Rightarrow> string \<Rightarrow> 'v \<Rightarrow> int \<Rightarrow> string option \<Rightarrow> time \<Rightarrow> 'v cache_state \<Rightarrow> cache_status \<times> 'v cache_state" where
  "cacheService_set ok key value ttl tag now c =
     (if \<not> ok then (OP_ERROR, recordError c)
      else (let c1 = c\<lparr>ca_store := (ca_store c)(key \<mapsto> (value, now + ttl * 1000))\<rparr>
            in (OP_SUCCESS, case tag of None \<Rightarrow> c1 | Some t \<Rightarrow> if t = [] then c1 else tagKey t key c1)))"

definition cacheService_del :: "bool \<Rightarrow> string \<Rightarrow> 'v cache_state \<Rightarrow> cache_status \<times> 'v cache_state" where
  "cacheService_del ok key c = (if ok then (OP_SUCCESS, manager_del [key] c) else (OP_ERROR, recordError c))"

definition delMultiple :: "bool \<Rightarrow> string list \<Rightarrow> 'v cache_state \<Rightarrow> cache_status \<times> 'v cache_state" where
  "delMultiple ok keys c = (if ok \<or> keys = [] then (OP_SUCCESS, manager_del keys c) else (OP_ERROR, recordError c))"

definition invalidateByTag :: "bool \<Rightarrow> string \<Rightarrow> 'v cache_state \<Rightarrow> cache_status \<times> 'v cache_state" where
  "invalidateByTag ok tag c =
     (let keys = keys_of_tag tag c
      in if 0 < length keys then
           (let (status, c1) = delMultiple ok keys c
            in (status, if status = OP_SUCCESS then c1\<lparr>ca_tagMap := AList.delete tag (ca_tagMap c1)\<rparr> else c1))
         else (OP_SUCCESS, c))"

text \<open>Whether the answer came from the cache is the second component; \<open>stored\<close> is when the factory's value is written, and the
  factory may throw.\<close>

definition getOrSet ::
  "('v \<Rightarrow> bool) \<Rightarrow> bool \<Rightarrow> bool \<Rightarrow> string \<Rightarrow> (http_error + 'v) \<Rightarrow> int \<Rightarrow> string option \<Rightarrow> time \<Rightarrow> time \<Rightarrow> 'v cache_state \<Rightarrow>
   ('v \<times> bool, 'v cache_state) outcome" where
  "getOrSet truthy get_ok set_ok key factory ttl tag now stored c =
     (case cacheService_get truthy get_ok key now c of
        (CACHE_SUCCESS value, c1) \<Rightarrow> (Inr (value, True), c1)
      | (_, c1) \<Rightarrow>
          (case factory of
             Inl e \<Rightarrow> (Inl e, recordError c1)
           | Inr value \<Rightarrow> (Inr (value, False), snd (cacheService_set set_ok key value ttl tag stored c1))))"

subsection \<open>Keys of one record\<close>

definition key_USER_BY_ID :: "string \<Rightarrow> string" where "key_USER_BY_ID i = ''user:'' @ i"
definition key_DASHBOARD_STATS :: "string \<Rightarrow> string" where "key_DASHBOARD_STATS i = ''dashboard:stats:'' @ i"
definition key_DASHBOARD_ANALYTICS :: "string \<Rightarrow> string" where "key_DASHBOARD_ANALYTICS i = ''dashboard:analytics:'' @ i"
definition key_TRUST_SCORE :: "string \<Rightarrow> string" where "key_TRUST_SCORE i = ''trust-score:'' @ i"
definition key_SESSIONS_BY_USER :: "string \<Rightarrow> string" where "key_SESSIONS_BY_USER i = ''sessions:user:'' @ i"
definition key_AUTH_TOKENS :: "string \<Rightarrow> string" where "key_AUTH_TOKENS i = ''auth:tokens:'' @ i"
definition key_PROPERTY_BY_ID :: "string \<Rightarrow> string" where "key_PROPERTY_BY_ID i = ''property:'' @ i"

definition invalidateUserCache :: "bool \<Rightarrow> string \<Rightarrow> 'v cache_state \<Rightarrow> cache_status \<times> 'v cache_state" where
  "invalidateUserCache ok i c = delMultiple ok [key_USER_BY_ID i, key_DASHBOARD_STATS i, key_DASHBOARD_ANALYTICS i,
     key_TRUST_SCORE i, key_SESSIONS_BY_USER i, key_AUTH_TOKENS i] c"

definition key_if_given :: "string option \<Rightarrow> (string \<Rightarrow> string) \<Rightarrow> string list" where
  "key_if_given i key = (case i of None \<Rightarrow> [] | Some s \<Rightarrow> if s = [] then [] else [key s])"

definition invalidatePropertyCache :: "bool \<Rightarrow> string option \<Rightarrow> 'v cache_state \<Rightarrow> cache_status \<times> 'v cache_state" where
  "invalidatePropertyCache ok i c =
     delMultiple ok ([''properties:list'', ''properties:featured''] @ key_if_given i key_PROPERTY_BY_ID) c"

definition invalidateDashboardCache :: "bool \<Rightarrow> string \<Rightarrow> 'v cache_state \<Rightarrow> cache_status \<times> 'v cache_state" where
  "invalidateDashboardCache ok i c = delMultiple ok [key_DASHBOARD_STATS i, key_DASHBOARD_ANALYTICS i] c"

definition invalidateTrustScoreCache :: "bool \<Rightarrow> string option \<Rightarrow> 'v cache_state \<Rightarrow> cache_status \<times> 'v cache_state" where
  "invalidateTrustScoreCache ok i c = delMultiple ok ([''trust-scores:leaderboard''] @ key_if_given i key_TRUST_SCORE) c"

definition warmFeaturedPropertiesCache :: "bool \<Rightarrow> (http_error + 'v) \<Rightarrow> time \<Rightarrow> 'v cache_state \<Rightarrow> cache_status \<times> 'v cache_state" where
  "warmFeaturedPropertiesCache ok factory now c =
     (case factory of Inl _ \<Rightarrow> (OP_ERROR, recordError c)
      | Inr data \<Rightarrow> cacheService_set ok ''properties:featured'' data 3600 (Some ''properties'') now c)"

definition warmTrustScoreLeaderboardCache :: "bool \<Rightarrow> (http_error + 'v) \<Rightarrow> time \<Rightarrow> 'v cache_state \<Rightarrow> cache_status \<times> 'v cache_state" where
  "warmTrustScoreLeaderboardCache ok factory now c =
     (case factory of Inl _ \<Rightarrow> (OP_ERROR, recordError c)
      | Inr data \<Rightarrow> cacheService_set ok ''trust-scores:leaderboard'' data 1800 (Some ''trust-score'') now c)"

subsection \<open>Locks and health\<close>

record nx_result =
  nx_status :: cache_status
  nx_acquired :: bool

definition setNx :: "bool \<Rightarrow> bool \<Rightarrow> string \<Rightarrow> 'v \<Rightarrow> int \<Rightarrow> time \<Rightarrow> 'v cache_state \<Rightarrow> nx_result \<times> 'v cache_state" where
  "setNx store_api ok key value ttlSeconds now c =
     (if \<not> store_api \<or> \<not> ok then (\<lparr>nx_status = OP_ERROR, nx_acquired = False\<rparr>, recordError c)
      else if manager_get key now c = None
        then (\<lparr>nx_status = OP_SUCCESS, nx_acquired = True\<rparr>, c\<lparr>ca_store := (ca_store c)(key \<mapsto> (value, now + ttlSeconds * 1000))\<rparr>)
        else (\<lparr>nx_status = OP_SUCCESS, nx_acquired = False\<rparr>, c))"

text \<open>\<open>getStats\<close> answers whether it could ask for the statistics; \<open>isConnected\<close> and \<open>getHealthStatus\<close> wait for \<open>get\<close>, which
  catches every error.\<close>

definition getStats :: "bool \<Rightarrow> bool \<Rightarrow> bool" where
  "getStats store_api ok \<longleftrightarrow> store_api \<and> ok"

definition isConnected :: "('v \<Rightarrow> bool) \<Rightarrow> bool \<Rightarrow> time \<Rightarrow> 'v cache_state \<Rightarrow> bool \<times> 'v cache_state" where
  "isConnected truthy ok now c = (case cacheService_get truthy ok ''__health_check__'' now c of (_, c1) \<Rightarrow> (True, c1))"

definition getHealthStatus :: "('v \<Rightarrow> bool) \<Rightarrow> bool \<Rightarrow> time \<Rightarrow> 'v cache_state \<Rightarrow> bool \<times> 'v cache_state" where
  "getHealthStatus truthy ok now c = (case cacheService_get truthy ok ''__health_check__'' now c of (_, c1) \<Rightarrow> (True, c1))"

text \<open>The readiness probe: the status code and the reported states of the database, of Redis, of the chain and of the
  storage.  \<open>rpc\<close> is the answer of the chain, where one is configured, and \<open>storage\<close> whether the storage is, where a provider is selected.\<close>

definition readiness ::
  "('v \<Rightarrow> bool) \<Rightarrow> bool \<Rightarrow> bool \<Rightarrow> bool option \<Rightarrow> bool option \<Rightarrow> time \<Rightarrow> 'v cache_state \<Rightarrow>
   (int \<times> (string \<times> string) list) \<times> 'v cache_state" where
  "readiness truthy db_ok redis_ok rpc storage now c =
     (let (connected, c1) = getHealthStatus truthy redis_ok now c;
          allOk = (db_ok \<and> connected \<and> storage \<noteq> Some False)
      in ((if allOk then 200 else 503,
           [(''database'', if db_ok then ''ok'' else ''error''), (''redis'', if connected then ''ok'' else ''error'')]
           @ (case rpc of None \<Rightarrow> [] | Some up \<Rightarrow> [(''blockchainRpc'', if up then ''ok'' else ''degraded'')])
           @ (case storage of None \<Rightarrow> [] | Some configured \<Rightarrow> [(''storage'', if configured then ''ok'' else ''error'')])), c1))"

subsection \<open>The dashboard snapshot\<close>

definition DASHBOARD_SNAPSHOT_KEY :: string where "DASHBOARD_SNAPSHOT_KEY = ''analytics:dashboard:snapshot''"
definition DASHBOARD_SNAPSHOT_TTL_SECONDS :: int where "DASHBOARD_SNAPSHOT_TTL_SECONDS = 5"

text \<open>\<open>build\<close> is what \<open>buildSnapshot\<close> answers, and what it answers when it is called again; the second component says whether
  the snapshot came from the cache.\<close>

definition getSnapshot ::
  "('v \<Rightarrow> bool) \<Rightarrow> bool \<Rightarrow> bool \<Rightarrow> (http_error + 'v) \<Rightarrow> (http_error + 'v) \<Rightarrow> time \<Rightarrow> time \<Rightarrow> 'v cache_state \<Rightarrow>
   ('v \<times> bool, 'v cache_state) outcome" where
  "getSnapshot truthy get_ok set_ok build again now stored c =
     (case getOrSet truthy get_ok set_ok DASHBOARD_SNAPSHOT_KEY build DASHBOARD_SNAPSHOT_TTL_SECONDS None now stored c of
        (Inr r, c1) \<Rightarrow> (Inr r, c1)
      | (Inl _, c1) \<Rightarrow> (map_sum id (\<lambda>v. (v, False)) again, c1))"

end
