(* ===== verification/Tx_Records.thy ===== *)
theory Tx_Records
  imports Transactions Doubles Cache
begin

text \<open>
  What hangs on a transaction: its documents and their versions
  (\<open>src/transactions/transaction-documents.service.ts\<close>), its notes (\<open>transaction-notes.service.ts\<close>), its
  disputes (\<open>disputes.service.ts\<close>), its milestones (\<open>timeline.service.ts\<close>) and the reminders sent for them
  (\<open>transaction-reminders.service.ts\<close>).  The transactions are those of theory \<open>Transactions\<close>, read only.
\<close>

subsection \<open>Documents and versions\<close>

record document =
  dc_id :: string
  dc_transactionId :: "string option"
  dc_userId :: string
  dc_documentType :: string
  dc_fileName :: string
  dc_fileUrl :: string
  dc_fileSize :: int
  dc_stage :: "string option"
  dc_category :: string
  dc_disputeId :: "string option"
  dc_createdAt :: time

record doc_version =
  dv_documentId :: string
  dv_versionNumber :: nat
  dv_fileUrl :: string
  dv_fileName :: string
  dv_fileSize :: int
  dv_uploadedById :: string
  dv_changeNote :: "string option"

record doc_state =
  ds_documents :: "document list"
  ds_versions :: "doc_version list"

interpretation documents: keyed_table dc_id "tbl_find dc_id" "tbl_update dc_id" tbl_create
  by (rule keyed_table_tbl)

definition is_privileged :: "string \<Rightarrow> bool" where
  "is_privileged role \<longleftrightarrow> role = ''ADMIN'' \<or> role = ''AGENT''"

definition is_party :: "transaction \<Rightarrow> string \<Rightarrow> bool" where
  "is_party t userId \<longleftrightarrow> tx_buyerId t = userId \<or> tx_sellerId t = userId"

definition assertAccess :: "transaction \<Rightarrow> string \<Rightarrow> string \<Rightarrow> unit result" where
  "assertAccess t userId role =
     (if \<not> is_party t userId \<and> \<not> is_privileged role
      then Inl (Forbidden ''Access denied to this transaction document'') else Inr ())"

definition fetchTxAccess :: "transaction list \<Rightarrow> string \<Rightarrow> transaction result" where
  "fetchTxAccess txs i = (case tbl_find tx_id i txs of
     None \<Rightarrow> Inl (NotFound (''Transaction '' @ i @ '' not found'')) | Some t \<Rightarrow> Inr t)"

text \<open>The checks \<open>findOne\<close>, \<open>addVersion\<close>, \<open>getVersions\<close> and \<open>remove\<close> share, in their order.\<close>

definition find_tx_document :: "transaction list \<Rightarrow> string \<Rightarrow> string \<Rightarrow> string \<Rightarrow> string \<Rightarrow> doc_state \<Rightarrow> document result" where
  "find_tx_document txs transactionId documentId userId role s =
     (case fetchTxAccess txs transactionId of
        Inl e \<Rightarrow> Inl e
      | Inr t \<Rightarrow>
          (case assertAccess t userId role of
             Inl e \<Rightarrow> Inl e
           | Inr _ \<Rightarrow>
               (case List.find (\<lambda>d. dc_id d = documentId \<and> dc_transactionId d = Some transactionId) (ds_documents s) of
                  None \<Rightarrow> Inl (NotFound ''Document not found for this transaction'')
                | Some d \<Rightarrow> Inr d)))"

record attach_dto =
  at_documentType :: string
  at_fileName :: string
  at_fileUrl :: string
  at_fileSize :: int
  at_stage :: "string option"
  at_changeNote :: "string option"

definition attach ::
  "transaction list \<Rightarrow> string \<Rightarrow> string \<Rightarrow> attach_dto \<Rightarrow> string \<Rightarrow> string \<Rightarrow> time \<Rightarrow> doc_state \<Rightarrow> (document, doc_state) outcome" where
  "attach txs newId transactionId dto userId role now s =
     (case fetchTxAccess txs transactionId of
        Inl e \<Rightarrow> (Inl e, s)
      | Inr t \<Rightarrow>
          (case assertAccess t userId role of
             Inl e \<Rightarrow> (Inl e, s)
           | Inr _ \<Rightarrow>
               (let d = \<lparr>dc_id = newId, dc_transactionId = Some transactionId, dc_userId = userId,
                      dc_documentType = at_documentType dto, dc_fileName = at_fileName dto,
                      dc_fileUrl = at_fileUrl dto, dc_fileSize = at_fileSize dto, dc_stage = at_stage dto,
                      dc_category = replace_first CHR ''_'' CHR ''-'' (js_lower (at_documentType dto)),
                      dc_disputeId = None, dc_createdAt = now\<rparr>;
                    v = \<lparr>dv_documentId = newId, dv_versionNumber = 1, dv_fileUrl = at_fileUrl dto,
                      dv_fileName = at_fileName dto, dv_fileSize = at_fileSize dto, dv_uploadedById = userId,
                      dv_changeNote = (case at_changeNote dto of Some n \<Rightarrow> Some n | None \<Rightarrow> Some ''Initial version'')\<rparr>
                in (Inr d, s\<lparr>ds_documents := tbl_create d (ds_documents s), ds_versions := tbl_create v (ds_versions s)\<rparr>))))"

definition list_documents ::
  "transaction list \<Rightarrow> string \<Rightarrow> string \<Rightarrow> string \<Rightarrow> doc_state \<Rightarrow> document list result" where
  "list_documents txs transactionId userId role s =
     (case fetchTxAccess txs transactionId of
        Inl e \<Rightarrow> Inl e
      | Inr t \<Rightarrow>
          (case assertAccess t userId role of
             Inl e \<Rightarrow> Inl e
           | Inr _ \<Rightarrow> Inr (tbl_desc dc_createdAt
               (filter (\<lambda>d. dc_transactionId d = Some transactionId) (ds_documents s)))))"

definition versions_of :: "string \<Rightarrow> doc_state \<Rightarrow> doc_version list" where
  "versions_of documentId s = filter (\<lambda>v. dv_documentId v = documentId) (ds_versions s)"

record version_dto =
  vd_fileUrl :: string
  vd_fileName :: string
  vd_fileSize :: int
  vd_changeNote :: "string option"

definition addVersion ::
  "transaction list \<Rightarrow> string \<Rightarrow> string \<Rightarrow> version_dto \<Rightarrow> string \<Rightarrow> string \<Rightarrow> doc_state \<Rightarrow> (doc_version, doc_state) outcome" where
  "addVersion txs transactionId documentId dto userId role s =
     (case find_tx_document txs transactionId documentId userId role s of
        Inl e \<Rightarrow> (Inl e, s)
      | Inr d \<Rightarrow>
          (let nextVersion = length (versions_of (dc_id d) s) + 1;
               v = \<lparr>dv_documentId = documentId, dv_versionNumber = nextVersion, dv_fileUrl = vd_fileUrl dto,
                 dv_fileName = vd_fileName dto, dv_fileSize = vd_fileSize dto, dv_uploadedById = userId,
                 dv_changeNote = vd_changeNote dto\<rparr>
           in if List.find (\<lambda>w. dv_documentId w = documentId \<and> dv_versionNumber w = nextVersion) (ds_versions s) \<noteq> None
              then (Inl (InternalError ''Unique constraint failed''), s)
              else (Inr v, s\<lparr>ds_versions := tbl_create v (ds_versions s),
                ds_documents := tbl_update dc_id documentId (\<lambda>d. d\<lparr>dc_fileUrl := vd_fileUrl dto,
                  dc_fileName := vd_fileName dto, dc_fileSize := vd_fileSize dto\<rparr>) (ds_documents s)\<rparr>)))"

definition getVersions ::
  "transaction list \<Rightarrow> string \<Rightarrow> string \<Rightarrow> string \<Rightarrow> string \<Rightarrow> doc_state \<Rightarrow> doc_version list result" where
  "getVersions txs transactionId documentId userId role s =
     (case find_tx_document txs transactionId documentId userId role s of
        Inl e \<Rightarrow> Inl e
      | Inr d \<Rightarrow> Inr (tbl_asc (\<lambda>v. int (dv_versionNumber v)) (versions_of (dc_id d) s)))"

text \<open>Deleting a document deletes its versions (\<open>onDelete: Cascade\<close>).\<close>

definition remove_document ::
  "transaction list \<Rightarrow> string \<Rightarrow> string \<Rightarrow> string \<Rightarrow> string \<Rightarrow> doc_state \<Rightarrow> (document, doc_state) outcome" where
  "remove_document txs transactionId documentId userId role s =
     (case find_tx_document txs transactionId documentId userId role s of
        Inl e \<Rightarrow> (Inl e, s)
      | Inr d \<Rightarrow> (Inr d, s\<lparr>ds_documents := tbl_delete_many (\<lambda>d. dc_id d = documentId) (ds_documents s),
          ds_versions := tbl_delete_many (\<lambda>v. dv_documentId v = documentId) (ds_versions s)\<rparr>))"

subsection \<open>Notes\<close>

record tx_note =
  nt_id :: string
  nt_transactionId :: string
  nt_authorId :: string
  nt_content :: string
  nt_isPublic :: bool
  nt_createdAt :: time

interpretation note_ids: keyed_table nt_id "tbl_find nt_id" "tbl_update nt_id" tbl_create
  by (rule keyed_table_tbl)

definition create_note ::
  "transaction list \<Rightarrow> string \<Rightarrow> string \<Rightarrow> string \<Rightarrow> string \<Rightarrow> bool option \<Rightarrow> time \<Rightarrow> tx_note list \<Rightarrow> (tx_note, tx_note list) outcome" where
  "create_note txs newId transactionId authorId content isPublic now ns =
     (case tbl_find tx_id transactionId txs of
        None \<Rightarrow> (Inl (NotFound ''Transaction not found''), ns)
      | Some t \<Rightarrow>
          (let n = \<lparr>nt_id = newId, nt_transactionId = transactionId, nt_authorId = authorId, nt_content = content,
                 nt_isPublic = (case isPublic of Some b \<Rightarrow> b | None \<Rightarrow> True), nt_createdAt = now\<rparr>
           in (Inr n, tbl_create n ns)))"

definition notes_findByTransaction ::
  "transaction list \<Rightarrow> string \<Rightarrow> string \<Rightarrow> string \<Rightarrow> tx_note list \<Rightarrow> tx_note list result" where
  "notes_findByTransaction txs transactionId viewerId role ns =
     (case tbl_find tx_id transactionId txs of
        None \<Rightarrow> Inl (NotFound ''Transaction not found'')
      | Some t \<Rightarrow>
          (let privileged = is_privileged role;
               party = is_party t viewerId;
               visible = (\<lambda>n. if \<not> privileged \<and> \<not> party then nt_isPublic n
                              else if \<not> privileged then nt_isPublic n \<or> nt_authorId n = viewerId
                              else True)
           in Inr (tbl_asc nt_createdAt (filter (\<lambda>n. nt_transactionId n = transactionId \<and> visible n) ns))))"

definition remove_note :: "string \<Rightarrow> string \<Rightarrow> string \<Rightarrow> tx_note list \<Rightarrow> (tx_note, tx_note list) outcome" where
  "remove_note noteId requesterId role ns =
     (case tbl_find nt_id noteId ns of
        None \<Rightarrow> (Inl (NotFound ''Note not found''), ns)
      | Some n \<Rightarrow>
          if nt_authorId n \<noteq> requesterId \<and> role \<noteq> ''ADMIN''
          then (Inl (Forbidden ''Only the author or admin can delete this note''), ns)
          else (Inr n, tbl_delete_many (\<lambda>n. nt_id n = noteId) ns))"

subsection \<open>Disputes\<close>

datatype dispute_status = Dispute_OPEN | Dispute_UNDER_REVIEW | Dispute_RESOLVED | Dispute_CANCELLED

record dispute =
  di_id :: string
  di_transactionId :: string
  di_initiatorId :: string
  di_arbitratorId :: "string option"
  di_status :: dispute_status
  di_reason :: string
  di_description :: "string option"
  di_resolutionDetails :: "string option"
  di_resolvedAt :: "time option"

record dispute_state =
  dp_disputes :: "dispute list"
  dp_documents :: "document list"
  dp_sent :: "notification list"

interpretation disputes: keyed_table di_id "tbl_find di_id" "tbl_update di_id" tbl_create
  by (rule keyed_table_tbl)

text \<open>\<open>admins\<close> are the ids of the administrators; the first ten are notified.\<close>

definition create_dispute ::
  "transaction list \<Rightarrow> string list \<Rightarrow> string \<Rightarrow> string \<Rightarrow> string \<Rightarrow> string \<Rightarrow> string option \<Rightarrow> dispute_state \<Rightarrow>
   (dispute, dispute_state) outcome" where
  "create_dispute txs admins newId userId transactionId reason description s =
     (case tbl_find tx_id transactionId txs of
        None \<Rightarrow> (Inl (NotFound ''Transaction not found''), s)
      | Some t \<Rightarrow>
          if tx_buyerId t \<noteq> userId \<and> tx_sellerId t \<noteq> userId
          then (Inl (Forbidden ''Only parties involved in the transaction can initiate a dispute''), s)
          else
            (let d = \<lparr>di_id = newId, di_transactionId = transactionId, di_initiatorId = userId,
                   di_arbitratorId = None, di_status = Dispute_OPEN, di_reason = reason,
                   di_description = description, di_resolutionDetails = None, di_resolvedAt = None\<rparr>;
                 mail = (\<lambda>a. \<lparr>no_userId = a, no_title = ''New Dispute Filed'',
                   no_message = ''A dispute has been filed for transaction '' @ transactionId @ '': '' @ reason,
                   no_type = ''DISPUTE''\<rparr>)
             in (Inr d, s\<lparr>dp_disputes := tbl_create d (dp_disputes s),
                  dp_sent := dp_sent s @ map mail (take 10 admins)\<rparr>)))"

definition dispute_updateStatus ::
  "string \<Rightarrow> string \<Rightarrow> dispute_status \<Rightarrow> dispute_state \<Rightarrow> (dispute, dispute_state) outcome" where
  "dispute_updateStatus disputeId adminId status s =
     (case tbl_find di_id disputeId (dp_disputes s) of
        None \<Rightarrow> (Inl (NotFound ''Dispute not found''), s)
      | Some d \<Rightarrow>
          (let f = (\<lambda>d. d\<lparr>di_status := status, di_arbitratorId := Some adminId\<rparr>)
           in (Inr (f d), s\<lparr>dp_disputes := tbl_update di_id disputeId f (dp_disputes s)\<rparr>)))"

definition addEvidence :: "string \<Rightarrow> string \<Rightarrow> string \<Rightarrow> dispute_state \<Rightarrow> (document, dispute_state) outcome" where
  "addEvidence disputeId userId documentId s =
     (case tbl_find di_id disputeId (dp_disputes s) of
        None \<Rightarrow> (Inl (NotFound ''Dispute not found''), s)
      | Some _ \<Rightarrow>
          (case tbl_find dc_id documentId (dp_documents s) of
             None \<Rightarrow> (Inl (NotFound ''Document not found''), s)
           | Some doc \<Rightarrow>
               if dc_userId doc \<noteq> userId
               then (Inl (Forbidden ''You can only attach your own documents as evidence''), s)
               else (Inr (doc\<lparr>dc_disputeId := Some disputeId\<rparr>),
                 s\<lparr>dp_documents := tbl_update dc_id documentId (\<lambda>d. d\<lparr>dc_disputeId := Some disputeId\<rparr>) (dp_documents s)\<rparr>)))"

definition resolve_dispute ::
  "string \<Rightarrow> string \<Rightarrow> dispute_status \<Rightarrow> string \<Rightarrow> time \<Rightarrow> dispute_state \<Rightarrow> (dispute, dispute_state) outcome" where
  "resolve_dispute disputeId adminId status details now s =
     (case tbl_find di_id disputeId (dp_disputes s) of
        None \<Rightarrow> (Inl (NotFound ''Dispute not found''), s)
      | Some d \<Rightarrow>
          if di_status d = Dispute_RESOLVED then (Inl (BadRequest ''Dispute is already resolved''), s)
          else
            (let f = (\<lambda>d. d\<lparr>di_status := status, di_arbitratorId := Some adminId,
                   di_resolutionDetails := Some details, di_resolvedAt := Some now\<rparr>)
             in (Inr (f d), s\<lparr>dp_disputes := tbl_update di_id disputeId f (dp_disputes s)\<rparr>)))"

definition find_dispute :: "string \<Rightarrow> dispute_state \<Rightarrow> dispute result" where
  "find_dispute i s = (case tbl_find di_id i (dp_disputes s) of
     None \<Rightarrow> Inl (NotFound ''Dispute not found'') | Some d \<Rightarrow> Inr d)"

definition disputes_of :: "string \<Rightarrow> dispute_state \<Rightarrow> dispute list" where
  "disputes_of transactionId s = filter (\<lambda>d. di_transactionId d = transactionId) (dp_disputes s)"

subsection \<open>Milestones\<close>

definition addMilestone ::
  "transaction list \<Rightarrow> string \<Rightarrow> string \<Rightarrow> string \<Rightarrow> string option \<Rightarrow> time \<Rightarrow> milestone list \<Rightarrow> (milestone, milestone list) outcome" where
  "addMilestone txs newId transactionId title description expectedDate ms =
     (case tbl_find tx_id transactionId txs of
        None \<Rightarrow> (Inl (NotFound ''Transaction not found''), ms)
      | Some _ \<Rightarrow>
          (let m = \<lparr>mi_id = newId, mi_transactionId = transactionId, mi_title = title, mi_description = description,
                 mi_status = Milestone_PENDING, mi_expectedDate = expectedDate, mi_actualDate = None,
                 mi_reminderSentAt = None\<rparr>
           in (Inr m, tbl_create m ms)))"

record update_milestone_dto =
  um_title :: "string option"
  um_description :: "string option"
  um_status :: "milestone_status option"
  um_expectedDate :: "time option"
  um_actualDate :: "time option"

text \<open>Empty strings are falsy and change nothing.\<close>

definition nonempty :: "string option \<Rightarrow> string option" where
  "nonempty s = (case s of Some t \<Rightarrow> if t = [] then None else Some t | None \<Rightarrow> None)"

definition updateMilestone ::
  "string \<Rightarrow> update_milestone_dto \<Rightarrow> milestone list \<Rightarrow> (milestone, milestone list) outcome" where
  "updateMilestone milestoneId dto ms =
     (case tbl_find mi_id milestoneId ms of
        None \<Rightarrow> (Inl (NotFound ''Milestone not found''), ms)
      | Some m \<Rightarrow>
          (let f = (\<lambda>m. m\<lparr>
                 mi_title := (case nonempty (um_title dto) of Some x \<Rightarrow> x | None \<Rightarrow> mi_title m),
                 mi_description := (case nonempty (um_description dto) of Some x \<Rightarrow> Some x | None \<Rightarrow> mi_description m),
                 mi_status := (case um_status dto of Some x \<Rightarrow> x | None \<Rightarrow> mi_status m),
                 mi_expectedDate := (case um_expectedDate dto of Some x \<Rightarrow> x | None \<Rightarrow> mi_expectedDate m),
                 mi_actualDate := (case um_actualDate dto of Some x \<Rightarrow> Some x | None \<Rightarrow> mi_actualDate m)\<rparr>)
           in (Inr (f m), tbl_update mi_id milestoneId f ms)))"

text \<open>\<open>Math.round((completed / total) * 100)\<close>, in doubles.\<close>

definition progress :: "nat \<Rightarrow> nat \<Rightarrow> int" where
  "progress completed n = (if 0 < n then math_round (dbl (dbl (of_nat completed / of_nat n) * 100)) else 0)"

definition getTimeline :: "string \<Rightarrow> time \<Rightarrow> milestone list \<Rightarrow> int \<times> (milestone \<times> bool) list" where
  "getTimeline transactionId now ms =
     (let milestones = tbl_asc mi_expectedDate (filter (\<lambda>m. mi_transactionId m = transactionId) ms);
          completed = length (filter (\<lambda>m. mi_status m = Milestone_COMPLETED) milestones)
      in (progress completed (length milestones),
          map (\<lambda>m. (m, mi_status m = Milestone_PENDING \<and> mi_expectedDate m < now)) milestones))"

subsection \<open>Reminders\<close>

text \<open>\<open>party\<close> gives a milestone's transaction; \<open>optOut\<close> the preference of a user.\<close>

definition reminder_due :: "int \<Rightarrow> time \<Rightarrow> milestone \<Rightarrow> bool" where
  "reminder_due daysAhead now m \<longleftrightarrow> mi_status m = Milestone_PENDING \<and> now \<le> mi_expectedDate m
     \<and> mi_expectedDate m \<le> now + daysAhead * 24 * 60 * 60 * 1000 \<and> mi_reminderSentAt m = None"

definition reminder_to :: "string \<Rightarrow> milestone \<Rightarrow> string \<times> string" where
  "reminder_to userId m = (userId, mi_id m)"

definition reminders_for :: "(string \<Rightarrow> transaction) \<Rightarrow> (string \<Rightarrow> bool) \<Rightarrow> milestone \<Rightarrow> (string \<times> string) list" where
  "reminders_for tx_of optOut m =
     (let t = tx_of (mi_transactionId m) in
      (if \<not> optOut (tx_buyerId t) then [reminder_to (tx_buyerId t) m] else [])
      @ (if tx_sellerId t \<noteq> tx_buyerId t \<and> \<not> optOut (tx_sellerId t) then [reminder_to (tx_sellerId t) m] else []))"

fun reminder_loop ::
  "(string \<Rightarrow> transaction) \<Rightarrow> (string \<Rightarrow> bool) \<Rightarrow> time \<Rightarrow> milestone list \<Rightarrow> milestone list \<Rightarrow>
   (string \<times> string) list \<times> milestone list" where
  "reminder_loop tx_of optOut now [] ms = ([], ms)"
| "reminder_loop tx_of optOut now (m # due) ms =
     (let (sent, ms') = reminder_loop tx_of optOut now due
            (tbl_update mi_id (mi_id m) (\<lambda>m. m\<lparr>mi_reminderSentAt := Some now\<rparr>) ms)
      in (reminders_for tx_of optOut m @ sent, ms'))"

definition processReminders ::
  "(string \<Rightarrow> transaction) \<Rightarrow> (string \<Rightarrow> bool) \<Rightarrow> int \<Rightarrow> time \<Rightarrow> milestone list \<Rightarrow> (string \<times> string) list \<times> milestone list" where
  "processReminders tx_of optOut daysAhead now ms =
     reminder_loop tx_of optOut now (filter (reminder_due daysAhead now) ms) ms"

text \<open>The run: the lock, whose answer is an object, and the query; then the loop and the release of the lock.  \<open>store_api\<close>,
  \<open>ok\<close> and \<open>del_ok\<close> are those of theory \<open>Cache\<close>.\<close>

definition LOCK_KEY :: string where "LOCK_KEY = ''lock:transaction-reminders''"
definition LOCK_TTL_SECONDS :: int where "LOCK_TTL_SECONDS = 300"

definition reminders_begin ::
  "bool \<Rightarrow> bool \<Rightarrow> int \<Rightarrow> time \<Rightarrow> milestone list \<Rightarrow> string cache_state \<Rightarrow> milestone list option \<times> string cache_state" where
  "reminders_begin store_api ok daysAhead now ms c =
     (case setNx store_api ok LOCK_KEY ''1'' LOCK_TTL_SECONDS now c of
        (acquired, c1) \<Rightarrow> (if \<not> object_truthy acquired then None else Some (filter (reminder_due daysAhead now) ms), c1))"

definition reminders_finish ::
  "bool \<Rightarrow> (string \<Rightarrow> transaction) \<Rightarrow> (string \<Rightarrow> bool) \<Rightarrow> time \<Rightarrow> milestone list \<Rightarrow> milestone list \<Rightarrow> string cache_state \<Rightarrow>
   (string \<times> string) list \<times> milestone list \<times> string cache_state" where
  "reminders_finish del_ok tx_of optOut now due ms c =
     (let (sent, ms') = reminder_loop tx_of optOut now due ms in (sent, ms', snd (cacheService_del del_ok LOCK_KEY c)))"

definition sendDeadlineReminders ::
  "bool \<Rightarrow> bool \<Rightarrow> bool \<Rightarrow> (string \<Rightarrow> transaction) \<Rightarrow> (string \<Rightarrow> bool) \<Rightarrow> int \<Rightarrow> time \<Rightarrow> milestone list \<Rightarrow> string cache_state \<Rightarrow>
   nat \<times> (string \<times> string) list \<times> milestone list \<times> string cache_state" where
  "sendDeadlineReminders store_api ok del_ok tx_of optOut daysAhead now ms c =
     (case reminders_begin store_api ok daysAhead now ms c of
        (None, c1) \<Rightarrow> (0, [], ms, c1)
      | (Some due, c1) \<Rightarrow>
          (let (sent, ms', c2) = reminders_finish del_ok tx_of optOut now due ms c1 in (length sent, sent, ms', c2)))"

subsection \<open>Facts about documents\<close>

lemma find_tx_document_Inr:
  "find_tx_document txs i docId u role s = Inr d \<longleftrightarrow>
     (\<exists>t. tbl_find tx_id i txs = Some t \<and> (is_party t u \<or> is_privileged role))
     \<and> List.find (\<lambda>d. dc_id d = docId \<and> dc_transactionId d = Some i) (ds_documents s) = Some d"
  by (auto simp: find_tx_document_def fetchTxAccess_def assertAccess_def split: option.splits)

lemma find_tx_document_id: "find_tx_document txs i docId u role s = Inr d \<Longrightarrow>
   dc_id d = docId \<and> dc_transactionId d = Some i \<and> d \<in> set (ds_documents s)"
  by (auto simp: find_tx_document_Inr dest: find_Some_in)

text \<open>Versions belong to documents, and those of a document are numbered 1, 2, 3 and so on in order.\<close>

definition numbered :: "doc_version list \<Rightarrow> bool" where
  "numbered vs \<longleftrightarrow> map dv_versionNumber vs = [1..<Suc (length vs)]"

lemma numbered_Nil: "numbered []"
  by (simp add: numbered_def)

lemma numbered_snoc: "numbered vs \<Longrightarrow> dv_versionNumber v = length vs + 1 \<Longrightarrow> numbered (vs @ [v])"
  by (simp add: numbered_def del: upt_Suc) simp

definition versions_ok :: "doc_state \<Rightarrow> bool" where
  "versions_ok s \<longleftrightarrow> (\<forall>v \<in> set (ds_versions s). dv_documentId v \<in> dc_id ` set (ds_documents s))
     \<and> (\<forall>i. numbered (versions_of i s))"

inductive doc_step :: "transaction list \<Rightarrow> doc_state \<Rightarrow> doc_state \<Rightarrow> bool" for txs where
  attach: "newId \<notin> dc_id ` set (ds_documents s) \<Longrightarrow> doc_step txs s (snd (attach txs newId i dto u role now s))"
| version: "doc_step txs s (snd (addVersion txs i docId vdto u role s))"
| remove: "doc_step txs s (snd (remove_document txs i docId u role s))"

lemma versions_of_create:
  "versions_of i (s\<lparr>ds_versions := tbl_create v (ds_versions s), ds_documents := ds\<rparr>) =
   versions_of i s @ (if dv_documentId v = i then [v] else [])"
  by (simp add: versions_of_def tbl_create_def)

lemma versions_ok_attach:
  assumes "versions_ok s" and "newId \<notin> dc_id ` set (ds_documents s)"
  shows "versions_ok (snd (attach txs newId i dto u role now s))"
proof (cases "fst (attach txs newId i dto u role now s)")
  case (Inl e)
  then have "snd (attach txs newId i dto u role now s) = s"
    by (auto simp: attach_def Let_def split: sum.splits)
  then show ?thesis using assms(1) by simp
next
  case (Inr d)
  have none: "versions_of newId s = []"
    using assms by (auto simp: versions_of_def versions_ok_def filter_empty_conv)
  obtain d v where s': "snd (attach txs newId i dto u role now s) =
      s\<lparr>ds_documents := tbl_create d (ds_documents s), ds_versions := tbl_create v (ds_versions s)\<rparr>"
    and d: "dc_id d = newId" and v: "dv_documentId v = newId" "dv_versionNumber v = 1"
    using Inr by (auto simp: attach_def Let_def split: sum.splits)
  have vs: "versions_of j (snd (attach txs newId i dto u role now s)) = (if j = newId then [v] else versions_of j s)" for j
    using none v(1) by (auto simp: s' versions_of_def tbl_create_def)
  moreover have "\<forall>w \<in> set (ds_versions (snd (attach txs newId i dto u role now s))).
      dv_documentId w \<in> dc_id ` set (ds_documents (snd (attach txs newId i dto u role now s)))"
    using assms(1) d v(1) by (auto simp: s' tbl_create_def versions_ok_def)
  moreover have "numbered [v]" using numbered_snoc [OF numbered_Nil, of v] v(2) by simp
  ultimately show ?thesis
    using assms(1) unfolding versions_ok_def vs by simp
qed

lemma versions_no_clash:
  assumes "versions_ok s"
  shows "List.find (\<lambda>w. dv_documentId w = i \<and> dv_versionNumber w = length (versions_of i s) + 1) (ds_versions s) = None"
proof -
  have "dv_versionNumber w \<le> length (versions_of i s)" if "w \<in> set (ds_versions s)" "dv_documentId w = i" for w
  proof -
    have "dv_versionNumber w \<in> set (map dv_versionNumber (versions_of i s))"
      using that by (auto simp: versions_of_def)
    also have "map dv_versionNumber (versions_of i s) = [1..<Suc (length (versions_of i s))]"
      using assms by (simp only: versions_ok_def numbered_def)
    finally show ?thesis by auto
  qed
  then show ?thesis by (fastforce simp: find_None_iff)
qed

lemma map_key_update: "(\<And>d. key (f d) = key d) \<Longrightarrow> key ` set (tbl_update k i f t) = key ` set t"
proof -
  have "key (if k d = i then f d else d) = key d" if "\<And>d. key (f d) = key d" for d using that by simp
  then show "(\<And>d. key (f d) = key d) \<Longrightarrow> ?thesis" by (simp only: tbl_update_def set_map image_image)
qed

lemma versions_ok_addVersion:
  assumes ok: "versions_ok s"
  shows "versions_ok (snd (addVersion txs i docId vdto u role s))"
proof (cases "find_tx_document txs i docId u role s")
  case (Inl e)
  then show ?thesis using ok by (simp add: addVersion_def)
next
  case (Inr d)
  note d = find_tx_document_id [OF Inr]
  let ?n = "length (versions_of docId s) + 1"
  obtain v f where s': "snd (addVersion txs i docId vdto u role s) =
      s\<lparr>ds_versions := tbl_create v (ds_versions s), ds_documents := tbl_update dc_id docId f (ds_documents s)\<rparr>"
    and v: "dv_documentId v = docId" "dv_versionNumber v = ?n" and f: "\<And>d. dc_id (f d) = dc_id d"
    using Inr d versions_no_clash [OF ok, of docId] by (fastforce simp: addVersion_def Let_def)
  have vs: "versions_of j (snd (addVersion txs i docId vdto u role s)) = versions_of j s @ (if j = docId then [v] else [])" for j
    using v(1) by (auto simp: s' versions_of_create)
  have "dc_id ` set (ds_documents (snd (addVersion txs i docId vdto u role s))) = dc_id ` set (ds_documents s)"
    using map_key_update [of dc_id f dc_id] f by (simp add: s')
  moreover have "docId \<in> dc_id ` set (ds_documents s)" using d by auto
  moreover have "numbered (versions_of docId s @ [v])"
    using ok v(2) by (intro numbered_snoc) (simp_all add: versions_ok_def)
  ultimately show ?thesis
    using ok v(1) unfolding versions_ok_def vs by (auto simp: s' tbl_create_def)
qed

lemma versions_ok_remove:
  assumes "versions_ok s"
  shows "versions_ok (snd (remove_document txs i docId u role s))"
proof -
  have "versions_of j (s\<lparr>ds_documents := ds, ds_versions := tbl_delete_many (\<lambda>v. dv_documentId v = docId) (ds_versions s)\<rparr>)
      = (if j = docId then [] else versions_of j s)" for j ds
    by (auto simp: versions_of_def tbl_delete_many_def filter_empty_conv intro: filter_cong)
  then show ?thesis
    using assms numbered_Nil by (auto simp: remove_document_def versions_ok_def split: sum.split)
qed

lemma versions_ok_step: "doc_step txs s s' \<Longrightarrow> versions_ok s \<Longrightarrow> versions_ok s'"
  by (induction rule: doc_step.induct) (auto intro: versions_ok_attach versions_ok_addVersion versions_ok_remove)

lemma versions_ok_steps: "(doc_step txs)\<^sup>*\<^sup>* s s' \<Longrightarrow> versions_ok s \<Longrightarrow> versions_ok s'"
  by (induction rule: rtranclp_induct) (auto intro: versions_ok_step)

subsection \<open>Facts about reminders\<close>

lemma reminder_loop_table:
  "snd (reminder_loop tx_of optOut now due ms) =
     map (\<lambda>m. if mi_id m \<in> mi_id ` set due then m\<lparr>mi_reminderSentAt := Some now\<rparr> else m) ms"
proof (induction due arbitrary: ms)
  case (Cons d due)
  then show ?case by (auto simp: case_prod_beta Let_def tbl_update_def)
qed simp

lemma reminder_loop_sent:
  "fst (reminder_loop tx_of optOut now due ms) = concat (map (reminders_for tx_of optOut) due)"
  by (induction due arbitrary: ms) (auto simp: case_prod_beta Let_def)

lemma processReminders_done:
  "filter (reminder_due daysAhead now) (snd (processReminders tx_of optOut daysAhead now ms)) = []"
proof -
  have sent: "\<not> reminder_due daysAhead now (m\<lparr>mi_reminderSentAt := Some now\<rparr>)" for m :: milestone
    by (simp add: reminder_due_def)
  have kept: "mi_id m \<in> mi_id ` set (filter (reminder_due daysAhead now) ms)"
    if "m \<in> set ms" "reminder_due daysAhead now m" for m
    using that by simp
  show ?thesis
    unfolding processReminders_def reminder_loop_table filter_empty_conv
    using sent kept by (auto split: if_splits)
qed

subsection \<open>Properties\<close>

text \<open>In every state the document operations reach, the versions of each document are numbered 1 to n
  without gap or repetition, so that adding a version never collides with an existing number.\<close>

theorem version_numbers_contiguous:
  assumes "(doc_step txs)\<^sup>*\<^sup>* \<lparr>ds_documents = [], ds_versions = []\<rparr> s"
  shows "map dv_versionNumber (versions_of i s) = [1..<Suc (length (versions_of i s))]
    \<and> fst (addVersion txs t i vdto u role s) \<noteq> Inl (InternalError e)"
proof -
  have ok: "versions_ok s"
    using versions_ok_steps [OF assms] numbered_Nil by (simp add: versions_ok_def versions_of_def)
  have "fst (addVersion txs t i vdto u role s) \<noteq> Inl (InternalError e)"
  proof (cases "find_tx_document txs t i u role s")
    case (Inr d)
    then show ?thesis
      using versions_no_clash [OF ok, of i] find_tx_document_id [OF Inr] by (simp add: addVersion_def Let_def)
  next
    case (Inl err)
    then have "err \<noteq> InternalError e"
      by (auto simp: find_tx_document_def fetchTxAccess_def assertAccess_def split: option.splits sum.splits if_splits)
    then show ?thesis by (simp add: addVersion_def Inl)
  qed
  moreover have "numbered (versions_of i s)" using ok by (simp add: versions_ok_def)
  ultimately show ?thesis by (simp only: numbered_def) simp
qed

definition example_txs :: "transaction list" where "example_txs = ts_transactions example_tx_state"

definition example_attach :: attach_dto where
  "example_attach = \<lparr>at_documentType = ''DEED'', at_fileName = ''d.pdf'', at_fileUrl = ''s3://d'', at_fileSize = 10,
     at_stage = None, at_changeNote = None\<rparr>"

theorem version_numbers_contiguous_witness:
  "map dv_versionNumber (versions_of ''d1''
     (snd (attach example_txs ''d1'' ''t1'' example_attach ''b'' ''USER'' 0 \<lparr>ds_documents = [], ds_versions = []\<rparr>))) = [1]"
proof -
  let ?s = "snd (attach example_txs ''d1'' ''t1'' example_attach ''b'' ''USER'' 0 \<lparr>ds_documents = [], ds_versions = []\<rparr>)"
  have "doc_step example_txs \<lparr>ds_documents = [], ds_versions = []\<rparr> ?s" by (rule doc_step.attach) simp
  from version_numbers_contiguous [OF r_into_rtranclp [of "doc_step example_txs", OF this], of "''d1''"]
  have "map dv_versionNumber (versions_of ''d1'' ?s) = [1..<Suc (length (versions_of ''d1'' ?s))]" by blast
  moreover have "length (versions_of ''d1'' ?s) = 1"
    by (simp add: attach_def fetchTxAccess_def example_txs_def example_tx_state_def empty_tx_state_def tbl_find_def
        new_tx_def example_dto_def assertAccess_def is_party_def versions_of_def tbl_create_def Let_def)
  ultimately show ?thesis by simp
qed

text \<open>Documents of a transaction are reachable only for its buyer and seller, administrators and agents,
  and only under their own transaction: reading, versioning and removing succeed exactly then.\<close>

theorem document_access_exact:
  "(\<exists>d. find_tx_document txs i docId u role s = Inr d) \<longleftrightarrow>
     (\<exists>t. tbl_find tx_id i txs = Some t \<and> (tx_buyerId t = u \<or> tx_sellerId t = u \<or> role = ''ADMIN'' \<or> role = ''AGENT''))
     \<and> (\<exists>d \<in> set (ds_documents s). dc_id d = docId \<and> dc_transactionId d = Some i)"
proof -
  have "(\<exists>d. List.find P xs = Some d) \<longleftrightarrow> (\<exists>d \<in> set xs. P d)" for P and xs :: "document list"
    by (induction xs) auto
  then show ?thesis by (auto simp: find_tx_document_Inr is_party_def is_privileged_def)
qed

text \<open>A private note is shown only to administrators and agents, and to its own author if the author is a
  party: a private note that somebody outside the transaction wrote is hidden even from its author.\<close>

theorem private_notes_hidden:
  assumes "notes_findByTransaction txs i viewer role ns = Inr shown" and "n \<in> set shown" and "\<not> nt_isPublic n"
  shows "role = ''ADMIN'' \<or> role = ''AGENT''
    \<or> nt_authorId n = viewer \<and> (\<exists>t. tbl_find tx_id i txs = Some t \<and> (tx_buyerId t = viewer \<or> tx_sellerId t = viewer))"
  using assms
  by (auto simp: notes_findByTransaction_def is_privileged_def is_party_def Let_def split: option.splits if_splits)

theorem private_notes_hidden_witness:
  "\<exists>n. n = \<lparr>nt_id = ''n1'', nt_transactionId = ''t1'', nt_authorId = ''b'', nt_content = ''x'', nt_isPublic = False, nt_createdAt = 0\<rparr>
     \<and> nt_authorId n = ''b'' \<and> (\<exists>t. tbl_find tx_id ''t1'' example_txs = Some t \<and> (tx_buyerId t = ''b'' \<or> tx_sellerId t = ''b''))"
proof -
  define n where "n = \<lparr>nt_id = ''n1'', nt_transactionId = ''t1'', nt_authorId = ''b'', nt_content = ''x'', nt_isPublic = False, nt_createdAt = 0\<rparr>"
  have "tbl_find tx_id ''t1'' example_txs = Some (new_tx ''t1'' example_dto 0)"
    by (simp add: example_txs_def example_tx_state_def empty_tx_state_def tbl_find_def new_tx_def)
  then have "notes_findByTransaction example_txs ''t1'' ''b'' ''USER'' [n] = Inr [n]"
    by (simp add: notes_findByTransaction_def is_party_def is_privileged_def new_tx_def example_dto_def n_def Let_def tbl_asc_def)
  from private_notes_hidden [OF this, of n] show ?thesis
    by (intro exI [of _ n]) (simp add: n_def)
qed

text \<open>Dispute resolution is not final: a resolved dispute refuses a second resolution, but a status update
  moves it to any status, back to open included, and leaves its resolution date in place.\<close>

theorem resolved_dispute_reopens:
  assumes "resolve_dispute i admin Dispute_RESOLVED details now s = (Inr d, s')"
  shows "resolve_dispute i admin2 st2 details2 later s' = (Inl (BadRequest ''Dispute is already resolved''), s')
    \<and> (case dispute_updateStatus i admin2 st s' of
         (Inr d', _) \<Rightarrow> di_status d' = st \<and> di_resolvedAt d' = Some now | (Inl _, _) \<Rightarrow> False)"
proof -
  obtain d0 where d0: "tbl_find di_id i (dp_disputes s) = Some d0"
    using assms by (auto simp: resolve_dispute_def split: option.splits)
  define f :: "dispute \<Rightarrow> dispute" where "f = (\<lambda>d. d\<lparr>di_status := Dispute_RESOLVED, di_arbitratorId := Some admin,
      di_resolutionDetails := Some details, di_resolvedAt := Some now\<rparr>)"
  have "s' = s\<lparr>dp_disputes := tbl_update di_id i f (dp_disputes s)\<rparr>"
    using assms d0 by (auto simp: resolve_dispute_def Let_def f_def split: if_splits)
  moreover have "tbl_find di_id i (tbl_update di_id i f (dp_disputes s)) = Some (f d0)"
    by (rule disputes.update_same [OF d0]) (simp add: f_def)
  ultimately show ?thesis
    by (simp add: resolve_dispute_def dispute_updateStatus_def Let_def) (simp add: f_def)
qed

theorem resolved_dispute_reopens_witness:
  "let s = \<lparr>dp_disputes = [\<lparr>di_id = ''x'', di_transactionId = ''t1'', di_initiatorId = ''b'', di_arbitratorId = None,
        di_status = Dispute_OPEN, di_reason = ''r'', di_description = None, di_resolutionDetails = None,
        di_resolvedAt = None\<rparr>], dp_documents = [], dp_sent = []\<rparr>;
      s' = snd (resolve_dispute ''x'' ''adm'' Dispute_RESOLVED ''done'' 7 s)
   in fst (resolve_dispute ''x'' ''adm'' Dispute_CANCELLED ''again'' 8 s') = Inl (BadRequest ''Dispute is already resolved'')"
proof -
  define s where "s = \<lparr>dp_disputes = [\<lparr>di_id = ''x'', di_transactionId = ''t1'', di_initiatorId = ''b'', di_arbitratorId = None,
        di_status = Dispute_OPEN, di_reason = ''r'', di_description = None, di_resolutionDetails = None,
        di_resolvedAt = None\<rparr>], dp_documents = [], dp_sent = []\<rparr>"
  obtain d s' where run: "resolve_dispute ''x'' ''adm'' Dispute_RESOLVED ''done'' 7 s = (Inr d, s')"
    by (simp add: s_def resolve_dispute_def tbl_find_def Let_def)
  from resolved_dispute_reopens [OF run, of "''adm''" Dispute_CANCELLED "''again''" 8] show ?thesis
    by (simp add: Let_def run s_def [symmetric])
qed


text \<open>C40: The lock of the reminder run excludes nobody, whatever Redis holds and answers: a second run that begins before
  the first one has marked its milestones sends every reminder a second time.\<close>

theorem reminder_lock_excludes_nobody:
  "\<exists>due1 due2 c1 c2 ms1 ms2 c3 c4.
     reminders_begin store_api ok d now ms c = (Some due1, c1) \<and> reminders_begin store_api ok' d now' ms c1 = (Some due2, c2)
     \<and> reminders_finish del_ok tx_of optOut now due1 ms c2
        = (concat (map (reminders_for tx_of optOut) (filter (reminder_due d now) ms)), ms1, c3)
     \<and> reminders_finish del_ok' tx_of optOut now' due2 ms1 c3
        = (concat (map (reminders_for tx_of optOut) (filter (reminder_due d now') ms)), ms2, c4)"
  by (auto simp: reminders_begin_def reminders_finish_def case_prod_beta reminder_loop_sent)

text \<open>The progress shown for a transaction is a percentage: between 0 and 100, 0 when no milestone is
  completed and 100 when all are.\<close>

theorem progress_is_percentage:
  assumes "completed \<le> n"
  shows "0 \<le> progress completed n \<and> progress completed n \<le> 100 \<and> (completed = 0 \<longrightarrow> progress completed n = 0)
    \<and> (completed = n \<and> 0 < n \<longrightarrow> progress completed n = 100)"
proof (cases "n = 0")
  case False
  let ?q = "of_nat completed / of_nat n :: rat"
  have q: "0 \<le> ?q" "?q \<le> 1" using assms False by (simp_all add: divide_le_eq)
  have "0 \<le> dbl ?q" "dbl ?q \<le> 1" using dbl_nonneg [OF q(1)] dbl_mono [OF q(2)] by simp_all
  then have "0 \<le> dbl (dbl ?q * 100)" "dbl (dbl ?q * 100) \<le> 100"
    using dbl_nonneg [of "dbl ?q * 100"] dbl_mono [of "dbl ?q * 100" 100] by simp_all
  then have "0 \<le> math_round (dbl (dbl ?q * 100))" "math_round (dbl (dbl ?q * 100)) \<le> 100"
    using math_round_mono [of "of_int 0" "dbl (dbl ?q * 100)"] math_round_mono [of "dbl (dbl ?q * 100)" "of_int 100"]
    by (simp_all only: math_round_of_int)
  moreover have "math_round 100 = 100" "math_round 0 = 0"
    using math_round_of_int [of 100] math_round_of_int [of 0] by simp_all
  ultimately show ?thesis using False by (auto simp: progress_def)
qed (simp add: progress_def)

theorem progress_is_percentage_witness:
  "0 \<le> progress 23 40 \<and> progress 23 40 \<le> 100"
  using progress_is_percentage [of 23 40] by simp

end
