(* ===== verification/Sanitize.thy ===== *)
theory Sanitize
  imports Prelude
begin

text \<open>
  The input cleaning of the DTOs and services: \<open>src/sessions/sanitize.util.ts\<close>, of which \<open>src/auth\<close>,
  \<open>src/users\<close>, \<open>src/fraud\<close>, \<open>src/payment\<close> and \<open>src/properties\<close> each carry a copy.  Values that are not
  strings pass unchanged there and are not modelled.  \<open>nfkc\<close> is \<open>String.prototype.normalize('NFKC')\<close>,
  the Unicode database's function, and an argument; the properties hold for every such function.
\<close>

text \<open>\<open>CONTROL_CHARS\<close>: C0 and C1 controls except tab, line feed and carriage return.\<close>

definition is_control :: "char \<Rightarrow> bool" where
  "is_control c = (let n = (of_char c :: nat) in
     n \<le> 8 \<or> n = 11 \<or> n = 12 \<or> 14 \<le> n \<and> n \<le> 31 \<or> 127 \<le> n \<and> n \<le> 159)"

definition strip_controls :: "string \<Rightarrow> string" where
  "strip_controls s = filter (\<lambda>c. \<not> is_control c) s"

text \<open>\<open>replace(/<[^>]*>/g, '')\<close>: from an opening bracket to the next closing one, where there is one.\<close>

function strip_tags :: "string \<Rightarrow> string" where
  "strip_tags [] = []"
| "strip_tags (c # s) =
     (if c = CHR ''<'' then
        (case dropWhile (\<lambda>x. x \<noteq> CHR ''>'') s of
           [] \<Rightarrow> c # strip_tags s
         | _ # rest \<Rightarrow> strip_tags rest)
      else c # strip_tags s)"
  by pat_completeness auto
termination
proof (relation "measure length")
  show "(rest, c # s) \<in> measure length"
    if "dropWhile (\<lambda>x. x \<noteq> CHR ''>'') s = d # rest" for c d :: char and s rest
    using length_dropWhile_le [of "\<lambda>x. x \<noteq> CHR ''>''" s] by (simp add: that)
qed simp_all

text \<open>\<open>replace(/\s+/g, ' ')\<close>; \<open>sp\<close> says whether the previous character was white space.\<close>

fun collapse_spaces :: "bool \<Rightarrow> string \<Rightarrow> string" where
  "collapse_spaces sp [] = []"
| "collapse_spaces sp (c # s) =
     (if js_space c then (if sp then collapse_spaces True s else CHR '' '' # collapse_spaces True s)
      else c # collapse_spaces False s)"

definition sanitizeIdentifier :: "(string \<Rightarrow> string) \<Rightarrow> string \<Rightarrow> string" where
  "sanitizeIdentifier nfkc value = js_trim (strip_controls (nfkc value))"

definition sanitizeText :: "(string \<Rightarrow> string) \<Rightarrow> string \<Rightarrow> string" where
  "sanitizeText nfkc value =
     js_trim (collapse_spaces False (strip_tags (strip_controls (nfkc value))))"

declare strip_tags.simps(2) [simp del]

subsection \<open>What is left\<close>

text \<open>\<open>has_tag s\<close>: the regular expression of the tags matches somewhere in \<open>s\<close>.\<close>

definition has_tag :: "string \<Rightarrow> bool" where
  "has_tag s \<longleftrightarrow> (\<exists>p q r. s = p @ CHR ''<'' # q @ CHR ''>'' # r)"

definition two_spaces :: "string \<Rightarrow> bool" where
  "two_spaces s \<longleftrightarrow> (\<exists>p c d r. s = p @ c # d # r \<and> js_space c \<and> js_space d)"

lemma has_tag_Cons: "has_tag (c # s) \<longleftrightarrow> (c = CHR ''<'' \<and> CHR ''>'' \<in> set s) \<or> has_tag s"
proof
  assume "has_tag (c # s)"
  then obtain p q r where eq: "c # s = p @ CHR ''<'' # q @ CHR ''>'' # r" by (auto simp: has_tag_def)
  show "(c = CHR ''<'' \<and> CHR ''>'' \<in> set s) \<or> has_tag s"
    using eq by (cases p) (auto simp: has_tag_def)
next
  assume "(c = CHR ''<'' \<and> CHR ''>'' \<in> set s) \<or> has_tag s"
  then show "has_tag (c # s)"
  proof
    assume a: "c = CHR ''<'' \<and> CHR ''>'' \<in> set s"
    then obtain q r where "s = q @ CHR ''>'' # r" by (meson split_list)
    with a have "c # s = [] @ CHR ''<'' # q @ CHR ''>'' # r" by simp
    then show ?thesis unfolding has_tag_def by blast
  next
    assume "has_tag s"
    then obtain p q r where "s = p @ CHR ''<'' # q @ CHR ''>'' # r" by (auto simp: has_tag_def)
    then have "c # s = (c # p) @ CHR ''<'' # q @ CHR ''>'' # r" by simp
    then show ?thesis unfolding has_tag_def by blast
  qed
qed

lemma not_has_tag_Nil: "\<not> has_tag []"
  by (simp add: has_tag_def)

lemma dropWhile_neq: "dropWhile (\<lambda>x. x \<noteq> a) s = (if a \<in> set s then a # tl (dropWhile (\<lambda>x. x \<noteq> a) s) else [])"
  by (induction s) auto

text \<open>The two cases of an opening bracket.\<close>

lemma strip_tags_open: "CHR ''>'' \<notin> set s \<Longrightarrow> strip_tags (CHR ''<'' # s) = CHR ''<'' # strip_tags s"
  by (simp add: strip_tags.simps(2) dropWhile_neq [of "CHR ''>''" s])

lemma strip_tags_other: "c \<noteq> CHR ''<'' \<Longrightarrow> strip_tags (c # s) = c # strip_tags s"
  by (simp add: strip_tags.simps(2))

lemma strip_tags_tag:
  assumes "CHR ''>'' \<in> set s"
  obtains rest where "strip_tags (CHR ''<'' # s) = strip_tags rest" "set rest \<subseteq> set s" "length rest < length s"
proof -
  obtain q rest where s: "s = q @ CHR ''>'' # rest" "CHR ''>'' \<notin> set q"
    using split_list_first [OF assms] by blast
  then have "dropWhile (\<lambda>x. x \<noteq> CHR ''>'') s = CHR ''>'' # rest"
    using s(2) by (simp add: s(1)) (subst dropWhile_append2, auto)
  then have "strip_tags (CHR ''<'' # s) = strip_tags rest" by (simp add: strip_tags.simps(2))
  with s show thesis by (intro that [of rest]) auto
qed

lemma strip_tags_cases:
  "(set (strip_tags s) \<subseteq> set s) \<and> \<not> has_tag (strip_tags s)"
proof (induction s rule: length_induct)
  case (1 s)
  show ?case
  proof (cases s)
    case (Cons c r)
    consider "c \<noteq> CHR ''<''" | "c = CHR ''<''" "CHR ''>'' \<notin> set r" | "c = CHR ''<''" "CHR ''>'' \<in> set r" by blast
    then show ?thesis
    proof cases
      case 3
      then obtain rest where "strip_tags s = strip_tags rest" "set rest \<subseteq> set r" "length rest < length r"
        using strip_tags_tag [of r] by (metis Cons)
      then show ?thesis using 1 Cons by (metis length_Cons less_Suc_eq order_trans set_subset_Cons)
    next
      case 2
      then show ?thesis using 1 by (auto simp: Cons strip_tags_open has_tag_Cons)
    next
      case 1
      then show ?thesis using \<open>\<forall>t. length t < length s \<longrightarrow> _\<close> by (auto simp: Cons has_tag_Cons strip_tags_other)
    qed
  qed (simp add: not_has_tag_Nil)
qed

lemma strip_tags_id: "\<not> has_tag s \<Longrightarrow> strip_tags s = s"
proof (induction s)
  case (Cons c s)
  then show ?case by (cases "c = CHR ''<''") (auto simp: has_tag_Cons strip_tags_open strip_tags_other)
qed simp

subsection \<open>Runs of white space\<close>

lemma has_tag_subset_collapse: "CHR ''>'' \<notin> set s \<Longrightarrow> CHR ''>'' \<notin> set (collapse_spaces b s)"
  by (induction b s rule: collapse_spaces.induct) auto

lemma collapse_no_tag: "\<not> has_tag s \<Longrightarrow> \<not> has_tag (collapse_spaces b s)"
proof (induction b s rule: collapse_spaces.induct)
  case (2 sp c s)
  then show ?case
    using has_tag_subset_collapse [of s False] by (auto simp: has_tag_Cons js_space_def)
qed simp

lemma has_tag_sub: "has_tag s \<Longrightarrow> has_tag (p @ s @ q)"
proof -
  assume "has_tag s"
  then obtain a b c where "s = a @ CHR ''<'' # b @ CHR ''>'' # c" by (auto simp: has_tag_def)
  then have "p @ s @ q = (p @ a) @ CHR ''<'' # b @ CHR ''>'' # (c @ q)" by simp
  then show ?thesis unfolding has_tag_def by blast
qed

lemma two_spaces_sub: "two_spaces s \<Longrightarrow> two_spaces (p @ s @ q)"
proof -
  assume "two_spaces s"
  then obtain a c d b where "s = a @ c # d # b" "js_space c" "js_space d" by (auto simp: two_spaces_def)
  then have "p @ s @ q = (p @ a) @ c # d # (b @ q) \<and> js_space c \<and> js_space d" by simp
  then show ?thesis unfolding two_spaces_def by blast
qed

lemma js_trim_infix: "\<exists>p q. s = p @ js_trim s @ q"
proof -
  let ?t = "dropWhile js_space s"
  have "s = takeWhile js_space s @ ?t" by simp
  moreover have "?t = js_trim s @ rev (takeWhile js_space (rev ?t))"
    by (metis js_trim_def rev_append rev_rev_ident takeWhile_dropWhile_id)
  ultimately show ?thesis by metis
qed

lemma two_spaces_Cons:
  "two_spaces (c # s) \<longleftrightarrow> (js_space c \<and> (\<exists>d r. s = d # r \<and> js_space d)) \<or> two_spaces s"
proof
  assume "two_spaces (c # s)"
  then obtain p x d r where eq: "c # s = p @ x # d # r" "js_space x" "js_space d" by (auto simp: two_spaces_def)
  then show "(js_space c \<and> (\<exists>d r. s = d # r \<and> js_space d)) \<or> two_spaces s"
  proof (cases p)
    case (Cons y ys)
    then show ?thesis using eq unfolding two_spaces_def by (metis list.inject append_Cons)
  qed auto
next
  assume "(js_space c \<and> (\<exists>d r. s = d # r \<and> js_space d)) \<or> two_spaces s"
  then show "two_spaces (c # s)"
  proof
    assume "js_space c \<and> (\<exists>d r. s = d # r \<and> js_space d)"
    then show ?thesis unfolding two_spaces_def by (metis append_Nil)
  next
    assume "two_spaces s"
    then show ?thesis using two_spaces_sub [of s "[c]" "[]"] by simp
  qed
qed

lemma collapse_two_spaces:
  "\<not> two_spaces (collapse_spaces b s) \<and> (b \<longrightarrow> \<not> (\<exists>d r. collapse_spaces b s = d # r \<and> js_space d))"
proof (induction b s rule: collapse_spaces.induct)
  case (1 sp)
  then show ?case by (auto simp: two_spaces_def)
next
  case (2 sp c s)
  have "js_space CHR '' ''" by (simp add: js_space_def)
  with 2 show ?case by (auto simp: two_spaces_Cons)
qed

lemma collapse_set: "set (collapse_spaces b s) \<subseteq> insert CHR '' '' (set s)"
  by (induction b s rule: collapse_spaces.induct) auto

text \<open>Cleaned text is clean: whatever the input, no HTML tag, no control character and no run of white
  space is left, also none that the removal of another one could have put together.\<close>

theorem sanitized_text_is_clean:
  "\<not> has_tag (sanitizeText nfkc value) \<and> \<not> two_spaces (sanitizeText nfkc value)
    \<and> list_all (\<lambda>c. \<not> is_control c) (sanitizeText nfkc value)"
proof -
  let ?c = "strip_controls (nfkc value)" and ?s = "collapse_spaces False (strip_tags (strip_controls (nfkc value)))"
  obtain p q where pq: "?s = p @ sanitizeText nfkc value @ q"
    using js_trim_infix [of ?s] by (auto simp: sanitizeText_def)
  have "\<not> has_tag ?s" using strip_tags_cases [of ?c] by (simp add: collapse_no_tag)
  moreover have "\<not> two_spaces ?s" using collapse_two_spaces by blast
  moreover have "set (sanitizeText nfkc value) \<subseteq> insert CHR '' '' (set ?c)"
    using set_js_trim [of ?s] collapse_set [of False "strip_tags ?c"] strip_tags_cases [of ?c]
    by (auto simp: sanitizeText_def)
  then have "\<not> is_control c" if "c \<in> set (sanitizeText nfkc value)" for c
    using that by (auto simp: strip_controls_def is_control_def)
  ultimately show ?thesis using has_tag_sub two_spaces_sub pq by (metis list_all_iff)
qed

end
