(* ===== verification/Sessions.thy ===== *)
theory Sessions
  imports Store Sanitize
begin

text \<open>
  Login sessions and revoked tokens: \<open>src/sessions/sessions.service.ts\<close> and the \<open>BlacklistedToken\<close> table.

  The state is the two tables; theory \<open>Auth_Tokens\<close> extends it to the state of the authentication
  service, which is why the operations are polymorphic in the rest of the state.  Random identifiers are
  arguments.  Publishing a revocation to open sockets is an effect outside these tables and not modelled.
\<close>

subsection \<open>Rows\<close>

record device_info =
  dv_browser :: "string option"
  dv_os :: "string option"
  dv_deviceType :: "string option"

record geo_info =
  ge_country :: string
  ge_city :: string
  ge_region :: string

record session =
  se_id :: string
  se_userId :: string
  se_accessTokenJti :: string
  se_refreshTokenJti :: "string option"
  se_ipAddress :: "string option"
  se_userAgent :: "string option"
  se_displayName :: "string option"
  se_deviceInfo :: device_info
  se_geoLocation :: "geo_info option"
  se_deviceFingerprint :: "string option"
  se_geoCountryCode :: "string option"
  se_geoCity :: "string option"
  se_isRevoked :: bool
  se_revokedAt :: "time option"
  se_expiresAt :: time
  se_createdAt :: time
  se_lastActivityAt :: time

datatype token_type = ACCESS | REFRESH

record blacklisted_token =
  bl_jti :: string
  bl_tokenType :: token_type
  bl_expiresAt :: time
  bl_userId :: "string option"
  bl_tokenFamily :: "string option"
  bl_previousJti :: "string option"
  bl_ipAddress :: "string option"
  bl_userAgent :: "string option"
  bl_reusedAt :: "time option"

record session_state =
  ss_sessions :: "session list"
  ss_blacklist :: "blacklisted_token list"

interpretation sessions: keyed_table se_id "tbl_find se_id" "tbl_update se_id" tbl_create
  by (rule keyed_table_tbl)

interpretation blacklist: keyed_table bl_jti "tbl_find bl_jti" "tbl_update bl_jti" tbl_create
  by (rule keyed_table_tbl)

subsection \<open>Device and location\<close>

definition extractBrowser :: "string \<Rightarrow> string option" where
  "extractBrowser ua =
     (if js_includes ''Firefox/'' ua then Some ''Firefox''
      else if js_includes ''Edg/'' ua then Some ''Edge''
      else if js_includes ''Chrome/'' ua then Some ''Chrome''
      else if js_includes ''Safari/'' ua \<and> \<not> js_includes ''Chrome'' ua then Some ''Safari''
      else if js_includes ''Opera/'' ua \<or> js_includes ''OPR/'' ua then Some ''Opera''
      else if js_includes ''MSIE'' ua \<or> js_includes ''Trident/'' ua then Some ''Internet Explorer''
      else None)"

definition extractOs :: "string \<Rightarrow> string option" where
  "extractOs ua =
     (if js_includes ''Windows NT 10'' ua then Some ''Windows 10+''
      else if js_includes ''Windows NT 6.1'' ua then Some ''Windows 7''
      else if js_includes ''Windows'' ua then Some ''Windows''
      else if js_includes ''Mac OS X'' ua then Some ''macOS''
      else if js_includes ''Linux'' ua then Some ''Linux''
      else if js_includes ''Android'' ua then Some ''Android''
      else if js_includes ''iPhone'' ua \<or> js_includes ''iPad'' ua then Some ''iOS''
      else None)"

definition extractDeviceType :: "string \<Rightarrow> string option" where
  "extractDeviceType ua =
     (if js_includes ''Mobile'' ua \<or> js_includes ''Android'' ua then Some ''mobile''
      else if js_includes ''iPad'' ua \<or> js_includes ''Tablet'' ua then Some ''tablet''
      else Some ''desktop'')"

definition parseDeviceInfo :: "string option \<Rightarrow> device_info" where
  "parseDeviceInfo userAgent = (case userAgent of
     Some ua \<Rightarrow> if ua = [] then \<lparr>dv_browser = None, dv_os = None, dv_deviceType = None\<rparr>
       else \<lparr>dv_browser = extractBrowser ua, dv_os = extractOs ua, dv_deviceType = extractDeviceType ua\<rparr>
   | None \<Rightarrow> \<lparr>dv_browser = None, dv_os = None, dv_deviceType = None\<rparr>)"

definition lookupGeoFromIp :: "string option \<Rightarrow> geo_info option" where
  "lookupGeoFromIp ipAddress = (case ipAddress of
     None \<Rightarrow> None
   | Some ip \<Rightarrow>
       if ip = [] then None
       else if ip = ''127.0.0.1'' \<or> ip = ''::1'' \<or> ip = ''::ffff:127.0.0.1''
       then Some \<lparr>ge_country = ''Local'', ge_city = ''Localhost'', ge_region = ''Local''\<rparr>
       else Some \<lparr>ge_country = ''Unknown'', ge_city = ''Unknown'', ge_region = ''Unknown''\<rparr>)"

subsection \<open>Operations\<close>

text \<open>\<open>configService.get('MAX_CONCURRENT_SESSIONS', 5)\<close> is a string when the variable is set; comparing it with a
  count converts it to a number, and a comparison with NaN (\<open>None\<close>) is false.\<close>

definition maxConcurrentSessions :: "string option \<Rightarrow> int option" where
  "maxConcurrentSessions env = (case env of None \<Rightarrow> Some 5 | Some s \<Rightarrow> js_number_integer s)"

definition active_session :: "string \<Rightarrow> time \<Rightarrow> session \<Rightarrow> bool" where
  "active_session userId now s \<longleftrightarrow> se_userId s = userId \<and> \<not> se_isRevoked s \<and> now < se_expiresAt s"

definition new_session ::
  "string \<Rightarrow> string \<Rightarrow> string \<Rightarrow> string \<Rightarrow> string option \<Rightarrow> string option \<Rightarrow> int \<Rightarrow> time \<Rightarrow> session" where
  "new_session newId userId accessTokenJti refreshTokenJti ipAddress userAgent expiresInSeconds now =
     \<lparr>se_id = newId, se_userId = userId, se_accessTokenJti = accessTokenJti,
      se_refreshTokenJti = Some refreshTokenJti, se_ipAddress = ipAddress, se_userAgent = userAgent,
      se_displayName = None, se_deviceInfo = parseDeviceInfo userAgent,
      se_geoLocation = lookupGeoFromIp ipAddress, se_deviceFingerprint = None, se_geoCountryCode = None,
      se_geoCity = None, se_isRevoked = False, se_revokedAt = None,
      se_expiresAt = now + expiresInSeconds * 1000, se_createdAt = now, se_lastActivityAt = now\<rparr>"

definition createSession ::
  "string option \<Rightarrow> string \<Rightarrow> string \<Rightarrow> string \<Rightarrow> string \<Rightarrow> string option \<Rightarrow> string option \<Rightarrow> int \<Rightarrow> time \<Rightarrow>
   'a session_state_scheme \<Rightarrow> (session, 'a session_state_scheme) outcome" where
  "createSession limit_env newId userId accessTokenJti refreshTokenJti ipAddress userAgent expiresInSeconds now st =
     (let activeSessionCount = int (tbl_count (active_session userId now) (ss_sessions st)) in
      if (case maxConcurrentSessions limit_env of Some lim \<Rightarrow> lim \<le> activeSessionCount | None \<Rightarrow> False)
      then (Inl (Conflict (''Maximum concurrent sessions ('' @
              (case limit_env of Some s \<Rightarrow> s | None \<Rightarrow> ''5'') @
              '') reached. Please terminate an existing session first.'')), st)
      else (let session = new_session newId userId accessTokenJti refreshTokenJti ipAddress userAgent
                  expiresInSeconds now
            in (Inr session, st\<lparr>ss_sessions := tbl_create session (ss_sessions st)\<rparr>)))"

text \<open>The listed sessions with their \<open>isCurrent\<close> flag, and the two counts.\<close>

definition getUserSessions ::
  "string \<Rightarrow> string option \<Rightarrow> time \<Rightarrow> 'a session_state_scheme \<Rightarrow> (session \<times> bool) list \<times> nat \<times> nat" where
  "getUserSessions userId currentAccessTokenJti now st =
     (map (\<lambda>s. (s, Some (se_accessTokenJti s) = currentAccessTokenJti))
        (tbl_desc se_createdAt (filter (\<lambda>s. se_userId s = userId) (ss_sessions st))),
      tbl_count (active_session userId now) (ss_sessions st),
      tbl_count (\<lambda>s. se_userId s = userId \<and> se_isRevoked s) (ss_sessions st))"

definition getSession :: "(string \<Rightarrow> string) \<Rightarrow> string \<Rightarrow> 'a session_state_scheme \<Rightarrow> session result" where
  "getSession nfkc sessionId st =
     (case tbl_find se_id (sanitizeIdentifier nfkc sessionId) (ss_sessions st) of
        None \<Rightarrow> Inl (NotFound ''Session not found'') | Some s \<Rightarrow> Inr s)"

definition updateSession ::
  "(string \<Rightarrow> string) \<Rightarrow> string \<Rightarrow> string \<Rightarrow> string option \<Rightarrow> 'a session_state_scheme \<Rightarrow>
   (session, 'a session_state_scheme) outcome" where
  "updateSession nfkc userId sessionId displayName st =
     (let sid = sanitizeIdentifier nfkc sessionId in
      case tbl_find se_id sid (ss_sessions st) of
        None \<Rightarrow> (Inl (NotFound ''Session not found''), st)
      | Some session \<Rightarrow>
          if se_userId session \<noteq> userId then (Inl (NotFound ''Session not found''), st)
          else (let upd = (\<lambda>s. s\<lparr>se_displayName :=
                  (case displayName of None \<Rightarrow> se_displayName s | Some d \<Rightarrow> Some (sanitizeText nfkc d))\<rparr>)
                in (Inr (upd session), st\<lparr>ss_sessions := tbl_update se_id sid upd (ss_sessions st)\<rparr>)))"

definition revokeSession ::
  "(string \<Rightarrow> string) \<Rightarrow> string \<Rightarrow> string \<Rightarrow> time \<Rightarrow> 'a session_state_scheme \<Rightarrow>
   (string, 'a session_state_scheme) outcome" where
  "revokeSession nfkc userId sessionId now st =
     (let sid = sanitizeIdentifier nfkc sessionId in
      case tbl_find se_id sid (ss_sessions st) of
        None \<Rightarrow> (Inl (NotFound ''Session not found''), st)
      | Some session \<Rightarrow>
          if se_userId session \<noteq> userId then (Inl (NotFound ''Session not found''), st)
          else (Inr sid, st\<lparr>ss_sessions := tbl_update se_id sid
                  (\<lambda>s. s\<lparr>se_isRevoked := True, se_revokedAt := Some now\<rparr>) (ss_sessions st)\<rparr>))"

text \<open>The blacklist entries of a session; an empty jti is falsy.\<close>

definition session_tokens :: "string \<Rightarrow> session \<Rightarrow> blacklisted_token list" where
  "session_tokens userId s =
     (let entry = (\<lambda>ty jti. \<lparr>bl_jti = jti, bl_tokenType = ty, bl_expiresAt = se_expiresAt s, bl_userId = Some userId,
            bl_tokenFamily = None, bl_previousJti = None, bl_ipAddress = None, bl_userAgent = None,
            bl_reusedAt = None\<rparr>)
      in (if se_accessTokenJti s = [] then [] else [entry ACCESS (se_accessTokenJti s)])
         @ (case se_refreshTokenJti s of None \<Rightarrow> []
            | Some jti \<Rightarrow> if jti = [] then [] else [entry REFRESH jti]))"

text \<open>\<open>createMany\<close> with \<open>skipDuplicates\<close>: a row whose unique \<open>jti\<close> is taken is left out.\<close>

definition create_skipping :: "blacklisted_token list \<Rightarrow> blacklisted_token list \<Rightarrow> blacklisted_token list" where
  "create_skipping rows t =
     foldl (\<lambda>t r. if tbl_find bl_jti (bl_jti r) t = None then tbl_create r t else t) t rows"

definition revokeAllSessions ::
  "string \<Rightarrow> string option \<Rightarrow> time \<Rightarrow> 'a session_state_scheme \<Rightarrow> nat \<times> 'a session_state_scheme" where
  "revokeAllSessions userId exceptSessionId now st =
     (let p = (\<lambda>s. se_userId s = userId \<and> \<not> se_isRevoked s \<and>
            (case exceptSessionId of Some e \<Rightarrow> e = [] \<or> se_id s \<noteq> e | None \<Rightarrow> True));
          blacklistedTokens = concat (map (session_tokens userId) (filter p (ss_sessions st)))
      in (tbl_count p (ss_sessions st),
          st\<lparr>ss_blacklist := create_skipping blacklistedTokens (ss_blacklist st),
             ss_sessions := tbl_update_many p (\<lambda>s. s\<lparr>se_isRevoked := True, se_revokedAt := Some now\<rparr>)
               (ss_sessions st)\<rparr>))"

text \<open>Updating a row that does not exist is refused by the database.\<close>

definition updateSessionActivity ::
  "string \<Rightarrow> time \<Rightarrow> 'a session_state_scheme \<Rightarrow> (unit, 'a session_state_scheme) outcome" where
  "updateSessionActivity sessionId now st =
     (if tbl_find se_id sessionId (ss_sessions st) = None
      then (Inl (InternalError ''Record to update not found''), st)
      else (Inr (), st\<lparr>ss_sessions := tbl_update se_id sessionId (\<lambda>s. s\<lparr>se_lastActivityAt := now\<rparr>)
             (ss_sessions st)\<rparr>))"

definition isSessionValid :: "string \<Rightarrow> time \<Rightarrow> 'a session_state_scheme \<Rightarrow> bool" where
  "isSessionValid sessionId now st =
     (case tbl_find se_id sessionId (ss_sessions st) of
        None \<Rightarrow> False | Some session \<Rightarrow> \<not> se_isRevoked session \<and> now < se_expiresAt session)"

definition getSessionByAccessTokenJti :: "string \<Rightarrow> 'a session_state_scheme \<Rightarrow> session option" where
  "getSessionByAccessTokenJti jti st = List.find (\<lambda>s. se_accessTokenJti s = jti) (ss_sessions st)"

definition cleanupExpiredSessions :: "time \<Rightarrow> 'a session_state_scheme \<Rightarrow> nat \<times> 'a session_state_scheme" where
  "cleanupExpiredSessions now st =
     (let p = (\<lambda>s. se_expiresAt s < now)
      in (tbl_count p (ss_sessions st), st\<lparr>ss_sessions := tbl_delete_many p (ss_sessions st)\<rparr>))"

subsection \<open>Which tokens are revoked\<close>

definition revoked_jti :: "string \<Rightarrow> 'a session_state_scheme \<Rightarrow> bool" where
  "revoked_jti jti st \<longleftrightarrow> tbl_find bl_jti jti (ss_blacklist st) \<noteq> None"

lemma revoked_jti_iff: "revoked_jti jti st \<longleftrightarrow> jti \<in> bl_jti ` set (ss_blacklist st)"
  by (simp add: revoked_jti_def table_simps)

lemma create_skipping_jtis: "bl_jti ` set (create_skipping rows t) = bl_jti ` set t \<union> bl_jti ` set rows"
  unfolding create_skipping_def
  by (induction rows arbitrary: t) (auto simp: tbl_create_def table_simps)

lemma create_skipping_distinct:
  "distinct (map bl_jti t) \<Longrightarrow> distinct (map bl_jti (create_skipping rows t))"
  unfolding create_skipping_def
  by (induction rows arbitrary: t) (auto simp: tbl_create_def tbl_find_None)

lemma session_tokens_jtis:
  "bl_jti ` set (session_tokens u s) =
     {j. j \<noteq> [] \<and> (j = se_accessTokenJti s \<or> se_refreshTokenJti s = Some j)}"
  by (cases "se_refreshTokenJti s") (auto simp: session_tokens_def)

lemma session_tokens_jti:
  "x \<in> set (session_tokens u s) \<Longrightarrow> bl_jti x = se_accessTokenJti s \<or> se_refreshTokenJti s = Some (bl_jti x)"
  by (cases "se_refreshTokenJti s") (auto simp: session_tokens_def split: if_splits)

lemma revokeAllSessions_revokes:
  assumes "s \<in> set (ss_sessions st)" and "se_userId s = u" and "\<not> se_isRevoked s"
    and "j \<noteq> []" and "j = se_accessTokenJti s \<or> se_refreshTokenJti s = Some j"
  shows "revoked_jti j (snd (revokeAllSessions u None now st))"
proof -
  have "j \<in> bl_jti ` set (session_tokens u s)" using assms(4,5) by (simp only: session_tokens_jtis) blast
  then show ?thesis
    using assms(1-3) by (auto simp: revoked_jti_iff revokeAllSessions_def Let_def create_skipping_jtis)
qed

lemma revokeAllSessions_keeps: "revoked_jti j st \<Longrightarrow> revoked_jti j (snd (revokeAllSessions u e now st))"
  by (auto simp: revoked_jti_iff revokeAllSessions_def Let_def create_skipping_jtis)

lemma revokeSession_blacklist: "ss_blacklist (snd (revokeSession nfkc u sid now st)) = ss_blacklist st"
  by (auto simp: revokeSession_def Let_def split: option.splits)

end
