(* ===== verification/Accounts.thy ===== *)
theory Accounts
  imports Sessions Login_Lockout Two_Factor
begin

text \<open>
  The state of the authentication and fraud services: the user rows and the tables
  \<open>src/auth/auth.service.ts\<close> and \<open>src/fraud/fraud.service.ts\<close> share.  A user row extends the two-factor columns
  of theory \<open>Two_Factor\<close>, the state the session tables of theory \<open>Sessions\<close>.  Profile columns that no
  operation reads are left out; JSON columns (\<open>evidence\<close>, \<open>metadata\<close>) are not part of the model.
\<close>

subsection \<open>Users and the rows that hang on them\<close>

record user = twofa_user +
  us_email :: string
  us_password :: "string option"
  us_googleId :: "string option"
  us_phone :: "string option"
  us_role :: string
  us_tier :: string
  us_isVerified :: bool
  us_isBlocked :: bool
  us_isDeactivated :: bool
  us_emailVerificationToken :: "string option"
  us_emailVerificationExpires :: "time option"
  us_lastActivityAt :: "time option"
  us_createdAt :: time
  us_firstName :: string
  us_lastName :: string
  us_avatar :: "string option"
  us_preferredChannel :: "string option"
  us_languagePreference :: "string option"
  us_timezone :: "string option"
  us_contactHours :: "(string \<times> string) option"
  us_pendingEmail :: "string option"
  us_deactivatedAt :: "time option"
  us_scheduledDeletionAt :: "time option"
  us_deletionReason :: "string option"
  us_legalHold :: bool
  us_reactivationToken :: "string option"
  us_reactivationTokenExpires :: "time option"
  us_referralCode :: "string option"
  us_referredById :: "string option"

text \<open>The columns a new row gets when the code names none of them (the defaults of the schema).\<close>

definition blank_user :: "string \<Rightarrow> string \<Rightarrow> time \<Rightarrow> user" where
  "blank_user newId email now =
     \<lparr>tu_id = newId, tu_twoFactorEnabled = False, tu_twoFactorSecret = None, tu_twoFactorBackupCodes = [],
      us_email = email, us_password = None, us_googleId = None, us_phone = None,
      us_role = ''USER'', us_tier = ''FREE'', us_isVerified = False, us_isBlocked = False, us_isDeactivated = False,
      us_emailVerificationToken = None, us_emailVerificationExpires = None, us_lastActivityAt = None, us_createdAt = now,
      us_firstName = [], us_lastName = [], us_avatar = None, us_preferredChannel = None, us_languagePreference = None,
      us_timezone = None, us_contactHours = None, us_pendingEmail = None, us_deactivatedAt = None,
      us_scheduledDeletionAt = None, us_deletionReason = None, us_legalHold = False, us_reactivationToken = None,
      us_reactivationTokenExpires = None, us_referralCode = None, us_referredById = None\<rparr>"

lemma blank_user_simps [simp]:
  "tu_id (blank_user newId email now) = newId" "tu_twoFactorEnabled (blank_user newId email now) = False"
  "tu_twoFactorSecret (blank_user newId email now) = None"
  "tu_twoFactorBackupCodes (blank_user newId email now) = []" "us_email (blank_user newId email now) = email"
  "us_password (blank_user newId email now) = None" "us_googleId (blank_user newId email now) = None"
  "us_phone (blank_user newId email now) = None" "us_role (blank_user newId email now) = ''USER''"
  "us_tier (blank_user newId email now) = ''FREE''" "us_isVerified (blank_user newId email now) = False"
  "us_isBlocked (blank_user newId email now) = False" "us_isDeactivated (blank_user newId email now) = False"
  "us_emailVerificationToken (blank_user newId email now) = None"
  "us_emailVerificationExpires (blank_user newId email now) = None"
  "us_pendingEmail (blank_user newId email now) = None" "us_scheduledDeletionAt (blank_user newId email now) = None"
  "us_legalHold (blank_user newId email now) = False" "us_reactivationToken (blank_user newId email now) = None"
  "us_createdAt (blank_user newId email now) = now"
  by (simp_all add: blank_user_def)

record login_entry =
  le_userId :: string
  le_timestamp :: time
  le_ipAddress :: "string option"
  le_userAgent :: "string option"

record password_entry =
  pe_id :: string
  pe_userId :: string
  pe_passwordHash :: string
  pe_createdAt :: time

record reset_token =
  rt_id :: string
  rt_userId :: string
  rt_token :: string
  rt_expiresAt :: time
  rt_usedAt :: "time option"

record activity =
  ac_userId :: string
  ac_action :: string
  ac_entityType :: string
  ac_entityId :: string

subsection \<open>Fraud alerts\<close>

datatype fraud_pattern =
    EXCESSIVE_FAILED_LOGINS
  | SHARED_IP_MULTIPLE_ACCOUNTS
  | MULTIPLE_IPS_FOR_ACCOUNT
  | NEW_DEVICE_LOGIN
  | TOKEN_REUSE
  | RAPID_PROPERTY_LISTINGS
  | DUPLICATE_PROPERTY_ADDRESS
  | HIGH_VALUE_NEW_ACCOUNT_LISTING
  | DUPLICATE_PROPERTY_IMAGES
  | VELOCITY_EXCEEDED
  | IMPOSSIBLE_TRAVEL
  | DEVICE_FINGERPRINT_MISMATCH

datatype fraud_severity = Sev_LOW | Sev_MEDIUM | Sev_HIGH | Sev_CRITICAL

fun severityRank :: "fraud_severity \<Rightarrow> nat" where
  "severityRank Sev_CRITICAL = 4"
| "severityRank Sev_HIGH = 3"
| "severityRank Sev_MEDIUM = 2"
| "severityRank Sev_LOW = 1"

text \<open>The database orders the severities as the enumeration lists them, which is the order of the ranks.\<close>

instantiation fraud_severity :: linorder
begin

definition less_eq_fraud_severity :: "fraud_severity \<Rightarrow> fraud_severity \<Rightarrow> bool" where
  "less_eq_fraud_severity a b \<longleftrightarrow> severityRank a \<le> severityRank b"

definition less_fraud_severity :: "fraud_severity \<Rightarrow> fraud_severity \<Rightarrow> bool" where
  "less_fraud_severity a b \<longleftrightarrow> severityRank a < severityRank b"

instance
proof
  fix x y :: fraud_severity
  show "x \<le> y \<Longrightarrow> y \<le> x \<Longrightarrow> x = y"
    by (cases x; cases y) (simp_all add: less_eq_fraud_severity_def)
qed (auto simp: less_eq_fraud_severity_def less_fraud_severity_def)

end

datatype fraud_status = Alert_OPEN | Alert_INVESTIGATING | Alert_RESOLVED | Alert_DISMISSED

record fraud_alert =
  fa_id :: string
  fa_userId :: "string option"
  fa_propertyId :: "string option"
  fa_transactionId :: "string option"
  fa_sessionId :: "string option"
  fa_pattern :: fraud_pattern
  fa_severity :: fraud_severity
  fa_status :: fraud_status
  fa_score :: int
  fa_title :: string
  fa_description :: string
  fa_autoBlocked :: bool
  fa_lastDetectedAt :: time
  fa_occurrenceCount :: nat
  fa_assignedToId :: "string option"
  fa_resolvedById :: "string option"
  fa_resolvedAt :: "time option"

record fraud_note =
  fn_alertId :: string
  fn_actorId :: string
  fn_action :: "string option"
  fn_note :: string

text \<open>What leaves the system when an alert is raised: mails to the security team and to the user, an SMS, and
  the in-app notification.\<close>

datatype notice =
    Team_mail string fraud_severity "string option"
  | User_mail string string
  | User_sms string string
  | In_app string string

subsection \<open>The state\<close>

record account_state = session_state +
  as_users :: "user list"
  as_devices :: devices
  as_attempts :: attempts
  as_logins :: "login_entry list"
  as_passwords :: "password_entry list"
  as_resets :: "reset_token list"
  as_alerts :: "fraud_alert list"
  as_notes :: "fraud_note list"
  as_activity :: "activity list"
  as_notices :: "notice list"
  as_registrationIps :: "(string \<times> string \<times> time) list"

interpretation alerts: keyed_table fa_id "tbl_find fa_id" "tbl_update fa_id" tbl_create
  by (rule keyed_table_tbl)

interpretation resets: keyed_table rt_id "tbl_find rt_id" "tbl_update rt_id" tbl_create
  by (rule keyed_table_tbl)

definition find_user :: "string \<Rightarrow> account_state \<Rightarrow> user option" where
  "find_user userId st = tbl_find tu_id userId (as_users st)"

definition find_user_by_email :: "string \<Rightarrow> account_state \<Rightarrow> user option" where
  "find_user_by_email email st = tbl_find us_email email (as_users st)"

definition update_user :: "string \<Rightarrow> (user \<Rightarrow> user) \<Rightarrow> account_state \<Rightarrow> account_state" where
  "update_user userId f st = st\<lparr>as_users := tbl_update tu_id userId f (as_users st)\<rparr>"

definition log_activity :: "string \<Rightarrow> string \<Rightarrow> string \<Rightarrow> string \<Rightarrow> account_state \<Rightarrow> account_state" where
  "log_activity userId action entityType entityId st =
     st\<lparr>as_activity := tbl_create \<lparr>ac_userId = userId, ac_action = action, ac_entityType = entityType,
        ac_entityId = entityId\<rparr> (as_activity st)\<rparr>"

text \<open>A string the code tests for truth: present and not empty.\<close>

definition truthy :: "string option \<Rightarrow> bool" where
  "truthy v \<longleftrightarrow> v \<noteq> None \<and> v \<noteq> Some []"

lemma find_user_id: "find_user u st = Some user \<Longrightarrow> tu_id user = u"
  by (auto simp: find_user_def dest: tbl_find_Some)

lemma find_update_user:
  "(\<And>r. tu_id (f r) = tu_id r) \<Longrightarrow>
   find_user v (update_user u f st) = (if v = u then map_option f (find_user u st) else find_user v st)"
  by (simp add: find_user_def update_user_def twofa_users.lookup_update)

lemma update_user_frame [simp]:
  "ss_sessions (update_user u f st) = ss_sessions st" "ss_blacklist (update_user u f st) = ss_blacklist st"
  "as_devices (update_user u f st) = as_devices st" "as_attempts (update_user u f st) = as_attempts st"
  "as_logins (update_user u f st) = as_logins st" "as_passwords (update_user u f st) = as_passwords st"
  "as_resets (update_user u f st) = as_resets st" "as_alerts (update_user u f st) = as_alerts st"
  "as_notes (update_user u f st) = as_notes st" "as_notices (update_user u f st) = as_notices st"
  by (simp_all add: update_user_def)

lemma log_activity_frame [simp]:
  "ss_sessions (log_activity u a e i st) = ss_sessions st" "ss_blacklist (log_activity u a e i st) = ss_blacklist st"
  "as_users (log_activity u a e i st) = as_users st" "find_user v (log_activity u a e i st) = find_user v st"
  "as_devices (log_activity u a e i st) = as_devices st" "as_attempts (log_activity u a e i st) = as_attempts st"
  "as_logins (log_activity u a e i st) = as_logins st" "as_passwords (log_activity u a e i st) = as_passwords st"
  "as_resets (log_activity u a e i st) = as_resets st" "as_alerts (log_activity u a e i st) = as_alerts st"
  "as_notes (log_activity u a e i st) = as_notes st" "as_notices (log_activity u a e i st) = as_notices st"
  by (simp_all add: log_activity_def find_user_def)

end
