(* ===== verification/Fraud.thy ===== *)
theory Fraud
  imports Accounts Complex_Main
begin

text \<open>
  Fraud detection and review: \<open>src/fraud/fraud.service.ts\<close> over the state of theory \<open>Accounts\<close>.

  \<open>ids\<close> gives the identifier of a new alert by its pattern, so that one evaluation never uses an
  identifier twice; \<open>recipients\<close> is the configured security team.  Queries the code issues in parallel
  run one after another here: the evaluations concern different patterns.  Sends are recorded in
  \<open>as_notices\<close>; their failure is caught by the code and changes nothing else.
\<close>

record alert_payload =
  ap_userId :: "string option"
  ap_propertyId :: "string option"
  ap_transactionId :: "string option"
  ap_sessionId :: "string option"
  ap_pattern :: fraud_pattern
  ap_severity :: fraud_severity
  ap_score :: int
  ap_title :: string
  ap_description :: string
  ap_autoBlockUser :: bool

type_synonym alert_ids = "fraud_pattern \<Rightarrow> string"

definition alert_recipients :: "string option \<Rightarrow> string list" where
  "alert_recipients env =
     filter (\<lambda>v. v \<noteq> []) (map js_trim (js_split CHR '','' (case env of Some s \<Rightarrow> s | None \<Rightarrow> [])))"

subsection \<open>Raising an alert\<close>

text \<open>An absent field of the payload is no condition of the query.\<close>

definition same_subject :: "alert_payload \<Rightarrow> fraud_alert \<Rightarrow> bool" where
  "same_subject p a \<longleftrightarrow>
     (let field = (\<lambda>want have. case want of None \<Rightarrow> True | Some v \<Rightarrow> have = Some v)
      in field (ap_userId p) (fa_userId a) \<and> field (ap_propertyId p) (fa_propertyId a)
         \<and> field (ap_transactionId p) (fa_transactionId a) \<and> field (ap_sessionId p) (fa_sessionId a))"

definition open_alert :: "fraud_alert \<Rightarrow> bool" where
  "open_alert a \<longleftrightarrow> fa_status a = Alert_OPEN \<or> fa_status a = Alert_INVESTIGATING"

definition findOpenAlert :: "alert_payload \<Rightarrow> account_state \<Rightarrow> fraud_alert option" where
  "findOpenAlert p st =
     List.find (\<lambda>a. fa_pattern a = ap_pattern p \<and> same_subject p a \<and> open_alert a)
       (tbl_desc fa_lastDetectedAt (as_alerts st))"

definition notifySecurityTeam ::
  "string list \<Rightarrow> fraud_alert \<Rightarrow> string option \<Rightarrow> account_state \<Rightarrow> account_state" where
  "notifySecurityTeam recipients alert userEmail st =
     (if recipients = [] then st
      else st\<lparr>as_notices := as_notices st @ [Team_mail (fa_id alert) (fa_severity alert) userEmail]\<rparr>)"

definition getUserPhone :: "string option \<Rightarrow> account_state \<Rightarrow> string option" where
  "getUserPhone userId st = (if truthy userId then Option.bind (find_user (the userId) st) us_phone else None)"

text \<open>\<open>userEmail\<close> is \<open>alert.user?.email\<close>, present only on rows fetched with their user.\<close>

definition deliverMultiChannelNotifications ::
  "string list \<Rightarrow> fraud_alert \<Rightarrow> string option \<Rightarrow> alert_payload \<Rightarrow> account_state \<Rightarrow> account_state" where
  "deliverMultiChannelNotifications recipients alert userEmail p st =
     (let st1 = notifySecurityTeam recipients alert userEmail st;
          st2 = (if (ap_severity p = Sev_HIGH \<or> ap_severity p = Sev_CRITICAL) \<and> truthy userEmail
                 then st1\<lparr>as_notices := as_notices st1 @ [User_mail (the userEmail) (ap_title p)]\<rparr> else st1);
          st3 = (if ap_severity p = Sev_CRITICAL \<and> truthy userEmail
                 then (case getUserPhone (ap_userId p) st2 of
                         Some phone \<Rightarrow> if phone = [] then st2
                           else st2\<lparr>as_notices := as_notices st2 @ [User_sms phone (ap_title p)]\<rparr>
                       | None \<Rightarrow> st2)
                 else st2)
      in (if truthy (ap_userId p)
          then st3\<lparr>as_notices := as_notices st3 @ [In_app (the (ap_userId p)) (fa_id alert)]\<rparr> else st3))"

definition blockUserForFraud ::
  "string \<Rightarrow> string \<Rightarrow> string \<Rightarrow> string \<Rightarrow> account_state \<Rightarrow> (unit, account_state) outcome" where
  "blockUserForFraud userId alertId actorId reason st =
     (if find_user userId st = None then (Inl (InternalError ''Record to update not found''), st)
      else (let st1 = update_user userId (\<lambda>u. u\<lparr>us_isBlocked := True\<rparr>) st;
                st2 = st1\<lparr>as_alerts := tbl_update fa_id alertId (\<lambda>a. a\<lparr>fa_autoBlocked := True\<rparr>) (as_alerts st1)\<rparr>;
                st3 = log_activity userId ''USER_BLOCKED_FOR_FRAUD'' ''FRAUD_ALERT'' alertId st2
            in (Inr (), st3\<lparr>as_notes := as_notes st3 @
                 [\<lparr>fn_alertId = alertId, fn_actorId = actorId, fn_action = Some ''USER_BLOCKED'', fn_note = reason\<rparr>]\<rparr>)))"

definition repeat_alert :: "alert_payload \<Rightarrow> time \<Rightarrow> fraud_alert \<Rightarrow> fraud_alert" where
  "repeat_alert p now a =
     a\<lparr>fa_severity := (if severityRank (fa_severity a) < severityRank (ap_severity p)
                       then ap_severity p else fa_severity a),
       fa_score := max (fa_score a) (ap_score p),
       fa_title := ap_title p, fa_description := ap_description p,
       fa_lastDetectedAt := now, fa_occurrenceCount := fa_occurrenceCount a + 1,
       fa_autoBlocked := (fa_autoBlocked a \<or> ap_autoBlockUser p)\<rparr>"

definition new_alert :: "string \<Rightarrow> alert_payload \<Rightarrow> time \<Rightarrow> fraud_alert" where
  "new_alert newId p now =
     \<lparr>fa_id = newId, fa_userId = ap_userId p, fa_propertyId = ap_propertyId p,
      fa_transactionId = ap_transactionId p, fa_sessionId = ap_sessionId p, fa_pattern = ap_pattern p,
      fa_severity = ap_severity p, fa_status = Alert_OPEN, fa_score = ap_score p, fa_title = ap_title p,
      fa_description = ap_description p, fa_autoBlocked = ap_autoBlockUser p, fa_lastDetectedAt = now,
      fa_occurrenceCount = 1, fa_assignedToId = None, fa_resolvedById = None, fa_resolvedAt = None\<rparr>"

text \<open>Creating an alert for a user that does not exist violates the foreign key.\<close>

definition createOrUpdateAlert ::
  "string list \<Rightarrow> alert_ids \<Rightarrow> alert_payload \<Rightarrow> time \<Rightarrow> account_state \<Rightarrow> (fraud_alert, account_state) outcome" where
  "createOrUpdateAlert recipients ids p now st =
     (case findOpenAlert p st of
        Some existing \<Rightarrow>
          (let severityIncreased = severityRank (fa_severity existing) < severityRank (ap_severity p);
               updated = repeat_alert p now existing;
               st1 = st\<lparr>as_alerts := tbl_update fa_id (fa_id existing) (repeat_alert p now) (as_alerts st)\<rparr>;
               st2 = (if severityIncreased \<or> fa_occurrenceCount updated mod 5 = 0
                      then deliverMultiChannelNotifications recipients updated None p st1 else st1)
           in if ap_autoBlockUser p \<and> truthy (ap_userId p) \<and> \<not> fa_autoBlocked existing
                \<and> \<not> (case fa_userId existing of Some u \<Rightarrow> starts_with ''system-'' u | None \<Rightarrow> False)
              then (case blockUserForFraud (the (ap_userId p)) (fa_id updated) (the (ap_userId p))
                       ''Automatically blocked after repeated fraud detections.'' st2 of
                      (Inl e, st3) \<Rightarrow> (Inl e, st3) | (Inr _, st3) \<Rightarrow> (Inr updated, st3))
              else (Inr updated, st2))
      | None \<Rightarrow>
          if (case ap_userId p of Some u \<Rightarrow> find_user u st = None | None \<Rightarrow> False)
          then (Inl (InternalError ''Foreign key constraint failed''), st)
          else
          (let created = new_alert (ids (ap_pattern p)) p now;
               st1 = st\<lparr>as_alerts := tbl_create created (as_alerts st)\<rparr>;
               st2 = (if truthy (ap_userId p)
                      then log_activity (the (ap_userId p)) ''FRAUD_ALERT_CREATED''
                             (if truthy (ap_propertyId p) then ''PROPERTY''
                              else if truthy (ap_transactionId p) then ''TRANSACTION'' else ''USER'')
                             (case ap_propertyId p of Some i \<Rightarrow> i | None \<Rightarrow>
                                case ap_transactionId p of Some i \<Rightarrow> i | None \<Rightarrow> the (ap_userId p)) st1
                      else st1);
               userEmail = Option.bind (ap_userId p) (\<lambda>u. map_option us_email (find_user u st));
               st3 = deliverMultiChannelNotifications recipients created userEmail p st2
           in if ap_autoBlockUser p \<and> truthy (ap_userId p)
              then (case blockUserForFraud (the (ap_userId p)) (fa_id created) (the (ap_userId p))
                       ''Automatically blocked by the fraud detection engine.'' st3 of
                      (Inl e, st4) \<Rightarrow> (Inl e, st4) | (Inr _, st4) \<Rightarrow> (Inr created, st4))
              else (Inr created, st3)))"

subsection \<open>Evaluations\<close>

definition user_alert :: "string \<Rightarrow> fraud_pattern \<Rightarrow> fraud_severity \<Rightarrow> int \<Rightarrow> string \<Rightarrow> string \<Rightarrow> bool \<Rightarrow> alert_payload" where
  "user_alert userId pattern severity score title description autoBlock =
     \<lparr>ap_userId = Some userId, ap_propertyId = None, ap_transactionId = None, ap_sessionId = None,
      ap_pattern = pattern, ap_severity = severity, ap_score = score, ap_title = title,
      ap_description = description, ap_autoBlockUser = autoBlock\<rparr>"

text \<open>An evaluation that raises nothing returns \<open>None\<close>.\<close>

definition raise ::
  "string list \<Rightarrow> alert_ids \<Rightarrow> time \<Rightarrow> alert_payload \<Rightarrow> account_state \<Rightarrow> (fraud_alert option, account_state) outcome" where
  "raise recipients ids now p st =
     (case createOrUpdateAlert recipients ids p now st of
        (Inl e, st') \<Rightarrow> (Inl e, st') | (Inr a, st') \<Rightarrow> (Inr (Some a), st'))"

definition evaluateFailedLogin ::
  "string list \<Rightarrow> alert_ids \<Rightarrow> string \<Rightarrow> time \<Rightarrow> account_state \<Rightarrow> (fraud_alert option, account_state) outcome" where
  "evaluateFailedLogin recipients ids email now st =
     (case find_user_by_email email st of
        None \<Rightarrow> (Inr None, st)
      | Some user \<Rightarrow>
          (let windowStart = now - 30 * 60 * 1000;
               failedAttempts = tbl_count (\<lambda>r. la_email r = email \<and> \<not> la_success r \<and> windowStart \<le> la_time r)
                 (as_attempts st)
           in if failedAttempts < 5 then (Inr None, st)
              else raise recipients ids now
                (user_alert (tu_id user) EXCESSIVE_FAILED_LOGINS (if 10 \<le> failedAttempts then Sev_HIGH else Sev_MEDIUM)
                   (if 10 \<le> failedAttempts then 82 else 58) ''Repeated failed login attempts detected''
                   (''The account recorded '' @ show_nat failedAttempts @
                    '' failed login attempts in the last 30 minutes.'') False) st))"

text \<open>Sequencing of two evaluations; the alerts raised are collected.\<close>

definition and_then ::
  "(fraud_alert list, account_state) outcome \<Rightarrow>
   (account_state \<Rightarrow> (fraud_alert option, account_state) outcome) \<Rightarrow> (fraud_alert list, account_state) outcome" where
  "and_then r f = (case r of (Inl e, st) \<Rightarrow> (Inl e, st)
     | (Inr as, st) \<Rightarrow> (case f st of (Inl e, st') \<Rightarrow> (Inl e, st')
         | (Inr None, st') \<Rightarrow> (Inr as, st') | (Inr (Some a), st') \<Rightarrow> (Inr (as @ [a]), st')))"

definition distinct_values :: "string option list \<Rightarrow> string list" where
  "distinct_values vs = rev (remdups (rev (List.map_filter (\<lambda>v. if truthy v then v else None) vs)))"

definition evaluateSuccessfulLogin ::
  "string list \<Rightarrow> alert_ids \<Rightarrow> string \<Rightarrow> string option \<Rightarrow> string option \<Rightarrow> time \<Rightarrow> account_state \<Rightarrow>
   (fraud_alert list, account_state) outcome" where
  "evaluateSuccessfulLogin recipients ids userId ipAddress userAgent now st =
     (let windowStart = now - 24 * 60 * 60 * 1000;
          recentLogins = take 20 (tbl_desc le_timestamp
            (filter (\<lambda>e. le_userId e = userId \<and> windowStart \<le> le_timestamp e) (as_logins st)));
          matchingLoginCount = (if truthy ipAddress \<or> truthy userAgent
            then tbl_count (\<lambda>e. le_userId e = userId \<and> (truthy ipAddress \<longrightarrow> le_ipAddress e = ipAddress)
                   \<and> (truthy userAgent \<longrightarrow> le_userAgent e = userAgent)) (as_logins st)
            else 0);
          sharedIpAccounts = (if truthy ipAddress
            then length (remdups (map le_userId
                   (filter (\<lambda>e. le_ipAddress e = ipAddress \<and> windowStart \<le> le_timestamp e) (as_logins st))))
            else 0);
          distinctIps = length (distinct_values (map le_ipAddress recentLogins));
          multipleIps = (\<lambda>st. if 4 \<le> distinctIps
            then raise recipients ids now
              (user_alert userId MULTIPLE_IPS_FOR_ACCOUNT (if 6 \<le> distinctIps then Sev_HIGH else Sev_MEDIUM)
                 (if 6 \<le> distinctIps then 84 else 60) ''Account accessed from multiple IP addresses''
                 (''The account used '' @ show_nat distinctIps @ '' distinct IP addresses in the last 24 hours.'') False) st
            else (Inr None, st));
          newDevice = (\<lambda>st. if 1 < length recentLogins \<and> matchingLoginCount = 1 \<and> (truthy ipAddress \<or> truthy userAgent)
            then raise recipients ids now
              (user_alert userId NEW_DEVICE_LOGIN Sev_LOW 24 ''Login from a new device or location''
                 ''A successful login came from a device or IP address not previously seen for this account.'' False) st
            else (Inr None, st));
          sharedIp = (\<lambda>st. if truthy ipAddress \<and> 3 \<le> sharedIpAccounts
            then raise recipients ids now
              (user_alert userId SHARED_IP_MULTIPLE_ACCOUNTS (if 5 \<le> sharedIpAccounts then Sev_CRITICAL else Sev_HIGH)
                 (if 5 \<le> sharedIpAccounts then 95 else 78) ''Same IP address used across multiple accounts''
                 (''The login IP '' @ the ipAddress @ '' was used by '' @ show_nat sharedIpAccounts @
                  '' accounts in the last 24 hours.'') (5 \<le> sharedIpAccounts)) st
            else (Inr None, st))
      in and_then (and_then (and_then (Inr [], st) multipleIps) newDevice) sharedIp)"

text \<open>The fraud service's side of a reused refresh token.\<close>

definition reuse_payload :: "string \<Rightarrow> string option \<Rightarrow> alert_payload" where
  "reuse_payload userId sessionId =
     \<lparr>ap_userId = Some userId, ap_propertyId = None, ap_transactionId = None, ap_sessionId = sessionId,
      ap_pattern = TOKEN_REUSE, ap_severity = Sev_CRITICAL, ap_score = 100,
      ap_title = ''Refresh token reuse detected'',
      ap_description = ''A previously blacklisted token was presented again, which indicates possible token theft or replay.'',
      ap_autoBlockUser = True\<rparr>"

definition Fraud_handleTokenReuse ::
  "string list \<Rightarrow> alert_ids \<Rightarrow> string \<Rightarrow> string \<Rightarrow> time \<Rightarrow> account_state \<Rightarrow> (fraud_alert, account_state) outcome" where
  "Fraud_handleTokenReuse recipients ids userId reusedJti now st =
     (let session = List.find (\<lambda>s. se_refreshTokenJti s = Some reusedJti \<or> se_accessTokenJti s = reusedJti)
            (tbl_desc se_createdAt (ss_sessions st))
      in createOrUpdateAlert recipients ids (reuse_payload userId (map_option se_id session)) now st)"

definition evaluateVelocity ::
  "string list \<Rightarrow> alert_ids \<Rightarrow> string \<Rightarrow> string option \<Rightarrow> time \<Rightarrow> account_state \<Rightarrow> (fraud_alert option, account_state) outcome" where
  "evaluateVelocity recipients ids userId ipAddress now st =
     (let windowStart = now - 5 * 60 * 1000;
          recentLogins = tbl_count (\<lambda>e. le_userId e = userId \<and> windowStart \<le> le_timestamp e
            \<and> (truthy ipAddress \<longrightarrow> le_ipAddress e = ipAddress)) (as_logins st)
      in if recentLogins < 10 then (Inr None, st)
         else raise recipients ids now
           (user_alert userId VELOCITY_EXCEEDED (if 25 \<le> recentLogins then Sev_HIGH else Sev_MEDIUM)
              (if 25 \<le> recentLogins then 80 else 62) ''High login velocity detected''
              (show_nat recentLogins @ '' successful logins in the last 5 minutes exceed the established threshold.'') False) st)"

definition evaluateImpossibleTravel ::
  "string list \<Rightarrow> alert_ids \<Rightarrow> string \<Rightarrow> string \<Rightarrow> time \<Rightarrow> account_state \<Rightarrow> (fraud_alert option, account_state) outcome" where
  "evaluateImpossibleTravel recipients ids userId geoCountryCode now st =
     (if geoCountryCode = [] then (Inr None, st)
      else (let windowStart = now - 60 * 60 * 1000;
                seen = distinct_values (map se_geoCountryCode
                  (filter (\<lambda>s. se_userId s = userId \<and> windowStart \<le> se_createdAt s) (ss_sessions st)));
                codes = (if geoCountryCode \<in> set seen then seen else seen @ [geoCountryCode])
            in if length codes < 2 then (Inr None, st)
               else raise recipients ids now
                 (user_alert userId IMPOSSIBLE_TRAVEL (if 3 \<le> length codes then Sev_HIGH else Sev_MEDIUM)
                    (if 3 \<le> length codes then 76 else 60) ''Impossible travel detected''
                    (''Recent logins originated from '' @ show_nat (length codes) @ '' distinct countries ('' @
                     js_join '', '' codes @ '').'') False) st))"

definition evaluateDeviceFingerprint ::
  "string list \<Rightarrow> alert_ids \<Rightarrow> string \<Rightarrow> string \<Rightarrow> time \<Rightarrow> account_state \<Rightarrow> (fraud_alert option, account_state) outcome" where
  "evaluateDeviceFingerprint recipients ids userId fingerprint now st =
     (if fingerprint = [] then (Inr None, st)
      else (let recent = take 5 (tbl_desc se_createdAt (filter (\<lambda>s. se_userId s = userId) (ss_sessions st)));
                prior = filter (\<lambda>v. truthy v \<and> v \<noteq> Some fingerprint) (map se_deviceFingerprint recent)
            in if prior = [] then (Inr None, st)
               else raise recipients ids now
                 (user_alert userId DEVICE_FINGERPRINT_MISMATCH Sev_MEDIUM 55 ''Login from new device fingerprint''
                    ''A session was opened from a device fingerprint that has previously not been seen on this account.'' False) st))"

record login_context =
  lc_ipAddress :: "string option"
  lc_geo :: "(string option \<times> string option) option"
  lc_fingerprint :: "string option"
  lc_accessTokenJti :: "string option"

definition update_sessions_of ::
  "string \<Rightarrow> string \<Rightarrow> (session \<Rightarrow> session) \<Rightarrow> account_state \<Rightarrow> account_state" where
  "update_sessions_of userId jti f st =
     st\<lparr>ss_sessions := tbl_update_many (\<lambda>s. se_userId s = userId \<and> se_accessTokenJti s = jti) f (ss_sessions st)\<rparr>"

definition recordLoginContext ::
  "string list \<Rightarrow> alert_ids \<Rightarrow> string \<Rightarrow> login_context \<Rightarrow> time \<Rightarrow> account_state \<Rightarrow>
   (fraud_alert list, account_state) outcome" where
  "recordLoginContext recipients ids userId input now st =
     (let country = Option.bind (lc_geo input) fst;
          city = Option.bind (lc_geo input) snd;
          keep = (\<lambda>new old. case new of None \<Rightarrow> old | Some v \<Rightarrow> Some v);
          st1 = (if truthy (lc_accessTokenJti input)
                 then update_sessions_of userId (the (lc_accessTokenJti input))
                   (\<lambda>s. s\<lparr>se_deviceFingerprint := keep (lc_fingerprint input) (se_deviceFingerprint s),
                          se_geoCountryCode := keep country (se_geoCountryCode s),
                          se_geoCity := keep city (se_geoCity s)\<rparr>) st
                 else st)
      in case and_then (and_then (and_then (Inr [], st1)
             (evaluateVelocity recipients ids userId (lc_ipAddress input) now))
             (\<lambda>s. if truthy country then evaluateImpossibleTravel recipients ids userId (the country) now s else (Inr None, s)))
             (\<lambda>s. if truthy (lc_fingerprint input)
                  then evaluateDeviceFingerprint recipients ids userId (the (lc_fingerprint input)) now s else (Inr None, s)) of
           (Inl e, st2) \<Rightarrow> (Inl e, st2)
         | (Inr as, st2) \<Rightarrow>
             (Inr as, if as \<noteq> [] \<and> truthy (lc_accessTokenJti input)
                      then update_sessions_of userId (the (lc_accessTokenJti input))
                             (\<lambda>s. s\<lparr>se_lastActivityAt := now\<rparr>) st2
                      else st2))"

text \<open>A listed property with the columns the listing checks read; \<open>fp_ownerCreatedAt\<close> is its owner's.\<close>

record fraud_property =
  fp_id :: string
  fp_ownerId :: string
  fp_address :: string
  fp_city :: string
  fp_state :: string
  fp_zipCode :: string
  fp_price :: rat
  fp_createdAt :: time
  fp_ownerCreatedAt :: time

definition evaluatePropertyCreated ::
  "string list \<Rightarrow> alert_ids \<Rightarrow> fraud_property list \<Rightarrow> string \<Rightarrow> time \<Rightarrow> account_state \<Rightarrow>
   (fraud_alert list, account_state) outcome" where
  "evaluatePropertyCreated recipients ids properties propertyId now st =
     (case tbl_find fp_id propertyId properties of
        None \<Rightarrow> (Inl (NotFound ''Property not found''), st)
      | Some property \<Rightarrow>
          (let ci = (\<lambda>a b. js_lower a = js_lower b);
               rapidListings = tbl_count (\<lambda>q. fp_ownerId q = fp_ownerId property \<and> now - 60 * 60 * 1000 \<le> fp_createdAt q) properties;
               duplicateListings = take 10 (filter (\<lambda>q. fp_id q \<noteq> fp_id property \<and> ci (fp_address q) (fp_address property)
                 \<and> ci (fp_city q) (fp_city property) \<and> ci (fp_state q) (fp_state property)
                 \<and> fp_zipCode q = fp_zipCode property) properties);
               duplicatesByOtherOwners = length (filter (\<lambda>q. fp_ownerId q \<noteq> fp_ownerId property) duplicateListings);
               accountAgeDays = (now - fp_ownerCreatedAt property) div (1000 * 60 * 60 * 24);
               alert = (\<lambda>pattern severity score title description.
                 \<lparr>ap_userId = Some (fp_ownerId property), ap_propertyId = Some (fp_id property), ap_transactionId = None,
                  ap_sessionId = None, ap_pattern = pattern, ap_severity = severity, ap_score = score,
                  ap_title = title, ap_description = description, ap_autoBlockUser = False\<rparr>)
           in and_then (and_then (and_then (Inr [], st)
                (\<lambda>s. if 3 \<le> rapidListings
                     then raise recipients ids now (alert RAPID_PROPERTY_LISTINGS
                       (if 5 \<le> rapidListings then Sev_HIGH else Sev_MEDIUM) (if 5 \<le> rapidListings then 80 else 55)
                       ''Rapid listing creation detected''
                       (''The owner created '' @ show_nat rapidListings @ '' property listings within the last hour.'')) s
                     else (Inr None, s)))
                (\<lambda>s. if 0 < duplicatesByOtherOwners
                     then raise recipients ids now (alert DUPLICATE_PROPERTY_ADDRESS
                       (if 2 \<le> duplicatesByOtherOwners then Sev_HIGH else Sev_MEDIUM)
                       (if 2 \<le> duplicatesByOtherOwners then 76 else 57) ''Duplicate property address detected''
                       ''The same property address appears on listings owned by different accounts.'') s
                     else (Inr None, s)))
                (\<lambda>s. if accountAgeDays \<le> 14 \<and> 1000000 \<le> fp_price property
                     then raise recipients ids now (alert HIGH_VALUE_NEW_ACCOUNT_LISTING Sev_HIGH 85
                       ''High-value listing from a new account''
                       ''A recently created account submitted a high-value property listing.'') s
                     else (Inr None, s))))"

subsection \<open>Review\<close>

record alert_query =
  aq_status :: "fraud_status option"
  aq_severity :: "fraud_severity option"
  aq_pattern :: "fraud_pattern option"
  aq_userId :: "string option"
  aq_assignedToId :: "string option"
  aq_autoBlocked :: "bool option"
  aq_page :: nat
  aq_limit :: nat

definition alert_where :: "alert_query \<Rightarrow> fraud_alert \<Rightarrow> bool" where
  "alert_where q a \<longleftrightarrow>
     (\<forall>s \<in> set_option (aq_status q). fa_status a = s) \<and> (\<forall>s \<in> set_option (aq_severity q). fa_severity a = s)
     \<and> (\<forall>s \<in> set_option (aq_pattern q). fa_pattern a = s) \<and> (\<forall>s \<in> set_option (aq_userId q). fa_userId a = Some s)
     \<and> (\<forall>s \<in> set_option (aq_assignedToId q). fa_assignedToId a = Some s)
     \<and> (\<forall>s \<in> set_option (aq_autoBlocked q). fa_autoBlocked a = s)"

text \<open>Most severe first, then most recent: two stable sorts.  The page and the total.\<close>

definition listAlerts :: "alert_query \<Rightarrow> account_state \<Rightarrow> fraud_alert list \<times> nat" where
  "listAlerts q st =
     (let matching = filter (alert_where q) (as_alerts st)
      in (tbl_page ((aq_page q - 1) * aq_limit q) (aq_limit q)
            (tbl_desc (\<lambda>a. int (severityRank (fa_severity a))) (tbl_desc fa_lastDetectedAt matching)),
          length matching))"

definition ensureAlertExists :: "string \<Rightarrow> account_state \<Rightarrow> fraud_alert result" where
  "ensureAlertExists alertId st = (case tbl_find fa_id alertId (as_alerts st) of
     None \<Rightarrow> Inl (NotFound ''Fraud alert not found'') | Some a \<Rightarrow> Inr a)"

definition addInvestigationNote ::
  "(string \<Rightarrow> string) \<Rightarrow> string \<Rightarrow> string option \<Rightarrow> string \<Rightarrow> string \<Rightarrow> account_state \<Rightarrow> (fraud_note, account_state) outcome" where
  "addInvestigationNote nfkc alertId action text actorId st =
     (case ensureAlertExists alertId st of
        Inl e \<Rightarrow> (Inl e, st)
      | Inr _ \<Rightarrow>
          (let row = \<lparr>fn_alertId = alertId, fn_actorId = actorId,
                 fn_action = map_option (sanitizeIdentifier nfkc) action, fn_note = sanitizeText nfkc text\<rparr>
           in (Inr row, st\<lparr>as_notes := as_notes st @ [row]\<rparr>)))"

record review_dto =
  rv_status :: "fraud_status option"
  rv_assignedToId :: "string option"
  rv_note :: "string option"
  rv_blockUser :: bool

definition reviewAlert ::
  "(string \<Rightarrow> string) \<Rightarrow> string \<Rightarrow> review_dto \<Rightarrow> string \<Rightarrow> time \<Rightarrow> account_state \<Rightarrow> (fraud_alert, account_state) outcome" where
  "reviewAlert nfkc alertId payload actorId now st =
     (case ensureAlertExists alertId st of
        Inl e \<Rightarrow> (Inl e, st)
      | Inr alert \<Rightarrow>
          (let nextStatus = (case rv_status payload of Some s \<Rightarrow> s
                 | None \<Rightarrow> if truthy (rv_note payload) \<or> truthy (rv_assignedToId payload)
                           then Alert_INVESTIGATING else fa_status alert);
               closed = (nextStatus = Alert_RESOLVED \<or> nextStatus = Alert_DISMISSED);
               st1 = st\<lparr>as_alerts := tbl_update fa_id alertId (\<lambda>a. a\<lparr>fa_status := nextStatus,
                   fa_assignedToId := (case rv_assignedToId payload of Some i \<Rightarrow> Some i | None \<Rightarrow> fa_assignedToId alert),
                   fa_resolvedAt := (if closed then Some now else None),
                   fa_resolvedById := (if closed then Some actorId else None)\<rparr>) (as_alerts st)\<rparr>;
               r2 = (if truthy (rv_note payload)
                     then map_prod (map_sum id (\<lambda>_. ())) id
                       (addInvestigationNote nfkc alertId (Some ''REVIEWED'') (the (rv_note payload)) actorId st1)
                     else (Inr (), st1))
           in case r2 of (Inl e, st2) \<Rightarrow> (Inl e, st2)
           | (Inr _, st2) \<Rightarrow>
               (case (if rv_blockUser payload \<and> truthy (fa_userId alert)
                      then blockUserForFraud (the (fa_userId alert)) alertId actorId ''Blocked during fraud review.'' st2
                      else (Inr (), st2)) of
                  (Inl e, st3) \<Rightarrow> (Inl e, st3)
                | (Inr _, st3) \<Rightarrow> (ensureAlertExists alertId st3, st3))))"

definition blockUserFromAlert ::
  "(string \<Rightarrow> string) \<Rightarrow> string \<Rightarrow> string \<Rightarrow> string option \<Rightarrow> account_state \<Rightarrow> (fraud_alert, account_state) outcome" where
  "blockUserFromAlert nfkc alertId actorId reason st =
     (case ensureAlertExists alertId st of
        Inl e \<Rightarrow> (Inl e, st)
      | Inr alert \<Rightarrow>
          if \<not> truthy (fa_userId alert) then (Inl (NotFound ''Fraud alert is not linked to a user''), st)
          else (case blockUserForFraud (the (fa_userId alert)) alertId actorId
                  (if truthy reason then sanitizeText nfkc (the reason)
                   else ''User blocked from fraud investigation workflow.'') st of
                  (Inl e, st1) \<Rightarrow> (Inl e, st1)
                | (Inr _, st1) \<Rightarrow> (ensureAlertExists alertId st1, st1)))"

definition runUserScan ::
  "string list \<Rightarrow> alert_ids \<Rightarrow> string \<Rightarrow> string option \<Rightarrow> time \<Rightarrow> account_state \<Rightarrow> (fraud_alert list, account_state) outcome" where
  "runUserScan recipients ids userId actorId now st =
     (case find_user userId st of
        None \<Rightarrow> (Inl (NotFound ''User not found''), st)
      | Some user \<Rightarrow>
          (case evaluateFailedLogin recipients ids (us_email user) now st of
             (Inl e, st1) \<Rightarrow> (Inl e, st1)
           | (Inr failed, st1) \<Rightarrow>
               (case evaluateSuccessfulLogin recipients ids userId None None now st1 of
                  (Inl e, st2) \<Rightarrow> (Inl e, st2)
                | (Inr as, st2) \<Rightarrow>
                    (Inr ((case failed of None \<Rightarrow> [] | Some a \<Rightarrow> [a]) @ as),
                     if truthy actorId then log_activity (the actorId) ''FRAUD_USER_SCAN_TRIGGERED'' ''USER'' userId st2
                     else st2))))"

definition runPropertyScan ::
  "string list \<Rightarrow> alert_ids \<Rightarrow> fraud_property list \<Rightarrow> string \<Rightarrow> string option \<Rightarrow> time \<Rightarrow> account_state \<Rightarrow>
   (fraud_alert list, account_state) outcome" where
  "runPropertyScan recipients ids properties propertyId actorId now st =
     (case evaluatePropertyCreated recipients ids properties propertyId now st of
        (Inl e, st1) \<Rightarrow> (Inl e, st1)
      | (Inr as, st1) \<Rightarrow>
          (Inr as, if truthy actorId
             then log_activity (the actorId) ''FRAUD_PROPERTY_SCAN_TRIGGERED'' ''PROPERTY'' propertyId st1 else st1))"

subsection \<open>Facts about alerts\<close>

lemma deliver_frame [simp]:
  "as_alerts (deliverMultiChannelNotifications r a e p st) = as_alerts st"
  "find_user u (deliverMultiChannelNotifications r a e p st) = find_user u st"
  "ss_sessions (deliverMultiChannelNotifications r a e p st) = ss_sessions st"
  "ss_blacklist (deliverMultiChannelNotifications r a e p st) = ss_blacklist st"
  by (simp_all add: deliverMultiChannelNotifications_def notifySecurityTeam_def find_user_def Let_def split: option.split)

lemma block_ok:
  assumes "find_user u st = Some user"
  obtains st' where "blockUserForFraud u i b c st = (Inr (), st')"
    "find_user u st' = Some (user\<lparr>us_isBlocked := True\<rparr>)"
    "as_alerts st' = tbl_update fa_id i (\<lambda>a. a\<lparr>fa_autoBlocked := True\<rparr>) (as_alerts st)"
    "ss_sessions st' = ss_sessions st" "ss_blacklist st' = ss_blacklist st"
proof -
  have "fst (blockUserForFraud u i b c st) = Inr ()" "find_user u (snd (blockUserForFraud u i b c st)) = Some (user\<lparr>us_isBlocked := True\<rparr>)"
    "as_alerts (snd (blockUserForFraud u i b c st)) = tbl_update fa_id i (\<lambda>a. a\<lparr>fa_autoBlocked := True\<rparr>) (as_alerts st)"
    "ss_sessions (snd (blockUserForFraud u i b c st)) = ss_sessions st"
    "ss_blacklist (snd (blockUserForFraud u i b c st)) = ss_blacklist st"
    using assms find_update_user [of "\<lambda>u. u\<lparr>us_isBlocked := True\<rparr>" u u st]
    by (simp_all add: blockUserForFraud_def Let_def find_user_def log_activity_def)
  then show thesis by (metis that prod.collapse)
qed

lemma findOpenAlert_None_iff:
  "findOpenAlert p st = None \<longleftrightarrow>
     (\<forall>a \<in> set (as_alerts st). \<not> (fa_pattern a = ap_pattern p \<and> same_subject p a \<and> open_alert a))"
  by (auto simp: findOpenAlert_def find_None_iff)

lemma find_SomeD: "List.find P xs = Some x \<Longrightarrow> x \<in> set xs \<and> P x"
  by (induction xs) (auto split: if_splits)

lemma findOpenAlert_SomeD:
  "findOpenAlert p st = Some a \<Longrightarrow> a \<in> set (as_alerts st) \<and> fa_pattern a = ap_pattern p \<and> same_subject p a \<and> open_alert a"
  unfolding findOpenAlert_def by (drule find_SomeD) simp

lemma same_subject_cong:
  "fa_userId b = fa_userId a \<Longrightarrow> fa_propertyId b = fa_propertyId a \<Longrightarrow> fa_transactionId b = fa_transactionId a \<Longrightarrow>
   fa_sessionId b = fa_sessionId a \<Longrightarrow> same_subject p b = same_subject p a"
  by (simp add: same_subject_def)

lemma new_alert_matches: "fa_pattern (new_alert i p now) = ap_pattern p \<and> same_subject p (new_alert i p now) \<and> open_alert (new_alert i p now)"
  by (auto simp: new_alert_def same_subject_def open_alert_def split: option.splits)

lemma same_subject_updates [simp]:
  "same_subject p (a\<lparr>fa_autoBlocked := b\<rparr>) = same_subject p a" "same_subject p (repeat_alert q now a) = same_subject p a"
  by (simp_all add: same_subject_def repeat_alert_def)

lemma open_alert_updates [simp]:
  "open_alert (a\<lparr>fa_autoBlocked := b\<rparr>) = open_alert a" "open_alert (repeat_alert q now a) = open_alert a"
  "fa_pattern (repeat_alert q now a) = fa_pattern a" "fa_id (repeat_alert q now a) = fa_id a"
  by (simp_all add: open_alert_def repeat_alert_def)

lemma createOrUpdate_found:
  assumes "findOpenAlert p st = Some a" and "ap_autoBlockUser p = False \<or> fa_autoBlocked a"
  obtains st' where "createOrUpdateAlert r ids p now st = (Inr (repeat_alert p now a), st')"
    "as_alerts st' = tbl_update fa_id (fa_id a) (repeat_alert p now) (as_alerts st)"
    "\<And>u. find_user u st' = find_user u st"
proof -
  let ?c = "createOrUpdateAlert r ids p now st"
  have "fst ?c = Inr (repeat_alert p now a)"
    "as_alerts (snd ?c) = tbl_update fa_id (fa_id a) (repeat_alert p now) (as_alerts st)"
    "find_user u (snd ?c) = find_user u st" for u
    using assms by (auto simp: createOrUpdateAlert_def Let_def) (simp_all add: find_user_def)
  then show thesis by (metis that prod.collapse)
qed

text \<open>A detection that blocks: the alert is new, or not yet marked as blocking.\<close>

lemma createOrUpdate_blocks:
  assumes "find_user u st = Some user" and "ap_userId p = Some u" and "u \<noteq> []" and "ap_autoBlockUser p"
    and "\<not> starts_with ''system-'' u"
    and "\<And>a. findOpenAlert p st = Some a \<Longrightarrow> \<not> fa_autoBlocked a"
  obtains a st' where "createOrUpdateAlert r ids p now st = (Inr a, st')"
    "find_user u st' = Some (user\<lparr>us_isBlocked := True\<rparr>)"
    "ss_sessions st' = ss_sessions st" "ss_blacklist st' = ss_blacklist st"
proof (cases "findOpenAlert p st")
  case None
  define created where "created = new_alert (ids (ap_pattern p)) p now"
  define st3 where "st3 = deliverMultiChannelNotifications r created (Option.bind (ap_userId p) (\<lambda>u. map_option us_email (find_user u st))) p
     (log_activity u ''FRAUD_ALERT_CREATED'' (if truthy (ap_propertyId p) then ''PROPERTY''
        else if truthy (ap_transactionId p) then ''TRANSACTION'' else ''USER'')
        (case ap_propertyId p of Some i \<Rightarrow> i | None \<Rightarrow> case ap_transactionId p of Some i \<Rightarrow> i | None \<Rightarrow> the (ap_userId p))
        (st\<lparr>as_alerts := tbl_create created (as_alerts st)\<rparr>))"
  have "find_user u st3 = Some user" "ss_sessions st3 = ss_sessions st" "ss_blacklist st3 = ss_blacklist st"
    using assms(1) by (simp_all add: st3_def) (simp add: find_user_def)
  moreover from this obtain st' where "blockUserForFraud u (fa_id created) u
        ''Automatically blocked by the fraud detection engine.'' st3 = (Inr (), st')"
      "find_user u st' = Some (user\<lparr>us_isBlocked := True\<rparr>)" "ss_sessions st' = ss_sessions st3" "ss_blacklist st' = ss_blacklist st3"
    using block_ok by metis
  moreover have "createOrUpdateAlert r ids p now st = (case blockUserForFraud u (fa_id created) u
        ''Automatically blocked by the fraud detection engine.'' st3 of
        (Inl e, st4) \<Rightarrow> (Inl e, st4) | (Inr _, st4) \<Rightarrow> (Inr created, st4))"
    using None assms(1-4) unfolding createOrUpdateAlert_def Let_def created_def st3_def truthy_def
    by (simp split del: if_split)
  ultimately show thesis by (intro that [of created st']) simp_all
next
  case (Some a)
  then have a: "\<not> fa_autoBlocked a" "fa_userId a = Some u"
    using assms(2,6) findOpenAlert_SomeD [OF Some] by (auto simp: same_subject_def Let_def)
  define st2 where "st2 = (let st1 = st\<lparr>as_alerts := tbl_update fa_id (fa_id a) (repeat_alert p now) (as_alerts st)\<rparr> in
      if severityRank (fa_severity a) < severityRank (ap_severity p) \<or> fa_occurrenceCount (repeat_alert p now a) mod 5 = 0
      then deliverMultiChannelNotifications r (repeat_alert p now a) None p st1 else st1)"
  have "find_user u st2 = Some user" "ss_sessions st2 = ss_sessions st" "ss_blacklist st2 = ss_blacklist st"
    using assms(1) by (auto simp: st2_def Let_def) (simp_all add: find_user_def)
  moreover from this obtain st' where "blockUserForFraud u (fa_id (repeat_alert p now a)) u
        ''Automatically blocked after repeated fraud detections.'' st2 = (Inr (), st')"
      "find_user u st' = Some (user\<lparr>us_isBlocked := True\<rparr>)" "ss_sessions st' = ss_sessions st2" "ss_blacklist st' = ss_blacklist st2"
    using block_ok by metis
  moreover have "createOrUpdateAlert r ids p now st = (case blockUserForFraud u (fa_id (repeat_alert p now a)) u
        ''Automatically blocked after repeated fraud detections.'' st2 of
        (Inl e, st3) \<Rightarrow> (Inl e, st3) | (Inr _, st3) \<Rightarrow> (Inr (repeat_alert p now a), st3))"
    using Some a assms(2-5) by (simp add: createOrUpdateAlert_def Let_def st2_def truthy_def)
  ultimately show thesis by (intro that [of "repeat_alert p now a" st']) simp_all
qed

lemma repeat_alert_floor:
  "severityRank (ap_severity p) \<le> severityRank (fa_severity (repeat_alert p now a)) \<and> ap_score p \<le> fa_score (repeat_alert p now a)"
  by (auto simp: repeat_alert_def)

definition matching :: "alert_payload \<Rightarrow> fraud_alert \<Rightarrow> bool" where
  "matching p a \<longleftrightarrow> fa_pattern a = ap_pattern p \<and> same_subject p a \<and> open_alert a"

lemma matching_simps [simp]:
  "matching p (a\<lparr>fa_autoBlocked := b\<rparr>) = matching p a" "matching p (repeat_alert q now a) = matching p a"
  "matching p (new_alert i p now)"
  using new_alert_matches [of i p now] by (simp_all add: matching_def)

lemma findOpenAlert_matching: "findOpenAlert p st \<noteq> None \<longleftrightarrow> (\<exists>a \<in> set (as_alerts st). matching p a)"
  by (auto simp: findOpenAlert_None_iff matching_def simp del: not_None_eq)

lemma matching_update:
  "\<exists>a \<in> set t. matching p a \<Longrightarrow> (\<And>a. matching p (f a) = matching p a) \<Longrightarrow> \<exists>a \<in> set (tbl_update fa_id i f t). matching p a"
  by (induction t) (auto simp: tbl_update_def)

lemma createOrUpdate_result:
  assumes "createOrUpdateAlert r ids p now st = (Inr a, st')"
  shows "severityRank (ap_severity p) \<le> severityRank (fa_severity a) \<and> ap_score p \<le> fa_score a"
    and "findOpenAlert p st' \<noteq> None"
    and "findOpenAlert p st \<noteq> None \<Longrightarrow> length (as_alerts st') = length (as_alerts st)"
proof -
  have block: "as_alerts s' = tbl_update fa_id i (\<lambda>a. a\<lparr>fa_autoBlocked := True\<rparr>) (as_alerts s)"
    if "blockUserForFraud u i b c s = (Inr x, s')" for u i b c s s' x
    using that by (auto simp: blockUserForFraud_def Let_def log_activity_def split: if_splits)
  consider (found) b where "findOpenAlert p st = Some b" "a = repeat_alert p now b"
      "as_alerts st' = tbl_update fa_id (fa_id b) (repeat_alert p now) (as_alerts st)
       \<or> as_alerts st' = tbl_update fa_id (fa_id b) (\<lambda>a. a\<lparr>fa_autoBlocked := True\<rparr>)
            (tbl_update fa_id (fa_id b) (repeat_alert p now) (as_alerts st))"
    | (fresh) "findOpenAlert p st = None" "a = new_alert (ids (ap_pattern p)) p now"
      "as_alerts st' = tbl_create a (as_alerts st)
       \<or> as_alerts st' = tbl_update fa_id (fa_id a) (\<lambda>a. a\<lparr>fa_autoBlocked := True\<rparr>) (tbl_create a (as_alerts st))"
  proof (cases "findOpenAlert p st")
    case None
    then have "a = new_alert (ids (ap_pattern p)) p now \<and> (as_alerts st' = tbl_create a (as_alerts st)
       \<or> as_alerts st' = tbl_update fa_id (fa_id a) (\<lambda>a. a\<lparr>fa_autoBlocked := True\<rparr>) (tbl_create a (as_alerts st)))"
      using assms unfolding createOrUpdateAlert_def Let_def
      by (auto dest!: block split: if_splits prod.splits sum.splits option.splits)
    then show thesis using fresh None by blast
  next
    case (Some b)
    then have "a = repeat_alert p now b \<and> (as_alerts st' = tbl_update fa_id (fa_id b) (repeat_alert p now) (as_alerts st)
       \<or> as_alerts st' = tbl_update fa_id (fa_id b) (\<lambda>a. a\<lparr>fa_autoBlocked := True\<rparr>)
            (tbl_update fa_id (fa_id b) (repeat_alert p now) (as_alerts st)))"
      using assms unfolding createOrUpdateAlert_def Let_def
      by (auto dest!: block split: if_splits prod.splits sum.splits)
    then show thesis using found Some by blast
  qed
  then have "(severityRank (ap_severity p) \<le> severityRank (fa_severity a) \<and> ap_score p \<le> fa_score a)
      \<and> (\<exists>a \<in> set (as_alerts st'). matching p a)
      \<and> (findOpenAlert p st \<noteq> None \<longrightarrow> length (as_alerts st') = length (as_alerts st))"
  proof cases
    case found
    have "\<exists>a \<in> set (as_alerts st). matching p a"
      using found(1) findOpenAlert_matching [of p st] by simp
    then have "\<exists>a \<in> set (as_alerts st'). matching p a"
      using found(3) by (auto intro!: matching_update simp del: bex_simps)
    then show ?thesis using found repeat_alert_floor [of p now b] by auto
  next
    case fresh
    have "\<exists>a \<in> set (tbl_create a (as_alerts st)). matching p a"
      by (simp add: fresh(2) tbl_create_def)
    then have "\<exists>a \<in> set (as_alerts st'). matching p a"
      using fresh(3) matching_update [of "tbl_create a (as_alerts st)" p "\<lambda>a. a\<lparr>fa_autoBlocked := True\<rparr>" "fa_id a"] by auto
    then show ?thesis using fresh by (simp add: new_alert_def)
  qed
  then show "severityRank (ap_severity p) \<le> severityRank (fa_severity a) \<and> ap_score p \<le> fa_score a"
    and "findOpenAlert p st' \<noteq> None"
    and "findOpenAlert p st \<noteq> None \<Longrightarrow> length (as_alerts st') = length (as_alerts st)"
    by (simp_all add: findOpenAlert_matching del: not_None_eq)
qed

lemma createOrUpdate_alerts_blocked:
  assumes "createOrUpdateAlert r ids p now st = (Inr a, st')" and "ap_autoBlockUser p"
    and "findOpenAlert p st = None" and "b \<in> set (as_alerts st')" and "matching p b"
  shows "fa_autoBlocked b"
proof -
  have old: "\<not> matching p c" if "c \<in> set (as_alerts st)" for c
    using assms(3) that by (auto simp: findOpenAlert_None_iff matching_def)
  have block: "as_alerts s' = tbl_update fa_id i (\<lambda>a. a\<lparr>fa_autoBlocked := True\<rparr>) (as_alerts s)"
    if "blockUserForFraud u i b c s = (Inr x, s')" for u i b c s s' x
    using that by (auto simp: blockUserForFraud_def Let_def log_activity_def split: if_splits)
  have "a = new_alert (ids (ap_pattern p)) p now \<and> (as_alerts st' = tbl_create a (as_alerts st)
       \<or> as_alerts st' = tbl_update fa_id (fa_id a) (\<lambda>a. a\<lparr>fa_autoBlocked := True\<rparr>) (tbl_create a (as_alerts st)))"
    using assms(1,3) unfolding createOrUpdateAlert_def Let_def
    by (auto dest!: block split: if_splits prod.splits sum.splits option.splits)
  moreover have "fa_autoBlocked (new_alert i p now)" for i using assms(2) by (simp add: new_alert_def)
  ultimately show ?thesis
    using assms(4,5) old by (auto simp: tbl_update_def tbl_create_def split: if_splits)
qed

lemma matching_cong_alerts:
  "as_alerts s = as_alerts s' \<Longrightarrow> findOpenAlert p s = findOpenAlert p s'"
  by (simp add: findOpenAlert_def)

lemma reuse_blocks:
  assumes "find_user u st = Some user" and "u \<noteq> []" and "\<not> starts_with ''system-'' u"
    and "\<And>a. a \<in> set (as_alerts st) \<Longrightarrow> fa_pattern a = TOKEN_REUSE \<Longrightarrow> fa_userId a = Some u \<Longrightarrow> open_alert a \<Longrightarrow>
      \<not> fa_autoBlocked a"
  shows "\<exists>a st'. Fraud_handleTokenReuse recipients ids u jti now st = (Inr a, st')
    \<and> find_user u st' = Some (user\<lparr>us_isBlocked := True\<rparr>)"
proof -
  define sid where "sid = map_option se_id (List.find (\<lambda>s. se_refreshTokenJti s = Some jti \<or> se_accessTokenJti s = jti)
    (tbl_desc se_createdAt (ss_sessions st)))"
  have p: "ap_userId (reuse_payload u sid) = Some u" "ap_autoBlockUser (reuse_payload u sid)"
    "ap_pattern (reuse_payload u sid) = TOKEN_REUSE" by (simp_all add: reuse_payload_def)
  have "\<not> fa_autoBlocked a" if "findOpenAlert (reuse_payload u sid) st = Some a" for a
    using findOpenAlert_SomeD [OF that] assms(4) [of a] p by (auto simp: same_subject_def Let_def)
  then obtain a st' where "createOrUpdateAlert recipients ids (reuse_payload u sid) now st = (Inr a, st')"
      "find_user u st' = Some (user\<lparr>us_isBlocked := True\<rparr>)"
    using createOrUpdate_blocks [OF assms(1) p(1) assms(2) p(2) assms(3)] by metis
  then show ?thesis by (simp add: Fraud_handleTokenReuse_def sid_def Let_def)
qed


definition example_user :: user where
  "example_user = (blank_user ''u1'' ''ann@example.org'' 0)\<lparr>us_password := Some ''hash'', us_isVerified := True\<rparr>"

definition example_account_state :: account_state where
  "example_account_state = \<lparr>ss_sessions = [], ss_blacklist = [], as_users = [example_user], as_devices = [], as_attempts = [],
     as_logins = [], as_passwords = [], as_resets = [], as_alerts = [], as_notes = [], as_activity = [], as_notices = [],
     as_registrationIps = []\<rparr>"

lemma example_account_find: "find_user ''u1'' example_account_state = Some example_user"
  by (simp add: find_user_def tbl_find_def example_account_state_def example_user_def)

lemma example_reuse_twice:
  "map_prod (\<lambda>r. case r of Inl _ \<Rightarrow> False | Inr _ \<Rightarrow> True) (\<lambda>_. ())
     (createOrUpdateAlert [] (\<lambda>_. ''a2'') (reuse_payload ''u1'' None) 5
        (snd (createOrUpdateAlert [] (\<lambda>_. ''a1'') (reuse_payload ''u1'' None) 0 example_account_state))) = (True, ())"
  "map_prod (\<lambda>r. case r of Inl _ \<Rightarrow> False | Inr _ \<Rightarrow> True) (\<lambda>_. ())
     (createOrUpdateAlert [] (\<lambda>_. ''a1'') (reuse_payload ''u1'' None) 0 example_account_state) = (True, ())"
  by code_simp+


text \<open>The automatic block is applied once per open alert: when an administrator lifts the block of an account
  without closing its reuse alert, further reuse of the same token is recorded but no longer blocks.\<close>

theorem reuse_blocks_only_once:
  assumes "find_user u st = Some user" and "u \<noteq> []" and "\<not> starts_with ''system-'' u"
    and "\<And>a. a \<in> set (as_alerts st) \<Longrightarrow> fa_pattern a = TOKEN_REUSE \<Longrightarrow> fa_userId a = Some u \<Longrightarrow> \<not> open_alert a"
    and "st1 = update_user u (\<lambda>r. r\<lparr>us_isBlocked := False\<rparr>) (snd (Fraud_handleTokenReuse recipients ids u jti now st))"
  shows "\<exists>a st2. Fraud_handleTokenReuse recipients ids u jti now' st1 = (Inr a, st2)
    \<and> find_user u st2 = Some (user\<lparr>us_isBlocked := False\<rparr>)"
proof -
  define sid where "sid = map_option se_id (List.find (\<lambda>s. se_refreshTokenJti s = Some jti \<or> se_accessTokenJti s = jti)
    (tbl_desc se_createdAt (ss_sessions st)))"
  let ?p = "reuse_payload u sid"
  have p: "ap_userId ?p = Some u" "ap_autoBlockUser ?p" "ap_pattern ?p = TOKEN_REUSE"
    by (simp_all add: reuse_payload_def)
  have none: "findOpenAlert ?p st = None"
    using assms(4) p by (auto simp: findOpenAlert_None_iff same_subject_def Let_def)
  obtain a st' where a: "createOrUpdateAlert recipients ids ?p now st = (Inr a, st')"
      "find_user u st' = Some (user\<lparr>us_isBlocked := True\<rparr>)" "ss_sessions st' = ss_sessions st"
    using createOrUpdate_blocks [OF assms(1) p(1) assms(2) p(2) assms(3), of recipients ids now]
    by (metis none option.distinct(1))
  have first: "Fraud_handleTokenReuse recipients ids u jti now st = (Inr a, st')"
    by (simp add: Fraud_handleTokenReuse_def sid_def [symmetric] a(1))
  have st1: "st1 = update_user u (\<lambda>r. r\<lparr>us_isBlocked := False\<rparr>) st'" by (simp add: assms(5) first)
  have u1: "find_user u st1 = Some (user\<lparr>us_isBlocked := False\<rparr>)"
    by (simp add: st1 find_update_user a(2))
  have "findOpenAlert ?p st1 = findOpenAlert ?p st'" by (rule matching_cong_alerts) (simp add: st1)
  then obtain b where b: "findOpenAlert ?p st1 = Some b" and bm: "b \<in> set (as_alerts st')" "matching ?p b"
  proof -
    obtain b where "findOpenAlert ?p st' = Some b" using createOrUpdate_result(2) [OF a(1)] by blast
    then show thesis
      using that [of b] findOpenAlert_SomeD [of ?p st' b] \<open>findOpenAlert ?p st1 = findOpenAlert ?p st'\<close>
      by (simp add: matching_def)
  qed
  have "fa_autoBlocked b" by (rule createOrUpdate_alerts_blocked [OF a(1) p(2) none bm])
  then obtain st2 where "createOrUpdateAlert recipients ids ?p now' st1 = (Inr (repeat_alert ?p now' b), st2)"
      "find_user u st2 = find_user u st1"
    using createOrUpdate_found [OF b] by metis
  then show ?thesis
    using u1 by (simp add: Fraud_handleTokenReuse_def st1 a(3) sid_def [symmetric])
qed

theorem reuse_blocks_only_once_witness:
  "\<exists>st1 a st2. find_user ''u1'' (snd (Fraud_handleTokenReuse [] (\<lambda>_. ''a1'') ''u1'' ''j'' 0 example_account_state)) \<noteq> None
    \<and> Fraud_handleTokenReuse [] (\<lambda>_. ''a1'') ''u1'' ''j'' 9 st1 = (Inr a, st2)
    \<and> find_user ''u1'' st2 = Some (example_user\<lparr>us_isBlocked := False\<rparr>)"
proof -
  let ?st = "snd (Fraud_handleTokenReuse [] (\<lambda>_. ''a1'') ''u1'' ''j'' 0 example_account_state)"
  have "find_user ''u1'' ?st \<noteq> None" by code_simp
  moreover obtain a st2 where "Fraud_handleTokenReuse [] (\<lambda>_. ''a1'') ''u1'' ''j'' 9
        (update_user ''u1'' (\<lambda>r. r\<lparr>us_isBlocked := False\<rparr>) ?st) = (Inr a, st2)"
      "find_user ''u1'' st2 = Some (example_user\<lparr>us_isBlocked := False\<rparr>)"
    using reuse_blocks_only_once [OF example_account_find, of _ "[]" "\<lambda>_. ''a1''" "''j''" 0 9]
    by (auto simp: starts_with_def example_account_state_def)
  ultimately show ?thesis by blast
qed

text \<open>Detections of one kind about one subject are one alert: repeating a detection adds no row while the alert
  is open, and the alert it updates is at least as severe, and scored at least as high, as the detection.\<close>

theorem repeated_detection_merges:
  assumes "createOrUpdateAlert recipients ids p now st = (Inr a, st1)"
    and "as_alerts st1' = as_alerts st1"
    and "createOrUpdateAlert recipients' ids' p now' st1' = (Inr b, st2)"
  shows "length (as_alerts st2) = length (as_alerts st1)
    \<and> severityRank (ap_severity p) \<le> severityRank (fa_severity b) \<and> ap_score p \<le> fa_score b"
proof -
  have "findOpenAlert p st1' \<noteq> None"
    using createOrUpdate_result(2) [OF assms(1)] matching_cong_alerts [OF assms(2)] by simp
  then show ?thesis using createOrUpdate_result [OF assms(3)] assms(2) by simp
qed

theorem repeated_detection_merges_witness:
  "\<exists>a st1 b st2. createOrUpdateAlert [] (\<lambda>_. ''a1'') (reuse_payload ''u1'' None) 0 example_account_state = (Inr a, st1)
    \<and> createOrUpdateAlert [] (\<lambda>_. ''a2'') (reuse_payload ''u1'' None) 5 st1 = (Inr b, st2)
    \<and> length (as_alerts st2) = length (as_alerts st1)"
proof -
  obtain a st1 where 1: "createOrUpdateAlert [] (\<lambda>_. ''a1'') (reuse_payload ''u1'' None) 0 example_account_state = (Inr a, st1)"
    using example_reuse_twice(2) by (auto simp: map_prod_def split: prod.splits sum.splits)
  obtain b st2 where 2: "createOrUpdateAlert [] (\<lambda>_. ''a2'') (reuse_payload ''u1'' None) 5 st1 = (Inr b, st2)"
    using example_reuse_twice(1) by (auto simp: 1 map_prod_def split: prod.splits sum.splits)
  show ?thesis using repeated_detection_merges [OF 1 refl 2] 1 2 by blast
qed

end
