(* ===== verification/Auth_Tokens.thy ===== *)
theory Auth_Tokens
  imports Fraud
begin

text \<open>
  Tokens: the part of \<open>src/auth/auth.service.ts\<close> that signs, refreshes, revokes and checks access and refresh
  tokens (\<open>issueTokenPair\<close>, \<open>refreshToken\<close>, \<open>handleTokenReuse\<close>, \<open>logout\<close>, \<open>logoutAllDevices\<close>, \<open>validateAccessToken\<close>,
  \<open>blacklistToken\<close>), its constructor, and \<open>parseDuration\<close> of \<open>security.utils.ts\<close>.

  The \<open>jsonwebtoken\<close> package is an argument, \<open>'tok jwt_lib\<close>; what the code relies on is \<open>jwt_library\<close>, its
  documented behaviour: a signed token verifies with its secret until its expiry, and what a token carries
  does not change.  Identifiers are arguments.  Callers of authenticated routes have a user row.
\<close>

subsection \<open>Tokens and configuration\<close>

datatype jwt_type = Jwt_access | Jwt_refresh

record jwt_payload =
  jp_sub :: string
  jp_email :: string
  jp_role :: string
  jp_tier :: string
  jp_type :: jwt_type
  jp_jti :: string
  jp_family :: "string option"

text \<open>\<open>jl_sign payload secret expiresIn now\<close> and \<open>jl_verify token secret now\<close>, which gives the payload and its
  \<open>exp\<close> in seconds, or fails.\<close>

record 'tok jwt_lib =
  jl_sign :: "jwt_payload \<Rightarrow> string \<Rightarrow> int \<Rightarrow> time \<Rightarrow> 'tok"
  jl_verify :: "'tok \<Rightarrow> string \<Rightarrow> time \<Rightarrow> (jwt_payload \<times> int option) option"

definition jwt_library :: "'tok jwt_lib \<Rightarrow> bool" where
  "jwt_library J \<longleftrightarrow>
     (\<forall>p s ttl t t'. jl_verify J (jl_sign J p s ttl t) s t' =
        (if t' div 1000 < t div 1000 + ttl then Some (p, Some (t div 1000 + ttl)) else None))
     \<and> (\<forall>tok s t p e. jl_verify J tok s t = Some (p, Some e) \<longrightarrow> t div 1000 < e)
     \<and> (\<forall>tok s t t' x y. jl_verify J tok s t = Some x \<and> jl_verify J tok s t' = Some y \<longrightarrow> x = y)"

lemma jwt_signed:
  "jwt_library J \<Longrightarrow> jl_verify J (jl_sign J p s ttl t) s t' =
     (if t' div 1000 < t div 1000 + ttl then Some (p, Some (t div 1000 + ttl)) else None)"
  unfolding jwt_library_def by (elim conjE) (erule allE)+

lemma jwt_not_expired: "jwt_library J \<Longrightarrow> jl_verify J tok s t = Some (p, Some e) \<Longrightarrow> t div 1000 < e"
  unfolding jwt_library_def by (elim conjE) metis

lemma jwt_constant:
  "jwt_library J \<Longrightarrow> jl_verify J tok s t = Some x \<Longrightarrow> jl_verify J tok s t' = Some y \<Longrightarrow> x = y"
  unfolding jwt_library_def by (elim conjE) metis

lemma seconds_before: "(t :: int) div 1000 < e \<Longrightarrow> t < e * 1000"
  using div_mult_mod_eq [of t 1000] pos_mod_bound [of 1000 t] by linarith

text \<open>Durations such as \<open>15m\<close> in seconds.  A value that is a number but no integer is outside the model.\<close>

definition parseDuration :: "string option \<Rightarrow> int \<Rightarrow> int" where
  "parseDuration input fallbackSeconds =
     (case input of None \<Rightarrow> fallbackSeconds
      | Some i \<Rightarrow>
          (let value = js_trim i in
           if value = [] then fallbackSeconds
           else (let amount = butlast value;
                     unit = lower_char (last value);
                     multiplier = map_of [(CHR ''s'', 1), (CHR ''m'', 60), (CHR ''h'', 60 * 60), (CHR ''d'', 60 * 60 * 24)] unit
                 in case multiplier of
                      Some k \<Rightarrow> if amount \<noteq> [] \<and> list_all is_digit amount then int (nat_of_digits amount) * k
                               else (case js_number_integer value of
                                       Some n \<Rightarrow> if 0 < n then n else fallbackSeconds | None \<Rightarrow> fallbackSeconds)
                    | None \<Rightarrow> (case js_number_integer value of
                                 Some n \<Rightarrow> if 0 < n then n else fallbackSeconds | None \<Rightarrow> fallbackSeconds))))"

record auth_config =
  cf_jwtSecret :: string
  cf_jwtRefreshSecret :: string
  cf_accessTokenTtlSeconds :: int
  cf_refreshTokenTtlSeconds :: int
  cf_env :: "string \<Rightarrow> string option"

definition MIN_JWT_SECRET_LENGTH :: nat where "MIN_JWT_SECRET_LENGTH = 32"

text \<open>The constructor; \<open>Inl\<close> is the error that stops the start of the server.\<close>

definition AuthService_new :: "(string \<Rightarrow> string option) \<Rightarrow> string + auth_config" where
  "AuthService_new env =
     (let strong = (\<lambda>v. case v of Some s \<Rightarrow> s \<noteq> [] \<and> MIN_JWT_SECRET_LENGTH \<le> length s | None \<Rightarrow> False)
      in if \<not> strong (env ''JWT_SECRET'')
         then Inl ''JWT_SECRET must be set and at least 32 characters (256 bits) long''
         else if \<not> strong (env ''JWT_REFRESH_SECRET'')
         then Inl ''JWT_REFRESH_SECRET must be set and at least 32 characters (256 bits) long''
         else Inr \<lparr>cf_jwtSecret = the (env ''JWT_SECRET''), cf_jwtRefreshSecret = the (env ''JWT_REFRESH_SECRET''),
           cf_accessTokenTtlSeconds = parseDuration (case env ''JWT_ACCESS_EXPIRES_IN'' of None \<Rightarrow> Some ''15m'' | v \<Rightarrow> v) (15 * 60),
           cf_refreshTokenTtlSeconds = parseDuration (case env ''JWT_REFRESH_EXPIRES_IN'' of None \<Rightarrow> Some ''7d'' | v \<Rightarrow> v) (7 * 24 * 60 * 60),
           cf_env = env\<rparr>)"

subsection \<open>Signing and checking\<close>

record issue_ids =
  ii_accessJti :: string
  ii_refreshJti :: string
  ii_family :: string
  ii_sessionId :: string

record 'tok token_pair =
  tp_accessToken :: 'tok
  tp_refreshToken :: 'tok
  tp_accessTokenExpiresIn :: int
  tp_refreshTokenExpiresIn :: int

definition token_payload :: "user \<Rightarrow> jwt_type \<Rightarrow> string \<Rightarrow> string \<Rightarrow> jwt_payload" where
  "token_payload user ty jti family =
     \<lparr>jp_sub = tu_id user, jp_email = us_email user, jp_role = us_role user, jp_tier = us_tier user,
      jp_type = ty, jp_jti = jti, jp_family = Some family\<rparr>"

definition issueTokenPair ::
  "'tok jwt_lib \<Rightarrow> auth_config \<Rightarrow> issue_ids \<Rightarrow> user \<Rightarrow> string option \<Rightarrow> string option \<Rightarrow> string option \<Rightarrow> time \<Rightarrow>
   account_state \<Rightarrow> ('tok token_pair, account_state) outcome" where
  "issueTokenPair J cfg ids user tokenFamily ipAddress userAgent now st =
     (let family = (if truthy tokenFamily then the tokenFamily else ii_family ids);
          accessToken = jl_sign J (token_payload user Jwt_access (ii_accessJti ids) family) (cf_jwtSecret cfg)
            (cf_accessTokenTtlSeconds cfg) now;
          refreshToken = jl_sign J (token_payload user Jwt_refresh (ii_refreshJti ids) family) (cf_jwtRefreshSecret cfg)
            (cf_refreshTokenTtlSeconds cfg) now
      in case createSession (cf_env cfg ''MAX_CONCURRENT_SESSIONS'') (ii_sessionId ids) (tu_id user) (ii_accessJti ids)
                (ii_refreshJti ids) ipAddress userAgent (cf_refreshTokenTtlSeconds cfg) now st of
           (Inl e, st') \<Rightarrow> (Inl e, st')
         | (Inr _, st') \<Rightarrow>
             (Inr \<lparr>tp_accessToken = accessToken, tp_refreshToken = refreshToken,
                tp_accessTokenExpiresIn = cf_accessTokenTtlSeconds cfg,
                tp_refreshTokenExpiresIn = cf_refreshTokenTtlSeconds cfg\<rparr>, st'))"

definition verifyToken :: "'tok jwt_lib \<Rightarrow> 'tok \<Rightarrow> string \<Rightarrow> time \<Rightarrow> (jwt_payload \<times> int option) result" where
  "verifyToken J token secret now =
     (case jl_verify J token secret now of None \<Rightarrow> Inl (Unauthorized ''Invalid or expired token'') | Some p \<Rightarrow> Inr p)"

definition ensureTokenNotBlacklisted :: "string \<Rightarrow> 'a session_state_scheme \<Rightarrow> unit result" where
  "ensureTokenNotBlacklisted jti st =
     (if tbl_find bl_jti jti (ss_blacklist st) = None then Inr () else Inl (Unauthorized ''Token has been revoked''))"

record blacklist_data =
  bd_jti :: string
  bd_tokenType :: token_type
  bd_expiresAt :: time
  bd_userId :: "string option"
  bd_tokenFamily :: "string option"
  bd_ipAddress :: "string option"
  bd_userAgent :: "string option"

text \<open>\<open>upsert\<close>: an absent field leaves the column of an existing row as it is.\<close>

definition blacklistToken :: "blacklist_data \<Rightarrow> account_state \<Rightarrow> account_state" where
  "blacklistToken d st =
     (let keep = (\<lambda>new old. case new of None \<Rightarrow> old | Some v \<Rightarrow> Some v)
      in st\<lparr>ss_blacklist :=
           (if tbl_find bl_jti (bd_jti d) (ss_blacklist st) \<noteq> None
            then tbl_update bl_jti (bd_jti d)
              (\<lambda>r. r\<lparr>bl_expiresAt := bd_expiresAt d, bl_tokenType := bd_tokenType d,
                 bl_userId := keep (bd_userId d) (bl_userId r), bl_tokenFamily := keep (bd_tokenFamily d) (bl_tokenFamily r),
                 bl_ipAddress := keep (bd_ipAddress d) (bl_ipAddress r),
                 bl_userAgent := keep (bd_userAgent d) (bl_userAgent r)\<rparr>) (ss_blacklist st)
            else tbl_create \<lparr>bl_jti = bd_jti d, bl_tokenType = bd_tokenType d, bl_expiresAt = bd_expiresAt d,
                 bl_userId = bd_userId d, bl_tokenFamily = bd_tokenFamily d, bl_previousJti = None,
                 bl_ipAddress = bd_ipAddress d, bl_userAgent = bd_userAgent d, bl_reusedAt = None\<rparr> (ss_blacklist st))\<rparr>)"

text \<open>\<open>new Date((payload.exp ?? 0) * 1000)\<close>.\<close>

definition expiry_date :: "int option \<Rightarrow> time" where
  "expiry_date ex = (case ex of None \<Rightarrow> 0 | Some e \<Rightarrow> e) * 1000"

subsection \<open>Rotation and reuse\<close>

definition handleTokenReuse ::
  "blacklisted_token \<Rightarrow> string \<Rightarrow> string option \<Rightarrow> string option \<Rightarrow> time \<Rightarrow> account_state \<Rightarrow> account_state" where
  "handleTokenReuse blacklistedToken reusedJti ipAddress userAgent now st =
     st\<lparr>ss_blacklist := tbl_update bl_jti reusedJti
       (\<lambda>r. r\<lparr>bl_reusedAt := Some now,
          bl_ipAddress := (if truthy ipAddress then ipAddress else bl_ipAddress blacklistedToken),
          bl_userAgent := (if truthy userAgent then userAgent else bl_userAgent blacklistedToken)\<rparr>) (ss_blacklist st)\<rparr>"

text \<open>What a request brings along, and what the environment supplies to it.\<close>

record request_env =
  re_ids :: issue_ids
  re_alertIds :: alert_ids
  re_recipients :: "string list"
  re_ipAddress :: "string option"
  re_userAgent :: "string option"

definition refreshToken ::
  "'tok jwt_lib \<Rightarrow> auth_config \<Rightarrow> request_env \<Rightarrow> 'tok \<Rightarrow> time \<Rightarrow> account_state \<Rightarrow>
   (user \<times> 'tok token_pair, account_state) outcome" where
  "refreshToken J cfg rq token now st =
     (case verifyToken J token (cf_jwtRefreshSecret cfg) now of
        Inl e \<Rightarrow> (Inl e, st)
      | Inr (payload, ex) \<Rightarrow>
          if jp_type payload \<noteq> Jwt_refresh then (Inl (Unauthorized ''Invalid refresh token''), st)
          else (case tbl_find bl_jti (jp_jti payload) (ss_blacklist st) of
            Some blacklistedToken \<Rightarrow>
              (let st1 = handleTokenReuse blacklistedToken (jp_jti payload) (re_ipAddress rq) (re_userAgent rq) now st
               in case Fraud_handleTokenReuse (re_recipients rq) (re_alertIds rq) (jp_sub payload) (jp_jti payload) now st1 of
                    (Inl e, st2) \<Rightarrow> (Inl e, st2)
                  | (Inr _, st2) \<Rightarrow> (Inl (Unauthorized
                      ''Token reuse detected. All sessions have been invalidated for security. Please login again.''), st2))
          | None \<Rightarrow>
              (case find_user (jp_sub payload) st of
                 None \<Rightarrow> (Inl (Unauthorized ''User no longer exists''), st)
               | Some user \<Rightarrow>
                   if us_isBlocked user then (Inl (Unauthorized ''Your account has been blocked''), st)
                   else if us_isDeactivated user then (Inl (Unauthorized ''Your account has been deactivated''), st)
                   else (let st1 = blacklistToken
                           \<lparr>bd_jti = jp_jti payload, bd_tokenType = REFRESH, bd_expiresAt = expiry_date ex,
                            bd_userId = Some (tu_id user), bd_tokenFamily = jp_family payload,
                            bd_ipAddress = re_ipAddress rq, bd_userAgent = re_userAgent rq\<rparr> st
                         in case issueTokenPair J cfg (re_ids rq) user (jp_family payload) (re_ipAddress rq)
                                   (re_userAgent rq) now st1 of
                              (Inl e, st2) \<Rightarrow> (Inl e, st2)
                            | (Inr tokens, st2) \<Rightarrow> (Inr (user, tokens), st2)))))"

subsection \<open>Logging out and checking a token\<close>

text \<open>Blacklisting a token whose verification fails is logged and skipped.\<close>

definition blacklist_access ::
  "'tok jwt_lib \<Rightarrow> auth_config \<Rightarrow> string \<Rightarrow> bool \<Rightarrow> 'tok option \<Rightarrow> time \<Rightarrow> account_state \<Rightarrow> account_state" where
  "blacklist_access J cfg sub with_family accessToken now st =
     (case accessToken of None \<Rightarrow> st
      | Some tok \<Rightarrow>
          (case verifyToken J tok (cf_jwtSecret cfg) now of
             Inl _ \<Rightarrow> st
           | Inr (payload, ex) \<Rightarrow>
               blacklistToken \<lparr>bd_jti = jp_jti payload, bd_tokenType = ACCESS, bd_expiresAt = expiry_date ex,
                 bd_userId = Some sub, bd_tokenFamily = (if with_family then jp_family payload else None),
                 bd_ipAddress = None, bd_userAgent = None\<rparr> st))"

definition logout ::
  "'tok jwt_lib \<Rightarrow> auth_config \<Rightarrow> string \<Rightarrow> 'tok option \<Rightarrow> 'tok option \<Rightarrow> time \<Rightarrow> account_state \<Rightarrow>
   (unit, account_state) outcome" where
  "logout J cfg sub refreshTok accessToken now st =
     (let st1 = blacklist_access J cfg sub True accessToken now st
      in case refreshTok of
           None \<Rightarrow> (Inr (), st1)
         | Some tok \<Rightarrow>
             (case verifyToken J tok (cf_jwtRefreshSecret cfg) now of
                Inl e \<Rightarrow> (Inl e, st1)
              | Inr (payload, ex) \<Rightarrow>
                  if jp_sub payload \<noteq> sub
                  then (Inl (Unauthorized ''Refresh token does not belong to the current user''), st1)
                  else (Inr (), blacklistToken \<lparr>bd_jti = jp_jti payload, bd_tokenType = REFRESH,
                          bd_expiresAt = expiry_date ex, bd_userId = Some sub, bd_tokenFamily = jp_family payload,
                          bd_ipAddress = None, bd_userAgent = None\<rparr> st1)))"

definition logoutAllDevices ::
  "'tok jwt_lib \<Rightarrow> auth_config \<Rightarrow> string \<Rightarrow> 'tok option \<Rightarrow> time \<Rightarrow> account_state \<Rightarrow> nat \<times> account_state" where
  "logoutAllDevices J cfg sub accessToken now st =
     (let st1 = blacklist_access J cfg sub False accessToken now st;
          st2 = snd (revokeAllSessions sub None now st1)
      in (tbl_count (\<lambda>r. bl_userId r = Some sub \<and> bl_tokenType r = REFRESH \<and> now < bl_expiresAt r) (ss_blacklist st2), st2))"

record access_identity =
  ai_sub :: string
  ai_email :: string
  ai_role :: string
  ai_tier :: string
  ai_jti :: string

text \<open>The update of \<open>lastActivityAt\<close> is not awaited; \<open>touch_ok\<close> says whether it succeeds.\<close>

definition validateAccessToken ::
  "'tok jwt_lib \<Rightarrow> auth_config \<Rightarrow> bool \<Rightarrow> 'tok \<Rightarrow> time \<Rightarrow> account_state \<Rightarrow> (access_identity, account_state) outcome" where
  "validateAccessToken J cfg touch_ok token now st =
     (case verifyToken J token (cf_jwtSecret cfg) now of
        Inl e \<Rightarrow> (Inl e, st)
      | Inr (payload, _) \<Rightarrow>
          if jp_type payload \<noteq> Jwt_access then (Inl (Unauthorized ''Invalid access token''), st)
          else (case ensureTokenNotBlacklisted (jp_jti payload) st of
            Inl e \<Rightarrow> (Inl e, st)
          | Inr _ \<Rightarrow>
              (case find_user (jp_sub payload) st of
                 None \<Rightarrow> (Inl (Unauthorized ''User no longer exists''), st)
               | Some user \<Rightarrow>
                   (Inr \<lparr>ai_sub = jp_sub payload, ai_email = us_email user, ai_role = us_role user,
                      ai_tier = us_tier user, ai_jti = jp_jti payload\<rparr>,
                    if touch_ok \<and> (case us_lastActivityAt user of None \<Rightarrow> True | Some t \<Rightarrow> 5 * 60 * 1000 < now - t)
                    then update_user (jp_sub payload) (\<lambda>u. u\<lparr>us_lastActivityAt := Some now\<rparr>) st else st))))"

subsection \<open>Retention\<close>

text \<open>The daily clean-up of the blacklist, \<open>cleanBlacklistedTokens\<close> of \<open>src/database/cleanup.service.ts\<close>: batches of
  five hundred rows that expired before the cutoff, until a batch is not full; a batch has \<open>min bsize (tbl_count p t)\<close> rows.\<close>

definition BATCH_SIZE :: nat where "BATCH_SIZE = 500"

fun drop_matching :: "nat \<Rightarrow> ('r \<Rightarrow> bool) \<Rightarrow> 'r list \<Rightarrow> 'r list" where
  "drop_matching n p [] = []"
| "drop_matching n p (r # rs) =
     (if p r \<and> 0 < n then drop_matching (n - 1) p rs else r # drop_matching n p rs)"

lemma count_drop_matching: "tbl_count p (drop_matching n p t) = tbl_count p t - n"
  by (induction n p t rule: drop_matching.induct) (auto simp: tbl_count_def)

function cleanup_batches :: "nat \<Rightarrow> ('r \<Rightarrow> bool) \<Rightarrow> nat \<Rightarrow> 'r list \<Rightarrow> nat \<times> 'r list" where
  "cleanup_batches bsize p deleted t =
     (if min bsize (tbl_count p t) = 0 then (deleted, t)
      else if bsize \<le> tbl_count p t then cleanup_batches bsize p (deleted + bsize) (drop_matching bsize p t)
      else (deleted + tbl_count p t, drop_matching bsize p t))"
  by pat_completeness auto
termination
  by (relation "measure (\<lambda>(bsize, p, d, t). tbl_count p t)") (auto simp: count_drop_matching)

declare cleanup_batches.simps [simp del]

definition retention_days :: "string option \<Rightarrow> int \<Rightarrow> int option" where
  "retention_days env fallback = (case env of None \<Rightarrow> Some fallback | Some s \<Rightarrow> parse_int10 s)"

text \<open>A retention that is no number gives an invalid date, which the database refuses.\<close>

definition cleanBlacklistedTokens :: "string option \<Rightarrow> time \<Rightarrow> 'a session_state_scheme \<Rightarrow> (nat, 'a session_state_scheme) outcome" where
  "cleanBlacklistedTokens env now st =
     (case retention_days env 7 of
        None \<Rightarrow> (Inl (InternalError ''Invalid Date''), st)
      | Some days \<Rightarrow>
          (let cutoff = now - days * 24 * 60 * 60 * 1000;
               (deleted, t) = cleanup_batches BATCH_SIZE (\<lambda>r. bl_expiresAt r < cutoff) 0 (ss_blacklist st)
           in (Inr deleted, st\<lparr>ss_blacklist := t\<rparr>)))"

definition cleanExpiredSessions :: "string option \<Rightarrow> time \<Rightarrow> 'a session_state_scheme \<Rightarrow> (nat, 'a session_state_scheme) outcome" where
  "cleanExpiredSessions env now st =
     (case retention_days env 30 of
        None \<Rightarrow> (Inl (InternalError ''Invalid Date''), st)
      | Some days \<Rightarrow>
          (let cutoff = now - days * 24 * 60 * 60 * 1000;
               (deleted, t) = cleanup_batches BATCH_SIZE (\<lambda>s. se_expiresAt s < cutoff \<and> se_isRevoked s) 0 (ss_sessions st)
           in (Inr deleted, st\<lparr>ss_sessions := t\<rparr>)))"

lemma drop_matching_all: "tbl_count p t \<le> n \<Longrightarrow> drop_matching n p t = tbl_delete_many p t"
  by (induction n p t rule: drop_matching.induct) (auto simp: tbl_count_def tbl_delete_many_def)

lemma delete_drop_matching: "tbl_delete_many p (drop_matching n p t) = tbl_delete_many p t"
  by (induction n p t rule: drop_matching.induct) (auto simp: tbl_delete_many_def)

text \<open>The batches together delete exactly the matching rows.\<close>

lemma cleanup_batches_eq:
  "0 < bsize \<Longrightarrow> cleanup_batches bsize p d t = (d + tbl_count p t, tbl_delete_many p t)"
proof (induction bsize p d t rule: cleanup_batches.induct)
  case (1 bsize p d t)
  show ?case
  proof (cases "tbl_count p t = 0")
    case True
    then have "tbl_delete_many p t = t" by (simp add: tbl_delete_many_def tbl_count_zero_iff)
    with True show ?thesis by (simp add: cleanup_batches.simps)
  next
    case False
    show ?thesis
    proof (cases "bsize \<le> tbl_count p t")
      case True
      then have "cleanup_batches bsize p (d + bsize) (drop_matching bsize p t)
          = (d + bsize + tbl_count p (drop_matching bsize p t), tbl_delete_many p (drop_matching bsize p t))"
        using 1 False by (simp add: min_def)
      then show ?thesis using True False 1(2)
        by (simp add: cleanup_batches.simps [of bsize p d t] min_def count_drop_matching delete_drop_matching)
    qed (use False in \<open>simp add: cleanup_batches.simps [of bsize p d t] min_def drop_matching_all\<close>)
  qed
qed

subsection \<open>What the operations do to the tables\<close>

lemma block_frame [simp]:
  "ss_blacklist (snd (blockUserForFraud u i b c st)) = ss_blacklist st"
  "ss_sessions (snd (blockUserForFraud u i b c st)) = ss_sessions st"
  by (simp_all add: blockUserForFraud_def Let_def)

lemma createOrUpdate_frame [simp]:
  "ss_blacklist (snd (createOrUpdateAlert r ids p now st)) = ss_blacklist st"
  "ss_sessions (snd (createOrUpdateAlert r ids p now st)) = ss_sessions st"
proof -
  have *: "ss_blacklist (snd (case blockUserForFraud u i b c s of (Inl e, s') \<Rightarrow> (Inl e, s') | (Inr x, s') \<Rightarrow> (Inr a, s'))) = ss_blacklist s
    \<and> ss_sessions (snd (case blockUserForFraud u i b c s of (Inl e, s') \<Rightarrow> (Inl e, s') | (Inr x, s') \<Rightarrow> (Inr a, s'))) = ss_sessions s"
    for u i b c s and a :: fraud_alert
    using block_frame [of u i b c s] by (auto split: prod.split sum.split simp del: block_frame)
  show "ss_blacklist (snd (createOrUpdateAlert r ids p now st)) = ss_blacklist st"
    "ss_sessions (snd (createOrUpdateAlert r ids p now st)) = ss_sessions st"
    by (auto simp: createOrUpdateAlert_def Let_def * split: option.split)
qed

lemma reuse_frame [simp]:
  "ss_blacklist (snd (Fraud_handleTokenReuse r ids u j now st)) = ss_blacklist st"
  "ss_sessions (snd (Fraud_handleTokenReuse r ids u j now st)) = ss_sessions st"
  by (simp_all add: Fraud_handleTokenReuse_def Let_def)

lemma handleTokenReuse_frame [simp]:
  "ss_sessions (handleTokenReuse b j ip ua now st) = ss_sessions st"
  "find_user u (handleTokenReuse b j ip ua now st) = find_user u st"
  "as_alerts (handleTokenReuse b j ip ua now st) = as_alerts st"
  by (simp_all add: handleTokenReuse_def find_user_def)

lemma createSession_cases:
  "createSession lv i u a r ip ua ttl now st = (res, st') \<Longrightarrow>
     (\<exists>m. res = Inl (Conflict m) \<and> st' = st)
     \<or> res = Inr (new_session i u a r ip ua ttl now)
       \<and> st' = st\<lparr>ss_sessions := ss_sessions st @ [new_session i u a r ip ua ttl now]\<rparr>"
  by (auto simp: createSession_def Let_def tbl_create_def split: if_splits)

lemma issueTokenPair_cases:
  assumes "issueTokenPair J cfg ids user fam ip ua now st = (res, st')"
  shows "(\<exists>m. res = Inl (Conflict m) \<and> st' = st)
     \<or> (\<exists>pair. res = Inr pair) \<and> st' = st\<lparr>ss_sessions := ss_sessions st @
         [new_session (ii_sessionId ids) (tu_id user) (ii_accessJti ids) (ii_refreshJti ids) ip ua (cf_refreshTokenTtlSeconds cfg) now]\<rparr>"
  using assms createSession_cases [of "cf_env cfg ''MAX_CONCURRENT_SESSIONS''" "ii_sessionId ids" "tu_id user"
      "ii_accessJti ids" "ii_refreshJti ids" ip ua "cf_refreshTokenTtlSeconds cfg" now st]
  by (cases "createSession (cf_env cfg ''MAX_CONCURRENT_SESSIONS'') (ii_sessionId ids) (tu_id user) (ii_accessJti ids)
      (ii_refreshJti ids) ip ua (cf_refreshTokenTtlSeconds cfg) now st")
    (auto simp: issueTokenPair_def Let_def split: sum.splits)

text \<open>At the session limit nothing is issued; below it a pair is.\<close>

lemma issueTokenPair_limit:
  assumes "maxConcurrentSessions (cf_env cfg ''MAX_CONCURRENT_SESSIONS'') = Some n"
  shows "(\<exists>m. fst (issueTokenPair J cfg ids user fam ip ua now st) = Inl (Conflict m))
    \<longleftrightarrow> n \<le> int (tbl_count (active_session (tu_id user) now) (ss_sessions st))"
  using assms by (auto simp: issueTokenPair_def createSession_def Let_def)

text \<open>A revoked identifier stays revoked under every operation on the blacklist but the clean-up.\<close>

definition kept :: "string \<Rightarrow> int \<Rightarrow> blacklisted_token list \<Rightarrow> bool" where
  "kept j e t \<longleftrightarrow> (\<exists>r \<in> set t. bl_jti r = j \<and> e * 1000 \<le> bl_expiresAt r)"

lemma kept_revoked: "kept j e (ss_blacklist st) \<Longrightarrow> revoked_jti j st"
  by (auto simp: kept_def revoked_jti_iff)

lemma kept_update:
  assumes "kept j e t" and "\<And>r. bl_jti (f r) = bl_jti r"
    and "\<And>r. k = j \<Longrightarrow> e * 1000 \<le> bl_expiresAt r \<Longrightarrow> e * 1000 \<le> bl_expiresAt (f r)"
  shows "kept j e (tbl_update bl_jti k f t)"
proof -
  obtain r where r: "r \<in> set t" "bl_jti r = j" "e * 1000 \<le> bl_expiresAt r" using assms(1) by (auto simp: kept_def)
  then have "(if bl_jti r = k then f r else r) \<in> set (tbl_update bl_jti k f t)" by (auto simp: tbl_update_def)
  moreover have "bl_jti (if bl_jti r = k then f r else r) = j \<and> e * 1000 \<le> bl_expiresAt (if bl_jti r = k then f r else r)"
    using r assms(2,3) by auto
  ultimately show ?thesis unfolding kept_def by blast
qed

lemma kept_append: "kept j e t \<Longrightarrow> kept j e (t @ u)"
  by (auto simp: kept_def)

lemma blacklistToken_keeps:
  assumes "kept j e (ss_blacklist st)" and "bd_jti d = j \<Longrightarrow> e * 1000 \<le> bd_expiresAt d"
  shows "kept j e (ss_blacklist (blacklistToken d st))"
  using assms unfolding blacklistToken_def Let_def by (auto simp: tbl_create_def intro: kept_update kept_append)

lemma blacklistToken_adds:
  assumes "e * 1000 \<le> bd_expiresAt d"
  shows "kept (bd_jti d) e (ss_blacklist (blacklistToken d st))"
proof (cases "tbl_find bl_jti (bd_jti d) (ss_blacklist st)")
  case None
  then show ?thesis using assms by (simp add: kept_def blacklistToken_def tbl_create_def)
next
  case (Some r)
  define f where "f = (\<lambda>r. r\<lparr>bl_expiresAt := bd_expiresAt d, bl_tokenType := bd_tokenType d,
      bl_userId := case bd_userId d of None \<Rightarrow> bl_userId r | Some v \<Rightarrow> Some v,
      bl_tokenFamily := case bd_tokenFamily d of None \<Rightarrow> bl_tokenFamily r | Some v \<Rightarrow> Some v,
      bl_ipAddress := case bd_ipAddress d of None \<Rightarrow> bl_ipAddress r | Some v \<Rightarrow> Some v,
      bl_userAgent := case bd_userAgent d of None \<Rightarrow> bl_userAgent r | Some v \<Rightarrow> Some v\<rparr> :: blacklisted_token)"
  from Some have r: "r \<in> set (ss_blacklist st)" "bl_jti r = bd_jti d" by (auto dest: tbl_find_Some)
  then have "f r \<in> set (tbl_update bl_jti (bd_jti d) f (ss_blacklist st))" by (force simp: tbl_update_def)
  moreover have "ss_blacklist (blacklistToken d st) = tbl_update bl_jti (bd_jti d) f (ss_blacklist st)"
    using Some by (simp add: blacklistToken_def f_def)
  moreover have "bl_jti (f r) = bd_jti d \<and> e * 1000 \<le> bl_expiresAt (f r)"
    using r assms by (simp add: f_def)
  ultimately show ?thesis unfolding kept_def by metis
qed

lemma blacklistToken_revoked: "revoked_jti (bd_jti d) (blacklistToken d st)"
proof -
  have "bd_expiresAt d div 1000 * 1000 \<le> bd_expiresAt d"
    using div_mult_mod_eq [of "bd_expiresAt d" 1000] pos_mod_sign [of 1000 "bd_expiresAt d"] by linarith
  then show ?thesis by (rule kept_revoked [OF blacklistToken_adds])
qed

lemma create_skipping_keeps: "kept j e t \<Longrightarrow> kept j e (create_skipping rows t)"
  unfolding create_skipping_def by (induction rows arbitrary: t) (auto simp: tbl_create_def intro: kept_append)

lemma revokeAllSessions_kept: "kept j e (ss_blacklist st) \<Longrightarrow> kept j e (ss_blacklist (snd (revokeAllSessions u x now st)))"
  by (simp add: revokeAllSessions_def Let_def create_skipping_keeps)

lemma refreshToken_kept:
  assumes "kept j e (ss_blacklist st)"
    and "\<And>p ex. jl_verify J tok (cf_jwtRefreshSecret cfg) now = Some (p, ex) \<Longrightarrow> jp_jti p = j \<Longrightarrow> ex = Some e"
  shows "kept j e (ss_blacklist (snd (refreshToken J cfg rq tok now st)))"
proof (cases "jl_verify J tok (cf_jwtRefreshSecret cfg) now")
  case None
  then show ?thesis using assms(1) by (simp add: refreshToken_def verifyToken_def)
next
  case (Some pe)
  obtain p ex where pe: "pe = (p, ex)" by (cases pe)
  define d where "d user = \<lparr>bd_jti = jp_jti p, bd_tokenType = REFRESH, bd_expiresAt = expiry_date ex,
      bd_userId = Some (tu_id user), bd_tokenFamily = jp_family p, bd_ipAddress = re_ipAddress rq,
      bd_userAgent = re_userAgent rq\<rparr>" for user :: user
  have black: "kept j e (ss_blacklist (blacklistToken (d user) st))" for user
    using assms(2) [of p ex] Some pe by (intro blacklistToken_keeps [OF assms(1)]) (auto simp: d_def expiry_date_def)
  have issue: "ss_blacklist (snd (issueTokenPair J cfg i user fam ip ua now s)) = ss_blacklist s" for i user fam ip ua s
    using issueTokenPair_cases [of J cfg i user fam ip ua now s]
    by (cases "issueTokenPair J cfg i user fam ip ua now s") auto
  have reuse: "kept j e (ss_blacklist (handleTokenReuse b (jp_jti p) ip ua now st))" for b ip ua
    unfolding handleTokenReuse_def by (simp add: kept_update [OF assms(1)])
  have fraud: "kept j e (ss_blacklist (snd (case Fraud_handleTokenReuse r ids u k now s of
      (Inl e, s') \<Rightarrow> (Inl e, s') | (Inr _, s') \<Rightarrow> (Inl m, s')))) = kept j e (ss_blacklist s)" for r ids u k s m
    using reuse_frame(1) [of r ids u k now s] by (auto split: prod.split sum.split simp del: reuse_frame)
  have pair: "ss_blacklist (snd (case issueTokenPair J cfg i user fam ip ua now s of
      (Inl e, s') \<Rightarrow> (Inl e, s') | (Inr x, s') \<Rightarrow> (Inr (user, x), s'))) = ss_blacklist s" for i user fam ip ua s
    using issue [of i user fam ip ua s] by (auto split: prod.split sum.split)
  show ?thesis
    using assms(1) unfolding refreshToken_def verifyToken_def Some pe
    by (simp add: Let_def fraud reuse pair black [unfolded d_def] split: option.split)
qed

lemma blacklist_access_kept:
  assumes "kept j e (ss_blacklist st)"
    and "\<And>a p ex. tok = Some a \<Longrightarrow> jl_verify J a (cf_jwtSecret cfg) now = Some (p, ex) \<Longrightarrow> jp_jti p = j \<Longrightarrow> ex = Some e"
  shows "kept j e (ss_blacklist (blacklist_access J cfg sub fam tok now st))"
  using assms unfolding blacklist_access_def verifyToken_def
  by (auto split: option.split sum.split prod.split intro!: blacklistToken_keeps dest!: assms(2) simp: expiry_date_def)

lemma logout_kept:
  assumes "kept j e (ss_blacklist st)"
    and "\<And>a s p ex. rtok = Some a \<or> atok = Some a \<Longrightarrow> jl_verify J a s now = Some (p, ex) \<Longrightarrow> jp_jti p = j \<Longrightarrow> ex = Some e"
  shows "kept j e (ss_blacklist (snd (logout J cfg sub rtok atok now st)))"
proof -
  have access: "kept j e (ss_blacklist (blacklist_access J cfg sub True atok now st))"
    using assms(2) by (intro blacklist_access_kept [OF assms(1)]) blast
  have "e * 1000 \<le> expiry_date ex"
    if "rtok = Some a" "jl_verify J a s now = Some (p, ex)" "jp_jti p = j" for a s p ex
    using assms(2) [OF _ that(2,3)] that(1) by (simp add: expiry_date_def)
  then show ?thesis
    using access unfolding logout_def verifyToken_def Let_def
    by (auto split: option.split sum.split prod.split intro!: blacklistToken_keeps)
qed

lemma cleanup_kept:
  assumes "kept j e (ss_blacklist st)" and "now < e * 1000" and "\<And>d. retention_days env 7 = Some d \<Longrightarrow> 0 \<le> d"
  shows "kept j e (ss_blacklist (snd (cleanBlacklistedTokens env now st)))"
proof (cases "retention_days env 7")
  case (Some d)
  then have "0 \<le> d" by (rule assms(3))
  then have "\<not> bl_expiresAt r < now - d * 24 * 60 * 60 * 1000" if "e * 1000 \<le> bl_expiresAt r" for r
    using that assms(2) by simp
  then show ?thesis
    using assms(1) Some by (auto simp: cleanBlacklistedTokens_def cleanup_batches_eq BATCH_SIZE_def kept_def Let_def)
qed (use assms(1) in \<open>simp add: cleanBlacklistedTokens_def\<close>)

subsection \<open>Histories\<close>

text \<open>One request, or anything else that leaves the blacklist alone; the clock never runs backwards.  Requests
  present tokens in circulation, \<open>T\<close>.\<close>

inductive auth_step ::
  "'tok jwt_lib \<Rightarrow> auth_config \<Rightarrow> 'tok set \<Rightarrow> time \<times> account_state \<Rightarrow> time \<times> account_state \<Rightarrow> bool" for J cfg T where
  Refresh: "t \<le> now \<Longrightarrow> tok \<in> T \<Longrightarrow> auth_step J cfg T (t, st) (now, snd (refreshToken J cfg rq tok now st))"
| Logout: "t \<le> now \<Longrightarrow> set_option rtok \<union> set_option atok \<subseteq> T \<Longrightarrow> auth_step J cfg T (t, st) (now, snd (logout J cfg sub rtok atok now st))"
| Logout_all: "t \<le> now \<Longrightarrow> set_option atok \<subseteq> T \<Longrightarrow> auth_step J cfg T (t, st) (now, snd (logoutAllDevices J cfg sub atok now st))"
| Revoke_all: "t \<le> now \<Longrightarrow> auth_step J cfg T (t, st) (now, snd (revokeAllSessions u except now st))"
| Retention: "t \<le> now \<Longrightarrow> (\<And>d. retention_days env 7 = Some d \<Longrightarrow> 0 \<le> d) \<Longrightarrow>
    auth_step J cfg T (t, st) (now, snd (cleanBlacklistedTokens env now st))"
| Other: "t \<le> now \<Longrightarrow> ss_blacklist st' = ss_blacklist st \<Longrightarrow> auth_step J cfg T (t, st) (now, st')"

definition dead :: "string \<Rightarrow> int \<Rightarrow> time \<times> account_state \<Rightarrow> bool" where
  "dead j e x \<longleftrightarrow> kept j e (ss_blacklist (snd x)) \<or> e * 1000 \<le> fst x"

text \<open>Every token in circulation that carries \<open>j\<close> expires at \<open>e\<close>: identifiers are not shared between tokens.\<close>

definition jti_expiry :: "'tok jwt_lib \<Rightarrow> 'tok set \<Rightarrow> string \<Rightarrow> int \<Rightarrow> bool" where
  "jti_expiry J T j e \<longleftrightarrow> (\<forall>tok \<in> T. \<forall>s t p ex. jl_verify J tok s t = Some (p, ex) \<and> jp_jti p = j \<longrightarrow> ex = Some e)"

lemma auth_step_dead:
  assumes "auth_step J cfg T x y" and "jti_expiry J T j e" and "dead j e x"
  shows "dead j e y \<and> fst x \<le> fst y"
proof -
  have unique: "ex = Some e" if "tok \<in> T" "jl_verify J tok s t = Some (p, ex)" "jp_jti p = j" for tok s t p ex
    using assms(2) that by (auto simp: jti_expiry_def)
  from assms(1) show ?thesis
  proof cases
    case (Refresh t now tok st rq)
    then have "kept j e (ss_blacklist st) \<Longrightarrow> kept j e (ss_blacklist (snd (refreshToken J cfg rq tok now st)))"
      using unique by (intro refreshToken_kept) blast+
    then show ?thesis using Refresh assms(3) by (auto simp: dead_def)
  next
    case (Logout t now rtok atok st sub)
    then have "kept j e (ss_blacklist st) \<Longrightarrow> kept j e (ss_blacklist (snd (logout J cfg sub rtok atok now st)))"
      using unique by (intro logout_kept) (auto simp: subset_iff)
    then show ?thesis using Logout assms(3) by (auto simp: dead_def)
  next
    case (Logout_all t now atok st sub)
    then have "kept j e (ss_blacklist st) \<Longrightarrow> kept j e (ss_blacklist (blacklist_access J cfg sub False atok now st))"
      using unique by (intro blacklist_access_kept) (auto simp: subset_iff)
    then show ?thesis using Logout_all assms(3)
      by (auto simp: dead_def logoutAllDevices_def Let_def intro!: revokeAllSessions_kept)
  next
    case (Revoke_all t now st u ex)
    then show ?thesis using assms(3) revokeAllSessions_kept by (auto simp: dead_def)
  next
    case (Retention t now env st)
    then have "\<not> e * 1000 \<le> now \<Longrightarrow> kept j e (ss_blacklist st) \<Longrightarrow>
        kept j e (ss_blacklist (snd (cleanBlacklistedTokens env now st)))"
      by (intro cleanup_kept) auto
    then show ?thesis using Retention assms(3) by (auto simp: dead_def)
  next
    case (Other t now st' st)
    then show ?thesis using assms(3) by (auto simp: dead_def)
  qed
qed

lemma auth_trace_dead:
  "(auth_step J cfg T)\<^sup>*\<^sup>* x y \<Longrightarrow> jti_expiry J T j e \<Longrightarrow> dead j e x \<Longrightarrow> dead j e y \<and> fst x \<le> fst y"
proof (induction rule: rtranclp_induct)
  case (step y z)
  then show ?case using auth_step_dead [of J cfg T y z j e] by auto
qed simp

lemma refresh_success:
  assumes "refreshToken J cfg rq tok now st = (Inr (user, pair), st')"
  obtains p ex where "jl_verify J tok (cf_jwtRefreshSecret cfg) now = Some (p, ex)" "jp_type p = Jwt_refresh"
    "\<not> revoked_jti (jp_jti p) st" "find_user (jp_sub p) st = Some user" "\<not> us_isBlocked user" "\<not> us_isDeactivated user"
    "issueTokenPair J cfg (re_ids rq) user (jp_family p) (re_ipAddress rq) (re_userAgent rq) now
       (blacklistToken \<lparr>bd_jti = jp_jti p, bd_tokenType = REFRESH, bd_expiresAt = expiry_date ex,
          bd_userId = Some (tu_id user), bd_tokenFamily = jp_family p, bd_ipAddress = re_ipAddress rq,
          bd_userAgent = re_userAgent rq\<rparr> st) = (Inr pair, st')"
proof (cases "jl_verify J tok (cf_jwtRefreshSecret cfg) now")
  case None
  then show thesis using assms by (simp add: refreshToken_def verifyToken_def)
next
  case (Some pe)
  obtain p ex where pe: "jl_verify J tok (cf_jwtRefreshSecret cfg) now = Some (p, ex)" using Some by (cases pe) simp
  note eq = assms [unfolded refreshToken_def verifyToken_def pe, simplified]
  have ty: "jp_type p = Jwt_refresh" using eq by (auto split: if_splits)
  have fresh: "tbl_find bl_jti (jp_jti p) (ss_blacklist st) = None"
    using eq by (cases "tbl_find bl_jti (jp_jti p) (ss_blacklist st)")
      (auto simp: Let_def ty split: prod.splits sum.splits)
  obtain u where u: "find_user (jp_sub p) st = Some u"
    using eq by (cases "find_user (jp_sub p) st") (auto simp: ty fresh)
  have ok: "\<not> us_isBlocked u" "\<not> us_isDeactivated u" using eq by (auto simp: ty fresh u split: if_splits)
  let ?i = "issueTokenPair J cfg (re_ids rq) u (jp_family p) (re_ipAddress rq) (re_userAgent rq) now
       (blacklistToken \<lparr>bd_jti = jp_jti p, bd_tokenType = REFRESH, bd_expiresAt = expiry_date ex,
          bd_userId = Some (tu_id u), bd_tokenFamily = jp_family p, bd_ipAddress = re_ipAddress rq,
          bd_userAgent = re_userAgent rq\<rparr> st)"
  have "u = user \<and> ?i = (Inr pair, st')"
    using eq by (cases ?i) (auto simp: ty fresh u ok Let_def split: sum.splits)
  then show thesis using that [OF pe ty] u ok fresh by (auto simp: revoked_jti_def)
qed

text \<open>A token whose identifier is dead is refused.\<close>

lemma dead_refresh_refused:
  assumes "jwt_library J" and "dead j e (now, st)"
    and "\<And>s t p ex. jl_verify J tok s t = Some (p, ex) \<Longrightarrow> jp_jti p = j \<and> ex = Some e"
  shows "\<exists>m. fst (refreshToken J cfg rq tok now st) = Inl m"
proof (rule ccontr)
  assume "\<nexists>m. fst (refreshToken J cfg rq tok now st) = Inl m"
  then obtain user pair st' where "refreshToken J cfg rq tok now st = (Inr (user, pair), st')"
    by (metis fst_conv old.sum.exhaust prod.exhaust)
  then obtain p ex where p: "jl_verify J tok (cf_jwtRefreshSecret cfg) now = Some (p, ex)" "\<not> revoked_jti (jp_jti p) st"
    by (elim refresh_success)
  have j: "jp_jti p = j" "ex = Some e" using assms(3) [OF p(1)] by auto
  have "now div 1000 < e" using jwt_not_expired [OF assms(1)] p(1) by (simp add: j(2))
  then have "\<not> e * 1000 \<le> now" using seconds_before [of now e] by simp
  then have "kept j e (ss_blacklist st)" using assms(2) by (simp add: dead_def)
  then have "revoked_jti j st" by (rule kept_revoked)
  then show False using p(2) j(1) by simp
qed

subsection \<open>Properties\<close>

text \<open>C15: A refresh token works once.  After a successful refresh, whatever happens next, further refreshes,
  logouts, revocations, the retention job and anything that leaves the blacklist alone, the same token is
  refused: its identifier stays on the blacklist until the token has expired by itself.\<close>

theorem refresh_token_single_use:
  assumes "jwt_library J" and "refreshToken J cfg rq tok now st = (Inr (user, pair), st1)"
    and "\<And>s t p ex. jl_verify J tok s t = Some (p, ex) \<Longrightarrow> jp_jti p = j \<and> ex = Some e" and "jti_expiry J T j e"
    and "(auth_step J cfg T)\<^sup>*\<^sup>* (now, st1) (now', st2)"
  shows "\<exists>m. fst (refreshToken J cfg rq' tok now' st2) = Inl m"
proof -
  from assms(2) obtain p ex where p: "jl_verify J tok (cf_jwtRefreshSecret cfg) now = Some (p, ex)"
    "issueTokenPair J cfg (re_ids rq) user (jp_family p) (re_ipAddress rq) (re_userAgent rq) now
       (blacklistToken \<lparr>bd_jti = jp_jti p, bd_tokenType = REFRESH, bd_expiresAt = expiry_date ex,
          bd_userId = Some (tu_id user), bd_tokenFamily = jp_family p, bd_ipAddress = re_ipAddress rq,
          bd_userAgent = re_userAgent rq\<rparr> st) = (Inr pair, st1)"
    by (elim refresh_success)
  have j: "jp_jti p = j" "ex = Some e" using assms(3) [OF p(1)] by auto
  have "kept j e (ss_blacklist st1)"
    using issueTokenPair_cases [OF p(2)] blacklistToken_adds [of e "\<lparr>bd_jti = j, bd_tokenType = REFRESH,
       bd_expiresAt = expiry_date ex, bd_userId = Some (tu_id user), bd_tokenFamily = jp_family p,
       bd_ipAddress = re_ipAddress rq, bd_userAgent = re_userAgent rq\<rparr>" st]
    by (auto simp: j expiry_date_def)
  then have "dead j e (now, st1)" by (simp add: dead_def)
  then have "dead j e (now', st2)" using auth_trace_dead [OF assms(5,4)] by simp
  then show ?thesis by (rule dead_refresh_refused [OF assms(1) _ assms(3)])
qed

text \<open>A concrete library for the examples: a token is its payload, its secret and its expiry.\<close>

definition example_jwt :: "(jwt_payload \<times> string \<times> int) jwt_lib" where
  "example_jwt = \<lparr>jl_sign = (\<lambda>p s ttl t. (p, s, t div 1000 + ttl)),
     jl_verify = (\<lambda>(p, s, e) s' t. if s = s' \<and> t div 1000 < e then Some (p, Some e) else None)\<rparr>"

lemma example_jwt_library: "jwt_library example_jwt"
  by (auto simp: jwt_library_def example_jwt_def split: if_splits)

definition example_config :: auth_config where
  "example_config = \<lparr>cf_jwtSecret = ''access-secret'', cf_jwtRefreshSecret = ''refresh-secret'',
     cf_accessTokenTtlSeconds = 900, cf_refreshTokenTtlSeconds = 3600, cf_env = (\<lambda>_. None)\<rparr>"

definition example_ids :: issue_ids where
  "example_ids = \<lparr>ii_accessJti = ''a'', ii_refreshJti = ''r'', ii_family = ''f'', ii_sessionId = ''s''\<rparr>"

definition example_request :: request_env where
  "example_request = \<lparr>re_ids = example_ids, re_alertIds = (\<lambda>_. ''alert''), re_recipients = [],
     re_ipAddress = None, re_userAgent = None\<rparr>"

definition example_refresh_payload :: jwt_payload where
  "example_refresh_payload = token_payload example_user Jwt_refresh ''j'' ''f''"

abbreviation "example_refresh_token \<equiv> (example_refresh_payload, ''refresh-secret'', 60 :: int)"

lemma example_refresh:
  "\<exists>pair st1. refreshToken example_jwt example_config example_request example_refresh_token 0 example_account_state
     = (Inr (example_user, pair), st1)"
proof -
  have "maxConcurrentSessions None = Some 5" by (simp add: maxConcurrentSessions_def)
  then show ?thesis
    by (simp add: refreshToken_def verifyToken_def example_jwt_def example_config_def example_request_def
        example_refresh_payload_def token_payload_def issueTokenPair_def createSession_def blacklistToken_def
        example_account_state_def example_user_def find_user_def tbl_find_def tbl_count_def Let_def)
qed

theorem refresh_token_single_use_witness:
  "\<exists>user pair st1. refreshToken example_jwt example_config example_request example_refresh_token 0 example_account_state
       = (Inr (user, pair), st1)
     \<and> (\<exists>m. fst (refreshToken example_jwt example_config example_request example_refresh_token 5
         (snd (revokeAllSessions ''u1'' None 5 st1))) = Inl m)"
proof -
  obtain pair st1 where first: "refreshToken example_jwt example_config example_request example_refresh_token 0 example_account_state
     = (Inr (example_user, pair), st1)" using example_refresh by blast
  have j: "jp_jti p = ''j'' \<and> ex = Some 60" if "jl_verify example_jwt example_refresh_token s t = Some (p, ex)" for s t p ex
    using that by (auto simp: example_jwt_def example_refresh_payload_def token_payload_def split: if_splits)
  then have "jti_expiry example_jwt {example_refresh_token} ''j'' 60" by (auto simp: jti_expiry_def)
  moreover have "(auth_step example_jwt example_config {example_refresh_token})\<^sup>*\<^sup>* (0, st1) (5, snd (revokeAllSessions ''u1'' None 5 st1))"
    by (intro r_into_rtranclp auth_step.Revoke_all) simp
  ultimately have "\<exists>m. fst (refreshToken example_jwt example_config example_request example_refresh_token 5
         (snd (revokeAllSessions ''u1'' None 5 st1))) = Inl m"
    by (intro refresh_token_single_use [OF example_jwt_library first, of "''j''" 60 "{example_refresh_token}"]) (blast dest: j)+
  with first show ?thesis by blast
qed


text \<open>Rotation never frees a session: every successful refresh leaves the user with exactly one active session
  more than before.\<close>

theorem refresh_takes_a_session:
  assumes "refreshToken J cfg rq tok now st = (Inr (user, pair), st')" and "0 < cf_refreshTokenTtlSeconds cfg"
  shows "tbl_count (active_session (tu_id user) now) (ss_sessions st')
    = Suc (tbl_count (active_session (tu_id user) now) (ss_sessions st))"
proof -
  from assms(1) obtain p ex where "jl_verify J tok (cf_jwtRefreshSecret cfg) now = Some (p, ex)" and p:
    "issueTokenPair J cfg (re_ids rq) user (jp_family p) (re_ipAddress rq) (re_userAgent rq) now
       (blacklistToken \<lparr>bd_jti = jp_jti p, bd_tokenType = REFRESH, bd_expiresAt = expiry_date ex,
          bd_userId = Some (tu_id user), bd_tokenFamily = jp_family p, bd_ipAddress = re_ipAddress rq,
          bd_userAgent = re_userAgent rq\<rparr> st) = (Inr pair, st')"
    by (elim refresh_success)
  have "ss_sessions (blacklistToken d st) = ss_sessions st" for d by (simp add: blacklistToken_def Let_def)
  then show ?thesis
    using issueTokenPair_cases [OF p] assms(2) by (auto simp: tbl_count_def active_session_def new_session_def)
qed

theorem refresh_takes_a_session_witness:
  "\<exists>pair st1. refreshToken example_jwt example_config example_request example_refresh_token 0 example_account_state
     = (Inr (example_user, pair), st1) \<and> tbl_count (active_session ''u1'' 0) (ss_sessions st1) = 1"
proof -
  obtain pair st1 where first: "refreshToken example_jwt example_config example_request example_refresh_token 0 example_account_state
     = (Inr (example_user, pair), st1)" using example_refresh by blast
  then show ?thesis
    using refresh_takes_a_session [OF first]
    by (simp add: example_config_def example_account_state_def example_user_def tbl_count_def)
qed

text \<open>Blocking or deactivating an account does not end its access tokens: the check of an access token gives
  the same answer whatever the two flags say.\<close>

theorem access_token_ignores_block:
  "fst (validateAccessToken J cfg touch tok now
      (update_user u (\<lambda>r. r\<lparr>us_isBlocked := b, us_isDeactivated := d\<rparr>) st))
    = fst (validateAccessToken J cfg touch tok now st)"
proof -
  have "find_user v (update_user u (\<lambda>r. r\<lparr>us_isBlocked := b, us_isDeactivated := d\<rparr>) st) =
      (if v = u then map_option (\<lambda>r. r\<lparr>us_isBlocked := b, us_isDeactivated := d\<rparr>) (find_user u st) else find_user v st)" for v
    by (rule find_update_user) simp
  then show ?thesis
    by (simp add: validateAccessToken_def ensureTokenNotBlacklisted_def split: sum.split option.split prod.split)
qed

definition example_session :: session where
  "example_session = new_session ''s'' ''u1'' ''a'' ''r'' None None 3600 0"

lemma example_verify:
  "jl_verify example_jwt (token_payload example_user ty jti fam, k', e) k t = Some (p, ex) \<Longrightarrow> jp_jti p = jti"
  by (auto simp: example_jwt_def token_payload_def split: if_splits)


text \<open>Revoking one session does not end its tokens: after \<open>revokeSession\<close> the access token still passes the
  check, and even a later revocation of all sessions does not reach it, because it skips sessions that are
  already revoked.\<close>

theorem revoked_session_token_survives:
  assumes "jl_verify J tok (cf_jwtSecret cfg) now = Some (p, ex)" and "jp_type p = Jwt_access"
    and "find_user (jp_sub p) st = Some user" and "\<not> revoked_jti (jp_jti p) st"
    and "s \<in> set (ss_sessions st)" and "se_userId s = u" and "sanitizeIdentifier nfkc sid = se_id s"
    and "distinct (map se_id (ss_sessions st))"
    and "\<And>r. r \<in> set (ss_sessions st) \<Longrightarrow> r \<noteq> s \<Longrightarrow>
      se_accessTokenJti r \<noteq> jp_jti p \<and> se_refreshTokenJti r \<noteq> Some (jp_jti p)"
    and "st1 = snd (revokeSession nfkc u sid t st)" and "st2 = snd (revokeAllSessions u None t' st1)"
  shows "(\<exists>who. fst (validateAccessToken J cfg touch tok now st2) = Inr who)
    \<and> \<not> isSessionValid (se_id s) t st1"
proof -
  have find: "tbl_find se_id (se_id s) (ss_sessions st) = Some s"
    using tbl_find_distinct [OF assms(8,5)] .
  define f where "f = (\<lambda>r. r\<lparr>se_isRevoked := True, se_revokedAt := Some t\<rparr> :: session)"
  have st1: "st1 = st\<lparr>ss_sessions := tbl_update se_id (se_id s) f (ss_sessions st)\<rparr>"
    using find assms(6,7) by (simp add: assms(10) revokeSession_def f_def Let_def)
  have rows: "se_accessTokenJti r \<noteq> jp_jti p \<and> se_refreshTokenJti r \<noteq> Some (jp_jti p)"
    if "r \<in> set (ss_sessions st1)" "\<not> se_isRevoked r" for r
  proof -
    have "\<exists>q \<in> set (ss_sessions st). r = (if se_id q = se_id s then f q else q)"
      using that(1) by (simp add: st1 in_tbl_update)
    then obtain q where q: "q \<in> set (ss_sessions st)" "r = (if se_id q = se_id s then f q else q)" ..
    then have "se_id q \<noteq> se_id s" "r = q" using that(2) by (auto simp: f_def split: if_splits)
    then show ?thesis using assms(9) [OF q(1)] by auto
  qed
  have "jp_jti p \<notin> bl_jti ` set (ss_blacklist st2)"
  proof -
    have "bl_jti x \<noteq> jp_jti p" if "x \<in> set (session_tokens u r)" "r \<in> set (ss_sessions st1)" "\<not> se_isRevoked r" for x r
      using session_tokens_jti [OF that(1)] rows [OF that(2,3)] by auto
    moreover have "jp_jti p \<notin> bl_jti ` set (ss_blacklist st1)" using assms(4) by (simp add: st1 revoked_jti_iff)
    ultimately show ?thesis
      by (auto simp: assms(11) revokeAllSessions_def Let_def create_skipping_jtis) metis
  qed
  moreover have "find_user (jp_sub p) st2 = Some user"
    using assms(3) by (simp add: assms(11) st1 revokeAllSessions_def find_user_def Let_def)
  ultimately have "\<exists>who. fst (validateAccessToken J cfg touch tok now st2) = Inr who"
    using assms(1,2) by (simp add: validateAccessToken_def verifyToken_def ensureTokenNotBlacklisted_def tbl_find_None)
  moreover have "tbl_find se_id (se_id s) (ss_sessions st1) = Some (f s)"
    unfolding st1 using sessions.update_same [OF find, of f] by (simp add: f_def)
  then have "\<not> isSessionValid (se_id s) t st1" by (simp add: isSessionValid_def f_def)
  ultimately show ?thesis by blast
qed

theorem revoked_session_token_survives_witness:
  "\<exists>who. fst (validateAccessToken example_jwt example_config True
       (token_payload example_user Jwt_access ''a'' ''f'', ''access-secret'', 900) 20
       (snd (revokeAllSessions ''u1'' None 12 (snd (revokeSession id ''u1'' ''s'' 10
          (example_account_state\<lparr>ss_sessions := [example_session]\<rparr>)))))) = Inr who"
proof -
  have "(\<exists>who. fst (validateAccessToken example_jwt example_config True
       (token_payload example_user Jwt_access ''a'' ''f'', ''access-secret'', 900) 20
       (snd (revokeAllSessions ''u1'' None 12 (snd (revokeSession id ''u1'' ''s'' 10
          (example_account_state\<lparr>ss_sessions := [example_session]\<rparr>)))))) = Inr who)
    \<and> \<not> isSessionValid (se_id example_session) 10 (snd (revokeSession id ''u1'' ''s'' 10
          (example_account_state\<lparr>ss_sessions := [example_session]\<rparr>)))"
  proof (rule revoked_session_token_survives [where p = "token_payload example_user Jwt_access ''a'' ''f''" and ex = "Some 900"
        and user = example_user and s = example_session and sid = "''s''", OF _ _ _ _ _ _ _ _ _ refl refl])
    show "sanitizeIdentifier id ''s'' = se_id example_session" by code_simp
    show "find_user (jp_sub (token_payload example_user Jwt_access ''a'' ''f''))
        (example_account_state\<lparr>ss_sessions := [example_session]\<rparr>) = Some example_user" by code_simp
  qed (auto simp: example_jwt_def example_config_def token_payload_def revoked_jti_def tbl_find_def example_account_state_def
      example_session_def new_session_def)
  then show ?thesis ..
qed

text \<open>A client that retries a refresh at the session limit loses its account: the first attempt is refused with
  a conflict although its token is already spent, and presenting the same token again counts as reuse and
  blocks the account.\<close>

theorem refresh_retry_at_limit_blocks:
  assumes "jl_verify J tok (cf_jwtRefreshSecret cfg) now = Some (p, ex)"
    and "jl_verify J tok (cf_jwtRefreshSecret cfg) now' = Some (p, ex)" and "jp_type p = Jwt_refresh"
    and "\<not> revoked_jti (jp_jti p) st" and "find_user (jp_sub p) st = Some user"
    and "\<not> us_isBlocked user" and "\<not> us_isDeactivated user" and "jp_sub p \<noteq> []" and "\<not> starts_with ''system-'' (jp_sub p)"
    and "\<And>a. a \<in> set (as_alerts st) \<Longrightarrow> fa_pattern a = TOKEN_REUSE \<Longrightarrow> fa_userId a = Some (jp_sub p) \<Longrightarrow> open_alert a \<Longrightarrow>
      \<not> fa_autoBlocked a"
    and "maxConcurrentSessions (cf_env cfg ''MAX_CONCURRENT_SESSIONS'') = Some n"
    and "n \<le> int (tbl_count (active_session (jp_sub p) now) (ss_sessions st))"
  shows "\<exists>m m' st1 st2. refreshToken J cfg rq tok now st = (Inl (Conflict m), st1)
    \<and> refreshToken J cfg rq' tok now' st1 = (Inl (Unauthorized m'), st2)
    \<and> find_user (jp_sub p) st2 = Some (user\<lparr>us_isBlocked := True\<rparr>)"
proof -
  define st1 where "st1 = blacklistToken \<lparr>bd_jti = jp_jti p, bd_tokenType = REFRESH, bd_expiresAt = expiry_date ex,
      bd_userId = Some (tu_id user), bd_tokenFamily = jp_family p, bd_ipAddress = re_ipAddress rq,
      bd_userAgent = re_userAgent rq\<rparr> st"
  have frame: "ss_sessions st1 = ss_sessions st" "as_alerts st1 = as_alerts st" "find_user v st1 = find_user v st" for v
    by (simp_all add: st1_def blacklistToken_def find_user_def Let_def)
  have u: "tu_id user = jp_sub p" using find_user_id [OF assms(5)] .
  let ?i = "issueTokenPair J cfg (re_ids rq) user (jp_family p) (re_ipAddress rq) (re_userAgent rq) now st1"
  have "\<exists>m. fst ?i = Inl (Conflict m)"
    using issueTokenPair_limit [OF assms(11), of J "re_ids rq" user "jp_family p" "re_ipAddress rq" "re_userAgent rq" now st1]
      assms(12) by (simp add: frame u)
  then obtain m where i: "?i = (Inl (Conflict m), st1)"
    using issueTokenPair_cases [of J cfg "re_ids rq" user "jp_family p" "re_ipAddress rq" "re_userAgent rq" now st1]
    by (cases ?i) auto
  have first: "refreshToken J cfg rq tok now st = (Inl (Conflict m), st1)"
    using assms(1,3,4-7) i by (simp add: refreshToken_def verifyToken_def revoked_jti_def st1_def [symmetric] Let_def)
  obtain row where row: "tbl_find bl_jti (jp_jti p) (ss_blacklist st1) = Some row"
  proof -
    have "revoked_jti (jp_jti p) st1"
      unfolding st1_def using blacklistToken_revoked by (metis blacklist_data.select_convs(1))
    then show thesis using that by (auto simp: revoked_jti_def)
  qed
  define st1' where "st1' = handleTokenReuse row (jp_jti p) (re_ipAddress rq') (re_userAgent rq') now' st1"
  have "find_user (jp_sub p) st1' = Some user" using assms(5) by (simp add: st1'_def frame)
  then obtain a st2 where "Fraud_handleTokenReuse (re_recipients rq') (re_alertIds rq') (jp_sub p) (jp_jti p) now' st1' = (Inr a, st2)"
      "find_user (jp_sub p) st2 = Some (user\<lparr>us_isBlocked := True\<rparr>)"
    using reuse_blocks [of "jp_sub p" st1' user "re_recipients rq'" "re_alertIds rq'" "jp_jti p" now'] assms(8-10)
    by (auto simp: st1'_def frame)
  then have "refreshToken J cfg rq' tok now' st1 = (Inl (Unauthorized
      ''Token reuse detected. All sessions have been invalidated for security. Please login again.''), st2)"
    using assms(2,3) row by (simp add: refreshToken_def verifyToken_def st1'_def [symmetric] Let_def)
  then show ?thesis using first \<open>find_user (jp_sub p) st2 = _\<close> by blast
qed

definition no_sessions_config :: auth_config where
  "no_sessions_config = example_config\<lparr>cf_env := (\<lambda>_. Some ''0'')\<rparr>"

theorem refresh_retry_at_limit_blocks_witness:
  "\<exists>m m' st1 st2. refreshToken example_jwt no_sessions_config example_request example_refresh_token 0 example_account_state
      = (Inl (Conflict m), st1)
    \<and> refreshToken example_jwt no_sessions_config example_request example_refresh_token 1000 st1 = (Inl (Unauthorized m'), st2)
    \<and> find_user ''u1'' st2 = Some (example_user\<lparr>us_isBlocked := True\<rparr>)"
proof -
  have sub: "jp_sub example_refresh_payload = ''u1''" by (simp add: example_refresh_payload_def token_payload_def example_user_def)
  have "maxConcurrentSessions (cf_env no_sessions_config ''MAX_CONCURRENT_SESSIONS'') = Some 0" by code_simp
  then have "\<exists>m m' st1 st2. refreshToken example_jwt no_sessions_config example_request example_refresh_token 0 example_account_state
      = (Inl (Conflict m), st1)
    \<and> refreshToken example_jwt no_sessions_config example_request example_refresh_token 1000 st1 = (Inl (Unauthorized m'), st2)
    \<and> find_user (jp_sub example_refresh_payload) st2 = Some (example_user\<lparr>us_isBlocked := True\<rparr>)"
    by (intro refresh_retry_at_limit_blocks [where ex = "Some 60" and n = 0])
      (simp_all add: sub example_account_find, simp_all add: example_jwt_def no_sessions_config_def example_config_def
        example_refresh_payload_def token_payload_def revoked_jti_def tbl_find_def example_account_state_def example_user_def starts_with_def)
  then show ?thesis by (simp add: sub)
qed

text \<open>Logging out spends the tokens but keeps the session: both tokens are revoked, no session row changes, so
  the session counts against the user's limit until it expires.\<close>

theorem logout_spends_tokens_keeps_session:
  assumes "jl_verify J rtok (cf_jwtRefreshSecret cfg) now = Some (p, ex)" and "jp_sub p = sub"
    and "jl_verify J atok (cf_jwtSecret cfg) now = Some (q, ex')"
    and "logout J cfg sub (Some rtok) (Some atok) now st = (res, st')"
  shows "res = Inr () \<and> revoked_jti (jp_jti p) st' \<and> revoked_jti (jp_jti q) st' \<and> ss_sessions st' = ss_sessions st"
proof -
  define d where "d = \<lparr>bd_jti = jp_jti q, bd_tokenType = ACCESS, bd_expiresAt = expiry_date ex', bd_userId = Some sub,
    bd_tokenFamily = jp_family q, bd_ipAddress = None, bd_userAgent = None\<rparr>"
  define d' where "d' = \<lparr>bd_jti = jp_jti p, bd_tokenType = REFRESH, bd_expiresAt = expiry_date ex, bd_userId = Some sub,
    bd_tokenFamily = jp_family p, bd_ipAddress = None, bd_userAgent = None\<rparr>"
  have eq: "res = Inr ()" "st' = blacklistToken d' (blacklistToken d st)"
    using assms by (auto simp: logout_def blacklist_access_def verifyToken_def d_def d'_def)
  have sessions: "ss_sessions (blacklistToken x s) = ss_sessions s" for x s by (simp add: blacklistToken_def Let_def)
  have keeps: "revoked_jti j s \<Longrightarrow> revoked_jti j (blacklistToken x s)" for j x s
    by (cases "tbl_find bl_jti (bd_jti x) (ss_blacklist s)")
      (auto simp: blacklistToken_def Let_def revoked_jti_def tbl_find_create tbl_find_update_by)
  show ?thesis
    using eq keeps [OF blacklistToken_revoked [of d st], of d'] blacklistToken_revoked [of d' "blacklistToken d st"]
    by (simp add: sessions) (simp add: d_def d'_def)
qed

theorem logout_spends_tokens_keeps_session_witness:
  "\<exists>st'. logout example_jwt example_config ''u1'' (Some example_refresh_token)
      (Some (token_payload example_user Jwt_access ''a'' ''f'', ''access-secret'', 900)) 0 example_account_state = (Inr (), st')
    \<and> revoked_jti ''j'' st' \<and> revoked_jti ''a'' st'"
proof -
  obtain res st' where run: "logout example_jwt example_config ''u1'' (Some example_refresh_token)
      (Some (token_payload example_user Jwt_access ''a'' ''f'', ''access-secret'', 900)) 0 example_account_state = (res, st')"
    by (cases "logout example_jwt example_config ''u1'' (Some example_refresh_token)
      (Some (token_payload example_user Jwt_access ''a'' ''f'', ''access-secret'', 900)) 0 example_account_state")
  have "res = Inr () \<and> revoked_jti (jp_jti example_refresh_payload) st'
      \<and> revoked_jti (jp_jti (token_payload example_user Jwt_access ''a'' ''f'')) st'
      \<and> ss_sessions st' = ss_sessions example_account_state"
    by (rule logout_spends_tokens_keeps_session [OF _ _ _ run, where ex = "Some 60" and ex' = "Some 900"])
      (simp_all add: example_jwt_def example_config_def example_refresh_payload_def token_payload_def example_user_def)
  then show ?thesis using run by (simp add: example_refresh_payload_def token_payload_def)
qed

end
