(* ===== verification/Auth_Accounts.thy ===== *)
theory Auth_Accounts
  imports Auth_Tokens Passwords
begin

text \<open>
  Accounts: the rest of \<open>src/auth/auth.service.ts\<close>, from registration and mail verification over login with its
  pre-flight checks, captcha, password and second factor, to two-factor management, password change and
  password reset.

  bcrypt and the hash functions are arguments (\<open>crypto\<close>), as are random values and identifiers.  A mail whose
  failure the code catches is not modelled.  \<open>comparePassword\<close> of a user without a password compares with the
  empty hash.
\<close>

record crypto =
  cr_sha :: "string \<Rightarrow> string"
  cr_hmac :: hmac
  cr_hash :: "string \<Rightarrow> string"
  cr_compare :: "string \<Rightarrow> string \<Rightarrow> bool"

definition password_matches :: "crypto \<Rightarrow> string \<Rightarrow> user \<Rightarrow> bool" where
  "password_matches cr password user = cr_compare cr password (case us_password user of Some h \<Rightarrow> h | None \<Rightarrow> [])"

subsection \<open>Captcha and pre-flight\<close>

text \<open>\<open>answer\<close> is what the retried request to the captcha service gives, \<open>None\<close> for an error: whether the token
  was valid, and its score where there is one.\<close>

definition verifyCaptcha :: "(string \<Rightarrow> string option) \<Rightarrow> (bool \<times> rat option) option \<Rightarrow> bool result" where
  "verifyCaptcha env answer =
     (if env ''CAPTCHA_BYPASS'' = Some ''true'' then Inr True
      else if \<not> truthy (env ''RECAPTCHA_SECRET'')
      then Inl (ServiceUnavailable ''CAPTCHA verification is temporarily unavailable.'')
      else Inr (case answer of None \<Rightarrow> False
        | Some (success, score) \<Rightarrow> success \<and> (case score of None \<Rightarrow> True | Some s \<Rightarrow> 1 / 2 \<le> s)))"

record login_dto =
  ld_email :: string
  ld_password :: string
  ld_captchaToken :: "string option"
  ld_totpCode :: "string option"
  ld_backupCode :: "string option"
  ld_trustedDeviceToken :: "string option"
  ld_rememberDevice :: bool

definition record_failure :: "auth_config \<Rightarrow> request_env \<Rightarrow> string \<Rightarrow> time \<Rightarrow> account_state \<Rightarrow> bool \<times> account_state" where
  "record_failure cfg rq email now st =
     (let (locked, t) = recordFailedAttempt (login_config_of (cf_env cfg)) email (re_ipAddress rq) (re_userAgent rq) now
            (as_attempts st)
      in (locked, st\<lparr>as_attempts := t\<rparr>))"

text \<open>\<open>parseInt\<close> of a threshold that is no number is NaN, which no count reaches.\<close>

definition preflightChecks ::
  "auth_config \<Rightarrow> request_env \<Rightarrow> (bool \<times> rat option) option \<Rightarrow> login_dto \<Rightarrow> time \<Rightarrow> account_state \<Rightarrow>
   (unit, account_state) outcome" where
  "preflightChecks cfg rq captcha data now st =
     (if isAccountLocked (ld_email data) now (as_attempts st)
      then (let remainingMinutes = (case getLockoutInfo (login_config_of (cf_env cfg)) (ld_email data) now (as_attempts st) of
                  Some li \<Rightarrow> (case li_remainingLockoutMinutes li of Some m \<Rightarrow> m | None \<Rightarrow> 0) | None \<Rightarrow> 0)
            in (Inl (Unauthorized (''Account temporarily locked due to too many failed login attempts. Please try again in ''
                  @ show_int remainingMinutes @ '' minute'' @ (if remainingMinutes \<noteq> 1 then ''s'' else []) @ ''.'')), st))
      else (let failedAttempts = int (getFailedAttemptsCount (login_config_of (cf_env cfg)) (ld_email data) now (as_attempts st));
                captchaThreshold = parse_int10 (case cf_env cfg ''CAPTCHA_THRESHOLD'' of Some s \<Rightarrow> s | None \<Rightarrow> ''3'')
            in if (case captchaThreshold of Some n \<Rightarrow> n \<le> failedAttempts | None \<Rightarrow> False)
               then (if \<not> truthy (ld_captchaToken data) then (Inl (Unauthorized ''CAPTCHA verification required''), st)
                     else (case verifyCaptcha (cf_env cfg) captcha of
                             Inl e \<Rightarrow> (Inl e, st)
                           | Inr valid \<Rightarrow>
                               if valid then (Inr (), st)
                               else (Inl (Unauthorized ''Invalid CAPTCHA''), snd (record_failure cfg rq (ld_email data) now st))))
               else (Inr (), st)))"

subsection \<open>Login\<close>

definition verifyCredentials ::
  "crypto \<Rightarrow> auth_config \<Rightarrow> request_env \<Rightarrow> user \<Rightarrow> string \<Rightarrow> time \<Rightarrow> account_state \<Rightarrow> (unit, account_state) outcome" where
  "verifyCredentials cr cfg rq user password now st =
     (if us_isBlocked user then (Inl (Unauthorized ''Your account has been blocked. Please contact support.''), st)
      else if us_isDeactivated user
      then (Inl (Unauthorized ''Your account has been deactivated. Please contact support to reactivate your account.''), st)
      else if \<not> us_isVerified user then (Inl (Unauthorized ''Please verify your email before logging in.''), st)
      else if password_matches cr password user then (Inr (), st)
      else (let (shouldLock, st1) = record_failure cfg rq (us_email user) now st
            in case evaluateFailedLogin (re_recipients rq) (re_alertIds rq) (us_email user) now st1 of
                 (Inl e, st2) \<Rightarrow> (Inl e, st2)
               | (Inr _, st2) \<Rightarrow>
                   if shouldLock
                   then (Inl (Unauthorized
                     ''Account locked due to too many failed login attempts. Please try again in 30 minutes.''), st2)
                   else (Inl (Unauthorized ''Invalid credentials''), st2)))"

text \<open>The second factor of a login, where one is asked for.\<close>

definition login_second_factor ::
  "crypto \<Rightarrow> login_dto \<Rightarrow> user \<Rightarrow> time \<Rightarrow> account_state \<Rightarrow> (unit, account_state) outcome" where
  "login_second_factor cr data user now st =
     (let present = (\<lambda>v. case v of Some s \<Rightarrow> js_trim s \<noteq> [] | None \<Rightarrow> False);
          hasTotpCode = present (ld_totpCode data);
          hasBackupCode = present (ld_backupCode data)
      in if \<not> hasTotpCode \<and> \<not> hasBackupCode
         then (Inl (Unauthorized ''Two-factor authentication code required''), st)
         else if hasTotpCode
         then (if \<not> truthy (tu_twoFactorSecret user)
               then (Inl (Unauthorized ''Invalid two-factor authentication code''), st)
               else (case verifyTotpCode (cr_hmac cr) (the (tu_twoFactorSecret user)) (the (ld_totpCode data)) 6 30 1 now of
                       None \<Rightarrow> (Inl (InternalError ''RangeError''), st)
                     | Some valid \<Rightarrow>
                         if valid then (Inr (), st)
                         else (Inl (Unauthorized ''Invalid two-factor authentication code''), st)))
         else (case verifyBackupCode (cr_sha cr) (the (ld_backupCode data)) (tu_twoFactorBackupCodes user) of
                 None \<Rightarrow> (Inl (Unauthorized ''Invalid backup code''), st)
               | Some matched \<Rightarrow>
                   (Inr (), update_user (tu_id user) (\<lambda>u. u\<lparr>tu_twoFactorBackupCodes :=
                      filter (\<lambda>code. code \<noteq> matched) (tu_twoFactorBackupCodes user)\<rparr>) st)))"

record 'tok login_result =
  lr_user :: user
  lr_tokens :: "'tok token_pair"
  lr_trustedDevice :: "(string \<times> device_summary) option"

text \<open>\<open>device_token\<close> and \<open>device_id\<close> are drawn for a device to remember; \<open>touch_ok\<close> as in theory \<open>Two_Factor\<close>.\<close>

record login_random =
  rn_deviceToken :: string
  rn_deviceId :: string
  rn_touchOk :: bool

definition recordLoginHistory :: "string \<Rightarrow> request_env \<Rightarrow> time \<Rightarrow> account_state \<Rightarrow> account_state" where
  "recordLoginHistory userId rq now st =
     st\<lparr>as_logins := tbl_create \<lparr>le_userId = userId, le_timestamp = now, le_ipAddress = re_ipAddress rq,
       le_userAgent = re_userAgent rq\<rparr> (as_logins st)\<rparr>"

text \<open>What follows once every factor is accepted: the records, the fraud evaluation, the tokens.\<close>

definition login_finish ::
  "'tok jwt_lib \<Rightarrow> crypto \<Rightarrow> auth_config \<Rightarrow> request_env \<Rightarrow> login_random \<Rightarrow> login_dto \<Rightarrow> user \<Rightarrow> bool \<Rightarrow> time \<Rightarrow> account_state \<Rightarrow>
   ('tok login_result, account_state) outcome" where
  "login_finish J cr cfg rq rn data user trustedDeviceAccepted now st =
     (let st1 = st\<lparr>as_attempts := recordSuccessfulAttempt (ld_email data) (re_ipAddress rq) (re_userAgent rq) now (as_attempts st)\<rparr>;
          st2 = recordLoginHistory (tu_id user) rq now st1
      in case evaluateSuccessfulLogin (re_recipients rq) (re_alertIds rq) (tu_id user) (re_ipAddress rq) (re_userAgent rq) now st2 of
           (Inl e, st3) \<Rightarrow> (Inl e, st3)
         | (Inr _, st3) \<Rightarrow>
             (let st4 = snd (recordLoginContext (re_recipients rq) (re_alertIds rq) (tu_id user)
                    \<lparr>lc_ipAddress = re_ipAddress rq, lc_geo = None, lc_fingerprint = None, lc_accessTokenJti = None\<rparr> now st3)
              in case find_user (tu_id user) st4 of
                   None \<Rightarrow> (Inl (Unauthorized ''User no longer exists''), st4)
                 | Some refreshedUser \<Rightarrow>
                     if us_isBlocked refreshedUser
                     then (Inl (Unauthorized ''Your account has been blocked after a fraud review. Please contact support.''), st4)
                     else (case issueTokenPair J cfg (re_ids rq) refreshedUser None (re_ipAddress rq) (re_userAgent rq) now st4 of
                             (Inl e, st5) \<Rightarrow> (Inl e, st5)
                           | (Inr tokens, st5) \<Rightarrow>
                               if ld_rememberDevice data \<and> tu_twoFactorEnabled refreshedUser \<and> \<not> trustedDeviceAccepted
                               then (case rememberDevice (cr_sha cr) (cf_env cfg ''TRUSTED_DEVICE_TTL_DAYS'') (rn_deviceToken rn)
                                            (rn_deviceId rn) (tu_id refreshedUser)
                                            \<lparr>ro_label = None, ro_userAgent = re_userAgent rq, ro_ipAddress = re_ipAddress rq\<rparr> now
                                            (as_devices st5) of
                                       (Inl e, ds) \<Rightarrow> (Inl e, st5\<lparr>as_devices := ds\<rparr>)
                                     | (Inr dev, ds) \<Rightarrow>
                                         (Inr \<lparr>lr_user = refreshedUser, lr_tokens = tokens, lr_trustedDevice = Some dev\<rparr>,
                                          st5\<lparr>as_devices := ds\<rparr>))
                               else (Inr \<lparr>lr_user = refreshedUser, lr_tokens = tokens, lr_trustedDevice = None\<rparr>, st5))))"

definition login ::
  "'tok jwt_lib \<Rightarrow> crypto \<Rightarrow> auth_config \<Rightarrow> request_env \<Rightarrow> login_random \<Rightarrow> (bool \<times> rat option) option \<Rightarrow> login_dto \<Rightarrow> time \<Rightarrow>
   account_state \<Rightarrow> ('tok login_result, account_state) outcome" where
  "login J cr cfg rq rn captcha data now st =
     (case preflightChecks cfg rq captcha data now st of
        (Inl e, st1) \<Rightarrow> (Inl e, st1)
      | (Inr _, st1) \<Rightarrow>
          (case find_user_by_email (ld_email data) st1 of
             None \<Rightarrow> (Inl (Unauthorized ''Invalid credentials''), snd (record_failure cfg rq (ld_email data) now st1))
           | Some user \<Rightarrow>
               (case verifyCredentials cr cfg rq user (ld_password data) now st1 of
                  (Inl e, st2) \<Rightarrow> (Inl e, st2)
                | (Inr _, st2) \<Rightarrow>
                    (let (trusted, devices) =
                           (if tu_twoFactorEnabled user
                            then isTrustedDevice (cr_sha cr) (rn_touchOk rn) (tu_id user) (ld_trustedDeviceToken data) now (as_devices st2)
                            else (False, as_devices st2));
                         st3 = st2\<lparr>as_devices := devices\<rparr>
                     in if tu_twoFactorEnabled user \<and> \<not> trusted
                        then (case login_second_factor cr data user now st3 of
                                (Inl e, st4) \<Rightarrow> (Inl e, st4)
                              | (Inr _, st4) \<Rightarrow> login_finish J cr cfg rq rn data user trusted now st4)
                        else login_finish J cr cfg rq rn data user trusted now st3))))"

subsection \<open>Registration and mail verification\<close>

text \<open>\<open>registrationIpMap\<close>, in insertion order.\<close>

definition map_set :: "'k \<Rightarrow> 'v \<Rightarrow> ('k \<times> 'v) list \<Rightarrow> ('k \<times> 'v) list" where
  "map_set k v m = (if k \<in> fst ` set m then map (\<lambda>(k', v'). (k', if k' = k then v else v')) m else m @ [(k, v)])"

definition map_remove :: "'k \<Rightarrow> ('k \<times> 'v) list \<Rightarrow> ('k \<times> 'v) list" where
  "map_remove k m = filter (\<lambda>(k', _). k' \<noteq> k) m"

definition canRegisterFromIp :: "string \<Rightarrow> time \<Rightarrow> account_state \<Rightarrow> bool \<times> account_state" where
  "canRegisterFromIp ipAddress now st =
     (case map_of (as_registrationIps st) ipAddress of
        None \<Rightarrow> (True, st)
      | Some (_, expiresAt) \<Rightarrow>
          if expiresAt < now then (True, st\<lparr>as_registrationIps := map_remove ipAddress (as_registrationIps st)\<rparr>)
          else (False, st))"

definition verification_ms :: "auth_config \<Rightarrow> int" where
  "verification_ms cfg =
     parseDuration (case cf_env cfg ''EMAIL_VERIFICATION_EXPIRES_IN'' of None \<Rightarrow> Some ''24h'' | v \<Rightarrow> v) (24 * 60 * 60) * 1000"

record register_dto =
  rd_email :: string
  rd_password :: string
  rd_firstName :: string
  rd_lastName :: string
  rd_phone :: "string option"

record register_random =
  rr_userId :: string
  rr_entryId :: string
  rr_verificationToken :: string

definition new_user :: "string \<Rightarrow> register_dto \<Rightarrow> string \<Rightarrow> string \<Rightarrow> time \<Rightarrow> time \<Rightarrow> user" where
  "new_user newId data passwordHash verificationToken expiresAt now =
     (blank_user newId (rd_email data) now)\<lparr>us_password := Some passwordHash, us_firstName := rd_firstName data,
       us_lastName := rd_lastName data, us_phone := rd_phone data, us_emailVerificationToken := Some verificationToken,
       us_emailVerificationExpires := Some expiresAt\<rparr>"

definition complexity_error :: "string list \<Rightarrow> http_error" where
  "complexity_error errs = BadRequest (''Password does not meet complexity requirements: '' @ js_join ''; '' errs)"

text \<open>The response carries the user and the verification token.\<close>

definition register ::
  "crypto \<Rightarrow> auth_config \<Rightarrow> register_random \<Rightarrow> register_dto \<Rightarrow> string option \<Rightarrow> time \<Rightarrow> account_state \<Rightarrow>
   (user \<times> string, account_state) outcome" where
  "register cr cfg rr data ipAddress now st =
     (let (allowed, st1) = (if truthy ipAddress then canRegisterFromIp (the ipAddress) now st else (True, st)) in
      if \<not> allowed
      then (Inl (BadRequest ''A registration from this IP is already pending email verification. Please verify your email before registering a new account.''), st1)
      else if find_user_by_email (rd_email data) st1 \<noteq> None
      then (Inl (BadRequest ''A user with that email already exists''), st1)
      else (let passwordErrors = validatePassword (cf_env cfg) (rd_password data) in
        if passwordErrors \<noteq> [] then (Inl (complexity_error passwordErrors), st1)
        else (let passwordHash = cr_hash cr (rd_password data);
                  user = new_user (rr_userId rr) data passwordHash (rr_verificationToken rr) (now + verification_ms cfg) now;
                  st2 = st1\<lparr>as_users := tbl_create user (as_users st1),
                    as_passwords := tbl_create \<lparr>pe_id = rr_entryId rr, pe_userId = rr_userId rr,
                      pe_passwordHash = passwordHash, pe_createdAt = now\<rparr> (as_passwords st1)\<rparr>;
                  st3 = (if truthy ipAddress
                    then st2\<lparr>as_registrationIps := map_set (the ipAddress) (rd_email data, now + verification_ms cfg) (as_registrationIps st2)\<rparr>
                    else st2)
              in (Inr (user, rr_verificationToken rr), st3))))"

definition verifyInitialEmail ::
  "'tok jwt_lib \<Rightarrow> auth_config \<Rightarrow> request_env \<Rightarrow> string \<Rightarrow> time \<Rightarrow> account_state \<Rightarrow>
   (user \<times> 'tok token_pair, account_state) outcome" where
  "verifyInitialEmail J cfg rq token now st =
     (case tbl_find us_emailVerificationToken (Some token) (as_users st) of
        None \<Rightarrow> (Inl (BadRequest ''Invalid or expired verification token''), st)
      | Some user \<Rightarrow>
          if (case us_emailVerificationExpires user of None \<Rightarrow> True | Some ex \<Rightarrow> ex < now)
          then (Inl (BadRequest ''Verification token has expired''),
                update_user (tu_id user) (\<lambda>u. u\<lparr>us_emailVerificationToken := None, us_emailVerificationExpires := None\<rparr>) st)
          else if us_isVerified user then (Inl (BadRequest ''Email already verified''), st)
          else (let upd = (\<lambda>u. u\<lparr>us_isVerified := True, us_emailVerificationToken := None, us_emailVerificationExpires := None\<rparr>);
                    st1 = update_user (tu_id user) upd st
                in case issueTokenPair J cfg (re_ids rq) (upd user) None (re_ipAddress rq) (re_userAgent rq) now st1 of
                     (Inl e, st2) \<Rightarrow> (Inl e, st2)
                   | (Inr tokens, st2) \<Rightarrow> (Inr (upd user, tokens), st2)))"

definition resendEmailVerification ::
  "auth_config \<Rightarrow> string \<Rightarrow> string \<Rightarrow> time \<Rightarrow> account_state \<Rightarrow> (unit, account_state) outcome" where
  "resendEmailVerification cfg verificationToken email now st =
     (case find_user_by_email email st of
        None \<Rightarrow> (Inr (), st)
      | Some user \<Rightarrow>
          if us_isBlocked user then (Inr (), st)
          else if us_isVerified user then (Inl (BadRequest ''Email already verified''), st)
          else (Inr (), update_user (tu_id user) (\<lambda>u. u\<lparr>us_emailVerificationToken := Some verificationToken,
                  us_emailVerificationExpires := Some (now + verification_ms cfg)\<rparr>) st))"

record google_profile =
  gp_googleId :: string
  gp_email :: string
  gp_firstName :: string
  gp_lastName :: string
  gp_avatar :: "string option"

definition google_user :: "string \<Rightarrow> google_profile \<Rightarrow> time \<Rightarrow> user" where
  "google_user newId profile now =
     (blank_user newId (gp_email profile) now)\<lparr>us_googleId := Some (gp_googleId profile), us_firstName := gp_firstName profile,
       us_lastName := gp_lastName profile, us_avatar := gp_avatar profile, us_isVerified := True\<rparr>"

definition google_avatar :: "google_profile \<Rightarrow> user \<Rightarrow> string option" where
  "google_avatar profile u = (case us_avatar u of None \<Rightarrow> gp_avatar profile | a \<Rightarrow> a)"

definition googleOAuthLogin ::
  "'tok jwt_lib \<Rightarrow> auth_config \<Rightarrow> issue_ids \<Rightarrow> string \<Rightarrow> google_profile \<Rightarrow> time \<Rightarrow> account_state \<Rightarrow>
   (user \<times> 'tok token_pair, account_state) outcome" where
  "googleOAuthLogin J cfg ids newId profile now st =
     (let (user, st1) =
            (case tbl_find us_googleId (Some (gp_googleId profile)) (as_users st) of
               Some user \<Rightarrow>
                 (let sync = (\<lambda>u. u\<lparr>us_firstName := gp_firstName profile, us_lastName := gp_lastName profile,
                        us_avatar := google_avatar profile user\<rparr>)
                  in (sync user, update_user (tu_id user) sync st))
             | None \<Rightarrow>
                 (case find_user_by_email (gp_email profile) st of
                    Some user \<Rightarrow>
                      (let link = (\<lambda>u. u\<lparr>us_googleId := Some (gp_googleId profile),
                             us_avatar := google_avatar profile user\<rparr>)
                       in (link user, update_user (tu_id user) link st))
                  | None \<Rightarrow>
                      (let user = google_user newId profile now
                       in (user, st\<lparr>as_users := tbl_create user (as_users st)\<rparr>))))
      in case issueTokenPair J cfg ids user None None None now st1 of
           (Inl e, st2) \<Rightarrow> (Inl e, st2)
         | (Inr tokens, st2) \<Rightarrow> (Inr (user, tokens), st2))"

subsection \<open>Two-factor management\<close>

definition setupTwoFactor ::
  "crypto \<Rightarrow> string \<Rightarrow> string list \<Rightarrow> string \<Rightarrow> account_state \<Rightarrow> (string \<times> string list, account_state) outcome" where
  "setupTwoFactor cr secret backupCodes sub st =
     (case find_user sub st of
        None \<Rightarrow> (Inl (NotFound ''User not found''), st)
      | Some user \<Rightarrow>
          (Inr (secret, backupCodes),
           update_user (tu_id user) (\<lambda>u. u\<lparr>tu_twoFactorSecret := Some secret, tu_twoFactorEnabled := False,
             tu_twoFactorBackupCodes := map (cr_sha cr) backupCodes\<rparr>) st))"

definition verifyTwoFactor :: "crypto \<Rightarrow> string \<Rightarrow> string \<Rightarrow> time \<Rightarrow> account_state \<Rightarrow> (unit, account_state) outcome" where
  "verifyTwoFactor cr sub code now st =
     (case find_user sub st of
        None \<Rightarrow> (Inl (BadRequest ''Two-factor authentication has not been initialized''), st)
      | Some user \<Rightarrow>
          if \<not> truthy (tu_twoFactorSecret user)
          then (Inl (BadRequest ''Two-factor authentication has not been initialized''), st)
          else (case verifyTotpCode (cr_hmac cr) (the (tu_twoFactorSecret user)) code 6 30 1 now of
                  None \<Rightarrow> (Inl (InternalError ''RangeError''), st)
                | Some valid \<Rightarrow>
                    if \<not> valid then (Inl (Unauthorized ''Invalid two-factor authentication code''), st)
                    else (Inr (), log_activity sub ''TWO_FACTOR_ENABLED'' ''USER'' sub
                           (update_user (tu_id user) (\<lambda>u. u\<lparr>tu_twoFactorEnabled := True\<rparr>) st))))"

definition clear_two_factor :: "string \<Rightarrow> time \<Rightarrow> account_state \<Rightarrow> account_state" where
  "clear_two_factor userId now st =
     (let st1 = update_user userId (\<lambda>u. u\<lparr>tu_twoFactorEnabled := False, tu_twoFactorSecret := None,
            tu_twoFactorBackupCodes := []\<rparr>) st
      in st1\<lparr>as_devices := snd (revokeAllDevices userId now (as_devices st1))\<rparr>)"

definition disableTwoFactor :: "crypto \<Rightarrow> string \<Rightarrow> string \<Rightarrow> time \<Rightarrow> account_state \<Rightarrow> (unit, account_state) outcome" where
  "disableTwoFactor cr sub password now st =
     (case find_user sub st of
        None \<Rightarrow> (Inl (NotFound ''User not found''), st)
      | Some user \<Rightarrow>
          if \<not> password_matches cr password user then (Inl (Unauthorized ''Password is incorrect''), st)
          else (Inr (), log_activity sub ''TWO_FACTOR_DISABLED'' ''USER'' sub (clear_two_factor (tu_id user) now st)))"

definition AuthService_regenerateRecoveryCodes ::
  "crypto \<Rightarrow> string list \<Rightarrow> string \<Rightarrow> account_state \<Rightarrow> (string list, account_state) outcome" where
  "AuthService_regenerateRecoveryCodes cr codes sub st =
     (case find_user sub st of
        None \<Rightarrow> (Inl (NotFound ''User not found''), st)
      | Some user \<Rightarrow>
          if \<not> tu_twoFactorEnabled user then (Inl (BadRequest ''Two-factor authentication is not enabled''), st)
          else (case regenerateRecoveryCodes (cr_sha cr) codes sub (as_users st) of
                  (Inl e, us) \<Rightarrow> (Inl e, st\<lparr>as_users := us\<rparr>)
                | (Inr recoveryCodes, us) \<Rightarrow>
                    (Inr recoveryCodes, log_activity sub ''TWO_FACTOR_RECOVERY_CODES_REGENERATED'' ''USER'' sub
                       (st\<lparr>as_users := us\<rparr>))))"

definition adminForceDisableTwoFactor :: "string \<Rightarrow> time \<Rightarrow> account_state \<Rightarrow> (string, account_state) outcome" where
  "adminForceDisableTwoFactor email now st =
     (case find_user_by_email (js_lower (js_trim email)) st of
        None \<Rightarrow> (Inl (NotFound ''User not found''), st)
      | Some target \<Rightarrow>
          (Inr (tu_id target), log_activity (tu_id target) ''TWO_FACTOR_ADMIN_FORCE_DISABLED'' ''USER'' (tu_id target)
             (clear_two_factor (tu_id target) now st)))"

subsection \<open>Changing and resetting a password\<close>

text \<open>A limit that is a number but no integer is outside the model.\<close>

definition getPasswordHistoryLimit :: "string option \<Rightarrow> nat" where
  "getPasswordHistoryLimit env =
     (case env of None \<Rightarrow> 5
      | Some s \<Rightarrow> (case js_number_integer s of Some n \<Rightarrow> if 0 < n then nat n else 5 | None \<Rightarrow> 5))"

definition assertPasswordMeetsPolicy :: "auth_config \<Rightarrow> string \<Rightarrow> unit result" where
  "assertPasswordMeetsPolicy cfg newPassword =
     (let passwordErrors = validatePassword (cf_env cfg) newPassword
      in if passwordErrors \<noteq> [] then Inl (complexity_error passwordErrors) else Inr ())"

definition assertPasswordNotReused :: "crypto \<Rightarrow> string \<Rightarrow> string list \<Rightarrow> nat \<Rightarrow> unit result" where
  "assertPasswordNotReused cr newPassword recentHashes historyLimit =
     (if list_ex (\<lambda>hash. cr_compare cr newPassword hash) recentHashes
      then Inl (BadRequest (''Password reuse is not allowed for the last '' @ show_nat historyLimit @ '' passwords''))
      else Inr ())"

text \<open>A user's entries, the latest first.\<close>

definition history_of :: "string \<Rightarrow> account_state \<Rightarrow> password_entry list" where
  "history_of userId st = tbl_desc pe_createdAt (filter (\<lambda>e. pe_userId e = userId) (as_passwords st))"

definition recordPasswordHistory ::
  "string \<Rightarrow> string \<Rightarrow> string \<Rightarrow> nat \<Rightarrow> time \<Rightarrow> account_state \<Rightarrow> account_state" where
  "recordPasswordHistory newId userId passwordHash historyLimit now st =
     (let st1 = st\<lparr>as_passwords := tbl_create \<lparr>pe_id = newId, pe_userId = userId, pe_passwordHash = passwordHash,
            pe_createdAt = now\<rparr> (as_passwords st)\<rparr>;
          expired = drop historyLimit (history_of userId st1)
      in st1\<lparr>as_passwords := tbl_delete_many (\<lambda>e. pe_id e \<in> set (map pe_id expired)) (as_passwords st1)\<rparr>)"

definition changePassword ::
  "crypto \<Rightarrow> auth_config \<Rightarrow> string \<Rightarrow> string \<Rightarrow> string \<Rightarrow> string \<Rightarrow> time \<Rightarrow> account_state \<Rightarrow> (unit, account_state) outcome" where
  "changePassword cr cfg newId sub currentPassword newPassword now st =
     (let historyLimit = getPasswordHistoryLimit (cf_env cfg ''PASSWORD_HISTORY_LIMIT'') in
      case find_user sub st of
        None \<Rightarrow> (Inl (NotFound ''User not found''), st)
      | Some existingUser \<Rightarrow>
          if \<not> password_matches cr currentPassword existingUser
          then (Inl (Unauthorized ''Current password is incorrect''), st)
          else (case assertPasswordMeetsPolicy cfg newPassword of
            Inl e \<Rightarrow> (Inl e, st)
          | Inr _ \<Rightarrow>
              (case assertPasswordNotReused cr newPassword (map pe_passwordHash (take historyLimit (history_of sub st))) historyLimit of
                 Inl e \<Rightarrow> (Inl e, st)
               | Inr _ \<Rightarrow>
                   (let newPasswordHash = cr_hash cr newPassword;
                        st1 = update_user (tu_id existingUser) (\<lambda>u. u\<lparr>us_password := Some newPasswordHash\<rparr>) st;
                        st2 = recordPasswordHistory newId (tu_id existingUser) newPasswordHash historyLimit now st1;
                        st3 = log_activity sub ''PASSWORD_CHANGED'' ''USER'' sub st2;
                        st4 = snd (revokeAllSessions (tu_id existingUser) None now st3)
                    in (Inr (), st4\<lparr>as_devices := snd (revokeAllDevices (tu_id existingUser) now (as_devices st4))\<rparr>)))))"

text \<open>\<open>mail_ok\<close> says whether the retried sending of the mail succeeds; its failure is not caught.\<close>

definition requestPasswordReset ::
  "crypto \<Rightarrow> bool \<Rightarrow> string \<Rightarrow> string \<Rightarrow> string \<Rightarrow> time \<Rightarrow> account_state \<Rightarrow> (unit, account_state) outcome" where
  "requestPasswordReset cr mail_ok newId resetToken email now st =
     (case find_user_by_email email st of
        None \<Rightarrow> (Inr (), st)
      | Some user \<Rightarrow>
          if us_isBlocked user then (Inr (), st)
          else (let resets = tbl_update_many (\<lambda>r. rt_userId r = tu_id user \<and> rt_usedAt r = None \<and> now < rt_expiresAt r)
                      (\<lambda>r. r\<lparr>rt_expiresAt := now\<rparr>) (as_resets st);
                    row = \<lparr>rt_id = newId, rt_userId = tu_id user, rt_token = cr_sha cr resetToken,
                      rt_expiresAt = now + 60 * 60 * 1000, rt_usedAt = None\<rparr>
                in (if mail_ok then Inr () else Inl (InternalError ''mail''),
                    st\<lparr>as_resets := tbl_create row resets\<rparr>)))"

definition resetPassword ::
  "crypto \<Rightarrow> auth_config \<Rightarrow> string \<Rightarrow> string \<Rightarrow> string \<Rightarrow> time \<Rightarrow> account_state \<Rightarrow> (unit, account_state) outcome" where
  "resetPassword cr cfg newId token newPassword now st =
     (case tbl_find rt_token (cr_sha cr token) (as_resets st) of
        None \<Rightarrow> (Inl (BadRequest ''Invalid or expired reset token''), st)
      | Some resetToken \<Rightarrow>
          if rt_usedAt resetToken \<noteq> None then (Inl (BadRequest ''Reset token has already been used''), st)
          else if rt_expiresAt resetToken < now then (Inl (BadRequest ''Reset token has expired''), st)
          else (case find_user (rt_userId resetToken) st of
            None \<Rightarrow> (Inl (InternalError ''Inconsistent query result''), st)
          | Some user \<Rightarrow>
              if us_isBlocked user then (Inl (BadRequest ''Account is blocked''), st)
              else (let historyLimit = getPasswordHistoryLimit (cf_env cfg ''PASSWORD_HISTORY_LIMIT'') in
                case assertPasswordMeetsPolicy cfg newPassword of
                  Inl e \<Rightarrow> (Inl e, st)
                | Inr _ \<Rightarrow>
                    (case assertPasswordNotReused cr newPassword
                            (map pe_passwordHash (take historyLimit (history_of (rt_userId resetToken) st))) historyLimit of
                       Inl e \<Rightarrow> (Inl e, st)
                     | Inr _ \<Rightarrow>
                         (let newPasswordHash = cr_hash cr newPassword;
                              st1 = update_user (rt_userId resetToken) (\<lambda>u. u\<lparr>us_password := Some newPasswordHash\<rparr>) st;
                              st2 = st1\<lparr>as_resets := tbl_update rt_id (rt_id resetToken) (\<lambda>r. r\<lparr>rt_usedAt := Some now\<rparr>) (as_resets st1)\<rparr>;
                              st3 = recordPasswordHistory newId (rt_userId resetToken) newPasswordHash historyLimit now st2
                          in (Inr (), snd (revokeAllSessions (rt_userId resetToken) None now st3)))))))"

text \<open>The answer of \<open>getLoginStatus\<close>: locked, failed attempts, may try to log in.\<close>

definition getLoginStatus :: "auth_config \<Rightarrow> string \<Rightarrow> time \<Rightarrow> account_state \<Rightarrow> bool \<times> nat \<times> bool" where
  "getLoginStatus cfg email now st =
     (case getLockoutInfo (login_config_of (cf_env cfg)) email now (as_attempts st) of
        None \<Rightarrow> (False, 0, True)
      | Some li \<Rightarrow> (li_isLocked li, li_failedAttempts li, \<not> li_isLocked li))"

definition AuthService_unlockAccount :: "string \<Rightarrow> time \<Rightarrow> account_state \<Rightarrow> account_state" where
  "AuthService_unlockAccount email now st = st\<lparr>as_attempts := unlockAccount email now (as_attempts st)\<rparr>"

end
