(* ===== verification/Fraud_Frame.thy ===== *)
theory Fraud_Frame
  imports Fraud
begin

text \<open>
  What the fraud service leaves alone.  Its operations write alerts, notes, the activity log, notices and the
  block flag of a user, and \<open>recordLoginContext\<close> also columns of session rows.  Whatever part of the state does
  not depend on those (a \<open>fraud_frame\<close>, a \<open>session_frame\<close>) is the same after every operation of the service; the
  interpretations are the parts the authentication service relies on.
\<close>

locale fraud_frame =
  fixes obs :: "account_state \<Rightarrow> 'x"
  assumes obs_alerts: "obs (st\<lparr>as_alerts := x\<rparr>) = obs st"
    and obs_notes: "obs (st\<lparr>as_notes := n\<rparr>) = obs st"
    and obs_activity: "obs (st\<lparr>as_activity := v\<rparr>) = obs st"
    and obs_notices: "obs (st\<lparr>as_notices := w\<rparr>) = obs st"
    and obs_block: "obs (update_user u (\<lambda>r. r\<lparr>us_isBlocked := True\<rparr>) st) = obs st"
begin

lemma obs_deliver: "obs (deliverMultiChannelNotifications r a e p st) = obs st"
  by (simp add: deliverMultiChannelNotifications_def notifySecurityTeam_def Let_def obs_notices split: option.split)

lemma obs_blockUser: "obs (snd (blockUserForFraud u i b c st)) = obs st"
  by (simp add: blockUserForFraud_def Let_def log_activity_def obs_alerts obs_notes obs_activity obs_block)

lemma obs_createOrUpdate: "obs (snd (createOrUpdateAlert r ids p now st)) = obs st"
proof -
  have *: "obs (snd (case blockUserForFraud u i b c s of (Inl e, s') \<Rightarrow> (Inl e, s') | (Inr x, s') \<Rightarrow> (Inr a, s'))) = obs s"
    for u i b c s and a :: fraud_alert
    using obs_blockUser [of u i b c s] by (auto split: prod.split sum.split)
  show ?thesis
    by (auto simp: createOrUpdateAlert_def Let_def * obs_deliver obs_alerts obs_activity log_activity_def split: option.split)
qed

lemma obs_raise: "obs (snd (raise r ids now p st)) = obs st"
  using obs_createOrUpdate [of r ids p now st] by (auto simp: raise_def split: prod.split sum.split)

lemma obs_and_then: "(\<And>s. obs (snd (f s)) = obs s) \<Longrightarrow> obs (snd (and_then r f)) = obs (snd r)"
proof -
  assume f: "\<And>s. obs (snd (f s)) = obs s"
  obtain x s where r: "r = (x, s)" by (cases r)
  obtain y s' where y: "f s = (y, s')" by (cases "f s")
  then have "obs s' = obs s" using f [of s] by simp
  then show ?thesis by (auto simp: and_then_def r y split: sum.split option.split)
qed

lemma obs_failed_login: "obs (snd (evaluateFailedLogin r ids email now st)) = obs st"
  by (simp add: evaluateFailedLogin_def Let_def obs_raise split: option.split)

lemma obs_successful_login: "obs (snd (evaluateSuccessfulLogin r ids u ip ua now st)) = obs st"
  unfolding evaluateSuccessfulLogin_def Let_def by (simp add: obs_and_then obs_raise)

lemma obs_token_reuse: "obs (snd (Fraud_handleTokenReuse r ids u jti now st)) = obs st"
  by (simp add: Fraud_handleTokenReuse_def Let_def obs_createOrUpdate)

lemma obs_velocity: "obs (snd (evaluateVelocity r ids u ip now st)) = obs st"
  by (simp add: evaluateVelocity_def Let_def obs_raise)

lemma obs_travel: "obs (snd (evaluateImpossibleTravel r ids u c now st)) = obs st"
  by (simp add: evaluateImpossibleTravel_def Let_def obs_raise)

lemma obs_fingerprint: "obs (snd (evaluateDeviceFingerprint r ids u fp now st)) = obs st"
  by (simp add: evaluateDeviceFingerprint_def Let_def obs_raise)

end

locale session_frame = fraud_frame +
  assumes obs_sessions: "obs (st\<lparr>ss_sessions := x\<rparr>) = obs st"
begin

lemma obs_update_sessions: "obs (update_sessions_of u j f st) = obs st"
  by (simp add: update_sessions_of_def obs_sessions)

lemma obs_login_context: "obs (snd (recordLoginContext r ids u input now st)) = obs st"
proof -
  have *: "obs (snd (case x of (Inl e, s) \<Rightarrow> (Inl e, s)
      | (Inr as, s) \<Rightarrow> (Inr as, if c as then update_sessions_of u j f s else s))) = obs (snd x)"
    for x :: "(fraud_alert list, account_state) outcome" and c j f
    by (simp add: obs_update_sessions split: prod.split sum.split)
  show ?thesis
    unfolding recordLoginContext_def Let_def *
    by (simp add: obs_and_then obs_velocity obs_travel obs_fingerprint obs_update_sessions)
qed

end

text \<open>The tables of the other services, and of a user row every column but the block flag.\<close>

interpretation blacklist_frame: session_frame ss_blacklist
  by unfold_locales simp_all

interpretation attempts_frame: session_frame as_attempts
  by unfold_locales simp_all

interpretation devices_frame: session_frame as_devices
  by unfold_locales simp_all

interpretation resets_frame: session_frame as_resets
  by unfold_locales simp_all

interpretation passwords_frame: session_frame as_passwords
  by unfold_locales simp_all

definition unblocked :: "user \<Rightarrow> user" where
  "unblocked u = u\<lparr>us_isBlocked := False\<rparr>"

definition unblocked_user :: "string \<Rightarrow> account_state \<Rightarrow> user option" where
  "unblocked_user v st = map_option unblocked (find_user v st)"

interpretation user_frame: session_frame "unblocked_user v" for v
  by unfold_locales (simp_all add: unblocked_user_def find_update_user, simp_all add: find_user_def unblocked_def [abs_def] option.map_comp o_def)

end
