(* ===== verification/Account_Security.thy ===== *)
theory Account_Security
  imports Auth_Accounts Fraud_Frame
begin

text \<open>
  What the account operations of theory \<open>Auth_Accounts\<close> guarantee: the factors a login needs, the life of a
  password and its history, of a reset token and of a verification token.
\<close>

subsection \<open>What a login proves\<close>

definition second_factor_given :: "crypto \<Rightarrow> login_dto \<Rightarrow> user \<Rightarrow> time \<Rightarrow> account_state \<Rightarrow> bool" where
  "second_factor_given cr data user now st \<longleftrightarrow>
     fst (isTrustedDevice (cr_sha cr) True (tu_id user) (ld_trustedDeviceToken data) now (as_devices st))
     \<or> (\<exists>secret code. tu_twoFactorSecret user = Some secret \<and> ld_totpCode data = Some code
         \<and> verifyTotpCode (cr_hmac cr) secret code 6 30 1 now = Some True)
     \<or> (\<exists>code. ld_backupCode data = Some code \<and> verifyBackupCode (cr_sha cr) code (tu_twoFactorBackupCodes user) \<noteq> None)"

lemma preflight_ok:
  assumes "preflightChecks cfg rq captcha data now st = (Inr (), st')"
  shows "\<not> isAccountLocked (ld_email data) now (as_attempts st) \<and> st' = st"
  using assms unfolding preflightChecks_def Let_def by (auto split: if_splits option.splits sum.splits)

lemma credentials_ok:
  assumes "verifyCredentials cr cfg rq user password now st = (Inr (), st')"
  shows "\<not> us_isBlocked user \<and> \<not> us_isDeactivated user \<and> us_isVerified user \<and> password_matches cr password user \<and> st' = st"
  using assms unfolding verifyCredentials_def Let_def by (auto split: if_splits prod.splits sum.splits)

lemma isTrustedDevice_touch: "fst (isTrustedDevice sha b u tok now ds) = fst (isTrustedDevice sha True u tok now ds)"
  by (auto simp: isTrustedDevice_def Let_def split: option.split)

lemma second_factor_ok:
  assumes "login_second_factor cr data user now st = (Inr (), st')"
  shows "(\<exists>secret code. tu_twoFactorSecret user = Some secret \<and> ld_totpCode data = Some code
         \<and> verifyTotpCode (cr_hmac cr) secret code 6 30 1 now = Some True)
     \<or> (\<exists>code. ld_backupCode data = Some code \<and> verifyBackupCode (cr_sha cr) code (tu_twoFactorBackupCodes user) \<noteq> None)"
  using assms unfolding login_second_factor_def Let_def truthy_def by (auto split: if_splits option.splits bool.splits)

lemma login_finish_user:
  assumes "login_finish J cr cfg rq rn data user b now st = (Inr res, st')"
  shows "tu_id (lr_user res) = tu_id user \<and> \<not> us_isBlocked (lr_user res)"
proof -
  obtain r3 st3 where e: "evaluateSuccessfulLogin (re_recipients rq) (re_alertIds rq) (tu_id user) (re_ipAddress rq)
      (re_userAgent rq) now (recordLoginHistory (tu_id user) rq now
        (st\<lparr>as_attempts := recordSuccessfulAttempt (ld_email data) (re_ipAddress rq) (re_userAgent rq) now (as_attempts st)\<rparr>)) = (r3, st3)"
    by fastforce
  obtain r4 st4 where c: "recordLoginContext (re_recipients rq) (re_alertIds rq) (tu_id user)
      \<lparr>lc_ipAddress = re_ipAddress rq, lc_geo = None, lc_fingerprint = None, lc_accessTokenJti = None\<rparr> now st3 = (r4, st4)"
    by fastforce
  show ?thesis
    using assms find_user_id [of "tu_id user" st4] unfolding login_finish_def Let_def e c
    by (auto split: sum.splits prod.splits option.splits if_splits simp: c)
qed

definition example_crypto :: crypto where
  "example_crypto = \<lparr>cr_sha = (\<lambda>s. CHR ''#'' # s), cr_hmac = (\<lambda>_ _. []), cr_hash = (\<lambda>s. CHR ''$'' # s),
     cr_compare = (\<lambda>p h. h = CHR ''$'' # p)\<rparr>"

definition example_login :: login_dto where
  "example_login = \<lparr>ld_email = ''ann@example.org'', ld_password = ''pw'', ld_captchaToken = None, ld_totpCode = None,
     ld_backupCode = Some ''code1'', ld_trustedDeviceToken = None, ld_rememberDevice = False\<rparr>"

definition example_random :: login_random where
  "example_random = \<lparr>rn_deviceToken = ''dt'', rn_deviceId = ''d1'', rn_touchOk = True\<rparr>"

text \<open>A user with a second factor and one recovery code.\<close>

definition example_factor_user :: user where
  "example_factor_user = example_user\<lparr>us_password := Some ''$pw'', tu_twoFactorEnabled := True,
     tu_twoFactorSecret := Some ''ABCD'', tu_twoFactorBackupCodes := [''#CODE1'']\<rparr>"

definition example_factor_state :: account_state where
  "example_factor_state = example_account_state\<lparr>as_users := [example_factor_user]\<rparr>"

lemma example_login_succeeds:
  "map_prod (\<lambda>r. case r of Inl _ \<Rightarrow> None | Inr x \<Rightarrow> Some (tu_id (lr_user x))) (\<lambda>st. map tu_twoFactorBackupCodes (as_users st))
     (login example_jwt example_crypto example_config example_request example_random None example_login 0 example_factor_state)
   = (Some ''u1'', [[]])"
  by code_simp

subsection \<open>The second factor\<close>

lemma login_second_step:
  assumes "preflightChecks cfg rq captcha data now st = (Inr (), st)"
    and "find_user_by_email (ld_email data) st = Some user"
    and "verifyCredentials cr cfg rq user (ld_password data) now st = (Inr (), st)"
    and "tu_twoFactorEnabled user"
    and "isTrustedDevice (cr_sha cr) (rn_touchOk rn) (tu_id user) (ld_trustedDeviceToken data) now (as_devices st) = (False, ds)"
  shows "login J cr cfg rq rn captcha data now st =
    (case login_second_factor cr data user now (st\<lparr>as_devices := ds\<rparr>) of
       (Inl e, st4) \<Rightarrow> (Inl e, st4)
     | (Inr _, st4) \<Rightarrow> login_finish J cr cfg rq rn data user False now st4)"
  using assms by (simp add: login_def)

lemma login_stages:
  assumes "login J cr cfg rq rn captcha data now st = (Inr res, st')" and "find_user_by_email (ld_email data) st = Some user"
  shows "preflightChecks cfg rq captcha data now st = (Inr (), st)"
    and "verifyCredentials cr cfg rq user (ld_password data) now st = (Inr (), st)"
proof -
  obtain r1 st1 where pre: "preflightChecks cfg rq captcha data now st = (r1, st1)" by fastforce
  then have r1: "r1 = Inr ()" using assms by (cases r1) (simp_all add: login_def)
  note ok = preflight_ok [OF pre [unfolded r1]]
  show "preflightChecks cfg rq captcha data now st = (Inr (), st)" using pre r1 ok by simp
  obtain r2 st2 where cred: "verifyCredentials cr cfg rq user (ld_password data) now st = (r2, st2)" by fastforce
  then have r2: "r2 = Inr ()" using assms ok by (cases r2) (simp_all add: login_def pre r1)
  then show "verifyCredentials cr cfg rq user (ld_password data) now st = (Inr (), st)"
    using credentials_ok [OF cred [unfolded r2]] cred by simp
qed

lemma login_has_user:
  "login J cr cfg rq rn captcha data now st = (Inr res, st') \<Longrightarrow> \<exists>user. find_user_by_email (ld_email data) st = Some user"
proof (rule ccontr)
  assume l: "login J cr cfg rq rn captcha data now st = (Inr res, st')"
    and n: "\<not> (\<exists>user. find_user_by_email (ld_email data) st = Some user)"
  obtain r1 st1 where pre: "preflightChecks cfg rq captcha data now st = (r1, st1)" by fastforce
  then have r1: "r1 = Inr ()" using l by (cases r1) (simp_all add: login_def)
  show False using l n preflight_ok [OF pre [unfolded r1]] by (simp add: login_def pre r1)
qed

lemma issue_unblocked: "unblocked_user v (snd (issueTokenPair J cfg ids user fam ip ua now st)) = unblocked_user v st"
  using issueTokenPair_cases [of J cfg ids user fam ip ua now st]
  by (cases "issueTokenPair J cfg ids user fam ip ua now st") (auto simp: unblocked_user_def find_user_def)

text \<open>What follows the second factor changes no column of a user row but the block flag.\<close>

lemma login_finish_users: "unblocked_user v (snd (login_finish J cr cfg rq rn data user b now st)) = unblocked_user v st"
proof -
  define s2 where "s2 = recordLoginHistory (tu_id user) rq now
    (st\<lparr>as_attempts := recordSuccessfulAttempt (ld_email data) (re_ipAddress rq) (re_userAgent rq) now (as_attempts st)\<rparr>)"
  obtain r3 st3 where e: "evaluateSuccessfulLogin (re_recipients rq) (re_alertIds rq) (tu_id user) (re_ipAddress rq)
      (re_userAgent rq) now s2 = (r3, st3)" by fastforce
  obtain r4 st4 where c: "recordLoginContext (re_recipients rq) (re_alertIds rq) (tu_id user)
      \<lparr>lc_ipAddress = re_ipAddress rq, lc_geo = None, lc_fingerprint = None, lc_accessTokenJti = None\<rparr> now st3 = (r4, st4)"
    by fastforce
  have s2: "unblocked_user v s2 = unblocked_user v st"
    by (simp add: s2_def recordLoginHistory_def unblocked_user_def find_user_def)
  have s3: "unblocked_user v st3 = unblocked_user v st"
    using user_frame.obs_successful_login [of v "re_recipients rq" "re_alertIds rq" "tu_id user" "re_ipAddress rq" "re_userAgent rq" now s2]
    by (simp add: e s2)
  then have s4: "unblocked_user v st4 = unblocked_user v st"
    using user_frame.obs_login_context [of v "re_recipients rq" "re_alertIds rq" "tu_id user"
      "\<lparr>lc_ipAddress = re_ipAddress rq, lc_geo = None, lc_fingerprint = None, lc_accessTokenJti = None\<rparr>" now st3] by (simp add: c)
  have dev: "unblocked_user v (s\<lparr>as_devices := d\<rparr>) = unblocked_user v s" for s d
    by (simp add: unblocked_user_def find_user_def)
  have issue: "unblocked_user v s5 = unblocked_user v st"
    if "issueTokenPair J cfg (re_ids rq) u None (re_ipAddress rq) (re_userAgent rq) now st4 = (x, s5)" for u x s5
    using issue_unblocked [of v J cfg "re_ids rq" u None "re_ipAddress rq" "re_userAgent rq" now st4] that s4 by simp
  show ?thesis
    unfolding login_finish_def Let_def s2_def [symmetric] e
    by (auto split: sum.split prod.split option.split simp: c s3 s4 dev dest: issue)
qed

text \<open>C1: Nobody logs in without every factor: a login succeeds only for the account of the given mail address, while
  that address is not locked, with the account's password, if the account is verified and neither blocked nor
  deactivated, and, where a second factor is enabled, with a trusted device, a current code or a recovery code.\<close>

theorem login_requires_all_factors:
  assumes "login J cr cfg rq rn captcha data now st = (Inr res, st')"
  shows "\<exists>user. find_user_by_email (ld_email data) st = Some user \<and> tu_id (lr_user res) = tu_id user
    \<and> \<not> isAccountLocked (ld_email data) now (as_attempts st) \<and> password_matches cr (ld_password data) user
    \<and> us_isVerified user \<and> \<not> us_isBlocked user \<and> \<not> us_isDeactivated user \<and> \<not> us_isBlocked (lr_user res)
    \<and> (tu_twoFactorEnabled user \<longrightarrow> second_factor_given cr data user now st)"
proof -
  obtain user where user: "find_user_by_email (ld_email data) st = Some user" using login_has_user [OF assms] by blast
  note stages = login_stages [OF assms user]
  let ?fin = "\<lambda>b s. login_finish J cr cfg rq rn data user b now s = (Inr res, st')"
  consider (single) b s where "?fin b s" "\<not> tu_twoFactorEnabled user"
    | (trusted) b s where "?fin b s" "fst (isTrustedDevice (cr_sha cr) (rn_touchOk rn) (tu_id user) (ld_trustedDeviceToken data) now (as_devices st))"
    | (factor) b s s' where "?fin b s'" "login_second_factor cr data user now s = (Inr (), s')"
    using assms user by (auto simp: login_def stages Let_def split: if_splits prod.splits sum.splits)
  then have "tu_id (lr_user res) = tu_id user \<and> \<not> us_isBlocked (lr_user res)
      \<and> (tu_twoFactorEnabled user \<longrightarrow> second_factor_given cr data user now st)"
  proof cases
    case single
    then show ?thesis using login_finish_user [OF single(1)] by simp
  next
    case trusted
    then show ?thesis
      using login_finish_user [OF trusted(1)] isTrustedDevice_touch [of _ "rn_touchOk rn"]
      by (simp add: second_factor_given_def)
  next
    case factor
    then show ?thesis
      using login_finish_user [OF factor(1)] second_factor_ok [OF factor(2)] by (simp add: second_factor_given_def)
  qed
  then show ?thesis using user preflight_ok [OF stages(1)] credentials_ok [OF stages(2)] by blast
qed

theorem login_requires_all_factors_witness:
  "password_matches example_crypto ''pw'' example_factor_user \<and> second_factor_given example_crypto example_login example_factor_user 0 example_factor_state"
proof -
  obtain r st' where run: "login example_jwt example_crypto example_config example_request example_random None example_login 0
      example_factor_state = (r, st')" by fastforce
  then obtain res where "r = Inr res" using example_login_succeeds by (cases r) simp_all
  note all = login_requires_all_factors [OF run [unfolded this]]
  have "find_user_by_email (ld_email example_login) example_factor_state = Some example_factor_user" by code_simp
  moreover have "tu_twoFactorEnabled example_factor_user" "ld_password example_login = ''pw''"
    by (simp_all add: example_factor_user_def example_login_def)
  ultimately show ?thesis using all by auto
qed

text \<open>A recovery code logs in once: a login that is answered by a recovery code removes exactly its hash from the
  account, so that the code is not accepted again while every other one still is.\<close>

theorem login_consumes_recovery_code:
  assumes "login J cr cfg rq rn captcha data now st = (Inr res, st')"
    and "find_user_by_email (ld_email data) st = Some user" and "find_user (tu_id user) st = Some user"
    and "tu_twoFactorEnabled user" and "ld_trustedDeviceToken data = None" and "ld_totpCode data = None"
    and "ld_backupCode data = Some code"
  shows "\<exists>h user'. verifyBackupCode (cr_sha cr) code (tu_twoFactorBackupCodes user) = Some h
    \<and> find_user (tu_id user) st' = Some user'
    \<and> tu_twoFactorBackupCodes user' = filter (\<lambda>c. c \<noteq> h) (tu_twoFactorBackupCodes user)
    \<and> verifyBackupCode (cr_sha cr) code (tu_twoFactorBackupCodes user') = None"
proof -
  note pre = login_stages(1) [OF assms(1,2)] and cred = login_stages(2) [OF assms(1,2)]
  have untrusted: "isTrustedDevice (cr_sha cr) (rn_touchOk rn) (tu_id user) (ld_trustedDeviceToken data) now (as_devices st)
      = (False, as_devices st)" by (simp add: assms(5) isTrustedDevice_def)
  have step: "(case login_second_factor cr data user now st of (Inl e, s) \<Rightarrow> (Inl e, s)
      | (Inr _, s) \<Rightarrow> login_finish J cr cfg rq rn data user False now s) = (Inr res, st')"
    using login_second_step [OF pre assms(2) cred assms(4) untrusted, of J] assms(1) by simp
  then obtain s where factor: "login_second_factor cr data user now st = (Inr (), s)"
      and fin: "login_finish J cr cfg rq rn data user False now s = (Inr res, st')"
    by (auto split: prod.splits sum.splits)
  obtain h where h: "verifyBackupCode (cr_sha cr) code (tu_twoFactorBackupCodes user) = Some h"
      and s: "s = update_user (tu_id user) (\<lambda>u. u\<lparr>tu_twoFactorBackupCodes := filter (\<lambda>c. c \<noteq> h) (tu_twoFactorBackupCodes user)\<rparr>) st"
    using factor assms(6,7) by (auto simp: login_second_factor_def Let_def split: option.splits if_splits)
  have "find_user (tu_id user) s = Some (user\<lparr>tu_twoFactorBackupCodes := filter (\<lambda>c. c \<noteq> h) (tu_twoFactorBackupCodes user)\<rparr>)"
    by (simp add: s find_update_user assms(3))
  then have "unblocked_user (tu_id user) st' = Some (unblocked (user\<lparr>tu_twoFactorBackupCodes := filter (\<lambda>c. c \<noteq> h) (tu_twoFactorBackupCodes user)\<rparr>))"
    using login_finish_users [of "tu_id user" J cr cfg rq rn data user False now s] fin by (simp add: unblocked_user_def)
  then obtain user' where user': "find_user (tu_id user) st' = Some user'"
      and "unblocked user' = unblocked (user\<lparr>tu_twoFactorBackupCodes := filter (\<lambda>c. c \<noteq> h) (tu_twoFactorBackupCodes user)\<rparr>)"
    by (auto simp: unblocked_user_def)
  then have "tu_twoFactorBackupCodes user' = filter (\<lambda>c. c \<noteq> h) (tu_twoFactorBackupCodes user)"
    by (cases user', cases user) (simp add: unblocked_def)
  moreover have "verifyBackupCode (cr_sha cr) code (filter (\<lambda>c. c \<noteq> h) (tu_twoFactorBackupCodes user)) = None"
    using h by (auto simp: verifyBackupCode_def Let_def find_None_iff find_Some_iff)
  ultimately show ?thesis using h user' by simp
qed

theorem login_consumes_recovery_code_witness:
  "\<exists>r st' user'. login example_jwt example_crypto example_config example_request example_random None example_login 0 example_factor_state
      = (Inr r, st') \<and> find_user ''u1'' st' = Some user' \<and> tu_twoFactorBackupCodes user' = []"
proof -
  obtain r st' where run: "login example_jwt example_crypto example_config example_request example_random None example_login 0
      example_factor_state = (r, st')" by fastforce
  then obtain res where r: "r = Inr res" using example_login_succeeds by (cases r) simp_all
  have find: "find_user_by_email (ld_email example_login) example_factor_state = Some example_factor_user"
    "find_user (tu_id example_factor_user) example_factor_state = Some example_factor_user" by code_simp+
  have flags: "tu_twoFactorEnabled example_factor_user" "ld_trustedDeviceToken example_login = None"
    "ld_totpCode example_login = None" "ld_backupCode example_login = Some ''code1''"
    "tu_id example_factor_user = ''u1''" "tu_twoFactorBackupCodes example_factor_user = [''#CODE1'']"
    by (simp_all add: example_factor_user_def example_user_def example_login_def)
  have "verifyBackupCode (cr_sha example_crypto) ''code1'' [''#CODE1''] = Some ''#CODE1''" by code_simp
  then show ?thesis
    using login_consumes_recovery_code [OF run [unfolded r] find flags(1-4)] run r flags(5,6) by auto
qed

text \<open>Wrong second factors are never counted: a login whose password is right but whose second factor is not fails
  without a trace in the login attempts, so that no number of guesses at the code locks the account.\<close>

theorem second_factor_failures_not_counted:
  assumes "preflightChecks cfg rq captcha data now st = (Inr (), st)"
    and "find_user_by_email (ld_email data) st = Some user"
    and "verifyCredentials cr cfg rq user (ld_password data) now st = (Inr (), st)"
    and "tu_twoFactorEnabled user" and "\<not> second_factor_given cr data user now st"
  shows "\<exists>e st'. login J cr cfg rq rn captcha data now st = (Inl e, st') \<and> as_attempts st' = as_attempts st
    \<and> as_alerts st' = as_alerts st"
proof -
  obtain b ds where trust: "isTrustedDevice (cr_sha cr) (rn_touchOk rn) (tu_id user) (ld_trustedDeviceToken data) now (as_devices st) = (b, ds)"
    by fastforce
  have b: "b = False"
    using assms(5) isTrustedDevice_touch [of "cr_sha cr" "rn_touchOk rn" "tu_id user" "ld_trustedDeviceToken data" now "as_devices st"]
    by (auto simp: second_factor_given_def trust)
  obtain r s where factor: "login_second_factor cr data user now (st\<lparr>as_devices := ds\<rparr>) = (r, s)" by fastforce
  have "r \<noteq> Inr ()"
    using assms(5) second_factor_ok [of cr data user now "st\<lparr>as_devices := ds\<rparr>" s] factor
    by (auto simp: second_factor_given_def)
  then obtain e where e: "r = Inl e" by (cases r) auto
  then have "as_attempts s = as_attempts st \<and> as_alerts s = as_alerts st"
    using factor unfolding login_second_factor_def Let_def by (auto split: if_splits option.splits bool.splits)
  then show ?thesis
    using login_second_step [OF assms(1-4) trust [unfolded b], of J] factor e by simp
qed

theorem second_factor_failures_not_counted_witness:
  "\<exists>e st'. login example_jwt example_crypto example_config example_request example_random None
      (example_login\<lparr>ld_backupCode := Some ''wrong''\<rparr>) 0 example_factor_state = (Inl e, st') \<and> as_attempts st' = []"
proof -
  let ?d = "example_login\<lparr>ld_backupCode := Some ''wrong''\<rparr>"
  have "preflightChecks example_config example_request None ?d 0 example_factor_state = (Inr (), example_factor_state)" by code_simp
  moreover have "find_user_by_email (ld_email ?d) example_factor_state = Some example_factor_user" by code_simp
  moreover have "verifyCredentials example_crypto example_config example_request example_factor_user (ld_password ?d) 0 example_factor_state
      = (Inr (), example_factor_state)" by code_simp
  moreover have "tu_twoFactorEnabled example_factor_user" by (simp add: example_factor_user_def)
  moreover have "verifyBackupCode (cr_sha example_crypto) ''wrong'' (tu_twoFactorBackupCodes example_factor_user) = None" by code_simp
  then have "\<not> second_factor_given example_crypto ?d example_factor_user 0 example_factor_state"
    by (simp add: second_factor_given_def example_login_def isTrustedDevice_def)
  ultimately have "\<exists>e st'. login example_jwt example_crypto example_config example_request example_random None ?d 0 example_factor_state
      = (Inl e, st') \<and> as_attempts st' = as_attempts example_factor_state \<and> as_alerts st' = as_alerts example_factor_state"
    by (rule second_factor_failures_not_counted)
  moreover have "as_attempts example_factor_state = []" by (simp add: example_factor_state_def example_account_state_def)
  ultimately show ?thesis by auto
qed

end
