(* ===== verification/Password_Life.thy ===== *)
theory Password_Life
  imports Account_Security
begin

text \<open>
  The life of a password: the bounded history that keeps recent passwords from coming back, the accesses a
  change ends, and the reset tokens.
\<close>

subsection \<open>The password history\<close>

lemma tbl_desc_latest: "(\<And>x. x \<in> set t \<Longrightarrow> f x < f r) \<Longrightarrow> tbl_desc f (t @ [r]) = r # tbl_desc f t"
proof (induction t)
  case (Cons a t)
  then have "f a < f r" "sort_key (\<lambda>r. - f r) (t @ [r]) = r # sort_key (\<lambda>r. - f r) t" by (simp_all add: tbl_desc_def)
  then show ?case by (simp add: tbl_desc_def not_le)
qed (simp add: tbl_desc_def)

lemma filter_not_in_drop:
  "distinct (map f xs) \<Longrightarrow> filter (\<lambda>x. f x \<notin> f ` set (drop n xs)) xs = take n xs"
proof -
  assume d: "distinct (map f xs)"
  have disj: "f ` set (take n xs) \<inter> f ` set (drop n xs) = {}"
    using d by (metis append_take_drop_id distinct_append map_append set_map)
  have "filter (\<lambda>x. f x \<notin> f ` set (drop n xs)) (take n xs @ drop n xs) = take n xs"
    unfolding filter_append using disj by (subst filter_True, fastforce, subst filter_False, auto)
  then show ?thesis by simp
qed

text \<open>The rows of the history: identifiers are unique, and everything recorded lies before \<open>now\<close>.\<close>

definition history_ok :: "time \<Rightarrow> account_state \<Rightarrow> bool" where
  "history_ok now st \<longleftrightarrow> distinct (map pe_id (as_passwords st)) \<and> (\<forall>e \<in> set (as_passwords st). pe_createdAt e < now)"

lemma distinct_history: "distinct (map pe_id (as_passwords st)) \<Longrightarrow> distinct (map pe_id (history_of u st))"
  using distinct_map_filter [of pe_id "as_passwords st" "\<lambda>e. pe_userId e = u"]
  by (simp add: history_of_def tbl_desc_def distinct_map)

lemma recordPasswordHistory_history:
  assumes "history_ok now st" and "newId \<notin> pe_id ` set (as_passwords st)"
  shows "history_of v (recordPasswordHistory newId u h k now st) =
    (if v = u then take k (\<lparr>pe_id = newId, pe_userId = u, pe_passwordHash = h, pe_createdAt = now\<rparr> # history_of u st)
     else history_of v st)"
proof -
  define r where "r = \<lparr>pe_id = newId, pe_userId = u, pe_passwordHash = h, pe_createdAt = now\<rparr>"
  define st1 where "st1 = st\<lparr>as_passwords := tbl_create r (as_passwords st)\<rparr>"
  have h1: "history_of u st1 = r # history_of u st"
    using assms(1) tbl_desc_latest [of "filter (\<lambda>e. pe_userId e = u) (as_passwords st)" pe_createdAt r]
    by (simp add: history_of_def st1_def tbl_create_def history_ok_def r_def)
  have d1: "distinct (map pe_id (as_passwords st1))"
    using assms by (simp add: st1_def tbl_create_def r_def history_ok_def)
  have run: "history_of v (recordPasswordHistory newId u h k now st)
      = filter (\<lambda>e. pe_id e \<notin> pe_id ` set (drop k (history_of u st1))) (history_of v st1)"
    by (simp add: recordPasswordHistory_def st1_def r_def history_of_def tbl_delete_many_def Let_def tbl_desc_def
        filter_sort [symmetric] conj_commute)
  show ?thesis
  proof (cases "v = u")
    case True
    then have "history_of v (recordPasswordHistory newId u h k now st) = take k (history_of u st1)"
      unfolding run by (simp only: filter_not_in_drop [OF distinct_history [OF d1]])
    then show ?thesis using True by (simp add: h1 r_def)
  next
    case False
    have other: "history_of v st1 = history_of v st"
      using False by (simp add: history_of_def st1_def tbl_create_def r_def)
    have "pe_id e \<notin> pe_id ` set (drop k (history_of u st1))" if "e \<in> set (history_of v st1)" for e
    proof
      assume "pe_id e \<in> pe_id ` set (drop k (history_of u st1))"
      then obtain e' where e': "e' \<in> set (history_of u st1)" "pe_id e' = pe_id e" by (auto dest: in_set_dropD)
      then have "e' = e" using that d1 by (auto simp: history_of_def distinct_map inj_on_def)
      then show False using that e' False by (auto simp: history_of_def)
    qed
    then show ?thesis using run other False by (simp add: filter_id_conv)
  qed
qed

lemma passwords_frame_simps [simp]:
  "as_passwords (snd (revokeAllSessions u x now st)) = as_passwords st"
  "as_devices (snd (revokeAllSessions u x now st)) = as_devices st"
  "as_devices (recordPasswordHistory i u h k now st) = as_devices st"
  "ss_sessions (recordPasswordHistory i u h k now st) = ss_sessions st"
  "as_resets (recordPasswordHistory i u h k now st) = as_resets st"
  "as_resets (snd (revokeAllSessions u x now st)) = as_resets st"
  "as_resets (log_activity a b c d st) = as_resets st"
  by (simp_all add: revokeAllSessions_def recordPasswordHistory_def Let_def)

lemma history_cong: "as_passwords s = as_passwords s' \<Longrightarrow> history_of u s = history_of u s'"
  by (simp add: history_of_def)

lemma record_cong:
  "as_passwords s = as_passwords s' \<Longrightarrow>
   as_passwords (recordPasswordHistory i u h k now s) = as_passwords (recordPasswordHistory i u h k now s')"
  by (simp add: recordPasswordHistory_def Let_def history_of_def)

text \<open>A change either fails and changes nothing, or records the new password.\<close>

lemma changePassword_cases:
  assumes "changePassword cr cfg i u cur new now st = (res, st')"
  defines "k \<equiv> getPasswordHistoryLimit (cf_env cfg ''PASSWORD_HISTORY_LIMIT'')"
  shows "(\<exists>e. res = Inl e) \<and> st' = st
    \<or> res = Inr () \<and> validatePassword (cf_env cfg) new = []
      \<and> \<not> (\<exists>e \<in> set (take k (history_of u st)). cr_compare cr new (pe_passwordHash e))
      \<and> as_passwords st' = as_passwords (recordPasswordHistory i u (cr_hash cr new) k now st)
      \<and> (\<exists>user s. find_user u st = Some user \<and> password_matches cr cur user \<and> ss_sessions s = ss_sessions st
        \<and> st' = (snd (revokeAllSessions u None now s))\<lparr>as_devices := snd (revokeAllDevices u now (as_devices st))\<rparr>)"
proof (cases "find_user u st")
  case None
  then show ?thesis using assms(1) by (auto simp: changePassword_def)
next
  case (Some user)
  then have id: "tu_id user = u" by (rule find_user_id)
  define st1 where "st1 = update_user u (\<lambda>u. u\<lparr>us_password := Some (cr_hash cr new)\<rparr>) st"
  define st3 where "st3 = log_activity u ''PASSWORD_CHANGED'' ''USER'' u (recordPasswordHistory i u (cr_hash cr new) k now st1)"
  have "as_passwords st3 = as_passwords (recordPasswordHistory i u (cr_hash cr new) k now st)" "as_devices st3 = as_devices st" "ss_sessions st3 = ss_sessions st"
    using record_cong [of st1 st i u "cr_hash cr new" k now] by (simp_all add: st3_def, simp_all add: st1_def)
  moreover have "res = Inr () \<Longrightarrow> st' = (snd (revokeAllSessions u None now st3))\<lparr>as_devices := snd (revokeAllDevices u now (as_devices st3))\<rparr>"
    using assms(1) Some id by (auto simp: changePassword_def Let_def st1_def st3_def k_def split: if_splits sum.splits)
  ultimately show ?thesis
    using assms Some by (auto simp: changePassword_def Let_def assertPasswordMeetsPolicy_def assertPasswordNotReused_def
        list_ex_iff split: if_splits)
qed

type_synonym change = "string \<times> string \<times> string \<times> time"

fun change_all :: "crypto \<Rightarrow> auth_config \<Rightarrow> string \<Rightarrow> change list \<Rightarrow> account_state \<Rightarrow> account_state" where
  "change_all cr cfg u [] st = st"
| "change_all cr cfg u ((cur, new, i, t) # cs) st = change_all cr cfg u cs (snd (changePassword cr cfg i u cur new t st))"

text \<open>Changes at increasing times whose entries get fresh identifiers.\<close>

fun fresh_changes :: "time \<Rightarrow> string set \<Rightarrow> change list \<Rightarrow> bool" where
  "fresh_changes t ids [] = True"
| "fresh_changes t ids ((cur, new, i, t') # cs) \<longleftrightarrow> t < t' \<and> i \<notin> ids \<and> fresh_changes t' (insert i ids) cs"

lemma record_passwords:
  assumes "history_ok now st" and "i \<notin> pe_id ` set (as_passwords st)" and "now < later"
  shows "history_ok later (recordPasswordHistory i u h k now st)
    \<and> pe_id ` set (as_passwords (recordPasswordHistory i u h k now st)) \<subseteq> insert i (pe_id ` set (as_passwords st))"
  using assms by (auto simp: history_ok_def recordPasswordHistory_def Let_def tbl_delete_many_def tbl_create_def
      intro!: distinct_map_filter)

lemma change_keeps_recent:
  assumes "history_ok t st" and "pe_id ` set (as_passwords st) \<subseteq> ids" and "fresh_changes t0 ids cs" and "t \<le> t0 + 1"
    and "\<exists>e \<in> set (take (Suc n) (history_of u st)). cr_compare cr p (pe_passwordHash e)"
    and "n + length cs < getPasswordHistoryLimit (cf_env cfg ''PASSWORD_HISTORY_LIMIT'')"
  shows "\<exists>e \<in> set (take (Suc (n + length cs)) (history_of u (change_all cr cfg u cs st))). cr_compare cr p (pe_passwordHash e)"
  using assms
proof (induction cs arbitrary: st t t0 ids n)
  case (Cons c cs)
  obtain cur new i t' where c: "c = (cur, new, i, t')" by (cases c)
  let ?k = "getPasswordHistoryLimit (cf_env cfg ''PASSWORD_HISTORY_LIMIT'')"
  obtain res st' where run: "changePassword cr cfg i u cur new t' st = (res, st')" by fastforce
  have fresh: "t0 < t'" "i \<notin> ids" "fresh_changes t' (insert i ids) cs" using Cons.prems(3) by (simp_all add: c)
  have ok: "history_ok t' st" using Cons.prems(1,4) fresh(1) by (auto simp: history_ok_def)
  have i: "i \<notin> pe_id ` set (as_passwords st)" using Cons.prems(2) fresh(2) by blast
  have IH: "\<exists>e \<in> set (take (Suc (Suc n + length cs)) (history_of u (change_all cr cfg u cs s))). cr_compare cr p (pe_passwordHash e)"
    if "history_ok (t' + 1) s" "pe_id ` set (as_passwords s) \<subseteq> insert i ids"
      "\<exists>e \<in> set (take (Suc (Suc n)) (history_of u s)). cr_compare cr p (pe_passwordHash e)" for s
    using Cons.IH [OF that(1,2) fresh(3) _ that(3)] Cons.prems(6) by simp
  from changePassword_cases [OF run] have "\<exists>e \<in> set (take (Suc (Suc n + length cs)) (history_of u (change_all cr cfg u cs st'))).
      cr_compare cr p (pe_passwordHash e)"
  proof (elim disjE conjE)
    assume st': "st' = st"
    have "set (take (Suc n) (history_of u st)) \<subseteq> set (take (Suc (Suc n)) (history_of u st))"
      by (rule set_take_subset_set_take) simp
    then show ?thesis
      using Cons.prems(2,5) ok unfolding st' by (intro IH) (auto simp: history_ok_def)
  next
    assume eq: "as_passwords st' = as_passwords (recordPasswordHistory i u (cr_hash cr new) ?k t' st)"
    define r where "r = \<lparr>pe_id = i, pe_userId = u, pe_passwordHash = cr_hash cr new, pe_createdAt = t'\<rparr>"
    have "history_of u st' = take ?k (r # history_of u st)"
      using recordPasswordHistory_history [OF ok i, of u u "cr_hash cr new" ?k] history_cong [OF eq] by (simp add: r_def)
    moreover have "Suc (Suc n) \<le> ?k" using Cons.prems(6) by simp
    ultimately have "take (Suc (Suc n)) (history_of u st') = r # take (Suc n) (history_of u st)"
      by (simp add: min_def)
    then have recent: "\<exists>e \<in> set (take (Suc (Suc n)) (history_of u st')). cr_compare cr p (pe_passwordHash e)"
      using Cons.prems(5) by simp
    have "history_ok (t' + 1) st' \<and> pe_id ` set (as_passwords st') \<subseteq> insert i (pe_id ` set (as_passwords st))"
      using record_passwords [OF ok i, of "t' + 1" u "cr_hash cr new" ?k] eq by (simp add: history_ok_def)
    then show ?thesis using Cons.prems(2) by (intro IH [OF _ _ recent]) blast+
  qed
  then show ?case by (simp add: c run)
qed simp

text \<open>C2: A password cannot be taken up again while it is recent: after a change to it, fewer further changes than the
  configured limit, successful or not, never make it acceptable again.\<close>

theorem recent_password_refused:
  assumes "\<And>p. cr_compare cr p (cr_hash cr p)"
    and "changePassword cr cfg i u cur p now st = (Inr (), st1)"
    and "history_ok now st" and "i \<notin> pe_id ` set (as_passwords st)"
    and "fresh_changes now (insert i (pe_id ` set (as_passwords st))) cs"
    and "length cs < getPasswordHistoryLimit (cf_env cfg ''PASSWORD_HISTORY_LIMIT'')"
  shows "\<exists>e. changePassword cr cfg i' u cur' p later (change_all cr cfg u cs st1) = (Inl e, change_all cr cfg u cs st1)"
proof -
  let ?k = "getPasswordHistoryLimit (cf_env cfg ''PASSWORD_HISTORY_LIMIT'')"
  have eq: "as_passwords st1 = as_passwords (recordPasswordHistory i u (cr_hash cr p) ?k now st)"
    using changePassword_cases [OF assms(2)] by auto
  have "take (Suc 0) (history_of u st1) = [\<lparr>pe_id = i, pe_userId = u, pe_passwordHash = cr_hash cr p, pe_createdAt = now\<rparr>]"
    using recordPasswordHistory_history [OF assms(3,4), of u u "cr_hash cr p" ?k] history_cong [OF eq] assms(6) by (cases ?k) simp_all
  then have first: "\<exists>e \<in> set (take (Suc 0) (history_of u st1)). cr_compare cr p (pe_passwordHash e)"
    using assms(1) by simp
  have ok: "history_ok (now + 1) st1" "pe_id ` set (as_passwords st1) \<subseteq> insert i (pe_id ` set (as_passwords st))"
    using record_passwords [OF assms(3,4), of "now + 1" u "cr_hash cr p" ?k] eq by (simp_all add: history_ok_def)
  let ?s = "change_all cr cfg u cs st1"
  have "\<exists>e \<in> set (take (Suc (length cs)) (history_of u ?s)). cr_compare cr p (pe_passwordHash e)"
    using change_keeps_recent [OF ok assms(5) _ first] assms(6) by simp
  moreover have "set (take (Suc (length cs)) (history_of u ?s)) \<subseteq> set (take ?k (history_of u ?s))"
    using assms(6) by (intro set_take_subset_set_take) simp
  ultimately have "\<exists>e \<in> set (take ?k (history_of u ?s)). cr_compare cr p (pe_passwordHash e)" by blast
  moreover obtain res s' where "changePassword cr cfg i' u cur' p later ?s = (res, s')" by fastforce
  ultimately show ?thesis using changePassword_cases [of cr cfg i' u cur' p later ?s res s'] by auto
qed

definition example_change_state :: account_state where
  "example_change_state = example_account_state\<lparr>as_users := [example_user\<lparr>us_password := Some ''$Old-pass0''\<rparr>]\<rparr>"

lemma example_change:
  "fst (changePassword example_crypto example_config ''p1'' ''u1'' ''Old-pass0'' ''New-pass1'' 0 example_change_state) = Inr ()"
  by code_simp

theorem recent_password_refused_witness:
  "\<exists>st1 e. changePassword example_crypto example_config ''p1'' ''u1'' ''Old-pass0'' ''New-pass1'' 0 example_change_state = (Inr (), st1)
    \<and> (let st2 = change_all example_crypto example_config ''u1'' [(''New-pass1'', ''Newer-pass2'', ''p2'', 5)] st1 in
        changePassword example_crypto example_config ''p3'' ''u1'' ''Newer-pass2'' ''New-pass1'' 9 st2 = (Inl e, st2))"
proof -
  obtain r st1 where run: "changePassword example_crypto example_config ''p1'' ''u1'' ''Old-pass0'' ''New-pass1'' 0 example_change_state
    = (r, st1)" by fastforce
  then have r: "r = Inr ()" using example_change by simp
  have empty: "as_passwords example_change_state = []" by (simp add: example_change_state_def example_account_state_def)
  have "getPasswordHistoryLimit (cf_env example_config ''PASSWORD_HISTORY_LIMIT'') = 5"
    by (simp add: example_config_def getPasswordHistoryLimit_def)
  then have "\<exists>e. changePassword example_crypto example_config ''p3'' ''u1'' ''Newer-pass2'' ''New-pass1'' 9
        (change_all example_crypto example_config ''u1'' [(''New-pass1'', ''Newer-pass2'', ''p2'', 5)] st1)
      = (Inl e, change_all example_crypto example_config ''u1'' [(''New-pass1'', ''Newer-pass2'', ''p2'', 5)] st1)"
    by (intro recent_password_refused [OF _ run [unfolded r]]) (simp_all add: empty history_ok_def, simp add: example_crypto_def)
  then show ?thesis using run r by (auto simp: Let_def)
qed

lemma revokeAll_sessions:
  assumes "x \<in> set (ss_sessions (snd (revokeAllSessions u None now st)))" and "se_userId x = u"
  shows "se_isRevoked x"
proof -
  have "x \<in> set (tbl_update_many (\<lambda>s. se_userId s = u \<and> \<not> se_isRevoked s) (\<lambda>s. s\<lparr>se_isRevoked := True, se_revokedAt := Some now\<rparr>)
      (ss_sessions st))" using assms(1) by (simp add: revokeAllSessions_def Let_def)
  from tbl_update_many_all [OF this, where P = "\<lambda>s. se_userId s = u \<longrightarrow> se_isRevoked s"] show ?thesis using assms(2) by simp
qed

lemma revokeAll_devices:
  assumes "d \<in> set (snd (revokeAllDevices u now ds))" and "td_userId d = u"
  shows "td_revokedAt d \<noteq> None"
proof -
  have "d \<in> set (tbl_update_many (\<lambda>d. td_userId d = u \<and> td_revokedAt d = None) (\<lambda>d. d\<lparr>td_revokedAt := Some now\<rparr>) ds)"
    using assms(1) by (simp add: revokeAllDevices_def Let_def)
  from tbl_update_many_all [OF this, where P = "\<lambda>d. td_userId d = u \<longrightarrow> td_revokedAt d \<noteq> None"] show ?thesis using assms(2) by simp
qed

text \<open>Changing the password ends every other access: afterwards all sessions of the user are revoked, the tokens
  they record are blacklisted, and no remembered device is trusted.\<close>

theorem password_change_ends_access:
  assumes "changePassword cr cfg i u cur new now st = (Inr (), st')"
  shows "\<not> (\<exists>s \<in> set (ss_sessions st'). se_userId s = u \<and> \<not> se_isRevoked s)
    \<and> \<not> (\<exists>s \<in> set (ss_sessions st). se_userId s = u \<and> \<not> se_isRevoked s \<and> se_accessTokenJti s \<noteq> [] \<and> \<not> revoked_jti (se_accessTokenJti s) st')
    \<and> \<not> fst (isTrustedDevice sha ok u (Some token) later (as_devices st'))"
proof -
  obtain s where s: "ss_sessions s = ss_sessions st"
      "st' = (snd (revokeAllSessions u None now s))\<lparr>as_devices := snd (revokeAllDevices u now (as_devices st))\<rparr>"
    using changePassword_cases [OF assms] by auto
  have "\<not> (\<exists>s \<in> set (ss_sessions st'). se_userId s = u \<and> \<not> se_isRevoked s)"
    using revokeAll_sessions [of _ u now s] by (auto simp: s(2))
  moreover have "revoked_jti (se_accessTokenJti x) st'"
    if "x \<in> set (ss_sessions st)" "se_userId x = u" "\<not> se_isRevoked x" "se_accessTokenJti x \<noteq> []" for x
    using revokeAllSessions_revokes [of x s u "se_accessTokenJti x" now] that s(1) by (simp add: s(2) revoked_jti_def)
  moreover have "\<not> fst (isTrustedDevice sha ok u (Some token) later (as_devices st'))"
  proof -
    have "\<not> trusted_row u later d" if "tbl_find td_tokenHash h (as_devices st') = Some d" for h d
      using tbl_find_Some [OF that] revokeAll_devices [of d u now "as_devices st"] by (auto simp: s(2) trusted_row_def)
    then show ?thesis
      using isTrustedDevice_iff [of token sha ok u later "as_devices st'"]
      by (cases "js_trim token = []") (auto simp: isTrustedDevice_def split: option.splits)
  qed
  ultimately show ?thesis by blast
qed

theorem password_change_ends_access_witness:
  "\<exists>st1. changePassword example_crypto example_config ''p1'' ''u1'' ''Old-pass0'' ''New-pass1'' 0 example_change_state = (Inr (), st1)
    \<and> \<not> fst (isTrustedDevice (\<lambda>s. s) True ''u1'' (Some ''t'') 5 (as_devices st1))"
proof -
  obtain r st1 where run: "changePassword example_crypto example_config ''p1'' ''u1'' ''Old-pass0'' ''New-pass1'' 0 example_change_state
    = (r, st1)" by fastforce
  then have r: "r = Inr ()" using example_change by simp
  show ?thesis using password_change_ends_access [OF run [unfolded r]] run r by blast
qed

subsection \<open>Reset tokens\<close>

definition used_reset :: "string \<Rightarrow> account_state \<Rightarrow> bool" where
  "used_reset h st \<longleftrightarrow> (case tbl_find rt_token h (as_resets st) of Some r \<Rightarrow> rt_usedAt r \<noteq> None | None \<Rightarrow> False)"

text \<open>Requests, resets and password changes by anybody.\<close>

inductive reset_step :: "crypto \<Rightarrow> auth_config \<Rightarrow> account_state \<Rightarrow> account_state \<Rightarrow> bool" for cr cfg where
  request: "reset_step cr cfg st (snd (requestPasswordReset cr ok newId raw email now st))"
| reset: "reset_step cr cfg st (snd (resetPassword cr cfg newId tok new now st))"
| change: "reset_step cr cfg st (snd (changePassword cr cfg newId u cur new now st))"

lemma resetPassword_cases:
  assumes "resetPassword cr cfg i tok new now st = (res, st')"
  shows "(\<exists>e. res = Inl e) \<and> st' = st
    \<or> res = Inr () \<and> (\<exists>row user. tbl_find rt_token (cr_sha cr tok) (as_resets st) = Some row \<and> rt_usedAt row = None
      \<and> now \<le> rt_expiresAt row \<and> find_user (rt_userId row) st = Some user \<and> \<not> us_isBlocked user
      \<and> as_resets st' = tbl_update rt_id (rt_id row) (\<lambda>r. r\<lparr>rt_usedAt := Some now\<rparr>) (as_resets st)
      \<and> as_devices st' = as_devices st
      \<and> (\<exists>s. ss_sessions s = ss_sessions st \<and> st' = snd (revokeAllSessions (rt_userId row) None now s)))"
proof (cases "tbl_find rt_token (cr_sha cr tok) (as_resets st)")
  case None
  then show ?thesis using assms by (auto simp: resetPassword_def)
next
  case (Some row)
  define k where "k = getPasswordHistoryLimit (cf_env cfg ''PASSWORD_HISTORY_LIMIT'')"
  define s where "s = recordPasswordHistory i (rt_userId row) (cr_hash cr new) k now
    (update_user (rt_userId row) (\<lambda>u. u\<lparr>us_password := Some (cr_hash cr new)\<rparr>) st
      \<lparr>as_resets := tbl_update rt_id (rt_id row) (\<lambda>r. r\<lparr>rt_usedAt := Some now\<rparr>) (as_resets st)\<rparr>)"
  have frame: "ss_sessions s = ss_sessions st" "as_devices s = as_devices st"
    "as_resets s = tbl_update rt_id (rt_id row) (\<lambda>r. r\<lparr>rt_usedAt := Some now\<rparr>) (as_resets st)"
    by (simp_all add: s_def)
  show ?thesis
    using assms Some frame
    by (auto simp: resetPassword_def Let_def assertPasswordMeetsPolicy_def assertPasswordNotReused_def s_def [symmetric] k_def [symmetric]
        split: if_splits option.splits)
qed

lemma change_resets: "as_resets (snd (changePassword cr cfg i u cur new now st)) = as_resets st"
  by (simp add: changePassword_def Let_def split: option.split sum.split)

lemma used_reset_step:
  assumes "reset_step cr cfg st st'" and "used_reset h st"
  shows "used_reset h st'"
  using assms
proof (induction rule: reset_step.induct)
  case (request st ok newId raw email now)
  then show ?case
    by (auto simp: used_reset_def requestPasswordReset_def Let_def tbl_find_create tbl_find_update_many split: option.splits)
next
  case (reset st newId tok new now)
  obtain res st' where run: "resetPassword cr cfg newId tok new now st = (res, st')" by fastforce
  show ?case using resetPassword_cases [OF run] reset
    by (auto simp: run used_reset_def tbl_find_update_by split: option.splits)
next
  case (change st newId u cur new now)
  obtain res st' where run: "changePassword cr cfg newId u cur new now st = (res, st')" by fastforce
  show ?case using change by (simp add: used_reset_def change_resets)
qed

lemma used_reset_steps: "(reset_step cr cfg)\<^sup>*\<^sup>* st st' \<Longrightarrow> used_reset h st \<Longrightarrow> used_reset h st'"
  by (induction rule: rtranclp_induct) (simp_all add: used_reset_step)

lemma used_reset_refused: "used_reset (cr_sha cr tok) st \<Longrightarrow> \<exists>e. resetPassword cr cfg i tok new now st = (Inl e, st)"
  by (auto simp: used_reset_def resetPassword_def split: option.splits)

text \<open>C4: A reset token works once: after a successful reset the same token is refused, whatever further requests,
  resets and password changes follow.\<close>

theorem reset_token_single_use:
  assumes "resetPassword cr cfg i tok new now st = (Inr (), st1)" and "(reset_step cr cfg)\<^sup>*\<^sup>* st1 st2"
  shows "\<exists>e. resetPassword cr cfg i' tok new' later st2 = (Inl e, st2)"
proof -
  have "used_reset (cr_sha cr tok) st1"
    using resetPassword_cases [OF assms(1)] by (auto simp: used_reset_def tbl_find_update_by)
  then show ?thesis by (intro used_reset_refused used_reset_steps [OF assms(2)])
qed

definition example_reset_state :: account_state where
  "example_reset_state = example_account_state\<lparr>as_resets :=
     [\<lparr>rt_id = ''r1'', rt_userId = ''u1'', rt_token = ''#tok'', rt_expiresAt = 3600000, rt_usedAt = None\<rparr>]\<rparr>"

lemma example_reset:
  "fst (resetPassword example_crypto example_config ''p1'' ''tok'' ''New-pass1'' 0 example_reset_state) = Inr ()"
  by code_simp

theorem reset_token_single_use_witness:
  "\<exists>st1 e. resetPassword example_crypto example_config ''p1'' ''tok'' ''New-pass1'' 0 example_reset_state = (Inr (), st1)
    \<and> resetPassword example_crypto example_config ''p2'' ''tok'' ''Newer-pass2'' 1000 st1 = (Inl e, st1)"
proof -
  obtain r st1 where run: "resetPassword example_crypto example_config ''p1'' ''tok'' ''New-pass1'' 0 example_reset_state = (r, st1)"
    by fastforce
  then have r: "r = Inr ()" using example_reset by simp
  show ?thesis using reset_token_single_use [OF run [unfolded r] rtranclp.rtrancl_refl] run r by auto
qed

text \<open>A new request for a reset ends the earlier ones: from the moment after it, every earlier reset token of the
  same user is refused.\<close>

theorem new_reset_request_ends_old:
  assumes "requestPasswordReset cr ok i raw email now st = (res, st1)" and "find_user_by_email email st = Some user"
    and "\<not> us_isBlocked user" and "tbl_find rt_token (cr_sha cr old) (as_resets st) = Some row"
    and "rt_userId row = tu_id user" and "now < later"
  shows "\<exists>e. resetPassword cr cfg i' old new later st1 = (Inl e, st1)"
proof -
  let ?p = "\<lambda>r. rt_userId r = tu_id user \<and> rt_usedAt r = None \<and> now < rt_expiresAt r"
  have "tbl_find rt_token (cr_sha cr old) (as_resets st1) = Some (if ?p row then row\<lparr>rt_expiresAt := now\<rparr> else row)"
    using assms(1-5) by (auto simp: requestPasswordReset_def Let_def tbl_find_create tbl_find_update_many)
  then show ?thesis using assms(5,6) by (auto simp: resetPassword_def split: if_splits option.splits)
qed

theorem new_reset_request_ends_old_witness:
  "\<exists>e st1. requestPasswordReset example_crypto True ''r2'' ''tok2'' ''ann@example.org'' 0 example_reset_state = (Inr (), st1)
    \<and> resetPassword example_crypto example_config ''p1'' ''tok'' ''New-pass1'' 1 st1 = (Inl e, st1)"
proof -
  let ?row = "\<lparr>rt_id = ''r1'', rt_userId = ''u1'', rt_token = ''#tok'', rt_expiresAt = 3600000, rt_usedAt = None\<rparr>"
  obtain res st1 where run: "requestPasswordReset example_crypto True ''r2'' ''tok2'' ''ann@example.org'' 0 example_reset_state = (res, st1)"
    by fastforce
  have user: "find_user_by_email ''ann@example.org'' example_reset_state = Some example_user" by code_simp
  have row: "tbl_find rt_token (cr_sha example_crypto ''tok'') (as_resets example_reset_state) = Some ?row" by code_simp
  have "\<exists>e. resetPassword example_crypto example_config ''p1'' ''tok'' ''New-pass1'' 1 st1 = (Inl e, st1)"
    by (rule new_reset_request_ends_old [OF run user _ row]) (simp_all add: example_user_def)
  moreover have "res = Inr ()" using run user by (auto simp: requestPasswordReset_def Let_def example_user_def)
  ultimately show ?thesis using run by auto
qed

text \<open>A reset ends the sessions of its user but not the remembered devices: all sessions are revoked, the trusted
  devices are the same as before, so a device remembered by whoever knew the old password still skips the
  second factor.\<close>

theorem reset_keeps_trusted_devices:
  assumes "resetPassword cr cfg i tok new now st = (Inr (), st')"
  shows "\<exists>row. tbl_find rt_token (cr_sha cr tok) (as_resets st) = Some row
    \<and> \<not> (\<exists>s \<in> set (ss_sessions st'). se_userId s = rt_userId row \<and> \<not> se_isRevoked s)
    \<and> isTrustedDevice sha ok u token later (as_devices st') = isTrustedDevice sha ok u token later (as_devices st)"
  using resetPassword_cases [OF assms] revokeAll_sessions by fastforce

theorem reset_keeps_trusted_devices_witness:
  "\<exists>st1. resetPassword example_crypto example_config ''p1'' ''tok'' ''New-pass1'' 0 example_reset_state = (Inr (), st1)
    \<and> isTrustedDevice (\<lambda>s. s) True ''u1'' None 0 (as_devices st1)
      = isTrustedDevice (\<lambda>s. s) True ''u1'' None 0 (as_devices example_reset_state)"
proof -
  obtain r st1 where run: "resetPassword example_crypto example_config ''p1'' ''tok'' ''New-pass1'' 0 example_reset_state = (r, st1)"
    by fastforce
  then have r: "r = Inr ()" using example_reset by simp
  show ?thesis using reset_keeps_trusted_devices [OF run [unfolded r]] run r by blast
qed

end
