(* ===== verification/Registration.thy ===== *)
theory Registration
  imports Account_Security
begin

text \<open>
  The way into an account: registration, the verification of its mail address and the login through Google.
\<close>

lemma canRegisterFromIp_frame:
  "canRegisterFromIp ip now st = (b, st') \<Longrightarrow> as_users st' = as_users st \<and> ss_sessions st' = ss_sessions st"
  by (auto simp: canRegisterFromIp_def split: option.splits if_splits)

lemma map_of_map_set: "map_of (map_set k v m) k = Some v"
proof (cases "k \<in> fst ` set m")
  case True
  then show ?thesis unfolding map_set_def by (induction m) auto
next
  case False
  then have "map_of m k = None" by (simp add: map_of_eq_None_iff)
  then show ?thesis using False by (simp add: map_set_def map_add_def)
qed

text \<open>A successful registration creates one unverified user and its verification token.\<close>

lemma register_cases:
  assumes "register cr cfg rr data ip now st = (Inr (user, token), st1)"
  shows "user = new_user (rr_userId rr) data (cr_hash cr (rd_password data)) (rr_verificationToken rr) (now + verification_ms cfg) now
    \<and> token = rr_verificationToken rr \<and> as_users st1 = as_users st @ [user] \<and> ss_sessions st1 = ss_sessions st
    \<and> validatePassword (cf_env cfg) (rd_password data) = []
    \<and> (truthy ip \<longrightarrow> map_of (as_registrationIps st1) (the ip) = Some (rd_email data, now + verification_ms cfg))"
proof -
  obtain b s where ip: "(if truthy ip then canRegisterFromIp (the ip) now st else (True, st)) = (b, s)" by fastforce
  then have "as_users s = as_users st \<and> ss_sessions s = ss_sessions st"
    using canRegisterFromIp_frame [of "the ip" now st b s] by (auto split: if_splits)
  then show ?thesis
    using assms unfolding register_def ip Let_def by (auto simp: tbl_create_def map_of_map_set split: if_splits)
qed

text \<open>C3: Registration and verification fit together: the token a registration returns verifies the account it created
  until it expires and logs its owner in, with the password chosen.  The address it came from stays barred from
  further registrations even then.\<close>

theorem registration_roundtrip:
  assumes "register cr cfg rr data ip now st = (Inr (user, token), st1)"
    and "tbl_find us_emailVerificationToken (Some (rr_verificationToken rr)) (as_users st) = None"
    and "find_user (rr_userId rr) st = None" and "\<And>p. cr_compare cr p (cr_hash cr p)"
    and "later \<le> now + verification_ms cfg"
    and "maxConcurrentSessions (cf_env cfg ''MAX_CONCURRENT_SESSIONS'') = Some n"
    and "int (tbl_count (active_session (rr_userId rr) later) (ss_sessions st)) < n"
  shows "\<exists>user' pair st2. verifyInitialEmail J cfg rq token later st1 = (Inr (user', pair), st2)
    \<and> find_user (rr_userId rr) st2 = Some user' \<and> us_isVerified user' \<and> us_email user' = rd_email data
    \<and> password_matches cr (rd_password data) user'
    \<and> (truthy ip \<longrightarrow> \<not> fst (canRegisterFromIp (the ip) later st2))"
proof -
  note reg = register_cases [OF assms(1)]
  have token: "token = rr_verificationToken rr" and u: "tu_id user = rr_userId rr" "us_emailVerificationToken user = Some token"
      "us_emailVerificationExpires user = Some (now + verification_ms cfg)" "\<not> us_isVerified user" "us_email user = rd_email data"
      "us_password user = Some (cr_hash cr (rd_password data))"
    using reg by (simp_all add: new_user_def blank_user_def)
  let ?upd = "\<lambda>u. u\<lparr>us_isVerified := True, us_emailVerificationToken := None, us_emailVerificationExpires := None\<rparr>"
  let ?st = "update_user (tu_id user) ?upd st1"
  have found: "tbl_find us_emailVerificationToken (Some token) (as_users st1) = Some user"
    using reg assms(2) u(2) by (simp add: tbl_find_def find_append)
  have "find_user (tu_id user) st1 = Some user"
    using reg assms(3) u(1) by (simp add: find_user_def tbl_find_def find_append)
  then have stored: "find_user (tu_id user) ?st = Some (?upd user)" by (simp add: find_update_user)
  have count: "\<not> n \<le> int (tbl_count (active_session (tu_id (?upd user)) later) (ss_sessions ?st))"
    using assms(7) reg u(1) by simp
  obtain res st2 where i: "issueTokenPair J cfg (re_ids rq) (?upd user) None (re_ipAddress rq) (re_userAgent rq) later ?st = (res, st2)"
    by fastforce
  then have "\<not> (\<exists>m. res = Inl (Conflict m))"
    using issueTokenPair_limit [OF assms(6), of J "re_ids rq" "?upd user" None "re_ipAddress rq" "re_userAgent rq" later ?st] count by auto
  then obtain pair where res: "res = Inr pair"
      and st2: "as_users st2 = as_users ?st" "as_registrationIps st2 = as_registrationIps ?st"
    using issueTokenPair_cases [OF i] by auto
  have run: "verifyInitialEmail J cfg rq token later st1 = (Inr (?upd user, pair), st2)"
    using found u(3,4) assms(5) i res by (simp add: verifyInitialEmail_def)
  moreover have "find_user (rr_userId rr) st2 = Some (?upd user)" using stored st2(1) u(1) by (simp add: find_user_def)
  moreover have "password_matches cr (rd_password data) (?upd user)" using u(6) assms(4) by (simp add: password_matches_def)
  moreover have "truthy ip \<longrightarrow> \<not> fst (canRegisterFromIp (the ip) later st2)"
    using reg st2(2) assms(5) by (simp add: canRegisterFromIp_def update_user_def)
  moreover have "us_isVerified (?upd user)" "us_email (?upd user) = rd_email data" using u(5) by simp_all
  ultimately show ?thesis by blast
qed

definition example_registration :: register_dto where
  "example_registration = \<lparr>rd_email = ''bob@example.org'', rd_password = ''New-pass1'',
     rd_firstName = ''Bob'', rd_lastName = ''Lee'', rd_phone = None\<rparr>"

definition example_register_random :: register_random where
  "example_register_random = \<lparr>rr_userId = ''u2'', rr_entryId = ''p1'', rr_verificationToken = ''v1''\<rparr>"

lemma example_register:
  "map_prod (\<lambda>r. case r of Inl _ \<Rightarrow> False | Inr _ \<Rightarrow> True) (\<lambda>_. ())
     (register example_crypto example_config example_register_random example_registration (Some ''198.51.100.7'') 0 example_account_state)
   = (True, ())"
  by code_simp

lemma example_max_sessions: "maxConcurrentSessions (cf_env example_config ''MAX_CONCURRENT_SESSIONS'') = Some 5"
  by (simp add: maxConcurrentSessions_def example_config_def)

theorem registration_roundtrip_witness:
  "\<exists>user' pair st1 st2. verifyInitialEmail example_jwt example_config example_request ''v1'' 1000 st1 = (Inr (user', pair), st2)
    \<and> us_isVerified user' \<and> us_email user' = ''bob@example.org'' \<and> \<not> fst (canRegisterFromIp ''198.51.100.7'' 1000 st2)"
proof -
  obtain r st1 where run: "register example_crypto example_config example_register_random example_registration
      (Some ''198.51.100.7'') 0 example_account_state = (r, st1)" by fastforce
  then obtain user token where r: "r = Inr (user, token)" using example_register by (cases r) auto
  have token: "token = ''v1''" using register_cases [OF run [unfolded r]] by (simp add: example_register_random_def)
  have "verification_ms example_config = 86400000" by code_simp
  then have "\<exists>user' pair st2. verifyInitialEmail example_jwt example_config example_request token 1000 st1 = (Inr (user', pair), st2)
    \<and> find_user (rr_userId example_register_random) st2 = Some user' \<and> us_isVerified user' \<and> us_email user' = rd_email example_registration
    \<and> password_matches example_crypto (rd_password example_registration) user'
    \<and> (truthy (Some ''198.51.100.7'') \<longrightarrow> \<not> fst (canRegisterFromIp (the (Some ''198.51.100.7'')) 1000 st2))"
    by (intro registration_roundtrip [OF run [unfolded r] _ _ _ _ example_max_sessions])
      (simp_all add: find_user_def tbl_find_def tbl_count_def example_account_state_def example_register_random_def example_user_def,
        simp_all add: example_crypto_def)
  then show ?thesis by (auto simp: token truthy_def example_registration_def)
qed

text \<open>The login through Google asks nothing but the Google account: whoever holds the linked Google account gets tokens,
  whether the account is blocked, deactivated or protected by a second factor.\<close>

theorem google_login_ignores_protection:
  assumes "tbl_find us_googleId (Some (gp_googleId profile)) (as_users st) = Some user"
    and "maxConcurrentSessions (cf_env cfg ''MAX_CONCURRENT_SESSIONS'') = Some n"
    and "int (tbl_count (active_session (tu_id user) now) (ss_sessions st)) < n"
  shows "\<exists>u pair st'. googleOAuthLogin J cfg ids newId profile now st = (Inr (u, pair), st')
    \<and> tu_id u = tu_id user \<and> us_isBlocked u = us_isBlocked user \<and> us_isDeactivated u = us_isDeactivated user
    \<and> tu_twoFactorEnabled u = tu_twoFactorEnabled user"
proof -
  let ?sync = "\<lambda>u. u\<lparr>us_firstName := gp_firstName profile, us_lastName := gp_lastName profile, us_avatar := google_avatar profile user\<rparr>"
  let ?st = "update_user (tu_id user) ?sync st"
  obtain res st' where i: "issueTokenPair J cfg ids (?sync user) None None None now ?st = (res, st')" by fastforce
  then have "\<not> (\<exists>m. res = Inl (Conflict m))"
    using issueTokenPair_limit [OF assms(2), of J ids "?sync user" None None None now ?st] assms(3) by auto
  then obtain pair where "res = Inr pair" using issueTokenPair_cases [OF i] by auto
  then show ?thesis using i assms(1) by (simp add: googleOAuthLogin_def Let_def)
qed

definition example_blocked_user :: user where
  "example_blocked_user = example_factor_user\<lparr>us_isBlocked := True, us_isDeactivated := True, us_googleId := Some ''g1''\<rparr>"

definition example_google :: google_profile where
  "example_google = \<lparr>gp_googleId = ''g1'', gp_email = ''x'', gp_firstName = ''Ann'', gp_lastName = ''Lee'', gp_avatar = None\<rparr>"

theorem google_login_ignores_protection_witness:
  "\<exists>u pair st'. googleOAuthLogin example_jwt example_config example_ids ''u9'' example_google 0
       (example_account_state\<lparr>as_users := [example_blocked_user]\<rparr>) = (Inr (u, pair), st')
     \<and> tu_id u = tu_id example_blocked_user \<and> us_isBlocked u \<and> us_isDeactivated u \<and> tu_twoFactorEnabled u"
  using google_login_ignores_protection [of example_google "example_account_state\<lparr>as_users := [example_blocked_user]\<rparr>"
      example_blocked_user example_config 5 0 example_jwt example_ids "''u9''"] example_max_sessions
  by (simp add: tbl_find_def tbl_count_def example_account_state_def example_google_def)
    (simp add: example_blocked_user_def example_factor_user_def)

end
