(* ===== verification/User_Accounts.thy ===== *)
theory User_Accounts
  imports Auth_Accounts
begin

text \<open>
  The users service (\<open>src/users/users.service.ts\<close>), the change of a mail address
  (\<open>src/users/email-verification.service.ts\<close>) and the deletion of accounts
  (\<open>src/users/account-deletion.service.ts\<close>), over the account state of theory \<open>Accounts\<close>, the audit trail of
  deletions and the notification preferences a new user gets.

  Selections of columns are not modelled: a query returns whole rows.  Mails whose failure is caught have no
  effect here.  Translated messages are looked up by an argument.
\<close>

subsection \<open>State\<close>

record deletion_audit =
  da_userId :: "string option"
  da_action :: string
  da_actorId :: "string option"
  da_reason :: "string option"

record notification_channels =
  nc_userId :: string
  nc_email :: bool
  nc_sms :: bool
  nc_inApp :: bool
  nc_push :: bool

record users_state =
  ud_accounts :: account_state
  ud_audit :: "deletion_audit list"
  ud_preferences :: "notification_channels list"

definition on_accounts :: "(account_state \<Rightarrow> account_state) \<Rightarrow> users_state \<Rightarrow> users_state" where
  "on_accounts f s = s\<lparr>ud_accounts := f (ud_accounts s)\<rparr>"

abbreviation "user_row u s \<equiv> find_user u (ud_accounts s)"

text \<open>\<open>prisma.user.update\<close>: an unknown id and a mail address of another row are refused by the database.\<close>

definition prisma_update_user :: "string \<Rightarrow> (user \<Rightarrow> user) \<Rightarrow> users_state \<Rightarrow> (user, users_state) outcome" where
  "prisma_update_user userId f s =
     (case user_row userId s of
        None \<Rightarrow> (Inl (InternalError ''Record to update not found''), s)
      | Some u \<Rightarrow>
          if list_ex (\<lambda>v. tu_id v \<noteq> userId \<and> us_email v = us_email (f u)) (as_users (ud_accounts s))
          then (Inl (InternalError ''Unique constraint failed''), s)
          else (Inr (f u), on_accounts (update_user userId f) s))"

text \<open>Deleting a user row: the foreign keys of the schema delete what belongs to the user and forget the user elsewhere.\<close>

definition forget :: "string \<Rightarrow> string option \<Rightarrow> string option" where
  "forget userId v = (if v = Some userId then None else v)"

definition delete_user_row :: "string \<Rightarrow> users_state \<Rightarrow> users_state" where
  "delete_user_row userId s =
     (let st = ud_accounts s;
          kept_sessions = tbl_delete_many (\<lambda>x. se_userId x = userId) (ss_sessions st);
          gone = map se_id (filter (\<lambda>x. se_userId x = userId) (ss_sessions st))
      in s\<lparr>ud_accounts := st\<lparr>
             ss_sessions := kept_sessions,
             ss_blacklist := tbl_delete_many (\<lambda>x. bl_userId x = Some userId) (ss_blacklist st),
             as_users := map (\<lambda>v. v\<lparr>us_referredById := forget userId (us_referredById v)\<rparr>)
               (tbl_delete_many (\<lambda>x. tu_id x = userId) (as_users st)),
             as_devices := tbl_delete_many (\<lambda>x. td_userId x = userId) (as_devices st),
             as_logins := tbl_delete_many (\<lambda>x. le_userId x = userId) (as_logins st),
             as_passwords := tbl_delete_many (\<lambda>x. pe_userId x = userId) (as_passwords st),
             as_resets := tbl_delete_many (\<lambda>x. rt_userId x = userId) (as_resets st),
             as_alerts := map (\<lambda>a. a\<lparr>fa_userId := forget userId (fa_userId a),
               fa_assignedToId := forget userId (fa_assignedToId a), fa_resolvedById := forget userId (fa_resolvedById a),
               fa_sessionId := (case fa_sessionId a of None \<Rightarrow> None | Some i \<Rightarrow> if i \<in> set gone then None else Some i)\<rparr>)
               (as_alerts st),
             as_activity := tbl_delete_many (\<lambda>x. ac_userId x = userId) (as_activity st)\<rparr>,
           ud_audit := map (\<lambda>a. a\<lparr>da_userId := forget userId (da_userId a)\<rparr>) (ud_audit s),
           ud_preferences := tbl_delete_many (\<lambda>x. nc_userId x = userId) (ud_preferences s)\<rparr>)"

subsection \<open>Profiles\<close>

record profile =
  pr_user :: user
  pr_propertiesCount :: nat
  pr_transactionsCount :: nat
  pr_accountAgeDays :: int

text \<open>\<open>counts\<close> are the numbers of properties, purchases and sales of a user, from tables outside this state.\<close>

type_synonym user_counts = "string \<Rightarrow> nat \<times> nat \<times> nat"

definition account_age_days :: "time \<Rightarrow> user \<Rightarrow> int" where
  "account_age_days now u = (now - us_createdAt u) div (1000 * 60 * 60 * 24)"

definition getProfile :: "user_counts \<Rightarrow> string \<Rightarrow> time \<Rightarrow> users_state \<Rightarrow> profile result" where
  "getProfile counts userId now s =
     (case user_row userId s of
        None \<Rightarrow> Inl (NotFound ''User profile not found'')
      | Some u \<Rightarrow>
          if us_isDeactivated u then Inl (NotFound ''User profile not found'')
          else (let (properties, buys, sells) = counts userId
                in Inr \<lparr>pr_user = u, pr_propertiesCount = properties, pr_transactionsCount = buys + sells,
                     pr_accountAgeDays = account_age_days now u\<rparr>))"

definition loadUserStatistics :: "user_counts \<Rightarrow> string \<Rightarrow> time \<Rightarrow> users_state \<Rightarrow> (nat \<times> nat \<times> int \<times> time option) result" where
  "loadUserStatistics counts userId now s =
     (case user_row userId s of
        None \<Rightarrow> Inl (NotFound ''User not found'')
      | Some u \<Rightarrow> (let (properties, buys, sells) = counts userId
                   in Inr (properties, buys + sells, account_age_days now u, us_lastActivityAt u)))"

record profile_dto =
  pd_firstName :: "string option"
  pd_lastName :: "string option"
  pd_email :: "string option"
  pd_phone :: "string option"
  pd_avatar :: "string option"
  pd_preferredChannel :: "string option"
  pd_languagePreference :: "string option"
  pd_timezone :: "string option"
  pd_contactHours :: "(string \<times> string) option"

definition given :: "'a option \<Rightarrow> 'a \<Rightarrow> 'a" where
  "given v old = (case v of None \<Rightarrow> old | Some x \<Rightarrow> x)"

definition given_option :: "'a option \<Rightarrow> 'a option \<Rightarrow> 'a option" where
  "given_option v old = (case v of None \<Rightarrow> old | Some x \<Rightarrow> Some x)"

definition apply_profile :: "profile_dto \<Rightarrow> user \<Rightarrow> user" where
  "apply_profile d u = u\<lparr>us_firstName := given (pd_firstName d) (us_firstName u), us_lastName := given (pd_lastName d) (us_lastName u),
     us_email := given (pd_email d) (us_email u), us_phone := given_option (pd_phone d) (us_phone u),
     us_avatar := given_option (pd_avatar d) (us_avatar u),
     us_preferredChannel := given_option (pd_preferredChannel d) (us_preferredChannel u),
     us_languagePreference := given_option (pd_languagePreference d) (us_languagePreference u),
     us_timezone := given_option (pd_timezone d) (us_timezone u),
     us_contactHours := given_option (pd_contactHours d) (us_contactHours u)\<rparr>"

definition updateProfile ::
  "user_counts \<Rightarrow> string \<Rightarrow> profile_dto \<Rightarrow> time \<Rightarrow> users_state \<Rightarrow> (profile, users_state) outcome" where
  "updateProfile counts userId data now s =
     (if truthy (pd_email data) \<and>
         list_ex (\<lambda>v. us_email v = the (pd_email data) \<and> tu_id v \<noteq> userId) (as_users (ud_accounts s))
      then (Inl (BadRequest ''Email address is already in use''), s)
      else (case prisma_update_user userId (apply_profile data) s of
              (Inl e, s1) \<Rightarrow> (Inl e, s1)
            | (Inr _, s1) \<Rightarrow>
                (let s2 = on_accounts (log_activity userId ''UPDATE_PROFILE'' ''USER'' userId) s1
                 in (getProfile counts userId now s2, s2))))"

text \<open>\<open>UpdateUserDto\<close> has the fields of the profile but the avatar and the contact hours.\<close>

definition users_update :: "string \<Rightarrow> profile_dto \<Rightarrow> users_state \<Rightarrow> (user, users_state) outcome" where
  "users_update userId data s = prisma_update_user userId (apply_profile data) s"

definition updatePreferences :: "string \<Rightarrow> profile_dto \<Rightarrow> users_state \<Rightarrow> (user, users_state) outcome" where
  "updatePreferences userId data s =
     prisma_update_user userId (\<lambda>u. u\<lparr>
       us_preferredChannel := given_option (pd_preferredChannel data) (us_preferredChannel u),
       us_languagePreference := given_option (pd_languagePreference data) (us_languagePreference u),
       us_timezone := given_option (pd_timezone data) (us_timezone u),
       us_contactHours := given_option (pd_contactHours data) (us_contactHours u)\<rparr>) s"

definition updateAvatar :: "string \<Rightarrow> string option \<Rightarrow> users_state \<Rightarrow> (user, users_state) outcome" where
  "updateAvatar userId avatarUrl s = prisma_update_user userId (\<lambda>u. u\<lparr>us_avatar := avatarUrl\<rparr>) s"

definition block :: "string \<Rightarrow> users_state \<Rightarrow> (user, users_state) outcome" where
  "block userId s = prisma_update_user userId (\<lambda>u. u\<lparr>us_isBlocked := True\<rparr>) s"

definition unblock :: "string \<Rightarrow> users_state \<Rightarrow> (user, users_state) outcome" where
  "unblock userId s = prisma_update_user userId (\<lambda>u. u\<lparr>us_isBlocked := False\<rparr>) s"

definition verify :: "string \<Rightarrow> users_state \<Rightarrow> (user, users_state) outcome" where
  "verify userId s = prisma_update_user userId (\<lambda>u. u\<lparr>us_isVerified := True\<rparr>) s"

definition unverify :: "string \<Rightarrow> users_state \<Rightarrow> (user, users_state) outcome" where
  "unverify userId s = prisma_update_user userId (\<lambda>u. u\<lparr>us_isVerified := False\<rparr>) s"

text \<open>\<open>deletable\<close> says whether the tables outside this state let the row go.\<close>

definition users_remove :: "(string \<Rightarrow> bool) \<Rightarrow> string \<Rightarrow> users_state \<Rightarrow> (user, users_state) outcome" where
  "users_remove deletable userId s =
     (case user_row userId s of
        None \<Rightarrow> (Inl (InternalError ''Record to delete does not exist''), s)
      | Some u \<Rightarrow> if deletable userId then (Inr u, delete_user_row userId s)
                  else (Inl (InternalError ''Foreign key constraint failed''), s))"

subsection \<open>Creating users\<close>

text \<open>The loop draws referral codes, \<open>draw i\<close> the \<open>i\<close>th, until one is free; \<open>None\<close> is a loop that never ends.\<close>

partial_function (option) free_referral_code :: "(nat \<Rightarrow> string) \<Rightarrow> user list \<Rightarrow> nat \<Rightarrow> string option" where
  "free_referral_code draw users i =
     (if tbl_find us_referralCode (Some (draw i)) users \<noteq> None then free_referral_code draw users (Suc i)
      else Some (draw i))"

record create_user_dto = profile_dto +
  cd_email :: string
  cd_password :: string
  cd_newFirstName :: string
  cd_newLastName :: string
  cd_referralCode :: "string option"

definition created_user :: "string \<Rightarrow> create_user_dto \<Rightarrow> string \<Rightarrow> string \<Rightarrow> string option \<Rightarrow> time \<Rightarrow> user" where
  "created_user newId data passwordHash referralCode referredById now =
     (blank_user newId (cd_email data) now)\<lparr>us_password := Some passwordHash, us_firstName := cd_newFirstName data,
       us_lastName := cd_newLastName data, us_phone := pd_phone data, us_preferredChannel := pd_preferredChannel data,
       us_languagePreference := pd_languagePreference data, us_timezone := pd_timezone data,
       us_contactHours := pd_contactHours data, us_referralCode := Some referralCode, us_referredById := referredById\<rparr>"

definition users_create ::
  "crypto \<Rightarrow> (nat \<Rightarrow> string) \<Rightarrow> string \<Rightarrow> string \<Rightarrow> create_user_dto \<Rightarrow> time \<Rightarrow> users_state \<Rightarrow> (user, users_state) outcome option" where
  "users_create cr draw newId entryId data now s =
     (let st = ud_accounts s; passwordHash = cr_hash cr (cd_password data) in
      case free_referral_code draw (as_users st) 0 of
        None \<Rightarrow> None
      | Some referralCode \<Rightarrow>
          (let referredById = (if truthy (cd_referralCode data)
                 then map_option tu_id (tbl_find us_referralCode (cd_referralCode data) (as_users st)) else None);
               user = created_user newId data passwordHash referralCode referredById now
           in Some (if find_user_by_email (cd_email data) st \<noteq> None
             then (Inl (InternalError ''Unique constraint failed''), s)
             else (Inr user, s\<lparr>ud_accounts := st\<lparr>as_users := tbl_create user (as_users st),
                    as_passwords := tbl_create \<lparr>pe_id = entryId, pe_userId = newId, pe_passwordHash = passwordHash,
                      pe_createdAt = now\<rparr> (as_passwords st)\<rparr>,
                    ud_preferences := tbl_create \<lparr>nc_userId = newId, nc_email = True, nc_sms = False, nc_inApp = True,
                      nc_push = False\<rparr> (ud_preferences s)\<rparr>))))"

subsection \<open>Lists and searches\<close>

record page_meta =
  pm_page :: nat
  pm_limit :: nat
  pm_total :: nat
  pm_totalPages :: nat
  pm_hasNext :: bool

definition buildUsersPageMeta :: "nat \<Rightarrow> nat \<Rightarrow> nat \<Rightarrow> page_meta" where
  "buildUsersPageMeta page pageLimit totalRows =
     (let totalPages = nat (max 1 (ceil_div (int totalRows) (int pageLimit)))
      in \<lparr>pm_page = page, pm_limit = pageLimit, pm_total = totalRows, pm_totalPages = totalPages, pm_hasNext = page < totalPages\<rparr>)"

definition active_users :: "users_state \<Rightarrow> user list" where
  "active_users s = filter (\<lambda>u. \<not> us_isDeactivated u) (as_users (ud_accounts s))"

text \<open>\<open>rank\<close> is the order of the database on identifiers.\<close>

definition users_findAll ::
  "(string \<Rightarrow> int) \<Rightarrow> nat option \<Rightarrow> nat option \<Rightarrow> users_state \<Rightarrow> user list \<times> page_meta option" where
  "users_findAll rank page pageLimit s =
     (if page = None \<and> pageLimit = None then (active_users s, None)
      else (let p = given page 1; l = given pageLimit 20
            in (tbl_page ((p - 1) * l) l (tbl_desc us_createdAt (tbl_desc (\<lambda>u. rank (tu_id u)) (active_users s))),
                Some (buildUsersPageMeta p l (length (active_users s))))))"

definition users_findOne :: "string \<Rightarrow> users_state \<Rightarrow> user option" where
  "users_findOne userId s = (case user_row userId s of Some u \<Rightarrow> if us_isDeactivated u then None else Some u | None \<Rightarrow> None)"

definition findByEmail :: "string \<Rightarrow> users_state \<Rightarrow> user option" where
  "findByEmail email s = find_user_by_email email (ud_accounts s)"

definition findActiveUsers :: "users_state \<Rightarrow> user list" where
  "findActiveUsers s = active_users s"

definition buildSearchWhere :: "string option \<Rightarrow> string option \<Rightarrow> string option \<Rightarrow> user \<Rightarrow> bool" where
  "buildSearchWhere q email name u \<longleftrightarrow>
     \<not> us_isDeactivated u
     \<and> (truthy email \<longrightarrow> contains_ci (the email) (us_email u))
     \<and> (if truthy name
        then (let parts = js_split CHR '' '' (the name)
              in if 1 < length parts
                 then contains_ci (hd parts) (us_firstName u) \<and> contains_ci (last parts) (us_lastName u)
                   \<and> (truthy q \<longrightarrow> contains_ci (the q) (us_email u) \<or> contains_ci (the q) (us_firstName u) \<or> contains_ci (the q) (us_lastName u))
                 else contains_ci (the name) (us_firstName u) \<or> contains_ci (the name) (us_lastName u))
        else truthy q \<longrightarrow> contains_ci (the q) (us_email u) \<or> contains_ci (the q) (us_firstName u) \<or> contains_ci (the q) (us_lastName u))"

definition users_search ::
  "string option \<Rightarrow> string option \<Rightarrow> string option \<Rightarrow> nat \<Rightarrow> nat \<Rightarrow> users_state \<Rightarrow> user list \<times> nat \<times> int" where
  "users_search q email name page pageLimit s =
     (let hits = filter (buildSearchWhere q email name) (as_users (ud_accounts s))
      in (tbl_page ((page - 1) * pageLimit) pageLimit (tbl_desc us_createdAt hits), length hits,
          ceil_div (int (length hits)) (int pageLimit)))"

definition getReferralStats :: "string \<Rightarrow> users_state \<Rightarrow> string option \<times> nat" where
  "getReferralStats userId s =
     (Option.bind (user_row userId s) us_referralCode,
      tbl_count (\<lambda>u. us_referredById u = Some userId) (as_users (ud_accounts s)))"

definition getMyReferrals :: "string \<Rightarrow> users_state \<Rightarrow> user list" where
  "getMyReferrals userId s = filter (\<lambda>u. us_referredById u = Some userId) (as_users (ud_accounts s))"

definition getLoginHistory :: "string \<Rightarrow> users_state \<Rightarrow> login_entry list" where
  "getLoginHistory userId s =
     take 100 (tbl_desc le_timestamp (filter (\<lambda>e. le_userId e = userId) (as_logins (ud_accounts s))))"

subsection \<open>Deactivation and reactivation\<close>

definition deactivate :: "string \<Rightarrow> bool \<Rightarrow> time \<Rightarrow> users_state \<Rightarrow> (user, users_state) outcome" where
  "deactivate userId scheduleDeletion now s =
     (case user_row userId s of
        None \<Rightarrow> (Inl (NotFound ''User not found''), s)
      | Some user \<Rightarrow>
          if us_isDeactivated user then (Inl (BadRequest ''Account is already deactivated''), s)
          else (case prisma_update_user userId (\<lambda>u. u\<lparr>us_isDeactivated := True, us_deactivatedAt := Some now,
                       us_scheduledDeletionAt := (if scheduleDeletion then Some (now + 30 * 24 * 60 * 60 * 1000) else None)\<rparr>) s of
                  (Inl e, s1) \<Rightarrow> (Inl e, s1)
                | (Inr updated, s1) \<Rightarrow> (Inr updated, on_accounts (\<lambda>st. snd (revokeAllSessions userId None now st)) s1)))"

text \<open>\<open>token\<close> is the token drawn; only its hash is stored, and the answer does not mention it.\<close>

definition requestReactivation :: "crypto \<Rightarrow> string \<Rightarrow> string \<Rightarrow> time \<Rightarrow> users_state \<Rightarrow> (string, users_state) outcome" where
  "requestReactivation cr token userId now s =
     (case user_row userId s of
        None \<Rightarrow> (Inl (NotFound ''User not found''), s)
      | Some user \<Rightarrow>
          if \<not> us_isDeactivated user then (Inl (BadRequest ''Account is not deactivated''), s)
          else (case prisma_update_user userId (\<lambda>u. u\<lparr>us_reactivationToken := Some (cr_sha cr token),
                       us_reactivationTokenExpires := Some (now + 24 * 60 * 60 * 1000)\<rparr>) s of
                  (Inl e, s1) \<Rightarrow> (Inl e, s1)
                | (Inr _, s1) \<Rightarrow>
                    (Inr ''Reactivation token generated. Use the token to reactivate your account.'', s1)))"

definition reactivate :: "crypto \<Rightarrow> string \<Rightarrow> string \<Rightarrow> time \<Rightarrow> users_state \<Rightarrow> (user, users_state) outcome" where
  "reactivate cr userId token now s =
     (case user_row userId s of
        None \<Rightarrow> (Inl (NotFound ''User not found''), s)
      | Some user \<Rightarrow>
          if \<not> us_isDeactivated user then (Inl (BadRequest ''Account is not deactivated''), s)
          else if \<not> truthy (us_reactivationToken user) \<or> us_reactivationTokenExpires user = None
          then (Inl (BadRequest ''No reactivation token has been requested. Please request a token first.''), s)
          else if the (us_reactivationTokenExpires user) < now
          then (case prisma_update_user userId (\<lambda>u. u\<lparr>us_reactivationToken := None, us_reactivationTokenExpires := None\<rparr>) s of
                  (Inl e, s1) \<Rightarrow> (Inl e, s1)
                | (Inr _, s1) \<Rightarrow> (Inl (BadRequest ''Reactivation token has expired. Please request a new one.''), s1))
          else if us_reactivationToken user \<noteq> Some (cr_sha cr token)
          then (Inl (BadRequest ''Invalid reactivation token''), s)
          else (case prisma_update_user userId (\<lambda>u. u\<lparr>us_isDeactivated := False, us_deactivatedAt := None,
                       us_scheduledDeletionAt := None, us_reactivationToken := None, us_reactivationTokenExpires := None\<rparr>) s of
                  (Inl e, s1) \<Rightarrow> (Inl e, s1)
                | (Inr updated, s1) \<Rightarrow> (Inr updated, on_accounts (log_activity userId ''REACTIVATE'' ''USER'' userId) s1)))"

definition deletion_due :: "time \<Rightarrow> user \<Rightarrow> bool" where
  "deletion_due now u \<longleftrightarrow> us_isDeactivated u \<and> (case us_scheduledDeletionAt u of Some d \<Rightarrow> d \<le> now | None \<Rightarrow> False)"

definition findScheduledForDeletion :: "users_state \<Rightarrow> user list" where
  "findScheduledForDeletion s =
     filter (\<lambda>u. us_isDeactivated u \<and> us_scheduledDeletionAt u \<noteq> None) (as_users (ud_accounts s))"

text \<open>One database transaction: when a row cannot be deleted, nothing is.\<close>

definition deleteDeactivatedUsers :: "(string \<Rightarrow> bool) \<Rightarrow> time \<Rightarrow> users_state \<Rightarrow> (nat, users_state) outcome" where
  "deleteDeactivatedUsers deletable now s =
     (let usersToDelete = filter (deletion_due now) (as_users (ud_accounts s))
      in if usersToDelete = [] then (Inr 0, s)
         else if \<not> list_all (\<lambda>u. deletable (tu_id u)) usersToDelete
         then (Inl (InternalError ''Foreign key constraint failed''), s)
         else (Inr (length usersToDelete),
               fold (\<lambda>u. delete_user_row (tu_id u)) usersToDelete
                 (on_accounts (\<lambda>st. st\<lparr>as_attempts := tbl_delete_many (\<lambda>a. la_email a \<in> set (map us_email usersToDelete))
                    (as_attempts st)\<rparr>) s)))"

subsection \<open>Changing the mail address\<close>

text \<open>A change that is pending shares the columns of the token with the verification of a registration.\<close>

definition requestEmailChange :: "auth_config \<Rightarrow> string \<Rightarrow> string \<Rightarrow> string \<Rightarrow> time \<Rightarrow> users_state \<Rightarrow> (string, users_state) outcome" where
  "requestEmailChange cfg token userId newEmail now s =
     (case user_row userId s of
        None \<Rightarrow> (Inl (NotFound ''User not found''), s)
      | Some _ \<Rightarrow>
          if findByEmail newEmail s \<noteq> None then (Inl (BadRequest ''Email is already in use''), s)
          else (case prisma_update_user userId (\<lambda>u. u\<lparr>us_pendingEmail := Some newEmail,
                       us_emailVerificationToken := Some token, us_emailVerificationExpires := Some (now + verification_ms cfg)\<rparr>) s of
                  (Inl e, s1) \<Rightarrow> (Inl e, s1) | (Inr _, s1) \<Rightarrow> (Inr newEmail, s1)))"

text \<open>\<open>limit_exceeded\<close> is the answer of the rate limiter for the route.\<close>

definition resendVerification :: "auth_config \<Rightarrow> bool \<Rightarrow> string \<Rightarrow> string \<Rightarrow> time \<Rightarrow> users_state \<Rightarrow> (unit, users_state) outcome" where
  "resendVerification cfg limit_exceeded token userId now s =
     (case user_row userId s of
        None \<Rightarrow> (Inl (NotFound ''User not found''), s)
      | Some user \<Rightarrow>
          if \<not> truthy (us_pendingEmail user)
          then (Inl (BadRequest ''No pending email change to resend verification for''), s)
          else if limit_exceeded then (Inl (BadRequest ''Too many verification requests. Please try again later''), s)
          else (case prisma_update_user userId (\<lambda>u. u\<lparr>us_emailVerificationToken := Some token,
                       us_emailVerificationExpires := Some (now + verification_ms cfg)\<rparr>) s of
                  (Inl e, s1) \<Rightarrow> (Inl e, s1) | (Inr _, s1) \<Rightarrow> (Inr (), s1)))"

definition no_pending :: "user \<Rightarrow> user" where
  "no_pending u = u\<lparr>us_pendingEmail := None, us_emailVerificationToken := None, us_emailVerificationExpires := None\<rparr>"

definition verifyEmailChange :: "string \<Rightarrow> string \<Rightarrow> time \<Rightarrow> users_state \<Rightarrow> (user, users_state) outcome" where
  "verifyEmailChange userId token now s =
     (case user_row userId s of
        None \<Rightarrow> (Inl (NotFound ''User not found''), s)
      | Some user \<Rightarrow>
          if \<not> truthy (us_emailVerificationToken user) \<or> us_emailVerificationExpires user = None
          then (Inl (BadRequest ''No pending email change''), s)
          else if the (us_emailVerificationExpires user) < now
          then (case prisma_update_user userId no_pending s of
                  (Inl e, s1) \<Rightarrow> (Inl e, s1) | (Inr _, s1) \<Rightarrow> (Inl (BadRequest ''Verification token has expired''), s1))
          else if us_emailVerificationToken user \<noteq> Some token
          then (Inl (BadRequest ''Invalid verification token''), s)
          else if \<not> truthy (us_pendingEmail user) then (Inl (BadRequest ''No pending email to verify''), s)
          else prisma_update_user userId (\<lambda>u. (no_pending u)\<lparr>us_email := the (us_pendingEmail user)\<rparr>) s)"

definition cancelEmailChange :: "string \<Rightarrow> users_state \<Rightarrow> (unit, users_state) outcome" where
  "cancelEmailChange userId s =
     (case user_row userId s of
        None \<Rightarrow> (Inl (NotFound ''User not found''), s)
      | Some user \<Rightarrow>
          if \<not> truthy (us_pendingEmail user) then (Inl (BadRequest ''No pending email change''), s)
          else (case prisma_update_user userId no_pending s of
                  (Inl e, s1) \<Rightarrow> (Inl e, s1) | (Inr _, s1) \<Rightarrow> (Inr (), s1)))"

subsection \<open>Deletion of an account\<close>

definition DEFAULT_RETENTION_DAYS :: int where "DEFAULT_RETENTION_DAYS = 30"
definition MIN_RETENTION_DAYS :: int where "MIN_RETENTION_DAYS = 7"
definition MAX_RETENTION_DAYS :: int where "MAX_RETENTION_DAYS = 90"

definition getDefaultRetentionDays :: "string option \<Rightarrow> int" where
  "getDefaultRetentionDays env =
     (case Option.bind env parse_int10 of
        None \<Rightarrow> DEFAULT_RETENTION_DAYS
      | Some parsed \<Rightarrow> min MAX_RETENTION_DAYS (max MIN_RETENTION_DAYS parsed))"

definition resolveRetentionDays :: "string option \<Rightarrow> rat option \<Rightarrow> int" where
  "resolveRetentionDays env requested =
     (case requested of
        None \<Rightarrow> getDefaultRetentionDays env
      | Some r \<Rightarrow> min MAX_RETENTION_DAYS (max MIN_RETENTION_DAYS \<lfloor>r\<rfloor>))"

text \<open>An entry for a user who is gone violates the foreign key; the failure is caught and logged.\<close>

definition recordAudit :: "string \<Rightarrow> string \<Rightarrow> string option \<Rightarrow> string option \<Rightarrow> users_state \<Rightarrow> users_state" where
  "recordAudit userId action actorId reason s =
     (if user_row userId s = None then s
      else s\<lparr>ud_audit := tbl_create \<lparr>da_userId = Some userId, da_action = action, da_actorId = actorId,
        da_reason = reason\<rparr> (ud_audit s)\<rparr>)"

record deletion_request =
  dr_userId :: string
  dr_actorId :: "string option"
  dr_retentionDays :: "rat option"
  dr_reason :: "string option"
  dr_language :: "string option"

definition asLang :: "string option \<Rightarrow> string" where
  "asLang lang = (if lang = Some ''es'' then ''es'' else ''en'')"

text \<open>\<open>tr key lang\<close> is the translated message.\<close>

definition requestDeletion ::
  "(string \<Rightarrow> string \<Rightarrow> string) \<Rightarrow> string option \<Rightarrow> deletion_request \<Rightarrow> time \<Rightarrow> users_state \<Rightarrow> (time \<times> int, users_state) outcome" where
  "requestDeletion tr env input now s =
     (let lang = asLang (dr_language input); userId = dr_userId input;
          actor = Some (case dr_actorId input of Some a \<Rightarrow> a | None \<Rightarrow> userId)
      in case user_row userId s of
           None \<Rightarrow> (Inl (NotFound (tr ''users.not_found'' lang)), s)
         | Some user \<Rightarrow>
             if us_legalHold user
             then (Inl (BadRequest (tr ''users.self_deletion_blocked_by_legal_hold'' lang)),
                   recordAudit userId ''LEGAL_HOLD_BLOCKED'' actor (dr_reason input) s)
             else if us_isDeactivated user \<and> us_scheduledDeletionAt user \<noteq> None
             then (Inl (BadRequest (tr ''users.self_deletion_already_requested'' lang)), s)
             else (let retentionDays = resolveRetentionDays env (dr_retentionDays input);
                       scheduledDeletionAt = now + retentionDays * 24 * 60 * 60 * 1000
                   in case prisma_update_user userId (\<lambda>u. u\<lparr>us_isDeactivated := True, us_deactivatedAt := Some now,
                             us_scheduledDeletionAt := Some scheduledDeletionAt, us_deletionReason := dr_reason input\<rparr>) s of
                        (Inl e, s1) \<Rightarrow> (Inl e, s1)
                      | (Inr _, s1) \<Rightarrow>
                          (Inr (scheduledDeletionAt, retentionDays), recordAudit userId ''REQUESTED'' actor (dr_reason input) s1)))"

definition cancelDeletion ::
  "(string \<Rightarrow> string \<Rightarrow> string) \<Rightarrow> string \<Rightarrow> string option \<Rightarrow> string option \<Rightarrow> time \<Rightarrow> users_state \<Rightarrow> (unit, users_state) outcome" where
  "cancelDeletion tr userId actorId language now s =
     (let lang = asLang language in
      case user_row userId s of
        None \<Rightarrow> (Inl (NotFound (tr ''users.not_found'' lang)), s)
      | Some user \<Rightarrow>
          (case us_scheduledDeletionAt user of
             None \<Rightarrow> (Inl (BadRequest (tr ''users.self_deletion_not_requested'' lang)), s)
           | Some dueAt \<Rightarrow>
               if \<not> us_isDeactivated user then (Inl (BadRequest (tr ''users.self_deletion_not_requested'' lang)), s)
               else if dueAt \<le> now then (Inl (BadRequest (tr ''users.self_deletion_already_permanent'' lang)), s)
               else (case prisma_update_user userId (\<lambda>u. u\<lparr>us_isDeactivated := False, us_deactivatedAt := None,
                            us_scheduledDeletionAt := None, us_deletionReason := None\<rparr>) s of
                       (Inl e, s1) \<Rightarrow> (Inl e, s1)
                     | (Inr _, s1) \<Rightarrow>
                         (Inr (), recordAudit userId ''CANCELLED'' (Some (case actorId of Some a \<Rightarrow> a | None \<Rightarrow> userId)) None s1))))"

text \<open>One candidate of the nightly run; a deletion that fails is logged and skipped.\<close>

definition delete_candidate :: "(string \<Rightarrow> bool) \<Rightarrow> user \<Rightarrow> nat \<times> nat \<times> users_state \<Rightarrow> nat \<times> nat \<times> users_state" where
  "delete_candidate deletable candidate r =
     (let (deletedCount, blockedByLegalHold, s) = r in
      if us_legalHold candidate
      then (deletedCount, blockedByLegalHold + 1,
            recordAudit (tu_id candidate) ''LEGAL_HOLD_BLOCKED'' (Some ''system-cron'')
              (Some ''Scheduled deletion blocked by legal hold'') s)
      else if user_row (tu_id candidate) s \<noteq> None \<and> deletable (tu_id candidate)
      then (deletedCount + 1, blockedByLegalHold,
            recordAudit (tu_id candidate) ''PERFORMED'' (Some ''system-cron'') None (delete_user_row (tu_id candidate) s))
      else r)"

definition performScheduledDeletion :: "(string \<Rightarrow> bool) \<Rightarrow> time \<Rightarrow> users_state \<Rightarrow> nat \<times> nat \<times> users_state" where
  "performScheduledDeletion deletable now s =
     fold (delete_candidate deletable) (filter (deletion_due now) (as_users (ud_accounts s))) (0, 0, s)"

end
