(* ===== verification/User_Life.thy ===== *)
theory User_Life
  imports User_Accounts Account_Security "HOL-Library.Multiset"
begin

text \<open>
  What the operations on user rows guarantee: referral codes, pages, deactivation and deletion.
\<close>

lemma prisma_update_cases:
  assumes "prisma_update_user u f s = (res, s')"
  shows "(\<exists>e. res = Inl e) \<and> s' = s
    \<or> (\<exists>row. user_row u s = Some row \<and> res = Inr (f row) \<and> s' = on_accounts (update_user u f) s)"
  using assms unfolding prisma_update_user_def by (cases "user_row u s") (auto split: if_splits)

lemma on_accounts_simps [simp]:
  "ud_accounts (on_accounts f s) = f (ud_accounts s)" "ud_audit (on_accounts f s) = ud_audit s"
  by (simp_all add: on_accounts_def)

lemma prisma_update_same_email:
  assumes "user_row u s = Some row" and "us_email (f row) = us_email row" and "distinct (map us_email (as_users (ud_accounts s)))"
  shows "prisma_update_user u f s = (Inr (f row), on_accounts (update_user u f) s)"
proof -
  have row: "row \<in> set (as_users (ud_accounts s))" "tu_id row = u"
    using assms(1) by (auto simp: find_user_def dest: tbl_find_Some)
  have "v = row" if "v \<in> set (as_users (ud_accounts s))" "us_email v = us_email row" for v
    using assms(3) that row(1) by (auto simp: distinct_map inj_on_def)
  then have "\<not> list_ex (\<lambda>v. tu_id v \<noteq> u \<and> us_email v = us_email (f row)) (as_users (ud_accounts s))"
    using row(2) assms(2) by (auto simp: list_ex_iff)
  then show ?thesis using assms(1) by (simp add: prisma_update_user_def)
qed

subsection \<open>Referral codes\<close>

lemma free_code_is_free:
  "free_referral_code draw users i = Some c \<Longrightarrow> tbl_find us_referralCode (Some c) users = None"
  by (rule free_referral_code.raw_induct [where P = "\<lambda>draw users i c. tbl_find us_referralCode (Some c) users = None"])
    (auto split: if_splits)

lemma free_code_found:
  "tbl_find us_referralCode (Some (draw (i + k))) users = None \<Longrightarrow> \<exists>c. free_referral_code draw users i = Some c"
proof (induction k arbitrary: i)
  case 0
  then show ?case by (simp add: free_referral_code.simps)
next
  case (Suc k)
  then have "\<exists>c. free_referral_code draw users (Suc i) = Some c" by simp
  then show ?case by (subst free_referral_code.simps) simp
qed

text \<open>C14: Creating a user ends as soon as some draw gives a code that is not taken, and the code a user gets is never
  one that another user has.\<close>

theorem referral_codes_stay_unique:
  assumes "tbl_find us_referralCode (Some (draw k)) (as_users (ud_accounts s)) = None"
    and "distinct (List.map_filter us_referralCode (as_users (ud_accounts s)))"
  shows "\<exists>res s'. users_create cr draw newId entryId data now s = Some (res, s')
    \<and> distinct (List.map_filter us_referralCode (as_users (ud_accounts s')))"
proof -
  obtain c where c: "free_referral_code draw (as_users (ud_accounts s)) 0 = Some c"
    using free_code_found [of draw 0 k "as_users (ud_accounts s)"] assms(1) by auto
  have "c \<notin> set (List.map_filter us_referralCode (as_users (ud_accounts s)))"
    using free_code_is_free [OF c] by (auto simp: map_filter_def tbl_find_None rev_image_eqI)
  then show ?thesis
    using assms(2) c by (simp add: users_create_def Let_def tbl_create_def map_filter_def created_user_def)
qed

subsection \<open>Pages\<close>

text \<open>Paging through the users misses and repeats nobody: the pages up to the reported last one, put together, are
  the active users, the newest first.\<close>

theorem user_pages_complete:
  assumes "0 < l" and "users_findAll rank (Some 1) (Some l) s = (first, Some meta)"
  shows "mset (concat (map (\<lambda>p. fst (users_findAll rank (Some p) (Some l) s)) [1..<Suc (pm_totalPages meta)])) = mset (active_users s)
    \<and> sorted_wrt (\<lambda>u v. us_createdAt v \<le> us_createdAt u)
        (concat (map (\<lambda>p. fst (users_findAll rank (Some p) (Some l) s)) [1..<Suc (pm_totalPages meta)]))"
proof -
  let ?xs = "tbl_desc us_createdAt (tbl_desc (\<lambda>u. rank (tu_id u)) (active_users s))"
  have meta: "int (length (active_users s)) \<le> int (pm_totalPages meta) * int l"
  proof -
    have "int (length (active_users s)) \<le> ceil_div (int (length (active_users s))) (int l) * int l"
      using ceil_div_bounds [of "int l" "int (length (active_users s))"] assms(1) by (simp add: mult.commute)
    also have "\<dots> \<le> int (pm_totalPages meta) * int l"
      using assms by (intro mult_right_mono) (auto simp: users_findAll_def given_def buildUsersPageMeta_def Let_def)
    finally show ?thesis .
  qed
  have "concat (map (\<lambda>p. fst (users_findAll rank (Some p) (Some l) s)) [1..<Suc (pm_totalPages meta)])
      = concat (map (\<lambda>p. tbl_page (p * l) l ?xs) [0..<pm_totalPages meta])"
    by (simp only: map_Suc_upt [symmetric] map_map o_def One_nat_def) (simp add: users_findAll_def given_def Let_def)
  also have "\<dots> = take (pm_totalPages meta * l) ?xs" by (rule pages_concat)
  also have "\<dots> = ?xs"
    using meta by (simp add: tbl_desc_def flip: of_nat_mult)
  finally have eq: "concat (map (\<lambda>p. fst (users_findAll rank (Some p) (Some l) s)) [1..<Suc (pm_totalPages meta)]) = ?xs" .
  have "sorted (map (\<lambda>u. - us_createdAt u) ?xs)" unfolding tbl_desc_def [of us_createdAt] by simp
  then have "sorted_wrt (\<lambda>u v. us_createdAt v \<le> us_createdAt u) ?xs" by (simp add: sorted_wrt_map)
  then show ?thesis unfolding eq by (simp add: tbl_desc_def)
qed

definition example_users :: users_state where
  "example_users = \<lparr>ud_accounts = example_factor_state, ud_audit = [], ud_preferences = []\<rparr>"

theorem user_pages_complete_witness:
  "\<exists>first meta. users_findAll (\<lambda>_. 0) (Some 1) (Some 10) example_users = (first, Some meta)
    \<and> mset (concat (map (\<lambda>p. fst (users_findAll (\<lambda>_. 0) (Some p) (Some 10) example_users)) [1..<Suc (pm_totalPages meta)]))
      = mset [example_factor_user]"
proof -
  obtain first m where run: "users_findAll (\<lambda>_. 0) (Some 1) (Some 10) example_users = (first, m)" by fastforce
  then obtain meta where m: "m = Some meta" by (auto simp: users_findAll_def Let_def)
  have "active_users example_users = [example_factor_user]" by code_simp
  then show ?thesis using user_pages_complete [OF _ run [unfolded m]] run m by simp
qed

definition example_new_user :: create_user_dto where
  "example_new_user = \<lparr>pd_firstName = None, pd_lastName = None, pd_email = None, pd_phone = None, pd_avatar = None,
     pd_preferredChannel = None, pd_languagePreference = None, pd_timezone = None, pd_contactHours = None,
     cd_email = ''bob@example.org'', cd_password = ''pw'', cd_newFirstName = ''Bob'', cd_newLastName = ''Lee'', cd_referralCode = None\<rparr>"

theorem referral_codes_stay_unique_witness:
  "\<exists>res s'. users_create example_crypto (\<lambda>i. replicate (Suc i) CHR ''A'') ''u2'' ''p1'' example_new_user 0 example_users = Some (res, s')
    \<and> distinct (List.map_filter us_referralCode (as_users (ud_accounts s')))"
proof (rule referral_codes_stay_unique [of "\<lambda>i. replicate (Suc i) CHR ''A''" 0])
  show "tbl_find us_referralCode (Some (replicate (Suc 0) CHR ''A'')) (as_users (ud_accounts example_users)) = None" by code_simp
  show "distinct (List.map_filter us_referralCode (as_users (ud_accounts example_users)))" by code_simp
qed

subsection \<open>Deactivation\<close>

lemma deactivated_no_login:
  assumes "find_user_by_email (ld_email data) st = Some user" and "us_isDeactivated user"
  shows "\<exists>e. fst (login J cr cfg rq rn captcha data now st) = Inl e"
proof (rule ccontr)
  assume n: "\<not> (\<exists>e. fst (login J cr cfg rq rn captcha data now st) = Inl e)"
  obtain r st' where run: "login J cr cfg rq rn captcha data now st = (r, st')" by fastforce
  with n obtain res where "r = Inr res" by (cases r) auto
  then show False
    using credentials_ok [OF login_stages(2) [OF run [unfolded \<open>r = Inr res\<close>] assms(1)]] assms(2) by simp
qed

lemma find_by_email_update:
  assumes "distinct (map us_email (as_users st))" and "find_user u st = Some row" and "\<And>r. us_email (f r) = us_email r"
  shows "find_user_by_email (us_email row) (update_user u f st) = Some (f row)"
proof -
  have row: "row \<in> set (as_users st)" "tu_id row = u" using assms(2) by (auto simp: find_user_def dest: tbl_find_Some)
  then have "find_user_by_email (us_email row) st = Some row"
    using tbl_find_distinct [OF assms(1)] by (simp add: find_user_by_email_def)
  then show ?thesis
    using row(2) by (simp add: find_user_by_email_def update_user_def tbl_find_update_by [of us_email, OF assms(3)])
qed

lemma deactivate_effect:
  assumes "deactivate u sched now s = (Inr row', s')" and "distinct (map us_email (as_users (ud_accounts s)))"
  shows "\<exists>row f. user_row u s = Some row \<and> us_email (f row) = us_email row \<and> us_isDeactivated (f row)
    \<and> ud_accounts s' = snd (revokeAllSessions u None now (update_user u f (ud_accounts s)))
    \<and> find_user_by_email (us_email row) (ud_accounts s') = Some (f row)"
proof -
  let ?f = "\<lambda>u. u\<lparr>us_isDeactivated := True, us_deactivatedAt := Some now,
    us_scheduledDeletionAt := (if sched then Some (now + 30 * 24 * 60 * 60 * 1000) else None)\<rparr>"
  obtain row where row: "user_row u s = Some row" using assms(1) by (cases "user_row u s") (auto simp: deactivate_def)
  have "us_email (?f row) = us_email row" by simp
  note upd = prisma_update_same_email [of u s row ?f, OF row this assms(2)]
  have s': "ud_accounts s' = snd (revokeAllSessions u None now (update_user u ?f (ud_accounts s)))"
    using assms(1) row upd by (auto simp: deactivate_def split: if_splits)
  have "find_user_by_email (us_email row) (ud_accounts s') = find_user_by_email (us_email row) (update_user u ?f (ud_accounts s))"
    unfolding s' by (simp add: find_user_by_email_def revokeAllSessions_def Let_def)
  also have "\<dots> = Some (?f row)" by (rule find_by_email_update [OF assms(2) row]) simp
  finally show ?thesis using row s' by (intro exI [of _ row] exI [of _ ?f]) simp
qed

text \<open>Deactivation shuts the account: every login with its mail address is refused from then on, and so is the
  access token that an active session of the account records.\<close>

theorem deactivation_shuts_account:
  assumes "deactivate u sched t s = (Inr row', s')" and "distinct (map us_email (as_users (ud_accounts s)))"
    and "user_row u s = Some row" and "ld_email data = us_email row"
    and "x \<in> set (ss_sessions (ud_accounts s))" and "se_userId x = u" and "\<not> se_isRevoked x"
    and "\<And>k now p ex. jl_verify J atok k now = Some (p, ex) \<Longrightarrow> jp_jti p = se_accessTokenJti x \<and> jp_jti p \<noteq> []"
  shows "(\<exists>e. fst (login J cr cfg rq rn captcha data now (ud_accounts s')) = Inl e)
    \<and> (\<exists>e. fst (validateAccessToken J cfg touch atok now (ud_accounts s')) = Inl e)"
proof -
  obtain f where f: "us_isDeactivated (f row)"
      "ud_accounts s' = snd (revokeAllSessions u None t (update_user u f (ud_accounts s)))"
      "find_user_by_email (us_email row) (ud_accounts s') = Some (f row)"
    using deactivate_effect [OF assms(1,2)] assms(3) by auto
  have "revoked_jti (se_accessTokenJti x) (ud_accounts s')" if "se_accessTokenJti x \<noteq> []"
    unfolding f(2) using assms(5-7) that by (intro revokeAllSessions_revokes [where s = x]) simp_all
  then have "\<exists>e. fst (validateAccessToken J cfg touch atok now (ud_accounts s')) = Inl e"
    using assms(8) [of "cf_jwtSecret cfg" now]
    by (auto simp: validateAccessToken_def verifyToken_def ensureTokenNotBlacklisted_def revoked_jti_def split: option.splits)
  moreover have "\<exists>e. fst (login J cr cfg rq rn captcha data now (ud_accounts s')) = Inl e"
    using f(1,3) assms(4) by (intro deactivated_no_login [where user = "f row"]) simp_all
  ultimately show ?thesis by blast
qed

theorem deactivation_shuts_account_witness:
  "\<exists>row s'. deactivate ''u1'' True 10 (on_accounts (\<lambda>st. st\<lparr>ss_sessions := [example_session]\<rparr>) example_users) = (Inr row, s')
    \<and> (\<exists>e. fst (login example_jwt example_crypto example_config example_request example_random None example_login 20 (ud_accounts s')) = Inl e)"
proof -
  let ?s = "on_accounts (\<lambda>st. st\<lparr>ss_sessions := [example_session]\<rparr>) example_users"
  have users: "as_users (ud_accounts ?s) = [example_factor_user]" by (simp add: example_users_def example_factor_state_def)
  have row: "user_row ''u1'' ?s = Some example_factor_user" by code_simp
  have user: "\<not> us_isDeactivated example_factor_user" "tu_id example_factor_user = ''u1''"
    "us_email example_factor_user = ld_email example_login"
    by (simp_all add: example_factor_user_def example_user_def example_login_def)
  obtain r s' where run: "deactivate ''u1'' True 10 ?s = (Inr r, s')"
    using row users user by (fastforce simp: deactivate_def prisma_update_user_def)
  have "(\<exists>e. fst (login example_jwt example_crypto example_config example_request example_random None example_login 20 (ud_accounts s')) = Inl e)
    \<and> (\<exists>e. fst (validateAccessToken example_jwt example_config True
       (token_payload example_user Jwt_access ''a'' ''f'', ''access-secret'', 900) 20 (ud_accounts s')) = Inl e)"
  proof (rule deactivation_shuts_account [OF run _ row, where x = example_session])
    show "distinct (map us_email (as_users (ud_accounts ?s)))" unfolding users by simp
  qed (use user in \<open>auto simp: example_session_def new_session_def dest: example_verify\<close>)
  then show ?thesis using run by blast
qed

end
