(* ===== verification/User_Deletion.thy ===== *)
theory User_Deletion
  imports User_Life
begin

text \<open>
  Deletion of accounts: what the nightly run and the purge remove, what the audit trail keeps, the time in which a
  request can be taken back, and the tokens for a reactivation and for a new mail address.
\<close>

abbreviation user_ids :: "users_state \<Rightarrow> string list" where
  "user_ids s \<equiv> map tu_id (as_users (ud_accounts s))"

lemma user_row_None: "user_row u s = None \<longleftrightarrow> u \<notin> set (user_ids s)"
  by (auto simp: find_user_def tbl_find_None)

lemma delete_user_row_ids: "user_ids (delete_user_row u s) = filter (\<lambda>i. i \<noteq> u) (user_ids s)"
  by (simp add: delete_user_row_def Let_def tbl_delete_many_def filter_map o_def)

lemma recordAudit_accounts [simp]: "ud_accounts (recordAudit u a b c s) = ud_accounts s"
  by (simp add: recordAudit_def)

lemma recordAudit_gone: "user_row u s = None \<Longrightarrow> recordAudit u a b c s = s"
  by (simp add: recordAudit_def)

lemma delete_user_row_gone: "user_row u (delete_user_row u s) = None"
  by (simp add: user_row_None delete_user_row_ids)

subsection \<open>The nightly run\<close>

abbreviation removable :: "(string \<Rightarrow> bool) \<Rightarrow> user \<Rightarrow> bool" where
  "removable deletable u \<equiv> \<not> us_legalHold u \<and> deletable (tu_id u)"

text \<open>What one candidate does when its row is there.\<close>

lemma delete_candidate_present:
  assumes "tu_id u \<in> set (user_ids s)"
  shows "delete_candidate d u (m, n, s) =
    (if removable d u then (m + 1, n, delete_user_row (tu_id u) s)
     else if us_legalHold u then (m, n + 1, recordAudit (tu_id u) ''LEGAL_HOLD_BLOCKED'' (Some ''system-cron'')
       (Some ''Scheduled deletion blocked by legal hold'') s)
     else (m, n, s))"
  using assms delete_user_row_gone [of "tu_id u" s] user_row_None [of "tu_id u" s]
  by (simp add: delete_candidate_def recordAudit_gone)

lemma delete_candidates:
  assumes "distinct (map tu_id us)" and "tu_id ` set us \<subseteq> set (user_ids s)"
  shows "fold (delete_candidate d) us (m, n, s) = (m', n', s') \<Longrightarrow>
    m' = m + length (filter (removable d) us) \<and> n' = n + length (filter us_legalHold us)
    \<and> user_ids s' = filter (\<lambda>i. i \<notin> tu_id ` set (filter (removable d) us)) (user_ids s)"
  using assms
proof (induction us arbitrary: m n s)
  case (Cons u us)
  obtain m1 n1 s1 where step: "delete_candidate d u (m, n, s) = (m1, n1, s1)" by (cases "delete_candidate d u (m, n, s)")
  have present: "tu_id u \<in> set (user_ids s)" using Cons.prems(3) by simp
  have one: "m1 = m + (if removable d u then 1 else 0)" "n1 = n + (if us_legalHold u then 1 else 0)"
    "user_ids s1 = (if removable d u then filter (\<lambda>i. i \<noteq> tu_id u) (user_ids s) else user_ids s)"
    using step delete_candidate_present [OF present, of d m n] by (auto simp: delete_user_row_ids split: if_splits)
  have "tu_id v \<in> set (user_ids s1)" if "v \<in> set us" for v
  proof -
    have "tu_id v \<in> set (user_ids s)" using that Cons.prems(3) by auto
    moreover have "tu_id v \<noteq> tu_id u" using that Cons.prems(2) by (metis distinct.simps(2) image_eqI list.simps(9) list.set_map)
    ultimately show ?thesis unfolding one(3) by simp
  qed
  then have "tu_id ` set us \<subseteq> set (user_ids s1)" by blast
  then have "m' = m1 + length (filter (removable d) us) \<and> n' = n1 + length (filter us_legalHold us)
    \<and> user_ids s' = filter (\<lambda>i. i \<notin> tu_id ` set (filter (removable d) us)) (user_ids s1)"
    using Cons.IH [of m1 n1 s1] Cons.prems(1,2) step by simp
  then show ?case unfolding one by (auto intro: filter_cong)
qed simp

lemma distinct_due: "distinct (user_ids s) \<Longrightarrow> distinct (map tu_id (filter p (as_users (ud_accounts s))))"
  by (rule distinct_map_filter)

lemma nightly_ids:
  assumes "performScheduledDeletion deletable now s = (deleted, blocked, s')" and "distinct (user_ids s)"
  shows "user_ids s' = map tu_id (filter (\<lambda>u. \<not> (deletion_due now u \<and> removable deletable u)) (as_users (ud_accounts s)))"
    and "deleted = length (filter (\<lambda>u. deletion_due now u \<and> removable deletable u) (as_users (ud_accounts s)))"
    and "blocked = length (filter (\<lambda>u. deletion_due now u \<and> us_legalHold u) (as_users (ud_accounts s)))"
proof -
  let ?users = "as_users (ud_accounts s)"
  let ?due = "filter (deletion_due now) ?users"
  have "deleted = length (filter (removable deletable) ?due) \<and> blocked = length (filter us_legalHold ?due)
    \<and> user_ids s' = filter (\<lambda>i. i \<notin> tu_id ` set (filter (removable deletable) ?due)) (user_ids s)"
    using delete_candidates [of ?due s deletable 0 0 deleted blocked s'] distinct_due [OF assms(2)] assms(1)
    by (auto simp: performScheduledDeletion_def)
  moreover have "filter (\<lambda>i. i \<notin> tu_id ` set (filter (removable deletable) ?due)) (user_ids s)
      = map tu_id (filter (\<lambda>u. \<not> (deletion_due now u \<and> removable deletable u)) ?users)"
    using assms(2) by (auto simp: filter_map o_def distinct_map inj_on_def intro!: arg_cong [where f = "map tu_id"] filter_cong)
  ultimately show "user_ids s' = map tu_id (filter (\<lambda>u. \<not> (deletion_due now u \<and> removable deletable u)) ?users)"
    "deleted = length (filter (\<lambda>u. deletion_due now u \<and> removable deletable u) ?users)"
    "blocked = length (filter (\<lambda>u. deletion_due now u \<and> us_legalHold u) ?users)"
    by (simp_all add: conj_commute)
qed

text \<open>C5: The nightly deletion removes exactly the accounts that are due, not under legal hold and not held by other
  records, and it counts them; an account under legal hold stays and is counted as blocked.\<close>

theorem nightly_deletion_exact:
  assumes "performScheduledDeletion deletable now s = (deleted, blocked, s')" and "distinct (user_ids s)"
  shows "user_ids s' = map tu_id (filter (\<lambda>u. \<not> (deletion_due now u \<and> removable deletable u)) (as_users (ud_accounts s)))
    \<and> deleted = length (filter (\<lambda>u. deletion_due now u \<and> removable deletable u) (as_users (ud_accounts s)))
    \<and> blocked = length (filter (\<lambda>u. deletion_due now u \<and> us_legalHold u) (as_users (ud_accounts s)))"
  using nightly_ids [OF assms] by blast

subsection \<open>The audit trail\<close>

lemma fold_invariant: "(\<And>x s. P s \<Longrightarrow> P (f x s)) \<Longrightarrow> P s \<Longrightarrow> P (fold f xs s)"
  by (induction xs arbitrary: s) simp_all

lemma delete_row_actions: "map da_action (ud_audit (delete_user_row u s)) = map da_action (ud_audit s)"
  by (simp add: delete_user_row_def Let_def)

lemma recordAudit_actions:
  "a \<noteq> x \<Longrightarrow> filter (\<lambda>y. y = x) (map da_action (ud_audit (recordAudit u a b c s)))
    = filter (\<lambda>y. y = x) (map da_action (ud_audit s))"
  by (simp add: recordAudit_def tbl_create_def)

lemma delete_candidate_performed:
  "filter (\<lambda>a. a = ''PERFORMED'') (map da_action (ud_audit (snd (snd (delete_candidate d u r)))))
    = filter (\<lambda>a. a = ''PERFORMED'') (map da_action (ud_audit (snd (snd r))))"
  using delete_user_row_gone [of "tu_id u"]
  by (cases r) (simp add: delete_candidate_def recordAudit_actions recordAudit_gone delete_row_actions)

text \<open>The audit trail never shows a performed deletion: the entry is written when the row of the user is gone, and
  the table refuses it.\<close>

theorem performed_deletion_unaudited:
  "filter (\<lambda>a. a = ''PERFORMED'') (map da_action (ud_audit (snd (snd (performScheduledDeletion deletable now s)))))
    = filter (\<lambda>a. a = ''PERFORMED'') (map da_action (ud_audit s))"
proof -
  let ?P = "\<lambda>r. filter (\<lambda>a. a = ''PERFORMED'') (map da_action (ud_audit (snd (snd r))))
    = filter (\<lambda>a. a = ''PERFORMED'') (map da_action (ud_audit s))"
  have "?P (fold (delete_candidate deletable) (filter (deletion_due now) (as_users (ud_accounts s))) (0 :: nat, 0 :: nat, s))"
    by (rule fold_invariant [of ?P]) (simp_all only: delete_candidate_performed fst_conv snd_conv)
  then show ?thesis by (simp only: performScheduledDeletion_def)
qed


text \<open>Two accounts that are due, one of them under legal hold.\<close>

definition due_user :: "string \<Rightarrow> string \<Rightarrow> bool \<Rightarrow> user" where
  "due_user i email hold = (blank_user i email 0)\<lparr>us_isDeactivated := True, us_scheduledDeletionAt := Some 5, us_legalHold := hold\<rparr>"

definition example_due :: users_state where
  "example_due = on_accounts (\<lambda>st. st\<lparr>as_users := [due_user ''u1'' ''ann@example.org'' False, due_user ''u2'' ''bob@example.org'' True]\<rparr>)
     example_users"

lemma example_due_users:
  "as_users (ud_accounts example_due) = [due_user ''u1'' ''ann@example.org'' False, due_user ''u2'' ''bob@example.org'' True]"
  by (simp add: example_due_def)

lemma due_user_simps [simp]:
  "tu_id (due_user i e h) = i" "us_email (due_user i e h) = e" "us_legalHold (due_user i e h) = h"
  "deletion_due now (due_user i e h) \<longleftrightarrow> 5 \<le> now"
  by (simp_all add: due_user_def deletion_due_def)

theorem nightly_deletion_exact_witness:
  "\<exists>s'. performScheduledDeletion (\<lambda>_. True) 10 example_due = (1, 1, s') \<and> user_ids s' = [''u2'']"
proof -
  obtain m n s' where run: "performScheduledDeletion (\<lambda>_. True) 10 example_due = (m, n, s')"
    by (cases "performScheduledDeletion (\<lambda>_. True) 10 example_due")
  have "distinct (user_ids example_due)" by (simp add: example_due_users)
  then show ?thesis using nightly_deletion_exact [OF run] run by (simp add: example_due_users)
qed

subsection \<open>The purge\<close>

lemma delete_user_rows_ids:
  "user_ids (fold (\<lambda>u. delete_user_row (tu_id u)) us s) = filter (\<lambda>i. i \<notin> tu_id ` set us) (user_ids s)"
  by (induction us arbitrary: s) (auto simp: delete_user_row_ids intro: filter_cong)

text \<open>The purge of deactivated users does not look at the legal hold: when it succeeds, every account that is due is
  gone, and the number it reports is that of all of them.\<close>

theorem purge_ignores_legal_hold:
  assumes "deleteDeactivatedUsers deletable now s = (Inr n, s')" and "distinct (user_ids s)"
  shows "user_ids s' = map tu_id (filter (\<lambda>u. \<not> deletion_due now u) (as_users (ud_accounts s)))
    \<and> n = length (filter (deletion_due now) (as_users (ud_accounts s)))"
proof -
  let ?users = "as_users (ud_accounts s)"
  let ?due = "filter (deletion_due now) ?users"
  have "filter (\<lambda>i. i \<notin> tu_id ` set ?due) (user_ids s) = map tu_id (filter (\<lambda>u. \<not> deletion_due now u) ?users)"
    using assms(2) by (auto simp: filter_map o_def distinct_map inj_on_def intro!: arg_cong [where f = "map tu_id"] filter_cong)
  moreover have "user_ids s' = filter (\<lambda>i. i \<notin> tu_id ` set ?due) (user_ids s) \<and> n = length ?due"
  proof (cases "?due = []")
    case True
    then have "(n, s') = (0, s)" using assms(1) by (simp add: deleteDeactivatedUsers_def)
    then show ?thesis unfolding True by simp
  next
    case False
    then show ?thesis
      using assms(1) by (auto simp: deleteDeactivatedUsers_def Let_def delete_user_rows_ids simp del: set_filter split: if_splits)
  qed
  ultimately show ?thesis by simp
qed

theorem purge_ignores_legal_hold_witness:
  "\<exists>s'. deleteDeactivatedUsers (\<lambda>_. True) 10 example_due = (Inr 2, s') \<and> user_ids s' = []"
proof -
  obtain r s' where run: "deleteDeactivatedUsers (\<lambda>_. True) 10 example_due = (r, s')" by fastforce
  then have r: "r = Inr 2" by (auto simp: deleteDeactivatedUsers_def example_due_users Let_def)
  have "distinct (user_ids example_due)" by (simp add: example_due_users)
  then show ?thesis using purge_ignores_legal_hold [OF run [unfolded r]] run r by (simp add: example_due_users)
qed

subsection \<open>The time to take a request back\<close>

lemma user_row_update:
  "(\<And>r. tu_id (f r) = tu_id r) \<Longrightarrow>
   user_row v (on_accounts (update_user u f) s) = (if v = u then map_option f (user_row u s) else user_row v s)"
  by (simp add: find_update_user)

lemma update_emails:
  "(\<And>r. us_email (f r) = us_email r) \<Longrightarrow>
   map us_email (as_users (ud_accounts (on_accounts (update_user u f) s))) = map us_email (as_users (ud_accounts s))"
  by (simp add: update_user_def tbl_update_def o_def)

lemma resolve_bounds: "7 \<le> resolveRetentionDays env r \<and> resolveRetentionDays env r \<le> 90"
  by (auto simp: resolveRetentionDays_def getDefaultRetentionDays_def DEFAULT_RETENTION_DAYS_def MIN_RETENTION_DAYS_def
      MAX_RETENTION_DAYS_def split: option.split)

lemma requestDeletion_cases:
  assumes "requestDeletion tr env input now s = (Inr (due, days), s')" and "distinct (map us_email (as_users (ud_accounts s)))"
  defines "f \<equiv> \<lambda>u. u\<lparr>us_isDeactivated := True, us_deactivatedAt := Some now, us_scheduledDeletionAt := Some due,
      us_deletionReason := dr_reason input\<rparr>"
  shows "\<exists>row. user_row (dr_userId input) s = Some row \<and> \<not> us_legalHold row
    \<and> ud_accounts s' = update_user (dr_userId input) f (ud_accounts s)
    \<and> days = resolveRetentionDays env (dr_retentionDays input) \<and> due = now + days * (24 * 60 * 60 * 1000)"
proof -
  obtain row where row: "user_row (dr_userId input) s = Some row"
    using assms(1) by (cases "user_row (dr_userId input) s") (auto simp: requestDeletion_def Let_def)
  let ?f = "\<lambda>d u. u\<lparr>us_isDeactivated := True, us_deactivatedAt := Some now, us_scheduledDeletionAt := Some d,
      us_deletionReason := dr_reason input\<rparr> :: user"
  have "prisma_update_user (dr_userId input) (?f d) s = (Inr (?f d row), on_accounts (update_user (dr_userId input) (?f d)) s)" for d
    by (rule prisma_update_same_email [OF row _ assms(2)]) simp
  then show ?thesis
    using assms(1) row by (auto simp: requestDeletion_def f_def Let_def split: if_splits)
qed

text \<open>C6: A user who asks for deletion keeps between 7 and 90 days: until the time given in the answer the nightly run
  does not touch the account and the request can be taken back, which leaves no trace of it in the row; from then on
  it cannot.\<close>

theorem deletion_can_be_cancelled:
  assumes "requestDeletion tr env input now s = (Inr (due, days), s1)"
    and "distinct (map us_email (as_users (ud_accounts s)))" and "distinct (user_ids s)"
  shows "7 \<le> days \<and> days \<le> 90 \<and> due = now + days * (24 * 60 * 60 * 1000)
    \<and> dr_userId input \<in> set (user_ids (snd (snd (performScheduledDeletion deletable (min t (due - 1)) s1))))
    \<and> (if t < due
       then fst (cancelDeletion tr (dr_userId input) actor lang t s1) = Inr ()
         \<and> user_row (dr_userId input) (snd (cancelDeletion tr (dr_userId input) actor lang t s1))
           = map_option (\<lambda>u. u\<lparr>us_isDeactivated := False, us_deactivatedAt := None, us_scheduledDeletionAt := None,
               us_deletionReason := None\<rparr>) (user_row (dr_userId input) s)
       else cancelDeletion tr (dr_userId input) actor lang t s1
         = (Inl (BadRequest (tr ''users.self_deletion_already_permanent'' (asLang lang))), s1))"
proof -
  let ?u = "dr_userId input"
  let ?f = "\<lambda>u. u\<lparr>us_isDeactivated := True, us_deactivatedAt := Some now, us_scheduledDeletionAt := Some due,
      us_deletionReason := dr_reason input\<rparr>"
  let ?g = "\<lambda>u. u\<lparr>us_isDeactivated := False, us_deactivatedAt := None, us_scheduledDeletionAt := None, us_deletionReason := None\<rparr>"
  obtain row where row: "user_row ?u s = Some row" and s1: "ud_accounts s1 = update_user ?u ?f (ud_accounts s)"
    and days: "days = resolveRetentionDays env (dr_retentionDays input)" "due = now + days * (24 * 60 * 60 * 1000)"
    using requestDeletion_cases [OF assms(1,2)] by blast
  have row1: "user_row ?u s1 = Some (?f row)"
    using row by (simp add: s1 find_update_user)
  have emails1: "distinct (map us_email (as_users (ud_accounts s1)))"
    using assms(2) update_emails [of ?f ?u s] by (simp add: s1)
  have cancel: "prisma_update_user ?u ?g s1 = (Inr (?g (?f row)), on_accounts (update_user ?u ?g) s1)"
    by (rule prisma_update_same_email [OF row1 _ emails1]) simp
  have row2: "user_row ?u (on_accounts (update_user ?u ?g) s1) = Some (?g (?f row))"
    using row1 by (simp add: find_update_user)
  have ids1: "distinct (user_ids s1)" using assms(3) by (simp add: s1 update_user_def tbl_update_def o_def if_distrib [of tu_id] cong: if_cong)
  obtain m n s2 where run: "performScheduledDeletion deletable (min t (due - 1)) s1 = (m, n, s2)"
    by (cases "performScheduledDeletion deletable (min t (due - 1)) s1")
  have "?f row \<in> set (as_users (ud_accounts s1))" "tu_id (?f row) = ?u"
    using row1 by (auto simp: find_user_def dest: tbl_find_Some)
  moreover have "\<not> deletion_due (min t (due - 1)) (?f row)" by (simp add: deletion_due_def)
  ultimately have "?u \<in> set (user_ids s2)"
    using nightly_ids [OF run ids1] by force
  then show ?thesis
    using days resolve_bounds [of env "dr_retentionDays input"] row1 cancel row row2 run
    by (auto simp: cancelDeletion_def Let_def)
qed


definition example_deletion :: deletion_request where
  "example_deletion = \<lparr>dr_userId = ''u1'', dr_actorId = None, dr_retentionDays = None, dr_reason = None, dr_language = None\<rparr>"

lemma example_users_simps:
  "as_users (ud_accounts example_users) = [example_factor_user]" "user_row ''u1'' example_users = Some example_factor_user"
  "tu_id example_factor_user = ''u1''" "us_legalHold example_factor_user = False"
  "us_isDeactivated example_factor_user = False"
  by (simp_all add: example_users_def example_factor_state_def example_factor_user_def example_user_def find_user_def tbl_find_def)

theorem deletion_can_be_cancelled_witness:
  "\<exists>due s1. requestDeletion (\<lambda>k _. k) None example_deletion 0 example_users = (Inr (due, 30), s1)
    \<and> fst (cancelDeletion (\<lambda>k _. k) ''u1'' None None 1000 s1) = Inr ()"
proof -
  let ?req = "requestDeletion (\<lambda>k _. k) None example_deletion 0 example_users"
  have u: "dr_userId example_deletion = ''u1''" by (simp add: example_deletion_def)
  obtain due s1 where run: "?req = (Inr (due, 30), s1)"
    by (simp add: requestDeletion_def example_deletion_def example_users_simps prisma_update_user_def Let_def
        resolveRetentionDays_def getDefaultRetentionDays_def DEFAULT_RETENTION_DAYS_def)
  have "distinct (map us_email (as_users (ud_accounts example_users)))" "distinct (user_ids example_users)"
    by (simp_all add: example_users_simps)
  note claim = deletion_can_be_cancelled [OF run this, of "\<lambda>_. True" 1000 None None]
  then have "1000 < due" by simp
  then have "fst (cancelDeletion (\<lambda>k _. k) ''u1'' None None 1000 s1) = Inr ()" using claim by (simp only: u if_True)
  then show ?thesis using run by blast
qed

subsection \<open>Tokens for a reactivation and for a new mail address\<close>

lemma requestReactivation_cases:
  assumes "requestReactivation cr token u now s = (Inr msg, s1)" and "distinct (map us_email (as_users (ud_accounts s)))"
  defines "f \<equiv> \<lambda>u. u\<lparr>us_reactivationToken := Some (cr_sha cr token), us_reactivationTokenExpires := Some (now + 24 * 60 * 60 * 1000)\<rparr>"
  shows "\<exists>row. user_row u s = Some row \<and> us_isDeactivated row \<and> s1 = on_accounts (update_user u f) s"
proof -
  obtain row where row: "user_row u s = Some row"
    using assms(1) by (cases "user_row u s") (auto simp: requestReactivation_def)
  have "prisma_update_user u f s = (Inr (f row), on_accounts (update_user u f) s)"
    by (rule prisma_update_same_email [OF row _ assms(2)]) (simp add: f_def)
  then show ?thesis
    using assms(1) row by (auto simp: requestReactivation_def f_def split: if_splits)
qed

text \<open>A deactivated user is never told the token a reactivation asks for: the answer is the same whatever token was
  drawn, only a hash of the token is stored, and nothing but that token reactivates the account.\<close>

theorem reactivation_token_undelivered:
  assumes "inj (cr_sha cr)" and "distinct (map us_email (as_users (ud_accounts s)))"
    and "requestReactivation cr token u now s = (Inr msg, s1)" and "fst (reactivate cr u typed later s1) = Inr row"
  shows "fst (requestReactivation cr token' u now s) = Inr msg \<and> typed = token \<and> later \<le> now + 24 * 60 * 60 * 1000"
proof -
  let ?f = "\<lambda>t u. u\<lparr>us_reactivationToken := Some (cr_sha cr t), us_reactivationTokenExpires := Some (now + 24 * 60 * 60 * 1000)\<rparr> :: user"
  obtain r0 where r0: "user_row u s = Some r0" "us_isDeactivated r0" "s1 = on_accounts (update_user u (?f token)) s"
    using requestReactivation_cases [OF assms(3,2)] by blast
  have "prisma_update_user u (?f t) s = (Inr (?f t r0), on_accounts (update_user u (?f t)) s)" for t
    by (rule prisma_update_same_email [OF r0(1) _ assms(2)]) simp
  then have "fst (requestReactivation cr token' u now s) = fst (requestReactivation cr token u now s)"
    using r0(1,2) by (simp add: requestReactivation_def)
  moreover have "user_row u s1 = Some (?f token r0)" using r0(1) by (simp add: r0(3) find_update_user)
  then have "cr_sha cr typed = cr_sha cr token \<and> later \<le> now + 24 * 60 * 60 * 1000"
    using assms(4) r0(2) by (auto simp: reactivate_def split: if_splits prod.splits sum.splits)
  ultimately show ?thesis using assms(1,3) by (simp add: inj_eq)
qed

lemma update_row:
  assumes "user_row u s = Some row" and "\<And>r. tu_id (f r) = tu_id r"
    and "\<not> list_ex (\<lambda>v. tu_id v \<noteq> u \<and> us_email v = us_email (f row)) (as_users (ud_accounts s))"
  shows "prisma_update_user u f s = (Inr (f row), on_accounts (update_user u f) s)"
    and "user_row u (on_accounts (update_user u f) s) = Some (f row)"
  using assms by (simp_all add: prisma_update_user_def find_update_user)

text \<open>A change of the mail address takes effect with the token that was mailed and with no other: within its life the
  token makes the pending address the address of the account and ends the change, any other token changes nothing.\<close>

theorem email_change_roundtrip:
  assumes "requestEmailChange cfg token u newEmail now s = (Inr msg, s1)"
    and "distinct (map us_email (as_users (ud_accounts s)))" and "newEmail \<noteq> []" and "token \<noteq> []"
    and "later \<le> now + verification_ms cfg"
  shows "(\<exists>row s2. verifyEmailChange u token later s1 = (Inr row, s2) \<and> us_email row = newEmail
      \<and> user_row u s2 = Some row \<and> (\<exists>e. fst (verifyEmailChange u token later s2) = Inl e))
    \<and> (typed \<noteq> token \<longrightarrow> verifyEmailChange u typed later s1 = (Inl (BadRequest ''Invalid verification token''), s1))"
proof -
  let ?f = "\<lambda>u. u\<lparr>us_pendingEmail := Some newEmail, us_emailVerificationToken := Some token,
      us_emailVerificationExpires := Some (now + verification_ms cfg)\<rparr>"
  let ?g = "\<lambda>u. (no_pending u)\<lparr>us_email := newEmail\<rparr>"
  obtain row where row: "user_row u s = Some row" using assms(1) by (cases "user_row u s") (auto simp: requestEmailChange_def)
  have free: "newEmail \<notin> us_email ` set (as_users (ud_accounts s))"
    using assms(1) row by (auto simp: requestEmailChange_def findByEmail_def find_user_by_email_def tbl_find_None
        simp flip: not_None_eq split: if_splits)
  have s1: "s1 = on_accounts (update_user u ?f) s"
    using assms(1) row prisma_update_same_email [of u s row ?f, OF row _ assms(2)]
    by (auto simp: requestEmailChange_def split: if_splits)
  have row1: "user_row u s1 = Some (?f row)" using row by (simp add: s1 find_update_user)
  have "newEmail \<notin> us_email ` set (as_users (ud_accounts s1))"
    using free update_emails [of ?f u s] by (simp add: s1 flip: set_map)
  then have "\<not> list_ex (\<lambda>v. tu_id v \<noteq> u \<and> us_email v = us_email (?g (?f row))) (as_users (ud_accounts s1))"
    by (auto simp: list_ex_iff)
  note step = update_row [of u s1 "?f row" ?g, OF row1 _ this]
  have "verifyEmailChange u token later s1 = (Inr (?g (?f row)), on_accounts (update_user u ?g) s1)"
    using row1 step assms(3-5) by (simp add: verifyEmailChange_def no_pending_def truthy_def)
  moreover have "user_row u (on_accounts (update_user u ?g) s1) = Some (?g (?f row))"
    using step by (simp add: no_pending_def)
  moreover have "\<exists>e. fst (verifyEmailChange u token later (on_accounts (update_user u ?g) s1)) = Inl e"
    using calculation(2) by (simp add: verifyEmailChange_def no_pending_def truthy_def)
  moreover have "typed \<noteq> token \<Longrightarrow> verifyEmailChange u typed later s1 = (Inl (BadRequest ''Invalid verification token''), s1)"
    using row1 assms(4,5) by (simp add: verifyEmailChange_def truthy_def)
  ultimately show ?thesis by (auto simp: no_pending_def)
qed


lemma example_sha: "inj (cr_sha example_crypto)"
  by (rule injI) (simp add: example_crypto_def)

theorem reactivation_token_undelivered_witness:
  "\<exists>msg s1. requestReactivation example_crypto ''secret'' ''u1'' 1 example_due = (Inr msg, s1)
    \<and> fst (requestReactivation example_crypto ''other'' ''u1'' 1 example_due) = Inr msg"
proof -
  obtain msg s1 where run: "requestReactivation example_crypto ''secret'' ''u1'' 1 example_due = (Inr msg, s1)"
    and ok: "isl (fst (reactivate example_crypto ''u1'' ''secret'' 2 s1)) = False"
  proof -
    have "(case requestReactivation example_crypto ''secret'' ''u1'' 1 example_due of
      (Inr msg, s1) \<Rightarrow> \<not> isl (fst (reactivate example_crypto ''u1'' ''secret'' 2 s1)) | _ \<Rightarrow> False)" by code_simp
    then show thesis using that by (auto split: prod.splits sum.splits)
  qed
  obtain row where row: "fst (reactivate example_crypto ''u1'' ''secret'' 2 s1) = Inr row"
    using ok by (cases "fst (reactivate example_crypto ''u1'' ''secret'' 2 s1)") simp_all
  have "distinct (map us_email (as_users (ud_accounts example_due)))" by (simp add: example_due_users)
  from reactivation_token_undelivered [OF example_sha this run row, of "''other''"] show ?thesis using run by blast
qed

theorem email_change_roundtrip_witness:
  "\<exists>msg s1 row s2. requestEmailChange example_config ''tok'' ''u1'' ''new@example.org'' 0 example_users = (Inr msg, s1)
    \<and> verifyEmailChange ''u1'' ''tok'' 10 s1 = (Inr row, s2) \<and> us_email row = ''new@example.org''"
proof -
  have "isl (fst (requestEmailChange example_config ''tok'' ''u1'' ''new@example.org'' 0 example_users)) = False" by code_simp
  then obtain msg s1 where run: "requestEmailChange example_config ''tok'' ''u1'' ''new@example.org'' 0 example_users = (Inr msg, s1)"
    by (cases "requestEmailChange example_config ''tok'' ''u1'' ''new@example.org'' 0 example_users"; cases "fst (requestEmailChange
      example_config ''tok'' ''u1'' ''new@example.org'' 0 example_users)") auto
  have d: "distinct (map us_email (as_users (ud_accounts example_users)))" by (simp add: example_users_simps)
  have "(10 :: int) \<le> 0 + verification_ms example_config" by code_simp
  from email_change_roundtrip [OF run d _ _ this] show ?thesis using run by fastforce
qed

end
