(* ===== verification/Sliding_Window.thy ===== *)
theory Sliding_Window
  imports Prelude
begin

text \<open>
  Limits over a sliding window, as the webhooks and the geocoder keep them in memory: a list of the times that were
  admitted, from which the old ones are dropped.  The locale is the interface of such a limiter; its lemmas say that
  dropping old times is not observable (a simulation of the limiter that remembers everything) and that no window
  ever holds more than the limit.
\<close>

subsection \<open>The limiter that remembers everything\<close>

abbreviation recent_times :: "int \<Rightarrow> int \<Rightarrow> int list \<Rightarrow> int list" where
  "recent_times window now ts \<equiv> filter (\<lambda>t. now - window < t) ts"

definition full_log_check :: "int \<Rightarrow> int \<Rightarrow> time \<Rightarrow> int list \<Rightarrow> bool \<times> int list" where
  "full_log_check window limit now ts =
     (if limit \<le> int (length (recent_times window now ts)) then (True, ts) else (False, ts @ [now]))"

fun run_checks :: "(time \<Rightarrow> 's \<Rightarrow> bool \<times> 's) \<Rightarrow> time list \<Rightarrow> 's \<Rightarrow> bool list \<times> 's" where
  "run_checks check [] s = ([], s)"
| "run_checks check (t # ts) s =
     (let (limited, s1) = check t s; (rest, s2) = run_checks check ts s1 in (limited # rest, s2))"

definition window_count :: "int \<Rightarrow> int \<Rightarrow> int list \<Rightarrow> nat" where
  "window_count window a ts = length (filter (\<lambda>t. a < t \<and> t \<le> a + window) ts)"

lemma full_log_bounded:
  assumes "sorted (lo # clock)" and "\<forall>t \<in> set ts. t \<le> lo"
    and "\<forall>a. int (window_count window a ts) \<le> max 0 limit"
    and "run_checks (full_log_check window limit) clock ts = (bs, ts')"
  shows "int (window_count window a ts') \<le> max 0 limit"
  using assms
proof (induction clock arbitrary: lo ts bs)
  case (Cons now clock)
  obtain limited ts1 where step: "full_log_check window limit now ts = (limited, ts1)" by fastforce
  have rest: "\<exists>bs'. run_checks (full_log_check window limit) clock ts1 = (bs', ts')"
    using Cons.prems(4) step by (auto split: prod.splits)
  have old: "\<forall>t \<in> set ts. t \<le> now" using Cons.prems(1,2) by auto
  have ok: "int (window_count window a ts1) \<le> max 0 limit" for a
  proof (cases "limited \<or> \<not> (a < now \<and> now \<le> a + window)")
    case True
    then have "window_count window a ts1 = window_count window a ts"
      using step by (auto simp: full_log_check_def window_count_def split: if_splits)
    then show ?thesis using Cons.prems(3) by simp
  next
    case False
    have "length (filter (\<lambda>t. a < t \<and> t \<le> a + window) ts) \<le> length (recent_times window now ts)"
    proof -
      have "filter (\<lambda>t. a < t \<and> t \<le> a + window) ts = filter (\<lambda>t. a < t \<and> t \<le> a + window) (recent_times window now ts)"
        using False by (auto intro: filter_cong)
      then show ?thesis by (simp only: length_filter_le)
    qed
    then show ?thesis
      using step False by (auto simp: full_log_check_def window_count_def split: if_splits)
  qed
  have "\<forall>t \<in> set ts1. t \<le> now" using old step by (auto simp: full_log_check_def split: if_splits)
  then show ?case using Cons.IH [of now ts1] Cons.prems(1) ok rest by auto
qed simp

subsection \<open>The interface\<close>

locale sliding_window =
  fixes check :: "time \<Rightarrow> 's \<Rightarrow> bool \<times> 's"
    and times_of :: "'s \<Rightarrow> int list"
    and window :: int
    and limit :: int
  assumes limited_iff: "fst (check now s) \<longleftrightarrow> limit \<le> int (length (recent_times window now (times_of s)))"
    and keeps: "now \<le> t \<Longrightarrow> recent_times window t (times_of (snd (check now s)))
      = recent_times window t (times_of s @ (if fst (check now s) then [] else [now]))"
begin

definition same_recent :: "time \<Rightarrow> 's \<Rightarrow> int list \<Rightarrow> bool" where
  "same_recent lo s ts \<longleftrightarrow> (\<forall>t \<ge> lo. recent_times window t (times_of s) = recent_times window t ts)"

lemma check_simulates:
  assumes "same_recent lo s ts" and "lo \<le> now"
  shows "fst (check now s) = fst (full_log_check window limit now ts)"
    and "same_recent now (snd (check now s)) (snd (full_log_check window limit now ts))"
proof -
  have now: "recent_times window now (times_of s) = recent_times window now ts"
    using assms by (simp add: same_recent_def)
  then show lim: "fst (check now s) = fst (full_log_check window limit now ts)"
    by (simp add: limited_iff full_log_check_def)
  show "same_recent now (snd (check now s)) (snd (full_log_check window limit now ts))"
    unfolding same_recent_def using assms keeps lim by (auto simp: full_log_check_def same_recent_def)
qed

lemma run_simulates:
  "\<lbrakk>same_recent lo s ts; sorted (lo # clock)\<rbrakk> \<Longrightarrow>
   fst (run_checks check clock s) = fst (run_checks (full_log_check window limit) clock ts)"
proof (induction clock arbitrary: lo s ts)
  case (Cons now clock)
  have "lo \<le> now" using Cons.prems(2) by simp
  note sim = check_simulates [OF Cons.prems(1) this]
  have "sorted (now # clock)" using Cons.prems(2) by simp
  from Cons.IH [OF sim(2) this] show ?case using sim(1) by (simp add: split_beta)
qed simp

lemma never_over_limit:
  assumes "times_of s = []" and "sorted clock"
  shows "int (window_count window a (map fst (filter (\<lambda>x. \<not> snd x) (zip clock (fst (run_checks check clock s)))))) \<le> max 0 limit"
proof -
  have log: "snd (run_checks (full_log_check window limit) ts l)
      = l @ map fst (filter (\<lambda>x. \<not> snd x) (zip ts (fst (run_checks (full_log_check window limit) ts l))))" for ts l
    by (induction ts arbitrary: l) (auto simp: full_log_check_def split_beta)
  show ?thesis
  proof (cases clock)
    case (Cons t r)
    have "fst (run_checks check clock s) = fst (run_checks (full_log_check window limit) clock [])"
      using assms by (intro run_simulates [of t]) (auto simp: same_recent_def Cons)
    moreover have "int (window_count window a (snd (run_checks (full_log_check window limit) clock []))) \<le> max 0 limit"
      by (rule full_log_bounded [of t clock "[]" window limit "fst (run_checks (full_log_check window limit) clock [])"])
        (use assms(2) in \<open>auto simp: Cons window_count_def\<close>)
    ultimately show ?thesis using log [of clock "[]"] by simp
  qed (simp add: window_count_def)
qed

end

end
