(* ===== verification/Webhook_Url.thy ===== *)
theory Webhook_Url
  imports Rate_Guards "HOL-Library.Word"
begin

text \<open>
  The address filter of the webhooks, \<open>src/webhooks/url-validator.util.ts\<close>.

  \<open>isIPv4\<close> and \<open>isIPv6\<close> are Node's \<open>net.isIPv4\<close> and \<open>net.isIPv6\<close>.  The URL parser of Node is an argument that
  gives protocol and host name (\<open>None\<close> where it throws), the DNS resolver one that gives the addresses of a host
  (\<open>None\<close> where it rejects), \<open>process.env\<close> a map.
\<close>

subsection \<open>Addresses\<close>

definition isIPv4 :: "string \<Rightarrow> bool" where
  "isIPv4 s \<longleftrightarrow> length (js_split CHR ''.'' s) = 4 \<and> list_all octet_re (js_split CHR ''.'' s)"

definition v6_seg :: "string \<Rightarrow> bool" where
  "v6_seg s \<longleftrightarrow> s \<noteq> [] \<and> length s \<le> 4 \<and> list_all (\<lambda>c. hex_or_colon c \<and> c \<noteq> CHR '':'') s"

text \<open>The number of 16-bit groups of a list of segments; the last one may be an IPv4 address, which counts twice.\<close>

definition v6_groups :: "bool \<Rightarrow> string \<Rightarrow> nat option" where
  "v6_groups v4 s =
     (if s = [] then Some 0
      else let ps = js_split CHR '':'' s in
           if \<not> list_all v6_seg (butlast ps) then None
           else if v6_seg (last ps) then Some (length ps)
           else if v4 \<and> isIPv4 (last ps) then Some (length ps + 1) else None)"

fun cut_double_colon :: "string \<Rightarrow> (string \<times> string) option" where
  "cut_double_colon (a # b # s) =
     (if a = CHR '':'' \<and> b = CHR '':'' then Some ([], s)
      else map_option (\<lambda>(l, r). (a # l, r)) (cut_double_colon (b # s)))"
| "cut_double_colon _ = None"

definition zone_char :: "char \<Rightarrow> bool" where
  "zone_char c \<longleftrightarrow> is_digit c \<or> in_range CHR ''a'' CHR ''z'' c \<or> in_range CHR ''A'' CHR ''Z'' c
     \<or> c = CHR ''-'' \<or> c = CHR ''.'' \<or> c = CHR '':''"

definition isIPv6 :: "string \<Rightarrow> bool" where
  "isIPv6 s =
     (let addr = takeWhile (\<lambda>c. c \<noteq> CHR ''%'') s; zone = dropWhile (\<lambda>c. c \<noteq> CHR ''%'') s in
      (zone = [] \<or> tl zone \<noteq> [] \<and> list_all zone_char (tl zone))
      \<and> (case cut_double_colon addr of
           None \<Rightarrow> v6_groups True addr = Some 8
         | Some (l, r) \<Rightarrow>
             (case (v6_groups False l, v6_groups True r) of (Some m, Some n) \<Rightarrow> m + n \<le> 7 | _ \<Rightarrow> False)))"

definition isPrivateOrBlockedIPv4 :: "string \<Rightarrow> bool" where
  "isPrivateOrBlockedIPv4 ip =
     (let parts = map parse_int10 (js_split CHR ''.'' ip) in
      if length parts \<noteq> 4 \<or> list_ex (\<lambda>p. case p of None \<Rightarrow> True | Some n \<Rightarrow> n < 0 \<or> 255 < n) parts then True
      else let a = the (parts ! 0); b = the (parts ! 1); c = the (parts ! 2) in
        if a = 0 then True
        else if a = 10 then True
        else if a = 100 \<and> 64 \<le> b \<and> b \<le> 127 then True
        else if a = 127 then True
        else if a = 169 \<and> b = 254 then True
        else if a = 172 \<and> 16 \<le> b \<and> b \<le> 31 then True
        else if a = 192 \<and> b = 0 \<and> c = 0 then True
        else if a = 192 \<and> b = 0 \<and> c = 2 then True
        else if a = 192 \<and> b = 168 then True
        else if a = 198 \<and> (b = 18 \<or> b = 19) then True
        else if a = 198 \<and> b = 51 \<and> c = 100 then True
        else if a = 203 \<and> b = 0 \<and> c = 113 then True
        else if 224 \<le> a then True
        else False)"

text \<open>\<open>/^0*(:0*)*:0*1$/\<close> and \<open>/^0*(:0*)*$/\<close>.\<close>

definition zero_or_colon :: "char \<Rightarrow> bool" where
  "zero_or_colon c \<longleftrightarrow> c = CHR ''0'' \<or> c = CHR '':''"

definition loopback_re :: "string \<Rightarrow> bool" where
  "loopback_re s \<longleftrightarrow> s \<noteq> [] \<and> last s = CHR ''1'' \<and> list_all zero_or_colon (butlast s) \<and> CHR '':'' \<in> set (butlast s)"

definition unspecified_re :: "string \<Rightarrow> bool" where
  "unspecified_re s \<longleftrightarrow> list_all zero_or_colon s"

definition isPrivateOrBlockedIPv6 :: "string \<Rightarrow> bool" where
  "isPrivateOrBlockedIPv6 ip =
     (let normalized = js_trim (js_lower ip) in
      if normalized = ''::1'' \<or> normalized = ''::'' \<or> loopback_re normalized \<or> unspecified_re normalized then True
      else if starts_with ''::ffff:'' normalized \<and> isIPv4 (drop 7 normalized) then isPrivateOrBlockedIPv4 (drop 7 normalized)
      else if starts_with ''fc'' normalized \<or> starts_with ''fd'' normalized then True
      else if starts_with ''fe'' normalized \<and> (case drop 2 normalized of c # _ \<Rightarrow> c \<in> set ''89ab'' | [] \<Rightarrow> False) then True
      else if starts_with ''2001:db8:'' normalized \<or> starts_with ''100:'' normalized then True
      else False)"

text \<open>\<open>net.isIP\<close> answers 4, 6 or 0.\<close>

definition isIP :: "string \<Rightarrow> nat" where
  "isIP s = (if isIPv4 s then 4 else if isIPv6 s then 6 else 0)"

definition isPrivateOrBlockedIp :: "string \<Rightarrow> bool" where
  "isPrivateOrBlockedIp ip =
     (let version = isIP ip in
      if version = 4 then isPrivateOrBlockedIPv4 ip
      else if version = 6 then isPrivateOrBlockedIPv6 ip
      else True)"

subsection \<open>URLs\<close>

definition BLOCKED_HOSTNAMES :: "string list" where
  "BLOCKED_HOSTNAMES = [''localhost'', ''metadata.google.internal'', ''metadata'', ''instance-data'']"

record net_env =
  ne_parse :: "string \<Rightarrow> (string \<times> string) option"
  ne_lookup :: "string \<Rightarrow> string list option"
  ne_env :: "string \<Rightarrow> string option"

definition is_local_env :: "net_env \<Rightarrow> bool" where
  "is_local_env N = (case ne_env N ''NODE_ENV'' of
     None \<Rightarrow> True | Some e \<Rightarrow> e = ''development'' \<or> e = ''test'' \<or> e = [])"

definition webhook_allowlist :: "net_env \<Rightarrow> string list" where
  "webhook_allowlist N =
     (let allowlistEnv = (case js_nullish (ne_env N ''WEBHOOK_DEV_ALLOWLIST'') (ne_env N ''WEBHOOK_ALLOWLIST'') of
            None \<Rightarrow> [] | Some s \<Rightarrow> s)
      in filter (\<lambda>s. s \<noteq> []) (map (\<lambda>s. js_lower (js_trim s)) (js_split CHR '','' allowlistEnv)))"

definition validateWebhookUrl :: "net_env \<Rightarrow> string \<Rightarrow> unit result" where
  "validateWebhookUrl N rawUrl =
     (case ne_parse N rawUrl of
        None \<Rightarrow> Inl (BadRequest ''Invalid webhook URL format'')
      | Some (protocol, rawHost) \<Rightarrow>
          if protocol \<noteq> ''http:'' \<and> protocol \<noteq> ''https:''
          then Inl (BadRequest (''Webhook URL protocol must be http: or https:, received '' @ protocol))
          else if \<not> is_local_env N \<and> protocol \<noteq> ''https:''
          then Inl (BadRequest ''Webhook URL must use HTTPS in production and staging environments'')
          else (let hostname = js_lower rawHost; allowlist = webhook_allowlist N in
            if is_local_env N \<and> hostname \<in> set allowlist then Inr ()
            else if hostname \<in> set BLOCKED_HOSTNAMES \<or> ends_with ''.local'' hostname \<or> ends_with ''.internal'' hostname
            then Inl (BadRequest (''Webhook URL host is not permitted: '' @ hostname))
            else if isIP hostname \<noteq> 0
            then (if isPrivateOrBlockedIp hostname
                  then Inl (BadRequest (''Webhook URL targets a private, internal, or cloud-metadata IP: '' @ hostname))
                  else Inr ())
            else (case ne_lookup N hostname of
                    None \<Rightarrow> Inl (BadRequest (''DNS resolution failed for webhook host: '' @ hostname))
                  | Some addresses \<Rightarrow>
                      if addresses = [] then Inl (BadRequest (''Unable to resolve webhook hostname: '' @ hostname))
                      else (case List.find (\<lambda>a. \<not> (is_local_env N \<and> js_lower a \<in> set allowlist) \<and> isPrivateOrBlockedIp a)
                              addresses of
                              None \<Rightarrow> Inr ()
                            | Some a \<Rightarrow> Inl (BadRequest (''Webhook hostname '' @ hostname @ '' resolves to restricted IP: '' @ a))))))"

subsection \<open>The IPv4 filter as a list of networks\<close>

definition octet :: "nat \<Rightarrow> 32 word \<Rightarrow> nat" where
  "octet i w = unat w div 256 ^ (3 - i) mod 256"

definition dotted :: "32 word \<Rightarrow> string" where
  "dotted w = show_nat (octet 0 w) @ CHR ''.'' # show_nat (octet 1 w) @ CHR ''.'' # show_nat (octet 2 w)
     @ CHR ''.'' # show_nat (octet 3 w)"

definition in_net :: "32 word \<Rightarrow> 32 word \<times> nat \<Rightarrow> bool" where
  "in_net w nl = (drop_bit (32 - snd nl) w = drop_bit (32 - snd nl) (fst nl))"

text \<open>The networks the comments of the source name.\<close>

definition blocked_networks :: "(32 word \<times> nat) list" where
  "blocked_networks =
     [(0x00000000, 8), (0x0A000000, 8), (0x64400000, 10), (0x7F000000, 8), (0xA9FE0000, 16), (0xAC100000, 12),
      (0xC0000000, 24), (0xC0000200, 24), (0xC0A80000, 16), (0xC6120000, 15), (0xC6336400, 24), (0xCB007100, 24),
      (0xE0000000, 4), (0xF0000000, 4)]"

lemma show_nat_no_dot: "CHR ''.'' \<notin> set (show_nat n)"
  using show_nat_digits [of n] by (auto simp: list_all_iff is_digit_def)

lemma split_dotted:
  "js_split CHR ''.'' (dotted w) = [show_nat (octet 0 w), show_nat (octet 1 w), show_nat (octet 2 w), show_nat (octet 3 w)]"
  by (simp add: dotted_def js_split_append js_split_none show_nat_no_dot)

lemma octet_less: "octet i w < 256"
  by (simp add: octet_def)

lemma unat_octets: "unat w = octet 0 w * 16777216 + octet 1 w * 65536 + octet 2 w * 256 + octet 3 w"
proof -
  have lt: "unat w < 4294967296" using unsigned_less [of w, where 'a = nat] by simp
  have "unat w div 16777216 < 256" using lt by (simp add: less_mult_imp_div_less)
  moreover have "n = n div 16777216 * 16777216 + n div 65536 mod 256 * 65536 + n div 256 mod 256 * 256 + n mod 256" for n :: nat
  proof -
    have "n div 65536 = n div 256 div 256" "n div 16777216 = n div 65536 div 256" by (simp_all flip: div_mult2_eq)
    then have "n = n div 256 * 256 + n mod 256" "n div 256 = n div 65536 * 256 + n div 256 mod 256"
      "n div 65536 = n div 16777216 * 256 + n div 65536 mod 256" by presburger+
    then show ?thesis by linarith
  qed
  ultimately show ?thesis by (simp add: octet_def)
qed

lemma div_eq_range: "n div d = q \<longleftrightarrow> q * d \<le> n \<and> n < Suc q * d" if "0 < d" for d q n :: nat
proof
  assume "n div d = q"
  then have "n = q * d + n mod d" by (metis div_mult_mod_eq)
  moreover have "n mod d < d" using that by simp
  ultimately show "q * d \<le> n \<and> n < Suc q * d" by simp
next
  assume "q * d \<le> n \<and> n < Suc q * d"
  then show "n div d = q" by (intro div_nat_eqI) (simp_all add: mult.commute)
qed

lemma drop_bit_eq_range:
  "drop_bit k w = drop_bit k v \<longleftrightarrow> unat v div 2 ^ k * 2 ^ k \<le> unat w \<and> unat w < Suc (unat v div 2 ^ k) * 2 ^ k"
  for w v :: "32 word"
proof -
  have "unat (drop_bit k x) = unat x div 2 ^ k" for x :: "32 word"
    by (simp only: unat_drop_bit_eq) (simp only: drop_bit_eq_div)
  then have "drop_bit k w = drop_bit k v \<longleftrightarrow> unat w div 2 ^ k = unat v div 2 ^ k"
    by (simp only: word_unat_eq_iff)
  then show ?thesis by (simp only: div_eq_range [of "2 ^ k"] zero_less_power zero_less_numeral)
qed

lemma in_net_octets:
  assumes "octet 0 w = a" and "octet 1 w = b" and "octet 2 w = c"
  shows "in_net w (0x00000000, 8) \<longleftrightarrow> a = 0"
    and "in_net w (0x0A000000, 8) \<longleftrightarrow> a = 10"
    and "in_net w (0x64400000, 10) \<longleftrightarrow> a = 100 \<and> 64 \<le> b \<and> b \<le> 127"
    and "in_net w (0x7F000000, 8) \<longleftrightarrow> a = 127"
    and "in_net w (0xA9FE0000, 16) \<longleftrightarrow> a = 169 \<and> b = 254"
    and "in_net w (0xAC100000, 12) \<longleftrightarrow> a = 172 \<and> 16 \<le> b \<and> b \<le> 31"
    and "in_net w (0xC0000000, 24) \<longleftrightarrow> a = 192 \<and> b = 0 \<and> c = 0"
    and "in_net w (0xC0000200, 24) \<longleftrightarrow> a = 192 \<and> b = 0 \<and> c = 2"
    and "in_net w (0xC0A80000, 16) \<longleftrightarrow> a = 192 \<and> b = 168"
    and "in_net w (0xC6120000, 15) \<longleftrightarrow> a = 198 \<and> (b = 18 \<or> b = 19)"
    and "in_net w (0xC6336400, 24) \<longleftrightarrow> a = 198 \<and> b = 51 \<and> c = 100"
    and "in_net w (0xCB007100, 24) \<longleftrightarrow> a = 203 \<and> b = 0 \<and> c = 113"
    and "in_net w (0xE0000000, 4) \<longleftrightarrow> 224 \<le> a \<and> a < 240"
    and "in_net w (0xF0000000, 4) \<longleftrightarrow> 240 \<le> a"
proof -
  define d where "d = octet 3 w"
  have lt: "a < 256" "b < 256" "c < 256" "d < 256" using octet_less assms d_def by blast+
  have n: "unat w = a * 16777216 + b * 65536 + c * 256 + d" using unat_octets [of w] assms d_def by simp
  show "in_net w (0x00000000, 8) \<longleftrightarrow> a = 0"
    unfolding in_net_def drop_bit_eq_range n fst_conv snd_conv using lt
    by (cases a "0 :: nat" rule: linorder_cases) simp_all
  show "in_net w (0x0A000000, 8) \<longleftrightarrow> a = 10"
    unfolding in_net_def drop_bit_eq_range n fst_conv snd_conv using lt
    by (cases a "10 :: nat" rule: linorder_cases) simp_all
  show "in_net w (0x64400000, 10) \<longleftrightarrow> a = 100 \<and> 64 \<le> b \<and> b \<le> 127"
    unfolding in_net_def drop_bit_eq_range n fst_conv snd_conv using lt
    by (cases a "100 :: nat" rule: linorder_cases; cases "b < 64"; cases "b \<le> 127") simp_all
  show "in_net w (0x7F000000, 8) \<longleftrightarrow> a = 127"
    unfolding in_net_def drop_bit_eq_range n fst_conv snd_conv using lt
    by (cases a "127 :: nat" rule: linorder_cases) simp_all
  show "in_net w (0xA9FE0000, 16) \<longleftrightarrow> a = 169 \<and> b = 254"
    unfolding in_net_def drop_bit_eq_range n fst_conv snd_conv using lt
    by (cases a "169 :: nat" rule: linorder_cases; cases b "254 :: nat" rule: linorder_cases) simp_all
  show "in_net w (0xAC100000, 12) \<longleftrightarrow> a = 172 \<and> 16 \<le> b \<and> b \<le> 31"
    unfolding in_net_def drop_bit_eq_range n fst_conv snd_conv using lt
    by (cases a "172 :: nat" rule: linorder_cases; cases "b < 16"; cases "b \<le> 31") simp_all
  show "in_net w (0xC0000000, 24) \<longleftrightarrow> a = 192 \<and> b = 0 \<and> c = 0"
    unfolding in_net_def drop_bit_eq_range n fst_conv snd_conv using lt
    by (cases a "192 :: nat" rule: linorder_cases; cases b "0 :: nat" rule: linorder_cases; cases c "0 :: nat" rule: linorder_cases) simp_all
  show "in_net w (0xC0000200, 24) \<longleftrightarrow> a = 192 \<and> b = 0 \<and> c = 2"
    unfolding in_net_def drop_bit_eq_range n fst_conv snd_conv using lt
    by (cases a "192 :: nat" rule: linorder_cases; cases b "0 :: nat" rule: linorder_cases; cases c "2 :: nat" rule: linorder_cases) simp_all
  show "in_net w (0xC0A80000, 16) \<longleftrightarrow> a = 192 \<and> b = 168"
    unfolding in_net_def drop_bit_eq_range n fst_conv snd_conv using lt
    by (cases a "192 :: nat" rule: linorder_cases; cases b "168 :: nat" rule: linorder_cases) simp_all
  show "in_net w (0xC6120000, 15) \<longleftrightarrow> a = 198 \<and> (b = 18 \<or> b = 19)"
    unfolding in_net_def drop_bit_eq_range n fst_conv snd_conv using lt
    by (cases a "198 :: nat" rule: linorder_cases; cases "b < 18"; cases "b \<le> 19") (simp_all, arith)
  show "in_net w (0xC6336400, 24) \<longleftrightarrow> a = 198 \<and> b = 51 \<and> c = 100"
    unfolding in_net_def drop_bit_eq_range n fst_conv snd_conv using lt
    by (cases a "198 :: nat" rule: linorder_cases; cases b "51 :: nat" rule: linorder_cases; cases c "100 :: nat" rule: linorder_cases) simp_all
  show "in_net w (0xCB007100, 24) \<longleftrightarrow> a = 203 \<and> b = 0 \<and> c = 113"
    unfolding in_net_def drop_bit_eq_range n fst_conv snd_conv using lt
    by (cases a "203 :: nat" rule: linorder_cases; cases b "0 :: nat" rule: linorder_cases; cases c "113 :: nat" rule: linorder_cases) simp_all
  show "in_net w (0xE0000000, 4) \<longleftrightarrow> 224 \<le> a \<and> a < 240"
    unfolding in_net_def drop_bit_eq_range n fst_conv snd_conv using lt
    by (simp, linarith)
  show "in_net w (0xF0000000, 4) \<longleftrightarrow> 240 \<le> a"
    unfolding in_net_def drop_bit_eq_range n fst_conv snd_conv using lt
    by (simp, linarith)
qed

lemma blocked_iff:
  "isPrivateOrBlockedIPv4 (dotted w) \<longleftrightarrow> list_ex (in_net w) blocked_networks"
proof -
  obtain a b c d where abcd: "octet 0 w = a" "octet 1 w = b" "octet 2 w = c" "octet 3 w = d" by simp
  have lt: "a < 256" "b < 256" "c < 256" "d < 256" using octet_less abcd by blast+
  have last_net: "224 \<le> a \<and> a < 240 \<or> 240 \<le> a \<longleftrightarrow> 224 \<le> a" by linarith
  have "isPrivateOrBlockedIPv4 (dotted w) \<longleftrightarrow> a = 0 \<or> a = 10 \<or> a = 100 \<and> 64 \<le> b \<and> b \<le> 127 \<or> a = 127
      \<or> a = 169 \<and> b = 254 \<or> a = 172 \<and> 16 \<le> b \<and> b \<le> 31 \<or> a = 192 \<and> b = 0 \<and> c = 0 \<or> a = 192 \<and> b = 0 \<and> c = 2
      \<or> a = 192 \<and> b = 168 \<or> a = 198 \<and> (b = 18 \<or> b = 19) \<or> a = 198 \<and> b = 51 \<and> c = 100 \<or> a = 203 \<and> b = 0 \<and> c = 113
      \<or> 224 \<le> a"
    unfolding isPrivateOrBlockedIPv4_def split_dotted abcd using lt by (simp add: Let_def)
  also have "\<dots> \<longleftrightarrow> list_ex (in_net w) blocked_networks"
    by (simp add: blocked_networks_def in_net_octets [OF abcd(1-3)] last_net del: One_nat_def)
  finally show ?thesis .
qed

text \<open>C11: The IPv4 filter blocks exactly the networks its comments list, for all addresses: an address is blocked if and
  only if it shares the prefix of one of them.\<close>

theorem ipv4_filter_is_network_list:
  "isPrivateOrBlockedIPv4 (dotted w) \<longleftrightarrow> list_ex (in_net w) blocked_networks"
  by (rule blocked_iff)

subsection \<open>Accepted URLs\<close>

lemma octets_match: "list_all (\<lambda>n. octet_re (show_nat n)) [0..<256]"
  by code_simp

lemma octet_re_show: "octet_re (show_nat (octet i w))"
  using octets_match octet_less [of i w] by (simp only: list_all_iff set_upt atLeastLessThan_iff) simp

lemma isIPv4_dotted: "isIPv4 (dotted w)"
  by (simp add: isIPv4_def split_dotted octet_re_show)

lemma blocked_dotted: "isPrivateOrBlockedIp (dotted w) \<longleftrightarrow> isPrivateOrBlockedIPv4 (dotted w)"
  by (simp add: isPrivateOrBlockedIp_def isIP_def isIPv4_dotted)

lemma validate_accepts:
  assumes "validateWebhookUrl N url = Inr ()" and "\<not> is_local_env N"
  shows "\<exists>host. ne_parse N url = Some (''https:'', host) \<and> js_lower host \<notin> set BLOCKED_HOSTNAMES
    \<and> (if isIP (js_lower host) \<noteq> 0 then \<not> isPrivateOrBlockedIp (js_lower host)
       else \<exists>addrs. ne_lookup N (js_lower host) = Some addrs \<and> addrs \<noteq> [] \<and> \<not> list_ex isPrivateOrBlockedIp addrs)"
  using assms by (auto simp: validateWebhookUrl_def Let_def find_None_iff list_ex_iff split: option.splits prod.splits if_splits)

text \<open>Outside development and test a webhook URL is accepted only when it is an \<open>https\<close> URL whose host, at the time of the
  check, has no address in a blocked network: neither written in the URL nor among the answers of the resolver.\<close>

lemma accepted_url_is_public:
  assumes "validateWebhookUrl N url = Inr ()" and "ne_env N ''NODE_ENV'' = Some env" and "env \<notin> {[], ''development'', ''test''}"
  shows "\<exists>host. ne_parse N url = Some (''https:'', host) \<and> js_lower host \<notin> set BLOCKED_HOSTNAMES
    \<and> (js_lower host = dotted w \<longrightarrow> \<not> list_ex (in_net w) blocked_networks)
    \<and> (isIP (js_lower host) = 0 \<longrightarrow> (\<exists>addrs. ne_lookup N (js_lower host) = Some addrs \<and> addrs \<noteq> []
        \<and> (dotted w \<in> set addrs \<longrightarrow> \<not> list_ex (in_net w) blocked_networks)))"
proof -
  have "\<not> is_local_env N" using assms(2,3) by (simp add: is_local_env_def)
  from validate_accepts [OF assms(1) this] obtain host where host: "ne_parse N url = Some (''https:'', host)"
    "js_lower host \<notin> set BLOCKED_HOSTNAMES" "isIP (js_lower host) \<noteq> 0 \<Longrightarrow> \<not> isPrivateOrBlockedIp (js_lower host)"
    "isIP (js_lower host) = 0 \<Longrightarrow>
      \<exists>addrs. ne_lookup N (js_lower host) = Some addrs \<and> addrs \<noteq> [] \<and> \<not> list_ex isPrivateOrBlockedIp addrs"
    by (auto split: if_splits)
  have v4: "isIP (dotted w) \<noteq> 0" by (simp add: isIP_def isIPv4_dotted)
  have filter: "\<not> isPrivateOrBlockedIp (dotted w) \<Longrightarrow> \<not> list_ex (in_net w) blocked_networks"
    by (simp only: blocked_dotted blocked_iff simp_thms)
  have "js_lower host = dotted w \<Longrightarrow> \<not> list_ex (in_net w) blocked_networks" using host(3) v4 filter by metis
  then show ?thesis using host(1,2,4) filter by (fastforce simp: list_ex_iff)
qed

definition example_net :: net_env where
  "example_net = \<lparr>ne_parse = (\<lambda>u. if starts_with ''https://'' u then Some (''https:'', drop 8 u) else None),
     ne_lookup = (\<lambda>h. if h = ''hooks.example.org'' then Some [''93.184.216.34''] else None),
     ne_env = (\<lambda>k. if k = ''NODE_ENV'' then Some ''production'' else None)\<rparr>"

lemma example_url: "validateWebhookUrl example_net ''https://hooks.example.org'' = Inr ()"
  by code_simp

text \<open>An IPv4 address that an IPv6 one carries in hexadecimal is not recognised, while its dotted form is.\<close>

lemma hex_mapped_loopback: "isPrivateOrBlockedIp ''::ffff:127.0.0.1'' \<and> \<not> isPrivateOrBlockedIp ''::ffff:7f00:1''"
  by code_simp

end
