(* ===== verification/Webhooks.thy ===== *)
theory Webhooks
  imports Webhook_Url Sliding_Window Store
begin

text \<open>
  The webhooks service, \<open>src/webhooks/webhooks.service.ts\<close>, with its worker
  (\<open>src/webhooks/webhook-delivery.processor.ts\<close>): registration, triggering, delivery with retries, replay and pruning.

  The requests that leave the server are a log in the state, the answers of the subscribers arguments.  Deliveries
  that are handed over, to the BullMQ queue or to \<open>setImmediate\<close>, wait in \<open>wh_pending\<close> until something runs them; the
  steps in which they run are the relation \<open>webhook_step\<close>.  A payload is its JSON text with the two fields the service
  reads.  Identifiers and secrets that the code draws are arguments.
\<close>

subsection \<open>State\<close>

datatype webhook_status = Hook_ACTIVE | Hook_INACTIVE | Hook_VERIFYING

datatype delivery_status = Dl_PENDING | Dl_SUCCESS | Dl_FAILED | Dl_RETRYING

record webhook =
  wb_id :: string
  wb_userId :: string
  wb_url :: string
  wb_secret :: string
  wb_events :: "string list"
  wb_description :: "string option"
  wb_status :: webhook_status
  wb_createdAt :: time

record payload =
  py_json :: string
  py_eventId :: "string option"
  py_id :: "string option"

record delivery =
  dl_id :: string
  dl_webhookId :: string
  dl_eventType :: string
  dl_payload :: payload
  dl_status :: delivery_status
  dl_responseCode :: "nat option"
  dl_responseBody :: "string option"
  dl_attempts :: nat
  dl_maxAttempts :: nat
  dl_nextRetryAt :: "time option"
  dl_error :: "string option"
  dl_deliveredAt :: "time option"
  dl_createdAt :: time

record delivery_call =
  hc_deliveryId :: string
  hc_eventType :: string
  hc_eventId :: string
  hc_idempotencyKey :: string
  hc_body :: string
  hc_signature :: string

datatype http_call = Challenge_get string string | Delivery_post string delivery_call

fun call_url :: "http_call \<Rightarrow> string" where
  "call_url (Challenge_get u _) = u"
| "call_url (Delivery_post u _) = u"

datatype http_answer = Http_response nat string | Network_failure string

datatype dispatch =
    Queued "string option" string string payload
  | Immediate webhook string payload "string option"

record webhooks_state =
  wh_webhooks :: "webhook list"
  wh_deliveries :: "delivery list"
  wh_calls :: "http_call list"
  wh_pending :: "dispatch list"
  wh_timestamps :: "string \<Rightarrow> int list option"
  wh_rotations :: "(string \<times> string) list"

text \<open>\<open>we_rateLimit = None\<close> and \<open>we_payloadCap = None\<close> stand for NaN, \<open>we_queue\<close> for an injected queue; \<open>we_body\<close> is the
  \<open>JSON.stringify\<close> of the envelope.\<close>

record webhook_env =
  we_net :: net_env
  we_queue :: bool
  we_rateLimit :: "int option"
  we_payloadCap :: "int option"
  we_hmac :: "string \<Rightarrow> string \<Rightarrow> string"
  we_body :: "string \<Rightarrow> string \<Rightarrow> payload \<Rightarrow> time \<Rightarrow> string"

definition MAX_ATTEMPTS :: nat where "MAX_ATTEMPTS = 5"
definition RETRY_DELAYS_MS :: "int list" where "RETRY_DELAYS_MS = [1000, 5000, 15000, 60000, 300000]"
definition TRIGGER_RATE_LIMIT_WINDOW_MS :: int where "TRIGGER_RATE_LIMIT_WINDOW_MS = 60000"

subsection \<open>Limits\<close>

definition isRateLimited :: "int option \<Rightarrow> string \<Rightarrow> time \<Rightarrow> (string \<Rightarrow> int list option) \<Rightarrow> bool \<times> (string \<Rightarrow> int list option)" where
  "isRateLimited limit webhookId now table =
     (let windowStart = now - TRIGGER_RATE_LIMIT_WINDOW_MS;
          timestamps = filter (\<lambda>t. windowStart < t) (case table webhookId of None \<Rightarrow> [] | Some ts \<Rightarrow> ts)
      in if (case limit of None \<Rightarrow> False | Some m \<Rightarrow> m \<le> int (length timestamps)) then (True, table)
         else (False, table(webhookId \<mapsto> timestamps @ [now])))"

definition utf8_length :: "string \<Rightarrow> nat" where
  "utf8_length s = sum_list (map (\<lambda>c. if (of_char c :: nat) < 128 then 1 else 2) s)"

definition warnIfPayloadTooLarge :: "int option \<Rightarrow> payload \<Rightarrow> bool" where
  "warnIfPayloadTooLarge cap p = (case cap of None \<Rightarrow> False | Some c \<Rightarrow> c < int (utf8_length (py_json p)))"

definition getRetryDelay :: "int \<Rightarrow> int" where
  "getRetryDelay nextAttempt =
     RETRY_DELAYS_MS ! nat (min (max 0 (nextAttempt - 1)) (int (length RETRY_DELAYS_MS) - 1))"

subsection \<open>Registration\<close>

definition webhooks_create ::
  "webhook_env \<Rightarrow> string \<Rightarrow> string \<Rightarrow> string \<Rightarrow> string \<Rightarrow> string list \<Rightarrow> string option \<Rightarrow> time \<Rightarrow> webhooks_state
    \<Rightarrow> (webhook, webhooks_state) outcome" where
  "webhooks_create E newId secret userId url eventTypes description now s =
     (case validateWebhookUrl (we_net E) url of
        Inl e \<Rightarrow> (Inl e, s)
      | Inr _ \<Rightarrow>
          (let w = \<lparr>wb_id = newId, wb_userId = userId, wb_url = url, wb_secret = secret, wb_events = eventTypes,
                 wb_description = description, wb_status = Hook_ACTIVE, wb_createdAt = now\<rparr>
           in (Inr w, s\<lparr>wh_webhooks := tbl_create w (wh_webhooks s)\<rparr>)))"

definition webhooks_findAll :: "string \<Rightarrow> webhooks_state \<Rightarrow> webhook list" where
  "webhooks_findAll userId s = tbl_desc wb_createdAt (filter (\<lambda>w. wb_userId w = userId) (wh_webhooks s))"

definition webhooks_findOne :: "string \<Rightarrow> string \<Rightarrow> webhooks_state \<Rightarrow> webhook result" where
  "webhooks_findOne i userId s =
     (case List.find (\<lambda>w. wb_id w = i \<and> wb_userId w = userId) (wh_webhooks s) of
        None \<Rightarrow> Inl (NotFound ''Webhook not found'') | Some w \<Rightarrow> Inr w)"

record update_webhook_dto =
  wd_url :: "string option"
  wd_eventTypes :: "string list option"
  wd_description :: "string option"
  wd_isActive :: "bool option"

definition apply_webhook_update :: "update_webhook_dto \<Rightarrow> webhook \<Rightarrow> webhook" where
  "apply_webhook_update d w =
     w\<lparr>wb_url := (case wd_url d of Some u \<Rightarrow> if u = [] then wb_url w else u | None \<Rightarrow> wb_url w),
       wb_events := (case wd_eventTypes d of Some e \<Rightarrow> e | None \<Rightarrow> wb_events w),
       wb_description := (case wd_description d of Some x \<Rightarrow> Some x | None \<Rightarrow> wb_description w),
       wb_status := (case wd_isActive d of Some b \<Rightarrow> if b then Hook_ACTIVE else Hook_INACTIVE | None \<Rightarrow> wb_status w)\<rparr>"

definition webhooks_update ::
  "webhook_env \<Rightarrow> string \<Rightarrow> string \<Rightarrow> update_webhook_dto \<Rightarrow> webhooks_state \<Rightarrow> (webhook, webhooks_state) outcome" where
  "webhooks_update E i userId d s =
     (case webhooks_findOne i userId s of
        Inl e \<Rightarrow> (Inl e, s)
      | Inr w \<Rightarrow>
          (case (case wd_url d of Some u \<Rightarrow> if u = [] then Inr () else validateWebhookUrl (we_net E) u | None \<Rightarrow> Inr ()) of
             Inl e \<Rightarrow> (Inl e, s)
           | Inr _ \<Rightarrow> (Inr (apply_webhook_update d w),
                        s\<lparr>wh_webhooks := tbl_update wb_id i (apply_webhook_update d) (wh_webhooks s)\<rparr>)))"

definition rotateSecret :: "string \<Rightarrow> string \<Rightarrow> string \<Rightarrow> webhooks_state \<Rightarrow> (webhook, webhooks_state) outcome" where
  "rotateSecret newSecret i userId s =
     (case webhooks_findOne i userId s of
        Inl e \<Rightarrow> (Inl e, s)
      | Inr w \<Rightarrow> (Inr (w\<lparr>wb_secret := newSecret\<rparr>),
                   s\<lparr>wh_webhooks := tbl_update wb_id (wb_id w) (\<lambda>w. w\<lparr>wb_secret := newSecret\<rparr>) (wh_webhooks s),
                     wh_rotations := tbl_create (userId, i) (wh_rotations s)\<rparr>))"

text \<open>The deliveries of a webhook go with it (\<open>onDelete: Cascade\<close>).\<close>

definition webhooks_remove :: "string \<Rightarrow> string \<Rightarrow> webhooks_state \<Rightarrow> (unit, webhooks_state) outcome" where
  "webhooks_remove i userId s =
     (case webhooks_findOne i userId s of
        Inl e \<Rightarrow> (Inl e, s)
      | Inr _ \<Rightarrow> (Inr (), s\<lparr>wh_webhooks := tbl_delete_many (\<lambda>w. wb_id w = i) (wh_webhooks s),
                    wh_deliveries := tbl_delete_many (\<lambda>d. dl_webhookId d = i) (wh_deliveries s)\<rparr>))"

text \<open>\<open>answer\<close> is the challenge in the body of the subscriber's answer, \<open>None\<close> where the request or its parsing fails.\<close>

definition verifyChallenge ::
  "webhook_env \<Rightarrow> string option \<Rightarrow> string \<Rightarrow> string \<Rightarrow> string \<Rightarrow> webhooks_state \<Rightarrow> (bool, webhooks_state) outcome" where
  "verifyChallenge E answer webhookId userId challenge s =
     (case webhooks_findOne webhookId userId s of
        Inl e \<Rightarrow> (Inl e, s)
      | Inr w \<Rightarrow>
          (case validateWebhookUrl (we_net E) (wb_url w) of
             Inl e \<Rightarrow> (Inl e, s)
           | Inr _ \<Rightarrow>
               (let s1 = s\<lparr>wh_calls := wh_calls s @ [Challenge_get (wb_url w) challenge]\<rparr> in
                if answer = Some challenge
                then (Inr True, s1\<lparr>wh_webhooks := tbl_update wb_id webhookId (\<lambda>w. w\<lparr>wb_status := Hook_ACTIVE\<rparr>) (wh_webhooks s1)\<rparr>)
                else (Inr False, s1))))"

subsection \<open>Delivery\<close>

definition new_delivery :: "string \<Rightarrow> string \<Rightarrow> string \<Rightarrow> payload \<Rightarrow> time \<Rightarrow> delivery" where
  "new_delivery newId webhookId eventType p now =
     \<lparr>dl_id = newId, dl_webhookId = webhookId, dl_eventType = eventType, dl_payload = p, dl_status = Dl_PENDING,
      dl_responseCode = None, dl_responseBody = None, dl_attempts = 0, dl_maxAttempts = MAX_ATTEMPTS,
      dl_nextRetryAt = None, dl_error = None, dl_deliveredAt = None, dl_createdAt = now\<rparr>"

definition event_id :: "payload \<Rightarrow> delivery \<Rightarrow> string" where
  "event_id p d = the (js_or (py_eventId p) (js_or (py_id p) (Some (dl_id d))))"

definition idempotency_key :: "webhook \<Rightarrow> string \<Rightarrow> payload \<Rightarrow> delivery \<Rightarrow> string" where
  "idempotency_key w eventType p d =
     (case py_id p of
        Some i \<Rightarrow> if i = [] then dl_id d else wb_id w @ '':'' @ eventType @ '':'' @ i
      | None \<Rightarrow> dl_id d)"

definition sign :: "webhook_env \<Rightarrow> string \<Rightarrow> string \<Rightarrow> string" where
  "sign E body secret = we_hmac E secret body"

definition update_delivery :: "string \<Rightarrow> (delivery \<Rightarrow> delivery) \<Rightarrow> webhooks_state \<Rightarrow> webhooks_state" where
  "update_delivery i f s = s\<lparr>wh_deliveries := tbl_update dl_id i f (wh_deliveries s)\<rparr>"

text \<open>The row a delivery writes to: the existing one, or a new one when none is named or it is gone.\<close>

definition delivery_row ::
  "string \<Rightarrow> webhook \<Rightarrow> string \<Rightarrow> payload \<Rightarrow> string option \<Rightarrow> time \<Rightarrow> webhooks_state \<Rightarrow> delivery \<times> webhooks_state" where
  "delivery_row newId w eventType p existing now s =
     (case (case existing of Some i \<Rightarrow> if i = [] then None else tbl_find dl_id i (wh_deliveries s) | None \<Rightarrow> None) of
        Some d \<Rightarrow> (d, s)
      | None \<Rightarrow> (let d = new_delivery newId (wb_id w) eventType p now
                 in (d, s\<lparr>wh_deliveries := tbl_create d (wh_deliveries s)\<rparr>)))"

definition delivery_failed ::
  "delivery \<Rightarrow> string option \<Rightarrow> string \<Rightarrow> time \<Rightarrow> webhooks_state \<Rightarrow> (unit, webhooks_state) outcome" where
  "delivery_failed d existing errorMessage now s =
     (let nextAttempt = dl_attempts d + 1;
          shouldRetry = nextAttempt < MAX_ATTEMPTS;
          delayMs = getRetryDelay (int nextAttempt);
          s1 = update_delivery (dl_id d) (\<lambda>r. r\<lparr>dl_status := (if shouldRetry then Dl_RETRYING else Dl_FAILED),
                 dl_attempts := nextAttempt, dl_error := Some errorMessage,
                 dl_responseBody := Some (take 2000 errorMessage),
                 dl_nextRetryAt := (if shouldRetry then Some (now + delayMs) else None)\<rparr>) s
      in (if existing \<noteq> None \<and> existing \<noteq> Some [] \<and> shouldRetry then Inl (InternalError errorMessage) else Inr (), s1))"

definition deliverWebhook ::
  "webhook_env \<Rightarrow> string \<Rightarrow> http_answer \<Rightarrow> webhook \<Rightarrow> string \<Rightarrow> payload \<Rightarrow> string option \<Rightarrow> time \<Rightarrow> webhooks_state
    \<Rightarrow> (unit, webhooks_state) outcome" where
  "deliverWebhook E newId answer w eventType p existing now s =
     (let (d, s1) = delivery_row newId w eventType p existing now s in
      case validateWebhookUrl (we_net E) (wb_url w) of
        Inl e \<Rightarrow>
          (Inr (), update_delivery (dl_id d) (\<lambda>r. r\<lparr>dl_status := Dl_FAILED,
             dl_error := Some (''Blocked by SSRF validation: '' @ (case e of BadRequest m \<Rightarrow> m | _ \<Rightarrow> [])),
             dl_attempts := dl_attempts d + 1\<rparr>) s1)
      | Inr _ \<Rightarrow>
          (let body = we_body E eventType (event_id p d) p now;
               s2 = s1\<lparr>wh_calls := wh_calls s1 @ [Delivery_post (wb_url w)
                  \<lparr>hc_deliveryId = dl_id d, hc_eventType = eventType, hc_eventId = event_id p d,
                   hc_idempotencyKey = idempotency_key w eventType p d, hc_body = body,
                   hc_signature = sign E body (wb_secret w)\<rparr>]\<rparr>
           in case answer of
                Http_response code text \<Rightarrow>
                  if 200 \<le> code \<and> code \<le> 299
                  then (Inr (), update_delivery (dl_id d) (\<lambda>r. r\<lparr>dl_status := Dl_SUCCESS, dl_responseCode := Some code,
                          dl_responseBody := Some (take 2000 text), dl_attempts := dl_attempts d + 1,
                          dl_deliveredAt := Some now, dl_nextRetryAt := None\<rparr>) s2)
                  else delivery_failed d existing (''HTTP '' @ show_nat code @ '': '' @ take 500 text) now s2
              | Network_failure m \<Rightarrow> delivery_failed d existing m now s2))"

definition processDeliveryJob ::
  "webhook_env \<Rightarrow> string \<Rightarrow> http_answer \<Rightarrow> string option \<Rightarrow> string \<Rightarrow> string \<Rightarrow> payload \<Rightarrow> time \<Rightarrow> webhooks_state
    \<Rightarrow> (unit, webhooks_state) outcome" where
  "processDeliveryJob E newId answer deliveryId webhookId eventType p now s =
     (case tbl_find wb_id webhookId (wh_webhooks s) of
        None \<Rightarrow> (Inr (), s)
      | Some w \<Rightarrow> if wb_status w \<noteq> Hook_ACTIVE then (Inr (), s)
                  else deliverWebhook E newId answer w eventType p deliveryId now s)"

fun run_dispatch :: "webhook_env \<Rightarrow> string \<Rightarrow> http_answer \<Rightarrow> dispatch \<Rightarrow> time \<Rightarrow> webhooks_state \<Rightarrow> (unit, webhooks_state) outcome" where
  "run_dispatch E newId answer (Queued deliveryId webhookId eventType p) now s =
     processDeliveryJob E newId answer deliveryId webhookId eventType p now s"
| "run_dispatch E newId answer (Immediate w eventType p deliveryId) now s =
     deliverWebhook E newId answer w eventType p deliveryId now s"

subsection \<open>Triggering, retrying, replaying, pruning\<close>

text \<open>\<open>ids\<close> names the delivery row that is created for a webhook.\<close>

definition trigger_one ::
  "webhook_env \<Rightarrow> (string \<Rightarrow> string) \<Rightarrow> string \<Rightarrow> payload \<Rightarrow> time \<Rightarrow> webhook \<Rightarrow> webhooks_state \<Rightarrow> webhooks_state" where
  "trigger_one E ids eventType p now w s =
     (case isRateLimited (we_rateLimit E) (wb_id w) now (wh_timestamps s) of
        (True, _) \<Rightarrow> s
      | (False, table) \<Rightarrow>
          (let s1 = s\<lparr>wh_timestamps := table\<rparr> in
           if we_queue E
           then s1\<lparr>wh_deliveries := tbl_create (new_delivery (ids (wb_id w)) (wb_id w) eventType p now) (wh_deliveries s1),
                   wh_pending := wh_pending s1 @ [Queued (Some (ids (wb_id w))) (wb_id w) eventType p]\<rparr>
           else s1\<lparr>wh_pending := wh_pending s1 @ [Immediate w eventType p None]\<rparr>))"

definition trigger :: "webhook_env \<Rightarrow> (string \<Rightarrow> string) \<Rightarrow> string \<Rightarrow> payload \<Rightarrow> time \<Rightarrow> webhooks_state \<Rightarrow> webhooks_state" where
  "trigger E ids eventType p now s =
     fold (trigger_one E ids eventType p now)
       (filter (\<lambda>w. wb_status w = Hook_ACTIVE \<and> eventType \<in> set (wb_events w)) (wh_webhooks s)) s"

definition getDeliveries :: "string \<Rightarrow> string \<Rightarrow> webhooks_state \<Rightarrow> delivery list result" where
  "getDeliveries webhookId userId s =
     (case webhooks_findOne webhookId userId s of
        Inl e \<Rightarrow> Inl e
      | Inr _ \<Rightarrow> Inr (take 100 (tbl_desc dl_createdAt (filter (\<lambda>d. dl_webhookId d = webhookId) (wh_deliveries s)))))"

definition replay ::
  "webhook_env \<Rightarrow> string \<Rightarrow> http_answer \<Rightarrow> string \<Rightarrow> string \<Rightarrow> string \<Rightarrow> time \<Rightarrow> webhooks_state
    \<Rightarrow> (string option, webhooks_state) outcome" where
  "replay E newId answer webhookId userId deliveryId now s =
     (case webhooks_findOne webhookId userId s of
        Inl e \<Rightarrow> (Inl e, s)
      | Inr w \<Rightarrow>
          (case List.find (\<lambda>d. dl_id d = deliveryId \<and> dl_webhookId d = webhookId) (wh_deliveries s) of
             None \<Rightarrow> (Inl (NotFound ''Webhook delivery not found''), s)
           | Some d \<Rightarrow>
               if wb_status w \<noteq> Hook_ACTIVE
               then (Inl (BadRequest ''Cannot replay a delivery for an inactive webhook''), s)
               else if we_queue E
               then (Inr (Some newId),
                     s\<lparr>wh_deliveries := tbl_create (new_delivery newId (wb_id w) (dl_eventType d) (dl_payload d) now) (wh_deliveries s),
                       wh_pending := wh_pending s @ [Queued (Some newId) (wb_id w) (dl_eventType d) (dl_payload d)]\<rparr>)
               else (case deliverWebhook E newId answer w (dl_eventType d) (dl_payload d) None now s of
                       (Inl e, s1) \<Rightarrow> (Inl e, s1) | (Inr _, s1) \<Rightarrow> (Inr None, s1))))"

definition retry_due :: "time \<Rightarrow> delivery \<Rightarrow> bool" where
  "retry_due now d \<longleftrightarrow> dl_status d = Dl_RETRYING \<and> (case dl_nextRetryAt d of Some t \<Rightarrow> t \<le> now | None \<Rightarrow> False)
     \<and> dl_attempts d < MAX_ATTEMPTS"

definition retry_dispatch :: "webhook_env \<Rightarrow> webhooks_state \<Rightarrow> delivery \<Rightarrow> dispatch option" where
  "retry_dispatch E s d =
     (case tbl_find wb_id (dl_webhookId d) (wh_webhooks s) of
        None \<Rightarrow> None
      | Some w \<Rightarrow> if wb_status w \<noteq> Hook_ACTIVE then None
          else Some (if we_queue E then Queued (Some (dl_id d)) (wb_id w) (dl_eventType d) (dl_payload d)
                     else Immediate w (dl_eventType d) (dl_payload d) (Some (dl_id d))))"

definition retryFailedDeliveries :: "webhook_env \<Rightarrow> time \<Rightarrow> webhooks_state \<Rightarrow> webhooks_state" where
  "retryFailedDeliveries E now s =
     s\<lparr>wh_pending := wh_pending s @ List.map_filter (retry_dispatch E s) (filter (retry_due now) (wh_deliveries s))\<rparr>"

definition pruneOldDeliveryLogs :: "int \<Rightarrow> time \<Rightarrow> webhooks_state \<Rightarrow> nat \<times> webhooks_state" where
  "pruneOldDeliveryLogs retentionDays now s =
     (let cutoff = now - retentionDays * 24 * 60 * 60 * 1000
      in (tbl_count (\<lambda>d. dl_createdAt d < cutoff) (wh_deliveries s),
          s\<lparr>wh_deliveries := tbl_delete_many (\<lambda>d. dl_createdAt d < cutoff) (wh_deliveries s)\<rparr>))"

subsection \<open>Steps\<close>

text \<open>One request, one run of the worker or of a timer.  The worker takes any delivery that waits; a queued one whose
  handler threw may stay for another try.\<close>

inductive webhook_step :: "webhook_env \<Rightarrow> webhooks_state \<Rightarrow> webhooks_state \<Rightarrow> bool" for E where
  create: "webhook_step E s (snd (webhooks_create E i secret u url evs desc now s))"
| update: "webhook_step E s (snd (webhooks_update E i u d s))"
| rotate: "webhook_step E s (snd (rotateSecret secret i u s))"
| remove: "webhook_step E s (snd (webhooks_remove i u s))"
| challenge: "webhook_step E s (snd (verifyChallenge E answer i u ch s))"
| trigger: "webhook_step E s (trigger E ids ev p now s)"
| replay: "webhook_step E s (snd (replay E newId answer i u di now s))"
| retry: "webhook_step E s (retryFailedDeliveries E now s)"
| prune: "webhook_step E s (snd (pruneOldDeliveryLogs days now s))"
| work: "x \<in> set (wh_pending s) \<Longrightarrow>
    webhook_step E s ((snd (run_dispatch E newId answer x now s))\<lparr>wh_pending := remove1 x (wh_pending s)\<rparr>)"
| work_again: "Queued di i ev p \<in> set (wh_pending s) \<Longrightarrow>
    fst (run_dispatch E newId answer (Queued di i ev p) now s) = Inl e \<Longrightarrow>
    webhook_step E s (snd (run_dispatch E newId answer (Queued di i ev p) now s))"

definition empty_webhooks :: webhooks_state where
  "empty_webhooks = \<lparr>wh_webhooks = [], wh_deliveries = [], wh_calls = [], wh_pending = [], wh_timestamps = Map.empty,
     wh_rotations = []\<rparr>"

end
