(* ===== verification/Webhook_Life.thy ===== *)
theory Webhook_Life
  imports Webhooks
begin

text \<open>
  What the webhooks guarantee over any history of steps: the rows of the delivery log, the requests that leave the
  server, the trigger limit, and what overlapping retries do.
\<close>

subsection \<open>Invariants of the state\<close>

text \<open>A delivery that waits has not been tried, one that retries has attempts left and a time, one that succeeded has
  its answer, and one is given up only after all attempts or because its URL is blocked.\<close>

fun row_consistent :: "delivery \<Rightarrow> bool" where
  "row_consistent d = (case dl_status d of
     Dl_PENDING \<Rightarrow> dl_attempts d = 0 \<and> dl_nextRetryAt d = None
   | Dl_RETRYING \<Rightarrow> 0 < dl_attempts d \<and> dl_attempts d < MAX_ATTEMPTS \<and> dl_nextRetryAt d \<noteq> None \<and> dl_error d \<noteq> None
   | Dl_SUCCESS \<Rightarrow> 0 < dl_attempts d \<and> dl_nextRetryAt d = None \<and> dl_deliveredAt d \<noteq> None
       \<and> (case dl_responseCode d of Some c \<Rightarrow> 200 \<le> c \<and> c \<le> 299 | None \<Rightarrow> False)
   | Dl_FAILED \<Rightarrow> 0 < dl_attempts d \<and> (case dl_error d of
       Some e \<Rightarrow> MAX_ATTEMPTS \<le> dl_attempts d \<or> starts_with ''Blocked by SSRF validation: '' e | None \<Rightarrow> False))"

declare row_consistent.simps [simp del]

definition webhooks_ok :: "webhook_env \<Rightarrow> webhooks_state \<Rightarrow> bool" where
  "webhooks_ok E s \<longleftrightarrow> list_all row_consistent (wh_deliveries s)
     \<and> list_all (\<lambda>c. validateWebhookUrl (we_net E) (call_url c) = Inr ()) (wh_calls s)"

lemma webhooks_ok_frame:
  "wh_deliveries s' = wh_deliveries s \<Longrightarrow> wh_calls s' = wh_calls s \<Longrightarrow> webhooks_ok E s' = webhooks_ok E s"
  by (simp add: webhooks_ok_def)

lemma new_delivery_consistent: "row_consistent (new_delivery i wid ev p now)"
  by (simp add: new_delivery_def row_consistent.simps)

lemma webhooks_ok_create:
  "webhooks_ok E s \<Longrightarrow> webhooks_ok E (s\<lparr>wh_deliveries := tbl_create (new_delivery i wid ev p now) (wh_deliveries s)\<rparr>)"
  by (simp add: webhooks_ok_def tbl_create_def new_delivery_consistent)

lemma webhooks_ok_update:
  "webhooks_ok E s \<Longrightarrow> (\<And>r. row_consistent (f r)) \<Longrightarrow> webhooks_ok E (update_delivery i f s)"
  by (auto simp: webhooks_ok_def update_delivery_def tbl_update_def list_all_iff)

lemma webhooks_ok_call:
  "webhooks_ok E s \<Longrightarrow> validateWebhookUrl (we_net E) (call_url c) = Inr () \<Longrightarrow> webhooks_ok E (s\<lparr>wh_calls := wh_calls s @ [c]\<rparr>)"
  by (simp add: webhooks_ok_def)

lemma delivery_failed_ok: "webhooks_ok E s \<Longrightarrow> webhooks_ok E (snd (delivery_failed d ex m now s))"
  by (auto simp: delivery_failed_def Let_def row_consistent.simps intro!: webhooks_ok_update)

lemma delivery_row_ok: "webhooks_ok E s \<Longrightarrow> webhooks_ok E (snd (delivery_row i w ev p ex now s))"
  by (simp add: delivery_row_def Let_def webhooks_ok_create split: option.split)

lemma deliver_ok:
  assumes "webhooks_ok E s"
  shows "webhooks_ok E (snd (deliverWebhook E i answer w ev p ex now s))"
proof -
  obtain d s1 where row: "delivery_row i w ev p ex now s = (d, s1)" by fastforce
  have s1: "webhooks_ok E s1" using delivery_row_ok [OF assms, of i w ev p ex now] row by simp
  show ?thesis
  proof (cases "validateWebhookUrl (we_net E) (wb_url w)")
    case (Inl e)
    then show ?thesis using s1 row
      by (auto simp: deliverWebhook_def row_consistent.simps starts_with_def intro!: webhooks_ok_update)
  next
    case (Inr u)
    define s2 where "s2 = s1\<lparr>wh_calls := wh_calls s1 @ [Delivery_post (wb_url w)
      \<lparr>hc_deliveryId = dl_id d, hc_eventType = ev, hc_eventId = event_id p d, hc_idempotencyKey = idempotency_key w ev p d,
       hc_body = we_body E ev (event_id p d) p now, hc_signature = sign E (we_body E ev (event_id p d) p now) (wb_secret w)\<rparr>]\<rparr>"
    have s2: "webhooks_ok E s2" unfolding s2_def using s1 Inr by (intro webhooks_ok_call) simp_all
    show ?thesis
      unfolding deliverWebhook_def row Let_def prod.case Inr sum.case s2_def [symmetric]
      using s2 by (auto simp: row_consistent.simps intro!: webhooks_ok_update delivery_failed_ok split: http_answer.split)
  qed
qed

lemma run_dispatch_ok: "webhooks_ok E s \<Longrightarrow> webhooks_ok E (snd (run_dispatch E i answer x now s))"
  by (cases x) (simp_all add: deliver_ok processDeliveryJob_def split: option.split)

lemma trigger_one_ok: "webhooks_ok E s \<Longrightarrow> webhooks_ok E (trigger_one E ids ev p now w s)"
  by (auto simp: trigger_one_def Let_def webhooks_ok_def tbl_create_def new_delivery_consistent split: prod.split bool.split)

lemma trigger_ok: "webhooks_ok E s \<Longrightarrow> webhooks_ok E (trigger E ids ev p now s)"
proof -
  have "webhooks_ok E s \<Longrightarrow> webhooks_ok E (fold (trigger_one E ids ev p now) ws s)" for ws
    by (induction ws arbitrary: s) (simp_all add: trigger_one_ok)
  then show "webhooks_ok E s \<Longrightarrow> webhooks_ok E (trigger E ids ev p now s)" by (simp add: trigger_def)
qed

lemma webhooks_ok_step: "webhook_step E s s' \<Longrightarrow> webhooks_ok E s \<Longrightarrow> webhooks_ok E s'"
proof (induction rule: webhook_step.induct)
  case (challenge s answer i u ch)
  then show ?case
    by (auto simp: verifyChallenge_def Let_def webhooks_ok_def split: sum.split)
next
  case (replay s newId answer i u di now)
  have "webhooks_ok E (snd (deliverWebhook E newId answer w ev p None now s))" for w ev p
    by (rule deliver_ok) (rule replay)
  then show ?case
    using replay
    by (auto simp: replay_def webhooks_ok_def tbl_create_def new_delivery_consistent split: sum.split option.split prod.split)
      (metis snd_conv)+
next
  case (trigger s ids ev p now)
  then show ?case by (rule trigger_ok)
next
  case (work x s newId answer now)
  then show ?case using run_dispatch_ok [of E s newId answer x now] by (simp add: webhooks_ok_def)
next
  case (work_again di i ev p s newId answer now e)
  then show ?case by (intro run_dispatch_ok)
qed (auto simp: webhooks_create_def webhooks_update_def rotateSecret_def webhooks_remove_def retryFailedDeliveries_def
    pruneOldDeliveryLogs_def Let_def webhooks_ok_def tbl_delete_many_def list_all_iff split: sum.split)

lemma webhooks_ok_reachable: "(webhook_step E)\<^sup>*\<^sup>* empty_webhooks s \<Longrightarrow> webhooks_ok E s"
  by (induction rule: rtranclp_induct) (simp_all add: webhooks_ok_step, simp add: webhooks_ok_def empty_webhooks_def)

text \<open>C9: In every reachable state each row of the delivery log is consistent: it retries only with attempts left and a time
  for the next one, it is a success only with an answer of the 200 range, and it is given up only after all attempts or
  because the filter refused its URL.\<close>

theorem delivery_rows_consistent:
  assumes "(webhook_step E)\<^sup>*\<^sup>* empty_webhooks s" and "d \<in> set (wh_deliveries s)"
  shows "row_consistent d"
  using webhooks_ok_reachable [OF assms(1)] assms(2) by (simp add: webhooks_ok_def list_all_iff)


subsection \<open>A run of the service\<close>

definition example_webhook_env :: webhook_env where
  "example_webhook_env = \<lparr>we_net = example_net, we_queue = True, we_rateLimit = Some 60, we_payloadCap = Some 65536,
     we_hmac = (\<lambda>k b. k @ b), we_body = (\<lambda>_ _ p _. py_json p)\<rparr>"

definition example_payload :: payload where
  "example_payload = \<lparr>py_json = ''{}'', py_eventId = None, py_id = None\<rparr>"

definition registered :: webhooks_state where
  "registered = snd (webhooks_create example_webhook_env ''w1'' ''s'' ''u1'' ''https://hooks.example.org'' [''EV''] None 0 empty_webhooks)"

definition triggered :: webhooks_state where
  "triggered = trigger example_webhook_env (\<lambda>_. ''d1'') ''EV'' example_payload 10 registered"

definition delivered_once :: webhooks_state where
  "delivered_once = (snd (run_dispatch example_webhook_env ''x'' (Http_response 500 ''busy'') (Queued (Some ''d1'') ''w1'' ''EV'' example_payload)
     20 triggered))\<lparr>wh_pending := remove1 (Queued (Some ''d1'') ''w1'' ''EV'' example_payload) (wh_pending triggered)\<rparr>"

lemma delivered_once_facts:
  "wh_pending triggered = [Queued (Some ''d1'') ''w1'' ''EV'' example_payload]"
  "map (\<lambda>d. (dl_id d, dl_status d, dl_attempts d, dl_nextRetryAt d)) (wh_deliveries delivered_once) = [(''d1'', Dl_RETRYING, 1, Some 1020)]"
  "map call_url (wh_calls delivered_once) = [''https://hooks.example.org'']"
  by code_simp+

lemma delivered_once_reachable: "(webhook_step example_webhook_env)\<^sup>*\<^sup>* empty_webhooks delivered_once"
proof -
  have "webhook_step example_webhook_env empty_webhooks registered" unfolding registered_def by (rule webhook_step.create)
  moreover have "webhook_step example_webhook_env registered triggered" unfolding triggered_def by (rule webhook_step.trigger)
  moreover have "webhook_step example_webhook_env triggered delivered_once"
    unfolding delivered_once_def by (rule webhook_step.work) (simp add: delivered_once_facts)
  ultimately show ?thesis by (meson converse_rtranclp_into_rtranclp rtranclp.rtrancl_refl)
qed

theorem delivery_rows_consistent_witness:
  "\<exists>d. d \<in> set (wh_deliveries delivered_once) \<and> dl_status d = Dl_RETRYING \<and> row_consistent d"
proof -
  obtain d where d: "d \<in> set (wh_deliveries delivered_once)" "dl_status d = Dl_RETRYING"
    using delivered_once_facts(2) by auto
  then show ?thesis using delivery_rows_consistent [OF delivered_once_reachable d(1)] by blast
qed


subsection \<open>The trigger limit\<close>

interpretation trigger_limit: sliding_window
  "\<lambda>now table. isRateLimited (Some m) webhookId now table"
  "\<lambda>table. case table webhookId of None \<Rightarrow> [] | Some ts \<Rightarrow> ts" TRIGGER_RATE_LIMIT_WINDOW_MS m
  for m webhookId
  by unfold_locales (auto simp: isRateLimited_def Let_def TRIGGER_RATE_LIMIT_WINDOW_MS_def intro: filter_cong split: option.splits)



subsection \<open>Overlapping retries\<close>

abbreviation row_of :: "string \<Rightarrow> webhooks_state \<Rightarrow> delivery option" where
  "row_of i s \<equiv> tbl_find dl_id i (wh_deliveries s)"

text \<open>What running the job of an existing row does, when its webhook is active and its URL passes.\<close>

lemma job_of_row:
  assumes "row_of i s = Some d" and "i \<noteq> []" and "tbl_find wb_id (wb_id w) (wh_webhooks s) = Some w"
    and "wb_status w = Hook_ACTIVE" and "validateWebhookUrl (we_net E) (wb_url w) = Inr ()"
    and s': "s' = snd (run_dispatch E n answer (Queued (Some i) (wb_id w) ev p) now s)"
  shows "wh_webhooks s' = wh_webhooks s" and "wh_pending s' = wh_pending s"
    and "\<exists>c. wh_calls s' = wh_calls s @ [Delivery_post (wb_url w) c] \<and> hc_deliveryId c = i"
    and "answer = Http_response 200 text \<Longrightarrow> \<exists>d'. row_of i s' = Some d' \<and> dl_status d' = Dl_SUCCESS"
    and "answer = Network_failure m \<Longrightarrow> \<exists>d'. row_of i s' = Some d' \<and> dl_status d' \<in> {Dl_RETRYING, Dl_FAILED}"
proof -
  have id: "dl_id d = i" using assms(1) by (auto dest: tbl_find_Some)
  have row: "delivery_row n w ev p (Some i) now s = (d, s)" using assms(1,2) by (simp add: delivery_row_def)
  have upd: "tbl_find dl_id i (tbl_update dl_id i f (wh_deliveries s)) = Some (f d)" if "\<And>r. dl_id (f r) = dl_id r" for f
    using assms(1) id tbl_find_update_by [where key' = dl_id and key = dl_id and f = f and h = i and k = i and t = "wh_deliveries s", OF that] by simp
  note defs = s' processDeliveryJob_def deliverWebhook_def row assms(3-5) Let_def update_delivery_def delivery_failed_def id
  show "wh_webhooks s' = wh_webhooks s" "wh_pending s' = wh_pending s"
    "\<exists>c. wh_calls s' = wh_calls s @ [Delivery_post (wb_url w) c] \<and> hc_deliveryId c = i"
    by (simp_all add: defs split: http_answer.split)
  show "answer = Http_response 200 text \<Longrightarrow> \<exists>d'. row_of i s' = Some d' \<and> dl_status d' = Dl_SUCCESS"
    by (simp add: defs upd)
  show "answer = Network_failure m \<Longrightarrow> \<exists>d'. row_of i s' = Some d' \<and> dl_status d' \<in> {Dl_RETRYING, Dl_FAILED}"
    by (simp add: defs upd)
qed

lemma retry_enqueues:
  assumes "d \<in> set (wh_deliveries s)" and "retry_due now d" and "tbl_find wb_id (dl_webhookId d) (wh_webhooks s) = Some w"
    and "wb_status w = Hook_ACTIVE" and "we_queue E"
  shows "\<exists>xs. wh_pending (retryFailedDeliveries E now s) = wh_pending s @ xs
    \<and> Queued (Some (dl_id d)) (wb_id w) (dl_eventType d) (dl_payload d) \<in> set xs"
  using assms by (force simp: retryFailedDeliveries_def map_filter_def retry_dispatch_def)

lemma retry_frame [simp]:
  "wh_deliveries (retryFailedDeliveries E now s) = wh_deliveries s" "wh_webhooks (retryFailedDeliveries E now s) = wh_webhooks s"
  "wh_calls (retryFailedDeliveries E now s) = wh_calls s"
  by (simp_all add: retryFailedDeliveries_def)

lemma in_remove1_twice: "x \<in> set xs \<Longrightarrow> x \<in> set ys \<Longrightarrow> x \<in> set (remove1 x (zs @ xs @ ys))"
  by (auto simp: remove1_append)

text \<open>C10: A delivery whose retry is due is sent more than once: the timer queues it on every run until the worker has taken
  it, and a job that is run after the delivery succeeded sends it again and, when that fails, overturns the success.\<close>

theorem overlapping_retries_overturn_success:
  assumes "d \<in> set (wh_deliveries s)" and "distinct (map dl_id (wh_deliveries s))" and "dl_id d \<noteq> []"
    and "retry_due now d" and "now \<le> later" and "tbl_find wb_id (dl_webhookId d) (wh_webhooks s) = Some w"
    and "wb_status w = Hook_ACTIVE" and "we_queue E" and "validateWebhookUrl (we_net E) (wb_url w) = Inr ()"
    and "x = Queued (Some (dl_id d)) (wb_id w) (dl_eventType d) (dl_payload d)"
    and "s2 = retryFailedDeliveries E later (retryFailedDeliveries E now s)"
    and "s3 = (snd (run_dispatch E n1 (Http_response 200 text) x t1 s2))\<lparr>wh_pending := remove1 x (wh_pending s2)\<rparr>"
    and "s4 = snd (run_dispatch E n2 (Network_failure m) x t2 s3)"
  shows "x \<in> set (wh_pending s3)
    \<and> (\<exists>d3. row_of (dl_id d) s3 = Some d3 \<and> dl_status d3 = Dl_SUCCESS)
    \<and> (\<exists>d4. row_of (dl_id d) s4 = Some d4 \<and> dl_status d4 \<in> {Dl_RETRYING, Dl_FAILED})
    \<and> (\<exists>c1 c2. wh_calls s4 = wh_calls s @ [Delivery_post (wb_url w) c1, Delivery_post (wb_url w) c2]
        \<and> hc_deliveryId c1 = dl_id d \<and> hc_deliveryId c2 = dl_id d)"
proof -
  have due: "retry_due later d" using assms(4,5) by (auto simp: retry_due_def split: option.splits)
  have w: "tbl_find wb_id (wb_id w) (wh_webhooks s) = Some w" using tbl_find_Some [OF assms(6)] assms(6) by simp
  have row: "row_of (dl_id d) s2 = Some d" using assms(1,2) by (simp add: assms(11) tbl_find_distinct)
  obtain xs ys where "wh_pending s2 = wh_pending s @ xs @ ys" "x \<in> set xs" "x \<in> set ys"
    using retry_enqueues [OF assms(1,4,6,7,8)] retry_enqueues [of d "retryFailedDeliveries E now s" later w E] assms(1,6,7,8) due
    by (auto simp: assms(10,11))
  then have pending: "x \<in> set (wh_pending s3)" by (simp add: assms(12) in_remove1_twice)
  have w2: "tbl_find wb_id (wb_id w) (wh_webhooks s2) = Some w" using w by (simp add: assms(11))
  note first = job_of_row [where n = n1 and answer = "Http_response 200 text" and ev = "dl_eventType d" and p = "dl_payload d" and now = t1,
    OF row assms(3) w2 assms(7,9) refl]
  obtain d3 where d3: "row_of (dl_id d) s3 = Some d3" "dl_status d3 = Dl_SUCCESS"
    using first(4) [of "text"] by (auto simp: assms(10,12))
  have w3: "tbl_find wb_id (wb_id w) (wh_webhooks s3) = Some w" using first(1) w2 by (simp add: assms(10,12))
  note second = job_of_row [where n = n2 and answer = "Network_failure m" and ev = "dl_eventType d" and p = "dl_payload d" and now = t2,
    OF d3(1) assms(3) w3 assms(7,9) refl]
  show ?thesis
    using pending d3 second(3,5) first(3) by (auto simp: assms(10,11,12,13))
qed

text \<open>A replay does not repeat the idempotency key of the delivery it replays unless the payload carries an identifier:
  without one the key is the identifier of the new row.\<close>

theorem replay_changes_idempotency_key:
  assumes "we_queue E" and "replay E newId answer i u di now s = (Inr ri, s')" and "row_of di s = Some d"
    and "distinct (map dl_id (wh_deliveries s))" and "row_of newId s = None"
  shows "\<exists>r. row_of newId s' = Some r \<and> dl_payload r = dl_payload d \<and> dl_eventType r = dl_eventType d
    \<and> (idempotency_key w (dl_eventType r) (dl_payload r) r = idempotency_key w (dl_eventType d) (dl_payload d) d
        \<longleftrightarrow> py_id (dl_payload d) \<notin> {None, Some []})"
proof -
  have d: "dl_id d = di" "d \<in> set (wh_deliveries s)" using assms(3) by (auto dest: tbl_find_Some)
  obtain w' d' where w: "webhooks_findOne i u s = Inr w'" "wb_status w' = Hook_ACTIVE"
    and d': "List.find (\<lambda>d. dl_id d = di \<and> dl_webhookId d = i) (wh_deliveries s) = Some d'"
    using assms(1,2) by (auto simp: replay_def split: sum.splits option.splits if_splits)
  have "dl_id d' = di" "d' \<in> set (wh_deliveries s)" using find_Some_in [OF d'] by auto
  then have "d' = d" using assms(4) d by (auto simp: distinct_map inj_on_def)
  define r where "r = new_delivery newId (wb_id w') (dl_eventType d) (dl_payload d) now"
  have "row_of newId s' = Some r"
    using w d' assms(1,2,5) by (auto simp: replay_def tbl_find_create r_def new_delivery_def \<open>d' = d\<close>)
  moreover have "dl_payload r = dl_payload d" "dl_eventType r = dl_eventType d" "dl_id r = newId"
    by (simp_all add: r_def new_delivery_def)
  moreover have "newId \<noteq> di" using assms(3,5) by auto
  ultimately show ?thesis using d(1) by (auto simp: idempotency_key_def split: option.split)
qed

lemma delivered_once_rows:
  "\<exists>d w. wh_deliveries delivered_once = [d] \<and> wh_webhooks delivered_once = [w] \<and> dl_id d = ''d1'' \<and> dl_webhookId d = ''w1''
    \<and> dl_eventType d = ''EV'' \<and> dl_payload d = example_payload \<and> retry_due 2000 d
    \<and> wb_id w = ''w1'' \<and> wb_userId w = ''u1'' \<and> wb_status w = Hook_ACTIVE \<and> wb_url w = ''https://hooks.example.org''"
proof -
  have "map (\<lambda>d. (dl_id d, dl_webhookId d, dl_eventType d, dl_payload d, retry_due 2000 d)) (wh_deliveries delivered_once)
    = [(''d1'', ''w1'', ''EV'', example_payload, True)]" by code_simp
  moreover have "map (\<lambda>w. (wb_id w, wb_userId w, wb_status w, wb_url w)) (wh_webhooks delivered_once)
    = [(''w1'', ''u1'', Hook_ACTIVE, ''https://hooks.example.org'')]" by code_simp
  ultimately show ?thesis by auto
qed

theorem overlapping_retries_overturn_success_witness:
  "\<exists>x s3. x \<in> set (wh_pending s3)
    \<and> s3 = (snd (run_dispatch example_webhook_env ''a'' (Http_response 200 ''ok'') x 3000
        (retryFailedDeliveries example_webhook_env 3000 (retryFailedDeliveries example_webhook_env 2000 delivered_once))))
      \<lparr>wh_pending := remove1 x (wh_pending (retryFailedDeliveries example_webhook_env 3000
         (retryFailedDeliveries example_webhook_env 2000 delivered_once)))\<rparr>"
proof -
  obtain d w where dw: "wh_deliveries delivered_once = [d]" "wh_webhooks delivered_once = [w]" "dl_id d = ''d1''"
    "dl_webhookId d = ''w1''" "retry_due 2000 d" "wb_id w = ''w1''" "wb_status w = Hook_ACTIVE"
    "wb_url w = ''https://hooks.example.org''" using delivered_once_rows by auto
  have hyps: "d \<in> set (wh_deliveries delivered_once)" "distinct (map dl_id (wh_deliveries delivered_once))" "dl_id d \<noteq> []"
    "retry_due 2000 d" "(2000 :: int) \<le> 3000" "tbl_find wb_id (dl_webhookId d) (wh_webhooks delivered_once) = Some w"
    "wb_status w = Hook_ACTIVE" "we_queue example_webhook_env" "validateWebhookUrl (we_net example_webhook_env) (wb_url w) = Inr ()"
    using dw example_url by (simp_all add: tbl_find_def example_webhook_env_def)
  show ?thesis
    using overlapping_retries_overturn_success [OF hyps refl refl refl refl, of "''a''" "''ok''" 3000 "''b''" "''down''" 4000] by blast
qed

theorem replay_changes_idempotency_key_witness:
  "\<exists>ri s' r. replay example_webhook_env ''d2'' (Network_failure []) ''w1'' ''u1'' ''d1'' 5000 delivered_once = (Inr ri, s')
    \<and> row_of ''d2'' s' = Some r \<and> dl_payload r = example_payload"
proof -
  obtain d w where dw: "wh_deliveries delivered_once = [d]" "wh_webhooks delivered_once = [w]" "dl_id d = ''d1''"
    "dl_webhookId d = ''w1''" "dl_payload d = example_payload" "wb_id w = ''w1''" "wb_userId w = ''u1''" "wb_status w = Hook_ACTIVE"
    using delivered_once_rows by auto
  have q: "we_queue example_webhook_env" by (simp add: example_webhook_env_def)
  obtain ri s' where run: "replay example_webhook_env ''d2'' (Network_failure []) ''w1'' ''u1'' ''d1'' 5000 delivered_once = (Inr ri, s')"
    using dw q by (simp add: replay_def webhooks_findOne_def)
  have "row_of ''d1'' delivered_once = Some d" "distinct (map dl_id (wh_deliveries delivered_once))" "row_of ''d2'' delivered_once = None"
    using dw by (simp_all add: tbl_find_def)
  from replay_changes_idempotency_key [OF q run this] show ?thesis using run dw(5) by auto
qed

end
