(* ===== verification/Properties.thy ===== *)
theory Properties
  imports Complex_Main Store Status_Machines Sliding_Window Rate_Guards
begin

text \<open>
  The property listings: \<open>src/properties/properties.service.ts\<close>, \<open>src/properties/search-where.builder.ts\<close>, the address
  comparison of \<open>src/properties/geocoding.service.ts\<close> and the expiry job \<open>src/properties/property-expiry.service.ts\<close>.

  Numbers of a request and Decimal columns are rationals; sums and differences of prices are exact, the percentage of
  a change, which decimal.js rounds, is an argument.  The geocoder of the provider is an argument, with the answer
  after the retries.  Columns that no operation reads are a map of their own.  The read caches, the relations that
  are joined to a row, and the evaluation of a new listing by the fraud service, whose failure is caught and which
  writes other tables, are not modelled here.
\<close>

subsection \<open>State\<close>

record postal =
  ad_address :: string
  ad_city :: string
  ad_state :: string
  ad_zipCode :: string
  ad_country :: string

record property =
  pp_id :: string
  pp_title :: string
  pp_postal :: postal
  pp_price :: rat
  pp_propertyType :: string
  pp_bedrooms :: "int option"
  pp_bathrooms :: "rat option"
  pp_squareFeet :: "rat option"
  pp_lotSize :: "rat option"
  pp_yearBuilt :: "int option"
  pp_status :: property_status
  pp_deleted :: bool
  pp_deletedAt :: "time option"
  pp_deletedById :: "string option"
  pp_ownerId :: string
  pp_neighborhoodId :: "string option"
  pp_latitude :: "rat option"
  pp_longitude :: "rat option"
  pp_category :: "string option"
  pp_tags :: "string list"
  pp_hoaMonthlyFee :: "rat option"
  pp_expiryDate :: "time option"
  pp_regeocodingFailedAt :: "time option"
  pp_createdAt :: time
  pp_updatedAt :: time
  pp_other :: "string \<Rightarrow> string option"

record price_change =
  ph_propertyId :: string
  ph_oldPrice :: rat
  ph_newPrice :: rat
  ph_changeAmount :: rat
  ph_changePercentage :: rat
  ph_changedBy :: "string option"
  ph_changeReason :: "string option"
  ph_createdAt :: time

record agent_assignment =
  aa_propertyId :: string
  aa_agentId :: string
  aa_commissionRate :: rat
  aa_contactPhone :: "string option"
  aa_contactEmail :: "string option"

record amenity =
  am_id :: string
  am_propertyId :: string
  am_name :: string
  am_amenityType :: string
  am_description :: "string option"
  am_isAvailable :: bool
  am_createdAt :: time

record neighborhood =
  nb_id :: string
  nb_walkScore :: "rat option"
  nb_transitScore :: "rat option"
  nb_bikeScore :: "rat option"
  nb_schoolRating :: "rat option"
  nb_crimeIndex :: "rat option"

datatype listing_notice =
    Expiry_warning string string int
  | Listing_expired string string
  | Listing_archived string string

record property_state =
  ps_properties :: "property list"
  ps_priceHistory :: "price_change list"
  ps_agents :: "agent_assignment list"
  ps_amenities :: "amenity list"
  ps_neighborhoods :: "neighborhood list"
  ps_geocodeTimestamps :: "int list"
  ps_notices :: "listing_notice list"

abbreviation find_property :: "string \<Rightarrow> property_state \<Rightarrow> property option" where
  "find_property i s \<equiv> tbl_find pp_id i (ps_properties s)"

definition update_property :: "string \<Rightarrow> time \<Rightarrow> (property \<Rightarrow> property) \<Rightarrow> property_state \<Rightarrow> property_state" where
  "update_property i now f s =
     s\<lparr>ps_properties := tbl_update pp_id i (\<lambda>p. (f p)\<lparr>pp_updatedAt := now\<rparr>) (ps_properties s)\<rparr>"

definition given_or :: "'a option \<Rightarrow> 'a \<Rightarrow> 'a" where
  "given_or v old = (case v of None \<Rightarrow> old | Some x \<Rightarrow> x)"

text \<open>\<open>x ? f(x) : undefined\<close> on numbers, and truthiness of optional ones.\<close>

definition nonzero :: "rat option \<Rightarrow> rat option" where
  "nonzero v = (case v of None \<Rightarrow> None | Some r \<Rightarrow> if r = 0 then None else Some r)"

subsection \<open>Geocoding\<close>

definition hasAddressChanged :: "postal \<Rightarrow> postal \<Rightarrow> bool" where
  "hasAddressChanged before after \<longleftrightarrow>
     list_ex (\<lambda>k. k before \<noteq> k after) [ad_address, ad_city, ad_state, ad_zipCode, ad_country]"

definition geocodeRateLimitWindow :: int where "geocodeRateLimitWindow = 60 * 1000"
definition geocodeMaxPerMinute :: int where "geocodeMaxPerMinute = 50"

definition checkGeocodeRateLimit :: "time \<Rightarrow> int list \<Rightarrow> bool \<times> int list" where
  "checkGeocodeRateLimit now ts =
     (let kept = filter (\<lambda>t. now - t < geocodeRateLimitWindow) ts in (int (length kept) < geocodeMaxPerMinute, kept))"

definition recordGeocodeCall :: "time \<Rightarrow> int list \<Rightarrow> int list" where
  "recordGeocodeCall now ts = ts @ [now]"

definition has_coordinates :: "property \<Rightarrow> bool" where
  "has_coordinates p \<longleftrightarrow> nonzero (pp_latitude p) \<noteq> None \<and> nonzero (pp_longitude p) \<noteq> None"

definition shouldGeocode :: "string \<Rightarrow> postal \<Rightarrow> property_state \<Rightarrow> bool" where
  "shouldGeocode propertyId addressFields s =
     (case find_property propertyId s of
        None \<Rightarrow> False
      | Some existing \<Rightarrow> if has_coordinates existing then False
          else hasAddressChanged (pp_postal existing) addressFields)"

definition markGeocodingFailed :: "string \<Rightarrow> time \<Rightarrow> property_state \<Rightarrow> property_state" where
  "markGeocodingFailed propertyId now s =
     update_property propertyId now (\<lambda>p. p\<lparr>pp_regeocodingFailedAt := Some now\<rparr>) s"

type_synonym geocoder = "postal \<Rightarrow> (rat \<times> rat) option"

definition attemptGeocode ::
  "geocoder \<Rightarrow> string \<Rightarrow> postal \<Rightarrow> time \<Rightarrow> property_state \<Rightarrow> (rat \<times> rat) option \<times> property_state" where
  "attemptGeocode geocode propertyId addressFields now s =
     (if \<not> shouldGeocode propertyId addressFields s then (None, s)
      else (let (free, kept) = checkGeocodeRateLimit now (ps_geocodeTimestamps s); s1 = s\<lparr>ps_geocodeTimestamps := kept\<rparr>
            in if \<not> free then (None, s1)
               else (let s2 = s1\<lparr>ps_geocodeTimestamps := recordGeocodeCall now (ps_geocodeTimestamps s1)\<rparr>
                     in case geocode addressFields of
                          None \<Rightarrow> (None, markGeocodingFailed propertyId now s2)
                        | Some geo \<Rightarrow> (Some geo, s2))))"

subsection \<open>Creating a listing\<close>

record create_property_dto =
  nd_title :: string
  nd_address :: string
  nd_city :: string
  nd_state :: string
  nd_zipCode :: string
  nd_country :: "string option"
  nd_price :: rat
  nd_propertyType :: string
  nd_bedrooms :: "int option"
  nd_bathrooms :: "rat option"
  nd_squareFeet :: "rat option"
  nd_lotSize :: "rat option"
  nd_yearBuilt :: "int option"
  nd_category :: "string option"
  nd_tags :: "string list"
  nd_latitude :: "rat option"
  nd_longitude :: "rat option"
  nd_hoaMonthlyFee :: "rat option"
  nd_expiryDate :: "time option"
  nd_other :: "string \<Rightarrow> string option"

text \<open>A country that is not given is no condition of the query, and the default of the schema in the row.\<close>

definition same_address :: "create_property_dto \<Rightarrow> property \<Rightarrow> bool" where
  "same_address d p \<longleftrightarrow> ad_address (pp_postal p) = nd_address d \<and> ad_city (pp_postal p) = nd_city d
     \<and> ad_state (pp_postal p) = nd_state d \<and> ad_zipCode (pp_postal p) = nd_zipCode d
     \<and> (case nd_country d of None \<Rightarrow> True | Some c \<Rightarrow> ad_country (pp_postal p) = c)"

definition dto_postal :: "string \<Rightarrow> create_property_dto \<Rightarrow> postal" where
  "dto_postal country d = \<lparr>ad_address = nd_address d, ad_city = nd_city d, ad_state = nd_state d,
     ad_zipCode = nd_zipCode d, ad_country = country\<rparr>"

definition created_property :: "string \<Rightarrow> create_property_dto \<Rightarrow> rat option \<Rightarrow> rat option \<Rightarrow> string \<Rightarrow> time \<Rightarrow> property" where
  "created_property newId d lat lng ownerId now =
     \<lparr>pp_id = newId, pp_title = nd_title d, pp_postal = dto_postal (given_or (nd_country d) ''USA'') d, pp_price = nd_price d,
      pp_propertyType = nd_propertyType d, pp_bedrooms = nd_bedrooms d, pp_bathrooms = nd_bathrooms d,
      pp_squareFeet = nonzero (nd_squareFeet d), pp_lotSize = nonzero (nd_lotSize d), pp_yearBuilt = nd_yearBuilt d,
      pp_status = DEFAULT_PROPERTY_STATUS, pp_deleted = False, pp_deletedAt = None, pp_deletedById = None,
      pp_ownerId = ownerId, pp_neighborhoodId = None, pp_latitude = lat, pp_longitude = lng, pp_category = nd_category d,
      pp_tags = nd_tags d, pp_hoaMonthlyFee = nd_hoaMonthlyFee d, pp_expiryDate = nd_expiryDate d,
      pp_regeocodingFailedAt = None, pp_createdAt = now, pp_updatedAt = now, pp_other = nd_other d\<rparr>"

definition properties_create ::
  "geocoder \<Rightarrow> string \<Rightarrow> create_property_dto \<Rightarrow> string \<Rightarrow> time \<Rightarrow> property_state \<Rightarrow> (property, property_state) outcome" where
  "properties_create geocode newId d ownerId now s =
     (if list_ex (same_address d) (ps_properties s)
      then (Inl (BadRequest ''A property with this address already exists.''), s)
      else (let (geo, s1) = (if nd_latitude d = None \<or> nd_longitude d = None
                  then attemptGeocode geocode ''new'' (dto_postal (case nd_country d of None \<Rightarrow> ''USA'' | Some c \<Rightarrow> if c = [] then ''USA'' else c) d) now s
                  else (None, s));
                lat = (case geo of Some (x, _) \<Rightarrow> Some x | None \<Rightarrow> nd_latitude d);
                lng = (case geo of Some (_, y) \<Rightarrow> Some y | None \<Rightarrow> nd_longitude d);
                p = created_property newId d lat lng ownerId now
            in (Inr p, s1\<lparr>ps_properties := tbl_create p (ps_properties s1)\<rparr>)))"

subsection \<open>Changing a listing\<close>

record update_property_dto =
  qd_title :: "string option"
  qd_address :: "string option"
  qd_city :: "string option"
  qd_state :: "string option"
  qd_zipCode :: "string option"
  qd_country :: "string option"
  qd_price :: "rat option"
  qd_propertyType :: "string option"
  qd_bedrooms :: "int option"
  qd_bathrooms :: "rat option"
  qd_squareFeet :: "rat option"
  qd_lotSize :: "rat option"
  qd_yearBuilt :: "int option"
  qd_status :: "property_status option"
  qd_category :: "string option"
  qd_tags :: "string list option"
  qd_latitude :: "rat option"
  qd_longitude :: "rat option"
  qd_hoaMonthlyFee :: "rat option"
  qd_expiryDate :: "time option"
  qd_other :: "string \<Rightarrow> string option"

definition new_postal :: "update_property_dto \<Rightarrow> postal \<Rightarrow> postal" where
  "new_postal d a = \<lparr>ad_address = given_or (qd_address d) (ad_address a), ad_city = given_or (qd_city d) (ad_city a),
     ad_state = given_or (qd_state d) (ad_state a), ad_zipCode = given_or (qd_zipCode d) (ad_zipCode a),
     ad_country = given_or (qd_country d) (ad_country a)\<rparr>"

definition some_text :: "string option \<Rightarrow> bool" where
  "some_text v \<longleftrightarrow> v \<noteq> None \<and> v \<noteq> Some []"

definition names_address :: "update_property_dto \<Rightarrow> bool" where
  "names_address d \<longleftrightarrow> list_ex some_text [qd_address d, qd_city d, qd_state d, qd_zipCode d, qd_country d]"

definition price_change_of ::
  "(rat \<Rightarrow> rat \<Rightarrow> rat) \<Rightarrow> update_property_dto \<Rightarrow> rat \<Rightarrow> string option \<Rightarrow> time \<Rightarrow> property \<Rightarrow> price_change" where
  "price_change_of percentage d newPrice userId now p =
     (let oldPrice = pp_price p; changeAmount = newPrice - oldPrice
      in \<lparr>ph_propertyId = pp_id p, ph_oldPrice = oldPrice, ph_newPrice = newPrice, ph_changeAmount = changeAmount,
          ph_changePercentage = (if oldPrice = 0 then 0 else percentage changeAmount oldPrice),
          ph_changedBy = userId, ph_changeReason = js_or (qd_other d ''changeReason'') None, ph_createdAt = now\<rparr>)"

definition record_price_change ::
  "(rat \<Rightarrow> rat \<Rightarrow> rat) \<Rightarrow> update_property_dto \<Rightarrow> string option \<Rightarrow> time \<Rightarrow> property \<Rightarrow> property_state \<Rightarrow> property_state" where
  "record_price_change percentage d userId now existing s =
     (case qd_price d of
        None \<Rightarrow> s
      | Some price \<Rightarrow>
          if price \<noteq> pp_price existing
          then s\<lparr>ps_priceHistory := tbl_create (price_change_of percentage d price userId now existing) (ps_priceHistory s)\<rparr>
          else s)"

text \<open>Columns of the request that are not given stay as they are.\<close>

definition apply_update :: "update_property_dto \<Rightarrow> rat option \<Rightarrow> rat option \<Rightarrow> property \<Rightarrow> property" where
  "apply_update d lat lng p =
     p\<lparr>pp_title := given_or (qd_title d) (pp_title p), pp_postal := new_postal d (pp_postal p),
       pp_price := given_or (nonzero (qd_price d)) (pp_price p), pp_propertyType := given_or (qd_propertyType d) (pp_propertyType p),
       pp_bedrooms := (case qd_bedrooms d of Some x \<Rightarrow> Some x | None \<Rightarrow> pp_bedrooms p),
       pp_bathrooms := (case qd_bathrooms d of Some x \<Rightarrow> Some x | None \<Rightarrow> pp_bathrooms p),
       pp_squareFeet := (case nonzero (qd_squareFeet d) of Some x \<Rightarrow> Some x | None \<Rightarrow> pp_squareFeet p),
       pp_lotSize := (case nonzero (qd_lotSize d) of Some x \<Rightarrow> Some x | None \<Rightarrow> pp_lotSize p),
       pp_yearBuilt := (case qd_yearBuilt d of Some x \<Rightarrow> Some x | None \<Rightarrow> pp_yearBuilt p),
       pp_status := given_or (qd_status d) (pp_status p),
       pp_category := (case qd_category d of Some x \<Rightarrow> Some x | None \<Rightarrow> pp_category p),
       pp_tags := given_or (qd_tags d) (pp_tags p),
       pp_hoaMonthlyFee := (case qd_hoaMonthlyFee d of Some x \<Rightarrow> Some x | None \<Rightarrow> pp_hoaMonthlyFee p),
       pp_latitude := (case lat of Some x \<Rightarrow> Some x | None \<Rightarrow> pp_latitude p),
       pp_longitude := (case lng of Some x \<Rightarrow> Some x | None \<Rightarrow> pp_longitude p),
       pp_expiryDate := (case qd_expiryDate d of Some x \<Rightarrow> Some x | None \<Rightarrow> pp_expiryDate p),
       pp_other := pp_other p ++ qd_other d\<rparr>"

definition update_coordinates ::
  "geocoder \<Rightarrow> string \<Rightarrow> update_property_dto \<Rightarrow> property \<Rightarrow> time \<Rightarrow> property_state \<Rightarrow> (rat option \<times> rat option) \<times> property_state" where
  "update_coordinates geocode i d existing now s =
     (if qd_latitude d \<noteq> None \<and> qd_longitude d \<noteq> None then ((qd_latitude d, qd_longitude d), s)
      else let after = new_postal d (pp_postal existing) in
        if \<not> hasAddressChanged (pp_postal existing) after then ((qd_latitude d, qd_longitude d), s)
        else if has_coordinates existing then ((pp_latitude existing, pp_longitude existing), s)
        else (case attemptGeocode geocode i after now s of
                (None, s1) \<Rightarrow> ((qd_latitude d, qd_longitude d), s1)
              | (Some (x, y), s1) \<Rightarrow> ((Some x, Some y), s1)))"

definition properties_update ::
  "geocoder \<Rightarrow> (rat \<Rightarrow> rat \<Rightarrow> rat) \<Rightarrow> string \<Rightarrow> update_property_dto \<Rightarrow> string option \<Rightarrow> time \<Rightarrow> property_state
    \<Rightarrow> (property, property_state) outcome" where
  "properties_update geocode percentage i d userId now s =
     (case find_property i s of
        None \<Rightarrow> (Inl (NotFound (''Property '' @ i @ '' not found'')), s)
      | Some existing \<Rightarrow>
          (let s1 = record_price_change percentage d userId now existing s
           in if names_address d \<and>
                 list_ex (\<lambda>p. pp_postal p = new_postal d (pp_postal existing) \<and> pp_id p \<noteq> i) (ps_properties s1)
              then (Inl (BadRequest ''A property with this address already exists.''), s1)
              else (let ((lat, lng), s2) = update_coordinates geocode i d existing now s1;
                        s3 = update_property i now (apply_update d lat lng) s2
                    in (Inr (the (find_property i s3)), s3))))"

definition properties_remove :: "string \<Rightarrow> string \<Rightarrow> string \<Rightarrow> time \<Rightarrow> property_state \<Rightarrow> (property, property_state) outcome" where
  "properties_remove i userId role now s =
     (case find_property i s of
        None \<Rightarrow> (Inl (NotFound (''Property with ID '' @ i @ '' not found'')), s)
      | Some p \<Rightarrow>
          if pp_ownerId p \<noteq> userId \<and> role \<noteq> ''ADMIN''
          then (Inl (Forbidden ''You are not authorized to delete this property''), s)
          else (let s1 = update_property i now (\<lambda>p. p\<lparr>pp_deleted := True, pp_deletedAt := Some now,
                      pp_deletedById := Some userId, pp_status := ARCHIVED\<rparr>) s
                in (Inr (the (find_property i s1)), s1)))"

definition restore :: "string \<Rightarrow> string \<Rightarrow> time \<Rightarrow> property_state \<Rightarrow> (property, property_state) outcome" where
  "restore i role now s =
     (case find_property i s of
        None \<Rightarrow> (Inl (NotFound (''Property with ID '' @ i @ '' not found'')), s)
      | Some p \<Rightarrow>
          if role \<noteq> ''ADMIN'' then (Inl (Forbidden ''You are not authorized to restore this property''), s)
          else (let s1 = update_property i now (\<lambda>p. p\<lparr>pp_deleted := False, pp_deletedAt := None,
                      pp_deletedById := None, pp_status := DRAFT\<rparr>) s
                in (Inr (the (find_property i s1)), s1)))"

subsection \<open>Status changes\<close>

definition transitionStatus ::
  "string \<Rightarrow> property_status \<Rightarrow> string \<Rightarrow> string \<Rightarrow> time \<Rightarrow> property_state \<Rightarrow> (property option, property_state) outcome" where
  "transitionStatus propertyId nextStatus actorId actorRole now s =
     (case find_property propertyId s of
        None \<Rightarrow> (Inl (NotFound (''Property '' @ propertyId @ '' not found'')), s)
      | Some p \<Rightarrow>
          if pp_ownerId p \<noteq> actorId \<and> \<not> (actorRole = ''ADMIN'' \<or> actorRole = ''AGENT'')
          then (Inl (Forbidden ''You are not allowed to change the status of this property''), s)
          else if pp_status p = nextStatus then (Inr (find_property propertyId s), s)
          else if \<not> canTransitionPropertyStatus (pp_status p) nextStatus
          then (Inl (BadRequest ''Cannot transition property''), s)
          else (let s1 = update_property propertyId now (\<lambda>p. p\<lparr>pp_status := nextStatus\<rparr>) s
                in (Inr (find_property propertyId s1), s1)))"

definition approveProperty :: "string \<Rightarrow> string \<Rightarrow> time \<Rightarrow> property_state \<Rightarrow> (property option, property_state) outcome" where
  "approveProperty propertyId actorId now s = transitionStatus propertyId ACTIVE actorId ''ADMIN'' now s"

definition rejectProperty :: "string \<Rightarrow> string \<Rightarrow> time \<Rightarrow> property_state \<Rightarrow> (property option, property_state) outcome" where
  "rejectProperty propertyId actorId now s = transitionStatus propertyId ARCHIVED actorId ''ADMIN'' now s"

definition BULK_STATUSES :: "property_status list" where
  "BULK_STATUSES = [DRAFT, ACTIVE, ARCHIVED]"

definition set_status_where :: "(property \<Rightarrow> bool) \<Rightarrow> property_status \<Rightarrow> time \<Rightarrow> property_state \<Rightarrow> nat \<times> property_state" where
  "set_status_where sel st now s =
     (tbl_count sel (ps_properties s),
      s\<lparr>ps_properties := tbl_update_many sel (\<lambda>p. p\<lparr>pp_status := st, pp_updatedAt := now\<rparr>) (ps_properties s)\<rparr>)"

definition bulkUpdatePropertyStatus ::
  "string list \<Rightarrow> property_status \<Rightarrow> time \<Rightarrow> property_state \<Rightarrow> (nat, property_state) outcome" where
  "bulkUpdatePropertyStatus propertyIds st now s =
     (if propertyIds = [] then (Inl (BadRequest ''At least one property id is required''), s)
      else if st \<notin> set BULK_STATUSES
      then (Inl (BadRequest ''Bulk status update only supports DRAFT, ACTIVE, ARCHIVED''), s)
      else (case set_status_where (\<lambda>p. pp_id p \<in> set propertyIds) st now s of (n, s1) \<Rightarrow> (Inr n, s1)))"

text \<open>\<open>deletable\<close> says whether no row of another table holds the listing.  What belongs to a listing goes with it.\<close>

definition bulkDeleteProperties ::
  "(string \<Rightarrow> bool) \<Rightarrow> string list \<Rightarrow> property_state \<Rightarrow> (nat \<times> string list, property_state) outcome" where
  "bulkDeleteProperties deletable propertyIds s =
     (if propertyIds = [] then (Inl (BadRequest ''At least one property id is required''), s)
      else let foundIds = map pp_id (filter (\<lambda>p. pp_id p \<in> set propertyIds) (ps_properties s)) in
        if foundIds = [] then (Inr (0, []), s)
        else if \<not> list_all deletable foundIds
        then (Inl (Conflict ''One or more properties are referenced by transactions or documents and cannot be deleted''), s)
        else (Inr (length foundIds, foundIds),
              s\<lparr>ps_properties := tbl_delete_many (\<lambda>p. pp_id p \<in> set foundIds) (ps_properties s),
                ps_priceHistory := tbl_delete_many (\<lambda>h. ph_propertyId h \<in> set foundIds) (ps_priceHistory s),
                ps_agents := tbl_delete_many (\<lambda>a. aa_propertyId a \<in> set foundIds) (ps_agents s),
                ps_amenities := tbl_delete_many (\<lambda>a. am_propertyId a \<in> set foundIds) (ps_amenities s)\<rparr>))"

definition bulkExportProperties :: "string list \<Rightarrow> string option \<Rightarrow> property_state \<Rightarrow> property list" where
  "bulkExportProperties propertyIds title s =
     filter (\<lambda>p. pp_id p \<in> set propertyIds \<and> (if some_text title then contains_ci (the title) (pp_title p) else True)) (ps_properties s)"

subsection \<open>Reading\<close>

text \<open>\<open>order\<close> is the sorting the database does for an \<open>orderBy\<close>.\<close>

type_synonym ordering = "property list \<Rightarrow> property list"

definition buildListingWhere :: "(property_status option \<times> (property \<Rightarrow> bool)) option \<Rightarrow> property \<Rightarrow> bool" where
  "buildListingWhere wh p =
     (case wh of
        Some (st, sel) \<Rightarrow> sel p \<and> pp_status p = given_or st ACTIVE \<and> \<not> pp_deleted p
      | None \<Rightarrow> pp_status p = ACTIVE \<and> \<not> pp_deleted p)"

definition properties_findAll ::
  "ordering \<Rightarrow> nat option \<Rightarrow> nat option \<Rightarrow> (property_status option \<times> (property \<Rightarrow> bool)) option \<Rightarrow> property_state \<Rightarrow> property list" where
  "properties_findAll order skip taken wh s =
     (let rows = drop (given_or skip 0) (order (filter (buildListingWhere wh) (ps_properties s)))
      in case taken of None \<Rightarrow> rows | Some n \<Rightarrow> take n rows)"

definition findAllPaginated ::
  "ordering \<Rightarrow> nat \<Rightarrow> nat \<Rightarrow> (property_status option \<times> (property \<Rightarrow> bool)) option \<Rightarrow> property_state \<Rightarrow> property list \<times> nat" where
  "findAllPaginated order page pageLimit wh s =
     (let rows = filter (buildListingWhere wh) (ps_properties s)
      in (tbl_page ((page - 1) * pageLimit) pageLimit (order rows), length rows))"

definition findByOwnerId :: "ordering \<Rightarrow> string \<Rightarrow> property_state \<Rightarrow> property list" where
  "findByOwnerId order ownerId s = order (filter (\<lambda>p. pp_ownerId p = ownerId) (ps_properties s))"

subsection \<open>Agents and amenities\<close>

definition may_manage :: "property \<Rightarrow> string \<Rightarrow> string \<Rightarrow> bool" where
  "may_manage p userId role \<longleftrightarrow> role = ''ADMIN'' \<or> pp_ownerId p = userId"

definition is_assignment :: "string \<Rightarrow> string \<Rightarrow> agent_assignment \<Rightarrow> bool" where
  "is_assignment propertyId agentId a \<longleftrightarrow> aa_propertyId a = propertyId \<and> aa_agentId a = agentId"

text \<open>\<open>role_of\<close> is the table of users, reduced to their roles.\<close>

definition assignAgent ::
  "(string \<Rightarrow> string option) \<Rightarrow> string \<Rightarrow> string \<Rightarrow> rat option \<Rightarrow> string option \<Rightarrow> string option \<Rightarrow> string \<Rightarrow> string \<Rightarrow> property_state
    \<Rightarrow> (agent_assignment, property_state) outcome" where
  "assignAgent role_of propertyId agentId rate phone email userId role s =
     (case find_property propertyId s of
        None \<Rightarrow> (Inl (NotFound ''Property not found''), s)
      | Some p \<Rightarrow>
          if \<not> may_manage p userId role then (Inl (Forbidden ''Only the property owner or an admin can assign agents''), s)
          else (case role_of agentId of
                  None \<Rightarrow> (Inl (NotFound ''Agent user not found''), s)
                | Some r \<Rightarrow>
                    if r \<noteq> ''AGENT'' then (Inl (BadRequest ''Assigned user must have the AGENT role''), s)
                    else if list_ex (is_assignment propertyId agentId) (ps_agents s)
                    then (Inl (BadRequest ''Agent is already assigned to this property''), s)
                    else (let a = \<lparr>aa_propertyId = propertyId, aa_agentId = agentId, aa_commissionRate = given_or rate (3 / 100),
                                aa_contactPhone = phone, aa_contactEmail = email\<rparr>
                          in (Inr a, s\<lparr>ps_agents := tbl_create a (ps_agents s)\<rparr>))))"

definition updateAgentAssignment ::
  "string \<Rightarrow> string \<Rightarrow> rat option \<Rightarrow> string option \<Rightarrow> string option \<Rightarrow> string \<Rightarrow> string \<Rightarrow> property_state
    \<Rightarrow> (agent_assignment, property_state) outcome" where
  "updateAgentAssignment propertyId agentId rate phone email userId role s =
     (case find_property propertyId s of
        None \<Rightarrow> (Inl (NotFound ''Property not found''), s)
      | Some p \<Rightarrow>
          if \<not> may_manage p userId role
          then (Inl (Forbidden ''Only the property owner or an admin can update agent assignments''), s)
          else (case List.find (is_assignment propertyId agentId) (ps_agents s) of
                  None \<Rightarrow> (Inl (NotFound ''Agent assignment not found for this property''), s)
                | Some a \<Rightarrow>
                    (let f = (\<lambda>a. a\<lparr>aa_commissionRate := given_or rate (aa_commissionRate a),
                           aa_contactPhone := (case phone of Some x \<Rightarrow> Some x | None \<Rightarrow> aa_contactPhone a),
                           aa_contactEmail := (case email of Some x \<Rightarrow> Some x | None \<Rightarrow> aa_contactEmail a)\<rparr>)
                     in (Inr (f a), s\<lparr>ps_agents := tbl_update_many (is_assignment propertyId agentId) f (ps_agents s)\<rparr>))))"

definition removeAgentAssignment :: "string \<Rightarrow> string \<Rightarrow> string \<Rightarrow> string \<Rightarrow> property_state \<Rightarrow> (agent_assignment, property_state) outcome" where
  "removeAgentAssignment propertyId agentId userId role s =
     (case find_property propertyId s of
        None \<Rightarrow> (Inl (NotFound ''Property not found''), s)
      | Some p \<Rightarrow>
          if \<not> may_manage p userId role
          then (Inl (Forbidden ''Only the property owner or an admin can remove agent assignments''), s)
          else (case List.find (is_assignment propertyId agentId) (ps_agents s) of
                  None \<Rightarrow> (Inl (NotFound ''Agent assignment not found for this property''), s)
                | Some a \<Rightarrow> (Inr a, s\<lparr>ps_agents := tbl_delete_many (is_assignment propertyId agentId) (ps_agents s)\<rparr>)))"

definition getAgents :: "string \<Rightarrow> property_state \<Rightarrow> agent_assignment list result" where
  "getAgents propertyId s =
     (if find_property propertyId s = None then Inl (NotFound ''Property not found'')
      else Inr (filter (\<lambda>a. aa_propertyId a = propertyId) (ps_agents s)))"

definition addAmenity ::
  "string \<Rightarrow> string \<Rightarrow> string \<Rightarrow> string \<Rightarrow> string option \<Rightarrow> bool option \<Rightarrow> time \<Rightarrow> property_state \<Rightarrow> (amenity, property_state) outcome" where
  "addAmenity newId propertyId name amenityType description available now s =
     (if find_property propertyId s = None then (Inl (NotFound ''Property not found''), s)
      else (let a = \<lparr>am_id = newId, am_propertyId = propertyId, am_name = name, am_amenityType = amenityType,
                  am_description = description, am_isAvailable = given_or available True, am_createdAt = now\<rparr>
            in (Inr a, s\<lparr>ps_amenities := tbl_create a (ps_amenities s)\<rparr>)))"

definition getAmenities :: "string \<Rightarrow> property_state \<Rightarrow> amenity list result" where
  "getAmenities propertyId s =
     (if find_property propertyId s = None then Inl (NotFound ''Property not found'')
      else Inr (tbl_asc am_createdAt (filter (\<lambda>a. am_propertyId a = propertyId) (ps_amenities s))))"

definition updateAmenity ::
  "string \<Rightarrow> string \<Rightarrow> string option \<Rightarrow> string option \<Rightarrow> string option \<Rightarrow> bool option \<Rightarrow> property_state \<Rightarrow> (amenity, property_state) outcome" where
  "updateAmenity propertyId amenityId name amenityType description available s =
     (case tbl_find am_id amenityId (ps_amenities s) of
        None \<Rightarrow> (Inl (NotFound ''Amenity not found for this property''), s)
      | Some a \<Rightarrow>
          if am_propertyId a \<noteq> propertyId then (Inl (NotFound ''Amenity not found for this property''), s)
          else (let f = (\<lambda>a. a\<lparr>am_name := given_or name (am_name a), am_amenityType := given_or amenityType (am_amenityType a),
                      am_description := (case description of Some x \<Rightarrow> Some x | None \<Rightarrow> am_description a),
                      am_isAvailable := given_or available (am_isAvailable a)\<rparr>)
                in (Inr (f a), s\<lparr>ps_amenities := tbl_update am_id amenityId f (ps_amenities s)\<rparr>)))"

definition removeAmenity :: "string \<Rightarrow> string \<Rightarrow> property_state \<Rightarrow> (amenity, property_state) outcome" where
  "removeAmenity propertyId amenityId s =
     (case tbl_find am_id amenityId (ps_amenities s) of
        None \<Rightarrow> (Inl (NotFound ''Amenity not found for this property''), s)
      | Some a \<Rightarrow>
          if am_propertyId a \<noteq> propertyId then (Inl (NotFound ''Amenity not found for this property''), s)
          else (Inr a, s\<lparr>ps_amenities := tbl_delete_many (\<lambda>a. am_id a = amenityId) (ps_amenities s)\<rparr>))"

subsection \<open>Searching\<close>

record search_dto =
  sd_minPrice :: "rat option"
  sd_maxPrice :: "rat option"
  sd_city :: "string option"
  sd_state :: "string option"
  sd_zipCode :: "string option"
  sd_country :: "string option"
  sd_location :: "string option"
  sd_propertyType :: "string option"
  sd_bedrooms :: "int option"
  sd_minBedrooms :: "int option"
  sd_maxBedrooms :: "int option"
  sd_bathrooms :: "rat option"
  sd_minBathrooms :: "rat option"
  sd_maxBathrooms :: "rat option"
  sd_minYearBuilt :: "int option"
  sd_maxYearBuilt :: "int option"
  sd_category :: "string option"
  sd_tag :: "string option"
  sd_amenityType :: "string option"
  sd_lat :: "rat option"
  sd_lng :: "rat option"
  sd_radiusKm :: "rat option"
  sd_minLat :: "rat option"
  sd_maxLat :: "rat option"
  sd_minLng :: "rat option"
  sd_maxLng :: "rat option"
  sd_minNeighborhoodTrustScore :: "rat option"
  sd_maxNeighborhoodTrustScore :: "rat option"
  sd_page :: "nat option"
  sd_limit :: "nat option"

text \<open>\<open>if (x) where.f = ...\<close>: a text that is missing or empty is no condition.\<close>

definition if_text :: "string option \<Rightarrow> (string \<Rightarrow> bool) \<Rightarrow> bool" where
  "if_text v f = (case v of None \<Rightarrow> True | Some x \<Rightarrow> if x = [] then True else f x)"

text \<open>The conditions on the columns, without those on the coordinates.\<close>

definition column_filters :: "search_dto \<Rightarrow> property_state \<Rightarrow> property \<Rightarrow> bool" where
  "column_filters d s p \<longleftrightarrow>
     \<not> pp_deleted p
     \<and> range_filter (sd_minPrice d) (sd_maxPrice d) (Some (pp_price p))
     \<and> if_text (sd_city d) (\<lambda>x. equals_ci x (ad_city (pp_postal p)))
     \<and> if_text (sd_state d) (\<lambda>x. equals_ci x (ad_state (pp_postal p)))
     \<and> if_text (sd_zipCode d) (\<lambda>x. ad_zipCode (pp_postal p) = x)
     \<and> if_text (sd_country d) (\<lambda>x. equals_ci x (ad_country (pp_postal p)))
     \<and> if_text (sd_location d) (\<lambda>x. list_ex (contains_ci x)
         [ad_address (pp_postal p), ad_city (pp_postal p), ad_state (pp_postal p), ad_zipCode (pp_postal p)])
     \<and> if_text (sd_propertyType d) (\<lambda>x. equals_ci x (pp_propertyType p))
     \<and> (case sd_bedrooms d of Some b \<Rightarrow> pp_bedrooms p = Some b
         | None \<Rightarrow> range_filter (sd_minBedrooms d) (sd_maxBedrooms d) (pp_bedrooms p))
     \<and> (case sd_bathrooms d of Some b \<Rightarrow> pp_bathrooms p = Some b
         | None \<Rightarrow> range_filter (sd_minBathrooms d) (sd_maxBathrooms d) (pp_bathrooms p))
     \<and> pp_status p = ACTIVE
     \<and> range_filter (sd_minYearBuilt d) (sd_maxYearBuilt d) (pp_yearBuilt p)
     \<and> if_text (sd_category d) (\<lambda>x. case pp_category p of Some c \<Rightarrow> equals_ci x c | None \<Rightarrow> False)
     \<and> if_text (sd_tag d) (\<lambda>x. x \<in> set (pp_tags p))
     \<and> if_text (sd_amenityType d) (\<lambda>x. list_ex (\<lambda>a. am_propertyId a = pp_id p \<and> equals_ci x (am_amenityType a)) (ps_amenities s))"

definition hasBoundingBox :: "search_dto \<Rightarrow> bool" where
  "hasBoundingBox d \<longleftrightarrow> list_ex (\<lambda>v. v \<noteq> None) [sd_minLat d, sd_maxLat d, sd_minLng d, sd_maxLng d]"

text \<open>\<open>lngDelta radiusKm lat\<close> is \<open>radiusKm / (111 * Math.cos(lat * Math.PI / 180))\<close>.  A bound of the box replaces the one of
  the radius.\<close>

definition first_of :: "'a option \<Rightarrow> 'a option \<Rightarrow> 'a option" where
  "first_of a b = (case a of Some x \<Rightarrow> Some x | None \<Rightarrow> b)"

definition geo_filters :: "(rat \<Rightarrow> rat \<Rightarrow> rat) \<Rightarrow> search_dto \<Rightarrow> rat \<Rightarrow> rat \<Rightarrow> property \<Rightarrow> bool" where
  "geo_filters lngDelta d lat lng p \<longleftrightarrow>
     (let latDelta = (\<lambda>r. r / 111);
          radius = (\<lambda>f. map_option f (sd_radiusKm d))
      in range_filter (first_of (sd_minLat d) (radius (\<lambda>r. lat - latDelta r)))
           (first_of (sd_maxLat d) (radius (\<lambda>r. lat + latDelta r))) (pp_latitude p)
       \<and> range_filter (first_of (sd_minLng d) (radius (\<lambda>r. lng - lngDelta r lat)))
           (first_of (sd_maxLng d) (radius (\<lambda>r. lng + lngDelta r lat))) (pp_longitude p))"

definition buildSearchWhereClause ::
  "(rat \<Rightarrow> rat \<Rightarrow> rat) \<Rightarrow> search_dto \<Rightarrow> (property_state \<Rightarrow> property \<Rightarrow> bool) result" where
  "buildSearchWhereClause lngDelta d =
     (if (sd_lat d = None) \<noteq> (sd_lng d = None) then Inl (BadRequest ''Both lat and lng must be provided together'')
      else case (sd_lat d, sd_lng d) of
        (Some lat, Some lng) \<Rightarrow>
          if sd_radiusKm d = None \<and> \<not> hasBoundingBox d
          then Inl (BadRequest ''When providing lat/lng, either radiusKm or bounding box params (minLat/maxLat/minLng/maxLng) must also be provided'')
          else Inr (\<lambda>s p. column_filters d s p \<and> geo_filters lngDelta d lat lng p)
      | _ \<Rightarrow> Inl (BadRequest ''Both lat and lng must be provided together''))"

text \<open>\<open>Math.round\<close>.\<close>

definition js_round :: "rat \<Rightarrow> int" where
  "js_round x = \<lfloor>x + 1 / 2\<rfloor>"

definition computeNeighborhoodTrustScore :: "neighborhood \<Rightarrow> int" where
  "computeNeighborhoodTrustScore n =
     (let scores = List.map_filter id [nb_walkScore n, nb_transitScore n, nb_bikeScore n,
            map_option (\<lambda>r. r * 10) (nb_schoolRating n), map_option (\<lambda>c. 100 - c) (nb_crimeIndex n)]
      in if scores = [] then 50 else js_round (sum_list scores / of_nat (length scores)))"

definition annotateTrustScore :: "property_state \<Rightarrow> property \<Rightarrow> property \<times> int option" where
  "annotateTrustScore s p =
     (p, case pp_neighborhoodId p of None \<Rightarrow> None
         | Some i \<Rightarrow> map_option computeNeighborhoodTrustScore (tbl_find nb_id i (ps_neighborhoods s)))"

definition matchesTrustScoreRange :: "int option \<Rightarrow> search_dto \<Rightarrow> bool" where
  "matchesTrustScoreRange score d =
     (if (case sd_minNeighborhoodTrustScore d of None \<Rightarrow> False
          | Some m \<Rightarrow> (case score of None \<Rightarrow> True | Some x \<Rightarrow> of_int x < m)) then False
      else if (case sd_maxNeighborhoodTrustScore d of None \<Rightarrow> False
          | Some m \<Rightarrow> (case score of None \<Rightarrow> True | Some x \<Rightarrow> m < of_int x)) then False
      else True)"

record search_page =
  sp_items :: "(property \<times> int option) list"
  sp_total :: nat
  sp_page :: nat
  sp_limit :: nat
  sp_totalPages :: int

definition buildPage :: "(property \<times> int option) list \<Rightarrow> nat \<Rightarrow> nat \<Rightarrow> nat \<Rightarrow> search_page" where
  "buildPage items total_rows page pageLimit =
     \<lparr>sp_items = items, sp_total = total_rows, sp_page = page, sp_limit = pageLimit,
      sp_totalPages = (if 0 < pageLimit then ceil_div (int total_rows) (int pageLimit) else 0)\<rparr>"

definition searchByTrustScore ::
  "ordering \<Rightarrow> search_dto \<Rightarrow> (property_state \<Rightarrow> property \<Rightarrow> bool) \<Rightarrow> nat \<Rightarrow> nat \<Rightarrow> property_state \<Rightarrow> search_page" where
  "searchByTrustScore order d wh page pageLimit s =
     (let filtered = filter (\<lambda>r. matchesTrustScoreRange (snd r) d)
            (map (annotateTrustScore s) (order (filter (wh s) (ps_properties s))))
      in buildPage (tbl_page ((page - 1) * pageLimit) pageLimit filtered) (length filtered) page pageLimit)"

definition searchByPaging ::
  "ordering \<Rightarrow> (property_state \<Rightarrow> property \<Rightarrow> bool) \<Rightarrow> nat \<Rightarrow> nat \<Rightarrow> property_state \<Rightarrow> search_page" where
  "searchByPaging order wh page pageLimit s =
     (let rows = filter (wh s) (ps_properties s)
      in buildPage (map (annotateTrustScore s) (tbl_page ((page - 1) * pageLimit) pageLimit (order rows))) (length rows) page pageLimit)"

definition hasTrustScoreFilter :: "search_dto \<Rightarrow> bool" where
  "hasTrustScoreFilter d \<longleftrightarrow> sd_minNeighborhoodTrustScore d \<noteq> None \<or> sd_maxNeighborhoodTrustScore d \<noteq> None"

definition positive_or :: "nat option \<Rightarrow> nat \<Rightarrow> nat" where
  "positive_or v dflt = (case v of None \<Rightarrow> dflt | Some n \<Rightarrow> if 0 < n then n else dflt)"

definition runSearch :: "(rat \<Rightarrow> rat \<Rightarrow> rat) \<Rightarrow> ordering \<Rightarrow> search_dto \<Rightarrow> property_state \<Rightarrow> search_page result" where
  "runSearch lngDelta order d s =
     (case buildSearchWhereClause lngDelta d of
        Inl e \<Rightarrow> Inl e
      | Inr wh \<Rightarrow>
          (let page = positive_or (sd_page d) 1; pageLimit = positive_or (sd_limit d) 20
           in Inr (if hasTrustScoreFilter d then searchByTrustScore order d wh page pageLimit s
                   else searchByPaging order wh page pageLimit s)))"

subsection \<open>Expiry\<close>

text \<open>Days are those of a server whose clock runs in UTC.\<close>

definition day_start :: "time \<Rightarrow> time" where
  "day_start t = t div ms_day * ms_day"

definition EXPIRY_WARNING_DAYS :: "int list" where "EXPIRY_WARNING_DAYS = [7, 3, 1]"
definition GRACE_PERIOD_DAYS :: int where "GRACE_PERIOD_DAYS = 30"

definition can_expire :: "property \<Rightarrow> bool" where
  "can_expire p \<longleftrightarrow> pp_status p \<notin> {SOLD, RENTED, ARCHIVED, EXPIRED}"

definition expireProperties :: "time \<Rightarrow> property_state \<Rightarrow> nat \<times> property_state" where
  "expireProperties now s =
     set_status_where (\<lambda>p. (case pp_expiryDate p of Some e \<Rightarrow> e < now | None \<Rightarrow> False) \<and> can_expire p) EXPIRED now s"

definition sendExpiryWarningNotifications :: "time \<Rightarrow> property_state \<Rightarrow> property_state" where
  "sendExpiryWarningNotifications now s =
     s\<lparr>ps_notices := ps_notices s @ concat (map (\<lambda>days.
        map (\<lambda>p. Expiry_warning (pp_ownerId p) (pp_id p) days)
          (filter (\<lambda>p. (case pp_expiryDate p of None \<Rightarrow> False
             | Some e \<Rightarrow> day_start (now + days * ms_day) \<le> e \<and> e < day_start (now + days * ms_day) + ms_day) \<and> can_expire p)
            (ps_properties s))) EXPIRY_WARNING_DAYS)\<rparr>"

definition sendExpiredNotifications :: "time \<Rightarrow> property_state \<Rightarrow> property_state" where
  "sendExpiredNotifications now s =
     s\<lparr>ps_notices := ps_notices s @ map (\<lambda>p. Listing_expired (pp_ownerId p) (pp_id p))
        (filter (\<lambda>p. pp_status p = EXPIRED \<and> now - ms_day \<le> pp_updatedAt p) (ps_properties s))\<rparr>"

definition archiveExpiredPropertiesPastGracePeriod :: "time \<Rightarrow> property_state \<Rightarrow> property_state" where
  "archiveExpiredPropertiesPastGracePeriod now s =
     (let graceCutoff = now - GRACE_PERIOD_DAYS * ms_day;
          (n, s1) = set_status_where (\<lambda>p. pp_status p = EXPIRED \<and> pp_updatedAt p < graceCutoff) ARCHIVED now s
      in if n = 0 then s1
         else s1\<lparr>ps_notices := ps_notices s1 @ map (\<lambda>p. Listing_archived (pp_ownerId p) (pp_id p))
                (filter (\<lambda>p. pp_status p = ARCHIVED \<and> pp_updatedAt p < graceCutoff) (ps_properties s1))\<rparr>)"

definition handlePropertyExpiry :: "time \<Rightarrow> property_state \<Rightarrow> property_state" where
  "handlePropertyExpiry now s =
     (let (n, s1) = expireProperties now (sendExpiryWarningNotifications now s)
      in archiveExpiredPropertiesPastGracePeriod now (if n = 0 then s1 else sendExpiredNotifications now s1))"

definition renewProperty :: "string \<Rightarrow> string \<Rightarrow> int \<Rightarrow> time \<Rightarrow> property_state \<Rightarrow> (property, property_state) outcome" where
  "renewProperty i userId days now s =
     (case find_property i s of
        None \<Rightarrow> (Inl (NotFound (''Property with ID '' @ i @ '' not found'')), s)
      | Some p \<Rightarrow>
          if pp_ownerId p \<noteq> userId then (Inl (Forbidden ''You can only renew your own properties''), s)
          else (let s1 = update_property i now (\<lambda>p. p\<lparr>pp_expiryDate := Some (now + days * ms_day), pp_status := ACTIVE\<rparr>) s
                in (Inr (the (find_property i s1)), s1)))"

definition isInGracePeriod :: "time \<Rightarrow> property \<Rightarrow> bool" where
  "isInGracePeriod now p \<longleftrightarrow> pp_status p = EXPIRED \<and> now - GRACE_PERIOD_DAYS * ms_day \<le> pp_updatedAt p"

definition getDaysUntilExpiry :: "time option \<Rightarrow> time \<Rightarrow> int option" where
  "getDaysUntilExpiry expiryDate now = map_option (\<lambda>e. ceil_div (e - now) ms_day) expiryDate"

definition getGracePeriodRemainingDays :: "time \<Rightarrow> time \<Rightarrow> int" where
  "getGracePeriodRemainingDays updatedAt now = max 0 (ceil_div (updatedAt + GRACE_PERIOD_DAYS * ms_day - now) ms_day)"

end
