(* ===== verification/Property_Life.thy ===== *)
theory Property_Life
  imports Properties "HOL-Library.Multiset"
begin

text \<open>
  What the operations on listings guarantee: addresses, prices and coordinates under updates, status changes, the
  expiry job, and searches.
\<close>

lemma update_property_simps [simp]:
  "ps_priceHistory (update_property i now f s) = ps_priceHistory s" "ps_agents (update_property i now f s) = ps_agents s"
  "ps_geocodeTimestamps (update_property i now f s) = ps_geocodeTimestamps s"
  "ps_notices (update_property i now f s) = ps_notices s"
  by (simp_all add: update_property_def)

lemma find_update_property:
  "(\<And>p. pp_id (f p) = pp_id p) \<Longrightarrow>
   find_property j (update_property i now f s) =
     (if j = i then map_option (\<lambda>p. (f p)\<lparr>pp_updatedAt := now\<rparr>) (find_property i s) else find_property j s)"
  by (simp add: update_property_def keyed_table.lookup_update [OF keyed_table_tbl])

lemma apply_update_id [simp]: "pp_id (apply_update d lat lng p) = pp_id p"
  by (simp add: apply_update_def)

lemma apply_update_postal [simp]: "pp_postal (apply_update d lat lng p) = new_postal d (pp_postal p)"
  by (simp add: apply_update_def)

lemma record_price_simps [simp]:
  "ps_properties (record_price_change pct d u now p s) = ps_properties s"
  "ps_geocodeTimestamps (record_price_change pct d u now p s) = ps_geocodeTimestamps s"
  by (simp_all add: record_price_change_def split: option.split)

lemma record_price_history:
  "ps_priceHistory (record_price_change pct d u now p s) = ps_priceHistory s @ (case qd_price d of
     Some x \<Rightarrow> if x \<noteq> pp_price p then [price_change_of pct d x u now p] else [] | None \<Rightarrow> [])"
  by (simp add: record_price_change_def tbl_create_def split: option.split)

subsection \<open>Addresses\<close>

definition address_book :: "property_state \<Rightarrow> (string \<times> postal) list" where
  "address_book s = map (\<lambda>p. (pp_id p, pp_postal p)) (ps_properties s)"

definition addresses_unique :: "property_state \<Rightarrow> bool" where
  "addresses_unique s \<longleftrightarrow> distinct (map fst (address_book s)) \<and> distinct (map snd (address_book s))"

lemma address_book_cong: "address_book s' = address_book s \<Longrightarrow> addresses_unique s' = addresses_unique s"
  by (simp add: addresses_unique_def)

lemma address_book_update:
  "(\<And>p. pp_id (f p) = pp_id p) \<Longrightarrow> (\<And>p. pp_postal (f p) = pp_postal p) \<Longrightarrow>
   address_book (update_property i now f s) = address_book s"
  by (simp add: address_book_def update_property_def tbl_update_def o_def)

lemma address_book_status: "address_book (snd (set_status_where sel st now s)) = address_book s"
  by (simp add: address_book_def set_status_where_def tbl_update_many_def o_def)

lemma geocode_book: "address_book (snd (attemptGeocode g i a now s)) = address_book s"
  by (simp add: attemptGeocode_def Let_def checkGeocodeRateLimit_def markGeocodingFailed_def address_book_update split: option.split)
    (simp add: address_book_def)

lemma coordinates_book: "address_book (snd (update_coordinates g i d p now s)) = address_book s"
  using geocode_book [of g i "new_postal d (pp_postal p)" now s]
  by (auto simp: update_coordinates_def Let_def split: option.split prod.split)

text \<open>Requests that give no empty text for a part of the address; new rows get fresh identifiers.\<close>

definition parts_nonempty :: "update_property_dto \<Rightarrow> bool" where
  "parts_nonempty d \<longleftrightarrow> list_all (\<lambda>v. v \<noteq> Some []) [qd_address d, qd_city d, qd_state d, qd_zipCode d, qd_country d]"

inductive listing_step :: "property_state \<Rightarrow> property_state \<Rightarrow> bool" where
  create: "find_property newId s = None \<Longrightarrow> listing_step s (snd (properties_create g newId d owner now s))"
| update: "parts_nonempty d \<Longrightarrow> listing_step s (snd (properties_update g pct i d u now s))"
| remove: "listing_step s (snd (properties_remove i u role now s))"
| restore: "listing_step s (snd (restore i role now s))"
| transition: "listing_step s (snd (transitionStatus i st u role now s))"
| bulk_status: "listing_step s (snd (bulkUpdatePropertyStatus is st now s))"
| bulk_delete: "listing_step s (snd (bulkDeleteProperties deletable is s))"
| expiry: "listing_step s (handlePropertyExpiry now s)"
| renew: "listing_step s (snd (renewProperty i u days now s))"

lemma new_postal_same: "parts_nonempty d \<Longrightarrow> \<not> names_address d \<Longrightarrow> new_postal d a = a"
  by (cases a) (auto simp: parts_nonempty_def names_address_def some_text_def new_postal_def given_or_def split: option.splits)

lemma eq_value_imp_eq_key: "distinct (map snd xs) \<Longrightarrow> (a, v) \<in> set xs \<Longrightarrow> (b, v) \<in> set xs \<Longrightarrow> a = b"
  by (induction xs) (auto simp: rev_image_eqI)

lemma same_address_dto: "pp_postal p = dto_postal (given_or (nd_country d) ''USA'') d \<Longrightarrow> same_address d p"
  by (simp add: same_address_def dto_postal_def given_or_def split: option.split)

lemma unique_after_create:
  assumes "addresses_unique s" and "find_property newId s = None"
  shows "addresses_unique (snd (properties_create g newId d owner now s))"
proof (cases "list_ex (same_address d) (ps_properties s)")
  case False
  obtain geo s1 where g: "(if nd_latitude d = None \<or> nd_longitude d = None
      then attemptGeocode g ''new'' (dto_postal (case nd_country d of None \<Rightarrow> ''USA'' | Some c \<Rightarrow> if c = [] then ''USA'' else c) d) now s
      else (None, s)) = (geo, s1)" by fastforce
  have "address_book (snd (if c then attemptGeocode g i a now s else (None, s))) = address_book s" for c i a
    by (simp add: geocode_book)
  from this [of "nd_latitude d = None \<or> nd_longitude d = None" "''new''"
    "dto_postal (case nd_country d of None \<Rightarrow> ''USA'' | Some c \<Rightarrow> if c = [] then ''USA'' else c) d"]
  have book: "address_book s1 = address_book s" by (simp only: g snd_conv)
  have "newId \<notin> fst ` set (address_book s)"
    using assms(2) by (auto simp: address_book_def tbl_find_None)
  moreover have "dto_postal (given_or (nd_country d) ''USA'') d \<notin> snd ` set (address_book s)"
    using False same_address_dto [of _ d] by (auto simp: address_book_def list_ex_iff)
  moreover have "address_book (snd (properties_create g newId d owner now s))
      = address_book s1 @ [(newId, dto_postal (given_or (nd_country d) ''USA'') d)]"
    unfolding properties_create_def using False
    by (simp only: g Let_def prod.case if_False) (simp add: address_book_def tbl_create_def created_property_def)
  ultimately show ?thesis
    using assms(1) by (simp only: addresses_unique_def book map_append distinct_append) (simp add: rev_image_eqI)
qed (use assms in \<open>simp add: properties_create_def\<close>)

lemma unique_after_update:
  assumes "addresses_unique s" and "parts_nonempty d"
  shows "addresses_unique (snd (properties_update g pct i d u now s))"
proof (cases "find_property i s")
  case (Some p)
  define s1 where "s1 = record_price_change pct d u now p s"
  have s1: "ps_properties s1 = ps_properties s" by (simp add: s1_def)
  show ?thesis
  proof (cases "names_address d \<and> list_ex (\<lambda>q. pp_postal q = new_postal d (pp_postal p) \<and> pp_id q \<noteq> i) (ps_properties s1)")
    case True
    then show ?thesis using assms(1) Some s1
      by (simp add: properties_update_def s1_def [symmetric] addresses_unique_def address_book_def)
  next
    case False
    obtain lat lng s2 where c: "update_coordinates g i d p now s1 = ((lat, lng), s2)"
      by (metis surj_pair)
    have book: "address_book s2 = address_book s"
      using coordinates_book [of g i d p now s1] c s1 by (simp add: address_book_def)
    let ?q = "new_postal d (pp_postal p)"
    have p: "(i, pp_postal p) \<in> set (address_book s)"
      using Some by (force simp: address_book_def dest: tbl_find_Some)
    have free: "(j, ?q) \<notin> set (address_book s)" if "j \<noteq> i" for j
    proof (cases "names_address d")
      case True
      then show ?thesis using False s1 that by (auto simp: address_book_def list_ex_iff)
    next
      case False
      then have "?q = pp_postal p" using assms(2) by (simp add: new_postal_same)
      then show ?thesis using assms(1) p that eq_value_imp_eq_key [of "address_book s"] by (auto simp: addresses_unique_def)
    qed
    have dist: "distinct (map fst xs) \<Longrightarrow> distinct (map snd xs) \<Longrightarrow> (\<And>j. j \<noteq> i \<Longrightarrow> (j, f (pp_postal p)) \<notin> set xs)
      \<Longrightarrow> (\<And>a. (i, a) \<in> set xs \<Longrightarrow> a = pp_postal p)
      \<Longrightarrow> distinct (map snd (map (\<lambda>(j, a). (j, if j = i then f a else a)) xs))" for xs :: "(string \<times> postal) list" and f
      by (induction xs) (auto simp: image_iff split: prod.splits if_splits)
    have only: "a = pp_postal p" if "(i, a) \<in> set (address_book s)" for a
      using that p assms(1) eq_key_imp_eq_value [of "address_book s"] by (simp add: addresses_unique_def)
    have "address_book (update_property i now (apply_update d lat lng) s2)
        = map (\<lambda>(j, a). (j, if j = i then new_postal d a else a)) (address_book s2)"
      by (simp add: address_book_def update_property_def tbl_update_def)
    moreover have "distinct (map snd (map (\<lambda>(j, a). (j, if j = i then new_postal d a else a)) (address_book s)))"
      using assms(1) free only by (intro dist) (auto simp: addresses_unique_def)
    moreover have "map fst (map (\<lambda>(j, a). (j, if j = i then new_postal d a else a)) (address_book s)) = map fst (address_book s)"
      by (simp add: split_beta)
    ultimately have "addresses_unique (update_property i now (apply_update d lat lng) s2)"
      using assms(1) book by (simp only: addresses_unique_def)
    then show ?thesis
      using Some False c by (auto simp: properties_update_def s1_def [symmetric] Let_def)
  qed
qed (use assms in \<open>simp add: properties_update_def\<close>)

lemma expiry_book: "address_book (handlePropertyExpiry now s) = address_book s"
proof -
  have w: "address_book (sendExpiryWarningNotifications now s) = address_book s" for s
    by (simp add: sendExpiryWarningNotifications_def address_book_def)
  have n: "address_book (sendExpiredNotifications now s) = address_book s" for s
    by (simp add: sendExpiredNotifications_def address_book_def)
  have a: "address_book (archiveExpiredPropertiesPastGracePeriod now s) = address_book s" for s
    by (simp add: archiveExpiredPropertiesPastGracePeriod_def Let_def set_status_where_def address_book_def tbl_update_many_def o_def)
  have e: "address_book (snd (expireProperties now s)) = address_book s" for s
    by (simp add: expireProperties_def address_book_status)
  show ?thesis using e [of "sendExpiryWarningNotifications now s"] by (simp add: handlePropertyExpiry_def split_beta a n w)
qed

lemma unique_after_step: "listing_step s s' \<Longrightarrow> addresses_unique s \<Longrightarrow> addresses_unique s'"
proof (induction rule: listing_step.induct)
  case (bulk_delete s deletable "is")
  have "addresses_unique (s\<lparr>ps_properties := tbl_delete_many sel (ps_properties s), ps_priceHistory := h, ps_agents := a, ps_amenities := m\<rparr>)"
    for sel h a m
    using bulk_delete by (simp add: addresses_unique_def address_book_def tbl_delete_many_def o_def distinct_map_filter)
  then show ?case using bulk_delete by (simp add: bulkDeleteProperties_def Let_def)
next
  case (expiry s now)
  then show ?case using address_book_cong [OF expiry_book] by simp
next
  case (bulk_status s "is" st now)
  have "addresses_unique (snd (set_status_where sel st now s))" for sel
    using bulk_status address_book_cong [OF address_book_status] by simp
  then show ?case using bulk_status by (simp add: bulkUpdatePropertyStatus_def split_beta)
qed (auto simp: unique_after_create unique_after_update properties_remove_def restore_def transitionStatus_def renewProperty_def
    Let_def address_book_cong [OF address_book_update] split: option.split)

text \<open>C12: No two listings ever have the same address, whatever is created, updated, moved through its life cycle, expired,
  renewed and deleted, as long as updates give no empty text for a part of the address.\<close>

theorem addresses_stay_unique:
  assumes "listing_step\<^sup>*\<^sup>* s s'" and "distinct (map pp_id (ps_properties s))" and "distinct (map pp_postal (ps_properties s))"
  shows "distinct (map pp_postal (ps_properties s'))"
proof -
  have "addresses_unique s" using assms(2,3) by (simp add: addresses_unique_def address_book_def o_def)
  with assms(1) have "addresses_unique s'"
    by (induction rule: rtranclp_induct) (simp_all add: unique_after_step)
  then show ?thesis by (simp add: addresses_unique_def address_book_def o_def)
qed

subsection \<open>Prices\<close>

text \<open>The prices a listing had according to its history, from \<open>a\<close> to \<open>b\<close>.\<close>

fun price_chain :: "rat \<Rightarrow> price_change list \<Rightarrow> rat \<Rightarrow> bool" where
  "price_chain a [] b \<longleftrightarrow> a = b"
| "price_chain a (h # hs) b \<longleftrightarrow> ph_oldPrice h = a \<and> ph_changeAmount h = ph_newPrice h - a \<and> price_chain (ph_newPrice h) hs b"

definition history_of_property :: "string \<Rightarrow> property_state \<Rightarrow> price_change list" where
  "history_of_property i s = filter (\<lambda>h. ph_propertyId h = i) (ps_priceHistory s)"

lemma price_chain_snoc:
  "price_chain a (hs @ [h]) c \<longleftrightarrow> price_chain a hs (ph_oldPrice h) \<and> ph_changeAmount h = ph_newPrice h - ph_oldPrice h \<and> ph_newPrice h = c"
  by (induction hs arbitrary: a) auto

text \<open>What an update that is accepted does to the rows and the history.\<close>

lemma geocode_frame:
  "ps_priceHistory (snd (attemptGeocode g i a now s)) = ps_priceHistory s"
  "map_option pp_price (find_property j (snd (attemptGeocode g i a now s))) = map_option pp_price (find_property j s)"
  by (simp_all add: attemptGeocode_def Let_def checkGeocodeRateLimit_def markGeocodingFailed_def find_update_property
      option.map_comp o_def split: option.split)

lemma coordinates_frame:
  "ps_priceHistory (snd (update_coordinates g i d p now s)) = ps_priceHistory s"
  "map_option pp_price (find_property j (snd (update_coordinates g i d p now s))) = map_option pp_price (find_property j s)"
  using geocode_frame [where g = g and i = i and a = "new_postal d (pp_postal p)" and now = now and s = s]
  by (auto simp: update_coordinates_def Let_def split: option.split prod.split)

lemma update_run:
  assumes "properties_update g pct i d u now s = (Inr q, s')" and "find_property i s = Some p"
  shows "\<exists>lat lng s2. update_coordinates g i d p now (record_price_change pct d u now p s) = ((lat, lng), s2)
    \<and> s' = update_property i now (apply_update d lat lng) s2 \<and> q = the (find_property i s')"
proof -
  obtain lat lng s2 where "update_coordinates g i d p now (record_price_change pct d u now p s) = ((lat, lng), s2)"
    by (metis surj_pair)
  then show ?thesis using assms by (auto simp: properties_update_def Let_def split: if_splits)
qed

lemma update_accepted:
  assumes "properties_update g pct i d u now s = (Inr q, s')"
  shows "\<exists>p. find_property i s = Some p
    \<and> map_option pp_price (find_property i s') = Some (given_or (nonzero (qd_price d)) (pp_price p))
    \<and> (j \<noteq> i \<longrightarrow> map_option pp_price (find_property j s') = map_option pp_price (find_property j s))
    \<and> ps_priceHistory s' = ps_priceHistory s @ (case qd_price d of
        Some x \<Rightarrow> if x \<noteq> pp_price p then [price_change_of pct d x u now p] else [] | None \<Rightarrow> [])"
proof -
  obtain p where p: "find_property i s = Some p"
    using assms by (cases "find_property i s") (auto simp: properties_update_def)
  obtain lat lng s2 where c: "update_coordinates g i d p now (record_price_change pct d u now p s) = ((lat, lng), s2)"
    and s': "s' = update_property i now (apply_update d lat lng) s2"
    using update_run [OF assms p] by blast
  have s2: "ps_priceHistory s2 = ps_priceHistory (record_price_change pct d u now p s)"
    "map_option pp_price (find_property k s2) = map_option pp_price (find_property k s)" for k
    using coordinates_frame [where g = g and i = i and d = d and p = p and now = now and s = "record_price_change pct d u now p s"] c by simp_all
  obtain r where r: "find_property i s2 = Some r" "pp_price r = pp_price p" using s2(2) [of i] p by auto
  show ?thesis
    using p r s2(2) [of j] by (simp add: s' s2(1) find_update_property apply_update_def record_price_history)
qed

type_synonym price_request = "string \<times> update_property_dto \<times> string option \<times> time"

fun update_all :: "geocoder \<Rightarrow> (rat \<Rightarrow> rat \<Rightarrow> rat) \<Rightarrow> price_request list \<Rightarrow> property_state \<Rightarrow> property_state option" where
  "update_all g pct [] s = Some s"
| "update_all g pct ((i, d, u, t) # rs) s =
     (case properties_update g pct i d u t s of (Inl _, _) \<Rightarrow> None | (Inr _, s1) \<Rightarrow> update_all g pct rs s1)"

lemma price_history_step:
  assumes "properties_update g pct i d u now s = (Inr q, s')" and "qd_price d \<noteq> Some 0"
    and "find_property j s = Some p" and "price_chain a (history_of_property j s) (pp_price p)"
  shows "\<exists>p'. find_property j s' = Some p' \<and> price_chain a (history_of_property j s') (pp_price p')"
proof -
  obtain r where r: "find_property i s = Some r"
      "map_option pp_price (find_property i s') = Some (given_or (nonzero (qd_price d)) (pp_price r))"
      "j \<noteq> i \<Longrightarrow> map_option pp_price (find_property j s') = map_option pp_price (find_property j s)"
      "ps_priceHistory s' = ps_priceHistory s @ (case qd_price d of
        Some x \<Rightarrow> if x \<noteq> pp_price r then [price_change_of pct d x u now r] else [] | None \<Rightarrow> [])"
    using update_accepted [OF assms(1), of j] by blast
  have id: "pp_id r = i" using r(1) by (auto dest: tbl_find_Some)
  show ?thesis
  proof (cases "j = i")
    case True
    then have "r = p" using r(1) assms(3) by simp
    then show ?thesis using r(2,4) assms(2,4) True id
      by (auto simp: history_of_property_def price_chain_snoc price_change_of_def Let_def given_or_def nonzero_def
          split: option.splits if_splits)
  next
    case False
    then show ?thesis using r(3,4) assms(3,4) id
      by (auto simp: history_of_property_def price_change_of_def Let_def split: option.splits if_splits)
  qed
qed

text \<open>The price history of a listing accounts for its price: over any accepted updates of any listings that ask for no
  price of zero, the changes recorded since lead from the price it had to the price it has, without a gap.\<close>

theorem price_history_accounts:
  assumes "update_all g pct rs s = Some s'" and "\<And>i d u t. (i, d, u, t) \<in> set rs \<Longrightarrow> qd_price d \<noteq> Some 0"
    and "find_property j s = Some p" and "history_of_property j s = []"
  shows "\<exists>p'. find_property j s' = Some p' \<and> price_chain (pp_price p) (history_of_property j s') (pp_price p')"
proof -
  have "update_all g pct rs s = Some s' \<Longrightarrow> find_property j s = Some q \<Longrightarrow> price_chain a (history_of_property j s) (pp_price q)
    \<Longrightarrow> (\<And>i d u t. (i, d, u, t) \<in> set rs \<Longrightarrow> qd_price d \<noteq> Some 0)
    \<Longrightarrow> \<exists>p'. find_property j s' = Some p' \<and> price_chain a (history_of_property j s') (pp_price p')" for q a
  proof (induction rs arbitrary: s q)
    case (Cons r rs)
    obtain i d u t where r: "r = (i, d, u, t)" by (cases r)
    obtain x s1 where run: "properties_update g pct i d u t s = (Inr x, s1)" "update_all g pct rs s1 = Some s'"
      using Cons.prems(1) by (auto simp: r split: prod.splits sum.splits)
    have "qd_price d \<noteq> Some 0" using Cons.prems(4) [of i d u t] r by simp
    from price_history_step [OF run(1) this Cons.prems(2,3)] obtain q' where
      "find_property j s1 = Some q'" "price_chain a (history_of_property j s1) (pp_price q')" by blast
    with Cons.IH [OF run(2)] Cons.prems(4) show ?case by (metis list.set_intros(2))
  qed auto
  from this [OF assms(1,3)] show ?thesis using assms(2,4) by simp
qed

text \<open>An update that is refused because its address is taken leaves an entry in the price history for a change that
  never took place: the listing keeps its old price.\<close>

theorem refused_update_recorded:
  assumes "find_property i s = Some p" and "qd_price d = Some x" and "x \<noteq> pp_price p" and "names_address d"
    and "q \<in> set (ps_properties s)" and "pp_id q \<noteq> i" and "pp_postal q = new_postal d (pp_postal p)"
  shows "\<exists>h s'. properties_update g pct i d u now s = (Inl (BadRequest ''A property with this address already exists.''), s')
    \<and> ps_properties s' = ps_properties s \<and> history_of_property i s' = history_of_property i s @ [h]
    \<and> ph_oldPrice h = pp_price p \<and> ph_newPrice h = x"
proof -
  have id: "pp_id p = i" using assms(1) by (auto dest: tbl_find_Some)
  have "list_ex (\<lambda>p'. pp_postal p' = new_postal d (pp_postal p) \<and> pp_id p' \<noteq> i) (ps_properties s)"
    using assms(5-7) by (auto simp: list_ex_iff)
  then show ?thesis
    using assms(1-4) id by (simp add: properties_update_def history_of_property_def record_price_history price_change_of_def Let_def)
qed

subsection \<open>Coordinates\<close>

text \<open>A new listing is never geocoded: whatever the geocoder would answer, it is not asked, and the row has the
  coordinates of the request, if any.\<close>

theorem creation_never_geocodes:
  assumes "find_property ''new'' s = None"
  shows "properties_create g newId d owner now s = properties_create g' newId d owner now s
    \<and> ps_geocodeTimestamps (snd (properties_create g newId d owner now s)) = ps_geocodeTimestamps s
    \<and> (case fst (properties_create g newId d owner now s) of
         Inr p \<Rightarrow> pp_latitude p = nd_latitude d \<and> pp_longitude p = nd_longitude d | Inl _ \<Rightarrow> True)"
proof -
  have "attemptGeocode h ''new'' a now s = (None, s)" for h a
    using assms by (simp add: attemptGeocode_def shouldGeocode_def)
  then show ?thesis by (simp add: properties_create_def created_property_def Let_def)
qed

text \<open>A listing that has coordinates keeps them when it moves: an update that changes the address and names no
  coordinates leaves the old ones and does not ask the geocoder.\<close>

theorem moved_listing_keeps_coordinates:
  assumes "properties_update g pct i d u now s = (Inr q, s')" and "find_property i s = Some p" and "has_coordinates p"
    and "qd_latitude d = None" and "qd_longitude d = None"
  shows "find_property i s' = Some q \<and> pp_postal q = new_postal d (pp_postal p)
    \<and> pp_latitude q = pp_latitude p \<and> pp_longitude q = pp_longitude p \<and> ps_geocodeTimestamps s' = ps_geocodeTimestamps s"
proof -
  let ?s1 = "record_price_change pct d u now p s"
  obtain lat lng s2 where c: "update_coordinates g i d p now ?s1 = ((lat, lng), s2)"
    and s': "s' = update_property i now (apply_update d lat lng) s2" "q = the (find_property i s')"
    using update_run [OF assms(1,2)] by blast
  have "s2 = ?s1 \<and> ((lat, lng) = (None, None) \<or> (lat, lng) = (pp_latitude p, pp_longitude p))"
    using c assms(3-5) by (auto simp: update_coordinates_def Let_def split: if_splits)
  then show ?thesis
    using assms(2) s'(2) by (auto simp: s'(1) find_update_property apply_update_def split: option.split)
qed

subsection \<open>Examples\<close>

definition example_postal :: "string \<Rightarrow> postal" where
  "example_postal a = \<lparr>ad_address = a, ad_city = ''Oslo'', ad_state = ''Oslo'', ad_zipCode = ''0150'', ad_country = ''NO''\<rparr>"

definition example_listing :: "string \<Rightarrow> string \<Rightarrow> property_status \<Rightarrow> property" where
  "example_listing i a st =
     \<lparr>pp_id = i, pp_title = ''Flat'', pp_postal = example_postal a, pp_price = 100, pp_propertyType = ''APARTMENT'',
      pp_bedrooms = Some 2, pp_bathrooms = None, pp_squareFeet = None, pp_lotSize = None, pp_yearBuilt = None,
      pp_status = st, pp_deleted = False, pp_deletedAt = None, pp_deletedById = None, pp_ownerId = ''u1'',
      pp_neighborhoodId = None, pp_latitude = Some 60, pp_longitude = Some 11, pp_category = None, pp_tags = [],
      pp_hoaMonthlyFee = None, pp_expiryDate = None, pp_regeocodingFailedAt = None, pp_createdAt = 0, pp_updatedAt = 0,
      pp_other = Map.empty\<rparr>"

definition example_listings :: "property list \<Rightarrow> property_state" where
  "example_listings ps =
     \<lparr>ps_properties = ps, ps_priceHistory = [], ps_agents = [], ps_amenities = [], ps_neighborhoods = [],
      ps_geocodeTimestamps = [], ps_notices = []\<rparr>"

definition two_listings :: property_state where
  "two_listings = example_listings [example_listing ''p1'' ''Storgata 1'' ACTIVE, example_listing ''p2'' ''Storgata 2'' ACTIVE]"

definition no_change :: update_property_dto where
  "no_change =
     \<lparr>qd_title = None, qd_address = None, qd_city = None, qd_state = None, qd_zipCode = None, qd_country = None,
      qd_price = None, qd_propertyType = None, qd_bedrooms = None, qd_bathrooms = None, qd_squareFeet = None,
      qd_lotSize = None, qd_yearBuilt = None, qd_status = None, qd_category = None, qd_tags = None, qd_latitude = None,
      qd_longitude = None, qd_hoaMonthlyFee = None, qd_expiryDate = None, qd_other = Map.empty\<rparr>"

lemmas example_simps = two_listings_def example_listings_def example_listing_def example_postal_def no_change_def tbl_find_def
  properties_update_def record_price_change_def names_address_def some_text_def new_postal_def given_or_def
  update_coordinates_def hasAddressChanged_def has_coordinates_def nonzero_def

text \<open>An update that moves the first listing, and one that asks for the price 120.\<close>

definition move_to :: "string \<Rightarrow> update_property_dto" where
  "move_to a = no_change\<lparr>qd_address := Some a\<rparr>"

definition price_to :: "rat \<Rightarrow> update_property_dto" where
  "price_to x = no_change\<lparr>qd_price := Some x\<rparr>"

lemma example_updates:
  "\<exists>q s'. properties_update g pct ''p1'' (move_to ''Storgata 3'') u now two_listings = (Inr q, s')"
  "\<exists>q s'. properties_update g pct ''p1'' (price_to 120) u now two_listings = (Inr q, s')"
  by (simp_all add: move_to_def price_to_def example_simps Let_def split: prod.split)

text \<open>A provider that finds no place, and the percentage of a change.\<close>

definition no_answer :: geocoder where
  "no_answer = (\<lambda>_. None)"

definition percent_of :: "rat \<Rightarrow> rat \<Rightarrow> rat" where
  "percent_of old new = (new - old) / old * 100"

theorem addresses_stay_unique_witness:
  "distinct (map pp_postal (ps_properties (snd (properties_update no_answer percent_of ''p1'' (move_to ''Storgata 3'') None 5 two_listings))))"
proof (rule addresses_stay_unique)
  show "listing_step\<^sup>*\<^sup>* two_listings (snd (properties_update no_answer percent_of ''p1'' (move_to ''Storgata 3'') None 5 two_listings))"
    by (rule r_into_rtranclp, rule listing_step.update) (simp add: parts_nonempty_def move_to_def no_change_def)
qed (simp_all add: example_simps)

theorem price_history_accounts_witness:
  "\<exists>s' p'. update_all no_answer percent_of [(''p1'', price_to 120, None, 5)] two_listings = Some s' \<and> find_property ''p1'' s' = Some p'
    \<and> price_chain 100 (history_of_property ''p1'' s') (pp_price p')"
proof -
  obtain q s' where "properties_update no_answer percent_of ''p1'' (price_to 120) None 5 two_listings = (Inr q, s')"
    using example_updates(2) by blast
  then have run: "update_all no_answer percent_of [(''p1'', price_to 120, None, 5)] two_listings = Some s'" by simp
  have "qd_price d \<noteq> Some 0" if "(i, d, u, t) \<in> set [(''p1'', price_to 120, None, 5)]" for i d u t
    using that by (simp add: price_to_def)
  moreover have "find_property ''p1'' two_listings = Some (example_listing ''p1'' ''Storgata 1'' ACTIVE)"
    "history_of_property ''p1'' two_listings = []" "pp_price (example_listing ''p1'' ''Storgata 1'' ACTIVE) = 100"
    by (simp_all add: example_simps history_of_property_def)
  ultimately show ?thesis using price_history_accounts [OF run] run by fastforce
qed

theorem refused_update_recorded_witness:
  "\<exists>h s'. properties_update no_answer percent_of ''p1'' ((price_to 120)\<lparr>qd_address := Some ''Storgata 2''\<rparr>) None 5 two_listings
      = (Inl (BadRequest ''A property with this address already exists.''), s')
    \<and> history_of_property ''p1'' s' = history_of_property ''p1'' two_listings @ [h]"
proof -
  let ?p = "example_listing ''p1'' ''Storgata 1'' ACTIVE" and ?q = "example_listing ''p2'' ''Storgata 2'' ACTIVE"
  let ?d = "(price_to 120)\<lparr>qd_address := Some ''Storgata 2''\<rparr>"
  have hyps: "find_property ''p1'' two_listings = Some ?p" "qd_price ?d = Some 120" "120 \<noteq> pp_price ?p" "names_address ?d"
    "?q \<in> set (ps_properties two_listings)" "pp_id ?q \<noteq> ''p1''" "pp_postal ?q = new_postal ?d (pp_postal ?p)"
    by (simp_all add: price_to_def example_simps)
  from refused_update_recorded [OF hyps, of no_answer percent_of None 5]
  show ?thesis by blast
qed

theorem creation_never_geocodes_witness:
  "ps_geocodeTimestamps (snd (properties_create no_answer ''p3'' d ''u1'' 5 two_listings)) = []"
proof -
  have "find_property ''new'' two_listings = None" by (simp add: example_simps)
  from creation_never_geocodes [OF this, of no_answer "''p3''" d "''u1''" 5 no_answer] show ?thesis by (simp add: two_listings_def example_listings_def)
qed

theorem moved_listing_keeps_coordinates_witness:
  "\<exists>q s'. properties_update no_answer percent_of ''p1'' (move_to ''Storgata 3'') None 5 two_listings = (Inr q, s')
    \<and> ad_address (pp_postal q) = ''Storgata 3'' \<and> pp_latitude q = Some 60"
proof -
  obtain q s' where run: "properties_update no_answer percent_of ''p1'' (move_to ''Storgata 3'') None 5 two_listings = (Inr q, s')"
    using example_updates(1) by blast
  have "find_property ''p1'' two_listings = Some (example_listing ''p1'' ''Storgata 1'' ACTIVE)"
    "has_coordinates (example_listing ''p1'' ''Storgata 1'' ACTIVE)" by (simp_all add: example_simps)
  from moved_listing_keeps_coordinates [OF run this] run show ?thesis
    by (simp add: move_to_def new_postal_def given_or_def no_change_def example_listing_def)
qed

end
