(* ===== verification/Property_Rules.thy ===== *)
theory Property_Rules
  imports Property_Life
begin

text \<open>
  What the operations on listings guarantee, continued: references between the tables, the nightly expiry job and its
  notices, and searches.
\<close>

subsection \<open>References\<close>

inductive property_step :: "property_state \<Rightarrow> property_state \<Rightarrow> bool" where
  listing: "listing_step s s' \<Longrightarrow> property_step s s'"
| assign: "property_step s (snd (assignAgent role_of i a rate phone email u role s))"
| assignment: "property_step s (snd (updateAgentAssignment i a rate phone email u role s))"
| unassign: "property_step s (snd (removeAgentAssignment i a u role s))"
| amenity: "am_new \<notin> am_id ` set (ps_amenities s) \<Longrightarrow> property_step s (snd (addAmenity am_new i n ty ds av now s))"
| amenity_change: "property_step s (snd (updateAmenity i am n' ty' ds av' s))"
| amenity_gone: "property_step s (snd (removeAmenity i am s))"

text \<open>Every row that belongs to a listing names one that exists, and the unique columns are unique.\<close>

definition references_wf :: "property_state \<Rightarrow> bool" where
  "references_wf s \<longleftrightarrow>
     (let ids = map pp_id (ps_properties s)
      in distinct ids \<and> distinct (map am_id (ps_amenities s))
       \<and> distinct (map (\<lambda>a. (aa_propertyId a, aa_agentId a)) (ps_agents s))
       \<and> list_all (\<lambda>h. ph_propertyId h \<in> set ids) (ps_priceHistory s)
       \<and> list_all (\<lambda>a. aa_propertyId a \<in> set ids) (ps_agents s)
       \<and> list_all (\<lambda>a. am_propertyId a \<in> set ids) (ps_amenities s))"

text \<open>A change that leaves the identifiers and the rows that refer to them.\<close>

definition same_links :: "property_state \<Rightarrow> property_state \<Rightarrow> bool" where
  "same_links s s' \<longleftrightarrow> map pp_id (ps_properties s') = map pp_id (ps_properties s) \<and> ps_priceHistory s' = ps_priceHistory s
     \<and> ps_agents s' = ps_agents s \<and> ps_amenities s' = ps_amenities s"

lemma same_links_refl [simp]: "same_links s s"
  by (simp add: same_links_def)

lemma same_links_trans [trans]: "same_links s t \<Longrightarrow> same_links t u \<Longrightarrow> same_links s u"
  by (simp add: same_links_def)

lemma wf_same_links: "same_links s s' \<Longrightarrow> references_wf s \<Longrightarrow> references_wf s'"
  by (simp add: same_links_def references_wf_def)

lemma links_update: "(\<And>p. pp_id (f p) = pp_id p) \<Longrightarrow> same_links s (update_property i now f s)"
  by (simp add: same_links_def update_property_def tbl_update_def)

lemma links_status: "same_links s (snd (set_status_where sel st now s))"
  by (simp add: same_links_def set_status_where_def tbl_update_many_def)

lemma links_geocode: "same_links s (snd (attemptGeocode g i a now s))"
  by (simp add: attemptGeocode_def Let_def checkGeocodeRateLimit_def markGeocodingFailed_def same_links_def update_property_def
      tbl_update_def split: option.split)

lemma links_coordinates: "same_links s (snd (update_coordinates g i d p now s))"
  using links_geocode [of s g i "new_postal d (pp_postal p)" now]
  by (auto simp: update_coordinates_def Let_def split: option.split prod.split)

lemma wf_update:
  assumes "references_wf s"
  shows "references_wf (snd (properties_update g pct i d u now s))"
proof (cases "find_property i s")
  case (Some p)
  let ?s1 = "record_price_change pct d u now p s"
  have "p \<in> set (ps_properties s)" using Some by (auto dest: tbl_find_Some)
  then have s1: "references_wf ?s1" using assms
    by (auto simp: references_wf_def record_price_change_def price_change_of_def tbl_create_def Let_def split: option.split)
  show ?thesis
  proof (cases "names_address d \<and> list_ex (\<lambda>q. pp_postal q = new_postal d (pp_postal p) \<and> pp_id q \<noteq> i) (ps_properties s)")
    case True
    then show ?thesis using Some s1 by (simp add: properties_update_def)
  next
    case False
    obtain lat lng s2 where c: "update_coordinates g i d p now ?s1 = ((lat, lng), s2)" by (metis surj_pair)
    have "same_links ?s1 (update_property i now (apply_update d lat lng) s2)"
      using links_coordinates [of ?s1 g i d p now] c links_update [of "apply_update d lat lng" s2 i now] same_links_trans by simp
    then show ?thesis using Some False c wf_same_links [OF _ s1] by (auto simp: properties_update_def Let_def)
  qed
qed (use assms in \<open>simp add: properties_update_def\<close>)

lemma wf_create:
  assumes "references_wf s" and "find_property newId s = None"
  shows "references_wf (snd (properties_create g newId d owner now s))"
proof (cases "list_ex (same_address d) (ps_properties s)")
  case False
  have add: "references_wf (t\<lparr>ps_properties := tbl_create p (ps_properties t)\<rparr>)"
    if "same_links s t" "pp_id p = newId" for t p
  proof -
    have "references_wf t" "newId \<notin> set (map pp_id (ps_properties t))"
      using that assms wf_same_links by (auto simp: tbl_find_None same_links_def)
    then show ?thesis using that(2) by (auto simp: references_wf_def Let_def tbl_create_def list_all_iff)
  qed
  have links: "same_links s (snd (if c then attemptGeocode g i a now s else (None, s)))" for c i a
    by (simp add: links_geocode)
  show ?thesis unfolding properties_create_def Let_def
    using False by (simp only: if_False split_beta snd_conv) (intro add links, simp add: created_property_def)
qed (use assms in \<open>simp add: properties_create_def\<close>)

lemma links_expiry: "same_links s (handlePropertyExpiry now s)"
proof -
  have w: "same_links t (sendExpiryWarningNotifications now t)" for t
    by (simp add: sendExpiryWarningNotifications_def same_links_def)
  have n: "same_links t (sendExpiredNotifications now t)" for t
    by (simp add: sendExpiredNotifications_def same_links_def)
  have a: "same_links t (archiveExpiredPropertiesPastGracePeriod now t)" for t
    by (simp add: archiveExpiredPropertiesPastGracePeriod_def Let_def set_status_where_def same_links_def tbl_update_many_def)
  have e: "same_links t (snd (expireProperties now t))" for t by (simp add: expireProperties_def links_status)
  have "same_links s (snd (expireProperties now (sendExpiryWarningNotifications now s)))" using w e same_links_trans by blast
  then show ?thesis unfolding handlePropertyExpiry_def using a n same_links_trans by (simp add: split_beta) blast
qed

lemma wf_bulk_delete:
  assumes "references_wf s"
  shows "references_wf (snd (bulkDeleteProperties deletable is s))"
proof -
  have rows: "references_wf (s\<lparr>ps_properties := tbl_delete_many (\<lambda>p. pp_id p \<in> X) (ps_properties s),
      ps_priceHistory := tbl_delete_many (\<lambda>h. ph_propertyId h \<in> X) (ps_priceHistory s),
      ps_agents := tbl_delete_many (\<lambda>a. aa_propertyId a \<in> X) (ps_agents s),
      ps_amenities := tbl_delete_many (\<lambda>a. am_propertyId a \<in> X) (ps_amenities s)\<rparr>)" for X
    using assms by (auto simp: references_wf_def Let_def list_all_iff tbl_delete_many_def distinct_map_filter)
  show ?thesis using assms rows by (simp add: bulkDeleteProperties_def Let_def)
qed

lemma wf_listing_step: "listing_step s s' \<Longrightarrow> references_wf s \<Longrightarrow> references_wf s'"
proof (induction rule: listing_step.induct)
  case (bulk_status s "is" st now)
  then show ?case using wf_same_links [OF links_status] by (simp add: bulkUpdatePropertyStatus_def split_beta)
next
  case (expiry s now)
  then show ?case using wf_same_links [OF links_expiry] by blast
qed (auto simp: wf_create wf_update wf_bulk_delete properties_remove_def restore_def transitionStatus_def renewProperty_def Let_def
    intro: wf_same_links [OF links_update] split: option.split)

lemma links_property:
  assumes "references_wf s"
  shows "find_property i s = Some p \<Longrightarrow> i \<in> pp_id ` set (ps_properties s)"
  using assms by (auto dest: tbl_find_Some)

lemma wf_property_step: "property_step s s' \<Longrightarrow> references_wf s \<Longrightarrow> references_wf s'"
proof (induction rule: property_step.induct)
  case (listing s s')
  then show ?case by (rule wf_listing_step)
next
  case (assign s role_of i a rate phone email u role)
  then show ?case using links_property [OF assign, of i]
    by (auto simp: assignAgent_def references_wf_def Let_def tbl_create_def list_ex_iff is_assignment_def split: option.split)
next
  case (assignment s i a rate phone email u role)
  then show ?case
    by (auto simp: updateAgentAssignment_def references_wf_def Let_def tbl_update_many_def list_all_iff o_def if_distrib
        cong: if_cong split: option.split)
next
  case (amenity am_new s i n ty ds av now)
  then show ?case
    by (auto simp: addAmenity_def references_wf_def Let_def tbl_create_def tbl_find_None)
next
  case (amenity_change s i am n' ty' ds av')
  then show ?case
    by (auto simp: updateAmenity_def references_wf_def Let_def tbl_update_def list_all_iff o_def if_distrib
        cong: if_cong split: option.split)
qed (auto simp: removeAgentAssignment_def removeAmenity_def references_wf_def Let_def list_all_iff tbl_delete_many_def
    distinct_map_filter split: option.split)

text \<open>C13: The rows that belong to a listing always name one that exists: over all operations on listings, agents and
  amenities, expiry and deletion, no price change, assignment or amenity is left without its listing, no agent is assigned to a
  listing twice, and identifiers stay unique.\<close>

theorem references_stay_valid:
  assumes "property_step\<^sup>*\<^sup>* s s'" and "references_wf s"
  shows "references_wf s'"
  using assms by (induction rule: rtranclp_induct) (simp_all add: wf_property_step)

theorem references_stay_valid_witness:
  "references_wf (snd (addAmenity ''m1'' ''p1'' ''Pool'' ''POOL'' None None 5 two_listings))"
proof (rule references_stay_valid)
  show "property_step\<^sup>*\<^sup>* two_listings (snd (addAmenity ''m1'' ''p1'' ''Pool'' ''POOL'' None None 5 two_listings))"
    by (rule r_into_rtranclp, rule property_step.amenity) (simp add: two_listings_def example_listings_def)
qed (simp add: references_wf_def two_listings_def example_listings_def example_listing_def)

subsection \<open>The nightly job\<close>

text \<open>What one run does to a listing, and the day of the calendar.\<close>

definition past_expiry :: "time \<Rightarrow> property \<Rightarrow> bool" where
  "past_expiry now p \<longleftrightarrow> (case pp_expiryDate p of Some e \<Rightarrow> e < now | None \<Rightarrow> False)"

definition grace_over :: "time \<Rightarrow> property \<Rightarrow> bool" where
  "grace_over now p \<longleftrightarrow> pp_updatedAt p + 30 * ms_day < now"

definition nightly_status :: "time \<Rightarrow> property \<Rightarrow> property_status" where
  "nightly_status now p =
     (if past_expiry now p \<and> pp_status p \<notin> {SOLD, RENTED, ARCHIVED, EXPIRED} then EXPIRED
      else if pp_status p = EXPIRED \<and> grace_over now p then ARCHIVED else pp_status p)"

definition nightly :: "time \<Rightarrow> property \<Rightarrow> property" where
  "nightly now p =
     (if nightly_status now p = pp_status p then p else p\<lparr>pp_status := nightly_status now p, pp_updatedAt := now\<rparr>)"

lemma warning_frame [simp]: "ps_properties (sendExpiryWarningNotifications now s) = ps_properties s"
  by (simp add: sendExpiryWarningNotifications_def)

lemma expired_frame [simp]: "ps_properties (sendExpiredNotifications now s) = ps_properties s"
  by (simp add: sendExpiredNotifications_def)

definition expire_row :: "time \<Rightarrow> property \<Rightarrow> property" where
  "expire_row now p = (if past_expiry now p \<and> can_expire p then p\<lparr>pp_status := EXPIRED, pp_updatedAt := now\<rparr> else p)"

definition archive_row :: "time \<Rightarrow> property \<Rightarrow> property" where
  "archive_row now p =
     (if pp_status p = EXPIRED \<and> grace_over now p then p\<lparr>pp_status := ARCHIVED, pp_updatedAt := now\<rparr> else p)"

lemma expire_rows: "ps_properties (snd (expireProperties now s)) = map (expire_row now) (ps_properties s)"
  unfolding expireProperties_def set_status_where_def tbl_update_many_def expire_row_def past_expiry_def by simp

lemma grace_cutoff: "pp_updatedAt p < now - GRACE_PERIOD_DAYS * ms_day \<longleftrightarrow> grace_over now p"
  unfolding GRACE_PERIOD_DAYS_def grace_over_def by linarith

lemma archive_rows: "ps_properties (archiveExpiredPropertiesPastGracePeriod now s) = map (archive_row now) (ps_properties s)"
  unfolding archiveExpiredPropertiesPastGracePeriod_def Let_def set_status_where_def grace_cutoff
  by (simp add: tbl_update_many_def archive_row_def)

lemma archive_notices:
  "ps_notices (archiveExpiredPropertiesPastGracePeriod now s) = ps_notices s @
     (if list_ex (\<lambda>p. pp_status p = EXPIRED \<and> grace_over now p) (ps_properties s)
      then map (\<lambda>p. Listing_archived (pp_ownerId p) (pp_id p))
        (filter (\<lambda>p. pp_status p = ARCHIVED \<and> grace_over now p) (map (archive_row now) (ps_properties s))) else [])"
  unfolding archiveExpiredPropertiesPastGracePeriod_def Let_def set_status_where_def grace_cutoff
  by (auto simp: tbl_update_many_def archive_row_def [abs_def] tbl_count_zero_iff list_ex_iff)

lemma archive_after_expire:
  "ps_properties (handlePropertyExpiry now s) =
     ps_properties (archiveExpiredPropertiesPastGracePeriod now (snd (expireProperties now s)))"
  by (simp add: handlePropertyExpiry_def split_beta archive_rows expire_rows)

lemma nightly_steps: "archive_row now (expire_row now p) = nightly now p"
proof (cases "past_expiry now p \<and> can_expire p")
  case True
  then have "expire_row now p = p\<lparr>pp_status := EXPIRED, pp_updatedAt := now\<rparr>" "nightly_status now p = EXPIRED" "pp_status p \<noteq> EXPIRED"
    by (simp_all add: expire_row_def nightly_status_def can_expire_def)
  then show ?thesis by (simp add: archive_row_def nightly_def grace_over_def)
next
  case False
  have same: "expire_row now p = p" unfolding expire_row_def by (rule if_not_P [OF False])
  have st: "nightly_status now p = (if pp_status p = EXPIRED \<and> grace_over now p then ARCHIVED else pp_status p)"
    unfolding nightly_status_def by (rule if_not_P [OF False [unfolded can_expire_def]])
  show ?thesis unfolding same archive_row_def nightly_def st
    by (cases "pp_status p = EXPIRED \<and> grace_over now p") (simp_all only: if_True if_False property_status.distinct simp_thms)
qed

lemma archived_before: "pp_status (archive_row now (expire_row now p)) = ARCHIVED \<and> grace_over now (archive_row now (expire_row now p))
    \<longleftrightarrow> pp_status p = ARCHIVED \<and> grace_over now p"
  by (auto simp: archive_row_def expire_row_def can_expire_def grace_over_def)

lemma archived_row_same:
  "pp_status p = ARCHIVED \<Longrightarrow> archive_row now (expire_row now p) = p"
  by (simp add: archive_row_def expire_row_def can_expire_def)

lemma archived_filter:
  "filter (\<lambda>p. pp_status p = ARCHIVED \<and> grace_over now p) (map (archive_row now) (map (expire_row now) ps))
    = filter (\<lambda>p. pp_status p = ARCHIVED \<and> grace_over now p) ps"
  by (induction ps) (auto simp: archived_before archived_row_same)

text \<open>C20: One run of the nightly job is one pass over the listings: a listing whose date has passed and that is not sold,
  rented, archived or expired becomes expired, one that has been expired and untouched for more than thirty days is archived,
  and every other row stays as it is, one that expires in this run included.\<close>

theorem nightly_run_is_one_pass: "ps_properties (handlePropertyExpiry now s) = map (nightly now) (ps_properties s)"
  unfolding archive_after_expire archive_rows expire_rows map_map o_def nightly_steps ..

text \<open>Warnings go by calendar days: a run warns the owner of a listing that can expire exactly when the day of its date is
  seven, three or one days after the day of the run, and the notice says which.\<close>

theorem warnings_by_calendar_day:
  "set (ps_notices (sendExpiryWarningNotifications now s)) = set (ps_notices s) \<union>
     {Expiry_warning (pp_ownerId p) (pp_id p) n | p e n. p \<in> set (ps_properties s) \<and> pp_expiryDate p = Some e \<and> can_expire p
        \<and> n \<in> {1, 3, 7} \<and> e div ms_day = now div ms_day + n}"
proof -
  have day: "day_start (now + n * ms_day) \<le> e \<and> e < day_start (now + n * ms_day) + ms_day \<longleftrightarrow> e div ms_day = now div ms_day + n" for n e
    unfolding day_start_def ms_day_def by (simp, linarith)
  show ?thesis
    unfolding sendExpiryWarningNotifications_def EXPIRY_WARNING_DAYS_def day by (auto split: option.splits)
qed

definition archive_notice :: "listing_notice \<Rightarrow> bool" where
  "archive_notice n \<longleftrightarrow> (case n of Listing_archived _ _ \<Rightarrow> True | _ \<Rightarrow> False)"

lemma archive_notice_map [simp]:
  "filter archive_notice (map (\<lambda>p. Listing_archived (f p) (g p)) xs) = map (\<lambda>p. Listing_archived (f p) (g p)) xs"
  by (induction xs) (simp_all add: archive_notice_def)

text \<open>The owners of the listings a run archives are never told: when a run archives anything, the notices of archiving go
  to the owners of all listings that were archived and untouched for thirty days before the run, and to no one else.\<close>

theorem archived_owners_not_told:
  "filter archive_notice (ps_notices (handlePropertyExpiry now s)) = filter archive_notice (ps_notices s) @
     (if list_ex (\<lambda>p. pp_status p = EXPIRED \<and> grace_over now p) (ps_properties s)
      then map (\<lambda>p. Listing_archived (pp_ownerId p) (pp_id p))
        (filter (\<lambda>p. pp_status p = ARCHIVED \<and> grace_over now p) (ps_properties s)) else [])"
proof -
  have w: "filter archive_notice (ps_notices (sendExpiryWarningNotifications now s)) = filter archive_notice (ps_notices s)"
    by (simp add: sendExpiryWarningNotifications_def filter_concat archive_notice_def o_def)
  have e: "filter archive_notice (ps_notices (sendExpiredNotifications now t)) = filter archive_notice (ps_notices t)" for t
    by (simp add: sendExpiredNotifications_def archive_notice_def filter_map o_def)
  define t where "t = (let (n, s1) = expireProperties now (sendExpiryWarningNotifications now s)
    in if n = 0 then s1 else sendExpiredNotifications now s1)"
  have rows: "ps_properties t = ps_properties (snd (expireProperties now s))"
    by (simp add: t_def split_beta expire_rows)
  have before: "filter archive_notice (ps_notices t) = filter archive_notice (ps_notices s)"
    by (simp add: t_def split_beta e) (simp add: expireProperties_def set_status_where_def w)
  have "handlePropertyExpiry now s = archiveExpiredPropertiesPastGracePeriod now t"
    by (simp add: handlePropertyExpiry_def t_def split_beta)
  moreover have "list_ex (\<lambda>p. pp_status p = EXPIRED \<and> grace_over now p) (ps_properties t)
      \<longleftrightarrow> list_ex (\<lambda>p. pp_status p = EXPIRED \<and> grace_over now p) (ps_properties s)"
    by (auto simp: rows expire_rows list_ex_iff expire_row_def grace_over_def can_expire_def)
  ultimately show ?thesis
    by (simp add: before archive_notices rows expire_rows archived_filter del: map_map filter_map)
qed

subsection \<open>Searches\<close>

text \<open>A search is answered only when it gives a point together with a radius or a bound of a box: one that filters by
  price, city or any other column alone is refused.\<close>

theorem search_needs_point:
  "(\<exists>pg. runSearch lngDelta order d s = Inr pg) \<longleftrightarrow>
     sd_lat d \<noteq> None \<and> sd_lng d \<noteq> None \<and> (sd_radiusKm d \<noteq> None \<or> hasBoundingBox d)"
  by (auto simp: runSearch_def buildSearchWhereClause_def Let_def split: option.split)

text \<open>The listings a search asks for.\<close>

definition search_result :: "(rat \<Rightarrow> rat \<Rightarrow> rat) \<Rightarrow> ordering \<Rightarrow> search_dto \<Rightarrow> property_state \<Rightarrow> (property \<times> int option) list" where
  "search_result lngDelta order d s =
     filter (\<lambda>r. matchesTrustScoreRange (snd r) d)
       (map (annotateTrustScore s)
         (order (filter (\<lambda>p. column_filters d s p \<and> geo_filters lngDelta d (the (sd_lat d)) (the (sd_lng d)) p) (ps_properties s))))"

lemma buildPage_simps [simp]:
  "sp_items (buildPage xs n p l) = xs" "sp_total (buildPage xs n p l) = n" "sp_limit (buildPage xs n p l) = l"
  "0 < l \<Longrightarrow> sp_totalPages (buildPage xs n p l) = ceil_div (int n) (int l)"
  by (simp_all add: buildPage_def)

lemma positive_or_pos: "0 < dflt \<Longrightarrow> 0 < positive_or v dflt"
  by (simp add: positive_or_def split: option.split)

text \<open>The page number is no condition.\<close>

lemma page_no_condition [simp]:
  "column_filters (d\<lparr>sd_page := n\<rparr>) s p = column_filters d s p" "geo_filters L (d\<lparr>sd_page := n\<rparr>) lat lng p = geo_filters L d lat lng p"
  "matchesTrustScoreRange x (d\<lparr>sd_page := n\<rparr>) = matchesTrustScoreRange x d"
  by (simp_all add: column_filters_def geo_filters_def matchesTrustScoreRange_def cong: option.case_cong)

text \<open>A page that is answered is the part of the result its number says.\<close>

lemma search_page_of:
  assumes "runSearch lngDelta order d s = Inr pg" and "\<And>xs. mset (order xs) = mset xs"
  shows "sp_items pg = tbl_page ((positive_or (sd_page d) 1 - 1) * positive_or (sd_limit d) 20) (positive_or (sd_limit d) 20)
      (search_result lngDelta order d s)
    \<and> sp_total pg = length (search_result lngDelta order d s)
    \<and> sp_totalPages pg = ceil_div (int (length (search_result lngDelta order d s))) (int (positive_or (sd_limit d) 20))"
proof -
  obtain lat lng where pt: "sd_lat d = Some lat" "sd_lng d = Some lng"
    "buildSearchWhereClause lngDelta d = Inr (\<lambda>s p. column_filters d s p \<and> geo_filters lngDelta d lat lng p)"
    using assms(1) by (auto simp: runSearch_def buildSearchWhereClause_def split: option.splits if_splits)
  have pos: "0 < positive_or (sd_limit d) 20" by (rule positive_or_pos) simp
  show ?thesis
  proof (cases "hasTrustScoreFilter d")
    case True
    then show ?thesis using assms(1) pt pos
      by (auto simp: runSearch_def Let_def searchByTrustScore_def search_result_def)
  next
    case False
    then have all: "matchesTrustScoreRange x d" for x
      by (simp add: hasTrustScoreFilter_def matchesTrustScoreRange_def)
    have len: "length (order xs) = length xs" for xs using assms(2) mset_eq_length by blast
    show ?thesis using False assms(1) pt pos
      by (auto simp: runSearch_def Let_def searchByPaging_def search_result_def all len tbl_page_def take_map drop_map)
  qed
qed


definition example_search :: search_dto where
  "example_search = \<lparr>sd_minPrice = Some 50, sd_maxPrice = None, sd_city = None, sd_state = None, sd_zipCode = None,
     sd_country = None, sd_location = None, sd_propertyType = None, sd_bedrooms = None, sd_minBedrooms = None,
     sd_maxBedrooms = None, sd_bathrooms = None, sd_minBathrooms = None, sd_maxBathrooms = None, sd_minYearBuilt = None,
     sd_maxYearBuilt = None, sd_category = None, sd_tag = None, sd_amenityType = None, sd_lat = Some 60, sd_lng = Some 11,
     sd_radiusKm = Some 10, sd_minLat = None, sd_maxLat = None, sd_minLng = None, sd_maxLng = None,
     sd_minNeighborhoodTrustScore = None, sd_maxNeighborhoodTrustScore = None, sd_page = None, sd_limit = Some 1\<rparr>"


end
