(* ===== verification/File_Content.thy ===== *)
theory File_Content
  imports Prelude
begin

text \<open>
  Checks on the content and the names of uploaded files: \<open>src/common/security/magic-bytes.ts\<close> and
  \<open>src/documents/document-upload.service.ts\<close>.

  A buffer is the list of its byte values.  The threat patterns are matched on the bytes: they start with an ASCII
  character, match ASCII characters apart from white space, and the white space outside ASCII has its UTF-8 forms, so
  decoding first makes no difference.
\<close>

type_synonym bytes = "nat list"

definition bytes_of :: "string \<Rightarrow> bytes" where
  "bytes_of = map of_char"

subsection \<open>Signatures\<close>

record magic_part =
  mp_offset :: nat
  mp_bytes :: bytes

definition sig_at :: "nat \<Rightarrow> bytes \<Rightarrow> magic_part" where
  "sig_at off bs = \<lparr>mp_offset = off, mp_bytes = bs\<rparr>"

definition SIGNATURES :: "string \<Rightarrow> magic_part list list option" where
  "SIGNATURES =
     map_of [(''application/pdf'', [[sig_at 0 [0x25, 0x50, 0x44, 0x46]]]),
      (''image/jpeg'', [[sig_at 0 [0xff, 0xd8, 0xff]]]),
      (''image/png'', [[sig_at 0 [0x89, 0x50, 0x4e, 0x47, 0x0d, 0x0a, 0x1a, 0x0a]]]),
      (''image/gif'', [[sig_at 0 [0x47, 0x49, 0x46, 0x38, 0x37, 0x61]], [sig_at 0 [0x47, 0x49, 0x46, 0x38, 0x39, 0x61]]]),
      (''image/webp'', [[sig_at 0 [0x52, 0x49, 0x46, 0x46], sig_at 8 [0x57, 0x45, 0x42, 0x50]]]),
      (''image/avif'', [[sig_at 4 [0x66, 0x74, 0x79, 0x70], sig_at 8 [0x61, 0x76, 0x69, 0x66]],
                        [sig_at 4 [0x66, 0x74, 0x79, 0x70], sig_at 8 [0x61, 0x76, 0x69, 0x73]]]),
      (''application/msword'', [[sig_at 0 [0xd0, 0xcf, 0x11, 0xe0, 0xa1, 0xb1, 0x1a, 0xe1]]]),
      (''application/vnd.openxmlformats-officedocument.wordprocessingml.document'', [[sig_at 0 [0x50, 0x4b, 0x03, 0x04]]])]"

definition hasKnownSignature :: "string \<Rightarrow> bool" where
  "hasKnownSignature mimeType \<longleftrightarrow> SIGNATURES mimeType \<noteq> None"

fun search_at :: "(bytes \<Rightarrow> bool) \<Rightarrow> bytes \<Rightarrow> bool" where
  "search_at test [] = test []"
| "search_at test (x # b) = (test (x # b) \<or> search_at test b)"

definition bytes_at :: "bytes \<Rightarrow> bytes \<Rightarrow> bool" where
  "bytes_at p b \<longleftrightarrow> take (length p) b = p"

definition hasPdfEof :: "bytes \<Rightarrow> nat \<Rightarrow> bool" where
  "hasPdfEof buffer lookback =
     (let start = length buffer - lookback;
          tail = (if lookback < length buffer then drop start buffer else buffer)
      in search_at (bytes_at (bytes_of ''%%EOF'')) tail)"

definition part_matches :: "bytes \<Rightarrow> magic_part \<Rightarrow> bool" where
  "part_matches buffer part =
     (if length buffer < mp_offset part + length (mp_bytes part) then False
      else list_all (\<lambda>i. buffer ! (mp_offset part + i) = mp_bytes part ! i) [0..<length (mp_bytes part)])"

definition matchesMagicBytes :: "bytes \<Rightarrow> string \<Rightarrow> bool" where
  "matchesMagicBytes buffer mimeType =
     (if buffer = [] then False
      else case SIGNATURES mimeType of
        None \<Rightarrow> True
      | Some variants \<Rightarrow>
          if list_ex (list_all (part_matches buffer)) variants
          then (if mimeType = ''application/pdf'' \<and> \<not> hasPdfEof buffer 1024 then False else True)
          else False)"

subsection \<open>The upload service\<close>

definition ALLOWED_MIME_TYPES :: "string list" where
  "ALLOWED_MIME_TYPES = [''application/pdf'', ''image/jpeg'', ''image/png'', ''image/webp'', ''image/avif'', ''application/msword'',
     ''application/vnd.openxmlformats-officedocument.wordprocessingml.document'']"

definition MIME_SIZE_LIMITS :: "string \<Rightarrow> int option" where
  "MIME_SIZE_LIMITS =
     map_of [(''image/jpeg'', 10 * 1024 * 1024), (''image/png'', 10 * 1024 * 1024), (''image/webp'', 10 * 1024 * 1024),
      (''image/avif'', 10 * 1024 * 1024), (''application/pdf'', 25 * 1024 * 1024), (''application/msword'', 15 * 1024 * 1024),
      (''application/vnd.openxmlformats-officedocument.wordprocessingml.document'', 15 * 1024 * 1024)]"

definition size_limit :: "string \<Rightarrow> int" where
  "size_limit mimeType = (case MIME_SIZE_LIMITS mimeType of Some n \<Rightarrow> n | None \<Rightarrow> 10 * 1024 * 1024)"

record upload_request =
  ur_fileName :: string
  ur_mimeType :: string
  ur_fileSizeBytes :: int

definition upload_validate :: "upload_request \<Rightarrow> unit result" where
  "upload_validate r =
     (if ur_mimeType r \<notin> set ALLOWED_MIME_TYPES then Inl (BadRequest (''Unsupported file type: '' @ ur_mimeType r))
      else if ur_fileSizeBytes r \<le> 0 then Inl (BadRequest ''File size must be greater than zero'')
      else if size_limit (ur_mimeType r) < ur_fileSizeBytes r then Inl (BadRequest ''File exceeds maximum allowed size'')
      else if js_trim (ur_fileName r) = [] then Inl (BadRequest ''File name cannot be empty'')
      else Inr ())"

definition assertValidContent :: "bytes \<Rightarrow> string \<Rightarrow> unit result" where
  "assertValidContent buffer expectedMime =
     (if \<not> hasKnownSignature expectedMime
      then Inl (BadRequest (''Rejected file with declared type '' @ expectedMime @ '': no content signature is registered''))
      else if buffer = []
      then Inl (BadRequest (''Rejected file with declared type '' @ expectedMime @ '': content is empty''))
      else if \<not> matchesMagicBytes buffer expectedMime
      then Inl (BadRequest (''File content does not match declared type '' @ expectedMime @ '': magic bytes mismatch''))
      else Inr ())"

definition validateFileSize :: "bytes \<Rightarrow> string \<Rightarrow> unit result" where
  "validateFileSize buffer mimeType =
     (if size_limit mimeType < int (length buffer) then Inl (BadRequest ''File size exceeds limit'') else Inr ())"

text \<open>The replacements of \<open>sanitizeFilename\<close>, in their order.\<close>

fun drop_dot_pairs :: "string \<Rightarrow> string" where
  "drop_dot_pairs (c # d # s) = (if c = CHR ''.'' \<and> d = CHR ''.'' then drop_dot_pairs s else c # drop_dot_pairs (d # s))"
| "drop_dot_pairs s = s"

definition name_char :: "char \<Rightarrow> bool" where
  "name_char c = (let n = (of_char c :: nat) in
     97 \<le> n \<and> n \<le> 122 \<or> 65 \<le> n \<and> n \<le> 90 \<or> 48 \<le> n \<and> n \<le> 57 \<or> c = CHR ''.'' \<or> c = CHR ''_'' \<or> c = CHR ''-'')"

fun collapse_underscores :: "string \<Rightarrow> string" where
  "collapse_underscores (c # d # s) =
     (if c = CHR ''_'' \<and> d = CHR ''_'' then collapse_underscores (d # s) else c # collapse_underscores (d # s))"
| "collapse_underscores s = s"

definition sanitizeFilename :: "string \<Rightarrow> time \<Rightarrow> string" where
  "sanitizeFilename filename now =
     (let n1 = js_trim filename;
          n2 = filter (\<lambda>c. c \<noteq> CHR 0x00) n1;
          n3 = drop_dot_pairs n2;
          n4 = filter (\<lambda>c. c \<noteq> CHR ''/'' \<and> c \<noteq> CHR 0x5C) n3;
          n5 = map (\<lambda>c. if name_char c then c else CHR ''_'') n4;
          n6 = collapse_underscores n5;
          n7 = dropWhile (\<lambda>c. c = CHR ''.'' \<or> c = CHR ''_'' \<or> c = CHR ''-'') n6;
          n8 = (if n7 = [] then ''upload_'' @ show_int now else n7)
      in js_lower n8)"

record upload_metadata =
  um_request :: upload_request
  um_sanitisedName :: string
  um_uploadedAt :: time

definition prepareMetadata :: "upload_request \<Rightarrow> time \<Rightarrow> upload_metadata result" where
  "prepareMetadata r now =
     (case upload_validate r of
        Inl e \<Rightarrow> Inl e
      | Inr _ \<Rightarrow> Inr \<lparr>um_request = r, um_sanitisedName = sanitizeFilename (ur_fileName r) now, um_uploadedAt = now\<rparr>)"

subsection \<open>Threat patterns\<close>

definition lower_byte :: "nat \<Rightarrow> nat" where
  "lower_byte x = (if 65 \<le> x \<and> x \<le> 90 then x + 32 else x)"

definition word_byte :: "nat \<Rightarrow> bool" where
  "word_byte x \<longleftrightarrow> 97 \<le> x \<and> x \<le> 122 \<or> 65 \<le> x \<and> x \<le> 90 \<or> 48 \<le> x \<and> x \<le> 57 \<or> x = 95"

text \<open>What follows one white space character: those of ASCII, U+00A0, U+1680, U+2000 to U+200A, U+2028, U+2029, U+202F, U+205F,
  U+3000 and U+FEFF.\<close>

definition after_space :: "bytes \<Rightarrow> bytes option" where
  "after_space b =
     (case b of
        [] \<Rightarrow> None
      | x # r \<Rightarrow>
          if 9 \<le> x \<and> x \<le> 13 \<or> x = 32 then Some r
          else if bytes_at [0xC2, 0xA0] b then Some (drop 2 b)
          else if list_ex (\<lambda>p. bytes_at p b)
              ([[0xE1, 0x9A, 0x80], [0xE2, 0x80, 0xA8], [0xE2, 0x80, 0xA9], [0xE2, 0x80, 0xAF], [0xE2, 0x81, 0x9F], [0xE3, 0x80, 0x80],
                [0xEF, 0xBB, 0xBF]] @ map (\<lambda>i. [0xE2, 0x80, 0x80 + i]) [0..<11]) then Some (drop 3 b)
          else None)"

lemma after_space_length: "after_space b = Some r \<Longrightarrow> length r < length b"
  by (auto simp: after_space_def bytes_at_def Let_def list_ex_iff split: list.splits if_splits)

function skip_spaces :: "bytes \<Rightarrow> bytes" where
  "skip_spaces b = (case after_space b of None \<Rightarrow> b | Some r \<Rightarrow> skip_spaces r)"
  by pat_completeness auto

termination by (relation "measure length") (auto dest: after_space_length)

declare skip_spaces.simps [simp del]

definition literal_at :: "string \<Rightarrow> bytes \<Rightarrow> bool" where
  "literal_at p b \<longleftrightarrow> bytes_at (bytes_of p) (map lower_byte b)"

text \<open>\<open>/<name[\s>]/i\<close>, \<open>/javascript:/i\<close> and \<open>/on\w+\s*=/i\<close> at the start of the bytes.\<close>

definition tag_at :: "string \<Rightarrow> bytes \<Rightarrow> bool" where
  "tag_at name b \<longleftrightarrow> literal_at (''<'' @ name) b \<and>
     (let r = drop (Suc (length name)) b in bytes_at (bytes_of ''>'') r \<or> after_space r \<noteq> None)"

definition handler_at :: "bytes \<Rightarrow> bool" where
  "handler_at b \<longleftrightarrow> literal_at ''on'' b \<and> takeWhile word_byte (drop 2 b) \<noteq> [] \<and>
     bytes_at (bytes_of ''='') (skip_spaces (dropWhile word_byte (drop 2 b)))"

definition THREAT_PATTERNS :: "(string \<times> (bytes \<Rightarrow> bool)) list" where
  "THREAT_PATTERNS =
     [(''<script'', tag_at ''script''), (''javascript:'', literal_at ''javascript:''), (''on-handler'', handler_at),
      (''<iframe'', tag_at ''iframe''), (''<object'', tag_at ''object''), (''<embed'', tag_at ''embed''), (''<applet'', tag_at ''applet'')]"

text \<open>The pattern that is found first, by a name; \<open>None\<close> is safe.\<close>

definition scanForThreats :: "bytes \<Rightarrow> string option" where
  "scanForThreats buffer =
     (let content = take (1024 * 1024) buffer
      in map_option fst (List.find (\<lambda>(_, pattern). search_at pattern content) THREAT_PATTERNS))"

subsection \<open>What the checks guarantee\<close>

lemma part_matches_slice:
  assumes "mp_bytes m \<noteq> []"
  shows "part_matches b m \<longleftrightarrow> take (length (mp_bytes m)) (drop (mp_offset m) b) = mp_bytes m"
proof (cases "length b < mp_offset m + length (mp_bytes m)")
  case True
  then have "length (take (length (mp_bytes m)) (drop (mp_offset m) b)) \<noteq> length (mp_bytes m)"
    using assms by (cases "mp_bytes m") auto
  then show ?thesis using True by (metis part_matches_def)
next
  case False
  let ?c = "take (length (mp_bytes m)) (drop (mp_offset m) b)"
  have len: "length ?c = length (mp_bytes m)" using False by simp
  have nth: "?c ! i = b ! (mp_offset m + i)" if "i < length (mp_bytes m)" for i using False that by simp
  have "?c = mp_bytes m \<longleftrightarrow> (\<forall>i < length (mp_bytes m). ?c ! i = mp_bytes m ! i)"
    using len nth_equalityI [of ?c "mp_bytes m"] by metis
  also have "\<dots> \<longleftrightarrow> part_matches b m" using False nth by (auto simp: part_matches_def list_all_iff)
  finally show ?thesis by simp
qed

lemma sig_at_simps [simp]: "sig_at a x = sig_at c y \<longleftrightarrow> a = c \<and> x = y" "mp_bytes (sig_at a x) = x" "mp_offset (sig_at a x) = a"
  by (simp_all add: sig_at_def)

lemma signatures_listed: "SIGNATURES mime = Some vs \<Longrightarrow> list_all (list_all (\<lambda>m. mp_bytes m \<noteq> [])) vs"
  unfolding SIGNATURES_def by (drule map_of_SomeD) auto

lemma signatures_nonempty: "SIGNATURES mime = Some vs \<Longrightarrow> v \<in> set vs \<Longrightarrow> m \<in> set v \<Longrightarrow> mp_bytes m \<noteq> []"
  using signatures_listed by (auto simp: list_all_iff)

lemma search_at_suffix: "search_at test b \<longleftrightarrow> (\<exists>xs ys. b = xs @ ys \<and> test ys)"
proof (induction b)
  case (Cons x b)
  have "(\<exists>xs ys. x # b = xs @ ys \<and> test ys) \<longleftrightarrow> test (x # b) \<or> (\<exists>xs ys. b = xs @ ys \<and> test ys)"
    by (auto simp: Cons_eq_append_conv)
  then show ?case using Cons by simp
qed simp

text \<open>A content is taken for a registered type exactly when the bytes of one of its signatures stand at their places, for a
  PDF with an end-of-file marker in the last 1024 bytes; a content that is too short is refused.\<close>

theorem magic_bytes_exact:
  "matchesMagicBytes b mime \<longleftrightarrow> b \<noteq> [] \<and> (case SIGNATURES mime of None \<Rightarrow> True
     | Some variants \<Rightarrow> (\<exists>v \<in> set variants. \<forall>m. m \<in> set v \<longrightarrow> take (length (mp_bytes m)) (drop (mp_offset m) b) = mp_bytes m)
        \<and> (mime = ''application/pdf'' \<longrightarrow> (\<exists>xs ys. drop (length b - 1024) b = xs @ bytes_of ''%%EOF'' @ ys)))"
proof -
  have "search_at (bytes_at p) c \<longleftrightarrow> (\<exists>xs ys. c = xs @ p @ ys)" for p c
    unfolding search_at_suffix bytes_at_def by (metis append_take_drop_id append_eq_conv_conj)
  then have eof: "hasPdfEof b 1024 \<longleftrightarrow> (\<exists>xs ys. drop (length b - 1024) b = xs @ bytes_of ''%%EOF'' @ ys)"
    by (simp add: hasPdfEof_def)
  show ?thesis
  proof (cases "SIGNATURES mime")
    case (Some vs)
    then have "list_ex (list_all (part_matches b)) vs \<longleftrightarrow>
        (\<exists>v \<in> set vs. \<forall>m. m \<in> set v \<longrightarrow> take (length (mp_bytes m)) (drop (mp_offset m) b) = mp_bytes m)"
      using signatures_nonempty by (simp add: list_ex_iff list_all_iff) (metis part_matches_slice)
    then show ?thesis using Some eof by (simp add: matchesMagicBytes_def)
  qed (simp add: matchesMagicBytes_def)
qed

text \<open>The first byte of the types that have one.\<close>

definition first_byte :: "string \<Rightarrow> nat option" where
  "first_byte =
     map_of [(''application/pdf'', 0x25), (''image/jpeg'', 0xff), (''image/png'', 0x89), (''image/gif'', 0x47), (''image/webp'', 0x52),
      (''application/msword'', 0xd0), (''application/vnd.openxmlformats-officedocument.wordprocessingml.document'', 0x50)]"

lemma matched_variant:
  "matchesMagicBytes b mime \<Longrightarrow> SIGNATURES mime = Some vs \<Longrightarrow> \<exists>v \<in> set vs. \<forall>m \<in> set v. part_matches b m"
  by (auto simp: matchesMagicBytes_def list_ex_iff list_all_iff split: if_splits)

lemma part_byte: "part_matches b (sig_at off bs) \<Longrightarrow> i < length bs \<Longrightarrow> off + i < length b \<and> b ! (off + i) = bs ! i"
  by (auto simp: part_matches_def sig_at_def list_all_iff split: if_splits)

lemma first_byte_of:
  assumes "matchesMagicBytes b mime" and "first_byte mime = Some x"
  shows "b ! 0 = x"
proof -
  have "\<exists>vs. SIGNATURES mime = Some vs \<and> list_all (\<lambda>v. \<exists>ys. sig_at 0 (x # ys) \<in> set v) vs"
    using assms(2) unfolding first_byte_def by - (drule map_of_SomeD, auto simp: SIGNATURES_def)
  then obtain vs where vs: "SIGNATURES mime = Some vs" "list_all (\<lambda>v. \<exists>ys. sig_at 0 (x # ys) \<in> set v) vs" by blast
  from matched_variant [OF assms(1) vs(1)] vs(2) [unfolded list_all_iff] obtain ys where "part_matches b (sig_at 0 (x # ys))" by blast
  then show ?thesis using part_byte [of b 0 "x # ys" 0] by simp
qed

lemma avif_bytes: "matchesMagicBytes b ''image/avif'' \<Longrightarrow> b ! 4 = 0x66 \<and> b ! 8 = 0x61"
  using matched_variant [of b "''image/avif''"] part_byte [of b 4 "[0x66, 0x74, 0x79, 0x70]" 0]
    part_byte [of b 8 "[0x61, 0x76, 0x69, 0x66]" 0] part_byte [of b 8 "[0x61, 0x76, 0x69, 0x73]" 0]
  by (auto simp: SIGNATURES_def)

lemma not_avif:
  "matchesMagicBytes b ''image/png'' \<Longrightarrow> b ! 4 = 0x0d" "matchesMagicBytes b ''image/gif'' \<Longrightarrow> b ! 4 \<in> {0x37, 0x39}"
  "matchesMagicBytes b ''image/webp'' \<Longrightarrow> b ! 8 = 0x57" "matchesMagicBytes b ''application/msword'' \<Longrightarrow> b ! 4 = 0xa1"
  using matched_variant [of b "''image/png''"] matched_variant [of b "''image/gif''"] matched_variant [of b "''image/webp''"]
    matched_variant [of b "''application/msword''"] part_byte [of b 8 "[0x57, 0x45, 0x42, 0x50]" 0]
    part_byte [where off = 0 and i = 4 and b = b]
  by (auto simp: SIGNATURES_def)

lemma known_types:
  "hasKnownSignature mime \<longleftrightarrow> mime = ''image/avif'' \<or> first_byte mime \<noteq> None"
  by (simp add: hasKnownSignature_def SIGNATURES_def first_byte_def)

text \<open>A content passes as two registered types only when one of them is AVIF, whose signature leaves the first four bytes
  open, and the other is PDF, JPEG or DOCX; such files exist.\<close>

theorem polyglots_only_with_avif:
  assumes "matchesMagicBytes b s" and "matchesMagicBytes b t" and "hasKnownSignature s" and "hasKnownSignature t" and "s \<noteq> t"
  shows "(s = ''image/avif'' \<or> t = ''image/avif'') \<and> {s, t} \<subseteq> {''image/avif'', ''application/pdf'', ''image/jpeg'',
    ''application/vnd.openxmlformats-officedocument.wordprocessingml.document''}"
proof -
  have avif: "mime \<in> {''application/pdf'', ''image/jpeg'', ''application/vnd.openxmlformats-officedocument.wordprocessingml.document''}"
    if "matchesMagicBytes b ''image/avif''" "matchesMagicBytes b mime" "first_byte mime \<noteq> None" for mime
    using avif_bytes [OF that(1)] not_avif [of b] that(2,3) by (auto simp: first_byte_def split: if_splits)
  have inj: "s = t" if "first_byte s = Some x" "first_byte t = Some x" for x
    using that by (auto simp: first_byte_def split: if_splits)
  show ?thesis
  proof (cases "s = ''image/avif'' \<or> t = ''image/avif''")
    case True
    then show ?thesis using assms avif [of s] avif [of t] known_types by blast
  next
    case False
    then obtain x y where "first_byte s = Some x" "first_byte t = Some y" using assms(3,4) known_types by auto
    then show ?thesis using first_byte_of [OF assms(1)] first_byte_of [OF assms(2)] inj assms(5) by auto
  qed
qed

definition pdf_and_avif :: bytes where
  "pdf_and_avif = bytes_of ''%PDFftypavif%%EOF''"

theorem polyglots_only_with_avif_witness:
  "matchesMagicBytes pdf_and_avif ''application/pdf'' \<and> matchesMagicBytes pdf_and_avif ''image/avif''
    \<and> {''application/pdf'', ''image/avif''} \<subseteq> {''image/avif'', ''application/pdf'', ''image/jpeg'',
      ''application/vnd.openxmlformats-officedocument.wordprocessingml.document''}"
proof -
  have "matchesMagicBytes pdf_and_avif ''application/pdf''" "matchesMagicBytes pdf_and_avif ''image/avif''"
    "hasKnownSignature ''application/pdf''" "hasKnownSignature ''image/avif''" by code_simp+
  then show ?thesis using polyglots_only_with_avif [of pdf_and_avif "''application/pdf''" "''image/avif''"] by simp
qed

subsection \<open>Names\<close>

definition safe_char :: "char \<Rightarrow> bool" where
  "safe_char c = (let n = (of_char c :: nat) in
     97 \<le> n \<and> n \<le> 122 \<or> 48 \<le> n \<and> n \<le> 57 \<or> c = CHR ''.'' \<or> c = CHR ''_'' \<or> c = CHR ''-'')"

definition lead_char :: "char \<Rightarrow> bool" where
  "lead_char c \<longleftrightarrow> c = CHR ''.'' \<or> c = CHR ''_'' \<or> c = CHR ''-''"

lemma lower_name_char:
  assumes "name_char c"
  shows "safe_char (lower_char c)" and "\<not> lead_char c \<Longrightarrow> \<not> lead_char (lower_char c)"
proof -
  let ?n = "of_char c :: nat"
  have "safe_char (lower_char c) \<and> (lead_char (lower_char c) \<longrightarrow> lead_char c)"
  proof (cases "65 \<le> ?n \<and> ?n \<le> 90")
    case True
    then have low: "lower_char c = char_of (?n + 32)" by (simp add: lower_char_def Let_def)
    then have n: "of_char (lower_char c) = ?n + 32" using True by simp
    have "of_char (CHR ''.'') = (46 :: nat)" "of_char (CHR ''_'') = (95 :: nat)" "of_char (CHR ''-'') = (45 :: nat)" by simp_all
    then have "\<not> lead_char (lower_char c)" using n True by (auto simp: lead_char_def)
    then show ?thesis using n True by (simp add: safe_char_def Let_def)
  next
    case False
    have "of_char (CHR ''.'') = (46 :: nat)" "of_char (CHR ''_'') = (95 :: nat)" "of_char (CHR ''-'') = (45 :: nat)" by simp_all
    then have "?n \<le> 122" using assms by (auto simp: name_char_def Let_def)
    then have "lower_char c = c" using False by (auto simp: lower_char_def Let_def)
    then show ?thesis using assms False by (auto simp: name_char_def safe_char_def Let_def)
  qed
  then show "safe_char (lower_char c)" and "\<not> lead_char c \<Longrightarrow> \<not> lead_char (lower_char c)" by blast+
qed

lemma show_nat_chars: "list_all name_char (show_nat n)"
  using show_nat_digits [of n] by (auto simp: list_all_iff name_char_def is_digit_def Let_def)

lemma collapse_chars: "set (collapse_underscores s) \<subseteq> set s"
  by (induction s rule: collapse_underscores.induct) auto

text \<open>A sanitised file name can be part of no other path: it is not empty, consists of lower-case letters, digits, dots,
  underscores and dashes, so has no separator, and does not start with a dot, whatever the name of the upload.\<close>

theorem sanitized_name_is_safe:
  "sanitizeFilename name now \<noteq> [] \<and> \<not> lead_char (hd (sanitizeFilename name now)) \<and> list_all safe_char (sanitizeFilename name now)"
proof -
  define n5 where "n5 = map (\<lambda>c. if name_char c then c else CHR ''_'')
    (filter (\<lambda>c. c \<noteq> CHR ''/'' \<and> c \<noteq> CHR 0x5C) (drop_dot_pairs (filter (\<lambda>c. c \<noteq> CHR 0x00) (js_trim name))))"
  define n7 where "n7 = dropWhile lead_char (collapse_underscores n5)"
  define n8 where "n8 = (if n7 = [] then ''upload_'' @ show_int now else n7)"
  have "name_char (CHR ''_'')" by code_simp
  then have "list_all name_char n5" by (auto simp: n5_def list_all_iff)
  then have "list_all name_char n7" using collapse_chars [of n5] by (auto simp: n7_def list_all_iff dest: set_dropWhileD)
  moreover have "list_all name_char (''upload_'' @ show_int now)"
  proof -
    have "list_all name_char ''upload_-''" by code_simp
    then show ?thesis using show_nat_chars by (simp add: show_int_def)
  qed
  ultimately have chars: "list_all name_char n8" by (simp add: n8_def)
  have "\<not> lead_char (hd n8) \<and> n8 \<noteq> []"
  proof (cases "n7 = []")
    case False
    then have "\<not> lead_char (hd n7)" unfolding n7_def by (rule hd_dropWhile)
    then show ?thesis using False by (simp add: n8_def)
  qed (simp add: n8_def lead_char_def)
  moreover have "sanitizeFilename name now = js_lower n8"
    unfolding sanitizeFilename_def Let_def n8_def n7_def n5_def lead_char_def [abs_def] ..
  ultimately show ?thesis using chars lower_name_char
    by (cases n8) (auto simp: js_lower_def list_all_iff)
qed

subsection \<open>Threats\<close>

text \<open>The scan is exact for its patterns in the first mebibyte: a content is let through when and only when no pattern
  matches there, in any letter case, so what comes after is never looked at.\<close>

theorem scan_exact_in_first_mebibyte:
  "scanForThreats b = None \<longleftrightarrow> \<not> (\<exists>name pat xs ys. (name, pat) \<in> set THREAT_PATTERNS \<and> take (1024 * 1024) b = xs @ ys \<and> pat ys)"
  by (auto simp: scanForThreats_def Let_def find_None_iff search_at_suffix)

lemma js_url_is_pattern: "(''javascript:'', literal_at ''javascript:'') \<in> set THREAT_PATTERNS"
  by (simp add: THREAT_PATTERNS_def)

end
