(* ===== verification/Documents.thy ===== *)
theory Documents
  imports Store File_Content
begin

text \<open>
  Documents: \<open>src/documents/documents.service.ts\<close>, the handlers of \<open>documents.controller.ts\<close> and
  \<open>documents-download.controller.ts\<close> that put the access check before the operation, the versions kept in memory by
  \<open>document-version.service.ts\<close>, the expiry helpers and the signed-URL providers that ship with the code.

  SHA-256 and the parsing of URLs are arguments; a signed-URL provider is a function from a request to an error or an
  answer.  Days are those of a server whose clock runs in UTC.
\<close>

subsection \<open>State\<close>

datatype doc_type = TITLE_DEED | INSPECTION_REPORT | APPRAISAL | CONTRACT | DISCLOSURE | PHOTO | FLOOR_PLAN

datatype doc_status = Doc_ACTIVE | Doc_EXPIRED | Doc_ARCHIVED

record audit_entry =
  ae_by :: string
  ae_at :: time
  ae_hash :: string

record file_document =
  fd_id :: string
  fd_userId :: string
  fd_propertyId :: "string option"
  fd_documentType :: doc_type
  fd_fileName :: string
  fd_fileUrl :: string
  fd_fileSize :: int
  fd_mimeType :: string
  fd_description :: "string option"
  fd_category :: string
  fd_tags :: "string list"
  fd_isPublic :: bool
  fd_sharedWith :: "string list"
  fd_expiresAt :: "time option"
  fd_isExpired :: bool
  fd_expiryNotified :: bool
  fd_status :: doc_status
  fd_archivedAt :: "time option"
  fd_signedBy :: "string option"
  fd_signedAt :: "time option"
  fd_signatureHash :: "string option"
  fd_auditTrail :: "audit_entry list"
  fd_createdAt :: time

record file_version =
  fv_id :: string
  fv_documentId :: string
  fv_versionNumber :: int
  fv_fileUrl :: string

record documents_state =
  ds_documents :: "file_document list"
  ds_versions :: "file_version list"

abbreviation find_document :: "string \<Rightarrow> documents_state \<Rightarrow> file_document option" where
  "find_document i s \<equiv> tbl_find fd_id i (ds_documents s)"

subsection \<open>Creating and reading\<close>

fun doc_type_name :: "doc_type \<Rightarrow> string" where
  "doc_type_name TITLE_DEED = ''TITLE_DEED''"
| "doc_type_name INSPECTION_REPORT = ''INSPECTION_REPORT''"
| "doc_type_name APPRAISAL = ''APPRAISAL''"
| "doc_type_name CONTRACT = ''CONTRACT''"
| "doc_type_name DISCLOSURE = ''DISCLOSURE''"
| "doc_type_name PHOTO = ''PHOTO''"
| "doc_type_name FLOOR_PLAN = ''FLOOR_PLAN''"

fun AUTO_TAG_MAP :: "doc_type \<Rightarrow> string list" where
  "AUTO_TAG_MAP TITLE_DEED = [''legal'', ''ownership'']"
| "AUTO_TAG_MAP INSPECTION_REPORT = [''inspection'', ''condition'']"
| "AUTO_TAG_MAP APPRAISAL = [''valuation'', ''financial'']"
| "AUTO_TAG_MAP CONTRACT = [''legal'', ''agreement'']"
| "AUTO_TAG_MAP DISCLOSURE = [''legal'', ''disclosure'']"
| "AUTO_TAG_MAP PHOTO = [''media'', ''visual'']"
| "AUTO_TAG_MAP FLOOR_PLAN = [''media'', ''layout'']"

record create_document_dto =
  xd_propertyId :: "string option"
  xd_documentType :: doc_type
  xd_fileName :: string
  xd_fileUrl :: string
  xd_fileSize :: "int option"
  xd_mimeType :: "string option"
  xd_description :: "string option"
  xd_category :: "string option"
  xd_tags :: "string list option"
  xd_expiresAt :: "time option"

definition documents_create :: "string \<Rightarrow> create_document_dto \<Rightarrow> string \<Rightarrow> time \<Rightarrow> documents_state \<Rightarrow> file_document \<times> documents_state" where
  "documents_create newId d userId now s =
     (let autoTags = AUTO_TAG_MAP (xd_documentType d);
          tags = js_unique (autoTags @ (case xd_tags d of None \<Rightarrow> [] | Some ts \<Rightarrow> ts));
          category = (case xd_category d of Some c \<Rightarrow> c
            | None \<Rightarrow> replace_first (CHR ''_'') (CHR ''-'') (js_lower (doc_type_name (xd_documentType d))));
          r = \<lparr>fd_id = newId, fd_userId = userId, fd_propertyId = xd_propertyId d, fd_documentType = xd_documentType d,
               fd_fileName = xd_fileName d, fd_fileUrl = xd_fileUrl d,
               fd_fileSize = (case xd_fileSize d of None \<Rightarrow> 0 | Some n \<Rightarrow> n),
               fd_mimeType = (case xd_mimeType d of None \<Rightarrow> ''application/octet-stream'' | Some m \<Rightarrow> m),
               fd_description = xd_description d, fd_category = category, fd_tags = tags, fd_isPublic = False,
               fd_sharedWith = [], fd_expiresAt = xd_expiresAt d, fd_isExpired = False, fd_expiryNotified = False,
               fd_status = Doc_ACTIVE, fd_archivedAt = None, fd_signedBy = None, fd_signedAt = None,
               fd_signatureHash = None, fd_auditTrail = [], fd_createdAt = now\<rparr>
      in (r, s\<lparr>ds_documents := tbl_create r (ds_documents s)\<rparr>))"

record filter_documents_dto =
  ft_category :: "string option"
  ft_tags :: "string list option"
  ft_isExpired :: "bool option"
  ft_documentType :: "doc_type option"
  ft_status :: "doc_status option"

definition documents_findAll :: "string \<Rightarrow> filter_documents_dto \<Rightarrow> string option \<Rightarrow> documents_state \<Rightarrow> file_document list" where
  "documents_findAll userId f userRole s =
     tbl_desc fd_createdAt (filter (\<lambda>d.
        (if userRole \<noteq> Some ''ADMIN'' then fd_userId d = userId \<or> fd_isPublic d \<or> userId \<in> set (fd_sharedWith d) else True)
        \<and> (case ft_category f of None \<Rightarrow> True | Some c \<Rightarrow> c = [] \<or> fd_category d = c)
        \<and> (case ft_tags f of None \<Rightarrow> True | Some ts \<Rightarrow> ts = [] \<or> list_ex (\<lambda>t. t \<in> set (fd_tags d)) ts)
        \<and> (case ft_isExpired f of None \<Rightarrow> True | Some e \<Rightarrow> fd_isExpired d = e)
        \<and> (case ft_documentType f of None \<Rightarrow> True | Some t \<Rightarrow> fd_documentType d = t)
        \<and> fd_status d = (case ft_status f of None \<Rightarrow> Doc_ACTIVE | Some st \<Rightarrow> st)) (ds_documents s))"

definition documents_findOne :: "string \<Rightarrow> documents_state \<Rightarrow> file_document result" where
  "documents_findOne i s = (case find_document i s of None \<Rightarrow> Inl (NotFound ''Document not found'') | Some d \<Rightarrow> Inr d)"

definition findAuthorizedById :: "string \<Rightarrow> string \<Rightarrow> string option \<Rightarrow> documents_state \<Rightarrow> file_document result" where
  "findAuthorizedById i userId userRole s =
     (case documents_findOne i s of
        Inl e \<Rightarrow> Inl e
      | Inr doc \<Rightarrow>
          (let isAdmin = (userRole = Some ''ADMIN''); isOwner = (fd_userId doc = userId);
               isShared = (userId \<in> set (fd_sharedWith doc))
           in if \<not> isAdmin \<and> \<not> isOwner \<and> \<not> fd_isPublic doc \<and> \<not> isShared
              then Inl (Forbidden ''Access denied to this document'') else Inr doc))"

definition documents_getVersions :: "string \<Rightarrow> string \<Rightarrow> string option \<Rightarrow> documents_state \<Rightarrow> file_version list result" where
  "documents_getVersions i userId userRole s =
     (case findAuthorizedById i userId userRole s of
        Inl e \<Rightarrow> Inl e | Inr _ \<Rightarrow> Inr (tbl_desc fv_versionNumber (filter (\<lambda>v. fv_documentId v = i) (ds_versions s))))"

definition documents_getVersion :: "string \<Rightarrow> string \<Rightarrow> string \<Rightarrow> string option \<Rightarrow> documents_state \<Rightarrow> file_version result" where
  "documents_getVersion i versionId userId userRole s =
     (case findAuthorizedById i userId userRole s of
        Inl e \<Rightarrow> Inl e
      | Inr _ \<Rightarrow> (case tbl_find fv_id versionId (ds_versions s) of
            None \<Rightarrow> Inl (NotFound ''Version not found'')
          | Some v \<Rightarrow> if fv_documentId v \<noteq> i then Inl (NotFound ''Version not found'') else Inr v))"

subsection \<open>Changing\<close>

record update_document_dto =
  yd_description :: "string option"
  yd_category :: "string option"
  yd_tags :: "string list option"
  yd_expiresAt :: "time option"
  yd_isExpired :: "bool option"

definition update_document :: "string \<Rightarrow> (file_document \<Rightarrow> file_document) \<Rightarrow> documents_state \<Rightarrow> documents_state" where
  "update_document i f s = s\<lparr>ds_documents := tbl_update fd_id i f (ds_documents s)\<rparr>"

definition apply_document_update :: "update_document_dto \<Rightarrow> file_document \<Rightarrow> file_document" where
  "apply_document_update d r =
     r\<lparr>fd_description := (case yd_description d of Some x \<Rightarrow> Some x | None \<Rightarrow> fd_description r),
       fd_category := (case yd_category d of Some x \<Rightarrow> x | None \<Rightarrow> fd_category r),
       fd_tags := (case yd_tags d of Some x \<Rightarrow> x | None \<Rightarrow> fd_tags r),
       fd_expiresAt := (case yd_expiresAt d of Some x \<Rightarrow> Some x | None \<Rightarrow> fd_expiresAt r),
       fd_isExpired := (case yd_isExpired d of Some x \<Rightarrow> x | None \<Rightarrow> fd_isExpired r)\<rparr>"

definition documents_update :: "string \<Rightarrow> update_document_dto \<Rightarrow> documents_state \<Rightarrow> (file_document, documents_state) outcome" where
  "documents_update i d s =
     (case documents_findOne i s of
        Inl e \<Rightarrow> (Inl e, s)
      | Inr r \<Rightarrow> (Inr (apply_document_update d r), update_document i (apply_document_update d) s))"

text \<open>The versions of a document go with it.\<close>

definition delete_documents :: "(file_document \<Rightarrow> bool) \<Rightarrow> documents_state \<Rightarrow> documents_state" where
  "delete_documents sel s =
     s\<lparr>ds_documents := tbl_delete_many sel (ds_documents s),
       ds_versions := tbl_delete_many (\<lambda>v. list_ex (\<lambda>d. sel d \<and> fd_id d = fv_documentId v) (ds_documents s)) (ds_versions s)\<rparr>"

definition documents_remove :: "string \<Rightarrow> documents_state \<Rightarrow> (file_document, documents_state) outcome" where
  "documents_remove i s =
     (case documents_findOne i s of
        Inl e \<Rightarrow> (Inl e, s)
      | Inr r \<Rightarrow> (Inr r, delete_documents (\<lambda>d. fd_id d = i) s))"

subsection \<open>Expiry\<close>

definition update_documents :: "(file_document \<Rightarrow> bool) \<Rightarrow> (file_document \<Rightarrow> file_document) \<Rightarrow> documents_state \<Rightarrow> nat \<times> documents_state" where
  "update_documents sel f s = (tbl_count sel (ds_documents s), s\<lparr>ds_documents := tbl_update_many sel f (ds_documents s)\<rparr>)"

definition expires_by :: "time \<Rightarrow> file_document \<Rightarrow> bool" where
  "expires_by t d \<longleftrightarrow> (case fd_expiresAt d of None \<Rightarrow> False | Some e \<Rightarrow> e \<le> t)"

definition markExpiredDocuments :: "time \<Rightarrow> documents_state \<Rightarrow> (nat \<times> nat) \<times> documents_state" where
  "markExpiredDocuments now s =
     (let (marked, s1) = update_documents (\<lambda>d. fd_status d = Doc_ACTIVE \<and> expires_by now d)
            (\<lambda>d. d\<lparr>fd_isExpired := True, fd_status := Doc_EXPIRED\<rparr>) s;
          archiveThreshold = now - 30 * ms_day;
          (archived, s2) = update_documents (\<lambda>d. fd_status d = Doc_EXPIRED \<and> expires_by archiveThreshold d)
            (\<lambda>d. d\<lparr>fd_status := Doc_ARCHIVED, fd_archivedAt := Some now\<rparr>) s1
      in ((marked, archived), s2))"

definition getExpiringDocuments :: "int \<Rightarrow> time \<Rightarrow> documents_state \<Rightarrow> file_document list" where
  "getExpiringDocuments withinDays now s =
     filter (\<lambda>d. (case fd_expiresAt d of None \<Rightarrow> False | Some e \<Rightarrow> e \<le> now + withinDays * ms_day \<and> now \<le> e) \<and> \<not> fd_isExpired d)
       (ds_documents s)"

definition flagExpiryNotified :: "string \<Rightarrow> documents_state \<Rightarrow> documents_state" where
  "flagExpiryNotified i s = update_document i (\<lambda>d. d\<lparr>fd_expiryNotified := True\<rparr>) s"

definition deleteExpired :: "documents_state \<Rightarrow> nat \<times> documents_state" where
  "deleteExpired s = (tbl_count fd_isExpired (ds_documents s), delete_documents fd_isExpired s)"

definition EXPIRY_NOTIFICATION_DAYS :: "int list" where
  "EXPIRY_NOTIFICATION_DAYS = [30, 14, 7, 1]"

definition daysUntilExpiry :: "time \<Rightarrow> time \<Rightarrow> int" where
  "daysUntilExpiry expiresAt now = ceil_div (expiresAt - now) ms_day"

definition doc_isExpired :: "time option \<Rightarrow> time \<Rightarrow> bool" where
  "doc_isExpired expiresAt now = (case expiresAt of None \<Rightarrow> False | Some e \<Rightarrow> e \<le> now)"

definition dueNotificationMilestone :: "time option \<Rightarrow> time \<Rightarrow> int option" where
  "dueNotificationMilestone expiresAt now =
     (case expiresAt of None \<Rightarrow> None
      | Some e \<Rightarrow> (let remaining = daysUntilExpiry e now in if remaining \<in> set EXPIRY_NOTIFICATION_DAYS then Some remaining else None))"

definition shouldMarkExpired :: "file_document \<Rightarrow> time \<Rightarrow> bool" where
  "shouldMarkExpired d now \<longleftrightarrow> \<not> fd_isExpired d \<and> doc_isExpired (fd_expiresAt d) now"

subsection \<open>Signatures\<close>

definition signDocument ::
  "(string \<Rightarrow> string) \<Rightarrow> string \<Rightarrow> string \<Rightarrow> string \<Rightarrow> time \<Rightarrow> documents_state \<Rightarrow> (file_document, documents_state) outcome" where
  "signDocument sha256 i signedBy signatureHash now s =
     (case documents_findOne i s of
        Inl e \<Rightarrow> (Inl e, s)
      | Inr doc \<Rightarrow>
          if fd_signedAt doc \<noteq> None then (Inl (BadRequest ''Document already signed''), s)
          else (let verificationHash = sha256 (i @ '':'' @ signedBy @ '':'' @ signatureHash);
                    auditEntry = \<lparr>ae_by = signedBy, ae_at = now, ae_hash = verificationHash\<rparr>;
                    f = (\<lambda>d. d\<lparr>fd_signedBy := Some signedBy, fd_signedAt := Some now, fd_signatureHash := Some verificationHash,
                          fd_auditTrail := fd_auditTrail doc @ [auditEntry]\<rparr>)
                in (Inr (f doc), update_document i f s)))"

definition verifySignature :: "string \<Rightarrow> documents_state \<Rightarrow> bool result" where
  "verifySignature i s =
     (case documents_findOne i s of
        Inl e \<Rightarrow> Inl e
      | Inr doc \<Rightarrow> Inr (if fd_signedBy doc \<in> {None, Some []} \<or> fd_signatureHash doc \<in> {None, Some []} then False else True))"

subsection \<open>Downloads and uploads\<close>

text \<open>\<open>pathname\<close> is \<open>new URL(fileUrl).pathname\<close>, \<open>None\<close> where it throws.\<close>

definition drop_slash :: "string \<Rightarrow> string" where
  "drop_slash p = (case p of c # r \<Rightarrow> if c = CHR ''/'' then r else p | [] \<Rightarrow> [])"

definition toObjectKey :: "(string \<Rightarrow> string option) \<Rightarrow> string \<Rightarrow> string" where
  "toObjectKey pathname fileUrl = (case pathname fileUrl of Some p \<Rightarrow> drop_slash p | None \<Rightarrow> drop_slash fileUrl)"

definition buildUploadObjectKey :: "string \<Rightarrow> string \<Rightarrow> string option \<Rightarrow> string \<Rightarrow> time \<Rightarrow> string" where
  "buildUploadObjectKey userId fileName category random now =
     (let prefix = (case category of None \<Rightarrow> ''documents'' | Some c \<Rightarrow> c);
          safeName = js_lower (map (\<lambda>c. if name_char c then c else CHR ''_'') fileName)
      in prefix @ ''/'' @ userId @ ''/'' @ show_int now @ ''-'' @ random @ ''-'' @ safeName)"

datatype url_operation = Upload_op | Download_op

record signed_url_request =
  sr_operation :: url_operation
  sr_objectKey :: string
  sr_expiresInSeconds :: int

record signed_url =
  su_url :: string
  su_objectKey :: string

type_synonym signed_url_provider = "signed_url_request \<Rightarrow> string + signed_url"

definition s3_provider :: signed_url_provider where
  "s3_provider r = Inl ''S3 signed URL provider is not configured.''"

definition gcs_provider :: signed_url_provider where
  "gcs_provider r = Inl ''GCS signed URL provider is not configured.''"

definition azure_provider :: signed_url_provider where
  "azure_provider r = Inl ''Azure signed URL provider is not configured.''"

definition not_configured_provider :: signed_url_provider where
  "not_configured_provider r = Inl ''Signed URL provider is not configured.''"

definition signedUrlProviderFactory :: "string option \<Rightarrow> signed_url_provider" where
  "signedUrlProviderFactory var =
     (case map_option js_lower var of
        None \<Rightarrow> not_configured_provider
      | Some p \<Rightarrow> if p = ''s3'' then s3_provider else if p = ''gcs'' then gcs_provider
          else if p = ''azure'' then azure_provider else not_configured_provider)"

definition getSignedUrl :: "signed_url_provider \<Rightarrow> signed_url_request \<Rightarrow> signed_url result" where
  "getSignedUrl provider r = (case provider r of Inl m \<Rightarrow> Inl (InternalError m) | Inr u \<Rightarrow> Inr u)"

definition doc_download ::
  "signed_url_provider \<Rightarrow> (string \<Rightarrow> string option) \<Rightarrow> string \<Rightarrow> string option \<Rightarrow> string \<Rightarrow> string option \<Rightarrow> documents_state
    \<Rightarrow> string result" where
  "doc_download provider pathname i versionId userId userRole s =
     (case findAuthorizedById i userId userRole s of
        Inl e \<Rightarrow> Inl e
      | Inr doc \<Rightarrow>
          (case (case versionId of
                   None \<Rightarrow> Inr (fd_fileUrl doc)
                 | Some v \<Rightarrow> if v = [] then Inr (fd_fileUrl doc)
                     else map_sum id fv_fileUrl (documents_getVersion i v userId userRole s)) of
             Inl e \<Rightarrow> Inl e
           | Inr targetFileUrl \<Rightarrow>
               map_sum id su_url (getSignedUrl provider \<lparr>sr_operation = Download_op, sr_objectKey = toObjectKey pathname targetFileUrl,
                 sr_expiresInSeconds = 60\<rparr>)))"

definition buildUploadUrlResponse ::
  "signed_url_provider \<Rightarrow> string \<Rightarrow> string option \<Rightarrow> string \<Rightarrow> string \<Rightarrow> time \<Rightarrow> signed_url result" where
  "buildUploadUrlResponse provider fileName category userId random now =
     getSignedUrl provider \<lparr>sr_operation = Upload_op, sr_objectKey = buildUploadObjectKey userId fileName category random now,
       sr_expiresInSeconds = 600\<rparr>"

text \<open>The entries of the archive are the names of its files.\<close>

definition bulkDownload :: "string list \<Rightarrow> string option \<Rightarrow> documents_state \<Rightarrow> string list result" where
  "bulkDownload documentIds userId s =
     (let docs = filter (\<lambda>d. fd_id d \<in> set documentIds) (ds_documents s)
      in if docs = [] then Inl (NotFound ''No documents found'')
         else case (if userId \<in> {None, Some []} then None else List.find (\<lambda>d. Some (fd_userId d) \<noteq> userId) docs) of
            Some d \<Rightarrow> Inl (Forbidden (''Access denied to document '' @ fd_id d @ '': not owned by requester''))
          | None \<Rightarrow> Inr (map (\<lambda>d. fd_id d @ ''-'' @ fd_fileName d @ ''.txt'') docs))"

subsection \<open>The handlers of the controller\<close>

definition after_check ::
  "string \<Rightarrow> string \<Rightarrow> string option \<Rightarrow> (documents_state \<Rightarrow> ('a, documents_state) outcome) \<Rightarrow> documents_state
    \<Rightarrow> ('a, documents_state) outcome" where
  "after_check i userId userRole op s = (case findAuthorizedById i userId userRole s of Inl e \<Rightarrow> (Inl e, s) | Inr _ \<Rightarrow> op s)"

definition handle_update :: "string \<Rightarrow> update_document_dto \<Rightarrow> string \<Rightarrow> string option \<Rightarrow> documents_state \<Rightarrow> (file_document, documents_state) outcome" where
  "handle_update i d userId userRole s = after_check i userId userRole (documents_update i d) s"

definition handle_remove :: "string \<Rightarrow> string \<Rightarrow> string option \<Rightarrow> documents_state \<Rightarrow> (file_document, documents_state) outcome" where
  "handle_remove i userId userRole s = after_check i userId userRole (documents_remove i) s"

definition handle_sign ::
  "(string \<Rightarrow> string) \<Rightarrow> string \<Rightarrow> string \<Rightarrow> string \<Rightarrow> string \<Rightarrow> string option \<Rightarrow> time \<Rightarrow> documents_state
    \<Rightarrow> (file_document, documents_state) outcome" where
  "handle_sign sha256 i signedBy signatureHash userId userRole now s =
     after_check i userId userRole (signDocument sha256 i signedBy signatureHash now) s"

definition handle_verify :: "string \<Rightarrow> string \<Rightarrow> string option \<Rightarrow> documents_state \<Rightarrow> (bool, documents_state) outcome" where
  "handle_verify i userId userRole s = after_check i userId userRole (\<lambda>s. (verifySignature i s, s)) s"

subsection \<open>Versions in memory\<close>

record memory_version =
  mv_versionNumber :: nat
  mv_fileUrl :: string
  mv_updatedBy :: string
  mv_updatedAt :: time
  mv_changeNote :: "string option"

type_synonym version_store = "string \<Rightarrow> memory_version list option"

definition getVersions_memory :: "string \<Rightarrow> version_store \<Rightarrow> memory_version list" where
  "getVersions_memory documentId st = (case st documentId of None \<Rightarrow> [] | Some vs \<Rightarrow> vs)"

definition addVersion_memory ::
  "string \<Rightarrow> string \<Rightarrow> string \<Rightarrow> string option \<Rightarrow> time \<Rightarrow> version_store \<Rightarrow> memory_version \<times> version_store" where
  "addVersion_memory documentId fileUrl updatedBy changeNote now st =
     (let existing = getVersions_memory documentId st;
          version = \<lparr>mv_versionNumber = length existing + 1, mv_fileUrl = fileUrl, mv_updatedBy = updatedBy, mv_updatedAt = now,
            mv_changeNote = changeNote\<rparr>
      in (version, st(documentId \<mapsto> existing @ [version])))"

definition getLatest_memory :: "string \<Rightarrow> version_store \<Rightarrow> memory_version option" where
  "getLatest_memory documentId st =
     (let versions = getVersions_memory documentId st
      in if 0 < length versions then Some (versions ! (length versions - 1)) else None)"

end
