(* ===== verification/Document_Life.thy ===== *)
theory Document_Life
  imports Documents
begin

text \<open>
  What the handlers of documents guarantee: who may read and change a document, what can be downloaded, the nightly
  expiry, and signatures.
\<close>

lemma find_update_document:
  "(\<And>d. fd_id (f d) = fd_id d) \<Longrightarrow>
   find_document j (update_document i f s) = (if j = i then map_option f (find_document i s) else find_document j s)"
  by (simp add: update_document_def keyed_table.lookup_update [OF keyed_table_tbl])

lemma apply_document_id [simp]: "fd_id (apply_document_update d r) = fd_id r"
  by (simp add: apply_document_update_def)

lemma findOne_iff: "documents_findOne i s = Inr d \<longleftrightarrow> find_document i s = Some d"
  by (simp add: documents_findOne_def split: option.split)

subsection \<open>Access\<close>

text \<open>Who may see a document.\<close>

definition may_read :: "string \<Rightarrow> string option \<Rightarrow> file_document \<Rightarrow> bool" where
  "may_read u role d \<longleftrightarrow> role = Some ''ADMIN'' \<or> fd_userId d = u \<or> fd_isPublic d \<or> u \<in> set (fd_sharedWith d)"

lemma authorized_iff:
  "findAuthorizedById i u role s = Inr d \<longleftrightarrow> find_document i s = Some d \<and> may_read u role d"
  by (auto simp: findAuthorizedById_def documents_findOne_def Let_def may_read_def split: option.split)

lemma after_check_Inr:
  "(\<exists>r s'. after_check i u role op s = (Inr r, s')) \<longleftrightarrow> (\<exists>d. findAuthorizedById i u role s = Inr d) \<and> (\<exists>r s'. op s = (Inr r, s'))"
  by (simp add: after_check_def split: sum.split)

lemma sign_accepted:
  "find_document i s = Some r \<Longrightarrow> fd_signedAt r = None \<Longrightarrow> \<exists>d s'. signDocument sha256 i signer h now s = (Inr d, s')"
  "find_document i s = Some r \<Longrightarrow> fd_signedAt r = Some x \<Longrightarrow> \<not> (\<exists>d s'. signDocument sha256 i signer h now s = (Inr d, s'))"
  "find_document i s = None \<Longrightarrow> \<not> (\<exists>d s'. signDocument sha256 i signer h now s = (Inr d, s'))"
  unfolding signDocument_def documents_findOne_def Let_def by (simp only: option.case sum.case, simp)+

lemma operation_accepted:
  "(\<exists>d s'. documents_update i y s = (Inr d, s')) \<longleftrightarrow> (\<exists>d. find_document i s = Some d)"
  "(\<exists>d s'. documents_remove i s = (Inr d, s')) \<longleftrightarrow> (\<exists>d. find_document i s = Some d)"
  by (cases "find_document i s"; simp add: documents_update_def documents_remove_def documents_findOne_def)+

lemma sign_accepted_iff:
  "(\<exists>d s'. signDocument sha256 i signer h now s = (Inr d, s')) \<longleftrightarrow> (\<exists>d. find_document i s = Some d \<and> fd_signedAt d = None)"
proof (cases "find_document i s")
  case (Some r)
  show ?thesis
  proof (cases "fd_signedAt r")
    case None
    show ?thesis using sign_accepted(1) [OF Some None] Some None by blast
  next
    case (Some x)
    show ?thesis using sign_accepted(2) [OF \<open>find_document i s = Some r\<close> Some] \<open>find_document i s = Some r\<close> Some by simp
  qed
next
  case None
  show ?thesis using sign_accepted(3) [OF None] None by simp
qed

text \<open>C22: Who may read a document may also change it: the owner, an administrator, everyone it is shared with and, for a public
  document, everyone can update it and delete it, and sign it as long as it is not signed; no one else can do any of these.\<close>

theorem readers_may_change_and_delete:
  "((\<exists>d s'. handle_update i y u role s = (Inr d, s')) \<longleftrightarrow> (\<exists>d. find_document i s = Some d \<and> may_read u role d))
   \<and> ((\<exists>d s'. handle_remove i u role s = (Inr d, s')) \<longleftrightarrow> (\<exists>d. find_document i s = Some d \<and> may_read u role d))
   \<and> ((\<exists>d s'. handle_sign sha256 i by' h u role now s = (Inr d, s'))
       \<longleftrightarrow> (\<exists>d. find_document i s = Some d \<and> may_read u role d \<and> fd_signedAt d = None))
   \<and> find_document i (snd (handle_remove i u role s)) =
       (case find_document i s of Some d \<Rightarrow> if may_read u role d then None else Some d | None \<Rightarrow> None)"
proof -
  have gone: "find_document i (delete_documents (\<lambda>d. fd_id d = i) s) = None"
    by (auto simp: delete_documents_def tbl_find_None)
  have "find_document i (snd (handle_remove i u role s)) =
       (case find_document i s of Some d \<Rightarrow> if may_read u role d then None else Some d | None \<Rightarrow> None)"
  proof (cases "find_document i s")
    case (Some d)
    show ?thesis
    proof (cases "may_read u role d")
      case True
      then have "findAuthorizedById i u role s = Inr d" using Some by (simp add: authorized_iff)
      then show ?thesis using Some True gone
        by (simp add: handle_remove_def after_check_def documents_remove_def documents_findOne_def)
    next
      case False
      then have "\<exists>e. findAuthorizedById i u role s = Inl e" using Some
        by (simp add: findAuthorizedById_def documents_findOne_def may_read_def Let_def)
      then show ?thesis using Some False by (auto simp: handle_remove_def after_check_def)
    qed
  qed (simp add: handle_remove_def after_check_def findAuthorizedById_def documents_findOne_def)
  then show ?thesis
    unfolding handle_update_def handle_remove_def handle_sign_def after_check_Inr authorized_iff operation_accepted sign_accepted_iff by auto
qed

text \<open>The owner of a metadata row gets a signed link for whatever file the row names: a user who registers a row for the
  object of someone else downloads that object, whoever uploaded it and whatever rows name it already.\<close>

theorem any_object_downloadable:
  assumes "find_document newId s = None"
  shows "doc_download provider pathname newId None u role (snd (documents_create newId d u now s)) =
    map_sum id su_url (getSignedUrl provider \<lparr>sr_operation = Download_op, sr_objectKey = toObjectKey pathname (xd_fileUrl d),
      sr_expiresInSeconds = 60\<rparr>)"
proof -
  let ?r = "fst (documents_create newId d u now s)"
  have "fd_id ?r = newId" "fd_userId ?r = u" "fd_fileUrl ?r = xd_fileUrl d" by (simp_all add: documents_create_def Let_def)
  moreover have "find_document newId (snd (documents_create newId d u now s)) = Some ?r"
    using assms by (simp add: documents_create_def Let_def tbl_find_create)
  ultimately have "findAuthorizedById newId u role (snd (documents_create newId d u now s)) = Inr ?r"
    by (simp add: authorized_iff may_read_def)
  then show ?thesis using \<open>fd_fileUrl ?r = xd_fileUrl d\<close> by (simp add: doc_download_def)
qed

text \<open>Every provider that ships with the code answers with an error.\<close>

lemma shipped_providers_fail: "\<exists>m. getSignedUrl (signedUrlProviderFactory var) r = Inl (InternalError m)"
  by (simp add: getSignedUrl_def signedUrlProviderFactory_def s3_provider_def gcs_provider_def azure_provider_def
      not_configured_provider_def split: option.split)

subsection \<open>Expiry\<close>

definition nightly_document :: "time \<Rightarrow> file_document \<Rightarrow> file_document" where
  "nightly_document now d =
     (if fd_status d \<noteq> Doc_ARCHIVED \<and> (fd_status d = Doc_ACTIVE \<or> fd_status d = Doc_EXPIRED) \<and> expires_by (now - 30 * ms_day) d
      then d\<lparr>fd_isExpired := (fd_status d = Doc_ACTIVE \<or> fd_isExpired d), fd_status := Doc_ARCHIVED, fd_archivedAt := Some now\<rparr>
      else if fd_status d = Doc_ACTIVE \<and> expires_by now d then d\<lparr>fd_isExpired := True, fd_status := Doc_EXPIRED\<rparr>
      else d)"

lemma expires_mono: "expires_by t d \<Longrightarrow> t \<le> t' \<Longrightarrow> expires_by t' d"
  by (auto simp: expires_by_def split: option.splits)

lemma expires_update [simp]: "expires_by t (d\<lparr>fd_isExpired := x, fd_status := y\<rparr>) = expires_by t d"
  by (simp add: expires_by_def)

definition archive_document :: "time \<Rightarrow> file_document \<Rightarrow> file_document" where
  "archive_document now d =
     (if fd_status d = Doc_EXPIRED \<and> expires_by (now - 30 * ms_day) d then d\<lparr>fd_status := Doc_ARCHIVED, fd_archivedAt := Some now\<rparr> else d)"

definition expire_document :: "time \<Rightarrow> file_document \<Rightarrow> file_document" where
  "expire_document now d =
     (if fd_status d = Doc_ACTIVE \<and> expires_by now d then d\<lparr>fd_isExpired := True, fd_status := Doc_EXPIRED\<rparr> else d)"

lemma nightly_document_steps: "archive_document now (expire_document now d) = nightly_document now d"
proof -
  have earlier: "expires_by (now - 30 * ms_day) d \<Longrightarrow> expires_by now d" by (erule expires_mono) simp
  show ?thesis
  proof (cases "fd_status d")
    case Doc_ACTIVE
    then show ?thesis using earlier
      by (cases "expires_by now d"; cases "expires_by (now - 30 * ms_day) d")
        (simp_all add: archive_document_def expire_document_def nightly_document_def del: ms_day_def)
  qed (simp_all add: archive_document_def expire_document_def nightly_document_def)
qed

lemma mark_expired_rows:
  "ds_documents (snd (markExpiredDocuments now s)) = map (archive_document now) (map (expire_document now) (ds_documents s))"
  unfolding markExpiredDocuments_def update_documents_def Let_def prod.case snd_conv
  by (simp add: tbl_update_many_def archive_document_def expire_document_def)

text \<open>One run of the nightly job for documents is one pass: an active document whose date has come is marked and expired, one
  whose date is thirty days past is archived in the same run, whether it was active or expired before, and the counts that are
  returned are the numbers of documents that were expired and archived.\<close>

theorem document_expiry_is_one_pass:
  "ds_documents (snd (markExpiredDocuments now s)) = map (nightly_document now) (ds_documents s)
   \<and> fst (markExpiredDocuments now s) =
     (length (filter (\<lambda>d. fd_status d = Doc_ACTIVE \<and> expires_by now d) (ds_documents s)),
      length (filter (\<lambda>d. fd_status d \<noteq> Doc_ARCHIVED \<and> expires_by (now - 30 * ms_day) d) (ds_documents s)))"
proof -
  have sel: "fd_status (expire_document now d) = Doc_EXPIRED \<and> expires_by (now - 30 * ms_day) (expire_document now d)
      \<longleftrightarrow> fd_status d \<noteq> Doc_ARCHIVED \<and> expires_by (now - 30 * ms_day) d" for d
  proof -
    have "expires_by (now - 30 * ms_day) d \<Longrightarrow> expires_by now d" by (erule expires_mono) simp
    then show ?thesis by (cases "fd_status d") (auto simp: expire_document_def simp del: ms_day_def)
  qed
  have "fst (markExpiredDocuments now s) =
     (length (filter (\<lambda>d. fd_status d = Doc_ACTIVE \<and> expires_by now d) (ds_documents s)),
      length (filter (\<lambda>d. fd_status d = Doc_EXPIRED \<and> expires_by (now - 30 * ms_day) d) (map (expire_document now) (ds_documents s))))"
    unfolding markExpiredDocuments_def update_documents_def Let_def prod.case fst_conv
    by (simp only: tbl_count_def tbl_update_many_def expire_document_def [abs_def]) simp
  then show ?thesis by (simp only: mark_expired_rows map_map o_def nightly_document_steps filter_map length_map sel)
qed

text \<open>A document that is given a new date after it has expired is deleted all the same: the update leaves it marked, and the
  clean-up goes by the mark.\<close>

theorem renewed_document_is_deleted:
  assumes "find_document i s = Some d" and "fd_isExpired d" and "yd_isExpired y = None" and "yd_expiresAt y = Some e"
    and "distinct (map fd_id (ds_documents s))"
  shows "\<exists>d'. fst (documents_update i y s) = Inr d' \<and> fd_expiresAt d' = Some e \<and> fd_status d' = fd_status d
    \<and> find_document i (snd (deleteExpired (snd (documents_update i y s)))) = None"
proof -
  define s1 where "s1 = snd (documents_update i y s)"
  have s1: "s1 = update_document i (apply_document_update y) s"
    using assms(1) by (simp add: s1_def documents_update_def documents_findOne_def)
  then have row: "find_document i s1 = Some (apply_document_update y d)" using assms(1) by (simp add: find_update_document)
  have "distinct (map fd_id (ds_documents s1))"
    using assms(5) by (simp add: s1 update_document_def tbl_update_keys)
  then have "r = apply_document_update y d" if "r \<in> set (ds_documents s1)" "fd_id r = i" for r
    using that row tbl_find_distinct [of fd_id "ds_documents s1" r] by simp
  moreover have "fd_isExpired (apply_document_update y d)" using assms(2,3) by (simp add: apply_document_update_def)
  ultimately have "fd_isExpired r" if "r \<in> set (ds_documents s1)" "fd_id r = i" for r using that by blast
  then have "find_document i (snd (deleteExpired s1)) = None"
    by (auto simp: deleteExpired_def delete_documents_def tbl_find_None)
  then show ?thesis using assms(1-4)
    by (simp add: s1_def [symmetric]) (simp add: documents_update_def documents_findOne_def apply_document_update_def)
qed

subsection \<open>Signatures\<close>

text \<open>A document is signed once, and then verifies for ever: a second signature is refused, and the verification answers yes
  after any later update and for any text that is stored as the hash, since it compares nothing.\<close>

theorem signed_once_verifies_for_ever:
  assumes "signDocument sha256 i signer h now s = (Inr d, s')" and "signer \<noteq> []" and "\<And>x. sha256 x \<noteq> []"
  shows "fst (signDocument sha256 i signer2 h2 later s') = Inl (BadRequest ''Document already signed'')
    \<and> verifySignature i (snd (documents_update i y s')) = Inr True
    \<and> verifySignature i (update_document i (\<lambda>r. r\<lparr>fd_signatureHash := Some (x # xs)\<rparr>) s') = Inr True"
proof -
  obtain r where r: "find_document i s = Some r" "fd_signedAt r = None"
    using assms(1) by (auto simp: signDocument_def documents_findOne_def Let_def split: option.splits if_splits)
  define f :: "file_document \<Rightarrow> file_document" where "f = (\<lambda>d. d\<lparr>fd_signedBy := Some signer, fd_signedAt := Some now,
     fd_signatureHash := Some (sha256 (i @ '':'' @ signer @ '':'' @ h)),
     fd_auditTrail := fd_auditTrail r @ [\<lparr>ae_by = signer, ae_at = now, ae_hash = sha256 (i @ '':'' @ signer @ '':'' @ h)\<rparr>]\<rparr>)"
  have s': "s' = update_document i f s"
    using assms(1) r by (simp add: signDocument_def documents_findOne_def Let_def f_def)
  then have row: "find_document i s' = Some (f r)" using r(1) by (simp add: find_update_document f_def)
  have f: "fd_signedAt (f r) = Some now" "fd_signedBy (f r) = Some signer" "fd_signatureHash (f r) \<noteq> Some []" "fd_signatureHash (f r) \<noteq> None"
    using assms(3) by (simp_all add: f_def)
  then show ?thesis using row assms(2)
    by (simp add: signDocument_def verifySignature_def documents_update_def documents_findOne_def find_update_document apply_document_update_def)
qed

subsection \<open>Examples\<close>

definition example_document :: create_document_dto where
  "example_document = \<lparr>xd_propertyId = None, xd_documentType = CONTRACT, xd_fileName = ''a.pdf'', xd_fileUrl = ''documents/u2/secret.pdf'',
     xd_fileSize = None, xd_mimeType = None, xd_description = None, xd_category = None, xd_tags = None, xd_expiresAt = Some 100\<rparr>"

definition no_documents :: documents_state where
  "no_documents = \<lparr>ds_documents = [], ds_versions = []\<rparr>"

definition one_document :: documents_state where
  "one_document = snd (documents_create ''d1'' example_document ''u1'' 0 no_documents)"

definition new_date :: "time \<Rightarrow> update_document_dto" where
  "new_date e = \<lparr>yd_description = None, yd_category = None, yd_tags = None, yd_expiresAt = Some e, yd_isExpired = None\<rparr>"

lemma one_document_row:
  "ds_documents one_document = [fst (documents_create ''d1'' example_document ''u1'' 0 no_documents)]"
  "fd_id (fst (documents_create ''d1'' example_document ''u1'' 0 no_documents)) = ''d1''"
  "fd_signedAt (fst (documents_create ''d1'' example_document ''u1'' 0 no_documents)) = None"
  by (simp_all add: one_document_def documents_create_def no_documents_def tbl_create_def Let_def)

theorem any_object_downloadable_witness:
  "doc_download (\<lambda>r. Inr \<lparr>su_url = ''https://store/'' @ sr_objectKey r, su_objectKey = sr_objectKey r\<rparr>) (\<lambda>_. None) ''d1'' None ''u1''
     (Some ''USER'') one_document = Inr ''https://store/documents/u2/secret.pdf''"
proof -
  have "find_document ''d1'' no_documents = None" by (simp add: no_documents_def tbl_find_def)
  from any_object_downloadable [OF this] show ?thesis
    unfolding one_document_def by (simp add: getSignedUrl_def toObjectKey_def drop_slash_def example_document_def)
qed

theorem renewed_document_is_deleted_witness:
  "find_document ''d1'' (snd (deleteExpired (snd (documents_update ''d1'' (new_date 500) (snd (markExpiredDocuments 200 one_document)))))) = None"
proof -
  let ?s = "snd (markExpiredDocuments 200 one_document)"
  have "map (\<lambda>d. (fd_id d, fd_isExpired d)) (ds_documents ?s) = [(''d1'', True)]" by code_simp
  then obtain d where d: "ds_documents ?s = [d]" "fd_id d = ''d1''" "fd_isExpired d" by auto
  have hyps: "find_document ''d1'' ?s = Some d" "fd_isExpired d" "yd_isExpired (new_date 500) = None"
    "yd_expiresAt (new_date 500) = Some 500" "distinct (map fd_id (ds_documents ?s))"
    using d by (simp_all add: tbl_find_def new_date_def)
  from renewed_document_is_deleted [OF hyps] show ?thesis by blast
qed

theorem signed_once_verifies_for_ever_witness:
  "\<exists>d s'. signDocument (\<lambda>x. ''h'' @ x) ''d1'' ''u3'' ''sig'' 5 one_document = (Inr d, s')
    \<and> verifySignature ''d1'' (snd (documents_update ''d1'' (new_date 500) s')) = Inr True"
proof -
  obtain d s' where run: "signDocument (\<lambda>x. ''h'' @ x) ''d1'' ''u3'' ''sig'' 5 one_document = (Inr d, s')"
    by (simp add: signDocument_def documents_findOne_def tbl_find_def one_document_row Let_def)
  have "''u3'' \<noteq> []" "\<And>x. ''h'' @ x \<noteq> []" by simp_all
  from signed_once_verifies_for_ever [OF run this] run show ?thesis by blast
qed

end
