(* ===== verification/Property_Images.thy ===== *)
theory Property_Images
  imports Store File_Content
begin

text \<open>
  The gallery of a listing: \<open>src/properties/property-images.service.ts\<close>.

  The table of images and the files below the upload directory, as pairs of the listing and the file name.  sharp is an
  argument: for each uploaded file it says either how many variants were written before it failed, or what it found.
  The owner column of the listings is an argument.  Random parts of names, identifiers and times are given per file.
\<close>

subsection \<open>State\<close>

record image =
  im_id :: string
  im_propertyId :: string
  im_url :: string
  im_thumbnailUrl :: string
  im_mediumUrl :: string
  im_filename :: string
  im_mimeType :: string
  im_size :: int
  im_width :: "int option"
  im_height :: "int option"
  im_order :: int
  im_isPrimary :: bool
  im_uniqueHash :: string
  im_createdAt :: time

record uploaded_image =
  uf_originalname :: string
  uf_mimetype :: string
  uf_size :: int
  uf_buffer :: "bytes option"

datatype sharp_run = Sharp_fails nat | Sharp_ok "int option" "int option" int

record file_run =
  fr_newId :: string
  fr_now :: time
  fr_random :: string
  fr_sharp :: sharp_run

record image_env =
  ie_baseUrl :: string
  ie_maxFileSize :: int
  ie_maxImagesPerProperty :: nat
  ie_sha256 :: "bytes \<Rightarrow> string"
  ie_owner :: "string \<Rightarrow> string option"

record image_state =
  is_images :: "image list"
  is_files :: "(string \<times> string) list"

definition images_of :: "string \<Rightarrow> image_state \<Rightarrow> image list" where
  "images_of propertyId s = filter (\<lambda>i. im_propertyId i = propertyId) (is_images s)"

subsection \<open>Checks\<close>

definition assertCanModifyProperty :: "image_env \<Rightarrow> string \<Rightarrow> string \<Rightarrow> string \<Rightarrow> unit result" where
  "assertCanModifyProperty E propertyId userId userRole =
     (case ie_owner E propertyId of
        None \<Rightarrow> Inl (NotFound ''Property not found'')
      | Some ownerId \<Rightarrow>
          (let isPrivileged = (userRole = ''ADMIN'' \<or> userRole = ''AGENT'')
           in if ownerId \<noteq> userId \<and> \<not> isPrivileged
              then Inl (Forbidden ''You are not allowed to modify images for this property'') else Inr ()))"

definition allowedMimeTypes :: "string list" where
  "allowedMimeTypes = [''image/jpeg'', ''image/png'', ''image/webp'', ''image/gif'', ''image/avif'']"

definition validateFile :: "image_env \<Rightarrow> uploaded_image \<Rightarrow> unit result" where
  "validateFile E file =
     (if uf_buffer file = None then Inl (BadRequest ''Invalid file payload'')
      else if ie_maxFileSize E < uf_size file
      then Inl (BadRequest (''Image '' @ uf_originalname file @ '' exceeds max size''))
      else if uf_mimetype file \<notin> set allowedMimeTypes
      then Inl (BadRequest (''Image '' @ uf_originalname file @ '' has unsupported type ''))
      else Inr ())"

definition check_content :: "uploaded_image \<Rightarrow> unit result" where
  "check_content file =
     (let buffer = the (uf_buffer file)
      in if \<not> matchesMagicBytes buffer (uf_mimetype file)
         then Inl (BadRequest (''File '' @ uf_originalname file @ '' magic bytes do not match declared type ''))
         else case scanForThreats buffer of
             Some reason \<Rightarrow> Inl (BadRequest (''File '' @ uf_originalname file @ '' failed threat scan: '' @ reason))
           | None \<Rightarrow> Inr ())"

fun each_file :: "(uploaded_image \<Rightarrow> unit result) \<Rightarrow> uploaded_image list \<Rightarrow> unit result" where
  "each_file check [] = Inr ()"
| "each_file check (f # fs) = (case check f of Inl e \<Rightarrow> Inl e | Inr _ \<Rightarrow> each_file check fs)"

definition check_duplicate :: "image_state \<Rightarrow> uploaded_image \<Rightarrow> unit result" where
  "check_duplicate s file =
     (if tbl_find im_filename (uf_originalname file) (is_images s) \<noteq> None
      then Inl (BadRequest (''Duplicate image detected: '' @ uf_originalname file)) else Inr ())"

subsection \<open>Files\<close>

definition variant_names :: "string list" where
  "variant_names = [''thumbnail'', ''medium'', ''full'']"

definition variant_file :: "string \<Rightarrow> string \<Rightarrow> string \<Rightarrow> string" where
  "variant_file name base ext = name @ ''_'' @ base @ ''.'' @ ext"

definition variant_files :: "string \<Rightarrow> string list" where
  "variant_files base =
     map (\<lambda>n. variant_file n base ''webp'') variant_names @ map (\<lambda>n. variant_file n base ''avif'') variant_names"

definition base_name :: "time \<Rightarrow> string \<Rightarrow> string" where
  "base_name now random = show_int now @ ''_'' @ random"

definition buildUrl :: "image_env \<Rightarrow> string \<Rightarrow> string \<Rightarrow> string" where
  "buildUrl E propertyId filename = ie_baseUrl E @ ''/uploads/properties'' @ ''/'' @ propertyId @ ''/'' @ filename"

definition generatePerceptualHash :: "image_env \<Rightarrow> bytes \<Rightarrow> string" where
  "generatePerceptualHash E buffer = take 16 (ie_sha256 E buffer)"

definition write_files :: "string \<Rightarrow> string list \<Rightarrow> image_state \<Rightarrow> image_state" where
  "write_files propertyId names s = s\<lparr>is_files := is_files s @ map (Pair propertyId) names\<rparr>"

text \<open>\<open>filename.replace(/\.\w+$/, '')\<close>.\<close>

definition word_char :: "char \<Rightarrow> bool" where
  "word_char c \<longleftrightarrow> word_byte (of_char c)"

definition strip_extension :: "string \<Rightarrow> string" where
  "strip_extension s =
     (let r = rev s
      in if takeWhile word_char r = [] then s
         else case dropWhile word_char r of c # rest \<Rightarrow> if c = CHR ''.'' then rev rest else s | [] \<Rightarrow> s)"

definition removeFilesForImage :: "string \<Rightarrow> string \<Rightarrow> image_state \<Rightarrow> image_state" where
  "removeFilesForImage propertyId baseFilename s =
     s\<lparr>is_files := filter (\<lambda>(d, f). \<not> (d = propertyId \<and> f \<in> set (variant_files (strip_extension baseFilename)))) (is_files s)\<rparr>"

subsection \<open>Uploading\<close>

definition processAndPersist ::
  "image_env \<Rightarrow> uploaded_image \<Rightarrow> file_run \<Rightarrow> string \<Rightarrow> int \<Rightarrow> bool \<Rightarrow> image_state \<Rightarrow> image option \<times> image_state" where
  "processAndPersist E file r propertyId order isPrimary s =
     (let baseName = base_name (fr_now r) (fr_random r)
      in case fr_sharp r of
           Sharp_fails n \<Rightarrow> (None, write_files propertyId (take n (variant_files baseName)) s)
         | Sharp_ok width height fullSize \<Rightarrow>
             (let url = (\<lambda>n. buildUrl E propertyId (variant_file n baseName ''webp''));
                  created = \<lparr>im_id = fr_newId r, im_propertyId = propertyId, im_url = url ''full'', im_thumbnailUrl = url ''thumbnail'',
                    im_mediumUrl = url ''medium'', im_filename = baseName @ ''.webp'', im_mimeType = ''image/webp'',
                    im_size = fullSize, im_width = width, im_height = height, im_order = order, im_isPrimary = isPrimary,
                    im_uniqueHash = generatePerceptualHash E (the (uf_buffer file)), im_createdAt = fr_now r\<rparr>;
                  s1 = write_files propertyId (variant_files baseName) s
              in (Some created, s1\<lparr>is_images := tbl_create created (is_images s1)\<rparr>)))"

text \<open>The loop over the files; \<open>primary\<close> is whether the next file becomes the primary image.\<close>

fun upload_loop ::
  "image_env \<Rightarrow> string \<Rightarrow> (uploaded_image \<times> file_run) list \<Rightarrow> int \<Rightarrow> bool \<Rightarrow> image_state \<Rightarrow> image list \<times> image_state" where
  "upload_loop E propertyId [] nextOrder primary s = ([], s)"
| "upload_loop E propertyId ((file, r) # fs) nextOrder primary s =
     (case processAndPersist E file r propertyId nextOrder primary s of
        (None, s1) \<Rightarrow> upload_loop E propertyId fs nextOrder False s1
      | (Some i, s1) \<Rightarrow> (case upload_loop E propertyId fs (nextOrder + 1) False s1 of (is, s2) \<Rightarrow> (i # is, s2)))"

definition next_order :: "string \<Rightarrow> image_state \<Rightarrow> int" where
  "next_order propertyId s = (case tbl_desc im_order (images_of propertyId s) of [] \<Rightarrow> - 1 | l # _ \<Rightarrow> im_order l) + 1"

definition has_primary :: "string \<Rightarrow> image_state \<Rightarrow> bool" where
  "has_primary propertyId s \<longleftrightarrow> list_ex im_isPrimary (images_of propertyId s)"

definition upload_checks :: "image_env \<Rightarrow> string \<Rightarrow> string \<Rightarrow> string \<Rightarrow> uploaded_image list \<Rightarrow> image_state \<Rightarrow> unit result" where
  "upload_checks E propertyId userId userRole files s =
     (if files = [] then Inl (BadRequest ''At least one image file is required'')
      else case assertCanModifyProperty E propertyId userId userRole of
        Inl e \<Rightarrow> Inl e
      | Inr _ \<Rightarrow> (case each_file (validateFile E) files of
            Inl e \<Rightarrow> Inl e
          | Inr _ \<Rightarrow> (case each_file check_content files of
                Inl e \<Rightarrow> Inl e
              | Inr _ \<Rightarrow>
                  if ie_maxImagesPerProperty E < length (images_of propertyId s) + length files
                  then Inl (BadRequest ''Adding image(s) would exceed the limit per property'')
                  else each_file (check_duplicate s) files)))"

definition uploadImages ::
  "image_env \<Rightarrow> string \<Rightarrow> string \<Rightarrow> string \<Rightarrow> (uploaded_image \<times> file_run) list \<Rightarrow> image_state \<Rightarrow> (image list, image_state) outcome" where
  "uploadImages E propertyId userId userRole fs s =
     (case upload_checks E propertyId userId userRole (map fst fs) s of
        Inl e \<Rightarrow> (Inl e, s)
      | Inr _ \<Rightarrow>
          (let (created, s1) = upload_loop E propertyId fs (next_order propertyId s) (\<not> has_primary propertyId s) s
           in if created = [] then (Inl (BadRequest ''No images could be processed''), s1) else (Inr created, s1)))"

subsection \<open>Listing, deleting, ordering\<close>

definition listImages :: "string \<Rightarrow> image_state \<Rightarrow> image list" where
  "listImages propertyId s = tbl_asc im_order (tbl_asc im_createdAt (images_of propertyId s))"

definition find_image :: "string \<Rightarrow> string \<Rightarrow> image_state \<Rightarrow> image result" where
  "find_image propertyId imageId s =
     (case tbl_find im_id imageId (is_images s) of
        None \<Rightarrow> Inl (NotFound ''Image not found'')
      | Some i \<Rightarrow> if im_propertyId i \<noteq> propertyId then Inl (NotFound ''Image not found'') else Inr i)"

definition deleteImage :: "image_env \<Rightarrow> string \<Rightarrow> string \<Rightarrow> string \<Rightarrow> string \<Rightarrow> image_state \<Rightarrow> (unit, image_state) outcome" where
  "deleteImage E propertyId imageId userId userRole s =
     (case assertCanModifyProperty E propertyId userId userRole of
        Inl e \<Rightarrow> (Inl e, s)
      | Inr _ \<Rightarrow> (case find_image propertyId imageId s of
            Inl e \<Rightarrow> (Inl e, s)
          | Inr img \<Rightarrow>
              (let s1 = removeFilesForImage propertyId (im_filename img) s;
                   s2 = s1\<lparr>is_images := tbl_delete_many (\<lambda>i. im_id i = imageId) (is_images s1)\<rparr>;
                   s3 = (if \<not> im_isPrimary img then s2
                     else case tbl_asc im_order (images_of propertyId s2) of
                         [] \<Rightarrow> s2
                       | n # _ \<Rightarrow> s2\<lparr>is_images := tbl_update im_id (im_id n) (\<lambda>i. i\<lparr>im_isPrimary := True\<rparr>) (is_images s2)\<rparr>)
               in (Inr (), s3))))"

fun set_orders :: "string list \<Rightarrow> int \<Rightarrow> image list \<Rightarrow> image list" where
  "set_orders [] idx t = t"
| "set_orders (i # is) idx t = set_orders is (idx + 1) (tbl_update im_id i (\<lambda>r. r\<lparr>im_order := idx\<rparr>) t)"

definition reorderImages ::
  "image_env \<Rightarrow> string \<Rightarrow> string list \<Rightarrow> string \<Rightarrow> string \<Rightarrow> image_state \<Rightarrow> (image list, image_state) outcome" where
  "reorderImages E propertyId imageIds userId userRole s =
     (case assertCanModifyProperty E propertyId userId userRole of
        Inl e \<Rightarrow> (Inl e, s)
      | Inr _ \<Rightarrow>
          (let existingIds = map im_id (images_of propertyId s)
           in if length imageIds \<noteq> card (set existingIds)
              then (Inl (BadRequest ''Reorder list must contain exactly all image IDs of this property''), s)
              else case List.find (\<lambda>i. i \<notin> set existingIds) imageIds of
                  Some i \<Rightarrow> (Inl (BadRequest (''Image '' @ i @ '' does not belong to property '' @ propertyId)), s)
                | None \<Rightarrow> (let s1 = s\<lparr>is_images := set_orders imageIds 0 (is_images s)\<rparr> in (Inr (listImages propertyId s1), s1))))"

definition setPrimaryImage ::
  "image_env \<Rightarrow> string \<Rightarrow> string \<Rightarrow> string \<Rightarrow> string \<Rightarrow> image_state \<Rightarrow> (image option, image_state) outcome" where
  "setPrimaryImage E propertyId imageId userId userRole s =
     (case assertCanModifyProperty E propertyId userId userRole of
        Inl e \<Rightarrow> (Inl e, s)
      | Inr _ \<Rightarrow> (case find_image propertyId imageId s of
            Inl e \<Rightarrow> (Inl e, s)
          | Inr _ \<Rightarrow>
              (let t1 = tbl_update_many (\<lambda>i. im_propertyId i = propertyId \<and> im_isPrimary i) (\<lambda>i. i\<lparr>im_isPrimary := False\<rparr>) (is_images s);
                   t2 = tbl_update im_id imageId (\<lambda>i. i\<lparr>im_isPrimary := True\<rparr>) t1
               in (Inr (tbl_find im_id imageId t2), s\<lparr>is_images := t2\<rparr>))))"

subsection \<open>Serving\<close>

text \<open>A served file: its name, its content type and the age for caches in seconds.  \<open>avif_ok\<close> is whether sharp can encode.\<close>

definition serveOptimizedImage :: "bool \<Rightarrow> string \<Rightarrow> string \<Rightarrow> image_state \<Rightarrow> (string \<times> string \<times> int, image_state) outcome" where
  "serveOptimizedImage avif_ok imageId acceptHeader s =
     (case tbl_find im_id imageId (is_images s) of
        None \<Rightarrow> (Inl (NotFound ''Image not found''), s)
      | Some img \<Rightarrow>
          (let dir = im_propertyId img; baseName = strip_extension (im_filename img); there = (\<lambda>f. (dir, f) \<in> set (is_files s));
               avif = variant_file ''full'' baseName ''avif''; webp = variant_file ''full'' baseName ''webp''
           in if js_includes ''image/avif'' acceptHeader then
                (if there avif then (Inr (avif, ''image/avif'', 86400 * 30), s)
                 else if \<not> there webp \<or> \<not> avif_ok then (Inl (InternalError ''Internal server error''), s)
                 else (Inr (avif, ''image/avif'', 86400 * 30), write_files dir [avif] s))
              else if js_includes ''image/webp'' acceptHeader \<and> there webp then (Inr (webp, ''image/webp'', 86400 * 7), s)
              else if there (im_filename img)
              then (Inr (im_filename img, if im_mimeType img = [] then ''application/octet-stream'' else im_mimeType img, 3600), s)
              else (Inl (InternalError ''Internal server error''), s)))"

subsection \<open>Statistics\<close>

text \<open>\<open>Math.round(size * 3.2)\<close> and the percentages, on exact numbers.\<close>

definition round_div :: "int \<Rightarrow> int \<Rightarrow> int" where
  "round_div a b = (2 * a + b) div (2 * b)"

definition original_size :: "int \<Rightarrow> int" where
  "original_size n = round_div (n * 16) 5"

definition savings_percent :: "int \<Rightarrow> int \<Rightarrow> int" where
  "savings_percent original optimized = (if 0 < original then round_div ((original - optimized) * 100) original else 0)"

record image_stats =
  st_imageCount :: nat
  st_totalOriginal :: int
  st_totalOptimized :: int
  st_savings :: int
  st_averageSavings :: int
  st_images :: "(string \<times> int \<times> int \<times> int) list"

definition getImageStats :: "string \<Rightarrow> image_state \<Rightarrow> image_stats" where
  "getImageStats propertyId s =
     (let images = tbl_asc im_order (images_of propertyId s);
          stats = map (\<lambda>i. (im_id i, original_size (im_size i), im_size i, savings_percent (original_size (im_size i)) (im_size i))) images;
          totalOriginal = sum_list (map (\<lambda>i. original_size (im_size i)) images);
          totalOptimized = sum_list (map im_size images)
      in \<lparr>st_imageCount = length images, st_totalOriginal = totalOriginal, st_totalOptimized = totalOptimized,
          st_savings = savings_percent totalOriginal totalOptimized,
          st_averageSavings = (if images = [] then 0
            else round_div (sum_list (map (\<lambda>(_, _, _, p). p) stats)) (int (length images))),
          st_images = stats\<rparr>)"

end
