(* ===== verification/Image_Life.thy ===== *)
theory Image_Life
  imports Property_Images
begin

text \<open>
  What the operations on a gallery guarantee: one primary image, the order, and the files that are served.
\<close>

subsection \<open>Counting rows\<close>

lemma tbl_count_update:
  assumes "distinct (map key t)" and "tbl_find key k t = Some r"
  shows "tbl_count P (tbl_update key k f t) + (if P r then 1 else 0) = tbl_count P t + (if P (f r) then 1 else 0)"
  using assms
proof (induction t)
  case (Cons x t)
  show ?case
  proof (cases "key x = k")
    case True
    then have "key y \<noteq> k" if "y \<in> set t" for y using Cons.prems(1) that True by (metis distinct.simps(2) imageI list.map(2) set_map)
    then have "tbl_update key k f t = t" by (simp add: tbl_update_def map_idI)
    then show ?thesis using True Cons.prems by (simp add: tbl_update_def tbl_count_def tbl_find_def)
  next
    case False
    then show ?thesis using Cons by (simp add: tbl_update_def tbl_count_def tbl_find_def)
  qed
qed (simp add: tbl_find_def)

lemma tbl_count_delete:
  assumes "distinct (map key t)" and "tbl_find key k t = Some r"
  shows "tbl_count P (tbl_delete_many (\<lambda>x. key x = k) t) + (if P r then 1 else 0) = tbl_count P t"
  using assms
proof (induction t)
  case (Cons x t)
  show ?case
  proof (cases "key x = k")
    case True
    then have "key y \<noteq> k" if "y \<in> set t" for y using Cons.prems(1) that True by (metis distinct.simps(2) imageI list.map(2) set_map)
    then have "tbl_delete_many (\<lambda>x. key x = k) t = t" by (simp add: tbl_delete_many_def)
    then show ?thesis using True Cons.prems by (simp add: tbl_delete_many_def tbl_count_def tbl_find_def)
  next
    case False
    then show ?thesis using Cons by (simp add: tbl_delete_many_def tbl_count_def tbl_find_def)
  qed
qed (simp add: tbl_find_def)

lemma tbl_count_le_update_many:
  "(\<And>r. P (f r) \<Longrightarrow> P r) \<Longrightarrow> tbl_count P (tbl_update_many q f t) \<le> tbl_count P t"
  by (induction t) (auto simp: tbl_count_def tbl_update_many_def)

subsection \<open>Steps\<close>

inductive image_step :: "image_env \<Rightarrow> image_state \<Rightarrow> image_state \<Rightarrow> bool" for E where
  upload: "distinct (map (fr_newId \<circ> snd) fs) \<Longrightarrow> fr_newId ` snd ` set fs \<inter> im_id ` set (is_images s) = {}
    \<Longrightarrow> distinct (map (\<lambda>(_, r). base_name (fr_now r) (fr_random r)) fs)
    \<Longrightarrow> (\<And>f r. (f, r) \<in> set fs \<Longrightarrow> base_name (fr_now r) (fr_random r) @ ''.webp'' \<notin> im_filename ` set (is_images s))
    \<Longrightarrow> image_step E s (snd (uploadImages E i u role fs s))"
| delete: "image_step E s (snd (deleteImage E i img u role s))"
| reorder: "image_step E s (snd (reorderImages E i ids u role s))"
| primary: "image_step E s (snd (setPrimaryImage E i img u role s))"
| serve: "image_step E s (snd (serveOptimizedImage avif_ok img header s))"

definition primaries :: "string \<Rightarrow> image_state \<Rightarrow> nat" where
  "primaries p s = tbl_count (\<lambda>i. im_propertyId i = p \<and> im_isPrimary i) (is_images s)"

definition ids_distinct :: "image_state \<Rightarrow> bool" where
  "ids_distinct s \<longleftrightarrow> distinct (map im_id (is_images s))"

lemma set_orders_map:
  "(\<And>r x. g (r\<lparr>im_order := x\<rparr>) = g r) \<Longrightarrow> map g (set_orders ids n t) = map g t"
proof (induction ids arbitrary: n t)
  case (Cons i "ids")
  then show ?case by (simp add: tbl_update_def o_def if_distrib cong: if_cong)
qed simp

lemma tbl_count_map: "map (\<lambda>r. (P r)) t = map (\<lambda>r. (P r)) t' \<Longrightarrow> tbl_count P t = tbl_count P t'"
proof (induction t arbitrary: t')
  case (Cons x t)
  then show ?case by (cases t') (auto simp: tbl_count_def)
qed (simp add: tbl_count_def)

subsection \<open>One primary image\<close>

lemma process_cases:
  obtains (failed) n where "processAndPersist E f r p k b s = (None, write_files p (take n (variant_files (base_name (fr_now r) (fr_random r)))) s)"
  | (stored) i where "processAndPersist E f r p k b s = (Some i, (write_files p (variant_files (base_name (fr_now r) (fr_random r))) s)
        \<lparr>is_images := tbl_create i (is_images s)\<rparr>)"
      "im_id i = fr_newId r" "im_propertyId i = p" "im_isPrimary i = b" "im_order i = k"
      "im_filename i = base_name (fr_now r) (fr_random r) @ ''.webp''" "\<exists>w h n. fr_sharp r = Sharp_ok w h n"
  by (cases "fr_sharp r") (auto simp: processAndPersist_def Let_def write_files_def)

lemma write_files_images [simp]: "is_images (write_files p xs s) = is_images s"
  by (simp add: write_files_def)

lemma upload_loop_primaries:
  "upload_loop E p fs k b s = (is, s') \<Longrightarrow> primaries q s' \<le> primaries q s + (if q = p \<and> b then 1 else 0)"
proof (induction fs arbitrary: k b s "is")
  case (Cons fr fs)
  obtain f r where fr: "fr = (f, r)" by (cases fr)
  show ?case
  proof (cases rule: process_cases [of E f r p k b s])
    case (failed n)
    let ?s1 = "write_files p (take n (variant_files (base_name (fr_now r) (fr_random r)))) s"
    have "upload_loop E p fs k False ?s1 = (is, s')" using Cons.prems failed by (simp add: fr)
    from Cons.IH [OF this] have "primaries q s' \<le> primaries q ?s1" by simp
    moreover have "primaries q ?s1 = primaries q s" by (simp add: primaries_def)
    ultimately show ?thesis by simp
  next
    case (stored i)
    obtain js s2 where rest: "upload_loop E p fs (k + 1) False ((write_files p (variant_files (base_name (fr_now r) (fr_random r))) s)
        \<lparr>is_images := tbl_create i (is_images s)\<rparr>) = (js, s2)" by fastforce
    have "s2 = s'" using Cons.prems stored(1) rest by (simp add: fr)
    note loop = rest [unfolded this]
    show ?thesis using Cons.IH [OF loop] stored(3,4) by (auto simp: primaries_def tbl_count_create split: if_splits)
  qed
qed simp

lemma upload_loop_ids:
  "upload_loop E p fs k b s = (is, s') \<Longrightarrow> distinct (map (fr_newId \<circ> snd) fs) \<Longrightarrow> fr_newId ` snd ` set fs \<inter> im_id ` set (is_images s) = {}
   \<Longrightarrow> ids_distinct s \<Longrightarrow> ids_distinct s'"
proof (induction fs arbitrary: k b s "is")
  case (Cons fr fs)
  obtain f r where fr: "fr = (f, r)" by (cases fr)
  show ?case
  proof (cases rule: process_cases [of E f r p k b s])
    case (failed n)
    let ?s1 = "write_files p (take n (variant_files (base_name (fr_now r) (fr_random r)))) s"
    have loop: "upload_loop E p fs k False ?s1 = (is, s')" using Cons.prems failed by (simp add: fr)
    show ?thesis using Cons.IH [OF loop] Cons.prems(2-4) by (simp add: ids_distinct_def)
  next
    case (stored i)
    let ?s1 = "(write_files p (variant_files (base_name (fr_now r) (fr_random r))) s)\<lparr>is_images := tbl_create i (is_images s)\<rparr>"
    obtain js s2 where rest: "upload_loop E p fs (k + 1) False ?s1 = (js, s2)" by fastforce
    have "s2 = s'" using Cons.prems stored(1) rest by (simp add: fr)
    note loop = rest [unfolded this]
    moreover have "ids_distinct ?s1" using Cons.prems stored(2) by (auto simp: ids_distinct_def tbl_create_def fr)
    moreover have "fr_newId ` snd ` set fs \<inter> im_id ` set (is_images ?s1) = {}"
      using Cons.prems stored(2) by (auto simp: tbl_create_def fr image_iff)
    ultimately show ?thesis using Cons.IH [OF loop] Cons.prems(2) by simp
  qed
qed simp

lemma has_primary_iff: "has_primary p s \<longleftrightarrow> primaries p s \<noteq> 0"
  by (auto simp: has_primary_def primaries_def images_of_def list_ex_iff tbl_count_zero_iff)

lemma upload_step:
  assumes "ids_distinct s" and "primaries q s \<le> 1"
    and "distinct (map (fr_newId \<circ> snd) fs)" and "fr_newId ` snd ` set fs \<inter> im_id ` set (is_images s) = {}"
  shows "primaries q (snd (uploadImages E i u role fs s)) \<le> 1 \<and> ids_distinct (snd (uploadImages E i u role fs s))"
proof (cases "upload_checks E i u role (map fst fs) s")
  case (Inr x)
  obtain "is" s1 where loop: "upload_loop E i fs (next_order i s) (\<not> has_primary i s) s = (is, s1)" by fastforce
  have "primaries q s1 \<le> 1"
    using upload_loop_primaries [OF loop, of q] assms(2) by (auto simp: has_primary_iff split: if_splits)
  moreover have "ids_distinct s1" using upload_loop_ids [OF loop assms(3,4,1)] .
  ultimately show ?thesis using Inr loop by (simp add: uploadImages_def Let_def)
qed (use assms in \<open>simp add: uploadImages_def\<close>)

lemma remove_files_images [simp]: "is_images (removeFilesForImage p f s) = is_images s"
  by (simp add: removeFilesForImage_def)

lemma find_image_Inr: "find_image p k s = Inr i \<longleftrightarrow> tbl_find im_id k (is_images s) = Some i \<and> im_propertyId i = p"
  by (auto simp: find_image_def split: option.split)

lemma delete_step:
  assumes "ids_distinct s" and "primaries q s \<le> 1"
  shows "primaries q (snd (deleteImage E p k u role s)) \<le> 1 \<and> ids_distinct (snd (deleteImage E p k u role s))"
proof (cases "\<exists>i. assertCanModifyProperty E p u role = Inr () \<and> find_image p k s = Inr i")
  case True
  then obtain i where ok: "assertCanModifyProperty E p u role = Inr ()" and i: "tbl_find im_id k (is_images s) = Some i" "im_propertyId i = p"
    "find_image p k s = Inr i" by (auto simp: find_image_Inr)
  define s2 where "s2 = (removeFilesForImage p (im_filename i) s)\<lparr>is_images := tbl_delete_many (\<lambda>i. im_id i = k) (is_images s)\<rparr>"
  have count: "primaries q s2 + (if p = q \<and> im_isPrimary i then 1 else 0) = primaries q s" for q
    using tbl_count_delete [of im_id "is_images s" k i "\<lambda>i. im_propertyId i = q \<and> im_isPrimary i"] assms(1) i(1,2)
    by (simp add: primaries_def s2_def ids_distinct_def)
  have dist: "ids_distinct s2" using assms(1) by (simp add: ids_distinct_def s2_def tbl_delete_many_def distinct_map_filter)
  have res: "snd (deleteImage E p k u role s) = (if \<not> im_isPrimary i then s2
      else case tbl_asc im_order (images_of p s2) of [] \<Rightarrow> s2
        | n # _ \<Rightarrow> s2\<lparr>is_images := tbl_update im_id (im_id n) (\<lambda>i. i\<lparr>im_isPrimary := True\<rparr>) (is_images s2)\<rparr>)"
    unfolding deleteImage_def ok i(3) sum.case Let_def snd_conv s2_def remove_files_images by (rule refl)
  show ?thesis
  proof (cases "im_isPrimary i \<and> images_of p s2 \<noteq> []")
    case True
    then obtain n ns where n: "tbl_asc im_order (images_of p s2) = n # ns"
      by (metis list.exhaust set_empty set_tbl_asc)
    then have "n \<in> set (images_of p s2)" by (metis list.set_intros(1) set_tbl_asc)
    then have find: "tbl_find im_id (im_id n) (is_images s2) = Some n" and "im_propertyId n = p"
      using dist tbl_find_distinct by (auto simp: images_of_def ids_distinct_def)
    let ?s3 = "s2\<lparr>is_images := tbl_update im_id (im_id n) (\<lambda>i. i\<lparr>im_isPrimary := True\<rparr>) (is_images s2)\<rparr>"
    have "primaries q ?s3 \<le> primaries q s2 + (if p = q then 1 else 0)"
      using tbl_count_update [of im_id "is_images s2" "im_id n" n "\<lambda>i. im_propertyId i = q \<and> im_isPrimary i" "\<lambda>i. i\<lparr>im_isPrimary := True\<rparr>"]
        find dist \<open>im_propertyId n = p\<close> by (auto simp: primaries_def ids_distinct_def split: if_splits)
    moreover have "ids_distinct ?s3" using dist by (simp add: ids_distinct_def tbl_update_keys)
    ultimately show ?thesis using res True n count [of q] assms(2) by (auto split: if_splits)
  next
    case False
    then have "snd (deleteImage E p k u role s) = s2"
      using res by (auto simp: tbl_asc_def)
    then show ?thesis using dist count [of q] assms(2) by (auto split: if_splits)
  qed
next
  case False
  then have "snd (deleteImage E p k u role s) = s" by (auto simp: deleteImage_def split: sum.split)
  then show ?thesis using assms by simp
qed

lemma reorder_step: "primaries q (snd (reorderImages E p ids u role s)) = primaries q s
    \<and> map im_id (is_images (snd (reorderImages E p ids u role s))) = map im_id (is_images s)"
proof -
  have "tbl_count (\<lambda>i. im_propertyId i = q \<and> im_isPrimary i) (set_orders ids 0 (is_images s))
      = tbl_count (\<lambda>i. im_propertyId i = q \<and> im_isPrimary i) (is_images s)"
    by (rule tbl_count_map, rule set_orders_map) simp
  then show ?thesis
    by (auto simp: reorderImages_def Let_def primaries_def set_orders_map split: sum.split option.split)
qed

lemma primary_step:
  assumes "ids_distinct s" and "primaries q s \<le> 1"
  shows "primaries q (snd (setPrimaryImage E p k u role s)) \<le> 1 \<and> ids_distinct (snd (setPrimaryImage E p k u role s))"
proof (cases "\<exists>i. assertCanModifyProperty E p u role = Inr () \<and> find_image p k s = Inr i")
  case True
  then obtain i where ok: "assertCanModifyProperty E p u role = Inr ()" and i: "tbl_find im_id k (is_images s) = Some i" "im_propertyId i = p"
    "find_image p k s = Inr i" by (auto simp: find_image_Inr)
  let ?P = "\<lambda>q i. im_propertyId i = q \<and> im_isPrimary i"
  define t1 where "t1 = tbl_update_many (?P p) (\<lambda>i. i\<lparr>im_isPrimary := False\<rparr>) (is_images s)"
  have ids: "map im_id t1 = map im_id (is_images s)" by (simp add: t1_def tbl_update_many_def)
  have "i \<in> set (is_images s)" "im_id i = k" using tbl_find_Some [OF i(1)] by auto
  then have "i\<lparr>im_isPrimary := False\<rparr> \<in> set t1 \<or> i \<in> set t1" by (force simp: t1_def tbl_update_many_def)
  then obtain j where j: "j \<in> set t1" "im_id j = k" "im_propertyId j = p" using i(2) \<open>im_id i = k\<close> by fastforce
  then have find: "tbl_find im_id k t1 = Some j"
    using tbl_find_distinct [of im_id t1 j] assms(1) ids by (simp add: ids_distinct_def)
  have "tbl_count (?P p) t1 = 0" unfolding t1_def by (rule tbl_update_many_count_gone) auto
  moreover have "tbl_count (?P q) t1 \<le> tbl_count (?P q) (is_images s)" unfolding t1_def by (rule tbl_count_le_update_many) simp
  ultimately have "tbl_count (?P q) (tbl_update im_id k (\<lambda>i. i\<lparr>im_isPrimary := True\<rparr>) t1) \<le> 1"
    using tbl_count_update [of im_id t1 k j "?P q" "\<lambda>i. i\<lparr>im_isPrimary := True\<rparr>"] find assms ids j(3)
    by (auto simp: primaries_def ids_distinct_def split: if_splits)
  moreover have "snd (setPrimaryImage E p k u role s) = s\<lparr>is_images := tbl_update im_id k (\<lambda>i. i\<lparr>im_isPrimary := True\<rparr>) t1\<rparr>"
    using ok i(3) by (simp add: setPrimaryImage_def Let_def t1_def)
  ultimately show ?thesis using assms(1) ids by (simp add: primaries_def ids_distinct_def tbl_update_keys)
next
  case False
  then have "snd (setPrimaryImage E p k u role s) = s" by (auto simp: setPrimaryImage_def split: sum.split)
  then show ?thesis using assms by simp
qed

lemma serve_images [simp]: "is_images (snd (serveOptimizedImage b k h s)) = is_images s"
  by (cases "tbl_find im_id k (is_images s)") (simp_all add: serveOptimizedImage_def Let_def)

lemma image_step_primary:
  "image_step E s s' \<Longrightarrow> ids_distinct s \<and> primaries q s \<le> 1 \<Longrightarrow> ids_distinct s' \<and> primaries q s' \<le> 1"
proof (induction rule: image_step.induct)
  case (reorder s i ids u role)
  then show ?case using reorder_step [of q E i ids u role s] by (simp add: ids_distinct_def)
next
  case (serve s b k h)
  then show ?case by (simp add: ids_distinct_def primaries_def)
next
  case (upload fs s i u role)
  show ?case using upload_step [of s q fs E i u role] upload.hyps(1,2) upload.prems by simp
next
  case (delete s i img u role)
  show ?case using delete_step [of s q E i img u role] delete.prems by simp
next
  case (primary s i img u role)
  show ?case using primary_step [of s q E i img u role] primary.prems by simp
qed

text \<open>C31: A listing never has two primary images, whatever is uploaded, deleted, reordered and chosen.\<close>

theorem one_primary_image:
  assumes "(image_step E)\<^sup>*\<^sup>* s s'" and "distinct (map im_id (is_images s))" and "primaries p s \<le> 1"
  shows "primaries p s' \<le> 1"
proof -
  have "ids_distinct s' \<and> primaries p s' \<le> 1"
    using assms(1) by (induction rule: rtranclp_induct) (use assms(2,3) image_step_primary in \<open>auto simp: ids_distinct_def\<close>)
  then show ?thesis ..
qed

lemma loop_no_primary: "upload_loop E p fs k False s = (is, s') \<Longrightarrow> has_primary p s' = has_primary p s"
proof (induction fs arbitrary: k s "is")
  case (Cons fr fs)
  obtain f r where fr: "fr = (f, r)" by (cases fr)
  show ?case
  proof (cases rule: process_cases [of E f r p k False s])
    case (failed n)
    then have "upload_loop E p fs k False (write_files p (take n (variant_files (base_name (fr_now r) (fr_random r)))) s) = (is, s')"
      using Cons.prems by (simp add: fr)
    from Cons.IH [OF this] show ?thesis by (simp add: has_primary_def images_of_def)
  next
    case (stored i)
    let ?s1 = "(write_files p (variant_files (base_name (fr_now r) (fr_random r))) s)\<lparr>is_images := tbl_create i (is_images s)\<rparr>"
    obtain js where "upload_loop E p fs (k + 1) False ?s1 = (js, s')"
      using Cons.prems stored(1) by (auto simp: fr split: prod.splits)
    from Cons.IH [OF this] show ?thesis using stored(4) by (simp add: has_primary_def images_of_def tbl_create_def)
  qed
qed simp

text \<open>After an upload the listing has a primary image exactly when it had one before or the first file could be processed: when
  that file fails and others succeed, a listing without a primary image stays without.\<close>

theorem primary_needs_first_file:
  assumes "uploadImages E p u role fs s = (Inr created, s')"
  shows "has_primary p s' \<longleftrightarrow> has_primary p s \<or> (\<exists>w h n. fr_sharp (snd (hd fs)) = Sharp_ok w h n)"
proof -
  have "fs \<noteq> []" using assms by (auto simp: uploadImages_def upload_checks_def)
  then obtain f r rest where fs: "fs = (f, r) # rest" by (metis list.exhaust surj_pair)
  have loop: "upload_loop E p fs (next_order p s) (\<not> has_primary p s) s = (created, s')"
    using assms by (auto simp: uploadImages_def Let_def split: sum.splits prod.splits if_splits)
  show ?thesis
  proof (cases rule: process_cases [of E f r p "next_order p s" "\<not> has_primary p s" s])
    case (failed n)
    then have "upload_loop E p rest (next_order p s) False (write_files p (take n (variant_files (base_name (fr_now r) (fr_random r)))) s)
      = (created, s')" using loop by (simp add: fs)
    from loop_no_primary [OF this] have "has_primary p s' = has_primary p s" by (simp add: has_primary_def images_of_def)
    moreover have "fr_sharp r \<noteq> Sharp_ok w h m" for w h m using failed by (auto simp: processAndPersist_def Let_def)
    ultimately show ?thesis by (simp add: fs)
  next
    case (stored i)
    let ?s1 = "(write_files p (variant_files (base_name (fr_now r) (fr_random r))) s)\<lparr>is_images := tbl_create i (is_images s)\<rparr>"
    obtain js where "upload_loop E p rest (next_order p s + 1) False ?s1 = (js, s')"
      using loop stored(1) by (auto simp: fs split: prod.splits)
    from loop_no_primary [OF this] show ?thesis using stored(3,4,7) by (auto simp: fs has_primary_def images_of_def tbl_create_def)
  qed
qed

subsection \<open>The order\<close>

definition place :: "string list \<Rightarrow> string \<Rightarrow> int" where
  "place ids i = int (length (takeWhile (\<lambda>x. x \<noteq> i) ids))"

lemma place_Cons: "place (i # ids) x = (if x = i then 0 else 1 + place ids x)"
  by (simp add: place_def)

lemma set_orders_places:
  "distinct ids \<Longrightarrow> set_orders ids n t = map (\<lambda>r. if im_id r \<in> set ids then r\<lparr>im_order := n + place ids (im_id r)\<rparr> else r) t"
proof (induction ids arbitrary: n t)
  case (Cons i "ids")
  have IH: "set_orders ids (n + 1) t' = map (\<lambda>r. if im_id r \<in> set ids then r\<lparr>im_order := n + 1 + place ids (im_id r)\<rparr> else r) t'" for t'
    using Cons by simp
  have row: "(\<lambda>r. if im_id r \<in> set ids then r\<lparr>im_order := n + 1 + place ids (im_id r)\<rparr> else r)
        (if im_id r = i then r\<lparr>im_order := n\<rparr> else r)
      = (if im_id r \<in> set (i # ids) then r\<lparr>im_order := n + place (i # ids) (im_id r)\<rparr> else r)" for r
    using Cons.prems by (cases "im_id r = i") (simp_all add: place_Cons)
  show ?case unfolding set_orders.simps IH tbl_update_def map_map o_def row ..
qed simp

lemma place_nth: "distinct ids \<Longrightarrow> j < length ids \<Longrightarrow> place ids (ids ! j) = int j"
proof (induction ids arbitrary: j)
  case (Cons i "ids")
  then show ?case by (cases j) (auto simp: place_def)
qed simp

lemma place_inj: "i \<in> set ids \<Longrightarrow> ids ! nat (place ids i) = i"
  by (induction ids) (auto simp: place_def nat_add_distrib)

text \<open>A list of all images of a listing, each once, becomes their order: the gallery that is returned, and every later
  listing, shows them in that order, numbered from zero.\<close>

theorem reorder_roundtrip:
  assumes "reorderImages E p ids u role s = (Inr rows, s')" and "distinct ids" and "distinct (map im_id (is_images s))"
  shows "map im_id rows = ids \<and> map im_order rows = map int [0..<length ids] \<and> listImages p s' = rows"
proof -
  have len: "length ids = card (im_id ` set (images_of p s))" and sub: "set ids \<subseteq> im_id ` set (images_of p s)"
    and s': "s' = s\<lparr>is_images := set_orders ids 0 (is_images s)\<rparr>" and rows: "rows = listImages p s'"
    using assms(1) by (auto simp: reorderImages_def Let_def find_None_iff split: sum.splits if_splits option.splits)
  have ids: "im_id ` set (images_of p s) = set ids"
    using card_subset_eq [of "im_id ` set (images_of p s)" "set ids"] sub len assms(2) by (simp add: distinct_card)
  have rowset: "set rows = (\<lambda>q. q\<lparr>im_order := place ids (im_id q)\<rparr>) ` set (images_of p s)"
  proof -
    have "set (images_of p s') = (\<lambda>q. q\<lparr>im_order := place ids (im_id q)\<rparr>) ` set (images_of p s)"
      using ids by (auto simp: images_of_def s' set_orders_places [OF assms(2)] image_iff)
    then show ?thesis by (simp add: rows listImages_def)
  qed
  have idset: "im_id ` set rows = set ids" by (simp add: rowset image_image ids)
  have order: "im_order r = place ids (im_id r) \<and> im_id r \<in> set ids" if "r \<in> set rows" for r
    using that idset by (auto simp: rowset)
  have "length rows = length (images_of p s)"
    by (simp add: rows listImages_def tbl_asc_def images_of_def s' set_orders_places [OF assms(2)] filter_map o_def if_distrib cong: if_cong)
  moreover have "distinct (map im_id (images_of p s))" using assms(3) by (simp add: images_of_def distinct_map_filter)
  ultimately have "length rows = card (im_id ` set rows)" using idset ids by (metis distinct_card length_map set_map)
  then have dist: "distinct (map im_id rows)" by (simp add: card_distinct)
  have places: "map im_order rows = map (place ids) (map im_id rows)" using order by simp
  have "inj_on (place ids) (set ids)" using place_inj by (metis inj_onI)
  then have "distinct (map im_order rows)" using dist idset by (simp add: places distinct_map del: map_map)
  moreover have "set (map im_order rows) = set (map int [0..<length ids])"
  proof -
    have "place ids ` set ids = int ` {0..<length ids}"
    proof (intro equalityI subsetI)
      fix x assume "x \<in> place ids ` set ids"
      then obtain j where "j < length ids" "x = place ids (ids ! j)" by (auto simp: in_set_conv_nth)
      then show "x \<in> int ` {0..<length ids}" using place_nth [OF assms(2)] by simp
    next
      fix x assume "x \<in> int ` {0..<length ids}"
      then obtain j where "j < length ids" "x = place ids (ids ! j)" using place_nth [OF assms(2)] by auto
      then show "x \<in> place ids ` set ids" by simp
    qed
    then show ?thesis using idset by (simp add: places image_comp flip: image_image)
  qed
  moreover have "sorted (map im_order rows)" by (simp add: rows listImages_def tbl_asc_def)
  ultimately have nums: "map im_order rows = map int [0..<length ids]"
    by (intro sorted_distinct_set_unique) (auto simp: distinct_map sorted_iff_nth_mono)
  have "map im_id rows = map (\<lambda>k. ids ! nat k) (map im_order rows)" using order place_inj by (simp add: place_inj)
  also have "\<dots> = ids" by (simp add: nums o_def map_nth)
  finally show ?thesis using nums rows by simp
qed

subsection \<open>The files\<close>

definition variant_form :: "string \<Rightarrow> bool" where
  "variant_form f \<longleftrightarrow> (\<exists>n b e. n \<in> set variant_names \<and> f = variant_file n b e)"

text \<open>Every image has the files of its variants, which are of no other image of the listing, and there are no other kinds of file.\<close>

definition image_has_files :: "image_state \<Rightarrow> image \<Rightarrow> bool" where
  "image_has_files s i \<longleftrightarrow> (\<exists>t r. im_filename i = base_name t r @ ''.webp''
     \<and> Pair (im_propertyId i) ` set (variant_files (base_name t r)) \<subseteq> set (is_files s))"

definition gallery_ok :: "image_state \<Rightarrow> bool" where
  "gallery_ok s \<longleftrightarrow> distinct (map im_filename (is_images s))
     \<and> (\<forall>i \<in> set (is_images s). image_has_files s i) \<and> (\<forall>df \<in> set (is_files s). variant_form (snd df))"

lemma strip_webp: "strip_extension (b @ ''.webp'') = b"
proof -
  have "\<not> word_char (CHR ''.'')" "list_all word_char ''pbew''" by code_simp+
  then show ?thesis by (simp add: strip_extension_def Let_def)
qed

lemma variant_files_form: "f \<in> set (variant_files b) \<Longrightarrow> variant_form f"
  by (auto simp: variant_files_def variant_form_def)

lemma variant_base: "f \<in> set (variant_files b) \<Longrightarrow> f \<in> set (variant_files b') \<Longrightarrow> b = b'"
  by (auto simp: variant_files_def variant_names_def variant_file_def)

lemma webp_not_variant: "\<not> variant_form (base_name t r @ x)"
proof -
  have "hd (base_name t r @ x) \<notin> set ''tmf''"
  proof -
    have digit: "is_digit c \<or> c = CHR ''-'' \<Longrightarrow> c \<notin> set ''tmf''" for c
    proof -
      have "\<not> is_digit CHR ''t''" "\<not> is_digit CHR ''m''" "\<not> is_digit CHR ''f''" by code_simp+
      then show "is_digit c \<or> c = CHR ''-'' \<Longrightarrow> c \<notin> set ''tmf''" by auto
    qed
    have "show_int t \<noteq> [] \<and> (is_digit (hd (show_int t)) \<or> hd (show_int t) = CHR ''-'')"
      using show_nat_digits [of "nat t"] by (cases "show_nat (nat t)") (auto simp: show_int_def)
    then show ?thesis using digit by (simp add: base_name_def)
  qed
  moreover have "variant_form f \<Longrightarrow> hd f \<in> set ''tmf''" for f
    by (auto simp: variant_form_def variant_names_def variant_file_def)
  ultimately show ?thesis by blast
qed

lemma gallery_ok_add:
  assumes "gallery_ok s" and "list_all variant_form fs"
  shows "gallery_ok (write_files p fs s)"
  using assms by (fastforce simp: gallery_ok_def image_has_files_def write_files_def list_all_iff)

lemma upload_loop_gallery:
  "upload_loop E p fs k b s = (is, s') \<Longrightarrow> gallery_ok s \<Longrightarrow> distinct (map (\<lambda>(_, r). base_name (fr_now r) (fr_random r)) fs)
   \<Longrightarrow> (\<And>f r. (f, r) \<in> set fs \<Longrightarrow> base_name (fr_now r) (fr_random r) @ ''.webp'' \<notin> im_filename ` set (is_images s)) \<Longrightarrow> gallery_ok s'"
proof (induction fs arbitrary: k b s "is")
  case (Cons fr fs)
  obtain f r where fr: "fr = (f, r)" by (cases fr)
  let ?b = "base_name (fr_now r) (fr_random r)"
  have other: "base_name (fr_now q) (fr_random q) \<noteq> ?b" if "(g, q) \<in> set fs" for g q
    using Cons.prems(3) that by (force simp: fr)
  show ?case
  proof (cases rule: process_cases [of E f r p k b s])
    case (failed n)
    let ?s1 = "write_files p (take n (variant_files ?b)) s"
    have loop: "upload_loop E p fs k False ?s1 = (is, s')" using Cons.prems failed by (simp add: fr)
    have "gallery_ok ?s1"
      using Cons.prems(2) by (rule gallery_ok_add) (auto simp: list_all_iff dest: in_set_takeD variant_files_form)
    moreover have "base_name (fr_now q) (fr_random q) @ ''.webp'' \<notin> im_filename ` set (is_images ?s1)" if "(g, q) \<in> set fs" for g q
      using Cons.prems(4) [of g q] that by simp
    ultimately show ?thesis using Cons.IH [OF loop] Cons.prems(3) by simp
  next
    case (stored i)
    let ?s1 = "(write_files p (variant_files ?b) s)\<lparr>is_images := tbl_create i (is_images s)\<rparr>"
    obtain js where loop: "upload_loop E p fs (k + 1) False ?s1 = (js, s')"
      using Cons.prems stored(1) by (auto simp: fr split: prod.splits)
    have "gallery_ok (write_files p (variant_files ?b) s)"
      using Cons.prems(2) by (rule gallery_ok_add) (auto simp: list_all_iff dest: variant_files_form)
    moreover have "image_has_files ?s1 i" using stored(3,6) by (auto simp: image_has_files_def write_files_def)
    moreover have "im_filename i \<notin> im_filename ` set (is_images s)" using Cons.prems(4) [of f r] stored(6) by (simp add: fr)
    ultimately have "gallery_ok ?s1" by (auto simp: gallery_ok_def tbl_create_def image_has_files_def)
    moreover have "base_name (fr_now q) (fr_random q) @ ''.webp'' \<notin> im_filename ` set (is_images ?s1)" if "(g, q) \<in> set fs" for g q
      using Cons.prems(4) [of g q] other [OF that] that stored(6) by (auto simp: tbl_create_def fr)
    ultimately show ?thesis using Cons.IH [OF loop] Cons.prems(3) by simp
  qed
qed simp

lemma gallery_ok_same:
  "map (\<lambda>i. (im_propertyId i, im_filename i)) t = map (\<lambda>i. (im_propertyId i, im_filename i)) (is_images s)
   \<Longrightarrow> gallery_ok s \<Longrightarrow> gallery_ok (s\<lparr>is_images := t\<rparr>)"
proof -
  assume same: "map (\<lambda>i. (im_propertyId i, im_filename i)) t = map (\<lambda>i. (im_propertyId i, im_filename i)) (is_images s)" and ok: "gallery_ok s"
  have "map im_filename t = map im_filename (is_images s)"
    using arg_cong [OF same, of "map snd"] by (simp add: o_def)
  moreover have "image_has_files (s\<lparr>is_images := t\<rparr>) i" if "i \<in> set t" for i
  proof -
    have "(im_propertyId i, im_filename i) \<in> set (map (\<lambda>i. (im_propertyId i, im_filename i)) (is_images s))"
      using that by (simp only: same [symmetric]) simp
    then obtain j where "j \<in> set (is_images s)" "im_propertyId j = im_propertyId i" "im_filename j = im_filename i" by auto
    moreover from this(1) ok have "image_has_files s j" by (simp add: gallery_ok_def)
    ultimately show ?thesis unfolding image_has_files_def by simp
  qed
  ultimately show ?thesis using ok by (simp add: gallery_ok_def)
qed

lemma image_step_gallery: "image_step E s s' \<Longrightarrow> ids_distinct s \<and> gallery_ok s \<Longrightarrow> gallery_ok s'"
proof (induction rule: image_step.induct)
  case (upload fs s i u role)
  show ?case
  proof (cases "upload_checks E i u role (map fst fs) s")
    case (Inr x)
    obtain "is" s1 where loop: "upload_loop E i fs (next_order i s) (\<not> has_primary i s) s = (is, s1)" by fastforce
    have "gallery_ok s1" using upload_loop_gallery [OF loop] upload by blast
    then show ?thesis using Inr loop by (simp add: uploadImages_def Let_def)
  qed (use upload.prems in \<open>simp add: uploadImages_def\<close>)
next
  case (delete s i k u role)
  show ?case
  proof (cases "\<exists>x. assertCanModifyProperty E i u role = Inr () \<and> find_image i k s = Inr x")
    case True
    then obtain x where ok: "assertCanModifyProperty E i u role = Inr ()" and x: "find_image i k s = Inr x" by blast
    define s2 where "s2 = (removeFilesForImage i (im_filename x) s)\<lparr>is_images := tbl_delete_many (\<lambda>i. im_id i = k) (is_images s)\<rparr>"
    have x': "x \<in> set (is_images s)" "im_id x = k" using x by (auto simp: find_image_Inr dest: tbl_find_Some)
    have "gallery_ok s2"
    proof -
      obtain t r where b: "im_filename x = base_name t r @ ''.webp''" using delete.prems x'(1) by (auto simp: gallery_ok_def image_has_files_def)
      have "image_has_files s2 j" if j: "j \<in> set (is_images s)" "im_id j \<noteq> k" for j
      proof -
        obtain t' r' where b': "im_filename j = base_name t' r' @ ''.webp''"
          "Pair (im_propertyId j) ` set (variant_files (base_name t' r')) \<subseteq> set (is_files s)"
          using delete.prems j(1) by (auto simp: gallery_ok_def image_has_files_def)
        have "im_filename j \<noteq> im_filename x"
          using delete.prems j x' by (auto simp: gallery_ok_def distinct_map inj_on_def)
        then have "base_name t' r' \<noteq> base_name t r" using b b'(1) by simp
        then have "Pair (im_propertyId j) ` set (variant_files (base_name t' r')) \<subseteq> set (is_files s2)"
          using b'(2) variant_base [of _ "base_name t' r'" "base_name t r"]
          by (auto simp: s2_def removeFilesForImage_def b strip_webp)
        then show ?thesis using b'(1) by (auto simp: image_has_files_def)
      qed
      then show ?thesis using delete.prems
        by (auto simp: gallery_ok_def s2_def removeFilesForImage_def tbl_delete_many_def distinct_map_filter)
    qed
    moreover have "gallery_ok (s2\<lparr>is_images := tbl_update im_id n (\<lambda>i. i\<lparr>im_isPrimary := True\<rparr>) (is_images s2)\<rparr>)" for n
      using \<open>gallery_ok s2\<close> by (intro gallery_ok_same) (simp_all add: tbl_update_def)
    ultimately show ?thesis
      unfolding deleteImage_def ok x sum.case Let_def snd_conv remove_files_images s2_def by (auto split: list.split)
  next
    case False
    then have "snd (deleteImage E i k u role s) = s" by (auto simp: deleteImage_def split: sum.split)
    then show ?thesis using delete by simp
  qed
next
  case (reorder s i ids u role)
  have "gallery_ok (s\<lparr>is_images := set_orders ids 0 (is_images s)\<rparr>)"
    using reorder by (intro gallery_ok_same) (simp_all add: set_orders_map)
  then show ?case using reorder by (auto simp: reorderImages_def Let_def split: sum.split option.split)
next
  case (primary s i k u role)
  have "gallery_ok (s\<lparr>is_images := tbl_update im_id k (\<lambda>i. i\<lparr>im_isPrimary := True\<rparr>)
      (tbl_update_many sel (\<lambda>i. i\<lparr>im_isPrimary := False\<rparr>) (is_images s))\<rparr>)" for sel
    using primary by (intro gallery_ok_same) (simp_all add: tbl_update_def tbl_update_many_def)
  then show ?case using primary by (auto simp: setPrimaryImage_def Let_def split: sum.split)
next
  case (serve s avif_ok k header)
  have "gallery_ok (write_files d [variant_file ''full'' b e] s)" for d b e
    using serve by (intro gallery_ok_add) (auto simp: variant_form_def variant_names_def)
  then show ?case using serve by (auto simp: serveOptimizedImage_def Let_def split: option.split)
qed

definition empty_gallery :: image_state where
  "empty_gallery = \<lparr>is_images = [], is_files = []\<rparr>"

lemma ids_after_delete:
  assumes "ids_distinct s"
  shows "ids_distinct (snd (deleteImage E p k u role s))"
proof (cases "\<exists>x. assertCanModifyProperty E p u role = Inr () \<and> find_image p k s = Inr x")
  case True
  then obtain x where ok: "assertCanModifyProperty E p u role = Inr ()" and x: "find_image p k s = Inr x" by blast
  let ?s2 = "(removeFilesForImage p (im_filename x) s)\<lparr>is_images := tbl_delete_many (\<lambda>i. im_id i = k) (is_images s)\<rparr>"
  have "ids_distinct ?s2" using assms by (simp add: ids_distinct_def tbl_delete_many_def distinct_map_filter)
  moreover have "ids_distinct (?s2\<lparr>is_images := tbl_update im_id n (\<lambda>i. i\<lparr>im_isPrimary := True\<rparr>) (is_images ?s2)\<rparr>)" for n
    using \<open>ids_distinct ?s2\<close> by (simp add: ids_distinct_def tbl_update_keys)
  ultimately show ?thesis
    unfolding deleteImage_def ok x sum.case Let_def snd_conv remove_files_images by (auto split: list.split)
next
  case False
  then have "snd (deleteImage E p k u role s) = s" by (auto simp: deleteImage_def split: sum.split)
  then show ?thesis using assms by simp
qed

lemma image_step_ids: "image_step E s s' \<Longrightarrow> ids_distinct s \<Longrightarrow> ids_distinct s'"
proof (induction rule: image_step.induct)
  case (upload fs s i u role)
  show ?case
  proof (cases "upload_checks E i u role (map fst fs) s")
    case (Inr x)
    obtain "is" s1 where loop: "upload_loop E i fs (next_order i s) (\<not> has_primary i s) s = (is, s1)" by fastforce
    have "ids_distinct s1" using upload_loop_ids [OF loop] upload by blast
    then show ?thesis using Inr loop by (simp add: uploadImages_def Let_def)
  qed (use upload in \<open>simp add: uploadImages_def\<close>)
next
  case (reorder s i ids u role)
  then show ?case using reorder_step [of _ E i ids u role s] by (simp add: ids_distinct_def)
next
  case (primary s i k u role)
  have "map im_id (tbl_update_many sel (\<lambda>i. i\<lparr>im_isPrimary := False\<rparr>) t) = map im_id t" for sel and t :: "image list"
    by (simp add: tbl_update_many_def)
  then show ?case using primary by (simp add: setPrimaryImage_def Let_def ids_distinct_def tbl_update_keys split: sum.split)
qed (simp_all add: ids_after_delete ids_distinct_def [symmetric], simp add: ids_distinct_def)

lemma reachable_gallery: "(image_step E)\<^sup>*\<^sup>* empty_gallery s \<Longrightarrow> ids_distinct s \<and> gallery_ok s"
proof (induction rule: rtranclp_induct)
  case (step s s')
  then show ?case using image_step_gallery image_step_ids by blast
qed (simp add: empty_gallery_def ids_distinct_def gallery_ok_def)

text \<open>Every image of a gallery is served as AVIF or WebP to clients that name one of them in the accept header, and to no
  other: the original the fall-back reads is a file that no operation ever writes, so such a request always fails.\<close>

theorem fallback_is_never_served:
  assumes "(image_step E)\<^sup>*\<^sup>* empty_gallery s" and "tbl_find im_id k (is_images s) = Some img"
  shows "serveOptimizedImage avif_ok k header s =
    (if js_includes ''image/avif'' header
     then (Inr (variant_file ''full'' (strip_extension (im_filename img)) ''avif'', ''image/avif'', 86400 * 30), s)
     else if js_includes ''image/webp'' header
     then (Inr (variant_file ''full'' (strip_extension (im_filename img)) ''webp'', ''image/webp'', 86400 * 7), s)
     else (Inl (InternalError ''Internal server error''), s))"
proof -
  have img: "img \<in> set (is_images s)" using assms(2) by (auto dest: tbl_find_Some)
  have ok: "gallery_ok s" using reachable_gallery [OF assms(1)] by blast
  then obtain t r where b: "im_filename img = base_name t r @ ''.webp''"
    "Pair (im_propertyId img) ` set (variant_files (base_name t r)) \<subseteq> set (is_files s)"
    using img unfolding gallery_ok_def image_has_files_def by blast
  have "(im_propertyId img, im_filename img) \<notin> set (is_files s)"
    using ok webp_not_variant [of t r "''.webp''"] b(1) by (auto simp: gallery_ok_def)
  moreover have "(im_propertyId img, variant_file ''full'' (base_name t r) e) \<in> set (is_files s)" if "e \<in> {''avif'', ''webp''}" for e
    using b(2) that by (auto simp: variant_files_def variant_names_def)
  ultimately show ?thesis using assms(2) by (simp add: serveOptimizedImage_def Let_def b(1) strip_webp)
qed

subsection \<open>Examples\<close>

definition example_images_env :: image_env where
  "example_images_env = \<lparr>ie_baseUrl = [], ie_maxFileSize = 100, ie_maxImagesPerProperty = 30, ie_sha256 = (\<lambda>_. ''0''),
     ie_owner = (\<lambda>p. if p = ''p1'' then Some ''u1'' else None)\<rparr>"

definition example_file :: "string \<Rightarrow> sharp_run \<Rightarrow> uploaded_image \<times> file_run" where
  "example_file i run = (\<lparr>uf_originalname = ''a.jpg'', uf_mimetype = ''image/jpeg'', uf_size = 3, uf_buffer = Some [0xff, 0xd8, 0xff]\<rparr>,
     \<lparr>fr_newId = i, fr_now = 5, fr_random = i, fr_sharp = run\<rparr>)"

definition two_files :: "(uploaded_image \<times> file_run) list" where
  "two_files = [example_file ''i1'' (Sharp_fails 0), example_file ''i2'' (Sharp_ok None None 2)]"

definition example_gallery :: image_state where
  "example_gallery = snd (uploadImages example_images_env ''p1'' ''u1'' ''USER'' two_files empty_gallery)"

lemma example_checks: "upload_checks example_images_env ''p1'' ''u1'' ''USER'' (map fst two_files) empty_gallery = Inr ()"
proof -
  let ?b = "[0xff, 0xd8, 0xff] :: bytes"
  have "List.find (\<lambda>(_, pattern). search_at pattern ?b) THREAT_PATTERNS = None" by code_simp
  moreover have "take (1024 * 1024) ?b = ?b" by simp
  ultimately have scan: "scanForThreats ?b = None" unfolding scanForThreats_def Let_def by simp
  have magic: "matchesMagicBytes ?b ''image/jpeg''" by code_simp
  show ?thesis
    using scan magic
    by (simp add: upload_checks_def two_files_def example_file_def assertCanModifyProperty_def example_images_env_def validateFile_def
        allowedMimeTypes_def check_content_def images_of_def empty_gallery_def check_duplicate_def tbl_find_def)
qed

lemma example_upload:
  "\<exists>i. uploadImages example_images_env ''p1'' ''u1'' ''USER'' two_files empty_gallery = (Inr [i], example_gallery)
    \<and> is_images example_gallery = [i] \<and> im_id i = ''i2'' \<and> im_propertyId i = ''p1''"
  using example_checks
  by (simp add: example_gallery_def uploadImages_def two_files_def example_file_def processAndPersist_def Let_def empty_gallery_def
      write_files_def tbl_create_def)

lemma example_gallery_reachable: "(image_step example_images_env)\<^sup>*\<^sup>* empty_gallery example_gallery"
proof (rule r_into_rtranclp, unfold example_gallery_def, rule image_step.upload)
  show "distinct (map (\<lambda>(_, r). base_name (fr_now r) (fr_random r)) two_files)" by code_simp
qed (simp_all add: two_files_def example_file_def empty_gallery_def)

theorem one_primary_image_witness: "primaries ''p1'' example_gallery \<le> 1"
  by (rule one_primary_image [OF example_gallery_reachable]) (simp_all add: empty_gallery_def primaries_def tbl_count_def)

theorem primary_needs_first_file_witness: "\<not> has_primary ''p1'' example_gallery"
proof -
  obtain i where run: "uploadImages example_images_env ''p1'' ''u1'' ''USER'' two_files empty_gallery = (Inr [i], example_gallery)"
    using example_upload by blast
  have "\<not> has_primary ''p1'' empty_gallery" "fr_sharp (snd (hd two_files)) = Sharp_fails 0"
    by (simp_all add: has_primary_def images_of_def empty_gallery_def two_files_def example_file_def)
  then show ?thesis using primary_needs_first_file [OF run] by simp
qed

theorem reorder_roundtrip_witness:
  "\<exists>rows s'. reorderImages example_images_env ''p1'' [''i2''] ''u1'' ''USER'' example_gallery = (Inr rows, s') \<and> map im_id rows = [''i2'']"
proof -
  have one: "map im_id (images_of ''p1'' example_gallery) = [''i2'']" using example_upload by (auto simp: images_of_def)
  have "\<exists>rows s'. reorderImages example_images_env ''p1'' [''i2''] ''u1'' ''USER'' example_gallery = (Inr rows, s')"
    unfolding reorderImages_def one Let_def by (simp add: assertCanModifyProperty_def example_images_env_def)
  then obtain rows s' where run: "reorderImages example_images_env ''p1'' [''i2''] ''u1'' ''USER'' example_gallery = (Inr rows, s')" by blast
  have "distinct (map im_id (is_images example_gallery))" using example_upload by auto
  from reorder_roundtrip [OF run _ this] run show ?thesis by simp
qed

theorem fallback_is_never_served_witness:
  "fst (serveOptimizedImage True ''i2'' ''image/png,*/*'' example_gallery) = Inl (InternalError ''Internal server error'')"
proof -
  have "\<exists>img. tbl_find im_id ''i2'' (is_images example_gallery) = Some img"
    using example_upload by (auto simp: tbl_find_def)
  then obtain img where "tbl_find im_id ''i2'' (is_images example_gallery) = Some img" by blast
  moreover have "\<not> js_includes ''image/avif'' ''image/png,*/*''" "\<not> js_includes ''image/webp'' ''image/png,*/*''" by code_simp+
  ultimately show ?thesis using fallback_is_never_served [OF example_gallery_reachable] by simp
qed

end
