(* ===== verification/Duplicates.thy ===== *)
theory Duplicates
  imports Doubles Properties Property_Images "HOL-Library.AList"
begin

text \<open>
  Duplicate listings: \<open>src/duplicate-detection/duplicate-detection.service.ts\<close>, on the listings of \<open>Properties\<close> and the
  gallery of \<open>Property_Images\<close>.

  The columns \<open>description\<close>, \<open>features\<close> and \<open>viewCount\<close> of a listing are functions of its identifier.  The owner and
  the columns of a listing that are joined to an answer are the row itself.  Scores are computed on doubles; the
  bounds of the box around a listing on exact numbers, with the cosine in an argument.
\<close>

subsection \<open>State\<close>

datatype duplicate_type = DUP_ADDRESS | DUP_IMAGE | DUP_ADDRESS_AND_IMAGE

fun getDuplicateTypeString :: "duplicate_type \<Rightarrow> string" where
  "getDuplicateTypeString DUP_ADDRESS = ''ADDRESS''"
| "getDuplicateTypeString DUP_IMAGE = ''IMAGE''"
| "getDuplicateTypeString DUP_ADDRESS_AND_IMAGE = ''ADDRESS_AND_IMAGE''"

datatype duplicate_evidence =
    Matched_on "string list" "string list"
  | Merged_by string

record property_duplicate =
  pd_id :: string
  pd_propertyId :: string
  pd_duplicateOfId :: "string option"
  pd_duplicateType :: string
  pd_confidenceScore :: int
  pd_evidence :: "duplicate_evidence option"
  pd_isMerged :: bool
  pd_mergedIntoId :: "string option"
  pd_flaggedForReview :: bool
  pd_reviewNotes :: "string option"
  pd_isResolved :: bool
  pd_createdAt :: time

record duplicate_state =
  dd_listings :: property_state
  dd_features :: "string \<Rightarrow> string list"
  dd_viewCount :: "string \<Rightarrow> int"
  dd_gallery :: image_state
  dd_duplicates :: "property_duplicate list"

abbreviation dd_find :: "string \<Rightarrow> duplicate_state \<Rightarrow> property option" where
  "dd_find i s \<equiv> find_property i (dd_listings s)"

definition create_duplicate :: "property_duplicate \<Rightarrow> duplicate_state \<Rightarrow> duplicate_state" where
  "create_duplicate d s = s\<lparr>dd_duplicates := tbl_create d (dd_duplicates s)\<rparr>"

subsection \<open>Looking for duplicates\<close>

record duplicate_match =
  dm_id :: string
  dm_type :: duplicate_type
  dm_confidenceScore :: int
  dm_property :: property
  dm_images :: "string list"
  dm_matchedOn :: "string list"

record check_duplicate_dto =
  cd_postal :: postal
  cd_imageHashes :: "string list"

record duplicate_check =
  dc_hasDuplicates :: bool
  dc_matches :: "duplicate_match list"
  dc_warning :: "string option"

definition address_equals :: "postal \<Rightarrow> postal \<Rightarrow> bool" where
  "address_equals a b \<longleftrightarrow> equals_ci (ad_address a) (ad_address b) \<and> equals_ci (ad_city a) (ad_city b)
     \<and> equals_ci (ad_state a) (ad_state b) \<and> ad_zipCode a = ad_zipCode b"

definition first_images :: "string \<Rightarrow> duplicate_state \<Rightarrow> string list" where
  "first_images i s = take 5 (map im_id (images_of i (dd_gallery s)))"

text \<open>The images with one of the hashes, below listings of other owners, grouped by listing.\<close>

definition findSimilarImages :: "string list \<Rightarrow> string \<Rightarrow> duplicate_state \<Rightarrow> (property \<times> string list) list" where
  "findSimilarImages hashes excludeOwnerId s =
     (let matchingImages = filter (\<lambda>i. im_uniqueHash i \<in> set hashes
            \<and> (case dd_find (im_propertyId i) s of None \<Rightarrow> False | Some p \<Rightarrow> pp_ownerId p \<noteq> excludeOwnerId))
            (is_images (dd_gallery s));
          propertyMatches = fold (\<lambda>i m. case map_of m (im_propertyId i) of
              Some ids \<Rightarrow> AList.update (im_propertyId i) (ids @ [im_id i]) m
            | None \<Rightarrow> AList.update (im_propertyId i) [im_id i] m) matchingImages []
      in List.map_filter (\<lambda>(i, ids). map_option (\<lambda>p. (p, ids)) (dd_find i s)) propertyMatches)"

definition address_match :: "duplicate_state \<Rightarrow> property \<Rightarrow> duplicate_match" where
  "address_match s p = \<lparr>dm_id = pp_id p, dm_type = DUP_ADDRESS, dm_confidenceScore = 95, dm_property = p,
     dm_images = first_images (pp_id p) s, dm_matchedOn = [''address'']\<rparr>"

fun update_first :: "('a \<Rightarrow> bool) \<Rightarrow> ('a \<Rightarrow> 'a) \<Rightarrow> 'a list \<Rightarrow> 'a list" where
  "update_first P f [] = []"
| "update_first P f (x # xs) = (if P x then f x # xs else x # update_first P f xs)"

definition add_image_match :: "duplicate_state \<Rightarrow> property \<times> string list \<Rightarrow> duplicate_match list \<Rightarrow> duplicate_match list" where
  "add_image_match s pm matches =
     (let (p, matchedImages) = pm
      in if List.find (\<lambda>m. dm_id m = pp_id p) matches \<noteq> None
         then update_first (\<lambda>m. dm_id m = pp_id p)
           (\<lambda>m. m\<lparr>dm_type := DUP_ADDRESS_AND_IMAGE, dm_confidenceScore := min (dm_confidenceScore m + 50) 100,
              dm_matchedOn := js_unique (dm_matchedOn m @ [''images''])\<rparr>) matches
         else matches @ [\<lparr>dm_id = pp_id p, dm_type = DUP_IMAGE, dm_confidenceScore = 70 + int (length matchedImages) * 5,
           dm_property = p, dm_images = first_images (pp_id p) s, dm_matchedOn = [''images'']\<rparr>])"

definition duplicate_warning :: "duplicate_match list \<Rightarrow> string option" where
  "duplicate_warning matches =
     (let n = length matches; high = length (filter (\<lambda>m. 80 \<le> dm_confidenceScore m) matches)
      in if n = 0 then None
         else if 0 < high
         then Some (show_nat high @ '' potential duplicate'' @ (if 1 < high then ''s'' else [])
                @ '' found with high confidence. Please review before creating.'')
         else Some (show_nat n @ '' similar property'' @ (if 1 < n then ''ies'' else [])
                @ '' found. Verify these are not duplicates.''))"

definition checkForDuplicates :: "check_duplicate_dto \<Rightarrow> string \<Rightarrow> duplicate_state \<Rightarrow> duplicate_check" where
  "checkForDuplicates dto ownerId s =
     (let addressMatches = take 5 (filter (\<lambda>p. pp_ownerId p \<noteq> ownerId \<and> address_equals (cd_postal dto) (pp_postal p)
            \<and> equals_ci (ad_country (cd_postal dto)) (ad_country (pp_postal p))) (ps_properties (dd_listings s)));
          byAddress = map (address_match s) addressMatches;
          matches = (if cd_imageHashes dto = [] then byAddress
            else fold (add_image_match s) (findSimilarImages (cd_imageHashes dto) ownerId s) byAddress)
      in \<lparr>dc_hasDuplicates = (matches \<noteq> []), dc_matches = matches, dc_warning = duplicate_warning matches\<rparr>)"

text \<open>One row per match, as long as both listings exist; \<open>ids\<close> are the identifiers of the rows.\<close>

fun recordDuplicateDetection ::
  "string list \<Rightarrow> string \<Rightarrow> duplicate_match list \<Rightarrow> time \<Rightarrow> duplicate_state \<Rightarrow> (unit, duplicate_state) outcome" where
  "recordDuplicateDetection (i # ids) propertyId (m # ms) now s =
     (if dd_find propertyId s = None \<or> dd_find (dm_id m) s = None
      then (Inl (BadRequest ''Foreign key constraint failed''), s)
      else recordDuplicateDetection ids propertyId ms now (create_duplicate
        \<lparr>pd_id = i, pd_propertyId = propertyId, pd_duplicateOfId = Some (dm_id m),
         pd_duplicateType = getDuplicateTypeString (dm_type m), pd_confidenceScore = dm_confidenceScore m,
         pd_evidence = Some (Matched_on (dm_matchedOn m) (dm_images m)), pd_isMerged = False, pd_mergedIntoId = None,
         pd_flaggedForReview = False, pd_reviewNotes = None, pd_isResolved = False, pd_createdAt = now\<rparr> s))"
| "recordDuplicateDetection ids propertyId ms now s = (Inr (), s)"

subsection \<open>Merging\<close>

fun move_images :: "string \<Rightarrow> int \<Rightarrow> image list \<Rightarrow> image list \<Rightarrow> image list" where
  "move_images keepId order [] t = t"
| "move_images keepId order (img # is) t =
     move_images keepId (order + 1) is
       (tbl_update im_id (im_id img) (\<lambda>i. i\<lparr>im_propertyId := keepId, im_order := order\<rparr>) t)"

record merge_dto =
  md_keepPropertyId :: string
  md_discardPropertyId :: string

definition mergeProperties ::
  "string \<Rightarrow> merge_dto \<Rightarrow> string \<Rightarrow> string \<Rightarrow> time \<Rightarrow> duplicate_state \<Rightarrow> (string \<times> string, duplicate_state) outcome" where
  "mergeProperties newId dto actorId actorRole now s =
     (let keepId = md_keepPropertyId dto; discardId = md_discardPropertyId dto
      in case dd_find keepId s of
           None \<Rightarrow> (Inl (NotFound ''Property to keep not found''), s)
         | Some keep \<Rightarrow> (case dd_find discardId s of
               None \<Rightarrow> (Inl (NotFound ''Property to merge not found''), s)
             | Some discard \<Rightarrow>
                 if pp_ownerId keep \<noteq> actorId \<and> pp_ownerId discard \<noteq> actorId \<and> actorRole \<notin> {''ADMIN'', ''AGENT''}
                 then (Inl (Forbidden ''You do not have permission to merge these properties''), s)
                 else
                   (let discardImages = images_of discardId (dd_gallery s);
                        s1 = s\<lparr>dd_gallery := (dd_gallery s)\<lparr>is_images :=
                          move_images keepId (next_order keepId (dd_gallery s)) discardImages (is_images (dd_gallery s))\<rparr>\<rparr>;
                        s2 = s1\<lparr>dd_features := (dd_features s1)(keepId := js_unique (dd_features s keepId @ dd_features s discardId)),
                          dd_viewCount := (dd_viewCount s1)(keepId := dd_viewCount s keepId + dd_viewCount s discardId),
                          dd_listings := update_property keepId now id (dd_listings s1)\<rparr>;
                        s3 = create_duplicate \<lparr>pd_id = newId, pd_propertyId = discardId, pd_duplicateOfId = Some keepId,
                          pd_duplicateType = getDuplicateTypeString DUP_ADDRESS_AND_IMAGE, pd_confidenceScore = 100,
                          pd_evidence = Some (Merged_by actorId), pd_isMerged = True, pd_mergedIntoId = Some keepId,
                          pd_flaggedForReview = False, pd_reviewNotes = None, pd_isResolved = False, pd_createdAt = now\<rparr> s2;
                        s4 = s3\<lparr>dd_listings := update_property discardId now (\<lambda>p. p\<lparr>pp_status := ARCHIVED\<rparr>) (dd_listings s3)\<rparr>
                    in (Inr (keepId, discardId), s4))))"

subsection \<open>Flags\<close>

definition flagForReview ::
  "string \<Rightarrow> string \<Rightarrow> string option \<Rightarrow> string option \<Rightarrow> time \<Rightarrow> duplicate_state \<Rightarrow> (property_duplicate, duplicate_state) outcome" where
  "flagForReview newId propertyId duplicateOfId reviewNotes now s =
     (if dd_find propertyId s = None then (Inl (NotFound ''Property not found''), s)
      else if (case duplicateOfId of None \<Rightarrow> False | Some j \<Rightarrow> dd_find j s = None)
      then (Inl (BadRequest ''Foreign key constraint failed''), s)
      else (let d = \<lparr>pd_id = newId, pd_propertyId = propertyId, pd_duplicateOfId = duplicateOfId, pd_duplicateType = ''FLAGGED'',
              pd_confidenceScore = 0, pd_evidence = None, pd_isMerged = False, pd_mergedIntoId = None,
              pd_flaggedForReview = True, pd_reviewNotes = reviewNotes, pd_isResolved = False, pd_createdAt = now\<rparr>
            in (Inr d, create_duplicate d s)))"

definition getFlags :: "duplicate_state \<Rightarrow> property_duplicate list" where
  "getFlags s =
     tbl_desc pd_createdAt (filter (\<lambda>d. pd_flaggedForReview d \<and> \<not> pd_isMerged d \<and> \<not> pd_isResolved d) (dd_duplicates s))"

definition resolveFlag :: "string \<Rightarrow> duplicate_state \<Rightarrow> (property_duplicate, duplicate_state) outcome" where
  "resolveFlag flagId s =
     (case tbl_find pd_id flagId (dd_duplicates s) of
        None \<Rightarrow> (Inl (NotFound ''Duplicate flag not found''), s)
      | Some d \<Rightarrow> (Inr (d\<lparr>pd_isResolved := True\<rparr>),
          s\<lparr>dd_duplicates := tbl_update pd_id flagId (\<lambda>d. d\<lparr>pd_isResolved := True\<rparr>) (dd_duplicates s)\<rparr>))"

subsection \<open>Similarity\<close>

definition word_of_text :: "char \<Rightarrow> bool" where
  "word_of_text c \<longleftrightarrow> is_digit c \<or> (97 \<le> (of_char c :: nat) \<and> (of_char c :: nat) \<le> 122) \<or> js_space c"

text \<open>\<open>split(/\s+/)\<close>, without the empty parts, which the filter on the length drops.\<close>

fun split_spaces :: "string \<Rightarrow> string \<Rightarrow> string list" where
  "split_spaces word [] = [rev word]"
| "split_spaces word (c # s) = (if js_space c then rev word # split_spaces [] s else split_spaces (c # word) s)"

definition tokenize :: "string option \<Rightarrow> string list" where
  "tokenize text =
     (case text of None \<Rightarrow> []
      | Some t \<Rightarrow> js_unique (filter (\<lambda>w. 2 < length w) (split_spaces [] (filter word_of_text (js_lower t)))))"

definition similarity_terms :: "string option \<times> string list \<Rightarrow> string list" where
  "similarity_terms p = js_unique (tokenize (fst p) @ js_unique (map js_lower (snd p)))"

definition detectTextSimilarity :: "string option \<times> string list \<Rightarrow> string option \<times> string list \<Rightarrow> int \<times> string list" where
  "detectTextSimilarity a b =
     (let allTermsA = similarity_terms a; allTermsB = similarity_terms b;
          intersection = filter (\<lambda>t. t \<in> set allTermsB) allTermsA;
          union = js_unique (allTermsA @ allTermsB)
      in (if union = [] then 0
          else math_round (dbl (dbl (rat_of_nat (length intersection) / rat_of_nat (length union)) * 100)), intersection))"

text \<open>\<open>lngDelta radius lat\<close> is \<open>radiusMeters / (111000 * Math.cos(lat * Math.PI / 180))\<close>.\<close>

definition findNearbyDuplicates :: "(rat \<Rightarrow> rat \<Rightarrow> rat) \<Rightarrow> string \<Rightarrow> rat \<Rightarrow> duplicate_state \<Rightarrow> property list" where
  "findNearbyDuplicates lngDelta propertyId radius s =
     (case dd_find propertyId s of
        None \<Rightarrow> []
      | Some p \<Rightarrow> (case (nonzero (pp_latitude p), nonzero (pp_longitude p)) of
            (Some lat, Some lng) \<Rightarrow>
              take 20 (filter (\<lambda>q. pp_id q \<noteq> propertyId
                \<and> range_filter (Some (lat - radius / 111000)) (Some (lat + radius / 111000)) (pp_latitude q)
                \<and> range_filter (Some (lng - lngDelta radius lat)) (Some (lng + lngDelta radius lat)) (pp_longitude q))
                (ps_properties (dd_listings s)))
          | _ \<Rightarrow> []))"

record duplicate_signals =
  sg_addressMatch :: bool
  sg_imageSimilarity :: "rat option"
  sg_textSimilarity :: "rat option"
  sg_weights :: "rat option \<times> rat option \<times> rat option"

definition calculateConfidence :: "duplicate_signals \<Rightarrow> int" where
  "calculateConfidence g =
     (let (wa, wi, wt) = sg_weights g;
          address = given_or wa (dbl (4 / 10)); image = given_or wi (dbl (35 / 100)); text' = given_or wt (dbl (25 / 100));
          s1 = (if sg_addressMatch g then dbl (100 * address) else 0);
          s2 = (case sg_imageSimilarity g of None \<Rightarrow> s1 | Some x \<Rightarrow> dbl (s1 + dbl (x * image)));
          s3 = (case sg_textSimilarity g of None \<Rightarrow> s2 | Some x \<Rightarrow> dbl (s2 + dbl (x * text')))
      in math_round (min 100 s3))"

datatype batch_kind = Batch_ADDRESS | Batch_NEARBY

definition batch_matches :: "(rat \<Rightarrow> rat \<Rightarrow> rat) \<Rightarrow> property \<Rightarrow> duplicate_state \<Rightarrow> (string \<times> batch_kind \<times> string) list" where
  "batch_matches lngDelta p s =
     (let addressMatches = take 5 (filter (\<lambda>q. pp_id q \<noteq> pp_id p \<and> address_equals (pp_postal p) (pp_postal q))
            (ps_properties (dd_listings s)))
      in fold (\<lambda>n matches. if List.find (\<lambda>(i, _, _). i = pp_id n) matches = None
               then matches @ [(pp_id n, Batch_NEARBY, ad_address (pp_postal n))] else matches)
           (findNearbyDuplicates lngDelta (pp_id p) 500 s)
           (map (\<lambda>q. (pp_id q, Batch_ADDRESS, ad_address (pp_postal q))) addressMatches))"

definition detectBatchDuplicates ::
  "(rat \<Rightarrow> rat \<Rightarrow> rat) \<Rightarrow> string list \<Rightarrow> duplicate_state \<Rightarrow> (string \<times> (string \<times> batch_kind \<times> string) list \<times> int) list" where
  "detectBatchDuplicates lngDelta propertyIds s =
     fold (\<lambda>propId results. case dd_find propId s of
         None \<Rightarrow> results
       | Some p \<Rightarrow>
           (let matches = batch_matches lngDelta p s;
                confidence = (if matches = [] then 0 else calculateConfidence
                  \<lparr>sg_addressMatch = list_ex (\<lambda>(_, k, _). k = Batch_ADDRESS) matches, sg_imageSimilarity = None,
                   sg_textSimilarity = None, sg_weights = (None, None, None)\<rparr>)
            in AList.update propId (matches, confidence) results)) propertyIds []"

subsection \<open>Statistics\<close>

record duplicate_stats =
  du_total :: nat
  du_PENDING :: nat
  du_REVIEWED :: nat
  du_MERGED :: nat
  du_DISMISSED :: nat
  du_byType :: "(string \<times> nat) list"

definition count_duplicate :: "property_duplicate \<Rightarrow> duplicate_stats \<Rightarrow> duplicate_stats" where
  "count_duplicate r st =
     (let st1 = (if pd_isMerged r then st\<lparr>du_MERGED := du_MERGED st + 1\<rparr>
        else if pd_isResolved r then st\<lparr>du_DISMISSED := du_DISMISSED st + 1\<rparr>
        else if pd_flaggedForReview r then st\<lparr>du_PENDING := du_PENDING st + 1\<rparr>
        else st\<lparr>du_REVIEWED := du_REVIEWED st + 1\<rparr>);
          t = pd_duplicateType r
      in st1\<lparr>du_byType := AList.update t ((case map_of (du_byType st1) t of None \<Rightarrow> 0 | Some n \<Rightarrow> n) + 1) (du_byType st1)\<rparr>)"

definition getDuplicateStats :: "duplicate_state \<Rightarrow> duplicate_stats" where
  "getDuplicateStats s =
     fold count_duplicate (dd_duplicates s)
       \<lparr>du_total = length (dd_duplicates s), du_PENDING = 0, du_REVIEWED = 0, du_MERGED = 0, du_DISMISSED = 0, du_byType = []\<rparr>"

end
