(* ===== verification/Duplicate_Life.thy ===== *)
theory Duplicate_Life
  imports Duplicates Image_Life Property_Life "HOL-Library.Multiset"
begin

text \<open>
  What merging two listings does to the listings, to the gallery and to its files, and what the statistics count.
\<close>

subsection \<open>The rows after a merge\<close>

lemma move_images_map:
  "distinct (map im_id is) \<Longrightarrow> move_images k order is t =
     map (\<lambda>r. if im_id r \<in> im_id ` set is
       then r\<lparr>im_propertyId := k, im_order := order + place (map im_id is) (im_id r)\<rparr> else r) t"
proof (induction "is" arbitrary: order t)
  case Nil
  show ?case by simp
next
  case (Cons i "is")
  have d: "distinct (map im_id is)" "im_id i \<notin> im_id ` set is" using Cons.prems by auto
  show ?case
    unfolding move_images.simps Cons.IH [OF d(1)] tbl_update_def map_map
    using d(2) by (intro map_cong) (auto simp: place_Cons)
qed

text \<open>The gallery after a merge of \<open>d\<close> into \<open>k\<close>.\<close>

definition merged_row :: "string \<Rightarrow> string \<Rightarrow> image_state \<Rightarrow> image \<Rightarrow> image" where
  "merged_row k d g r =
     (if im_propertyId r = d
      then r\<lparr>im_propertyId := k, im_order := next_order k g + place (map im_id (images_of d g)) (im_id r)\<rparr> else r)"

lemma merged_row_simps [simp]:
  "im_id (merged_row k d g r) = im_id r" "im_propertyId (merged_row k d g r) = (if im_propertyId r = d then k else im_propertyId r)"
  "im_isPrimary (merged_row k d g r) = im_isPrimary r" "im_filename (merged_row k d g r) = im_filename r"
  by (simp_all add: merged_row_def)

lemma distinct_images_of: "ids_distinct g \<Longrightarrow> distinct (map im_id (images_of d g))"
  by (simp add: ids_distinct_def images_of_def distinct_map_filter)

lemma merge_images:
  assumes "ids_distinct g"
  shows "move_images k (next_order k g) (images_of d g) (is_images g) = map (merged_row k d g) (is_images g)"
proof -
  have "im_id r \<in> im_id ` set (images_of d g) \<longleftrightarrow> im_propertyId r = d" if "r \<in> set (is_images g)" for r
    using assms that by (auto simp: ids_distinct_def images_of_def distinct_map inj_on_def)
  then show ?thesis
    unfolding move_images_map [OF distinct_images_of [OF assms]] by (simp add: merged_row_def)
qed

lemma merge_accepted:
  assumes "mergeProperties n dto u role now s = (Inr r, s')"
  defines "k \<equiv> md_keepPropertyId dto" and "d \<equiv> md_discardPropertyId dto"
  shows "r = (k, d)" and "dd_find k s \<noteq> None" and "dd_find d s \<noteq> None"
    and "dd_gallery s' = (dd_gallery s)\<lparr>is_images :=
      move_images k (next_order k (dd_gallery s)) (images_of d (dd_gallery s)) (is_images (dd_gallery s))\<rparr>"
    and "dd_listings s' = update_property d now (\<lambda>p. p\<lparr>pp_status := ARCHIVED\<rparr>) (update_property k now id (dd_listings s))"
  using assms(1) unfolding mergeProperties_def k_def [symmetric] d_def [symmetric] Let_def
  by (auto simp: create_duplicate_def split: option.splits if_splits)

lemma merge_gallery:
  assumes "mergeProperties n \<lparr>md_keepPropertyId = k, md_discardPropertyId = d\<rparr> u role now s = (Inr r, s')"
    and "ids_distinct (dd_gallery s)"
  shows "is_images (dd_gallery s') = map (merged_row k d (dd_gallery s)) (is_images (dd_gallery s))"
    and "is_files (dd_gallery s') = is_files (dd_gallery s)"
  using merge_accepted(4) [OF assms(1)] by (simp_all add: merge_images [OF assms(2)])

text \<open>Whoever owns one listing can take over any other: merging a listing of somebody else into the own one is accepted
  from every role, archives the listing of the other owner and moves all its images to the own listing.\<close>

theorem merge_takes_over_any_listing:
  assumes "dd_find k s = Some own" and "pp_ownerId own = u" and "dd_find d s = Some other" and "d \<noteq> k"
  shows "\<exists>s'. mergeProperties n \<lparr>md_keepPropertyId = k, md_discardPropertyId = d\<rparr> u role now s = (Inr (k, d), s')
    \<and> dd_find d s' = Some (other\<lparr>pp_status := ARCHIVED, pp_updatedAt := now\<rparr>)
    \<and> (ids_distinct (dd_gallery s) \<longrightarrow> images_of d (dd_gallery s') = []
        \<and> set (map im_id (images_of k (dd_gallery s')))
          = set (map im_id (images_of k (dd_gallery s))) \<union> set (map im_id (images_of d (dd_gallery s))))"
proof -
  let ?m = "mergeProperties n \<lparr>md_keepPropertyId = k, md_discardPropertyId = d\<rparr> u role now s"
  have "\<exists>s'. ?m = (Inr (k, d), s')" using assms by (simp add: mergeProperties_def Let_def)
  then obtain s' where run: "?m = (Inr (k, d), s')" by blast
  have "dd_find d s' = Some (other\<lparr>pp_status := ARCHIVED, pp_updatedAt := now\<rparr>)"
    using merge_accepted(5) [OF run] assms(3,4) by (simp add: find_update_property)
  moreover have "images_of d (dd_gallery s') = []
      \<and> set (map im_id (images_of k (dd_gallery s')))
        = set (map im_id (images_of k (dd_gallery s))) \<union> set (map im_id (images_of d (dd_gallery s)))"
    if "ids_distinct (dd_gallery s)"
    using assms(4) by (auto simp: images_of_def merge_gallery(1) [OF run that] filter_map comp_def filter_empty_conv)
  ultimately show ?thesis using run by blast
qed

subsection \<open>The gallery after a merge\<close>

lemma filter_merged:
  assumes "k \<noteq> d" and "\<And>r. im_propertyId r = k \<Longrightarrow> mr r = r"
  shows "(\<And>r. im_propertyId r = d \<Longrightarrow> r \<in> set T \<Longrightarrow> \<not> Q (mr r)) \<Longrightarrow>
      filter Q (map mr (filter (\<lambda>r. im_propertyId r = k \<or> im_propertyId r = d) T)) = filter Q (filter (\<lambda>r. im_propertyId r = k) T)"
    and "(\<And>r. im_propertyId r = k \<Longrightarrow> r \<in> set T \<Longrightarrow> \<not> Q r) \<Longrightarrow>
      filter Q (map mr (filter (\<lambda>r. im_propertyId r = k \<or> im_propertyId r = d) T)) = filter Q (map mr (filter (\<lambda>r. im_propertyId r = d) T))"
  by (induction T) (auto simp: assms)

lemma mset_merged:
  assumes "k \<noteq> d" and "\<And>r. im_propertyId r = k \<Longrightarrow> mr r = r"
  shows "mset (map mr (filter (\<lambda>r. im_propertyId r = k \<or> im_propertyId r = d) T))
    = mset (filter (\<lambda>r. im_propertyId r = k) T) + mset (map mr (filter (\<lambda>r. im_propertyId r = d) T))"
  by (induction T) (auto simp: assms)

lemma order_below_next: "i \<in> set (images_of k g) \<Longrightarrow> im_order i < next_order k g"
  using tbl_desc_hd [of im_order "images_of k g" _ _ i] by (cases "tbl_desc im_order (images_of k g)") (auto simp: next_order_def)

lemma filter_single: "distinct (map f xs) \<Longrightarrow> x \<in> set xs \<Longrightarrow> filter (\<lambda>y. f x = f y) xs = [x]"
  by (induction xs) (auto simp: filter_empty_conv rev_image_eqI)

lemma listed_after_merge:
  assumes "ids_distinct g" and "k \<noteq> d"
  defines "mr \<equiv> merged_row k d g"
  shows "tbl_asc im_order (tbl_asc im_createdAt (filter (\<lambda>r. im_propertyId r = k) (map mr (is_images g))))
    = listImages k g @ map mr (images_of d g)"
proof -
  let ?T = "is_images g" and ?nx = "next_order k g" and ?D = "images_of d g" and ?K = "images_of k g"
  let ?F = "map mr (filter (\<lambda>r. im_propertyId r = k \<or> im_propertyId r = d) ?T)"
  have stay: "mr r = r" if "im_propertyId r = k" for r using that assms(2) by (simp add: mr_def merged_row_def)
  have F: "filter (\<lambda>r. im_propertyId r = k) (map mr ?T) = ?F" by (auto simp: mr_def filter_map comp_def intro!: arg_cong [where f = "map _"] filter_cong)
  have ids: "distinct (map im_id ?D)" using assms(1) by (rule distinct_images_of)
  have order: "im_order (mr r) = ?nx + place (map im_id ?D) (im_id r)" if "im_propertyId r = d" for r
    using that by (simp add: mr_def merged_row_def)
  have orders: "map im_order (map mr ?D) = map (\<lambda>j. ?nx + int j) [0..<length ?D]"
  proof (rule nth_equalityI)
    fix j assume "j < length (map im_order (map mr ?D))"
    then have j: "j < length ?D" by simp
    then have "im_propertyId (?D ! j) = d" using nth_mem [OF j] by (simp add: images_of_def)
    then show "map im_order (map mr ?D) ! j = map (\<lambda>j. ?nx + int j) [0..<length ?D] ! j"
      using order [of "?D ! j"] place_nth [OF ids, of j] j by simp
  qed simp
  have late: "?nx \<le> im_order (mr r)" if "im_propertyId r = d" "r \<in> set ?T" for r
  proof -
    have "im_order (mr r) \<in> set (map im_order (map mr ?D))" using that by (auto simp: images_of_def)
    then show ?thesis unfolding orders by auto
  qed
  have early: "im_order r < ?nx" if "im_propertyId r = k" "r \<in> set ?T" for r
    using that order_below_next [of r k g] by (simp add: images_of_def)
  have single: "distinct (map im_order (map mr ?D))" unfolding orders by (simp add: distinct_map inj_on_def)
  have L: "set (listImages k g) = set ?K" by (simp add: listImages_def)
  show ?thesis unfolding F tbl_asc_def [of im_order]
  proof (rule properties_for_sort_key)
    show "mset (listImages k g @ map mr ?D) = mset (tbl_asc im_createdAt ?F)"
      using mset_merged [where mr = mr and k = k and d = d and T = ?T, OF assms(2) stay] by (simp add: listImages_def tbl_asc_def images_of_def)
    show "sorted (map im_order (listImages k g @ map mr ?D))"
    proof -
      have "sorted (map im_order (listImages k g))" by (simp add: listImages_def tbl_asc_def)
      moreover have "sorted (map im_order (map mr ?D))" unfolding orders by (simp add: sorted_iff_nth_mono)
      moreover have "im_order x \<le> im_order y" if "x \<in> set (listImages k g)" "y \<in> set (map mr ?D)" for x y
        using that early [of x] late L by (force simp: images_of_def)
      ultimately show ?thesis by (simp add: sorted_append)
    qed
    fix x assume x: "x \<in> set (listImages k g @ map mr ?D)"
    let ?Q = "\<lambda>y. im_order x = im_order y"
    show "filter ?Q (listImages k g @ map mr ?D) = filter ?Q (tbl_asc im_createdAt ?F)"
    proof (cases "x \<in> set (listImages k g)")
      case True
      then have "im_order x < ?nx" using L early by (simp add: images_of_def)
      then have no: "\<not> ?Q (mr r)" if "im_propertyId r = d" "r \<in> set ?T" for r using late [OF that] by simp
      then have "filter ?Q (map mr ?D) = []" by (auto simp: filter_empty_conv images_of_def)
      moreover have "filter ?Q (listImages k g) = tbl_asc im_createdAt (filter ?Q ?K)"
        using sort_key_stable [of im_order "im_order x" "tbl_asc im_createdAt ?K"]
        by (simp add: listImages_def tbl_asc_def filter_sort eq_commute [of "im_order x"])
      moreover have "filter ?Q ?F = filter ?Q ?K"
        using filter_merged(1) [where mr = mr and k = k and d = d and T = ?T and Q = ?Q, OF assms(2) stay no] by (simp add: images_of_def)
      ultimately show ?thesis by (simp add: tbl_asc_def filter_sort del: filter_map)
    next
      case False
      then have in_D: "x \<in> set (map mr ?D)" using x by simp
      then have "?nx \<le> im_order x" using late by (auto simp: images_of_def)
      then have no: "\<not> ?Q r" if "im_propertyId r = k" "r \<in> set ?T" for r using early [OF that] by simp
      then have "filter ?Q (listImages k g) = []" using L by (auto simp: filter_empty_conv images_of_def)
      moreover have "filter ?Q ?F = filter ?Q (map mr ?D)"
        using filter_merged(2) [where mr = mr and k = k and d = d and T = ?T and Q = ?Q, OF assms(2) stay no] by (simp add: images_of_def)
      moreover have "filter ?Q (map mr ?D) = [x]" using single in_D by (rule filter_single)
      ultimately show ?thesis by (simp add: tbl_asc_def filter_sort del: filter_map)
    qed
  qed
qed

text \<open>A merge appends the images: the gallery of the surviving listing shows its own images in their order and then the others in
  the order in which they were stored, whatever order their owner had chosen; and it has the primary images of both, so that
  merging two listings with a primary image each leaves a listing with two.\<close>

theorem merge_appends_images:
  assumes "mergeProperties n \<lparr>md_keepPropertyId = k, md_discardPropertyId = d\<rparr> u role now s = (Inr r, s')"
    and "ids_distinct (dd_gallery s)" and "k \<noteq> d"
  shows "map im_id (listImages k (dd_gallery s'))
      = map im_id (listImages k (dd_gallery s)) @ map im_id (images_of d (dd_gallery s))
    \<and> primaries k (dd_gallery s') = primaries k (dd_gallery s) + primaries d (dd_gallery s)"
proof -
  note rows = merge_gallery(1) [OF assms(1,2)]
  have "listImages k (dd_gallery s') = listImages k (dd_gallery s) @ map (merged_row k d (dd_gallery s)) (images_of d (dd_gallery s))"
    using listed_after_merge [OF assms(2,3)] by (simp add: listImages_def [of k "dd_gallery s'"] images_of_def rows)
  moreover have "primaries k (dd_gallery s') = primaries k (dd_gallery s) + primaries d (dd_gallery s)"
  proof -
    have "length (filter (\<lambda>i. im_propertyId i = k \<and> im_isPrimary i) (map (merged_row k d g) T))
        = length (filter (\<lambda>i. im_propertyId i = k \<and> im_isPrimary i) T) + length (filter (\<lambda>i. im_propertyId i = d \<and> im_isPrimary i) T)" for g T
      using assms(3) by (induction T) auto
    then show ?thesis by (simp add: primaries_def tbl_count_def rows)
  qed
  ultimately show ?thesis by (simp add: comp_def)
qed

text \<open>No image that a merge has moved is served any more: the row names the surviving listing, the files stay in the directory of
  the other one, and every request ends in an internal error, whatever the client accepts, unless a file of the same name
  happens to lie in the other directory.\<close>

theorem merged_images_not_served:
  assumes "mergeProperties n \<lparr>md_keepPropertyId = k, md_discardPropertyId = d\<rparr> u role now s = (Inr r, s')"
    and "ids_distinct (dd_gallery s)" and "i \<in> set (images_of d (dd_gallery s))"
    and "\<forall>f \<in> insert (im_filename i) (set (variant_files (strip_extension (im_filename i)))). (k, f) \<notin> set (is_files (dd_gallery s))"
  shows "fst (serveOptimizedImage avif_ok (im_id i) accept (dd_gallery s')) = Inl (InternalError ''Internal server error'')"
proof -
  let ?g = "dd_gallery s" and ?i = "merged_row k d (dd_gallery s) i"
  have i: "i \<in> set (is_images ?g)" "im_propertyId i = d" using assms(3) by (auto simp: images_of_def)
  have "map im_id (map (merged_row k d ?g) (is_images ?g)) = map im_id (is_images ?g)" by simp
  then have "tbl_find im_id (im_id ?i) (map (merged_row k d ?g) (is_images ?g)) = Some ?i"
    using assms(2) i(1) by (intro tbl_find_distinct) (simp_all add: ids_distinct_def comp_def)
  then have row: "tbl_find im_id (im_id i) (is_images (dd_gallery s')) = Some ?i"
    by (simp add: merge_gallery(1) [OF assms(1,2)])
  have "im_propertyId ?i = k" "im_filename ?i = im_filename i" using i(2) by simp_all
  moreover have "(k, im_filename i) \<notin> set (is_files ?g)"
    "(k, variant_file ''full'' (strip_extension (im_filename i)) ''avif'') \<notin> set (is_files ?g)"
    "(k, variant_file ''full'' (strip_extension (im_filename i)) ''webp'') \<notin> set (is_files ?g)"
    using assms(4) by (simp_all add: variant_files_def variant_names_def)
  ultimately show ?thesis using row by (simp add: serveOptimizedImage_def Let_def merge_gallery(2) [OF assms(1,2)])
qed

subsection \<open>Statistics\<close>

lemma count_duplicates:
  "fold count_duplicate ds st =
     st\<lparr>du_PENDING := du_PENDING st + tbl_count (\<lambda>d. pd_flaggedForReview d \<and> \<not> pd_isMerged d \<and> \<not> pd_isResolved d) ds,
        du_REVIEWED := du_REVIEWED st + tbl_count (\<lambda>d. \<not> pd_flaggedForReview d \<and> \<not> pd_isMerged d \<and> \<not> pd_isResolved d) ds,
        du_MERGED := du_MERGED st + tbl_count pd_isMerged ds,
        du_DISMISSED := du_DISMISSED st + tbl_count (\<lambda>d. \<not> pd_isMerged d \<and> pd_isResolved d) ds,
        du_byType := du_byType (fold count_duplicate ds st)\<rparr>"
proof (induction ds arbitrary: st)
  case Nil
  show ?case by (simp add: tbl_count_def)
next
  case (Cons d ds)
  show ?case by (simp, subst Cons) (auto simp: count_duplicate_def Let_def tbl_count_def)
qed

lemma count_types:
  "map_of (du_byType (fold count_duplicate ds st)) t =
     (case map_of (du_byType st) t of
        None \<Rightarrow> if tbl_count (\<lambda>d. pd_duplicateType d = t) ds = 0 then None else Some (tbl_count (\<lambda>d. pd_duplicateType d = t) ds)
      | Some n \<Rightarrow> Some (n + tbl_count (\<lambda>d. pd_duplicateType d = t) ds))"
proof (induction ds arbitrary: st)
  case Nil
  show ?case by (simp add: tbl_count_def split: option.split)
next
  case (Cons d ds)
  have "map_of (du_byType (count_duplicate d st)) t =
      (if pd_duplicateType d = t then Some ((case map_of (du_byType st) t of None \<Rightarrow> 0 | Some n \<Rightarrow> n) + 1) else map_of (du_byType st) t)"
    by (simp add: count_duplicate_def Let_def update_conv)
  then show ?case by (simp add: Cons tbl_count_def split: option.split)
qed

text \<open>The statistics account for every record: the four states add up to the number of records, the pending ones are the flags that
  are listed, and every type is counted as often as it occurs.\<close>

theorem duplicate_stats_account:
  "du_total (getDuplicateStats s) = length (dd_duplicates s)
   \<and> du_total (getDuplicateStats s) = du_PENDING (getDuplicateStats s) + du_REVIEWED (getDuplicateStats s)
       + du_MERGED (getDuplicateStats s) + du_DISMISSED (getDuplicateStats s)
   \<and> du_PENDING (getDuplicateStats s) = length (getFlags s)
   \<and> (\<forall>t. map_of (du_byType (getDuplicateStats s)) t =
       (let n = tbl_count (\<lambda>d. pd_duplicateType d = t) (dd_duplicates s) in if n = 0 then None else Some n))"
proof -
  have "length ds = tbl_count (\<lambda>d. pd_flaggedForReview d \<and> \<not> pd_isMerged d \<and> \<not> pd_isResolved d) ds
      + tbl_count (\<lambda>d. \<not> pd_flaggedForReview d \<and> \<not> pd_isMerged d \<and> \<not> pd_isResolved d) ds + tbl_count pd_isMerged ds
      + tbl_count (\<lambda>d. \<not> pd_isMerged d \<and> pd_isResolved d) ds" for ds
    by (induction ds) (auto simp: tbl_count_def)
  moreover have "length (getFlags s) = tbl_count (\<lambda>d. pd_flaggedForReview d \<and> \<not> pd_isMerged d \<and> \<not> pd_isResolved d) (dd_duplicates s)"
    by (simp add: getFlags_def tbl_count_def)
  ultimately show ?thesis
    unfolding getDuplicateStats_def count_types Let_def by (subst (1 2 3 4 5 6 7) count_duplicates) simp
qed

subsection \<open>Examples\<close>

definition example_image :: "string \<Rightarrow> string \<Rightarrow> image" where
  "example_image i p = \<lparr>im_id = i, im_propertyId = p, im_url = [], im_thumbnailUrl = [], im_mediumUrl = [], im_filename = i @ ''.webp'',
     im_mimeType = ''image/webp'', im_size = 2, im_width = None, im_height = None, im_order = 0, im_isPrimary = True,
     im_uniqueHash = ''h'', im_createdAt = 5\<rparr>"

text \<open>Two listings of two owners, with one image each.\<close>

definition two_owners :: duplicate_state where
  "two_owners = \<lparr>dd_listings = example_listings [example_listing ''p1'' ''Storgata 1'' ACTIVE,
       (example_listing ''p2'' ''Storgata 2'' ACTIVE)\<lparr>pp_ownerId := ''u2''\<rparr>],
     dd_features = (\<lambda>_. []), dd_viewCount = (\<lambda>_. 0),
     dd_gallery = \<lparr>is_images = [example_image ''i1'' ''p1'', example_image ''i2'' ''p2''],
       is_files = [(''p1'', ''full_i1.webp''), (''p2'', ''full_i2.webp'')]\<rparr>, dd_duplicates = []\<rparr>"

lemma two_owners_rows:
  "dd_find ''p1'' two_owners = Some (example_listing ''p1'' ''Storgata 1'' ACTIVE)"
  "dd_find ''p2'' two_owners = Some ((example_listing ''p2'' ''Storgata 2'' ACTIVE)\<lparr>pp_ownerId := ''u2''\<rparr>)"
  "ids_distinct (dd_gallery two_owners)" "example_image ''i1'' ''p1'' \<in> set (images_of ''p1'' (dd_gallery two_owners))"
  by (simp_all add: two_owners_def example_listings_def example_listing_def tbl_find_def ids_distinct_def images_of_def example_image_def)

definition example_merge :: merge_dto where
  "example_merge = \<lparr>md_keepPropertyId = ''p2'', md_discardPropertyId = ''p1''\<rparr>"

theorem merge_takes_over_any_listing_witness:
  "\<exists>s'. mergeProperties ''d1'' example_merge ''u2'' ''USER'' 9 two_owners = (Inr (''p2'', ''p1''), s')
    \<and> images_of ''p1'' (dd_gallery s') = []"
proof -
  have "pp_ownerId ((example_listing ''p2'' ''Storgata 2'' ACTIVE)\<lparr>pp_ownerId := ''u2''\<rparr>) = ''u2''" "''p1'' \<noteq> ''p2''" by simp_all
  from merge_takes_over_any_listing [OF two_owners_rows(2) this(1) two_owners_rows(1) this(2)]
  show ?thesis using two_owners_rows(3) unfolding example_merge_def by blast
qed

lemma example_merged: "\<exists>s'. mergeProperties ''d1'' example_merge ''u2'' ''USER'' 9 two_owners = (Inr (''p2'', ''p1''), s')"
  by (simp add: mergeProperties_def example_merge_def two_owners_rows Let_def)

theorem merge_appends_images_witness:
  "\<exists>s'. mergeProperties ''d1'' example_merge ''u2'' ''USER'' 9 two_owners = (Inr (''p2'', ''p1''), s')
    \<and> map im_id (listImages ''p2'' (dd_gallery s')) = [''i2'', ''i1''] \<and> primaries ''p2'' (dd_gallery s') = 2"
proof -
  obtain s' where run: "mergeProperties ''d1'' example_merge ''u2'' ''USER'' 9 two_owners = (Inr (''p2'', ''p1''), s')"
    using example_merged by blast
  have "map im_id (listImages ''p2'' (dd_gallery two_owners)) = [''i2'']" "map im_id (images_of ''p1'' (dd_gallery two_owners)) = [''i1'']"
    "primaries ''p2'' (dd_gallery two_owners) = 1" "primaries ''p1'' (dd_gallery two_owners) = 1"
    by (simp_all add: listImages_def images_of_def two_owners_def example_image_def tbl_asc_def primaries_def tbl_count_def)
  then show ?thesis using merge_appends_images [OF run [unfolded example_merge_def] two_owners_rows(3)] run by simp
qed

theorem merged_images_not_served_witness:
  "\<exists>s'. mergeProperties ''d1'' example_merge ''u2'' ''USER'' 9 two_owners = (Inr (''p2'', ''p1''), s')
    \<and> fst (serveOptimizedImage True ''i1'' ''image/webp'' (dd_gallery s')) = Inl (InternalError ''Internal server error'')"
proof -
  let ?i = "example_image ''i1'' ''p1''"
  obtain s' where run: "mergeProperties ''d1'' example_merge ''u2'' ''USER'' 9 two_owners = (Inr (''p2'', ''p1''), s')"
    using example_merged by blast
  have base: "im_filename ?i = ''i1.webp''" "strip_extension ''i1.webp'' = ''i1''" "im_id ?i = ''i1''"
    using strip_webp [of "''i1''"] by (simp_all add: example_image_def)
  have "\<forall>f \<in> insert (im_filename ?i) (set (variant_files (strip_extension (im_filename ?i)))). (''p2'', f) \<notin> set (is_files (dd_gallery two_owners))"
    unfolding base by (simp add: variant_files_def variant_names_def variant_file_def two_owners_def)
  from merged_images_not_served [OF run [unfolded example_merge_def] two_owners_rows(3,4) this] show ?thesis
    using run base(3) by auto
qed

end
