(* ===== verification/Support_Tickets.thy ===== *)
theory Support_Tickets
  imports Auth_Tokens
begin

text \<open>
  Support tickets: \<open>src/support-tickets/support-tickets.service.ts\<close>, and what the controller passes to it.

  The tables of tickets and notes, and the notifications the service sends, as triples of recipient, type and ticket.
  Foreign keys are in the schema: \<open>user_exists\<close> says which users there are.  Identifiers and the clock are
  arguments.  The column \<open>updatedAt\<close>, which no operation reads, is left out.
\<close>

subsection \<open>State\<close>

datatype ticket_category =
    CAT_GENERAL | CAT_BILLING | CAT_TECHNICAL | CAT_PROPERTY_LISTING | CAT_TRANSACTION | CAT_ACCOUNT | CAT_FRAUD_REPORT | CAT_OTHER

datatype ticket_priority = PRIO_LOW | PRIO_MEDIUM | PRIO_HIGH | PRIO_CRITICAL

datatype ticket_status = TK_NEW | TK_IN_PROGRESS | TK_WAITING_ON_CUSTOMER | TK_RESOLVED | TK_CLOSED

definition ticket_categories :: "(string \<times> ticket_category) list" where
  "ticket_categories =
     [(''GENERAL'', CAT_GENERAL), (''BILLING'', CAT_BILLING), (''TECHNICAL'', CAT_TECHNICAL),
      (''PROPERTY_LISTING'', CAT_PROPERTY_LISTING), (''TRANSACTION'', CAT_TRANSACTION), (''ACCOUNT'', CAT_ACCOUNT),
      (''FRAUD_REPORT'', CAT_FRAUD_REPORT), (''OTHER'', CAT_OTHER)]"

definition ticket_priorities :: "(string \<times> ticket_priority) list" where
  "ticket_priorities =
     [(''LOW'', PRIO_LOW), (''MEDIUM'', PRIO_MEDIUM), (''HIGH'', PRIO_HIGH), (''CRITICAL'', PRIO_CRITICAL)]"

definition ticket_statuses :: "(string \<times> ticket_status) list" where
  "ticket_statuses =
     [(''NEW'', TK_NEW), (''IN_PROGRESS'', TK_IN_PROGRESS), (''WAITING_ON_CUSTOMER'', TK_WAITING_ON_CUSTOMER),
      (''RESOLVED'', TK_RESOLVED), (''CLOSED'', TK_CLOSED)]"

fun ticket_status_name :: "ticket_status \<Rightarrow> string" where
  "ticket_status_name TK_NEW = ''NEW''"
| "ticket_status_name TK_IN_PROGRESS = ''IN_PROGRESS''"
| "ticket_status_name TK_WAITING_ON_CUSTOMER = ''WAITING_ON_CUSTOMER''"
| "ticket_status_name TK_RESOLVED = ''RESOLVED''"
| "ticket_status_name TK_CLOSED = ''CLOSED''"

text \<open>An \<open>orderBy\<close> on an enum follows its declaration.\<close>

fun priority_rank :: "ticket_priority \<Rightarrow> int" where
  "priority_rank PRIO_LOW = 0"
| "priority_rank PRIO_MEDIUM = 1"
| "priority_rank PRIO_HIGH = 2"
| "priority_rank PRIO_CRITICAL = 3"

record ticket =
  tk_id :: string
  tk_userId :: string
  tk_assignedToId :: "string option"
  tk_category :: ticket_category
  tk_priority :: ticket_priority
  tk_status :: ticket_status
  tk_subject :: string
  tk_description :: string
  tk_transactionId :: "string option"
  tk_propertyId :: "string option"
  tk_slaDeadline :: "time option"
  tk_slaBreached :: bool
  tk_firstResponseAt :: "time option"
  tk_resolvedAt :: "time option"
  tk_closedAt :: "time option"
  tk_createdAt :: time

record ticket_note =
  tn_id :: string
  tn_ticketId :: string
  tn_authorId :: string
  tn_content :: string
  tn_isPublic :: bool
  tn_createdAt :: time

datatype ticket_notice = SUPPORT_TICKET_UPDATE | SUPPORT_TICKET_ASSIGNED | SUPPORT_TICKET_SLA_BREACH

record support_state =
  sp_tickets :: "ticket list"
  sp_notes :: "ticket_note list"
  sp_sent :: "(string \<times> ticket_notice \<times> string) list"

definition find_ticket :: "string \<Rightarrow> support_state \<Rightarrow> ticket option" where
  "find_ticket i s = tbl_find tk_id i (sp_tickets s)"

definition update_ticket :: "string \<Rightarrow> (ticket \<Rightarrow> ticket) \<Rightarrow> support_state \<Rightarrow> support_state" where
  "update_ticket i f s = s\<lparr>sp_tickets := tbl_update tk_id i f (sp_tickets s)\<rparr>"

definition send_ticket_notice :: "string \<Rightarrow> ticket_notice \<Rightarrow> string \<Rightarrow> support_state \<Rightarrow> support_state" where
  "send_ticket_notice u n i s = s\<lparr>sp_sent := sp_sent s @ [(u, n, i)]\<rparr>"

definition no_ticket :: http_error where
  "no_ticket = NotFound ''Support ticket not found''"

text \<open>What the database client answers to a value outside an enum, to a required column that is \<open>undefined\<close>, and to a
  reference to a row that does not exist.\<close>

definition invalid_enum :: http_error where
  "invalid_enum = InternalError ''Internal server error''"

definition missing_argument :: http_error where
  "missing_argument = InternalError ''Internal server error''"

definition foreign_key_error :: http_error where
  "foreign_key_error = BadRequest ''Foreign key constraint failed''"

subsection \<open>Creating\<close>

fun SLA_HOURS :: "ticket_priority \<Rightarrow> int" where
  "SLA_HOURS PRIO_CRITICAL = 4"
| "SLA_HOURS PRIO_HIGH = 8"
| "SLA_HOURS PRIO_MEDIUM = 24"
| "SLA_HOURS PRIO_LOW = 72"

record create_ticket_dto =
  ct_category :: "string option"
  ct_priority :: "string option"
  ct_subject :: string
  ct_description :: string
  ct_transactionId :: "string option"
  ct_propertyId :: "string option"

text \<open>\<open>value || default\<close> on optional text.\<close>

definition or_default :: "string option \<Rightarrow> string \<Rightarrow> string" where
  "or_default v d = (case v of None \<Rightarrow> d | Some s \<Rightarrow> if s = [] then d else s)"

definition createTicket ::
  "(string \<Rightarrow> bool) \<Rightarrow> string \<Rightarrow> string option \<Rightarrow> create_ticket_dto \<Rightarrow> time \<Rightarrow> support_state \<Rightarrow> (ticket, support_state) outcome" where
  "createTicket user_exists newId userId dto now s =
     (case (map_of ticket_priorities (or_default (ct_priority dto) ''MEDIUM''),
            map_of ticket_categories (or_default (ct_category dto) ''GENERAL'')) of
        (Some priority, Some category) \<Rightarrow> (case userId of
          None \<Rightarrow> (Inl missing_argument, s)
        | Some u \<Rightarrow> if \<not> user_exists u then (Inl foreign_key_error, s)
          else (let t = \<lparr>tk_id = newId, tk_userId = u, tk_assignedToId = None, tk_category = category,
                  tk_priority = priority, tk_status = TK_NEW, tk_subject = ct_subject dto,
                  tk_description = ct_description dto, tk_transactionId = ct_transactionId dto,
                  tk_propertyId = ct_propertyId dto, tk_slaDeadline = Some (now + SLA_HOURS priority * ms_hour),
                  tk_slaBreached = False, tk_firstResponseAt = None, tk_resolvedAt = None, tk_closedAt = None,
                  tk_createdAt = now\<rparr>
                in (Inr t, s\<lparr>sp_tickets := tbl_create t (sp_tickets s)\<rparr>)))
      | _ \<Rightarrow> (Inl invalid_enum, s))"

definition getTicket :: "string \<Rightarrow> support_state \<Rightarrow> (ticket \<times> ticket_note list) result" where
  "getTicket i s =
     (case find_ticket i s of
        None \<Rightarrow> Inl no_ticket
      | Some t \<Rightarrow> Inr (t, tbl_asc tn_createdAt (filter (\<lambda>n. tn_ticketId n = i) (sp_notes s))))"

subsection \<open>Notes, status, assignment\<close>

definition addNote ::
  "(string \<Rightarrow> bool) \<Rightarrow> string \<Rightarrow> string \<Rightarrow> string \<Rightarrow> bool option \<Rightarrow> string option \<Rightarrow> time \<Rightarrow> support_state \<Rightarrow> (ticket_note, support_state) outcome" where
  "addNote user_exists newId i content isPublic authorId now s =
     (case find_ticket i s of
        None \<Rightarrow> (Inl no_ticket, s)
      | Some t \<Rightarrow>
          (let s1 = (if tk_firstResponseAt t = None then update_ticket i (\<lambda>t. t\<lparr>tk_firstResponseAt := Some now\<rparr>) s else s)
           in case authorId of
                None \<Rightarrow> (Inl missing_argument, s1)
              | Some a \<Rightarrow> if \<not> user_exists a then (Inl foreign_key_error, s1)
                  else let n = \<lparr>tn_id = newId, tn_ticketId = i, tn_authorId = a, tn_content = content,
                         tn_isPublic = (case isPublic of None \<Rightarrow> True | Some b \<Rightarrow> b), tn_createdAt = now\<rparr>
                       in (Inr n, s1\<lparr>sp_notes := tbl_create n (sp_notes s1)\<rparr>)))"

fun VALID_STATUS_TRANSITIONS :: "ticket_status \<Rightarrow> ticket_status list" where
  "VALID_STATUS_TRANSITIONS TK_NEW = [TK_IN_PROGRESS, TK_CLOSED]"
| "VALID_STATUS_TRANSITIONS TK_IN_PROGRESS = [TK_WAITING_ON_CUSTOMER, TK_RESOLVED, TK_CLOSED]"
| "VALID_STATUS_TRANSITIONS TK_WAITING_ON_CUSTOMER = [TK_IN_PROGRESS, TK_RESOLVED, TK_CLOSED]"
| "VALID_STATUS_TRANSITIONS TK_RESOLVED = [TK_CLOSED, TK_IN_PROGRESS]"
| "VALID_STATUS_TRANSITIONS TK_CLOSED = [TK_IN_PROGRESS]"

text \<open>The data of the update, given the status that is set and the row that was read.\<close>

definition apply_ticket_status :: "ticket_status \<Rightarrow> time \<Rightarrow> ticket \<Rightarrow> ticket" where
  "apply_ticket_status st now t =
     t\<lparr>tk_status := st,
       tk_resolvedAt := (if st = TK_RESOLVED then Some now else tk_resolvedAt t),
       tk_closedAt := (if st = TK_CLOSED then Some now else tk_closedAt t),
       tk_firstResponseAt := (if st = TK_IN_PROGRESS \<and> tk_firstResponseAt t = None then Some now else tk_firstResponseAt t)\<rparr>"

record update_status_dto =
  ud_status :: string
  ud_notes :: "string option"

definition ticket_updateStatus ::
  "(string \<Rightarrow> bool) \<Rightarrow> string \<Rightarrow> string \<Rightarrow> update_status_dto \<Rightarrow> string option \<Rightarrow> time \<Rightarrow> support_state \<Rightarrow> (ticket, support_state) outcome" where
  "ticket_updateStatus user_exists noteId i dto actorId now s =
     (case find_ticket i s of
        None \<Rightarrow> (Inl no_ticket, s)
      | Some t \<Rightarrow>
          (case List.find (\<lambda>st. ticket_status_name st = ud_status dto) (VALID_STATUS_TRANSITIONS (tk_status t)) of
             None \<Rightarrow> (Inl (BadRequest (''Cannot transition from '' @ ticket_status_name (tk_status t) @ '' to '' @ ud_status dto
               @ ''. Allowed: '' @ js_join '', '' (map ticket_status_name (VALID_STATUS_TRANSITIONS (tk_status t))))), s)
           | Some st \<Rightarrow>
               (let updated = apply_ticket_status st now t;
                    s1 = update_ticket i (\<lambda>_. updated) s;
                    s2 = (if tk_userId updated = [] then s1 else send_ticket_notice (tk_userId updated) SUPPORT_TICKET_UPDATE i s1)
                in case (actorId, ud_notes dto) of
                     (Some a, Some c) \<Rightarrow>
                       if a = [] \<or> c = [] then (Inr updated, s2)
                       else (case addNote user_exists noteId i c (Some True) (Some a) now s2 of
                               (Inl e, s3) \<Rightarrow> (Inl e, s3)
                             | (Inr _, s3) \<Rightarrow> (Inr updated, s3))
                   | _ \<Rightarrow> (Inr updated, s2))))"

definition assignTicket ::
  "(string \<Rightarrow> bool) \<Rightarrow> string \<Rightarrow> string \<Rightarrow> time \<Rightarrow> support_state \<Rightarrow> (ticket, support_state) outcome" where
  "assignTicket user_exists i agentId now s =
     (case find_ticket i s of
        None \<Rightarrow> (Inl no_ticket, s)
      | Some t \<Rightarrow>
          if \<not> user_exists agentId then (Inl foreign_key_error, s)
          else (let updated = t\<lparr>tk_assignedToId := Some agentId,
                      tk_status := (if tk_status t = TK_NEW then TK_IN_PROGRESS else tk_status t),
                      tk_firstResponseAt := (if tk_status t = TK_NEW then Some now else tk_firstResponseAt t)\<rparr>
                in (Inr updated, send_ticket_notice agentId SUPPORT_TICKET_ASSIGNED i (update_ticket i (\<lambda>_. updated) s))))"

subsection \<open>Lists and metrics\<close>

record ticket_filters =
  tf_userId :: "string option"
  tf_assignedToId :: "string option"
  tf_status :: "string option"
  tf_priority :: "string option"
  tf_category :: "string option"
  tf_page :: "int option"
  tf_limit :: "int option"

record ticket_page =
  tp_tickets :: "ticket list"
  tp_total :: nat
  tp_page :: int
  tp_limit :: int
  tp_totalPages :: int

text \<open>A filter is used unless it is empty; a name outside the enum is refused by the database.\<close>

definition enum_filter :: "(string \<times> 'e) list \<Rightarrow> string option \<Rightarrow> 'e option result" where
  "enum_filter names v =
     (if or_default v [] = [] then Inr None
      else case map_of names (or_default v []) of None \<Rightarrow> Inl invalid_enum | Some e \<Rightarrow> Inr (Some e))"

definition filter_ok :: "'a option \<Rightarrow> 'a \<Rightarrow> bool" where
  "filter_ok f x = (case f of None \<Rightarrow> True | Some y \<Rightarrow> x = y)"

definition text_filter :: "string option \<Rightarrow> string option" where
  "text_filter v = (if or_default v [] = [] then None else v)"

definition or_number :: "int option \<Rightarrow> int \<Rightarrow> int" where
  "or_number v d = (case v of None \<Rightarrow> d | Some n \<Rightarrow> if n = 0 then d else n)"

text \<open>\<open>take\<close> with a negative number takes from the end.\<close>

definition prisma_page :: "int \<Rightarrow> int \<Rightarrow> 'r list \<Rightarrow> 'r list" where
  "prisma_page skip n t = (if 0 \<le> n then tbl_page (nat skip) (nat n) t else rev (tbl_page (nat skip) (nat (- n)) (rev t)))"

definition ticket_order :: "ticket list \<Rightarrow> ticket list" where
  "ticket_order t = tbl_asc (\<lambda>t. priority_rank (tk_priority t)) (tbl_desc tk_createdAt t)"

definition listTickets :: "ticket_filters \<Rightarrow> support_state \<Rightarrow> ticket_page result" where
  "listTickets f s =
     (case (enum_filter ticket_statuses (tf_status f), enum_filter ticket_priorities (tf_priority f),
            enum_filter ticket_categories (tf_category f)) of
        (Inr st, Inr pr, Inr ca) \<Rightarrow>
          (let page = or_number (tf_page f) 1; lim = or_number (tf_limit f) 20; skip = (page - 1) * lim;
               rows = filter (\<lambda>t. filter_ok (text_filter (tf_userId f)) (tk_userId t)
                 \<and> filter_ok (map_option Some (text_filter (tf_assignedToId f))) (tk_assignedToId t)
                 \<and> filter_ok st (tk_status t) \<and> filter_ok pr (tk_priority t) \<and> filter_ok ca (tk_category t)) (sp_tickets s)
           in if skip < 0 then Inl (InternalError ''Internal server error'')
              else Inr \<lparr>tp_tickets = prisma_page skip lim (ticket_order rows), tp_total = length rows, tp_page = page,
                     tp_limit = lim, tp_totalPages = ceil_div (int (length rows)) lim\<rparr>)
      | _ \<Rightarrow> Inl invalid_enum)"

definition getUnassignedTickets :: "support_state \<Rightarrow> ticket list" where
  "getUnassignedTickets s =
     tbl_asc tk_createdAt (filter (\<lambda>t. tk_assignedToId t = None \<and> tk_status t = TK_NEW) (sp_tickets s))"

text \<open>\<open>groupBy\<close>: one group for every value that occurs, with its number of rows.\<close>

definition group_counts :: "('r \<Rightarrow> 'k) \<Rightarrow> 'r list \<Rightarrow> ('k \<times> nat) list" where
  "group_counts key t = map (\<lambda>k. (k, tbl_count (\<lambda>r. key r = k) t)) (js_unique (map key t))"

definition OPEN_STATUSES :: "ticket_status list" where
  "OPEN_STATUSES = [TK_NEW, TK_IN_PROGRESS, TK_WAITING_ON_CUSTOMER]"

definition RESOLVED_STATUSES :: "ticket_status list" where
  "RESOLVED_STATUSES = [TK_RESOLVED, TK_CLOSED]"

record ticket_metrics =
  tm_total :: nat
  tm_open :: nat
  tm_resolved :: nat
  tm_breached :: nat

definition getTicketMetrics :: "string option \<Rightarrow> support_state \<Rightarrow> ticket_metrics" where
  "getTicketMetrics agentId s =
     (let rows = filter (\<lambda>t. filter_ok (map_option Some (text_filter agentId)) (tk_assignedToId t)) (sp_tickets s);
          groups = group_counts tk_status rows
      in fold (\<lambda>(st, n) m. m\<lparr>tm_total := tm_total m + n,
             tm_open := tm_open m + (if st \<in> set OPEN_STATUSES then n else 0),
             tm_resolved := tm_resolved m + (if st \<in> set RESOLVED_STATUSES then n else 0)\<rparr>) groups
           \<lparr>tm_total = 0, tm_open = 0, tm_resolved = 0, tm_breached = tbl_count tk_slaBreached rows\<rparr>)"

subsection \<open>Response times\<close>

definition sla_due :: "time \<Rightarrow> ticket \<Rightarrow> bool" where
  "sla_due now t \<longleftrightarrow> \<not> tk_slaBreached t \<and> tk_status t \<in> set OPEN_STATUSES
     \<and> (case tk_slaDeadline t of None \<Rightarrow> False | Some d \<Rightarrow> d < now)"

definition alert_agent :: "ticket \<Rightarrow> support_state \<Rightarrow> support_state" where
  "alert_agent t s =
     (case tk_assignedToId t of None \<Rightarrow> s
      | Some a \<Rightarrow> if a = [] then s else send_ticket_notice a SUPPORT_TICKET_SLA_BREACH (tk_id t) s)"

definition checkSlaBreaches :: "time \<Rightarrow> support_state \<Rightarrow> support_state" where
  "checkSlaBreaches now s =
     (let breachedTickets = filter (sla_due now) (sp_tickets s)
      in if breachedTickets = [] then s
         else fold alert_agent breachedTickets
           (s\<lparr>sp_tickets := tbl_update_many (\<lambda>t. tk_id t \<in> set (map tk_id breachedTickets))
                (\<lambda>t. t\<lparr>tk_slaBreached := True\<rparr>) (sp_tickets s)\<rparr>))"

record sla_info =
  si_deadline :: "time option"
  si_breached :: bool
  si_timeRemaining :: "string option"

definition getSlaInfo :: "string \<Rightarrow> time \<Rightarrow> support_state \<Rightarrow> sla_info result" where
  "getSlaInfo i now s =
     (case find_ticket i s of
        None \<Rightarrow> Inl no_ticket
      | Some t \<Rightarrow>
          (case tk_slaDeadline t of
             None \<Rightarrow> Inr \<lparr>si_deadline = None, si_breached = tk_slaBreached t, si_timeRemaining = None\<rparr>
           | Some d \<Rightarrow>
               (let diffMs = d - now; breached = (diffMs < 0 \<or> tk_slaBreached t)
                in Inr \<lparr>si_deadline = Some d, si_breached = breached,
                     si_timeRemaining = (if breached then None
                       else Some (show_int (diffMs div ms_hour) @ ''h '' @ show_int ((diffMs mod ms_hour) div ms_minute) @ ''m''))\<rparr>)))"

subsection \<open>The controller\<close>

text \<open>The handlers pass \<open>user.id\<close>; the identity that the access guard puts into the request (\<open>validateAccessToken\<close>) has the
  identifier under \<open>sub\<close> and no property \<open>id\<close>, so that \<open>user.id\<close> is \<open>undefined\<close>.\<close>

definition caller_id :: "access_identity \<Rightarrow> string option" where
  "caller_id user = None"

definition no_filters :: ticket_filters where
  "no_filters = \<lparr>tf_userId = None, tf_assignedToId = None, tf_status = None, tf_priority = None, tf_category = None,
     tf_page = None, tf_limit = None\<rparr>"

definition post_ticket ::
  "(string \<Rightarrow> bool) \<Rightarrow> string \<Rightarrow> access_identity \<Rightarrow> create_ticket_dto \<Rightarrow> time \<Rightarrow> support_state \<Rightarrow> (ticket, support_state) outcome" where
  "post_ticket user_exists newId user dto now s = createTicket user_exists newId (caller_id user) dto now s"

definition getMyTickets :: "access_identity \<Rightarrow> support_state \<Rightarrow> ticket_page result" where
  "getMyTickets user s = listTickets (no_filters\<lparr>tf_userId := caller_id user\<rparr>) s"

definition getAssignedTickets :: "access_identity \<Rightarrow> support_state \<Rightarrow> ticket_page result" where
  "getAssignedTickets user s = listTickets (no_filters\<lparr>tf_assignedToId := caller_id user\<rparr>) s"

definition getMetrics :: "access_identity \<Rightarrow> support_state \<Rightarrow> ticket_metrics" where
  "getMetrics user s = getTicketMetrics (caller_id user) s"

definition patch_status ::
  "(string \<Rightarrow> bool) \<Rightarrow> string \<Rightarrow> string \<Rightarrow> access_identity \<Rightarrow> update_status_dto \<Rightarrow> time \<Rightarrow> support_state \<Rightarrow> (ticket, support_state) outcome" where
  "patch_status user_exists noteId i user dto now s = ticket_updateStatus user_exists noteId i dto (caller_id user) now s"

definition post_note ::
  "(string \<Rightarrow> bool) \<Rightarrow> string \<Rightarrow> string \<Rightarrow> access_identity \<Rightarrow> string \<Rightarrow> bool option \<Rightarrow> time \<Rightarrow> support_state \<Rightarrow> (ticket_note, support_state) outcome" where
  "post_note user_exists newId i user content isPublic now s = addNote user_exists newId i content isPublic (caller_id user) now s"

end
