(* ===== verification/Ticket_Life.thy ===== *)
theory Ticket_Life
  imports Support_Tickets "HOL-Library.Multiset"
begin

text \<open>
  What the operations on support tickets guarantee over all histories: the step relation, its invariant, the alerts of
  the five-minute check, the time of the first response, and the order of the lists.
\<close>

inductive ticket_step :: "time \<times> support_state \<Rightarrow> time \<times> support_state \<Rightarrow> bool" where
  create: "now \<le> now' \<Longrightarrow> find_ticket newId s = None \<Longrightarrow> createTicket ue newId u dto now' s = (r, s')
    \<Longrightarrow> ticket_step (now, s) (now', s')"
| note_added: "now \<le> now' \<Longrightarrow> addNote ue noteId i c pub a now' s = (rn, s') \<Longrightarrow> ticket_step (now, s) (now', s')"
| status: "now \<le> now' \<Longrightarrow> ticket_updateStatus ue noteId i ud actor now' s = (r, s') \<Longrightarrow> ticket_step (now, s) (now', s')"
| assign: "now \<le> now' \<Longrightarrow> assignTicket ue i agent now' s = (r, s') \<Longrightarrow> ticket_step (now, s) (now', s')"
| check: "now \<le> now' \<Longrightarrow> ticket_step (now, s) (now', checkSlaBreaches now' s)"

definition no_tickets :: support_state where
  "no_tickets = \<lparr>sp_tickets = [], sp_notes = [], sp_sent = []\<rparr>"

subsection \<open>Lookups\<close>

lemma find_update_ticket:
  "(\<And>t. tk_id t = i \<Longrightarrow> tk_id (f t) = i) \<Longrightarrow>
   find_ticket j (update_ticket i f s) = (if j = i then map_option f (find_ticket i s) else find_ticket j s)"
proof -
  assume f: "\<And>t. tk_id t = i \<Longrightarrow> tk_id (f t) = i"
  have "List.find (\<lambda>r. tk_id r = j) (map (\<lambda>r. if tk_id r = i then f r else r) ts) =
      (if j = i then map_option f (List.find (\<lambda>r. tk_id r = i) ts) else List.find (\<lambda>r. tk_id r = j) ts)" for ts
    by (induction ts) (auto simp: f)
  then show ?thesis by (simp add: find_ticket_def update_ticket_def tbl_find_def tbl_update_def)
qed

lemma find_ticket_id: "find_ticket i s = Some t \<Longrightarrow> tk_id t = i"
  by (auto simp: find_ticket_def dest: tbl_find_Some)

lemma send_ticket_notice_simps [simp]:
  "sp_tickets (send_ticket_notice u n i s) = sp_tickets s" "sp_notes (send_ticket_notice u n i s) = sp_notes s"
  "sp_sent (send_ticket_notice u n i s) = sp_sent s @ [(u, n, i)]" "find_ticket j (send_ticket_notice u n i s) = find_ticket j s"
  by (simp_all add: send_ticket_notice_def find_ticket_def)

lemma update_ticket_simps [simp]:
  "sp_notes (update_ticket i f s) = sp_notes s" "sp_sent (update_ticket i f s) = sp_sent s"
  by (simp_all add: update_ticket_def)

text \<open>The alerts of a run, in the order of the table.\<close>

definition alerts_of :: "ticket list \<Rightarrow> (string \<times> ticket_notice \<times> string) list" where
  "alerts_of ts = concat (map (\<lambda>t. case tk_assignedToId t of None \<Rightarrow> []
     | Some a \<Rightarrow> if a = [] then [] else [(a, SUPPORT_TICKET_SLA_BREACH, tk_id t)]) ts)"

lemma fold_alerts: "fold alert_agent ts s = s\<lparr>sp_sent := sp_sent s @ alerts_of ts\<rparr>"
proof (induction ts arbitrary: s)
  case Nil
  show ?case by (simp add: alerts_of_def)
next
  case (Cons t ts)
  have "alert_agent t s = s\<lparr>sp_sent := sp_sent s @ alerts_of [t]\<rparr>"
    by (simp add: alert_agent_def alerts_of_def send_ticket_notice_def split: option.split)
  then show ?case by (simp add: Cons.IH) (simp add: alerts_of_def)
qed

text \<open>The marks of a run, on a table with unique identifiers.\<close>

definition mark_breached :: "time \<Rightarrow> ticket \<Rightarrow> ticket" where
  "mark_breached now t = t\<lparr>tk_slaBreached := tk_slaBreached t \<or> sla_due now t\<rparr>"

lemma mark_same: "\<not> sla_due now t \<Longrightarrow> mark_breached now t = t"
  by (simp add: mark_breached_def)

lemma check_tickets:
  assumes "distinct (map tk_id (sp_tickets s))"
  shows "sp_tickets (checkSlaBreaches now s) = map (mark_breached now) (sp_tickets s)"
proof (cases "filter (sla_due now) (sp_tickets s) = []")
  case True
  then have "map (mark_breached now) (sp_tickets s) = sp_tickets s"
    by (auto simp: filter_empty_conv mark_same intro: map_idI)
  then show ?thesis using True by (simp add: checkSlaBreaches_def)
next
  case False
  have "tk_id t \<in> tk_id ` set (filter (sla_due now) (sp_tickets s)) \<longleftrightarrow> sla_due now t" if "t \<in> set (sp_tickets s)" for t
    using assms that by (auto simp: distinct_map inj_on_def)
  then show ?thesis using False
    by (auto simp: checkSlaBreaches_def fold_alerts tbl_update_many_def Let_def mark_breached_def)
qed

lemma check_sent: "sp_sent (checkSlaBreaches now s) = sp_sent s @ alerts_of (filter (sla_due now) (sp_tickets s))"
  by (auto simp: checkSlaBreaches_def fold_alerts Let_def alerts_of_def)

lemma check_notes: "sp_notes (checkSlaBreaches now s) = sp_notes s"
  by (simp add: checkSlaBreaches_def fold_alerts Let_def)

subsection \<open>What a step does to a row\<close>

definition respond :: "time \<Rightarrow> ticket \<Rightarrow> ticket" where
  "respond now t = (if tk_firstResponseAt t = None then t\<lparr>tk_firstResponseAt := Some now\<rparr> else t)"

definition assigned_row :: "string \<Rightarrow> time \<Rightarrow> ticket \<Rightarrow> ticket" where
  "assigned_row a now t = t\<lparr>tk_assignedToId := Some a,
     tk_status := (if tk_status t = TK_NEW then TK_IN_PROGRESS else tk_status t),
     tk_firstResponseAt := (if tk_status t = TK_NEW then Some now else tk_firstResponseAt t)\<rparr>"

inductive row_change :: "time \<Rightarrow> ticket \<Rightarrow> ticket \<Rightarrow> bool" for now where
  same: "row_change now t t"
| respond: "row_change now t (respond now t)"
| status: "st \<in> set (VALID_STATUS_TRANSITIONS (tk_status t)) \<Longrightarrow> row_change now t (apply_ticket_status st now t)"
| status_note: "st \<in> set (VALID_STATUS_TRANSITIONS (tk_status t)) \<Longrightarrow> row_change now t (respond now (apply_ticket_status st now t))"
| assign: "row_change now t (assigned_row a now t)"
| mark: "row_change now t (mark_breached now t)"

lemma row_ids [simp]:
  "tk_id (respond now t) = tk_id t" "tk_id (apply_ticket_status st now t) = tk_id t"
  "tk_id (assigned_row a now t) = tk_id t" "tk_id (mark_breached now t) = tk_id t"
  by (simp_all add: respond_def apply_ticket_status_def assigned_row_def mark_breached_def)

text \<open>A change of one row.\<close>

definition one_row :: "time \<Rightarrow> support_state \<Rightarrow> support_state \<Rightarrow> bool" where
  "one_row now s s' \<longleftrightarrow> sp_tickets s' = sp_tickets s
     \<or> (\<exists>i f. (\<forall>t. tk_id t = i \<longrightarrow> tk_id (f t) = i) \<and> (\<forall>t. find_ticket i s = Some t \<longrightarrow> row_change now t (f t))
          \<and> sp_tickets s' = sp_tickets (update_ticket i f s))"

lemma one_rowI:
  "(\<And>t. tk_id t = i \<Longrightarrow> tk_id (f t) = i) \<Longrightarrow> (\<And>t. find_ticket i s = Some t \<Longrightarrow> row_change now t (f t)) \<Longrightarrow>
   sp_tickets s' = sp_tickets (update_ticket i f s) \<Longrightarrow> one_row now s s'"
  unfolding one_row_def by blast

lemma one_row_same: "sp_tickets s' = sp_tickets s \<Longrightarrow> one_row now s s'"
  by (simp add: one_row_def)

definition answer :: "time \<Rightarrow> ticket \<Rightarrow> ticket" where
  "answer now t = t\<lparr>tk_firstResponseAt := Some now\<rparr>"

lemma addNote_effect:
  assumes "addNote ue n i c pub a now s = (r, s')"
  shows "sp_tickets s' = sp_tickets s \<or> (\<exists>t. find_ticket i s = Some t \<and> tk_firstResponseAt t = None
      \<and> sp_tickets s' = sp_tickets (update_ticket i (answer now) s))"
    and "sp_sent s' = sp_sent s"
    and "\<forall>x \<in> set (sp_notes s'). x \<in> set (sp_notes s) \<or> (tn_ticketId x = i \<and> find_ticket i s \<noteq> None)"
  using assms unfolding answer_def by (auto simp: addNote_def Let_def tbl_create_def split: option.splits if_splits)

lemma answer_respond: "tk_firstResponseAt t = None \<Longrightarrow> answer now t = respond now t"
  by (simp add: answer_def respond_def)

lemma answer_id [simp]: "tk_id (answer now t) = tk_id t"
  by (simp add: answer_def)

lemma addNote_one_row:
  assumes "addNote ue n i c pub a now s = (r, s')" shows "one_row now s s'"
proof (cases "sp_tickets s' = sp_tickets s")
  case False
  then obtain t where t: "find_ticket i s = Some t" "tk_firstResponseAt t = None"
    "sp_tickets s' = sp_tickets (update_ticket i (answer now) s)"
    using addNote_effect(1) [OF assms] by blast
  show ?thesis
    by (rule one_rowI [where f = "answer now", OF _ _ t(3)]) (use t in \<open>auto simp: answer_respond intro: row_change.respond\<close>)
qed (rule one_row_same)

lemma assign_effect:
  assumes "assignTicket ue i a now s = (r, s')"
  shows "s' = s \<or> (\<exists>t. find_ticket i s = Some t
      \<and> s' = send_ticket_notice a SUPPORT_TICKET_ASSIGNED i (update_ticket i (\<lambda>_. assigned_row a now t) s))"
  using assms by (auto simp: assignTicket_def assigned_row_def Let_def split: option.splits if_splits)

lemma assign_one_row:
  assumes "assignTicket ue i a now s = (r, s')" shows "one_row now s s'"
proof (cases "s' = s")
  case False
  then obtain t where t: "find_ticket i s = Some t"
    "s' = send_ticket_notice a SUPPORT_TICKET_ASSIGNED i (update_ticket i (\<lambda>_. assigned_row a now t) s)"
    using assign_effect [OF assms] by blast
  show ?thesis
    by (rule one_rowI [where i = i and f = "\<lambda>_. assigned_row a now t"])
      (use t find_ticket_id [OF t(1)] in \<open>auto intro: row_change.assign\<close>)
qed (simp add: one_row_same)

lemma status_effect:
  assumes "ticket_updateStatus ue n i ud actor now s = (r, s')"
  shows "s' = s \<or> (\<exists>t st u. find_ticket i s = Some t \<and> st \<in> set (VALID_STATUS_TRANSITIONS (tk_status t))
      \<and> (let s1 = update_ticket i (\<lambda>_. apply_ticket_status st now t) s;
             s2 = (if u = [] then s1 else send_ticket_notice u SUPPORT_TICKET_UPDATE i s1)
         in s' = s2 \<or> (\<exists>c a e. addNote ue n i c (Some True) (Some a) now s2 = (e, s'))))"
proof (cases "find_ticket i s")
  case None
  then show ?thesis using assms by (simp add: ticket_updateStatus_def)
next
  case (Some t)
  show ?thesis
  proof (cases "List.find (\<lambda>st. ticket_status_name st = ud_status ud) (VALID_STATUS_TRANSITIONS (tk_status t))")
    case None
    then show ?thesis using assms Some by (simp add: ticket_updateStatus_def)
  next
    case (Some st)
    then have "st \<in> set (VALID_STATUS_TRANSITIONS (tk_status t))" by (simp add: find_Some_in)
    then show ?thesis using assms \<open>find_ticket i s = Some t\<close> Some
      by (intro disjI2 exI [of _ t] exI [of _ st] exI [of _ "tk_userId (apply_ticket_status st now t)"])
        (auto simp: ticket_updateStatus_def Let_def split: option.splits if_splits prod.splits sum.splits)
  qed
qed

lemma status_one_row:
  assumes "ticket_updateStatus ue n i ud actor now s = (r, s')" shows "one_row now s s'"
proof (cases "s' = s")
  case False
  then obtain t st u where t: "find_ticket i s = Some t" "st \<in> set (VALID_STATUS_TRANSITIONS (tk_status t))"
    and effect: "let s1 = update_ticket i (\<lambda>_. apply_ticket_status st now t) s;
             s2 = (if u = [] then s1 else send_ticket_notice u SUPPORT_TICKET_UPDATE i s1)
         in s' = s2 \<or> (\<exists>c a e. addNote ue n i c (Some True) (Some a) now s2 = (e, s'))"
    using status_effect [OF assms] by blast
  let ?t = "apply_ticket_status st now t" and ?s1 = "update_ticket i (\<lambda>_. apply_ticket_status st now t) s"
  define s2 where "s2 = (if u = [] then ?s1 else send_ticket_notice u SUPPORT_TICKET_UPDATE i ?s1)"
  have s2: "sp_tickets s2 = sp_tickets ?s1" by (simp add: s2_def)
  have id: "tk_id ?t = i" using find_ticket_id [OF t(1)] by simp
  have plain: "one_row now s s'" if "sp_tickets s' = sp_tickets ?s1"
    by (rule one_rowI [where i = i and f = "\<lambda>_. ?t"]) (use id that t in \<open>auto intro: row_change.status\<close>)
  have "s' = s2 \<or> (\<exists>c a e. addNote ue n i c (Some True) (Some a) now s2 = (e, s'))"
    using effect by (simp add: Let_def s2_def)
  then show ?thesis
  proof
    assume "s' = s2"
    then show ?thesis using plain s2 by simp
  next
    assume "\<exists>c a e. addNote ue n i c (Some True) (Some a) now s2 = (e, s')"
    then obtain c a e where run: "addNote ue n i c (Some True) (Some a) now s2 = (e, s')" by blast
    have "find_ticket i s2 = Some ?t"
      using t(1) id s2 find_update_ticket [of i "\<lambda>_. ?t" i s] by (simp add: find_ticket_def)
    then have "sp_tickets s' = sp_tickets ?s1 \<or> (tk_firstResponseAt ?t = None \<and> sp_tickets s' = sp_tickets (update_ticket i (answer now) s2))"
      using addNote_effect(1) [OF run] s2 by auto
    moreover have "one_row now s s'" if none: "tk_firstResponseAt ?t = None"
      and new: "sp_tickets s' = sp_tickets (update_ticket i (answer now) s2)"
    proof (rule one_rowI [where i = i and f = "\<lambda>_. answer now ?t"])
      show "sp_tickets s' = sp_tickets (update_ticket i (\<lambda>_. answer now ?t) s)"
        using new s2 id by (auto simp: update_ticket_def tbl_update_def)
      show "row_change now x (answer now ?t)" if "find_ticket i s = Some x" for x
        using that t none by (simp add: answer_respond row_change.status_note)
      qed (use id in simp)
    ultimately show ?thesis using plain by blast
  qed
qed (simp add: one_row_same)

lemma one_row_find:
  assumes "one_row now s s'"
  shows "case find_ticket j s of None \<Rightarrow> find_ticket j s' = None
    | Some t \<Rightarrow> \<exists>t'. find_ticket j s' = Some t' \<and> row_change now t t'"
    and "map tk_id (sp_tickets s') = map tk_id (sp_tickets s)"
proof -
  have "(case find_ticket j s of None \<Rightarrow> find_ticket j s' = None
      | Some t \<Rightarrow> \<exists>t'. find_ticket j s' = Some t' \<and> row_change now t t')
      \<and> map tk_id (sp_tickets s') = map tk_id (sp_tickets s)"
  proof (cases "sp_tickets s' = sp_tickets s")
    case True
    then show ?thesis by (auto simp: find_ticket_def intro: row_change.same split: option.split)
  next
    case False
    then obtain i f where f: "\<forall>t. tk_id t = i \<longrightarrow> tk_id (f t) = i" "\<forall>t. find_ticket i s = Some t \<longrightarrow> row_change now t (f t)"
      and new: "sp_tickets s' = sp_tickets (update_ticket i f s)"
      using assms unfolding one_row_def by blast
    have "find_ticket j s' = find_ticket j (update_ticket i f s)" using new by (simp add: find_ticket_def)
    moreover have "map tk_id (sp_tickets s') = map tk_id (sp_tickets s)"
      using f(1) by (simp add: new update_ticket_def tbl_update_def comp_def cong: map_cong) 
    ultimately show ?thesis using f find_update_ticket [of i f j s]
      by (auto intro: row_change.same split: option.split)
  qed
  then show "case find_ticket j s of None \<Rightarrow> find_ticket j s' = None
      | Some t \<Rightarrow> \<exists>t'. find_ticket j s' = Some t' \<and> row_change now t t'"
    and "map tk_id (sp_tickets s') = map tk_id (sp_tickets s)" by blast+
qed

subsection \<open>What every reachable state satisfies\<close>

definition in_period :: "time \<Rightarrow> time \<Rightarrow> time option \<Rightarrow> bool" where
  "in_period lo hi v = (case v of None \<Rightarrow> True | Some x \<Rightarrow> lo \<le> x \<and> x \<le> hi)"

definition ticket_ok :: "time \<Rightarrow> ticket \<Rightarrow> bool" where
  "ticket_ok now t \<longleftrightarrow>
     (tk_status t = TK_NEW \<longrightarrow> tk_assignedToId t = None \<and> tk_resolvedAt t = None \<and> tk_closedAt t = None)
     \<and> (tk_status t \<in> {TK_IN_PROGRESS, TK_WAITING_ON_CUSTOMER, TK_RESOLVED} \<longrightarrow> tk_firstResponseAt t \<noteq> None)
     \<and> (tk_status t = TK_RESOLVED \<longrightarrow> tk_resolvedAt t \<noteq> None) \<and> (tk_status t = TK_CLOSED \<longrightarrow> tk_closedAt t \<noteq> None)
     \<and> tk_slaDeadline t = Some (tk_createdAt t + SLA_HOURS (tk_priority t) * ms_hour) \<and> tk_createdAt t \<le> now
     \<and> in_period (tk_createdAt t) now (tk_firstResponseAt t) \<and> in_period (tk_createdAt t) now (tk_resolvedAt t)
     \<and> in_period (tk_createdAt t) now (tk_closedAt t)"

lemma in_period_simps [simp]: "in_period lo hi None" "in_period lo hi (Some x) \<longleftrightarrow> lo \<le> x \<and> x \<le> hi"
  by (simp_all add: in_period_def)

lemma ticket_ok_later: "ticket_ok now t \<Longrightarrow> now \<le> now' \<Longrightarrow> ticket_ok now' t"
  by (auto simp: ticket_ok_def in_period_def split: option.splits)

lemma row_change_ok: "row_change now t t' \<Longrightarrow> ticket_ok now t \<Longrightarrow> ticket_ok now t'"
proof (induction rule: row_change.induct)
  case (status st t)
  then show ?case by (cases "tk_status t") (auto simp: ticket_ok_def apply_ticket_status_def)
next
  case (status_note st t)
  then show ?case by (cases "tk_status t") (auto simp: ticket_ok_def apply_ticket_status_def respond_def)
qed (auto simp: ticket_ok_def respond_def assigned_row_def mark_breached_def)

text \<open>The tickets of a state in terms of its lookups.\<close>

lemma ticket_found:
  "distinct (map tk_id (sp_tickets s)) \<Longrightarrow> t \<in> set (sp_tickets s) \<longleftrightarrow> find_ticket (tk_id t) s = Some t"
  by (auto simp: find_ticket_def dest: tbl_find_distinct tbl_find_Some)

lemma find_create_ticket:
  assumes "createTicket ue n u dto now s = (r, s')" and "find_ticket n s = None"
  shows "s' = s \<or> (\<exists>t. sp_tickets s' = sp_tickets s @ [t] \<and> tk_id t = n \<and> ticket_ok now t \<and> \<not> tk_slaBreached t
     \<and> tk_status t = TK_NEW \<and> sp_notes s' = sp_notes s \<and> sp_sent s' = sp_sent s)"
proof (cases "s' = s")
  case False
  then show ?thesis using assms(1)
    by (auto simp: createTicket_def Let_def tbl_create_def ticket_ok_def split: option.splits if_splits)
qed simp

lemma find_append_ticket:
  "sp_tickets s' = sp_tickets s @ [t] \<Longrightarrow>
   find_ticket j s' = (case find_ticket j s of Some q \<Rightarrow> Some q | None \<Rightarrow> if tk_id t = j then Some t else None)"
  by (auto simp: find_ticket_def tbl_find_def find_append split: option.split)

lemma check_find:
  "distinct (map tk_id (sp_tickets s)) \<Longrightarrow> find_ticket j (checkSlaBreaches now s) = map_option (mark_breached now) (find_ticket j s)"
proof -
  have "List.find (\<lambda>r. tk_id r = j) (map (mark_breached now) ts) = map_option (mark_breached now) (List.find (\<lambda>r. tk_id r = j) ts)" for ts
    by (induction ts) auto
  then show "distinct (map tk_id (sp_tickets s)) \<Longrightarrow> ?thesis"
    by (simp add: find_ticket_def tbl_find_def check_tickets)
qed

text \<open>One step, for every identifier.\<close>

definition row_effect :: "time \<Rightarrow> support_state \<Rightarrow> support_state \<Rightarrow> string \<Rightarrow> bool" where
  "row_effect now s s' j \<longleftrightarrow> (case find_ticket j s of
       Some t \<Rightarrow> \<exists>t'. find_ticket j s' = Some t' \<and> row_change now t t'
     | None \<Rightarrow> (case find_ticket j s' of None \<Rightarrow> True
         | Some t' \<Rightarrow> ticket_ok now t' \<and> \<not> tk_slaBreached t' \<and> tk_status t' = TK_NEW))"

lemma row_effect_one_row: "one_row now s s' \<Longrightarrow> row_effect now s s' j"
  using one_row_find(1) [of now s s' j] by (cases "find_ticket j s") (auto simp: row_effect_def)

lemma ticket_step_rows:
  assumes "ticket_step (now, s) (now', s')" and "distinct (map tk_id (sp_tickets s))"
  shows "now \<le> now'" and "distinct (map tk_id (sp_tickets s'))"
    and "row_effect now' s s' j"
proof -
  have one: "now \<le> now' \<and> distinct (map tk_id (sp_tickets s')) \<and> row_effect now' s s' j"
    if "now \<le> now'" "one_row now' s s'"
    using that(1) one_row_find(2) [OF that(2)] row_effect_one_row [OF that(2)] assms(2) by simp
  have "now \<le> now' \<and> distinct (map tk_id (sp_tickets s')) \<and> row_effect now' s s' j"
    using assms(1)
  proof (cases rule: ticket_step.cases)
    case (create newId ue u dto r)
    show ?thesis
    proof (cases "s' = s")
      case True
      then show ?thesis using create(1) assms(2) by (auto simp: row_effect_def intro: row_change.same split: option.split)
    next
      case False
      then obtain t where t: "sp_tickets s' = sp_tickets s @ [t]" "tk_id t = newId" "ticket_ok now' t"
        "\<not> tk_slaBreached t" "tk_status t = TK_NEW"
        using find_create_ticket [OF create(3,2)] by blast
      have "newId \<notin> set (map tk_id (sp_tickets s))" using create(2) by (simp add: find_ticket_def tbl_find_None)
      then show ?thesis using t create(1) assms(2)
        by (auto simp: row_effect_def find_append_ticket [OF t(1)] intro: row_change.same split: option.split)
    qed
  next
    case check
    have "map tk_id (sp_tickets s') = map tk_id (sp_tickets s)"
      using check assms(2) by (simp add: check_tickets comp_def)
    then show ?thesis using check assms(2) by (auto simp: row_effect_def check_find intro: row_change.mark split: option.split)
  next
    case (note_added ue n i c pub a r)
    show ?thesis by (rule one [OF note_added(1) addNote_one_row [OF note_added(2)]])
  next
    case (status ue n i ud actor r)
    show ?thesis by (rule one [OF status(1) status_one_row [OF status(2)]])
  next
    case (assign ue i a r)
    show ?thesis by (rule one [OF assign(1) assign_one_row [OF assign(2)]])
  qed
  then show "now \<le> now'" and "distinct (map tk_id (sp_tickets s'))"
    and "row_effect now' s s' j"
    by blast+
qed

definition support_ok :: "time \<Rightarrow> support_state \<Rightarrow> bool" where
  "support_ok now s \<longleftrightarrow> distinct (map tk_id (sp_tickets s)) \<and> (\<forall>j t. find_ticket j s = Some t \<longrightarrow> ticket_ok now t)"

lemma step_support_ok:
  assumes "ticket_step (now, s) (now', s')" and "support_ok now s"
  shows "support_ok now' s'"
proof -
  have d: "distinct (map tk_id (sp_tickets s))" using assms(2) by (simp add: support_ok_def)
  note step = ticket_step_rows [OF assms(1) d]
  have "ticket_ok now' t'" if "find_ticket j s' = Some t'" for j t'
  proof (cases "find_ticket j s")
    case None
    then show ?thesis using step(3) [of j] that by (simp add: row_effect_def)
  next
    case (Some t)
    then have "row_change now' t t'" "ticket_ok now' t"
      using step(3) [of j] that assms(2) ticket_ok_later [OF _ step(1)] by (auto simp: row_effect_def support_ok_def)
    then show ?thesis by (rule row_change_ok)
  qed
  then show ?thesis using step(2) by (simp add: support_ok_def)
qed

lemma steps_support_ok: "ticket_step\<^sup>*\<^sup>* x y \<Longrightarrow> support_ok (fst x) (snd x) \<Longrightarrow> support_ok (fst y) (snd y)"
proof (induction rule: rtranclp_induct)
  case (step y z)
  then show ?case using step_support_ok [of "fst y" "snd y" "fst z" "snd z"] by simp
qed

lemma no_tickets_ok: "support_ok now no_tickets"
  by (simp add: support_ok_def no_tickets_def find_ticket_def tbl_find_def)

text \<open>C23: Every ticket that the service ever holds is consistent: a new one has no agent, no resolution and no end; one in progress,
  waiting or resolved has a first response; a resolved or closed one says when; the response time follows from the priority
  for ever; and no time lies before the creation or in the future.  So the queue of unassigned tickets is the queue of the new ones.\<close>

theorem tickets_stay_consistent:
  assumes "ticket_step\<^sup>*\<^sup>* (start, no_tickets) (now, s)" and "t \<in> set (sp_tickets s)"
  shows "ticket_ok now t \<and> getUnassignedTickets s = tbl_asc tk_createdAt (filter (\<lambda>t. tk_status t = TK_NEW) (sp_tickets s))"
proof -
  have "support_ok now s" using steps_support_ok [OF assms(1)] no_tickets_ok by simp
  then have ok: "\<forall>t \<in> set (sp_tickets s). ticket_ok now t" by (auto simp: support_ok_def ticket_found)
  then have "filter (\<lambda>t. tk_assignedToId t = None \<and> tk_status t = TK_NEW) (sp_tickets s) = filter (\<lambda>t. tk_status t = TK_NEW) (sp_tickets s)"
    by (intro filter_cong) (auto simp: ticket_ok_def)
  then show ?thesis using ok assms(2) by (simp add: getUnassignedTickets_def)
qed

subsection \<open>Alerts\<close>

definition sla_alerts :: "string \<Rightarrow> support_state \<Rightarrow> nat" where
  "sla_alerts i s = tbl_count (\<lambda>(_, n, j). n = SUPPORT_TICKET_SLA_BREACH \<and> j = i) (sp_sent s)"

definition marked :: "string \<Rightarrow> support_state \<Rightarrow> bool" where
  "marked i s \<longleftrightarrow> (case find_ticket i s of None \<Rightarrow> False | Some t \<Rightarrow> tk_slaBreached t)"

lemma sla_alerts_more:
  "sp_sent s' = sp_sent s @ xs \<Longrightarrow>
   sla_alerts i s' = sla_alerts i s + tbl_count (\<lambda>(_, n, j). n = SUPPORT_TICKET_SLA_BREACH \<and> j = i) xs"
  by (simp add: sla_alerts_def tbl_count_def)

lemma alerts_of_Cons: "alerts_of (t # ts) = alerts_of [t] @ alerts_of ts"
  by (simp add: alerts_of_def)

lemma alerts_of_one: "tbl_count (\<lambda>(_, n, j). n = SUPPORT_TICKET_SLA_BREACH \<and> j = i) (alerts_of [t])
    \<le> (if tk_id t = i \<and> tk_assignedToId t \<noteq> None then 1 else 0)"
  by (auto simp: alerts_of_def tbl_count_def split: option.split)

lemma alerts_of_count:
  assumes "distinct (map tk_id ts)"
  shows "tbl_count (\<lambda>(_, n, j). n = SUPPORT_TICKET_SLA_BREACH \<and> j = i) (alerts_of ts)
    \<le> (if \<exists>t \<in> set ts. tk_id t = i \<and> tk_assignedToId t \<noteq> None then 1 else 0)"
  using assms
proof (induction ts)
  case Nil
  show ?case by (simp add: alerts_of_def tbl_count_def)
next
  case (Cons t ts)
  let ?p = "\<lambda>(_, n, j). n = SUPPORT_TICKET_SLA_BREACH \<and> j = i"
  have split: "tbl_count ?p (alerts_of (t # ts)) = tbl_count ?p (alerts_of [t]) + tbl_count ?p (alerts_of ts)"
    unfolding alerts_of_Cons [of t ts] by (simp add: tbl_count_def)
  have IH: "tbl_count ?p (alerts_of ts) \<le> (if \<exists>t \<in> set ts. tk_id t = i \<and> tk_assignedToId t \<noteq> None then 1 else 0)"
    using Cons by simp
  show ?case
  proof (cases "tk_id t = i \<and> tk_assignedToId t \<noteq> None")
    case True
    then have no: "\<not> (\<exists>q \<in> set ts. tk_id q = i \<and> tk_assignedToId q \<noteq> None)"
      using Cons.prems by (metis distinct.simps(2) image_eqI list.set_map list.simps(9))
    then have "tbl_count ?p (alerts_of ts) = 0" using IH by (simp only: no if_False le_zero_eq)
    moreover have "\<exists>q \<in> set (t # ts). tk_id q = i \<and> tk_assignedToId q \<noteq> None"
      using True by (intro bexI [of _ t]) simp_all
    ultimately show ?thesis using alerts_of_one [of i t, unfolded if_P [OF True]] by (simp only: split if_True)
  next
    case False
    have "tbl_count ?p (alerts_of [t]) = 0" using alerts_of_one [of i t, unfolded if_not_P [OF False]] by (simp only: le_zero_eq)
    moreover have "(\<exists>q \<in> set (t # ts). tk_id q = i \<and> tk_assignedToId q \<noteq> None) \<longleftrightarrow>
        (\<exists>q \<in> set ts. tk_id q = i \<and> tk_assignedToId q \<noteq> None)"
      using False by (metis set_ConsD list.set_intros(2))
    ultimately show ?thesis using IH by (simp only: split add_0)
  qed
qed

lemma ex_ticket:
  assumes "distinct (map tk_id (sp_tickets s))"
  shows "(\<exists>t \<in> set (sp_tickets s). P t \<and> tk_id t = i) \<longleftrightarrow> (case find_ticket i s of None \<Rightarrow> False | Some t \<Rightarrow> P t)"
proof (cases "find_ticket i s")
  case None
  then have "i \<notin> tk_id ` set (sp_tickets s)" by (simp add: find_ticket_def tbl_find_None)
  then show ?thesis using None by auto
next
  case (Some u)
  have "t = u" if "t \<in> set (sp_tickets s)" "tk_id t = i" for t
    using that Some ticket_found [OF assms, of t] by simp
  moreover have "u \<in> set (sp_tickets s)" "tk_id u = i"
    using Some find_ticket_id [OF Some] by (auto simp: find_ticket_def dest: tbl_find_Some)
  ultimately show ?thesis unfolding Some option.case by blast
qed

lemma check_alerts:
  assumes "distinct (map tk_id (sp_tickets s))"
  shows "sla_alerts i (checkSlaBreaches now s) \<le> sla_alerts i s
    + (case find_ticket i s of None \<Rightarrow> 0 | Some t \<Rightarrow> if sla_due now t \<and> tk_assignedToId t \<noteq> None then 1 else 0)"
proof -
  let ?due = "filter (sla_due now) (sp_tickets s)"
  have "distinct (map tk_id ?due)" using assms by (simp add: distinct_map_filter)
  moreover have "(\<exists>t \<in> set ?due. tk_id t = i \<and> tk_assignedToId t \<noteq> None) \<longleftrightarrow>
      (\<exists>t \<in> set (sp_tickets s). (sla_due now t \<and> tk_assignedToId t \<noteq> None) \<and> tk_id t = i)" by auto
  ultimately show ?thesis using alerts_of_count [of ?due i] sla_alerts_more [OF check_sent, of i now s]
    unfolding ex_ticket [OF assms] by (cases "find_ticket i s") (auto split: if_splits)
qed

text \<open>The other operations send no alert.\<close>

lemma other_alerts:
  assumes "ticket_step (now, s) (now', s')" and "s' \<noteq> checkSlaBreaches now' s"
  shows "sla_alerts i s' = sla_alerts i s"
  using assms(1)
proof (cases rule: ticket_step.cases)
  case (create newId ue u dto r)
  then show ?thesis using find_create_ticket [OF create(3,2)] by (auto simp: sla_alerts_def)
next
  case (note_added ue n j c pub a r)
  then show ?thesis using addNote_effect(2) [OF note_added(2)] by (simp add: sla_alerts_def)
next
  case (status ue n j ud actor r)
  show ?thesis using status_effect [OF status(2)]
    by (auto simp: Let_def sla_alerts_def tbl_count_def dest!: addNote_effect(2) split: if_splits)
next
  case (assign ue j a r)
  show ?thesis using assign_effect [OF assign(2)] by (auto simp: sla_alerts_def tbl_count_def)
qed (use assms(2) in simp)

lemma row_change_marked: "row_change now t t' \<Longrightarrow> tk_slaBreached t \<Longrightarrow> tk_slaBreached t'"
  by (induction rule: row_change.induct)
    (auto simp: respond_def apply_ticket_status_def assigned_row_def mark_breached_def)

lemma step_marked:
  assumes "ticket_step (now, s) (now', s')" and "support_ok now s" and "marked i s"
  shows "marked i s'" and "sla_alerts i s' = sla_alerts i s"
proof -
  have d: "distinct (map tk_id (sp_tickets s))" using assms(2) by (simp add: support_ok_def)
  obtain t where t: "find_ticket i s = Some t" "tk_slaBreached t" using assms(3) by (auto simp: marked_def split: option.splits)
  show "marked i s'"
    using ticket_step_rows(3) [OF assms(1) d, of i] t row_change_marked by (auto simp: row_effect_def marked_def)
  have "sla_alerts i (checkSlaBreaches now' s) = sla_alerts i s"
    using check_alerts [OF d, of i now'] sla_alerts_more [OF check_sent, of i now' s] t by (simp add: sla_due_def)
  then show "sla_alerts i s' = sla_alerts i s" using other_alerts [OF assms(1)] by blast
qed

lemma step_alert_budget:
  assumes "ticket_step (now, s) (now', s')" and "support_ok now s"
    and "\<forall>i. sla_alerts i s \<le> (if marked i s then 1 else 0)"
  shows "\<forall>i. sla_alerts i s' \<le> (if marked i s' then 1 else 0)"
proof
  fix i
  have d: "distinct (map tk_id (sp_tickets s))" using assms(2) by (simp add: support_ok_def)
  show "sla_alerts i s' \<le> (if marked i s' then 1 else 0)"
  proof (cases "marked i s")
    case True
    then show ?thesis using step_marked [OF assms(1,2) True] spec [OF assms(3), of i] by simp
  next
    case False
    then have none: "sla_alerts i s = 0" using spec [OF assms(3), of i] by simp
    show ?thesis
    proof (cases "s' = checkSlaBreaches now' s")
      case True
      show ?thesis using check_alerts [OF d, of i now'] none
        by (auto simp: True marked_def check_find [OF d] mark_breached_def split: option.splits if_splits)
    next
      case False
      then show ?thesis using other_alerts [OF assms(1)] none by simp
    qed
  qed
qed

lemma steps_alert_budget:
  "ticket_step\<^sup>*\<^sup>* x y \<Longrightarrow> support_ok (fst x) (snd x) \<Longrightarrow> \<forall>i. sla_alerts i (snd x) \<le> (if marked i (snd x) then 1 else 0) \<Longrightarrow>
   \<forall>i. sla_alerts i (snd y) \<le> (if marked i (snd y) then 1 else 0)"
proof (induction rule: rtranclp_induct)
  case (step y z)
  then show ?case using step_alert_budget [of "fst y" "snd y" "fst z" "snd z"] steps_support_ok [OF step(1)] by simp
qed

lemma steps_marked:
  "ticket_step\<^sup>*\<^sup>* x y \<Longrightarrow> support_ok (fst x) (snd x) \<Longrightarrow> marked i (snd x) \<Longrightarrow>
   marked i (snd y) \<and> sla_alerts i (snd y) = sla_alerts i (snd x)"
proof (induction rule: rtranclp_induct)
  case (step y z)
  then show ?case using step_marked [of "fst y" "snd y" "fst z" "snd z" i] steps_support_ok [OF step(1)] by simp
qed simp

text \<open>A ticket is alerted of at most once, however often it is closed and opened again; and when nobody is assigned to it at
  the time the check finds it late, nobody is ever alerted, also not the agent it is given to afterwards.\<close>

theorem unassigned_breach_never_alerted:
  assumes "ticket_step\<^sup>*\<^sup>* (start, no_tickets) (now, s)" and "find_ticket i s = Some t" and "sla_due now t" and "tk_assignedToId t = None"
    and "ticket_step\<^sup>*\<^sup>* (now, checkSlaBreaches now s) (later, s')"
  shows "sla_alerts i s' = 0 \<and> (\<forall>j. sla_alerts j s' \<le> 1)"
proof -
  have ok: "support_ok now s" using steps_support_ok [OF assms(1)] no_tickets_ok by simp
  then have d: "distinct (map tk_id (sp_tickets s))" by (simp add: support_ok_def)
  have budget: "\<forall>i. sla_alerts i s \<le> (if marked i s then 1 else 0)"
    using steps_alert_budget [OF assms(1)] no_tickets_ok by (simp add: sla_alerts_def no_tickets_def tbl_count_def)
  have check: "ticket_step (now, s) (now, checkSlaBreaches now s)" by (rule ticket_step.check) simp
  have ok': "support_ok now (checkSlaBreaches now s)" by (rule step_support_ok [OF check ok])
  have "\<not> marked i s" using assms(2,3) by (simp add: marked_def sla_due_def)
  then have "sla_alerts i (checkSlaBreaches now s) = 0"
    using check_alerts [OF d, of i now] spec [OF budget, of i] assms(2,4) by simp
  moreover have "marked i (checkSlaBreaches now s)"
    using assms(2,3) by (simp add: marked_def check_find [OF d] mark_breached_def)
  ultimately have "sla_alerts i s' = 0" using steps_marked [OF assms(5)] ok' by simp
  moreover have "sla_alerts j s' \<le> 1" for j
    using steps_alert_budget [OF assms(5)] ok' step_alert_budget [OF check ok budget] by (simp split: if_splits) (metis le_SucI le_zero_eq)
  ultimately show ?thesis by blast
qed

subsection \<open>The first response\<close>

lemma row_change_response:
  "row_change now t t' \<Longrightarrow> tk_status t \<noteq> TK_NEW \<Longrightarrow> tk_firstResponseAt t = Some r \<Longrightarrow>
   tk_status t' \<noteq> TK_NEW \<and> tk_firstResponseAt t' = Some r"
proof (induction rule: row_change.induct)
  case (status st t)
  then show ?case by (cases "tk_status t") (auto simp: apply_ticket_status_def)
next
  case (status_note st t)
  then show ?case by (cases "tk_status t") (auto simp: apply_ticket_status_def respond_def)
qed (auto simp: respond_def assigned_row_def mark_breached_def)

definition responded :: "string \<Rightarrow> time \<Rightarrow> support_state \<Rightarrow> bool" where
  "responded i r s \<longleftrightarrow> (\<exists>t. find_ticket i s = Some t \<and> tk_status t \<noteq> TK_NEW \<and> tk_firstResponseAt t = Some r)"

lemma step_responded:
  assumes "ticket_step (now, s) (now', s')" and "support_ok now s" and "responded i r s"
  shows "responded i r s'"
proof -
  have d: "distinct (map tk_id (sp_tickets s))" using assms(2) by (simp add: support_ok_def)
  obtain t where t: "find_ticket i s = Some t" "tk_status t \<noteq> TK_NEW" "tk_firstResponseAt t = Some r"
    using assms(3) by (auto simp: responded_def)
  then obtain t' where "find_ticket i s' = Some t'" "row_change now' t t'"
    using ticket_step_rows(3) [OF assms(1) d, of i] by (auto simp: row_effect_def)
  then show ?thesis using row_change_response [OF _ t(2,3)] by (auto simp: responded_def)
qed

lemma steps_responded:
  "ticket_step\<^sup>*\<^sup>* x y \<Longrightarrow> support_ok (fst x) (snd x) \<Longrightarrow> responded i r (snd x) \<Longrightarrow> responded i r (snd y)"
proof (induction rule: rtranclp_induct)
  case (step y z)
  then show ?case using step_responded [of "fst y" "snd y" "fst z" "snd z"] steps_support_ok [OF step(1)] by simp
qed

text \<open>The time of the first response is not the time of the first response: a note of the customer on the own new ticket sets it,
  assigning an agent to the ticket while it is still new sets it again, to the time of the assignment, and from then on no
  history changes it.\<close>

theorem first_response_is_assignment:
  assumes "ticket_step\<^sup>*\<^sup>* (start, no_tickets) (now, s)" and "find_ticket i s = Some t" and "tk_status t = TK_NEW"
    and "addNote ue n i c pub (Some (tk_userId t)) noted s = (Inr note', s1)" and "now \<le> noted"
    and "assignTicket ue' i agent given s1 = (Inr t2, s2)" and "noted \<le> given"
    and "ticket_step\<^sup>*\<^sup>* (given, s2) (later, s3)"
  shows "(tk_firstResponseAt t = None \<longrightarrow> map_option tk_firstResponseAt (find_ticket i s1) = Some (Some noted))
    \<and> map_option tk_firstResponseAt (find_ticket i s3) = Some (Some given)"
proof -
  have ok: "support_ok now s" using steps_support_ok [OF assms(1)] no_tickets_ok by simp
  have "ticket_step (now, s) (noted, s1)" using assms(5,4) by (rule ticket_step.note_added)
  then have ok1: "support_ok noted s1" using ok by (rule step_support_ok)
  have "ticket_step (noted, s1) (given, s2)" using assms(7,6) by (rule ticket_step.assign)
  then have ok2: "support_ok given s2" using ok1 by (rule step_support_ok)
  have "find_ticket i s1 = Some (if tk_firstResponseAt t = None then t\<lparr>tk_firstResponseAt := Some noted\<rparr> else t)"
  proof -
    have "sp_tickets s1 = sp_tickets (if tk_firstResponseAt t = None then update_ticket i (\<lambda>t. t\<lparr>tk_firstResponseAt := Some noted\<rparr>) s else s)"
      using assms(2,4) by (auto simp: addNote_def Let_def split: if_splits)
    then have "find_ticket i s1 = find_ticket i (if tk_firstResponseAt t = None then update_ticket i (\<lambda>t. t\<lparr>tk_firstResponseAt := Some noted\<rparr>) s else s)"
      by (simp add: find_ticket_def)
    then show ?thesis using assms(2) by (simp add: find_update_ticket)
  qed
  moreover from this obtain t1 where t1: "find_ticket i s1 = Some t1" "tk_status t1 = TK_NEW"
    using assms(3) by auto
  then have "responded i given s2"
    using assms(6) find_ticket_id [OF t1(1)]
    by (auto simp: responded_def assignTicket_def Let_def find_update_ticket split: if_splits)
  then have "responded i given s3" using steps_responded [OF assms(8)] ok2 by simp
  ultimately show ?thesis by (auto simp: responded_def)
qed

subsection \<open>Lists and metrics\<close>

lemma sorted_urgency: "sorted (map (\<lambda>t. priority_rank (tk_priority t)) (ticket_order ts))"
  by (simp add: ticket_order_def tbl_asc_def)

lemma less_urgent_first:
  assumes "n \<le> tbl_count (\<lambda>t. tk_priority t \<noteq> PRIO_CRITICAL) ts"
  shows "t \<in> set (take n (ticket_order ts)) \<Longrightarrow> tk_priority t \<noteq> PRIO_CRITICAL"
proof -
  let ?o = "ticket_order ts" and ?k = "\<lambda>t. priority_rank (tk_priority t)"
  let ?calm = "\<lambda>t. tk_priority t \<noteq> PRIO_CRITICAL"
  have rank: "?k x = 3 \<longleftrightarrow> \<not> ?calm x" "?k x \<le> 3" for x by (cases "tk_priority x"; simp)+
  assume "t \<in> set (take n ?o)"
  then obtain j where j: "j < n" "j < length ?o" "t = ?o ! j" by (auto simp: in_set_conv_nth)
  show ?thesis
  proof (rule ccontr)
    assume "\<not> ?calm t"
    have "\<not> ?calm (?o ! m)" if "j \<le> m" "m < length ?o" for m
    proof -
      have "?k (?o ! j) \<le> ?k (?o ! m)" using sorted_nth_mono [OF sorted_urgency, of j m ts] that by simp
      then show ?thesis using \<open>\<not> ?calm t\<close> j rank [of "?o ! m"] rank [of t] by simp
    qed
    then have "{m. m < length ?o \<and> ?calm (?o ! m)} \<subseteq> {..<j}" by (auto simp: not_less [symmetric])
    then have "card {m. m < length ?o \<and> ?calm (?o ! m)} \<le> j" using card_mono [of "{..<j}"] by fastforce
    moreover have "tbl_count ?calm ts = card {m. m < length ?o \<and> ?calm (?o ! m)}"
    proof -
      have "mset ?o = mset ts" by (simp add: ticket_order_def tbl_asc_def tbl_desc_def)
      then have "length (filter ?calm ?o) = length (filter ?calm ts)" by (metis mset_filter size_mset)
      then show ?thesis by (simp add: tbl_count_def length_filter_conv_card)
    qed
    ultimately show False using assms j(1) by simp
  qed
qed

text \<open>Lists of tickets begin with the least urgent ones: as long as a page is filled by others, no critical ticket is on the first
  page, for all filters.\<close>

theorem critical_tickets_come_last:
  assumes "listTickets f s = Inr pg" and "tp_page pg = 1" and "0 \<le> tp_limit pg"
    and "tf_status f = None" "tf_priority f = None" "tf_category f = None" "tf_userId f = None" "tf_assignedToId f = None"
    and "nat (tp_limit pg) \<le> tbl_count (\<lambda>t. tk_priority t \<noteq> PRIO_CRITICAL) (sp_tickets s)"
  shows "\<forall>t \<in> set (tp_tickets pg). tk_priority t \<noteq> PRIO_CRITICAL"
proof -
  have "tp_tickets pg = take (nat (tp_limit pg)) (ticket_order (sp_tickets s))"
    using assms(1-8) by (auto simp: listTickets_def enum_filter_def or_default_def Let_def prisma_page_def tbl_page_def
        filter_ok_def text_filter_def split: if_splits)
  then show ?thesis using less_urgent_first [OF assms(9)] by simp
qed

lemma sum_groups:
  assumes "distinct ks" and "key ` set t \<subseteq> set ks"
  shows "sum_list (map (\<lambda>k. if P k then tbl_count (\<lambda>r. key r = k) t else 0) ks) = tbl_count (\<lambda>r. P (key r)) t"
  using assms(2)
proof (induction t)
  case Nil
  show ?case by (auto simp: tbl_count_def)
next
  case (Cons r t)
  have "sum_list (map (\<lambda>k. if P k then tbl_count (\<lambda>r. key r = k) (r # t) else 0) ks)
      = sum_list (map (\<lambda>k. if P k then tbl_count (\<lambda>r. key r = k) t else 0) ks) + sum_list (map (\<lambda>k. if k = key r then (if P k then 1 else 0) else 0) ks)"
    by (simp add: sum_list_addf [symmetric]) (intro arg_cong [where f = sum_list] map_cong; simp add: tbl_count_def)
  also have "sum_list (map (\<lambda>k. if k = key r then (if P k then 1 else 0) else 0) ks) = (if P (key r) then 1 else (0::nat))"
    using assms(1) Cons.prems by (simp add: sum_list_distinct_conv_sum_set sum.delta)
  finally show ?case using Cons by (simp add: tbl_count_def)
qed

lemma fold_metrics:
  "fold (\<lambda>(st, n) m. m\<lparr>tm_total := tm_total m + n, tm_open := tm_open m + (if st \<in> A then n else 0),
       tm_resolved := tm_resolved m + (if st \<in> B then n else 0)\<rparr>) gs m
   = m\<lparr>tm_total := tm_total m + sum_list (map snd gs),
       tm_open := tm_open m + sum_list (map (\<lambda>(st, n). if st \<in> A then n else 0) gs),
       tm_resolved := tm_resolved m + sum_list (map (\<lambda>(st, n). if st \<in> B then n else 0) gs)\<rparr>"
proof (induction gs arbitrary: m)
  case (Cons g gs)
  show ?case by (cases g) (simp add: Cons)
qed simp

text \<open>One grouped query gives the same numbers as a count of its own for each, and open and resolved tickets together are all.\<close>

theorem metrics_count_directly:
  "getTicketMetrics agent s =
     (let rows = filter (\<lambda>t. filter_ok (map_option Some (text_filter agent)) (tk_assignedToId t)) (sp_tickets s)
      in \<lparr>tm_total = length rows, tm_open = tbl_count (\<lambda>t. tk_status t \<in> {TK_NEW, TK_IN_PROGRESS, TK_WAITING_ON_CUSTOMER}) rows,
          tm_resolved = tbl_count (\<lambda>t. tk_status t \<in> {TK_RESOLVED, TK_CLOSED}) rows, tm_breached = tbl_count tk_slaBreached rows\<rparr>)
   \<and> tm_total (getTicketMetrics agent s) = tm_open (getTicketMetrics agent s) + tm_resolved (getTicketMetrics agent s)"
proof -
  define rows where "rows = filter (\<lambda>t. filter_ok (map_option Some (text_filter agent)) (tk_assignedToId t)) (sp_tickets s)"
  let ?gs = "group_counts tk_status rows"
  have groups: "sum_list (map (\<lambda>(st, n). if st \<in> A then n else 0) ?gs) = tbl_count (\<lambda>t. tk_status t \<in> A) rows" for A
    using sum_groups [of "js_unique (map tk_status rows)" tk_status rows "\<lambda>st. st \<in> A"] by (simp add: group_counts_def comp_def)
  have all: "sum_list (map snd ?gs) = length rows"
    using groups [of UNIV] by (simp add: tbl_count_def case_prod_beta comp_def group_counts_def)
  have "getTicketMetrics agent s = \<lparr>tm_total = length rows, tm_open = tbl_count (\<lambda>t. tk_status t \<in> set OPEN_STATUSES) rows,
      tm_resolved = tbl_count (\<lambda>t. tk_status t \<in> set RESOLVED_STATUSES) rows, tm_breached = tbl_count tk_slaBreached rows\<rparr>"
    unfolding getTicketMetrics_def rows_def [symmetric] Let_def fold_metrics groups all by simp
  moreover have "length rows = tbl_count (\<lambda>t. tk_status t \<in> set OPEN_STATUSES) rows + tbl_count (\<lambda>t. tk_status t \<in> set RESOLVED_STATUSES) rows"
  proof -
    have compl: "tk_status t \<in> set RESOLVED_STATUSES \<longleftrightarrow> \<not> tk_status t \<in> set OPEN_STATUSES" for t
      by (cases "tk_status t") (simp_all add: OPEN_STATUSES_def RESOLVED_STATUSES_def)
    show ?thesis unfolding tbl_count_def compl by (rule sum_length_filter_compl [symmetric])
  qed
  ultimately show ?thesis by (simp add: rows_def OPEN_STATUSES_def RESOLVED_STATUSES_def Let_def)
qed

subsection \<open>The endpoints\<close>

text \<open>The endpoints lose their caller: opening a ticket fails for everybody and stores nothing; the own tickets and the tickets
  assigned to the caller are the tickets of everybody; a note is never stored, although it counts as the first response; and the note
  sent along with a new status is dropped.\<close>

theorem support_endpoints_lose_caller:
  "(\<exists>e. post_ticket ue n user dto now s = (Inl (InternalError e), s))
   \<and> getMyTickets user s = listTickets no_filters s \<and> getAssignedTickets user s = listTickets no_filters s
   \<and> sp_notes (snd (post_note ue n i user c pub now s)) = sp_notes s
   \<and> map_option tk_firstResponseAt (find_ticket i (snd (post_note ue n i user c pub now s)))
      = map_option (\<lambda>t. Some (case tk_firstResponseAt t of None \<Rightarrow> now | Some r \<Rightarrow> r)) (find_ticket i s)
   \<and> sp_notes (snd (patch_status ue n i user ud now s)) = sp_notes s"
proof -
  have "\<exists>e. post_ticket ue n user dto now s = (Inl (InternalError e), s)"
    by (simp add: post_ticket_def caller_id_def createTicket_def missing_argument_def invalid_enum_def split: option.split)
  moreover have "sp_notes (snd (post_note ue n i user c pub now s)) = sp_notes s"
    by (simp add: post_note_def caller_id_def addNote_def Let_def split: option.split)
  moreover have "map_option tk_firstResponseAt (find_ticket i (snd (post_note ue n i user c pub now s)))
      = map_option (\<lambda>t. Some (case tk_firstResponseAt t of None \<Rightarrow> now | Some r \<Rightarrow> r)) (find_ticket i s)"
    by (auto simp: post_note_def caller_id_def addNote_def Let_def find_update_ticket split: option.split)
  moreover have "sp_notes (snd (patch_status ue n i user ud now s)) = sp_notes s"
    by (auto simp: patch_status_def caller_id_def ticket_updateStatus_def Let_def split: option.split)
  ultimately show ?thesis
    by (simp add: getMyTickets_def getAssignedTickets_def caller_id_def no_filters_def)
qed

subsection \<open>Examples\<close>

definition help_request :: create_ticket_dto where
  "help_request = \<lparr>ct_category = None, ct_priority = Some ''HIGH'', ct_subject = ''Help'', ct_description = ''No answer'',
     ct_transactionId = None, ct_propertyId = None\<rparr>"

text \<open>One urgent ticket, opened at time 0.\<close>

definition one_ticket :: support_state where
  "one_ticket = snd (createTicket (\<lambda>_. True) ''t1'' (Some ''u1'') help_request 0 no_tickets)"

definition the_ticket :: ticket where
  "the_ticket = \<lparr>tk_id = ''t1'', tk_userId = ''u1'', tk_assignedToId = None, tk_category = CAT_GENERAL, tk_priority = PRIO_HIGH,
     tk_status = TK_NEW, tk_subject = ''Help'', tk_description = ''No answer'', tk_transactionId = None, tk_propertyId = None,
     tk_slaDeadline = Some 28800000, tk_slaBreached = False, tk_firstResponseAt = None, tk_resolvedAt = None, tk_closedAt = None,
     tk_createdAt = 0\<rparr>"

lemma one_ticket_tables: "sp_tickets one_ticket = [the_ticket]" "sp_notes one_ticket = []" "sp_sent one_ticket = []"
  by (simp_all add: one_ticket_def createTicket_def help_request_def no_tickets_def or_default_def ticket_priorities_def
      ticket_categories_def tbl_create_def the_ticket_def Let_def)

lemma one_ticket_found: "find_ticket ''t1'' one_ticket = Some the_ticket"
  by (simp add: find_ticket_def tbl_find_def one_ticket_tables the_ticket_def)

lemma one_ticket_reachable: "ticket_step\<^sup>*\<^sup>* (0, no_tickets) (now, one_ticket)" if "0 \<le> now"
proof -
  have "ticket_step (0, no_tickets) (0, one_ticket)"
    unfolding one_ticket_def
    by (rule ticket_step.create [where ue = "\<lambda>_. True" and newId = "''t1''" and u = "Some ''u1''" and dto = help_request, OF _ _ prod.collapse [symmetric]])
      (simp_all add: no_tickets_def find_ticket_def tbl_find_def)
  moreover have "ticket_step (0, one_ticket) (now, one_ticket)"
  proof (rule ticket_step.assign [OF that])
    show "assignTicket (\<lambda>_. True) ''none'' ''a1'' now one_ticket = (Inl no_ticket, one_ticket)"
      by (simp add: assignTicket_def find_ticket_def tbl_find_def one_ticket_tables the_ticket_def)
  qed
  ultimately show ?thesis by (meson converse_rtranclp_into_rtranclp rtranclp.rtrancl_refl)
qed

theorem tickets_stay_consistent_witness: "ticket_ok 5 the_ticket \<and> getUnassignedTickets one_ticket = [the_ticket]"
  using tickets_stay_consistent [OF one_ticket_reachable, of 5 the_ticket]
  by (simp add: one_ticket_tables tbl_asc_def the_ticket_def)

theorem unassigned_breach_never_alerted_witness:
  "sla_alerts ''t1'' (snd (assignTicket (\<lambda>_. True) ''t1'' ''a1'' 28800002 (checkSlaBreaches 28800001 one_ticket))) = 0"
proof -
  let ?s = "checkSlaBreaches 28800001 one_ticket"
  obtain r s' where run: "assignTicket (\<lambda>_. True) ''t1'' ''a1'' 28800002 ?s = (r, s')" by fastforce
  have due: "sla_due 28800001 the_ticket" "tk_assignedToId the_ticket = None"
    by (simp_all add: sla_due_def the_ticket_def OPEN_STATUSES_def)
  have "ticket_step\<^sup>*\<^sup>* (28800001, ?s) (28800002, s')"
    by (rule r_into_rtranclp, rule ticket_step.assign [OF _ run]) simp
  from unassigned_breach_never_alerted [OF one_ticket_reachable one_ticket_found due this] run show ?thesis by simp
qed

lemma find_ticket_notes: "find_ticket j (s\<lparr>sp_notes := x\<rparr>) = find_ticket j s"
  by (simp add: find_ticket_def)

lemma example_note:
  "\<exists>n s1. addNote (\<lambda>_. True) ''n1'' ''t1'' ''Hello?'' None (Some (tk_userId the_ticket)) 10 one_ticket = (Inr n, s1)
    \<and> (\<exists>t s2. assignTicket (\<lambda>_. True) ''t1'' ''a1'' 20 s1 = (Inr t, s2))"
  by (simp add: addNote_def assignTicket_def Let_def find_update_ticket find_ticket_notes one_ticket_found)

theorem first_response_is_assignment_witness:
  "\<exists>n s1 t s2. addNote (\<lambda>_. True) ''n1'' ''t1'' ''Hello?'' None (Some ''u1'') 10 one_ticket = (Inr n, s1)
    \<and> assignTicket (\<lambda>_. True) ''t1'' ''a1'' 20 s1 = (Inr t, s2)
    \<and> map_option tk_firstResponseAt (find_ticket ''t1'' s2) = Some (Some 20)"
proof -
  obtain n s1 t s2 where run: "addNote (\<lambda>_. True) ''n1'' ''t1'' ''Hello?'' None (Some (tk_userId the_ticket)) 10 one_ticket = (Inr n, s1)"
    "assignTicket (\<lambda>_. True) ''t1'' ''a1'' 20 s1 = (Inr t, s2)" using example_note by blast
  have hyps: "tk_status the_ticket = TK_NEW" "(5::int) \<le> 10" "(10::int) \<le> 20" "tk_userId the_ticket = ''u1''"
    by (simp_all add: the_ticket_def)
  from first_response_is_assignment [OF one_ticket_reachable one_ticket_found hyps(1) run(1) hyps(2) run(2) hyps(3) rtranclp.rtrancl_refl]
  show ?thesis using run hyps(4) by auto
qed

theorem critical_tickets_come_last_witness:
  "\<exists>pg. listTickets (no_filters\<lparr>tf_limit := Some 1\<rparr>) one_ticket = Inr pg \<and> (\<forall>t \<in> set (tp_tickets pg). tk_priority t \<noteq> PRIO_CRITICAL)"
proof -
  let ?f = "no_filters\<lparr>tf_limit := Some 1\<rparr>"
  obtain pg where run: "listTickets ?f one_ticket = Inr pg" and page: "tp_page pg = 1" "tp_limit pg = 1"
    by (simp add: listTickets_def no_filters_def enum_filter_def or_default_def or_number_def Let_def)
  have "nat (tp_limit pg) \<le> tbl_count (\<lambda>t. tk_priority t \<noteq> PRIO_CRITICAL) (sp_tickets one_ticket)"
    using page(2) by (simp add: one_ticket_tables tbl_count_def the_ticket_def)
  then show ?thesis using critical_tickets_come_last [OF run page(1)] run page(2) by (simp add: no_filters_def)
qed

end
