(* ===== verification/Ws_Gateway.thy ===== *)
theory Ws_Gateway
  imports Sessions "HOL-Library.AList"
begin

text \<open>
  Live notifications over sockets: \<open>src/notifications/notifications.gateway.ts\<close>, \<open>ws-ticket.service.ts\<close>,
  \<open>device-fingerprint.util.ts\<close>, \<open>redis-presence.service.ts\<close> and the ticket endpoint of \<open>notifications.controller.ts\<close>.

  The state is the sockets of one replica with the rooms they are in, the three maps of the gateway, the presence
  registry in Redis and the messages the sockets got.  Signing, hashing and trimming follow the library; whether Redis
  answers is an argument.  \<open>path_ok\<close> says whether \<open>server.sockets.sockets\<close> is there: it is on a Socket.IO server, and not on
  a namespace, which is what the framework puts into a gateway that declares one.
\<close>

subsection \<open>Tickets\<close>

record ws_claims =
  wc_sub :: "string option"
  wc_sid :: "string option"
  wc_dfp :: "string option"
  wc_type :: "string option"
  wc_jti :: "string option"

text \<open>\<open>wl_verify token secret now\<close> gives the claims of any token that the secret signed and that has not expired.\<close>

record ws_lib =
  wl_sign :: "ws_claims \<Rightarrow> string \<Rightarrow> int \<Rightarrow> time \<Rightarrow> string"
  wl_verify :: "string \<Rightarrow> string \<Rightarrow> time \<Rightarrow> ws_claims option"
  wl_sha256hex :: "string \<Rightarrow> string"

definition ws_library :: "ws_lib \<Rightarrow> bool" where
  "ws_library W \<longleftrightarrow>
     (\<forall>c s ttl t t'. wl_verify W (wl_sign W c s ttl t) s t' = (if t' div 1000 < t div 1000 + ttl then Some c else None))
     \<and> (\<forall>c s ttl t. wl_sign W c s ttl t \<noteq> [])"

definition TICKET_TTL_SECONDS :: int where "TICKET_TTL_SECONDS = 60"
definition TICKET_TYPE :: string where "TICKET_TYPE = ''ws-ticket''"

definition WsTicketService_secret :: "(string \<Rightarrow> string option) \<Rightarrow> string" where
  "WsTicketService_secret config =
     (case config ''JWT_SECRET'' of Some s \<Rightarrow> s
      | None \<Rightarrow> (case config ''WS_TICKET_SECRET'' of Some s \<Rightarrow> s | None \<Rightarrow> []))"

definition ticket_issue :: "ws_lib \<Rightarrow> string \<Rightarrow> string \<Rightarrow> string \<Rightarrow> string \<Rightarrow> string \<Rightarrow> time \<Rightarrow> string result" where
  "ticket_issue W secret uuid userId sessionId fingerprint now =
     (if secret = [] then Inl (InternalError ''JWT_SECRET is required to issue WebSocket tickets'')
      else Inr (wl_sign W \<lparr>wc_sub = Some userId, wc_sid = Some sessionId, wc_dfp = Some fingerprint,
             wc_type = Some TICKET_TYPE, wc_jti = Some uuid\<rparr> secret TICKET_TTL_SECONDS now))"

definition claim_text :: "string option \<Rightarrow> string" where
  "claim_text v = (case v of None \<Rightarrow> [] | Some s \<Rightarrow> s)"

definition ticket_verify :: "ws_lib \<Rightarrow> string \<Rightarrow> string \<Rightarrow> time \<Rightarrow> ws_claims result" where
  "ticket_verify W secret ticket now =
     (if ticket = [] then Inl (Unauthorized ''Missing WebSocket ticket'')
      else case wl_verify W ticket secret now of
          None \<Rightarrow> Inl (Unauthorized ''Invalid or expired WebSocket ticket'')
        | Some decoded \<Rightarrow>
            if wc_type decoded \<noteq> Some TICKET_TYPE \<or> claim_text (wc_sub decoded) = [] \<or> claim_text (wc_sid decoded) = []
            then Inl (Unauthorized ''Invalid WebSocket ticket'') else Inr decoded)"

definition deviceFingerprint :: "ws_lib \<Rightarrow> string option \<Rightarrow> string" where
  "deviceFingerprint W userAgent =
     (let trimmed = (case userAgent of None \<Rightarrow> [] | Some u \<Rightarrow> js_trim u);
          normalized = js_lower (if trimmed = [] then ''unknown'' else trimmed)
      in take 32 (wl_sha256hex W normalized))"

definition issueWsTicket ::
  "ws_lib \<Rightarrow> string \<Rightarrow> string \<Rightarrow> string \<Rightarrow> string option \<Rightarrow> string option \<Rightarrow> time \<Rightarrow> 'a session_state_scheme \<Rightarrow> (string \<times> int) result" where
  "issueWsTicket W secret uuid userId jti userAgent now st =
     (case (case jti of None \<Rightarrow> None | Some j \<Rightarrow> if j = [] then None else getSessionByAccessTokenJti j st) of
        None \<Rightarrow> Inl (Unauthorized ''No active session found for this token'')
      | Some session \<Rightarrow> map_sum id (\<lambda>t. (t, TICKET_TTL_SECONDS))
          (ticket_issue W secret uuid userId (se_id session) (deviceFingerprint W userAgent) now))"

subsection \<open>Presence\<close>

type_synonym presence = "string \<Rightarrow> (string list \<times> time) option"

definition PRESENCE_TTL :: int where "PRESENCE_TTL = 30"

text \<open>The hash of a user, unless it has expired.\<close>

definition live_hash :: "time \<Rightarrow> string \<Rightarrow> presence \<Rightarrow> string list" where
  "live_hash now u p = (case p u of None \<Rightarrow> [] | Some (ids, e) \<Rightarrow> if now < e then ids else [])"

definition presence_register :: "time \<Rightarrow> string \<Rightarrow> string \<Rightarrow> presence \<Rightarrow> presence" where
  "presence_register now u x p = p(u \<mapsto> (List.insert x (live_hash now u p), now + PRESENCE_TTL * ms_second))"

definition presence_unregister :: "time \<Rightarrow> string \<Rightarrow> string \<Rightarrow> presence \<Rightarrow> presence" where
  "presence_unregister now u x p =
     (case p u of None \<Rightarrow> p
      | Some (ids, e) \<Rightarrow> (let rest = removeAll x (live_hash now u p) in p(u := (if rest = [] then None else Some (rest, e)))))"

definition presence_heartbeat :: "time \<Rightarrow> string \<Rightarrow> presence \<Rightarrow> presence" where
  "presence_heartbeat now u p =
     (if live_hash now u p = [] then p else p(u \<mapsto> (live_hash now u p, now + PRESENCE_TTL * ms_second)))"

definition isUserConnected :: "time \<Rightarrow> string \<Rightarrow> presence \<Rightarrow> bool" where
  "isUserConnected now u p \<longleftrightarrow> 0 < length (live_hash now u p)"

subsection \<open>The gateway\<close>

record ws_state =
  gw_connected :: "(string \<times> string list) list"
  gw_userSockets :: "(string \<times> string list) list"
  gw_socketUsers :: "(string \<times> string) list"
  gw_socketSessions :: "(string \<times> string) list"
  gw_presence :: presence
  gw_received :: "(string \<times> string) list"

record handshake =
  hs_authTicket :: "string option"
  hs_queryTicket :: "string option"
  hs_userAgent :: "string option"
  hs_queryUserId :: "string option"

definition user_room :: "string \<Rightarrow> string" where "user_room u = ''user:'' @ u"
definition session_room :: "string \<Rightarrow> string" where "session_room i = ''session:'' @ i"

definition authenticateClient ::
  "ws_lib \<Rightarrow> string \<Rightarrow> handshake \<Rightarrow> time \<Rightarrow> 'a session_state_scheme \<Rightarrow> (string \<times> string option) option" where
  "authenticateClient W secret h now st =
     (let ticket = claim_text (case hs_authTicket h of Some t \<Rightarrow> Some t | None \<Rightarrow> hs_queryTicket h)
      in if ticket \<noteq> [] then
           (case ticket_verify W secret ticket now of
              Inl _ \<Rightarrow> None
            | Inr payload \<Rightarrow>
                if claim_text (wc_dfp payload) \<noteq> [] \<and> claim_text (wc_dfp payload) \<noteq> deviceFingerprint W (hs_userAgent h) then None
                else if \<not> isSessionValid (claim_text (wc_sid payload)) now st then None
                else Some (claim_text (wc_sub payload), wc_sid payload))
         else (let userId = claim_text (hs_queryUserId h) in if userId \<noteq> [] then Some (userId, None) else None))"

definition handleConnection ::
  "ws_lib \<Rightarrow> string \<Rightarrow> bool \<Rightarrow> string \<Rightarrow> handshake \<Rightarrow> time \<Rightarrow> 'a session_state_scheme \<Rightarrow> ws_state \<Rightarrow> ws_state" where
  "handleConnection W secret redis_ok x h now st s =
     (case authenticateClient W secret h now st of
        None \<Rightarrow> s
      | Some (userId, sessionId) \<Rightarrow>
          (let sockets = (case map_of (gw_userSockets s) userId of None \<Rightarrow> [] | Some xs \<Rightarrow> xs);
               s1 = s\<lparr>gw_userSockets := AList.update userId (List.insert x sockets) (gw_userSockets s),
                      gw_socketUsers := AList.update x userId (gw_socketUsers s)\<rparr>;
               sid = claim_text sessionId;
               s2 = (if sid = [] then s1 else s1\<lparr>gw_socketSessions := AList.update x sid (gw_socketSessions s1)\<rparr>)
           in s2\<lparr>gw_connected := gw_connected s2 @ [(x, user_room userId # (if sid = [] then [] else [session_room sid]))],
                 gw_presence := (if redis_ok then presence_register now userId x (gw_presence s2) else gw_presence s2)\<rparr>))"

definition handleDisconnect :: "bool \<Rightarrow> string \<Rightarrow> time \<Rightarrow> ws_state \<Rightarrow> ws_state" where
  "handleDisconnect redis_ok x now s =
     (let s1 = s\<lparr>gw_socketSessions := AList.delete x (gw_socketSessions s)\<rparr>;
          userId = claim_text (map_of (gw_socketUsers s) x)
      in if userId = [] then s1
         else (let s2 = (case map_of (gw_userSockets s1) userId of
                    None \<Rightarrow> s1
                  | Some xs \<Rightarrow> (let rest = removeAll x xs
                      in s1\<lparr>gw_userSockets := (if rest = [] then AList.delete userId (gw_userSockets s1)
                           else AList.update userId rest (gw_userSockets s1))\<rparr>))
               in s2\<lparr>gw_socketUsers := AList.delete x (gw_socketUsers s2),
                     gw_presence := (if redis_ok then presence_unregister now userId x (gw_presence s2) else gw_presence s2)\<rparr>))"

text \<open>A socket that is disconnected leaves its rooms, and the handler runs.\<close>

definition drop_socket :: "bool \<Rightarrow> time \<Rightarrow> string \<Rightarrow> ws_state \<Rightarrow> ws_state" where
  "drop_socket redis_ok now x s =
     handleDisconnect redis_ok x now (s\<lparr>gw_connected := filter (\<lambda>(y, _). y \<noteq> x) (gw_connected s)\<rparr>)"

definition in_room :: "string \<Rightarrow> ws_state \<Rightarrow> string list" where
  "in_room room s = map fst (filter (\<lambda>(_, rooms). room \<in> set rooms) (gw_connected s))"

definition disconnectSocket :: "bool \<Rightarrow> bool \<Rightarrow> time \<Rightarrow> string \<Rightarrow> string \<Rightarrow> ws_state \<Rightarrow> ws_state" where
  "disconnectSocket path_ok redis_ok now x sessionId s =
     (let s1 = (if path_ok \<and> x \<in> fst ` set (gw_connected s) then drop_socket redis_ok now x s else s)
      in if sessionId = [] then s1 else s1\<lparr>gw_socketSessions := AList.delete x (gw_socketSessions s1)\<rparr>)"

definition revoke_one :: "bool \<Rightarrow> bool \<Rightarrow> time \<Rightarrow> string \<Rightarrow> ws_state \<Rightarrow> ws_state" where
  "revoke_one path_ok redis_ok now sessionId s =
     (if sessionId = [] then s
      else (let s1 = fold (drop_socket redis_ok now) (in_room (session_room sessionId) s) s
            in fold (\<lambda>(x, i) s. if i = sessionId then disconnectSocket path_ok redis_ok now x sessionId s else s)
                 (gw_socketSessions s1) s1))"

definition handleSessionRevoked :: "bool \<Rightarrow> bool \<Rightarrow> time \<Rightarrow> string list \<Rightarrow> ws_state \<Rightarrow> ws_state" where
  "handleSessionRevoked path_ok redis_ok now sessionIds s = fold (revoke_one path_ok redis_ok now) sessionIds s"

definition gateway_heartbeat :: "bool \<Rightarrow> bool \<Rightarrow> time \<Rightarrow> 'a session_state_scheme \<Rightarrow> ws_state \<Rightarrow> ws_state" where
  "gateway_heartbeat path_ok redis_ok now st s =
     (let s1 = s\<lparr>gw_presence := (if redis_ok then fold (\<lambda>(_, u). presence_heartbeat now u) (gw_socketUsers s) (gw_presence s)
            else gw_presence s)\<rparr>
      in fold (\<lambda>(x, i) s. if isSessionValid i now st then s else disconnectSocket path_ok redis_ok now x i s)
           (gw_socketSessions s1) s1)"

definition sendToUser :: "bool \<Rightarrow> string \<Rightarrow> string \<Rightarrow> time \<Rightarrow> ws_state \<Rightarrow> bool \<times> ws_state" where
  "sendToUser redis_ok userId event now s =
     (let s1 = s\<lparr>gw_received := gw_received s @ map (\<lambda>x. (x, event)) (in_room (user_room userId) s)\<rparr>
      in (if redis_ok then isUserConnected now userId (gw_presence s1)
          else (case map_of (gw_userSockets s1) userId of None \<Rightarrow> False | Some xs \<Rightarrow> 0 < length xs), s1))"

text \<open>\<open>publishRevoked\<close> of \<open>sessions/session-revocation.service.ts\<close>, on the replica that revokes.\<close>

definition publishRevoked :: "bool \<Rightarrow> bool \<Rightarrow> time \<Rightarrow> string list \<Rightarrow> ws_state \<Rightarrow> ws_state" where
  "publishRevoked path_ok redis_ok now sessionIds s =
     (let unique = js_unique (filter (\<lambda>i. i \<noteq> []) sessionIds)
      in if unique = [] then s else handleSessionRevoked path_ok redis_ok now unique s)"

end
