(* ===== verification/Ws_Life.thy ===== *)
theory Ws_Life
  imports Ws_Gateway "HOL-Library.Countable"
begin

text \<open>
  Who hears what on a socket: tickets, sockets without one, revoked sessions and the heartbeat.
\<close>

subsection \<open>Tickets\<close>

lemma ws_signed:
  "ws_library W \<Longrightarrow> wl_verify W (wl_sign W c s ttl t) s t' = (if t' div 1000 < t div 1000 + ttl then Some c else None)"
  "ws_library W \<Longrightarrow> wl_sign W c s ttl t \<noteq> []"
  by (simp_all add: ws_library_def)

text \<open>A ticket opens sockets for its session for sixty seconds, as often as it is presented: as long as the session is valid, every
  handshake with the ticket from a client with the same fingerprint is accepted for the user and the session; from any other
  client, after the sixty seconds, and for an invalid session it is refused.\<close>

theorem ticket_opens_sockets_for_a_minute:
  assumes "ws_library W" and "issueWsTicket W secret uuid userId jti ua issued st = Inr (ticket, ttl)"
    and "getSessionByAccessTokenJti (claim_text jti) st = Some session" and "userId \<noteq> []" and "se_id session \<noteq> []"
    and "\<And>x. wl_sha256hex W x \<noteq> []"
    and "hs_authTicket h = Some ticket"
  shows "authenticateClient W secret h now st' =
    (if now div 1000 < issued div 1000 + 60 \<and> deviceFingerprint W (hs_userAgent h) = deviceFingerprint W ua
        \<and> isSessionValid (se_id session) now st'
     then Some (userId, Some (se_id session)) else None)"
proof -
  let ?c = "\<lparr>wc_sub = Some userId, wc_sid = Some (se_id session), wc_dfp = Some (deviceFingerprint W ua),
    wc_type = Some TICKET_TYPE, wc_jti = Some uuid\<rparr>"
  have ticket: "ticket = wl_sign W ?c secret TICKET_TTL_SECONDS issued"
    using assms(2,3) by (auto simp: issueWsTicket_def ticket_issue_def claim_text_def split: option.splits if_splits)
  have "deviceFingerprint W ua \<noteq> []" using assms(6) by (simp add: deviceFingerprint_def Let_def)
  then show ?thesis
    using assms(4,5,7) ws_signed [OF assms(1)]
    by (simp add: authenticateClient_def ticket_verify_def ticket claim_text_def TICKET_TTL_SECONDS_def)
qed

subsection \<open>Steps of the gateway\<close>

text \<open>The sockets in \<open>K\<close> do not hang up by themselves; identifiers of sockets are new.\<close>

inductive ws_step :: "ws_lib \<Rightarrow> string \<Rightarrow> string set \<Rightarrow> ws_state \<Rightarrow> ws_state \<Rightarrow> bool" for W secret K where
  connect: "x \<notin> fst ` set (gw_connected s) \<Longrightarrow> ws_step W secret K s (handleConnection W secret ok x h now (st :: session_state) s)"
| hang_up: "x \<notin> K \<Longrightarrow> ws_step W secret K s (drop_socket ok now x s)"
| revoke: "ws_step W secret K s (publishRevoked path ok now ids s)"
| heartbeat: "ws_step W secret K s (gateway_heartbeat path ok now (st :: session_state) s)"
| send: "ws_step W secret K s (snd (sendToUser ok u event now s))"

definition empty_gateway :: ws_state where
  "empty_gateway = \<lparr>gw_connected = [], gw_userSockets = [], gw_socketUsers = [], gw_socketSessions = [], gw_presence = Map.empty,
     gw_received = []\<rparr>"

lemma handleDisconnect_simps [simp]:
  "gw_connected (handleDisconnect ok x now s) = gw_connected s"
  "gw_socketSessions (handleDisconnect ok x now s) = AList.delete x (gw_socketSessions s)"
  by (auto simp: handleDisconnect_def Let_def split: option.split)

lemma drop_socket_simps [simp]:
  "gw_connected (drop_socket ok now x s) = filter (\<lambda>(y, _). y \<noteq> x) (gw_connected s)"
  "gw_socketSessions (drop_socket ok now x s) = AList.delete x (gw_socketSessions s)"
  by (simp_all add: drop_socket_def)

lemma disconnectSocket_simps:
  "gw_connected (disconnectSocket path ok now x i s) = (if path then filter (\<lambda>(y, _). y \<noteq> x) (gw_connected s) else gw_connected s)"
  "gw_socketSessions (disconnectSocket path ok now x i s) =
     (if i \<noteq> [] \<or> path \<and> x \<in> fst ` set (gw_connected s) then AList.delete x (gw_socketSessions s) else gw_socketSessions s)"
proof -
  have "filter (\<lambda>(y, _). y \<noteq> x) (gw_connected s) = gw_connected s" if "x \<notin> fst ` set (gw_connected s)"
    by (rule filter_True) (use that in force)
  then show "gw_connected (disconnectSocket path ok now x i s) = (if path then filter (\<lambda>(y, _). y \<noteq> x) (gw_connected s) else gw_connected s)"
    by (auto simp: disconnectSocket_def Let_def)
qed (auto simp: disconnectSocket_def Let_def AList.delete_idem)

lemma keys_filter [simp]: "fst ` set (filter (\<lambda>(y, _). y \<noteq> x) l) = fst ` set l - {x}"
  by force

lemma keys_delete [simp]: "fst ` set (AList.delete x l) = fst ` set l - {x}"
  unfolding AList.delete_eq by force

text \<open>Whatever the drops of sockets preserve, revocations and the heartbeat preserve.\<close>

lemma fold_preserves: "(\<And>y s. y \<in> set ys \<Longrightarrow> P s \<Longrightarrow> P (f y s)) \<Longrightarrow> P s \<Longrightarrow> P (fold f ys s)"
  by (induction ys arbitrary: s) auto

lemma revoke_preserves:
  assumes drop: "\<And>y s. P s \<Longrightarrow> y \<in> D \<Longrightarrow> P (drop_socket ok now y s)"
    and disc: "\<And>y i s. P s \<Longrightarrow> y \<in> D \<Longrightarrow> P (disconnectSocket path ok now y i s)"
    and room: "\<And>i s. P s \<Longrightarrow> set (in_room (session_room i) s) \<subseteq> D"
    and keys: "\<And>s. P s \<Longrightarrow> fst ` set (gw_socketSessions s) \<subseteq> D" and start: "P s"
  shows "P (publishRevoked path ok now ids s)"
proof -
  have "P (revoke_one path ok now i s)" if "P s" for i s
  proof (cases "i = []")
    case False
    let ?s1 = "fold (drop_socket ok now) (in_room (session_room i) s) s"
    have one: "P ?s1" by (rule fold_preserves [where P = P, OF _ that]) (use drop room [OF that] in blast)
    have "P (fold (\<lambda>(x, j) s. if j = i then disconnectSocket path ok now x i s else s) (gw_socketSessions ?s1) ?s1)"
    proof (rule fold_preserves [where P = P, OF _ one])
      fix y s assume "y \<in> set (gw_socketSessions ?s1)" "P s"
      moreover then have "fst y \<in> D" using keys [OF one] by auto
      ultimately show "P ((\<lambda>(x, j) s. if j = i then disconnectSocket path ok now x i s else s) y s)"
        using disc by (simp add: case_prod_beta)
    qed
    then show ?thesis using False by (simp add: revoke_one_def Let_def)
  qed (simp add: revoke_one_def that)
  then have "P (handleSessionRevoked path ok now js s)" for js
    unfolding handleSessionRevoked_def by (intro fold_preserves [where P = P] start) simp
  then show ?thesis using start by (simp add: publishRevoked_def Let_def)
qed

lemma heartbeat_preserves:
  assumes disc: "\<And>y i s. P s \<Longrightarrow> y \<in> D \<Longrightarrow> P (disconnectSocket path ok now y i s)"
    and keys: "\<And>s. P s \<Longrightarrow> fst ` set (gw_socketSessions s) \<subseteq> D" and start: "P s"
    and pres: "\<And>s p. P s \<Longrightarrow> P (s\<lparr>gw_presence := p\<rparr>)"
  shows "P (gateway_heartbeat path ok now st s)"
proof -
  define p where "p = (if ok then fold (\<lambda>(_, u). presence_heartbeat now u) (gw_socketUsers s) (gw_presence s) else gw_presence s)"
  have one: "P (s\<lparr>gw_presence := p\<rparr>)" by (rule pres [OF start])
  have "P (fold (\<lambda>(x, i) s. if isSessionValid i now st then s else disconnectSocket path ok now x i s) (gw_socketSessions s) (s\<lparr>gw_presence := p\<rparr>))"
  proof (rule fold_preserves [where P = P, OF _ one])
    fix y s' assume "y \<in> set (gw_socketSessions s)" "P s'"
    moreover then have "fst y \<in> D" using keys [OF start] by auto
    ultimately show "P ((\<lambda>(x, i) s. if isSessionValid i now st then s else disconnectSocket path ok now x i s) y s')"
      using disc by (simp add: case_prod_beta)
  qed
  then show ?thesis by (simp add: gateway_heartbeat_def Let_def p_def)
qed

subsection \<open>Sockets without a ticket\<close>

definition tracked :: "ws_state \<Rightarrow> bool" where
  "tracked s \<longleftrightarrow> distinct (map fst (gw_connected s)) \<and> fst ` set (gw_socketSessions s) \<subseteq> fst ` set (gw_connected s)"

lemma tracked_drop: "tracked s \<Longrightarrow> tracked (drop_socket ok now y s)"
  unfolding tracked_def drop_socket_simps keys_filter keys_delete by (auto simp: distinct_map_filter)

lemma tracked_disconnect: "tracked s \<Longrightarrow> tracked (disconnectSocket path ok now y i s)"
proof -
  assume s: "tracked s"
  let ?s = "disconnectSocket path ok now y i s"
  have "fst ` set (gw_connected ?s) = (if path then fst ` set (gw_connected s) - {y} else fst ` set (gw_connected s))"
    by (simp add: disconnectSocket_simps del: set_filter)
  moreover have "fst ` set (gw_socketSessions ?s) = (if i \<noteq> [] \<or> path \<and> y \<in> fst ` set (gw_connected s)
      then fst ` set (gw_socketSessions s) - {y} else fst ` set (gw_socketSessions s))"
    by (simp add: disconnectSocket_simps)
  moreover have "distinct (map fst (gw_connected ?s))" using s by (simp add: disconnectSocket_simps tracked_def distinct_map_filter)
  ultimately show ?thesis using s unfolding tracked_def by (simp split: if_splits) blast+
qed

lemma connected_after_handshake:
  "handleConnection W secret ok x h now st s = s
   \<or> (\<exists>u sid. authenticateClient W secret h now st = Some (u, sid)
      \<and> gw_connected (handleConnection W secret ok x h now st s)
        = gw_connected s @ [(x, user_room u # (if claim_text sid = [] then [] else [session_room (claim_text sid)]))]
      \<and> gw_socketSessions (handleConnection W secret ok x h now st s)
        = (if claim_text sid = [] then gw_socketSessions s else AList.update x (claim_text sid) (gw_socketSessions s)))"
  by (auto simp: handleConnection_def Let_def split: option.split)

lemma tracked_connect:
  assumes "tracked s" and "x \<notin> fst ` set (gw_connected s)"
  shows "tracked (handleConnection W secret ok x h now st s)"
  using connected_after_handshake [of W secret ok x h now st s]
proof (elim disjE exE conjE)
  fix u sid
  assume new: "gw_connected (handleConnection W secret ok x h now st s)
        = gw_connected s @ [(x, user_room u # (if claim_text sid = [] then [] else [session_room (claim_text sid)]))]"
    "gw_socketSessions (handleConnection W secret ok x h now st s)
        = (if claim_text sid = [] then gw_socketSessions s else AList.update x (claim_text sid) (gw_socketSessions s))"
  show ?thesis using assms unfolding tracked_def new by (auto simp: dom_update)
qed (use assms in simp)

lemma step_tracked: "ws_step W secret K s s' \<Longrightarrow> tracked s \<Longrightarrow> tracked s'"
proof (induction rule: ws_step.induct)
  case (revoke s path ok now ids)
  show ?case by (rule revoke_preserves [where D = UNIV]) (use revoke tracked_drop tracked_disconnect in auto)
next
  case (heartbeat s path ok now st)
  show ?case by (rule heartbeat_preserves [where D = UNIV]) (use heartbeat tracked_disconnect in \<open>auto simp: tracked_def\<close>)
qed (auto simp: tracked_connect tracked_drop sendToUser_def Let_def, auto simp: tracked_def)

lemma steps_tracked: "(ws_step W secret K)\<^sup>*\<^sup>* s s' \<Longrightarrow> tracked s \<Longrightarrow> tracked s'"
  by (induction rule: rtranclp_induct) (auto dest: step_tracked)

definition listens :: "string \<Rightarrow> string \<Rightarrow> ws_state \<Rightarrow> bool" where
  "listens x u s \<longleftrightarrow> tracked s \<and> (x, [user_room u]) \<in> set (gw_connected s) \<and> x \<notin> fst ` set (gw_socketSessions s)"

lemma rooms_apart: "user_room u \<noteq> session_room i"
  by (simp add: user_room_def session_room_def)

lemma listens_alone:
  assumes "listens x u s" shows "set (in_room (session_room i) s) \<subseteq> - {x}"
proof
  fix y assume "y \<in> set (in_room (session_room i) s)"
  then obtain rooms where y: "(y, rooms) \<in> set (gw_connected s)" "session_room i \<in> set rooms" by (auto simp: in_room_def)
  have "y \<noteq> x"
  proof
    assume "y = x"
    then have "rooms = [user_room u]"
      using assms y(1) eq_key_imp_eq_value [of "gw_connected s" x] by (simp add: listens_def tracked_def)
    then show False using y(2) rooms_apart [of u i] by simp
  qed
  then show "y \<in> - {x}" by simp
qed

lemma listens_keys: "listens x u s \<Longrightarrow> fst ` set (gw_socketSessions s) \<subseteq> - {x}"
  by (auto simp: listens_def)

lemma listens_drop: "listens x u s \<Longrightarrow> y \<in> - {x} \<Longrightarrow> listens x u (drop_socket ok now y s)"
  using tracked_drop by (auto simp: listens_def AList.delete_eq)

lemma listens_disconnect: "listens x u s \<Longrightarrow> y \<in> - {x} \<Longrightarrow> listens x u (disconnectSocket path ok now y i s)"
  using tracked_disconnect by (auto simp: listens_def disconnectSocket_simps AList.delete_eq)

lemma step_listens: "ws_step W secret K s s' \<Longrightarrow> x \<in> K \<Longrightarrow> listens x u s \<Longrightarrow> listens x u s'"
proof (induction rule: ws_step.induct)
  case (connect y s ok h now st)
  have "y \<noteq> x" using connect(1,3) by (force simp: listens_def)
  have tracked: "tracked (handleConnection W secret ok y h now st s)"
    using connect tracked_connect [of s y W secret ok h now st] by (simp add: listens_def)
  show ?case
    using connected_after_handshake [of W secret ok y h now st s]
  proof (elim disjE exE conjE)
    fix v sid
    assume new: "gw_connected (handleConnection W secret ok y h now st s)
        = gw_connected s @ [(y, user_room v # (if claim_text sid = [] then [] else [session_room (claim_text sid)]))]"
      "gw_socketSessions (handleConnection W secret ok y h now st s)
        = (if claim_text sid = [] then gw_socketSessions s else AList.update y (claim_text sid) (gw_socketSessions s))"
    show ?thesis using connect(3) \<open>y \<noteq> x\<close> tracked unfolding listens_def new by (auto simp: dom_update)
  qed (use connect(3) in simp)
next
  case (hang_up y s ok now)
  then show ?case using listens_drop [of x u s y ok now] by auto
next
  case (revoke s path ok now ids)
  show ?case by (rule revoke_preserves [OF listens_drop listens_disconnect listens_alone listens_keys revoke(2)])
next
  case (heartbeat s path ok now st)
  have "listens x u (s\<lparr>gw_presence := p\<rparr>)" if "listens x u s" for s p using that by (simp add: listens_def tracked_def)
  from heartbeat_preserves [where P = "listens x u", OF listens_disconnect listens_keys heartbeat(2) this] show ?case .
qed (auto simp: sendToUser_def Let_def listens_def tracked_def)

lemma steps_listens: "(ws_step W secret K)\<^sup>*\<^sup>* s s' \<Longrightarrow> x \<in> K \<Longrightarrow> listens x u s \<Longrightarrow> listens x u s'"
  by (induction rule: rtranclp_induct) (auto dest: step_listens)

text \<open>Nobody needs a ticket to listen: a handshake without one that names a user is put into that user's room, whatever the
  secrets and sessions are; from then on the socket gets every message to the user, and no revocation, of whichever sessions, no
  heartbeat and no other connection ever ends this, until it hangs up itself.\<close>

theorem ticketless_sockets_hear_everything:
  assumes "(ws_step W secret K')\<^sup>*\<^sup>* empty_gateway s" and "x \<notin> fst ` set (gw_connected s)" and "x \<in> K"
    and "hs_authTicket h = None" and "hs_queryTicket h = None" and "hs_queryUserId h = Some u" and "u \<noteq> []"
    and "(ws_step W secret K)\<^sup>*\<^sup>* (handleConnection W secret ok x h now (st :: session_state) s) s'"
  shows "(x, event) \<in> set (gw_received (snd (sendToUser ok' u event later s')))"
proof -
  have tracked: "tracked s" using steps_tracked [OF assms(1)] by (simp add: tracked_def empty_gateway_def)
  have auth: "authenticateClient W secret h now st = Some (u, None)"
    using assms(4-7) by (simp add: authenticateClient_def claim_text_def)
  have "x \<notin> fst ` set (gw_socketSessions s)" using tracked assms(2) by (auto simp: tracked_def)
  then have "listens x u (handleConnection W secret ok x h now st s)"
    using tracked_connect [OF tracked assms(2), of W secret ok h now st]
    by (simp add: listens_def handleConnection_def auth claim_text_def Let_def)
  then have "listens x u s'" using steps_listens [OF assms(8,3)] by simp
  then have "x \<in> set (in_room (user_room u) s')" by (force simp: listens_def in_room_def)
  then show ?thesis by (simp add: sendToUser_def Let_def)
qed

subsection \<open>Revoked sessions\<close>

lemma connected_fold_drop:
  "gw_connected (fold (drop_socket ok now) xs s) = filter (\<lambda>(y, _). y \<notin> set xs) (gw_connected s)"
  by (induction xs arbitrary: s) (auto intro: filter_cong)

lemma connected_shrinks:
  "set (gw_connected (disconnectSocket path ok now y i s)) \<subseteq> set (gw_connected s)"
  by (auto simp: disconnectSocket_simps)

definition no_socket_in :: "string \<Rightarrow> ws_state \<Rightarrow> bool" where
  "no_socket_in room s \<longleftrightarrow> (\<forall>(y, rooms) \<in> set (gw_connected s). room \<notin> set rooms)"

lemma no_socket_smaller: "no_socket_in room s \<Longrightarrow> set (gw_connected s') \<subseteq> set (gw_connected s) \<Longrightarrow> no_socket_in room s'"
  by (auto simp: no_socket_in_def)

lemma no_socket_disconnects:
  assumes "no_socket_in room s"
  shows "no_socket_in room (fold (\<lambda>(x, j) s. if j = i then disconnectSocket path ok now x i s else s) l s)"
  using assms
proof (induction l arbitrary: s)
  case (Cons p l)
  obtain x j where "p = (x, j)" by fastforce
  then show ?case using Cons no_socket_smaller [OF Cons.prems connected_shrinks, of path ok now x i] by simp
qed simp

lemma revoke_one_empties: "i \<noteq> [] \<Longrightarrow> no_socket_in (session_room i) (revoke_one path ok now i s)"
proof -
  assume i: "i \<noteq> []"
  let ?s1 = "fold (drop_socket ok now) (in_room (session_room i) s) s"
  have "no_socket_in (session_room i) ?s1" by (force simp: no_socket_in_def connected_fold_drop in_room_def)
  then have "no_socket_in (session_room i)
      (fold (\<lambda>(x, j) s. if j = i then disconnectSocket path ok now x i s else s) (gw_socketSessions ?s1) ?s1)"
    by (rule no_socket_disconnects)
  then show ?thesis using i by (simp add: revoke_one_def Let_def)
qed

lemma revoke_one_keeps: "no_socket_in room s \<Longrightarrow> no_socket_in room (revoke_one path ok now i s)"
proof -
  assume start: "no_socket_in room s"
  let ?s1 = "fold (drop_socket ok now) (in_room (session_room i) s) s"
  have "no_socket_in room ?s1" using start by (auto simp: no_socket_in_def connected_fold_drop)
  then have "no_socket_in room
      (fold (\<lambda>(x, j) s. if j = i then disconnectSocket path ok now x i s else s) (gw_socketSessions ?s1) ?s1)"
    by (rule no_socket_disconnects)
  then show ?thesis using start by (simp add: revoke_one_def Let_def)
qed

text \<open>A revocation that reaches the gateway drops every socket of the revoked sessions.  The heartbeat, which is to repair a
  missed one, drops none: the socket server of a namespace has no such path, so that the sockets stay connected, and the
  gateway forgets their sessions, so that no later heartbeat looks at them again.\<close>

theorem heartbeat_only_forgets:
  "(i \<in> set ids \<longrightarrow> i \<noteq> [] \<longrightarrow> in_room (session_room i) (publishRevoked path ok now ids s) = [])
   \<and> gw_connected (gateway_heartbeat False ok now st s) = gw_connected s
   \<and> fst ` set (gw_socketSessions (gateway_heartbeat False ok now st s))
       \<inter> {x. \<exists>j. (x, j) \<in> set (gw_socketSessions s) \<and> j \<noteq> [] \<and> \<not> isSessionValid j now st} = {}"
proof (intro conjI impI)
  assume i: "i \<in> set ids" "i \<noteq> []"
  have all: "no_socket_in (session_room i) (fold (revoke_one path ok now) js s)" if "i \<in> set js" for js s
    using that
  proof (induction js arbitrary: s)
    case (Cons j js)
    show ?case
    proof (cases "j = i")
      case True
      have "no_socket_in (session_room i) (fold (revoke_one path ok now) js (revoke_one path ok now i s))"
        by (rule fold_preserves [where P = "no_socket_in (session_room i)"]) (simp_all add: revoke_one_keeps revoke_one_empties i(2))
      then show ?thesis using True by simp
    next
      case False
      then show ?thesis using Cons by simp
    qed
  qed simp
  let ?u = "js_unique (filter (\<lambda>i. i \<noteq> []) ids)"
  have iu: "i \<in> set ?u" using i by simp
  then have "?u \<noteq> []" by force
  then have "publishRevoked path ok now ids s = fold (revoke_one path ok now) ?u s"
    by (simp add: publishRevoked_def handleSessionRevoked_def Let_def)
  then have "no_socket_in (session_room i) (publishRevoked path ok now ids s)" using all [OF iu, of s] by simp
  then show "in_room (session_room i) (publishRevoked path ok now ids s) = []"
    by (auto simp: no_socket_in_def in_room_def filter_empty_conv)
next
  define s0 where "s0 = s\<lparr>gw_presence := (if ok then fold (\<lambda>(_, u). presence_heartbeat now u) (gw_socketUsers s) (gw_presence s) else gw_presence s)\<rparr>"
  let ?f = "\<lambda>(x, j) s. if isSessionValid j now st then s else disconnectSocket False ok now x j s"
  have beat: "gateway_heartbeat False ok now st s = fold ?f (gw_socketSessions s) s0"
    by (simp add: gateway_heartbeat_def s0_def Let_def)
  have conn: "gw_connected (fold ?f l t) = gw_connected t" for l t
  proof (induction l arbitrary: t)
    case (Cons p l)
    have "gw_connected (?f p t) = gw_connected t" by (cases p) (simp add: disconnectSocket_simps)
    then show ?case using Cons [of "?f p t"] by simp
  qed simp
  then show "gw_connected (gateway_heartbeat False ok now st s) = gw_connected s" by (simp add: beat s0_def)
  have one: "fst ` set (gw_socketSessions (?f p t)) \<subseteq> fst ` set (gw_socketSessions t)" for p t
    by (cases p) (auto simp: disconnectSocket_simps)
  have shrink: "fst ` set (gw_socketSessions (fold ?f l t)) \<subseteq> fst ` set (gw_socketSessions t)" for l t
  proof (induction l arbitrary: t)
    case (Cons p l)
    show ?case using Cons [of "?f p t"] one [of p t] unfolding fold_simps by (rule order_trans)
  qed simp
  have gone: "x \<notin> fst ` set (gw_socketSessions (fold ?f l t))"
    if "(x, j) \<in> set l" "j \<noteq> []" "\<not> isSessionValid j now st" for x j l t
    using that(1)
  proof (induction l arbitrary: t)
    case (Cons p l)
    show ?case
    proof (cases "p = (x, j)")
      case True
      then have "x \<notin> fst ` set (gw_socketSessions (?f p t))" using that by (simp add: disconnectSocket_simps)
      then show ?thesis using shrink [of l "?f p t"] unfolding fold_simps by blast
    next
      case False
      then show ?thesis using Cons by simp
    qed
  qed simp
  show "fst ` set (gw_socketSessions (gateway_heartbeat False ok now st s))
       \<inter> {x. \<exists>j. (x, j) \<in> set (gw_socketSessions s) \<and> j \<noteq> [] \<and> \<not> isSessionValid j now st} = {}"
    using gone unfolding beat by blast
qed

subsection \<open>Examples\<close>

text \<open>A library whose tokens spell out their content.\<close>

definition example_ws_lib :: ws_lib where
  "example_ws_lib =
     \<lparr>wl_sign = (\<lambda>c s ttl t. CHR ''t'' # replicate (to_nat ((wc_sub c, wc_sid c, wc_dfp c, wc_type c, wc_jti c), s, t div 1000 + ttl)) CHR ''x''),
      wl_verify = (\<lambda>tok s now. case from_nat (length tok - 1) :: ((string option \<times> string option \<times> string option \<times> string option
            \<times> string option) \<times> string \<times> int) of
          ((a, b, c, d, e), s', until) \<Rightarrow> if s = s' \<and> now div 1000 < until
            then Some \<lparr>wc_sub = a, wc_sid = b, wc_dfp = c, wc_type = d, wc_jti = e\<rparr> else None),
      wl_sha256hex = (\<lambda>x. CHR ''h'' # x)\<rparr>"

lemma example_ws_library: "ws_library example_ws_lib"
  by (simp add: ws_library_def example_ws_lib_def)

definition example_ws_session :: session where
  "example_ws_session = \<lparr>se_id = ''s1'', se_userId = ''u1'', se_accessTokenJti = ''j1'', se_refreshTokenJti = None, se_ipAddress = None,
     se_userAgent = None, se_displayName = None, se_deviceInfo = \<lparr>dv_browser = None, dv_os = None, dv_deviceType = None\<rparr>,
     se_geoLocation = None, se_deviceFingerprint = None, se_geoCountryCode = None, se_geoCity = None, se_isRevoked = False,
     se_revokedAt = None, se_expiresAt = 900000, se_createdAt = 0, se_lastActivityAt = 0\<rparr>"

definition example_ws_sessions :: session_state where
  "example_ws_sessions = \<lparr>ss_sessions = [example_ws_session], ss_blacklist = []\<rparr>"

definition without_ticket :: "string \<Rightarrow> handshake" where
  "without_ticket u = \<lparr>hs_authTicket = None, hs_queryTicket = None, hs_userAgent = None, hs_queryUserId = Some u\<rparr>"

theorem ticket_opens_sockets_for_a_minute_witness:
  "\<exists>ticket. issueWsTicket example_ws_lib ''k'' ''r'' ''u1'' (Some ''j1'') (Some ''Firefox'') 0 example_ws_sessions = Inr (ticket, 60)
    \<and> authenticateClient example_ws_lib ''k'' ((without_ticket [])\<lparr>hs_authTicket := Some ticket, hs_userAgent := Some ''Firefox''\<rparr>) 59999 example_ws_sessions
      = Some (''u1'', Some ''s1'')
    \<and> authenticateClient example_ws_lib ''k'' ((without_ticket [])\<lparr>hs_authTicket := Some ticket, hs_userAgent := Some ''Firefox''\<rparr>) 60000 example_ws_sessions = None"
proof -
  have session: "getSessionByAccessTokenJti (claim_text (Some ''j1'')) example_ws_sessions = Some example_ws_session"
    by (simp add: getSessionByAccessTokenJti_def example_ws_sessions_def example_ws_session_def claim_text_def)
  then obtain ticket where run:
    "issueWsTicket example_ws_lib ''k'' ''r'' ''u1'' (Some ''j1'') (Some ''Firefox'') 0 example_ws_sessions = Inr (ticket, 60)"
    by (simp add: issueWsTicket_def ticket_issue_def TICKET_TTL_SECONDS_def claim_text_def)
  let ?h = "(without_ticket [])\<lparr>hs_authTicket := Some ticket, hs_userAgent := Some ''Firefox''\<rparr>"
  have hyps: "se_id example_ws_session \<noteq> []" "\<And>x. wl_sha256hex example_ws_lib x \<noteq> []" "hs_authTicket ?h = Some ticket" "''u1'' \<noteq> []"
    by (simp_all add: example_ws_session_def example_ws_lib_def)
  have valid: "isSessionValid (se_id example_ws_session) 59999 example_ws_sessions" "se_id example_ws_session = ''s1''"
    by (simp_all add: isSessionValid_def tbl_find_def example_ws_sessions_def example_ws_session_def)
  note answer = ticket_opens_sockets_for_a_minute [OF example_ws_library run session hyps(4,1,2,3)]
  show ?thesis using run answer [of 59999 example_ws_sessions] answer [of 60000 example_ws_sessions] valid by simp
qed

theorem ticketless_sockets_hear_everything_witness:
  "(''x'', ''notification'') \<in> set (gw_received (snd (sendToUser True ''u1'' ''notification'' 9
    (publishRevoked True True 8 [''s1''] (handleConnection example_ws_lib ''k'' True ''x'' (without_ticket ''u1'') 7 example_ws_sessions empty_gateway)))))"
proof -
  let ?s = "handleConnection example_ws_lib ''k'' True ''x'' (without_ticket ''u1'') 7 example_ws_sessions empty_gateway"
  have hyps: "''x'' \<notin> fst ` set (gw_connected empty_gateway)" "''x'' \<in> {''x''}" "hs_authTicket (without_ticket ''u1'') = None"
    "hs_queryTicket (without_ticket ''u1'') = None" "hs_queryUserId (without_ticket ''u1'') = Some ''u1''" "''u1'' \<noteq> []"
    by (simp_all add: empty_gateway_def without_ticket_def)
  have "(ws_step example_ws_lib ''k'' {''x''})\<^sup>*\<^sup>* ?s (publishRevoked True True 8 [''s1''] ?s)"
    by (rule r_into_rtranclp, rule ws_step.revoke)
  from ticketless_sockets_hear_everything [OF rtranclp.rtrancl_refl hyps this] show ?thesis .
qed

theorem heartbeat_only_forgets_witness:
  "in_room (session_room ''s1'') (publishRevoked True True 8 [''s1''] (empty_gateway\<lparr>gw_connected := [(''x'', [session_room ''s1''])]\<rparr>)) = []"
  using heartbeat_only_forgets [of "''s1''" "[''s1'']" True True 8 "empty_gateway\<lparr>gw_connected := [(''x'', [session_room ''s1''])]\<rparr>" example_ws_sessions]
  by simp

end
