(* ===== verification/Trust_Score.thy ===== *)
theory Trust_Score
  imports Doubles Transactions
begin

text \<open>
  Trust scores: \<open>src/trust-score/trust-score.service.ts\<close>, on the transactions of \<open>Transactions\<close>.

  The users are reduced to the columns that the service reads and writes; every update of a row sets \<open>updatedAt\<close>, as the
  schema says.  The decay is computed on doubles.  The time of the next update is the local clock of the server
  twenty-four hours later, which is exact where the clock has no daylight saving time.
\<close>

subsection \<open>State\<close>

record trust_user =
  tv_id :: string
  tv_isVerified :: bool
  tv_lastActivityAt :: "time option"
  tv_updatedAt :: time
  tv_trustScore :: int
  tv_lastTrustScoreUpdate :: "time option"

record trust_state =
  tv_users :: "trust_user list"
  tv_documents :: "(string \<times> string) list"
  tv_transactions :: "transaction list"

definition find_trust_user :: "string \<Rightarrow> trust_state \<Rightarrow> trust_user option" where
  "find_trust_user i s = tbl_find tv_id i (tv_users s)"

record trust_breakdown =
  tb_emailVerified :: int
  tb_idVerified :: int
  tb_completedTransactions :: int
  tb_baseScore :: int
  tb_totalScore :: int

record trust_result =
  tr_userId :: string
  tr_score :: int
  tr_breakdown :: trust_breakdown
  tr_lastUpdated :: time
  tr_nextUpdateTime :: time

subsection \<open>The score\<close>

definition updateIntervalHours :: int where "updateIntervalHours = 24"
definition DECAY_RATE_PER_MONTH :: rat where "DECAY_RATE_PER_MONTH = dbl (1 / 10)"

text \<open>\<open>1000 * 60 * 60 * 24 * 30.44\<close>.\<close>

definition ms_month :: rat where
  "ms_month = dbl (of_int ms_day * dbl (3044 / 100))"

definition months_inactive :: "time \<Rightarrow> time \<Rightarrow> rat" where
  "months_inactive since now = dbl (of_int (now - since) / ms_month)"

definition calculateDecayPenalty :: "time option \<Rightarrow> time \<Rightarrow> rat" where
  "calculateDecayPenalty lastActivityAt now =
     (case lastActivityAt of
        None \<Rightarrow> 0
      | Some since \<Rightarrow>
          (let monthsInactive = months_inactive since now
           in if monthsInactive < 1 then 0 else min (dbl (monthsInactive * DECAY_RATE_PER_MONTH)) (dbl (9 / 10))))"

definition completed_of :: "string \<Rightarrow> transaction list \<Rightarrow> nat" where
  "completed_of u ts =
     (let completed = filter (\<lambda>t. tx_status t = Tx_COMPLETED) ts
      in tbl_count (\<lambda>t. tx_buyerId t = u) completed + tbl_count (\<lambda>t. tx_sellerId t = u) completed)"

definition calculateBreakdown :: "trust_user \<Rightarrow> time \<Rightarrow> trust_state \<Rightarrow> trust_breakdown" where
  "calculateBreakdown user now s =
     (let emailVerifiedScore = (if tv_isVerified user then 10 else 0);
          idVerifiedScore = (if list_ex (\<lambda>(u, st). u = tv_id user \<and> st = ''APPROVED'') (tv_documents s) then 20 else 0);
          completedTransactionsScore = int (min (completed_of (tv_id user) (tv_transactions s)) 3) * 15;
          baseScore = emailVerifiedScore + idVerifiedScore + completedTransactionsScore;
          decayPenalty = calculateDecayPenalty
            (case tv_lastActivityAt user of Some t \<Rightarrow> Some t | None \<Rightarrow> Some (tv_updatedAt user)) now;
          finalScore = max 0 (math_round (dbl (of_int baseScore * dbl (1 - decayPenalty))))
      in \<lparr>tb_emailVerified = emailVerifiedScore, tb_idVerified = idVerifiedScore,
          tb_completedTransactions = completedTransactionsScore, tb_baseScore = baseScore, tb_totalScore = finalScore\<rparr>)"

definition no_user :: http_error where
  "no_user = InternalError ''Internal server error''"

definition calculateTrustScore :: "string \<Rightarrow> time \<Rightarrow> trust_state \<Rightarrow> (trust_result, trust_state) outcome" where
  "calculateTrustScore userId now s =
     (case find_trust_user userId s of
        None \<Rightarrow> (Inl no_user, s)
      | Some user \<Rightarrow>
          (let breakdown = calculateBreakdown user now s; totalScore = tb_totalScore breakdown
           in (Inr \<lparr>tr_userId = userId, tr_score = totalScore, tr_breakdown = breakdown, tr_lastUpdated = now,
                    tr_nextUpdateTime = now + updateIntervalHours * ms_hour\<rparr>,
               s\<lparr>tv_users := tbl_update tv_id userId (\<lambda>u. u\<lparr>tv_trustScore := totalScore, tv_lastTrustScoreUpdate := Some now,
                   tv_updatedAt := now\<rparr>) (tv_users s)\<rparr>)))"

definition isUpdateNeeded :: "time \<Rightarrow> time \<Rightarrow> bool" where
  "isUpdateNeeded lastUpdate now \<longleftrightarrow> of_int updateIntervalHours \<le> dbl (of_int (now - lastUpdate) / of_int ms_hour)"

definition getTrustScore :: "string \<Rightarrow> bool \<Rightarrow> time \<Rightarrow> trust_state \<Rightarrow> (trust_result, trust_state) outcome" where
  "getTrustScore userId forceRefresh now s =
     (case find_trust_user userId s of
        None \<Rightarrow> (Inl no_user, s)
      | Some user \<Rightarrow> (case tv_lastTrustScoreUpdate user of
            None \<Rightarrow> calculateTrustScore userId now s
          | Some since \<Rightarrow>
              if forceRefresh \<or> isUpdateNeeded since now then calculateTrustScore userId now s
              else (Inr \<lparr>tr_userId = userId, tr_score = tv_trustScore user, tr_breakdown = calculateBreakdown user now s,
                      tr_lastUpdated = since, tr_nextUpdateTime = since + updateIntervalHours * ms_hour\<rparr>, s)))"

definition getScoreBreakdown :: "string \<Rightarrow> time \<Rightarrow> trust_state \<Rightarrow> trust_breakdown result" where
  "getScoreBreakdown userId now s =
     (case find_trust_user userId s of None \<Rightarrow> Inl no_user | Some user \<Rightarrow> Inr (calculateBreakdown user now s))"

text \<open>One user after the other; a failure is counted.\<close>

definition batchUpdateTrustScores :: "time \<Rightarrow> trust_state \<Rightarrow> (nat \<times> nat) \<times> trust_state" where
  "batchUpdateTrustScores now s =
     fold (\<lambda>user ((updated, failed), s). case calculateTrustScore (tv_id user) now s of
         (Inr _, s') \<Rightarrow> ((updated + 1, failed), s') | (Inl _, s') \<Rightarrow> ((updated, failed + 1), s'))
       (tv_users s) ((0, 0), s)"

subsection \<open>Bounds\<close>

lemma breakdown_base: "0 \<le> tb_baseScore (calculateBreakdown u now s) \<and> tb_baseScore (calculateBreakdown u now s) \<le> 75"
  by (auto simp: calculateBreakdown_def Let_def min_def)

lemma penalty_nonneg: "0 \<le> calculateDecayPenalty v now"
proof (cases v)
  case (Some since)
  have "0 \<le> dbl (9 / 10)" by (rule dbl_nonneg) simp
  moreover have "0 \<le> DECAY_RATE_PER_MONTH" unfolding DECAY_RATE_PER_MONTH_def by (rule dbl_nonneg) simp
  ultimately show ?thesis using Some by (auto simp: calculateDecayPenalty_def Let_def intro!: dbl_nonneg mult_nonneg_nonneg)
qed (simp add: calculateDecayPenalty_def)

lemma score_of_penalty:
  assumes "0 \<le> b" and "b \<le> 75" and "0 \<le> p"
  shows "max 0 (math_round (dbl (of_int b * dbl (1 - p)))) \<le> (b :: int)"
proof -
  have "dbl (1 - p) \<le> 1" using dbl_mono [of "1 - p" 1] assms(3) by simp
  then have "of_int b * dbl (1 - p) \<le> of_int b" using assms(1) by (simp add: mult_left_le)
  then have "dbl (of_int b * dbl (1 - p)) \<le> of_int b" using dbl_mono [of _ "of_int b"] dbl_of_int [of b] assms by fastforce
  then have "math_round (dbl (of_int b * dbl (1 - p))) \<le> b" using math_round_mono [of _ "of_int b"] by fastforce
  then show ?thesis using assms(1) by simp
qed

lemma breakdown_score:
  "tb_totalScore (calculateBreakdown u now s) = max 0 (math_round (dbl (of_int (tb_baseScore (calculateBreakdown u now s))
     * dbl (1 - calculateDecayPenalty (case tv_lastActivityAt u of Some t \<Rightarrow> Some t | None \<Rightarrow> Some (tv_updatedAt u)) now))))"
  by (simp add: calculateBreakdown_def Let_def)

lemma undecayed:
  "calculateDecayPenalty (case tv_lastActivityAt u of Some t \<Rightarrow> Some t | None \<Rightarrow> Some (tv_updatedAt u)) now = 0 \<Longrightarrow>
   tb_totalScore (calculateBreakdown u now s) = tb_baseScore (calculateBreakdown u now s)"
  using breakdown_base [of u now s] by (simp add: breakdown_score dbl_of_int)

text \<open>A month of thirty days is shorter than the month of the decay.\<close>

lemma month_bounds: "2630015999 \<le> ms_month" "ms_month \<le> 2630016001"
  by code_simp+

lemma no_decay_within_a_month:
  assumes "now - since \<le> 30 * ms_day"
  shows "calculateDecayPenalty (Some since) now = 0"
proof -
  have pos: "0 < ms_month" using month_bounds(1) by linarith
  have "of_int (now - since) \<le> (of_int (30 * ms_day) :: rat)" using assms by (simp only: of_int_le_iff)
  then have "of_int (now - since) / ms_month \<le> of_int (30 * ms_day) / ms_month" using pos by (simp add: divide_right_mono)
  also have "\<dots> \<le> of_int (30 * ms_day) / 2630015999" using month_bounds by (intro divide_left_mono) simp_all
  finally have "months_inactive since now \<le> dbl (of_int (30 * ms_day) / 2630015999)"
    unfolding months_inactive_def by (rule dbl_mono)
  also have "\<dots> < 1" by code_simp
  finally show ?thesis by (simp add: calculateDecayPenalty_def)
qed

subsection \<open>Properties\<close>

lemma calculate_accepted:
  assumes "calculateTrustScore u now s = (Inr r, s')"
  obtains user where "find_trust_user u s = Some user" "tr_breakdown r = calculateBreakdown user now s"
    "tr_score r = tb_totalScore (tr_breakdown r)"
    "tv_users s' = tbl_update tv_id u (\<lambda>v. v\<lparr>tv_trustScore := tr_score r, tv_lastTrustScoreUpdate := Some now, tv_updatedAt := now\<rparr>) (tv_users s)"
  using assms by (auto simp: calculateTrustScore_def Let_def split: option.splits)

lemma find_after_update:
  "(\<And>v. tv_id (f v) = tv_id v) \<Longrightarrow> tv_users s' = tbl_update tv_id u f (tv_users s) \<Longrightarrow>
   find_trust_user u s' = map_option f (find_trust_user u s)"
  by (simp add: find_trust_user_def keyed_table.lookup_update [OF keyed_table_tbl])

text \<open>C27: A trust score lies between zero and its base, and the base between zero and seventy-five: rounding on doubles never lifts a
  decayed score above the base; the score that is returned is the one that is stored, and the one that is read for the next
  twenty-four hours.\<close>

theorem trust_score_bounds:
  assumes "calculateTrustScore u now s = (Inr r, s')" and "later - now < 24 * ms_hour" and "now \<le> later"
  shows "0 \<le> tr_score r \<and> tr_score r \<le> tb_baseScore (tr_breakdown r) \<and> tb_baseScore (tr_breakdown r) \<le> 75
    \<and> map_sum id tr_score (fst (getTrustScore u False later s')) = Inr (tr_score r)"
proof -
  obtain user where user: "find_trust_user u s = Some user" "tr_breakdown r = calculateBreakdown user now s"
    "tr_score r = tb_totalScore (tr_breakdown r)"
    "tv_users s' = tbl_update tv_id u (\<lambda>v. v\<lparr>tv_trustScore := tr_score r, tv_lastTrustScoreUpdate := Some now, tv_updatedAt := now\<rparr>) (tv_users s)"
    using calculate_accepted [OF assms(1)] .
  have "tb_totalScore (calculateBreakdown user now s) \<le> tb_baseScore (calculateBreakdown user now s)"
    unfolding breakdown_score [of user now s] using breakdown_base by (intro score_of_penalty penalty_nonneg) simp_all
  moreover have "0 \<le> tb_totalScore (calculateBreakdown user now s)" by (simp add: breakdown_score)
  moreover have "\<not> isUpdateNeeded now later"
  proof -
    have "later - now \<le> 86399999" using assms(2) by simp
    then have "of_int (later - now) / of_int ms_hour \<le> (of_int 86399999 / of_int ms_hour :: rat)"
      by (intro divide_right_mono) (simp_all only: of_int_le_iff, simp)
    then have "dbl (of_int (later - now) / of_int ms_hour) \<le> dbl (of_int 86399999 / of_int ms_hour)" by (rule dbl_mono)
    also have "\<dots> < of_int updateIntervalHours" by code_simp
    finally show ?thesis by (simp add: isUpdateNeeded_def)
  qed
  moreover have "find_trust_user u s' = Some (user\<lparr>tv_trustScore := tr_score r, tv_lastTrustScoreUpdate := Some now, tv_updatedAt := now\<rparr>)"
    using find_after_update [OF _ user(4)] user(1) by simp
  ultimately show ?thesis using user(2,3) breakdown_base [of user now s] by (simp add: getTrustScore_def)
qed

text \<open>The time between runs is at most thirty days.\<close>

fun monthly :: "time \<Rightarrow> time list \<Rightarrow> bool" where
  "monthly t0 [] = True"
| "monthly t0 (t # ts) = (t - t0 \<le> 30 * ms_day \<and> monthly t ts)"

definition recalculate_all :: "string \<Rightarrow> time list \<Rightarrow> trust_state \<Rightarrow> trust_state" where
  "recalculate_all u ts s = fold (\<lambda>t s. snd (calculateTrustScore u t s)) ts s"

text \<open>Updating the scores keeps them from decaying: every update of a score sets the row's time of change, which stands in for the
  activity of a user without any, so that such a user, recalculated at least every thirty days, keeps the full score for ever.\<close>

theorem recalculation_stops_decay:
  assumes "find_trust_user u s = Some user" and "tv_lastActivityAt user = None" and "monthly (tv_updatedAt user) (ts @ [now])"
    and "calculateTrustScore u now (recalculate_all u ts s) = (Inr r, s')"
  shows "tr_score r = tb_baseScore (tr_breakdown r)"
  using assms(1-3) assms(4)
proof (induction ts arbitrary: s user)
  case Nil
  then have "calculateDecayPenalty (Some (tv_updatedAt user)) now = 0" by (intro no_decay_within_a_month) simp
  then show ?case using Nil undecayed [of user now s] by (auto simp: recalculate_all_def elim!: calculate_accepted)
next
  case (Cons t ts)
  obtain r1 s1 where run: "calculateTrustScore u t s = (Inr r1, s1)" using Cons.prems(1) by (simp add: calculateTrustScore_def Let_def)
  then obtain v where v: "find_trust_user u s = Some v"
    "tv_users s1 = tbl_update tv_id u (\<lambda>v. v\<lparr>tv_trustScore := tr_score r1, tv_lastTrustScoreUpdate := Some t, tv_updatedAt := t\<rparr>) (tv_users s)"
    by (rule calculate_accepted)
  have "find_trust_user u s1 = Some (user\<lparr>tv_trustScore := tr_score r1, tv_lastTrustScoreUpdate := Some t, tv_updatedAt := t\<rparr>)"
    using find_after_update [OF _ v(2)] Cons.prems(1) by simp
  then show ?case using Cons.IH [of s1] Cons.prems run by (simp add: recalculate_all_def)
qed

lemma tbl_update_absent: "k \<notin> key ` set l \<Longrightarrow> tbl_update key k f l = l"
  by (auto simp: tbl_update_def intro!: map_idI)

lemma tbl_update_split:
  "tbl_update key k f (a @ x # b) = tbl_update key k f a @ (if key x = k then f x else x) # tbl_update key k f b"
  by (simp add: tbl_update_def)

text \<open>A batch is one pass over the users: everybody's score is calculated from the state before the batch, everybody is counted as
  updated and nobody as failed.\<close>

theorem trust_batch_is_one_pass:
  assumes "distinct (map tv_id (tv_users s))"
  shows "batchUpdateTrustScores now s = ((length (tv_users s), 0),
    s\<lparr>tv_users := map (\<lambda>u. u\<lparr>tv_trustScore := tb_totalScore (calculateBreakdown u now s), tv_lastTrustScoreUpdate := Some now,
        tv_updatedAt := now\<rparr>) (tv_users s)\<rparr>)"
proof -
  define up where "up = (\<lambda>u. u\<lparr>tv_trustScore := tb_totalScore (calculateBreakdown u now s), tv_lastTrustScoreUpdate := Some now,
        tv_updatedAt := now\<rparr>)"
  let ?f = "\<lambda>user ((updated, failed), s). case calculateTrustScore (tv_id user) now s of
         (Inr _, s') \<Rightarrow> ((updated + 1, failed), s') | (Inl _, s') \<Rightarrow> ((updated, failed + 1), s')"
  have id [simp]: "tv_id (up u) = tv_id u" for u by (simp add: up_def)
  have step: "calculateTrustScore (tv_id x) now (s\<lparr>tv_users := map up done @ x # rest\<rparr>)
      = (Inr \<lparr>tr_userId = tv_id x, tr_score = tb_totalScore (calculateBreakdown x now s), tr_breakdown = calculateBreakdown x now s,
           tr_lastUpdated = now, tr_nextUpdateTime = now + updateIntervalHours * ms_hour\<rparr>,
         s\<lparr>tv_users := map up (done @ [x]) @ rest\<rparr>)"
    if "distinct (map tv_id (done @ x # rest))" for x "done" rest
  proof -
    have found: "find_trust_user (tv_id x) (s\<lparr>tv_users := map up done @ x # rest\<rparr>) = Some x"
      using tbl_find_distinct [of tv_id "map up done @ x # rest" x] that by (simp add: find_trust_user_def comp_def)
    have same: "calculateBreakdown x now (s\<lparr>tv_users := y\<rparr>) = calculateBreakdown x now s" for y
      by (simp add: calculateBreakdown_def)
    have "tbl_update tv_id (tv_id x) (\<lambda>u. u\<lparr>tv_trustScore := tb_totalScore (calculateBreakdown x now s), tv_lastTrustScoreUpdate := Some now,
        tv_updatedAt := now\<rparr>) (map up done @ x # rest) = map up (done @ [x]) @ rest"
    proof -
      have "tbl_update tv_id (tv_id x) g rest = rest" "tbl_update tv_id (tv_id x) g (map up done) = map up done" for g
        using that by (simp_all add: tbl_update_absent image_image)
      then show ?thesis by (simp add: tbl_update_split) (simp add: up_def)
    qed
    then show ?thesis by (simp add: calculateTrustScore_def found same Let_def)
  qed
  have "fold ?f rest ((n, 0), s\<lparr>tv_users := map up done @ rest\<rparr>) = ((n + length rest, 0), s\<lparr>tv_users := map up (done @ rest)\<rparr>)"
    if "distinct (map tv_id (done @ rest))" for n "done" rest
    using that
  proof (induction rest arbitrary: n "done")
    case (Cons x rest)
    show ?case using Cons.IH [of "done @ [x]" "Suc n"] Cons.prems step [of "done" x rest] by simp
  qed simp
  from this [of "[]" "tv_users s" 0] show ?thesis using assms by (simp add: batchUpdateTrustScores_def up_def)
qed

subsection \<open>Examples\<close>

definition example_trust :: trust_state where
  "example_trust = \<lparr>tv_users = [\<lparr>tv_id = ''u1'', tv_isVerified = True, tv_lastActivityAt = None, tv_updatedAt = 0, tv_trustScore = 0,
       tv_lastTrustScoreUpdate = None\<rparr>], tv_documents = [(''u1'', ''APPROVED'')], tv_transactions = []\<rparr>"

theorem trust_score_bounds_witness:
  "\<exists>r s'. calculateTrustScore ''u1'' 5000000000 example_trust = (Inr r, s') \<and> tr_score r \<le> 30
    \<and> map_sum id tr_score (fst (getTrustScore ''u1'' False 5000000001 s')) = Inr (tr_score r)"
proof -
  obtain r s' where run: "calculateTrustScore ''u1'' 5000000000 example_trust = (Inr r, s')"
    and base: "tb_baseScore (tr_breakdown r) = 30"
    by (simp add: calculateTrustScore_def example_trust_def find_trust_user_def tbl_find_def Let_def calculateBreakdown_def
        completed_of_def tbl_count_def)
  from trust_score_bounds [OF run, of 5000000001] show ?thesis using run base by simp
qed

theorem recalculation_stops_decay_witness:
  "\<exists>r s'. calculateTrustScore ''u1'' (60 * ms_day) (recalculate_all ''u1'' [30 * ms_day] example_trust) = (Inr r, s')
    \<and> tr_score r = tb_baseScore (tr_breakdown r)"
proof -
  obtain user where user: "find_trust_user ''u1'' example_trust = Some user" "tv_lastActivityAt user = None" "tv_updatedAt user = 0"
    by (simp add: example_trust_def find_trust_user_def tbl_find_def)
  have "\<exists>r s'. calculateTrustScore ''u1'' (60 * ms_day) (recalculate_all ''u1'' [30 * ms_day] example_trust) = (Inr r, s')"
    by (simp add: recalculate_all_def calculateTrustScore_def Let_def find_trust_user_def tbl_update_def tbl_find_def example_trust_def)
  then show ?thesis using recalculation_stops_decay [OF user(1,2), of "[30 * ms_day]" "60 * ms_day"] user(3) by fastforce
qed

theorem trust_batch_is_one_pass_witness: "fst (batchUpdateTrustScores 9 example_trust) = (1, 0)"
proof -
  have "distinct (map tv_id (tv_users example_trust))" by (simp add: example_trust_def)
  from trust_batch_is_one_pass [OF this] show ?thesis by (simp add: example_trust_def)
qed

end
