(* ===== verification/Listing_Cache.thy ===== *)
theory Listing_Cache
  imports Cache "HOL-Library.List_Lexorder" "HOL-Library.Char_ord" "HOL-Library.Multiset"
begin

text \<open>
  The cache of the public listing search (\<open>src/properties/properties-listings-cache.service.ts\<close>), with several replicas of the
  program over one Redis, each with its own map of tags; and what the cache of theory \<open>Cache\<close> gives the dashboard and the
  readiness probe.
\<close>

subsection \<open>The cache of searches\<close>

definition LISTING_SEARCH_TTL_SECONDS :: int where "LISTING_SEARCH_TTL_SECONDS = 30"
definition MAX_KEY_SOURCE_LENGTH :: nat where "MAX_KEY_SOURCE_LENGTH = 2048"
definition search_prefix :: string where "search_prefix = ''properties:search:''"
definition TAG_PROPERTIES :: string where "TAG_PROPERTIES = ''properties''"

text \<open>The fields of the query in the order of the object, \<open>None\<close> for \<open>undefined\<close> and \<open>null\<close>; \<open>stringify\<close> is \<open>JSON.stringify\<close> and
  \<open>sha1\<close> the hexadecimal digest.\<close>

definition listingSearchCacheKey ::
  "((string \<times> 'a option) list \<Rightarrow> string) \<Rightarrow> (string \<Rightarrow> string) \<Rightarrow> (string \<times> 'a option) list \<Rightarrow> string option" where
  "listingSearchCacheKey stringify sha1 dto =
     (let defined = sort_key fst (filter (\<lambda>(_, value). value \<noteq> None) dto)
      in if defined = [] then None
         else (let source = stringify defined
               in if MAX_KEY_SOURCE_LENGTH < length source then None else Some (search_prefix @ sha1 source)))"

text \<open>\<open>rememberSearch\<close>: what it does before the query runs, \<open>Some\<close> for a hit, and what it does with the answer of the query.\<close>

definition remember_begin :: "('v \<Rightarrow> bool) \<Rightarrow> bool \<Rightarrow> string \<Rightarrow> time \<Rightarrow> 'v cache_state \<Rightarrow> 'v option \<times> 'v cache_state" where
  "remember_begin truthy ok key now c =
     (case cacheService_get truthy ok key now c of (CACHE_SUCCESS v, c1) \<Rightarrow> (Some v, c1) | (_, c1) \<Rightarrow> (None, c1))"

definition remember_finish :: "bool \<Rightarrow> string \<Rightarrow> 'v \<Rightarrow> time \<Rightarrow> 'v cache_state \<Rightarrow> 'v cache_state" where
  "remember_finish ok key value now c = snd (cacheService_set ok key value LISTING_SEARCH_TTL_SECONDS (Some TAG_PROPERTIES) now c)"

text \<open>\<open>with_cache\<close> says whether a cache service was injected.\<close>

definition rememberSearch ::
  "bool \<Rightarrow> ('v \<Rightarrow> bool) \<Rightarrow> bool \<Rightarrow> bool \<Rightarrow> string option \<Rightarrow> (http_error + 'v) \<Rightarrow> time \<Rightarrow> time \<Rightarrow> 'v cache_state \<Rightarrow>
   ('v, 'v cache_state) outcome" where
  "rememberSearch with_cache truthy get_ok set_ok key loader now stored c =
     (case key of
        None \<Rightarrow> (loader, c)
      | Some k \<Rightarrow>
          if \<not> with_cache then (loader, c)
          else (case remember_begin truthy get_ok k now c of
                  (Some v, c1) \<Rightarrow> (Inr v, c1)
                | (None, c1) \<Rightarrow> (case loader of Inl e \<Rightarrow> (Inl e, c1) | Inr v \<Rightarrow> (Inr v, remember_finish set_ok k v stored c1))))"

subsection \<open>Replicas over one Redis\<close>

text \<open>\<open>sw_loading\<close> holds the searches whose query has run and whose answer is not stored yet: the replica, the key, the answer
  and the time of the query.  \<open>sw_served\<close> are the answers that came from the cache.\<close>

record 'v search_world =
  sw_store :: "string \<Rightarrow> ('v \<times> time) option"
  sw_tags :: "nat \<Rightarrow> (string \<times> string list) list"
  sw_loading :: "(nat \<times> string \<times> 'v \<times> time) list"
  sw_now :: time
  sw_served :: "(string \<times> 'v \<times> time) list"

definition replica :: "nat \<Rightarrow> 'v search_world \<Rightarrow> 'v cache_state" where
  "replica r w = \<lparr>ca_store = sw_store w, ca_tagMap = sw_tags w r,
     ca_metrics = \<lparr>cm_hits = 0, cm_misses = 0, cm_errors = 0, cm_totalRequests = 0\<rparr>\<rparr>"

definition put_replica :: "nat \<Rightarrow> 'v cache_state \<Rightarrow> 'v search_world \<Rightarrow> 'v search_world" where
  "put_replica r c w = w\<lparr>sw_store := ca_store c, sw_tags := (sw_tags w)(r := ca_tagMap c)\<rparr>"

definition empty_world :: "time \<Rightarrow> 'v search_world" where
  "empty_world t = \<lparr>sw_store = (\<lambda>_. None), sw_tags = (\<lambda>_. []), sw_loading = [], sw_now = t, sw_served = []\<rparr>"

text \<open>\<open>src key t\<close> is what the query behind \<open>key\<close> answers at time \<open>t\<close>.  The replicas are those of \<open>R\<close>; they lose their tags when they
  restart, which \<open>crash\<close> allows.  Other parts of the program use other keys.\<close>

inductive search_step :: "(string \<Rightarrow> time \<Rightarrow> 'v) \<Rightarrow> ('v \<Rightarrow> bool) \<Rightarrow> nat set \<Rightarrow> bool \<Rightarrow> 'v search_world \<Rightarrow> 'v search_world \<Rightarrow> bool"
  for src :: "string \<Rightarrow> time \<Rightarrow> 'v" and truthy :: "'v \<Rightarrow> bool" and R :: "nat set" and crash :: bool where
  search_hit: "\<lbrakk>r \<in> R; starts_with search_prefix key; remember_begin truthy ok key (sw_now w) (replica r w) = (Some v, c)\<rbrakk> \<Longrightarrow>
     search_step src truthy R crash w ((put_replica r c w)\<lparr>sw_served := (key, v, sw_now w) # sw_served w\<rparr>)"
| search_miss: "\<lbrakk>r \<in> R; starts_with search_prefix key; remember_begin truthy ok key (sw_now w) (replica r w) = (None, c)\<rbrakk> \<Longrightarrow>
     search_step src truthy R crash w
       ((put_replica r c w)\<lparr>sw_loading := (r, key, src key (sw_now w), sw_now w) # sw_loading w\<rparr>)"
| search_store: "\<lbrakk>(r, key, v, t) \<in> set (sw_loading w); c = remember_finish ok key v (sw_now w) (replica r w)\<rbrakk> \<Longrightarrow>
     search_step src truthy R crash w ((put_replica r c w)\<lparr>sw_loading := remove1 (r, key, v, t) (sw_loading w)\<rparr>)"
| listing_write: "\<lbrakk>r \<in> R; invalidateByTag ok TAG_PROPERTIES (replica r w) = (st, c)\<rbrakk> \<Longrightarrow>
     search_step src truthy R crash w (put_replica r c w)"
| clock: "sw_now w \<le> t \<Longrightarrow> search_step src truthy R crash w (w\<lparr>sw_now := t\<rparr>)"
| restart: "crash \<Longrightarrow> search_step src truthy R crash w (w\<lparr>sw_tags := (sw_tags w)(r := [])\<rparr>)"
| other_key: "\<not> starts_with search_prefix key \<Longrightarrow>
     search_step src truthy R crash w (w\<lparr>sw_store := (sw_store w)(key := x)\<rparr>)"

lemma cache_get_frame:
  "ca_store (snd (cacheService_get truthy ok key now c)) = ca_store c"
  "ca_tagMap (snd (cacheService_get truthy ok key now c)) = ca_tagMap c"
  by (simp_all add: cacheService_get_def recordHit_def recordMiss_def recordError_def split: option.split)

lemma cache_get_success:
  "fst (cacheService_get truthy ok key now c) = CACHE_SUCCESS v \<longleftrightarrow> ok \<and> manager_get key now c = Some v \<and> truthy v"
  by (auto simp: cacheService_get_def split: option.split)

lemma remember_begin_frame:
  assumes "remember_begin truthy ok key now c = (res, c1)"
  shows "ca_store c1 = ca_store c" and "ca_tagMap c1 = ca_tagMap c"
    and "res = Some v \<longleftrightarrow> ok \<and> manager_get key now c = Some v \<and> truthy v"
proof -
  obtain g c2 where g: "cacheService_get truthy ok key now c = (g, c2)" by fastforce
  then have "c1 = c2" "res = (case g of CACHE_SUCCESS v \<Rightarrow> Some v | _ \<Rightarrow> None)"
    using assms by (auto simp: remember_begin_def split: cache_result.splits)
  then show "ca_store c1 = ca_store c" and "ca_tagMap c1 = ca_tagMap c"
    and "res = Some v \<longleftrightarrow> ok \<and> manager_get key now c = Some v \<and> truthy v"
    using cache_get_frame [of truthy ok key now c] cache_get_success [of truthy ok key now c v] g
    by (auto split: cache_result.splits)
qed

lemma remember_finish_store:
  "ca_store (remember_finish ok key v now c) =
     (if ok then (ca_store c)(key \<mapsto> (v, now + 30000)) else ca_store c)"
  by (simp add: remember_finish_def cacheService_set_def recordError_def tagKey_def TAG_PROPERTIES_def LISTING_SEARCH_TTL_SECONDS_def Let_def)

lemma map_of_AList_update: "map_of (AList.update k v al) j = (if j = k then Some v else map_of al j)"
  by (simp add: update_conv')

lemma remember_finish_tags:
  "ok \<Longrightarrow> set (keys_of_tag TAG_PROPERTIES (remember_finish ok key v now c)) = insert key (set (keys_of_tag TAG_PROPERTIES c))"
  by (simp add: remember_finish_def cacheService_set_def tagKey_def keys_of_tag_def TAG_PROPERTIES_def Let_def map_of_AList_update)

lemma invalidate_store:
  "ca_store (snd (invalidateByTag ok tag c)) k =
     (if ok \<and> k \<in> set (keys_of_tag tag c) then None else ca_store c k)"
  by (cases "keys_of_tag tag c") (auto simp: invalidateByTag_def delMultiple_def manager_del_def recordError_def Let_def)

lemma invalidate_tags:
  "keys_of_tag tag (snd (invalidateByTag ok tag c)) = (if ok then [] else keys_of_tag tag c)"
  by (cases "map_of (ca_tagMap c) tag")
    (auto simp: invalidateByTag_def delMultiple_def manager_del_def recordError_def keys_of_tag_def Let_def delete_conv' split: list.split)

subsection \<open>How old a cached answer can be\<close>

definition answered_at :: "(string \<Rightarrow> time \<Rightarrow> 'v) \<Rightarrow> string \<Rightarrow> 'v \<Rightarrow> time \<Rightarrow> time \<Rightarrow> bool" where
  "answered_at src key v loaded stored \<longleftrightarrow> v = src key loaded \<and> loaded \<le> stored"

definition entries_recent :: "(string \<Rightarrow> time \<Rightarrow> 'v) \<Rightarrow> 'v search_world \<Rightarrow> bool" where
  "entries_recent src w \<longleftrightarrow>
     (\<forall>key v e. starts_with search_prefix key \<longrightarrow> sw_store w key = Some (v, e) \<longrightarrow>
        (\<exists>loaded. answered_at src key v loaded (e - 30000) \<and> e - 30000 \<le> sw_now w))
     \<and> (\<forall>(r, key, v, loaded) \<in> set (sw_loading w). v = src key loaded \<and> loaded \<le> sw_now w)
     \<and> (\<forall>(key, v, t) \<in> set (sw_served w). \<exists>loaded stored. answered_at src key v loaded stored \<and> stored \<le> t \<and> t < stored + 30000)"

lemma put_replica_simps [simp]:
  "sw_store (put_replica r c w) = ca_store c" "sw_loading (put_replica r c w) = sw_loading w"
  "sw_now (put_replica r c w) = sw_now w" "sw_served (put_replica r c w) = sw_served w"
  "sw_tags (put_replica r c w) = (sw_tags w)(r := ca_tagMap c)"
  by (simp_all add: put_replica_def)

lemma replica_simps [simp]: "ca_store (replica r w) = sw_store w" "ca_tagMap (replica r w) = sw_tags w r"
  by (simp_all add: replica_def)

lemma step_entries_recent:
  assumes "search_step src truthy R crash w w'" and "entries_recent src w"
  shows "entries_recent src w'"
  using assms
proof cases
  case (search_hit r key ok v c)
  note frame = remember_begin_frame [OF search_hit(4)]
  have "manager_get key (sw_now w) (replica r w) = Some v" using frame(3) by blast
  then obtain e where e: "sw_store w key = Some (v, e)" "sw_now w < e"
    by (auto simp: manager_get_def split: option.splits if_splits)
  then obtain loaded where "answered_at src key v loaded (e - 30000)" "e - 30000 \<le> sw_now w"
    using assms(2) search_hit(3) unfolding entries_recent_def by blast
  then have "\<exists>loaded stored. answered_at src key v loaded stored \<and> stored \<le> sw_now w \<and> sw_now w < stored + 30000"
    using e(2) by (intro exI [of _ loaded] exI [of _ "e - 30000"]) simp
  then show ?thesis using assms(2) frame(1) unfolding search_hit(1) by (simp add: entries_recent_def)
next
  case (search_miss r key ok c)
  then show ?thesis using assms(2) remember_begin_frame(1) [OF search_miss(4)] by (simp add: entries_recent_def)
next
  case (search_store r key v t c ok)
  have v: "v = src key t" "t \<le> sw_now w" using assms(2) search_store(2) by (auto simp: entries_recent_def)
  have "set (remove1 (r, key, v, t) (sw_loading w)) \<subseteq> set (sw_loading w)" by (rule set_remove1_subset)
  then show ?thesis
    using assms(2) v unfolding search_store(1,3)
    by (auto simp: entries_recent_def remember_finish_store answered_at_def split: if_splits)
next
  case (listing_write r ok st c)
  then have "sw_store w' k = sw_store w k \<or> sw_store w' k = None" for k
    using invalidate_store [of ok TAG_PROPERTIES "replica r w" k] by auto
  then show ?thesis using assms(2) unfolding entries_recent_def listing_write(1)
    by simp (metis option.distinct(1))
next
  case (clock t)
  then show ?thesis using assms(2) by (fastforce simp: entries_recent_def)
next
  case (restart r)
  then show ?thesis using assms(2) by (simp add: entries_recent_def)
next
  case (other_key key x)
  then show ?thesis using assms(2) by (auto simp: entries_recent_def)
qed

lemma reachable_entries_recent:
  "(search_step src truthy R crash)\<^sup>*\<^sup>* (empty_world start) w \<Longrightarrow> entries_recent src w"
proof (induction rule: rtranclp_induct)
  case base
  show ?case by (simp add: entries_recent_def empty_world_def)
qed (rule step_entries_recent)

text \<open>C32: However many replicas serve the public search, restart and lose track of what they cached, an answer that comes from
  the cache is what the query answered at an earlier time, and was stored less than thirty seconds ago.\<close>

theorem cached_search_is_recent:
  assumes "(search_step src truthy R crash)\<^sup>*\<^sup>* (empty_world start) w" and "(key, v, t) \<in> set (sw_served w)"
  shows "\<exists>loaded stored. v = src key loaded \<and> loaded \<le> stored \<and> stored \<le> t \<and> t < stored + 30000"
  using reachable_entries_recent [OF assms(1)] assms(2) unfolding entries_recent_def answered_at_def by blast

subsection \<open>What a write to the listings makes the cache forget\<close>

definition tracked_entries :: "'v search_world \<Rightarrow> bool" where
  "tracked_entries w \<longleftrightarrow> (\<forall>key. starts_with search_prefix key \<longrightarrow> sw_store w key \<noteq> None \<longrightarrow>
     key \<in> set (keys_of_tag TAG_PROPERTIES (replica 0 w))) \<and> (\<forall>l \<in> set (sw_loading w). fst l = 0)"

lemma keys_of_tag_replica: "keys_of_tag tag (replica r (put_replica r c w)) = keys_of_tag tag c"
  by (simp add: keys_of_tag_def)

lemma step_tracked_entries:
  assumes "search_step src truthy {0} False w w'" and "tracked_entries w"
  shows "tracked_entries w'"
  using assms
proof cases
  case (search_hit r key ok v c)
  then show ?thesis using assms(2) remember_begin_frame(1,2) [OF search_hit(4)] by (simp add: tracked_entries_def keys_of_tag_def)
next
  case (search_miss r key ok c)
  then show ?thesis using assms(2) remember_begin_frame(1,2) [OF search_miss(4)] by (simp add: tracked_entries_def keys_of_tag_def)
next
  case (search_store r key v t c ok)
  have r: "r = 0" using assms(2) search_store(2) by (force simp: tracked_entries_def)
  have "set (remove1 (r, key, v, t) (sw_loading w)) \<subseteq> set (sw_loading w)" by (rule set_remove1_subset)
  moreover have "ok \<or> ca_tagMap c = sw_tags w 0"
    using search_store(3) r by (cases ok) (simp_all add: remember_finish_def cacheService_set_def recordError_def)
  ultimately show ?thesis
    using assms(2) r remember_finish_store [of ok key v "sw_now w" "replica 0 w"]
      remember_finish_tags [of ok key v "sw_now w" "replica 0 w"] search_store(3)
    unfolding search_store(1)
    by (cases ok) (auto simp: tracked_entries_def keys_of_tag_def)
next
  case (listing_write r ok st c)
  then have c: "c = snd (invalidateByTag ok TAG_PROPERTIES (replica 0 w))" "r = 0" by auto
  show ?thesis
    using assms(2) invalidate_store [of ok TAG_PROPERTIES "replica 0 w"] invalidate_tags [of TAG_PROPERTIES ok "replica 0 w"]
    unfolding listing_write(1) c(2)
    by (cases ok) (auto simp: tracked_entries_def keys_of_tag_def c(1))
next
  case (clock t)
  then show ?thesis using assms(2) by (simp add: tracked_entries_def keys_of_tag_def)
next
  case (restart r)
  then show ?thesis by simp
next
  case (other_key key x)
  then show ?thesis using assms(2) by (auto simp: tracked_entries_def keys_of_tag_def)
qed

lemma reachable_tracked_entries:
  "(search_step src truthy {0} False)\<^sup>*\<^sup>* (empty_world start) w \<Longrightarrow> tracked_entries w"
proof (induction rule: rtranclp_induct)
  case base
  show ?case by (simp add: tracked_entries_def empty_world_def)
qed (rule step_tracked_entries)


lemma cached_world_reachable:
  assumes "starts_with search_prefix key" and "0 \<le> t" and "r \<in> R"
  shows "\<exists>w. (search_step src truthy R crash)\<^sup>*\<^sup>* (empty_world 0) w \<and> sw_now w = t
    \<and> sw_store w key = Some (src key 0, 30000) \<and> (\<forall>q. q \<noteq> r \<longrightarrow> sw_tags w q = [])"
proof -
  define w1 where "w1 = (empty_world 0 :: 'a search_world)\<lparr>sw_loading := [(r, key, src key 0, 0)]\<rparr>"
  define c where "c = remember_finish True key (src key 0) 0 (replica r w1)"
  define w2 where "w2 = (put_replica r c w1)\<lparr>sw_loading := []\<rparr>"
  define w where "w = w2\<lparr>sw_now := t\<rparr>"
  obtain d where d: "remember_begin truthy True key 0 (replica r (empty_world 0)) = (None, d)"
    by (simp add: remember_begin_def cacheService_get_def manager_get_def empty_world_def replica_def)
  have "put_replica r d (empty_world 0) = empty_world 0"
    using remember_begin_frame(1,2) [OF d] by (simp add: put_replica_def replica_def empty_world_def fun_eq_iff)
  then have "search_step src truthy R crash (empty_world 0) w1"
    using search_miss [where r = r and R = R and src = src and crash = crash and ok = True and w = "empty_world 0"
        and truthy = truthy and c = d, OF assms(3,1)] d
    by (simp add: w1_def empty_world_def)
  moreover have "search_step src truthy R crash w1 w2"
    using search_store [where r = r and key = key and v = "src key 0" and t = 0 and w = w1 and c = c and ok = True]
    by (simp add: w2_def w1_def c_def empty_world_def)
  moreover have "search_step src truthy R crash w2 w"
    unfolding w_def using assms(2) by (intro clock) (simp add: w2_def w1_def empty_world_def)
  ultimately have "(search_step src truthy R crash)\<^sup>*\<^sup>* (empty_world 0) w"
    by (meson converse_rtranclp_into_rtranclp rtranclp.rtrancl_refl)
  then show ?thesis
    by (intro exI [of _ w]) (simp add: w_def w2_def w1_def c_def remember_finish_store empty_world_def)
qed

text \<open>With two replicas it does not: a search that one of them cached is served for its thirty seconds by both, although the
  other one has written to the listings and invalidated the tag.\<close>

theorem other_replica_keeps_cached_search:
  assumes "starts_with search_prefix key" and "truthy (src key 0)" and "0 \<le> t" and "t < 30000"
  shows "\<exists>w. (search_step src truthy {0, 1} False)\<^sup>*\<^sup>* (empty_world 0) w \<and> sw_now w = t
    \<and> fst (remember_begin truthy True key t (snd (invalidateByTag True TAG_PROPERTIES (replica 0 w)))) = Some (src key 0)"
proof -
  obtain w where w: "(search_step src truthy {0, 1} False)\<^sup>*\<^sup>* (empty_world 0) w" "sw_now w = t"
      "sw_store w key = Some (src key 0, 30000)" "sw_tags w 0 = []"
    using cached_world_reachable [OF assms(1,3), of 1 "{0, 1}" src truthy False] by auto
  have "manager_get key t (snd (invalidateByTag True TAG_PROPERTIES (replica 0 w))) = Some (src key 0)"
    using assms(4) w(3,4) invalidate_store [of True TAG_PROPERTIES "replica 0 w" key] by (simp add: manager_get_def keys_of_tag_def)
  then show ?thesis
    using assms(2) w(1,2) by (intro exI [of _ w]) (simp add: remember_begin_def cacheService_get_def)
qed

subsection \<open>Keys\<close>

lemma sort_key_unique:
  assumes "mset xs = mset ys" and "distinct (map f xs)"
  shows "sort_key f xs = sort_key f ys"
proof (rule properties_for_sort_key)
  show "mset (sort_key f ys) = mset xs" using assms(1) by simp
  show "filter (\<lambda>x. f k = f x) (sort_key f ys) = filter (\<lambda>x. f k = f x) xs" if "k \<in> set (sort_key f ys)" for k
  proof -
    have single: "filter (\<lambda>x. f k = f x) zs = [k]" if "mset zs = mset xs" for zs
    proof -
      have "mset (map f zs) = mset (map f xs)" by (simp only: mset_map that)
      moreover have "mset zs = mset ys" using that assms(1) by simp
      then have "set zs = set ys" by (rule mset_eq_setD)
      ultimately have "distinct (map f zs)" "k \<in> set zs"
        using assms(2) that \<open>k \<in> set (sort_key f ys)\<close> mset_eq_imp_distinct_iff by (blast, simp only: set_sort)
      then show ?thesis by (induction zs) (auto simp: filter_empty_conv image_iff)
    qed
    show ?thesis using single [of "sort_key f ys"] single [of xs] assms(1) by simp
  qed
qed simp

text \<open>The key of a search does not depend on the order in which the query names its filters, nor on filters that are
  absent; a query without filters is never cached.\<close>

theorem search_key_ignores_order:
  assumes "distinct (map fst (filter (\<lambda>(_, v). v \<noteq> None) dto))"
    and "mset (filter (\<lambda>(_, v). v \<noteq> None) dto) = mset (filter (\<lambda>(_, v). v \<noteq> None) dto')"
  shows "listingSearchCacheKey stringify sha1 dto = listingSearchCacheKey stringify sha1 dto'
    \<and> (list_all (\<lambda>(_, v). v = None) dto \<longrightarrow> listingSearchCacheKey stringify sha1 dto = None)"
  using sort_key_unique [OF assms(2,1)]
  by (auto simp: listingSearchCacheKey_def list_all_iff filter_empty_conv split_beta)

subsection \<open>The dashboard and the readiness probe\<close>

text \<open>A sequence of requests for the snapshot, over a Redis that answers: time, snapshot and whether it came from the cache.\<close>

fun snapshots :: "('v \<Rightarrow> bool) \<Rightarrow> (time \<Rightarrow> 'v) \<Rightarrow> time list \<Rightarrow> 'v cache_state \<Rightarrow> (time \<times> 'v \<times> bool) list" where
  "snapshots truthy build [] c = []"
| "snapshots truthy build (t # ts) c =
     (case getSnapshot truthy True True (Inr (build t)) (Inr (build t)) t t c of
        (Inr (v, cached), c1) \<Rightarrow> (t, v, cached) # snapshots truthy build ts c1
      | (Inl _, c1) \<Rightarrow> snapshots truthy build ts c1)"

abbreviation computed_at :: "(time \<times> 'v \<times> bool) list \<Rightarrow> time list" where
  "computed_at xs \<equiv> map fst (filter (\<lambda>(t, v, cached). \<not> cached) xs)"

lemma getSnapshot_step:
  assumes "truthy (build t)" and "ca_store c DASHBOARD_SNAPSHOT_KEY = e"
    and "case e of None \<Rightarrow> True | Some (v, x) \<Rightarrow> truthy v"
  shows "case getSnapshot truthy True True (Inr (build t)) again t t c of (res, c1) \<Rightarrow>
    (case e of
       Some (v, x) \<Rightarrow> if t < x then res = Inr (v, True) \<and> ca_store c1 DASHBOARD_SNAPSHOT_KEY = e
         else res = Inr (build t, False) \<and> ca_store c1 DASHBOARD_SNAPSHOT_KEY = Some (build t, t + 5000)
     | None \<Rightarrow> res = Inr (build t, False) \<and> ca_store c1 DASHBOARD_SNAPSHOT_KEY = Some (build t, t + 5000))"
  using assms
  by (auto simp: getSnapshot_def getOrSet_def cacheService_get_def manager_get_def cacheService_set_def recordHit_def recordMiss_def
      DASHBOARD_SNAPSHOT_TTL_SECONDS_def Let_def split: option.splits)

lemma snapshots_after:
  assumes "\<And>t. truthy (build t)" and "ca_store c DASHBOARD_SNAPSHOT_KEY = Some (build s, s + 5000)" and "sorted (s # ts)"
  shows "sorted_wrt (\<lambda>a b. a + 5000 \<le> b) (s # computed_at (snapshots truthy build ts c))
    \<and> (\<forall>(t, v, cached) \<in> set (snapshots truthy build ts c).
         \<exists>b \<in> set (s # computed_at (snapshots truthy build ts c)). b \<le> t \<and> t < b + 5000 \<and> v = build b)"
  using assms(2,3)
proof (induction ts arbitrary: s c)
  case (Cons t ts)
  obtain res c1 where run: "getSnapshot truthy True True (Inr (build t)) (Inr (build t)) t t c = (res, c1)" by fastforce
  have st: "s \<le> t" "sorted (t # ts)" "sorted (s # ts)" using Cons.prems(2) by auto
  note step = getSnapshot_step [where truthy = truthy and build = build, OF assms(1) Cons.prems(1), where again = "Inr (build t)"]
  show ?case
  proof (cases "t < s + 5000")
    case True
    then have "res = Inr (build s, True)" "ca_store c1 DASHBOARD_SNAPSHOT_KEY = Some (build s, s + 5000)"
      using step [of t] assms(1) run by simp_all
    then show ?thesis using Cons.IH [of c1 s] st run True by auto
  next
    case False
    then have new: "res = Inr (build t, False)" "ca_store c1 DASHBOARD_SNAPSHOT_KEY = Some (build t, t + 5000)"
      using step [of t] assms(1) run by simp_all
    note IH = Cons.IH [OF new(2) st(2)]
    have "a + 5000 \<le> b" if "b \<in> set (computed_at (snapshots truthy build ts c1))" "a = s" for a b
      using IH that False by fastforce
    then show ?thesis using IH run new(1) False by auto
  qed
qed simp

text \<open>A burst of requests for the dashboard computes it at most once every five seconds, and nobody is shown a snapshot that is
  five seconds old or older.\<close>

theorem dashboard_computed_once_per_window:
  assumes "sorted ts" and "\<And>t. truthy (build t)" and "ca_store c DASHBOARD_SNAPSHOT_KEY = None"
  shows "sorted_wrt (\<lambda>a b. a + 5000 \<le> b) (computed_at (snapshots truthy build ts c))
    \<and> (\<forall>(t, v, cached) \<in> set (snapshots truthy build ts c).
         \<exists>b \<in> set (computed_at (snapshots truthy build ts c)). b \<le> t \<and> t < b + 5000 \<and> v = build b)"
proof (cases ts)
  case (Cons t rest)
  obtain res c1 where run: "getSnapshot truthy True True (Inr (build t)) (Inr (build t)) t t c = (res, c1)" by fastforce
  have new: "res = Inr (build t, False)" "ca_store c1 DASHBOARD_SNAPSHOT_KEY = Some (build t, t + 5000)"
    using getSnapshot_step [where truthy = truthy and build = build and t = t, OF assms(2,3), where again = "Inr (build t)"] run by simp_all
  show ?thesis
    using snapshots_after [where truthy = truthy and build = build, OF assms(2) new(2), of rest] assms(1) run new(1) unfolding Cons by auto
qed simp

text \<open>The readiness probe does not notice that Redis is down: its status code and the state it reports for Redis are the same
  as with a Redis that answers.\<close>

theorem readiness_ignores_redis:
  "fst (readiness truthy db_ok redis_ok rpc storage now c) = fst (readiness truthy db_ok True rpc storage now c)
   \<and> map_of (snd (fst (readiness truthy db_ok redis_ok rpc storage now c))) ''redis'' = Some ''ok''"
  by (simp add: readiness_def getHealthStatus_def case_prod_beta Let_def)


subsection \<open>Examples\<close>

abbreviation "example_search \<equiv> ''properties:search:x''"

lemma example_search_prefix: "starts_with search_prefix example_search"
  by (simp add: starts_with_def search_prefix_def)

theorem cached_search_is_recent_witness:
  "\<exists>w. (search_step (\<lambda>_ t. t) (\<lambda>_. True) {0} False)\<^sup>*\<^sup>* (empty_world 0) w \<and> (example_search, 0, 5) \<in> set (sw_served w)
     \<and> (\<exists>loaded stored. 0 = loaded \<and> loaded \<le> stored \<and> stored \<le> (5 :: time) \<and> 5 < stored + 30000)"
proof -
  obtain w where w: "(search_step (\<lambda>_ t. t) (\<lambda>_. True) {0} False)\<^sup>*\<^sup>* (empty_world 0) w" "sw_now w = 5"
      "sw_store w example_search = Some (0, 30000)"
    using cached_world_reachable [OF example_search_prefix, of 5 0 "{0}" "\<lambda>_ t. t" "\<lambda>_. True" False] by auto
  obtain c where "remember_begin (\<lambda>_. True) True example_search (sw_now w) (replica 0 w) = (Some 0, c)"
    using w(2,3) by (simp add: remember_begin_def cacheService_get_def manager_get_def)
  from search_hit [OF _ example_search_prefix this, of "{0}" "\<lambda>_ t. t" False]
  obtain w' where w': "search_step (\<lambda>_ t. t) (\<lambda>_. True) {0} False w w'" "(example_search, 0, 5) \<in> set (sw_served w')"
    using w(2) by auto
  have run: "(search_step (\<lambda>_ t. t) (\<lambda>_. True) {0} False)\<^sup>*\<^sup>* (empty_world 0) w'" using w(1) w'(1) by (rule rtranclp.rtrancl_into_rtrancl)
  have "\<exists>loaded stored. (0 :: int) = loaded \<and> loaded \<le> stored \<and> stored \<le> 5 \<and> 5 < stored + 30000"
    by (rule cached_search_is_recent [OF run w'(2)])
  then show ?thesis by (intro exI [of _ w'] conjI run w'(2))
qed


theorem other_replica_keeps_cached_search_witness:
  "\<exists>w. (search_step (\<lambda>_ t. t + 1) (\<lambda>v. v \<noteq> 0) {0, 1} False)\<^sup>*\<^sup>* (empty_world 0) w
     \<and> fst (remember_begin (\<lambda>v. v \<noteq> 0) True example_search 29999
         (snd (invalidateByTag True TAG_PROPERTIES (replica 0 w)))) = Some 1"
  using other_replica_keeps_cached_search [OF example_search_prefix, of "\<lambda>v. v \<noteq> 0" "\<lambda>_ t. t + 1" 29999] by auto

theorem search_key_ignores_order_witness:
  "listingSearchCacheKey (\<lambda>d. concat (map fst d)) id [(''page'', Some 1), (''city'', Some (2 :: int)), (''q'', None)]
     = listingSearchCacheKey (\<lambda>d. concat (map fst d)) id [(''city'', Some (2 :: int)), (''page'', Some 1)]"
  using search_key_ignores_order [of "[(''page'', Some 1), (''city'', Some (2 :: int)), (''q'', None)]" "[(''city'', Some (2 :: int)), (''page'', Some 1)]"
      "\<lambda>d. concat (map fst d)" id] by simp

definition empty_cache :: "'v cache_state" where
  "empty_cache = \<lparr>ca_store = (\<lambda>_. None), ca_tagMap = [], ca_metrics = \<lparr>cm_hits = 0, cm_misses = 0, cm_errors = 0, cm_totalRequests = 0\<rparr>\<rparr>"

theorem dashboard_computed_once_per_window_witness:
  "computed_at (snapshots (\<lambda>v. v \<noteq> 0) (\<lambda>t. 2 * t + 1) [0, 4999, 5000] empty_cache) = [0, 5000]
   \<and> sorted_wrt (\<lambda>a b. a + 5000 \<le> b) (computed_at (snapshots (\<lambda>v. v \<noteq> 0) (\<lambda>t. 2 * t + 1) [0, 4999, 5000] empty_cache))"
proof
  show "sorted_wrt (\<lambda>a b. a + 5000 \<le> b) (computed_at (snapshots (\<lambda>v. v \<noteq> 0) (\<lambda>t. 2 * t + 1) [0, 4999, 5000] empty_cache))"
    by (rule dashboard_computed_once_per_window [THEN conjunct1]) (simp, presburger, simp add: empty_cache_def)
  show "computed_at (snapshots (\<lambda>v. v \<noteq> 0) (\<lambda>t. 2 * t + 1) [0, 4999, 5000] empty_cache) = [0, 5000]"
    by (simp add: getSnapshot_def getOrSet_def cacheService_get_def manager_get_def cacheService_set_def recordHit_def recordMiss_def
        DASHBOARD_SNAPSHOT_TTL_SECONDS_def empty_cache_def Let_def)
qed

end
