(* ===== verification/Sms.thy ===== *)
theory Sms
  imports Cache Sliding_Window
begin

text \<open>
  Text messages: \<open>SmsService\<close> and the providers' results of \<open>src/notifications/sms.service.ts\<close>.

  The state is the set of numbers that opted out and the times of the messages to a number, in memory, the cache of theory
  \<open>Cache\<close> and the messages the provider was given.  The provider is an argument; \<open>MockSmsProvider\<close>, which the factory
  falls back to, accepts everything.  A cache service is injected where one is provided, which the global cache module of the
  program does.
\<close>

subsection \<open>State\<close>

record sms_result =
  sr_success :: bool
  sr_error :: "string option"

type_synonym sms_provider = "string \<Rightarrow> string \<Rightarrow> time \<Rightarrow> sms_result"

definition MockSmsProvider :: sms_provider where
  "MockSmsProvider number message now = \<lparr>sr_success = True, sr_error = None\<rparr>"

text \<open>\<open>SMS_PROVIDER\<close>, in lower case.\<close>

definition SmsProviderFactory :: "(string \<Rightarrow> string option) \<Rightarrow> sms_provider \<Rightarrow> sms_provider \<Rightarrow> sms_provider \<Rightarrow> sms_provider" where
  "SmsProviderFactory config twilio aws mock =
     (let providerName = js_lower (case config ''SMS_PROVIDER'' of None \<Rightarrow> ''mock'' | Some s \<Rightarrow> s)
      in if providerName = ''twilio'' then twilio else if providerName = ''aws'' then aws else mock)"

datatype sms_cached = CachedFlag bool | CachedCount int

fun sms_truthy :: "sms_cached \<Rightarrow> bool" where
  "sms_truthy (CachedFlag b) = b"
| "sms_truthy (CachedCount n) = (n \<noteq> 0)"

record sms_state =
  sm_optedOut :: "string list"
  sm_rateLimitMap :: "string \<Rightarrow> int list"
  sm_cache :: "sms_cached cache_state"
  sm_given :: "(string \<times> string) list"

definition maxPerMinute :: int where "maxPerMinute = 10"
definition sms_window :: int where "sms_window = 60 * 1000"

subsection \<open>Numbers\<close>

definition normalizePhone :: "string \<Rightarrow> string" where
  "normalizePhone phone = filter (\<lambda>c. \<not> (js_space c \<or> c = CHR ''-'' \<or> c = CHR ''('' \<or> c = CHR '')'')) phone"

definition validatePhoneNumber :: "string \<Rightarrow> bool" where
  "validatePhoneNumber phone =
     (if phone = [] \<or> length phone < 7 \<or> 15 < length phone then False
      else (let cleaned = filter (\<lambda>c. \<not> (js_space c \<or> c = CHR ''-'' \<or> c = CHR ''('' \<or> c = CHR '')'' \<or> c = CHR ''.'')) phone;
                digits = (case cleaned of [] \<Rightarrow> [] | c # r \<Rightarrow> if c = CHR ''+'' then r else cleaned)
            in 7 \<le> length digits \<and> length digits \<le> 15 \<and> list_all is_digit digits))"

subsection \<open>Opting out\<close>

definition optout_key :: "string \<Rightarrow> string" where "optout_key phone = ''sms:optout:'' @ phone"
definition ratelimit_key :: "string \<Rightarrow> string" where "ratelimit_key phone = ''sms:ratelimit:'' @ phone"

text \<open>\<open>with_cache\<close> says whether there is a cache service and \<open>ok\<close> whether Redis answers it.\<close>

definition handleOptOut :: "bool \<Rightarrow> bool \<Rightarrow> string \<Rightarrow> time \<Rightarrow> sms_state \<Rightarrow> sms_state" where
  "handleOptOut with_cache ok phone now s =
     (let normalized = normalizePhone phone;
          s1 = s\<lparr>sm_optedOut := List.insert normalized (sm_optedOut s)\<rparr>
      in if with_cache
         then s1\<lparr>sm_cache := snd (cacheService_set ok (optout_key normalized) (CachedFlag True) (30 * 24 * 3600) None now (sm_cache s1))\<rparr>
         else s1)"

definition isOptedOut :: "string \<Rightarrow> sms_state \<Rightarrow> bool" where
  "isOptedOut phone s \<longleftrightarrow> normalizePhone phone \<in> set (sm_optedOut s)"

definition isOptedOutAsync :: "bool \<Rightarrow> bool \<Rightarrow> string \<Rightarrow> time \<Rightarrow> sms_state \<Rightarrow> bool \<times> sms_state" where
  "isOptedOutAsync with_cache ok phone now s =
     (let normalized = normalizePhone phone
      in if normalized \<in> set (sm_optedOut s) then (True, s)
         else if with_cache then
           (case cacheService_get sms_truthy ok (optout_key normalized) now (sm_cache s) of
              (cached, c1) \<Rightarrow> (if object_truthy cached then (True, s\<lparr>sm_cache := c1\<rparr>) else (False, s\<lparr>sm_cache := c1\<rparr>)))
         else (False, s))"

subsection \<open>The limit\<close>

definition checkRateLimit_local :: "string \<Rightarrow> time \<Rightarrow> sms_state \<Rightarrow> bool \<times> sms_state" where
  "checkRateLimit_local phone now s =
     (let kept = filter (\<lambda>ts. now - ts < sms_window) (sm_rateLimitMap s phone)
      in (int (length kept) < maxPerMinute, s\<lparr>sm_rateLimitMap := (sm_rateLimitMap s)(phone := kept)\<rparr>))"

definition recordSend :: "string \<Rightarrow> time \<Rightarrow> sms_state \<Rightarrow> sms_state" where
  "recordSend phone now s = s\<lparr>sm_rateLimitMap := (sm_rateLimitMap s)(phone := sm_rateLimitMap s phone @ [now])\<rparr>"

definition cached_count :: "bool \<Rightarrow> string \<Rightarrow> time \<Rightarrow> sms_state \<Rightarrow> int \<times> sms_state" where
  "cached_count ok phone now s =
     (case cacheService_get sms_truthy ok (ratelimit_key phone) now (sm_cache s) of
        (CACHE_SUCCESS (CachedCount n), c1) \<Rightarrow> (n, s\<lparr>sm_cache := c1\<rparr>)
      | (_, c1) \<Rightarrow> (0, s\<lparr>sm_cache := c1\<rparr>))"

definition checkRateLimitAsync :: "bool \<Rightarrow> bool \<Rightarrow> string \<Rightarrow> time \<Rightarrow> sms_state \<Rightarrow> bool \<times> sms_state" where
  "checkRateLimitAsync with_cache ok phone now s =
     (if with_cache then (case cached_count ok phone now s of (count, s1) \<Rightarrow> (count < maxPerMinute, s1))
      else checkRateLimit_local phone now s)"

definition recordSendAsync :: "bool \<Rightarrow> bool \<Rightarrow> string \<Rightarrow> time \<Rightarrow> sms_state \<Rightarrow> sms_state" where
  "recordSendAsync with_cache ok phone now s =
     recordSend phone now
       (if with_cache then
          (case cached_count ok phone now s of
             (count, s1) \<Rightarrow> s1\<lparr>sm_cache := snd (cacheService_set ok (ratelimit_key phone) (CachedCount (count + 1)) 60 None now (sm_cache s1))\<rparr>)
        else s)"

subsection \<open>Sending\<close>

definition sendSms :: "bool \<Rightarrow> bool \<Rightarrow> sms_provider \<Rightarrow> string \<Rightarrow> string \<Rightarrow> time \<Rightarrow> sms_state \<Rightarrow> (sms_result, sms_state) outcome" where
  "sendSms with_cache ok provider number message now s =
     (let normalized = normalizePhone number
      in if \<not> validatePhoneNumber normalized then (Inl (BadRequest (''Invalid phone number: '' @ number)), s)
         else (case isOptedOutAsync with_cache ok normalized now s of
             (True, s1) \<Rightarrow> (Inr \<lparr>sr_success = False, sr_error = Some ''Phone number has opted out of SMS''\<rparr>, s1)
           | (False, s1) \<Rightarrow>
               (case checkRateLimitAsync with_cache ok normalized now s1 of
                  (False, s2) \<Rightarrow> (Inr \<lparr>sr_success = False, sr_error = Some ''Rate limit exceeded (max 10 SMS per minute)''\<rparr>, s2)
                | (True, s2) \<Rightarrow>
                    (let result = provider normalized message now;
                         s3 = s2\<lparr>sm_given := sm_given s2 @ [(normalized, message)]\<rparr>
                     in (Inr result, if sr_success result then recordSendAsync with_cache ok normalized now s3 else s3)))))"

subsection \<open>Properties\<close>

lemma normalize_idem [simp]: "normalizePhone (normalizePhone p) = normalizePhone p"
  by (simp add: normalizePhone_def)

lemma cache_opts_everybody_out: "fst (isOptedOutAsync True ok phone now s) \<and> sm_given (snd (isOptedOutAsync True ok phone now s)) = sm_given s"
  by (simp add: isOptedOutAsync_def Let_def split: prod.split)

text \<open>C37: With the cache service of the program, no text message is ever sent: every valid number counts as opted out,
  whether or not it did and whether or not Redis answers, and nothing reaches the provider.\<close>

theorem cache_stops_every_text_message:
  "sm_given (snd (sendSms True ok provider number message now s)) = sm_given s
   \<and> fst (sendSms True ok provider number message now s)
       = (if validatePhoneNumber (normalizePhone number)
          then Inr \<lparr>sr_success = False, sr_error = Some ''Phone number has opted out of SMS''\<rparr>
          else Inl (BadRequest (''Invalid phone number: '' @ number)))"
proof -
  obtain s1 where "isOptedOutAsync True ok (normalizePhone number) now s = (True, s1)" "sm_given s1 = sm_given s"
    using cache_opts_everybody_out [of ok "normalizePhone number" now s] by (metis prod.collapse)
  then show ?thesis by (simp add: sendSms_def Let_def)
qed

text \<open>Without a cache service: the limiter of one number is a sliding window.\<close>

definition local_limiter :: "string \<Rightarrow> time \<Rightarrow> sms_state \<Rightarrow> bool \<times> sms_state" where
  "local_limiter phone now s =
     (case checkRateLimit_local phone now s of (admitted, s1) \<Rightarrow> (\<not> admitted, if admitted then recordSend phone now s1 else s1))"

lemma recent_by_difference: "(\<lambda>ts. now - ts < sms_window) = (\<lambda>ts. now - sms_window < ts)"
  by (intro ext) auto

lemma local_limiter_simps:
  "fst (local_limiter phone now s) \<longleftrightarrow> maxPerMinute \<le> int (length (recent_times sms_window now (sm_rateLimitMap s phone)))"
  "sm_rateLimitMap (snd (local_limiter phone now s)) phone =
     recent_times sms_window now (sm_rateLimitMap s phone) @ (if fst (local_limiter phone now s) then [] else [now])"
  by (simp_all add: local_limiter_def checkRateLimit_local_def recordSend_def recent_by_difference Let_def not_less)

interpretation texts: sliding_window "local_limiter phone" "\<lambda>s. sm_rateLimitMap s phone" sms_window maxPerMinute
  for phone
proof
  fix now t :: time and s :: sms_state
  show "fst (local_limiter phone now s) \<longleftrightarrow> maxPerMinute \<le> int (length (recent_times sms_window now (sm_rateLimitMap s phone)))"
    by (rule local_limiter_simps(1))
  assume "now \<le> t"
  then have "recent_times sms_window t (recent_times sms_window now ts) = recent_times sms_window t ts" for ts
    by (auto intro: filter_cong)
  then show "recent_times sms_window t (sm_rateLimitMap (snd (local_limiter phone now s)) phone)
      = recent_times sms_window t (sm_rateLimitMap s phone @ (if fst (local_limiter phone now s) then [] else [now]))"
    by (simp add: local_limiter_simps(2))
qed

text \<open>The times of the messages to one number that the provider is given.\<close>

fun texts_given :: "string \<Rightarrow> (time \<times> string) list \<Rightarrow> sms_state \<Rightarrow> time list" where
  "texts_given number [] s = []"
| "texts_given number ((t, message) # xs) s =
     (case sendSms False False MockSmsProvider number message t s of
        (res, s1) \<Rightarrow> (if sm_given s1 \<noteq> sm_given s then [t] else []) @ texts_given number xs s1)"

lemma send_is_limiter:
  assumes "validatePhoneNumber (normalizePhone number)" and "\<not> isOptedOut number s"
    and "sm_rateLimitMap s = sm_rateLimitMap s'"
  shows "case sendSms False False MockSmsProvider number message now s of (res, s1) \<Rightarrow>
    (sm_given s1 \<noteq> sm_given s) = (\<not> fst (local_limiter (normalizePhone number) now s'))
    \<and> sm_rateLimitMap s1 = sm_rateLimitMap (snd (local_limiter (normalizePhone number) now s')) \<and> \<not> isOptedOut number s1"
  using assms
  by (simp add: sendSms_def isOptedOutAsync_def isOptedOut_def checkRateLimitAsync_def checkRateLimit_local_def local_limiter_def
      MockSmsProvider_def recordSendAsync_def recordSend_def Let_def)

lemma texts_given_run:
  "\<lbrakk>validatePhoneNumber (normalizePhone number); \<not> isOptedOut number s; sm_rateLimitMap s = sm_rateLimitMap s'\<rbrakk> \<Longrightarrow>
   texts_given number xs s = map fst (filter (\<lambda>x. \<not> snd x)
     (zip (map fst xs) (fst (run_checks (local_limiter (normalizePhone number)) (map fst xs) s'))))"
proof (induction xs arbitrary: s s')
  case (Cons x xs)
  obtain t message where x: "x = (t, message)" by fastforce
  obtain res s1 where send: "sendSms False False MockSmsProvider number message t s = (res, s1)" by fastforce
  note step = send_is_limiter [where message = message and now = t, OF Cons.prems, unfolded send prod.case]
  show ?case
    using Cons.IH [OF Cons.prems(1), of s1 "snd (local_limiter (normalizePhone number) t s')"] step
    by (simp add: x send case_prod_beta Let_def)
qed simp


text \<open>The number that opted out is the spelling that was sent: full stops are accepted in a number and never removed, so that the
  same number without them is still written to.\<close>

theorem opt_out_depends_on_spelling:
  assumes "CHR ''.'' \<in> set number" and "validatePhoneNumber (normalizePhone (filter (\<lambda>c. c \<noteq> CHR ''.'') number))"
    and "\<not> isOptedOut (filter (\<lambda>c. c \<noteq> CHR ''.'') number) s"
  shows "isOptedOut number (handleOptOut with_cache ok number now s)
    \<and> \<not> isOptedOut (filter (\<lambda>c. c \<noteq> CHR ''.'') number) (handleOptOut with_cache ok number now s)"
proof -
  have "CHR ''.'' \<in> set (normalizePhone number)" using assms(1) by (simp add: normalizePhone_def js_space_def)
  moreover have "CHR ''.'' \<notin> set (normalizePhone (filter (\<lambda>c. c \<noteq> CHR ''.'') number))" by (simp add: normalizePhone_def)
  ultimately have "normalizePhone (filter (\<lambda>c. c \<noteq> CHR ''.'') number) \<noteq> normalizePhone number" by metis
  then show ?thesis using assms(3) by (simp add: isOptedOut_def handleOptOut_def Let_def)
qed

definition no_texts :: sms_state where
  "no_texts = \<lparr>sm_optedOut = [], sm_rateLimitMap = (\<lambda>_. []), sm_cache = \<lparr>ca_store = (\<lambda>_. None), ca_tagMap = [],
     ca_metrics = \<lparr>cm_hits = 0, cm_misses = 0, cm_errors = 0, cm_totalRequests = 0\<rparr>\<rparr>, sm_given = []\<rparr>"

lemma example_number: "validatePhoneNumber (normalizePhone ''+47 22 33 44 55'')"
  by code_simp


theorem opt_out_depends_on_spelling_witness:
  "\<not> isOptedOut ''5551234567'' (handleOptOut True True ''555.123.4567'' 0 no_texts)"
proof -
  have "validatePhoneNumber (normalizePhone (filter (\<lambda>c. c \<noteq> CHR ''.'') ''555.123.4567''))" by code_simp
  from opt_out_depends_on_spelling [OF _ this, of no_texts True True 0] show ?thesis
    by (simp add: no_texts_def isOptedOut_def)
qed

end
