(* ===== verification/Preferences.thy ===== *)
theory Preferences
  imports Support_Tickets
begin

text \<open>
  Preferences of users and the decision whether a notification may be delivered: \<open>src/users/user-preferences.service.ts\<close>,
  its controller and \<open>src/users/dto/user-preferences.dto.ts\<close>.

  The table of preferences is keyed by user.  \<open>clock tz now\<close> is the time of day in a zone, as \<open>Intl.DateTimeFormat\<close> formats it
  for \<open>en-GB\<close>, \<open>None\<close> for a zone it does not know, for which it throws.  In the requests a field that is absent is \<open>None\<close>; the
  hours of quiet may also be sent as \<open>null\<close>.
\<close>

subsection \<open>State\<close>

datatype json =
    JNull | JBool bool | JNumber int | JText string | JArray "json list" | JObject "(string \<times> json) list"

record preferences =
  pf_userId :: string
  pf_language :: string
  pf_currency :: string
  pf_timezone :: string
  pf_emailNotifications :: bool
  pf_smsNotifications :: bool
  pf_inAppNotifications :: bool
  pf_pushNotifications :: bool
  pf_propertyAlerts :: bool
  pf_marketUpdates :: bool
  pf_theme :: string
  pf_notificationFrequency :: string
  pf_notificationEventTypes :: "string list"
  pf_quietHoursEnabled :: bool
  pf_quietHoursStart :: "string option"
  pf_quietHoursEnd :: "string option"
  pf_perEventSettings :: "json option"
  pf_optOutReminders :: bool
  pf_searchAnalyticsOptOut :: bool

definition default_preferences :: "string \<Rightarrow> preferences" where
  "default_preferences userId =
     \<lparr>pf_userId = userId, pf_language = ''en'', pf_currency = ''USD'', pf_timezone = ''UTC'', pf_emailNotifications = True,
      pf_smsNotifications = False, pf_inAppNotifications = True, pf_pushNotifications = False, pf_propertyAlerts = True,
      pf_marketUpdates = True, pf_theme = ''light'', pf_notificationFrequency = ''INSTANT'', pf_notificationEventTypes = [],
      pf_quietHoursEnabled = False, pf_quietHoursStart = None, pf_quietHoursEnd = None, pf_perEventSettings = None,
      pf_optOutReminders = False, pf_searchAnalyticsOptOut = False\<rparr>"

record preferences_dto =
  pd_language :: "string option"
  pd_currency :: "string option"
  pd_timezone :: "string option"
  pd_emailNotifications :: "bool option"
  pd_smsNotifications :: "bool option"
  pd_pushNotifications :: "bool option"
  pd_inAppNotifications :: "bool option"
  pd_propertyAlerts :: "bool option"
  pd_marketUpdates :: "bool option"
  pd_searchAnalyticsOptOut :: "bool option"
  pd_perEventSettings :: "json option"
  pd_theme :: "string option"

record notification_preferences_dto =
  np_emailNotifications :: "bool option"
  np_smsNotifications :: "bool option"
  np_pushNotifications :: "bool option"
  np_inAppNotifications :: "bool option"
  np_notificationFrequency :: "string option"
  np_notificationEventTypes :: "string list option"
  np_quietHoursEnabled :: "bool option"
  np_quietHoursStart :: "string option option"
  np_quietHoursEnd :: "string option option"
  np_perEventSettings :: "json option"

definition keep_or :: "'a option \<Rightarrow> 'a \<Rightarrow> 'a" where
  "keep_or v old = (case v of None \<Rightarrow> old | Some x \<Rightarrow> x)"

definition apply_preferences :: "preferences_dto \<Rightarrow> preferences \<Rightarrow> preferences" where
  "apply_preferences d p =
     p\<lparr>pf_language := keep_or (pd_language d) (pf_language p), pf_currency := keep_or (pd_currency d) (pf_currency p),
       pf_timezone := keep_or (pd_timezone d) (pf_timezone p),
       pf_emailNotifications := keep_or (pd_emailNotifications d) (pf_emailNotifications p),
       pf_smsNotifications := keep_or (pd_smsNotifications d) (pf_smsNotifications p),
       pf_pushNotifications := keep_or (pd_pushNotifications d) (pf_pushNotifications p),
       pf_inAppNotifications := keep_or (pd_inAppNotifications d) (pf_inAppNotifications p),
       pf_propertyAlerts := keep_or (pd_propertyAlerts d) (pf_propertyAlerts p),
       pf_marketUpdates := keep_or (pd_marketUpdates d) (pf_marketUpdates p),
       pf_searchAnalyticsOptOut := keep_or (pd_searchAnalyticsOptOut d) (pf_searchAnalyticsOptOut p),
       pf_perEventSettings := (case pd_perEventSettings d of None \<Rightarrow> pf_perEventSettings p | Some j \<Rightarrow> Some j),
       pf_theme := keep_or (pd_theme d) (pf_theme p)\<rparr>"

definition no_changes :: preferences_dto where
  "no_changes = \<lparr>pd_language = None, pd_currency = None, pd_timezone = None, pd_emailNotifications = None,
     pd_smsNotifications = None, pd_pushNotifications = None, pd_inAppNotifications = None, pd_propertyAlerts = None,
     pd_marketUpdates = None, pd_searchAnalyticsOptOut = None, pd_perEventSettings = None, pd_theme = None\<rparr>"

subsection \<open>The service\<close>

text \<open>A query for one row whose key is \<open>undefined\<close> is refused by the database client.\<close>

definition record_not_found :: http_error where
  "record_not_found = NotFound ''Record not found''"

definition preferences_update :: "string option \<Rightarrow> preferences_dto \<Rightarrow> preferences list \<Rightarrow> (preferences, preferences list) outcome" where
  "preferences_update userId d t =
     (case userId of None \<Rightarrow> (Inl missing_argument, t)
      | Some u \<Rightarrow> (case tbl_find pf_userId u t of
            None \<Rightarrow> (Inl record_not_found, t)
          | Some p \<Rightarrow> (Inr (apply_preferences d p), tbl_update pf_userId u (apply_preferences d) t)))"

definition preferences_create ::
  "(string \<Rightarrow> bool) \<Rightarrow> string option \<Rightarrow> preferences_dto \<Rightarrow> preferences list \<Rightarrow> (preferences, preferences list) outcome" where
  "preferences_create user_exists userId d t =
     (case userId of None \<Rightarrow> (Inl missing_argument, t)
      | Some u \<Rightarrow>
          if tbl_find pf_userId u t \<noteq> None then preferences_update userId d t
          else if \<not> user_exists u then (Inl foreign_key_error, t)
          else (let p = apply_preferences d (default_preferences u) in (Inr p, tbl_create p t)))"

definition findByUserId ::
  "(string \<Rightarrow> bool) \<Rightarrow> string option \<Rightarrow> preferences list \<Rightarrow> (preferences, preferences list) outcome" where
  "findByUserId user_exists userId t =
     (case userId of None \<Rightarrow> (Inl missing_argument, t)
      | Some u \<Rightarrow> (case tbl_find pf_userId u t of
            None \<Rightarrow> preferences_create user_exists userId no_changes t
          | Some p \<Rightarrow> (Inr p, t)))"

definition preferences_remove :: "string option \<Rightarrow> preferences list \<Rightarrow> (preferences, preferences list) outcome" where
  "preferences_remove userId t =
     (case userId of None \<Rightarrow> (Inl missing_argument, t)
      | Some u \<Rightarrow> (case tbl_find pf_userId u t of
            None \<Rightarrow> (Inl record_not_found, t)
          | Some p \<Rightarrow> (Inr p, tbl_delete_many (\<lambda>p. pf_userId p = u) t)))"

text \<open>What the two operations on notifications answer: the fields that concern notifications.\<close>

record notification_view =
  nv_channels :: "(string \<times> bool) list"
  nv_frequency :: string
  nv_eventTypes :: "string list"
  nv_quietHours :: "bool \<times> string option \<times> string option"
  nv_perEventSettings :: json

definition to_notification_view :: "preferences \<Rightarrow> notification_view" where
  "to_notification_view p =
     \<lparr>nv_channels = [(''email'', pf_emailNotifications p), (''sms'', pf_smsNotifications p), (''push'', pf_pushNotifications p),
        (''inApp'', pf_inAppNotifications p)],
      nv_frequency = pf_notificationFrequency p, nv_eventTypes = pf_notificationEventTypes p,
      nv_quietHours = (pf_quietHoursEnabled p, pf_quietHoursStart p, pf_quietHoursEnd p),
      nv_perEventSettings = keep_or (pf_perEventSettings p) (JObject [])\<rparr>"

definition getNotificationPreferences ::
  "(string \<Rightarrow> bool) \<Rightarrow> string option \<Rightarrow> preferences list \<Rightarrow> (notification_view, preferences list) outcome" where
  "getNotificationPreferences user_exists userId t = apfst (map_sum id to_notification_view) (findByUserId user_exists userId t)"

definition apply_notification_preferences :: "notification_preferences_dto \<Rightarrow> preferences \<Rightarrow> preferences" where
  "apply_notification_preferences d p =
     p\<lparr>pf_emailNotifications := keep_or (np_emailNotifications d) (pf_emailNotifications p),
       pf_smsNotifications := keep_or (np_smsNotifications d) (pf_smsNotifications p),
       pf_pushNotifications := keep_or (np_pushNotifications d) (pf_pushNotifications p),
       pf_inAppNotifications := keep_or (np_inAppNotifications d) (pf_inAppNotifications p),
       pf_notificationFrequency := keep_or (np_notificationFrequency d) (pf_notificationFrequency p),
       pf_notificationEventTypes := keep_or (np_notificationEventTypes d) (pf_notificationEventTypes p),
       pf_quietHoursEnabled := keep_or (np_quietHoursEnabled d) (pf_quietHoursEnabled p),
       pf_quietHoursStart := keep_or (np_quietHoursStart d) (pf_quietHoursStart p),
       pf_quietHoursEnd := keep_or (np_quietHoursEnd d) (pf_quietHoursEnd p),
       pf_perEventSettings := (case np_perEventSettings d of None \<Rightarrow> pf_perEventSettings p | Some j \<Rightarrow> Some j)\<rparr>"

definition updateNotificationPreferences ::
  "(string \<Rightarrow> bool) \<Rightarrow> string option \<Rightarrow> notification_preferences_dto \<Rightarrow> preferences list \<Rightarrow>
   (notification_view, preferences list) outcome" where
  "updateNotificationPreferences user_exists userId d t =
     (case findByUserId user_exists userId t of
        (Inl e, t1) \<Rightarrow> (Inl e, t1)
      | (Inr p, t1) \<Rightarrow> (Inr (to_notification_view (apply_notification_preferences d p)),
          tbl_update pf_userId (pf_userId p) (apply_notification_preferences d) t1))"

subsection \<open>Quiet hours\<close>

text \<open>\<open>TIME_REGEX\<close> of the request, \<open>/^([01]\d|2[0-3]):[0-5]\d$/\<close>.\<close>

definition TIME_REGEX :: "string \<Rightarrow> bool" where
  "TIME_REGEX s \<longleftrightarrow> (case s of
     [a, b, c, d, e] \<Rightarrow> (a \<in> {CHR ''0'', CHR ''1''} \<and> is_digit b \<or> a = CHR ''2'' \<and> b \<in> {CHR ''0'', CHR ''1'', CHR ''2'', CHR ''3''})
       \<and> c = CHR '':'' \<and> d \<in> {CHR ''0'', CHR ''1'', CHR ''2'', CHR ''3'', CHR ''4'', CHR ''5''} \<and> is_digit e
   | _ \<Rightarrow> False)"

text \<open>\<open>Number\<close> of the two parts; \<open>None\<close> is NaN, with which no comparison holds.\<close>

definition timeToMinutes :: "string \<Rightarrow> int option" where
  "timeToMinutes t =
     (case map js_number_integer (js_split (CHR '':'') t) of
        Some h # Some m # _ \<Rightarrow> Some (h * 60 + m)
      | _ \<Rightarrow> None)"

definition num_le :: "int option \<Rightarrow> int option \<Rightarrow> bool" where
  "num_le a b = (case (a, b) of (Some x, Some y) \<Rightarrow> x \<le> y | _ \<Rightarrow> False)"

definition num_less :: "int option \<Rightarrow> int option \<Rightarrow> bool" where
  "num_less a b = (case (a, b) of (Some x, Some y) \<Rightarrow> x < y | _ \<Rightarrow> False)"

definition isInQuietWindow :: "string \<Rightarrow> string \<Rightarrow> string \<Rightarrow> bool" where
  "isInQuietWindow current start finish =
     (let c = timeToMinutes current; s = timeToMinutes start; e = timeToMinutes finish
      in if num_le s e then num_le s c \<and> num_less c e
         else num_le s c \<or> num_less c e)"

subsection \<open>The decision\<close>

datatype channel = Channel_email | Channel_sms | Channel_push | Channel_inApp

fun channel_name :: "channel \<Rightarrow> string" where
  "channel_name Channel_email = ''email''"
| "channel_name Channel_sms = ''sms''"
| "channel_name Channel_push = ''push''"
| "channel_name Channel_inApp = ''inApp''"

fun channel_enabled :: "channel \<Rightarrow> preferences \<Rightarrow> bool" where
  "channel_enabled Channel_email p = pf_emailNotifications p"
| "channel_enabled Channel_sms p = pf_smsNotifications p"
| "channel_enabled Channel_push p = pf_pushNotifications p"
| "channel_enabled Channel_inApp p = pf_inAppNotifications p"

text \<open>A field of a value that is an object and no array.\<close>

fun json_field :: "json \<Rightarrow> string \<Rightarrow> json option" where
  "json_field (JObject kvs) k = map_of kvs k"
| "json_field _ k = None"

definition event_override :: "preferences \<Rightarrow> string \<Rightarrow> channel \<Rightarrow> bool" where
  "event_override p eventType ch \<longleftrightarrow>
     (case json_field (keep_or (pf_perEventSettings p) (JObject [])) eventType of
        None \<Rightarrow> False
      | Some override \<Rightarrow> json_field override (channel_name ch) = Some (JBool False))"

definition shouldDeliverNotificationFromPrefs ::
  "(string \<Rightarrow> time \<Rightarrow> string option) \<Rightarrow> time \<Rightarrow> preferences \<Rightarrow> string \<Rightarrow> channel \<Rightarrow> bool result" where
  "shouldDeliverNotificationFromPrefs clock now p eventType ch =
     (if \<not> channel_enabled ch p then Inr False
      else if event_override p eventType ch then Inr False
      else if 0 < length (pf_notificationEventTypes p) \<and> eventType \<notin> set (pf_notificationEventTypes p) then Inr False
      else (case (pf_quietHoursEnabled p, pf_quietHoursStart p, pf_quietHoursEnd p) of
          (True, Some start, Some finish) \<Rightarrow>
            if start = [] \<or> finish = [] then Inr True
            else (case clock (pf_timezone p) now of
                None \<Rightarrow> Inl (InternalError ''Invalid time zone specified'')
              | Some currentTime \<Rightarrow> Inr (\<not> isInQuietWindow currentTime start finish))
        | _ \<Rightarrow> Inr True))"

definition shouldDeliverNotification ::
  "(string \<Rightarrow> bool) \<Rightarrow> (string \<Rightarrow> time \<Rightarrow> string option) \<Rightarrow> time \<Rightarrow> string \<Rightarrow> string \<Rightarrow> channel \<Rightarrow> preferences list \<Rightarrow>
   (bool, preferences list) outcome" where
  "shouldDeliverNotification user_exists clock now userId eventType ch t =
     (case findByUserId user_exists (Some userId) t of
        (Inl e, t1) \<Rightarrow> (Inl e, t1)
      | (Inr p, t1) \<Rightarrow> (shouldDeliverNotificationFromPrefs clock now p eventType ch, t1))"

subsection \<open>The controller\<close>

text \<open>The handlers pass \<open>user.id\<close>, which the identity of a request does not have.\<close>

datatype preferences_request =
    GetPreferences | PostPreferences preferences_dto | PutPreferences preferences_dto | DeletePreferences
  | GetNotificationPreferences | PatchNotificationPreferences notification_preferences_dto

fun preferences_endpoint ::
  "(string \<Rightarrow> bool) \<Rightarrow> access_identity \<Rightarrow> preferences_request \<Rightarrow> preferences list \<Rightarrow>
   (preferences + notification_view, preferences list) outcome" where
  "preferences_endpoint user_exists user GetPreferences t = apfst (map_sum id Inl) (findByUserId user_exists (caller_id user) t)"
| "preferences_endpoint user_exists user (PostPreferences d) t =
     apfst (map_sum id Inl) (preferences_create user_exists (caller_id user) d t)"
| "preferences_endpoint user_exists user (PutPreferences d) t = apfst (map_sum id Inl) (preferences_update (caller_id user) d t)"
| "preferences_endpoint user_exists user DeletePreferences t = apfst (map_sum id Inl) (preferences_remove (caller_id user) t)"
| "preferences_endpoint user_exists user GetNotificationPreferences t =
     apfst (map_sum id Inr) (getNotificationPreferences user_exists (caller_id user) t)"
| "preferences_endpoint user_exists user (PatchNotificationPreferences d) t =
     apfst (map_sum id Inr) (updateNotificationPreferences user_exists (caller_id user) d t)"

end
