(* ===== verification/Notifications.thy ===== *)
theory Notifications
  imports Preferences Ws_Gateway Sms
begin

text \<open>
  Notifications inside the application: \<open>src/notifications/notifications.service.ts\<close> and the endpoints of
  \<open>notifications.controller.ts\<close>.

  The state is the table of notifications, the sockets of theory \<open>Ws_Gateway\<close>, the text messages of theory \<open>Sms\<close> and the
  mails about transactions, as pairs of an address and a status.  Sending waits for Redis between writing a row and marking it as
  delivered; the two halves are separate operations, so that other requests can come between them.  A user id that is
  \<open>undefined\<close> is \<open>None\<close>: the database client leaves a condition out whose value is \<open>undefined\<close>.
\<close>

subsection \<open>State\<close>

datatype notification_status = NS_PENDING | NS_DELIVERED | NS_READ

record app_notification =
  an_id :: string
  an_userId :: string
  an_title :: string
  an_message :: string
  an_type :: string
  an_status :: notification_status
  an_metadata :: "json option"
  an_createdAt :: time
  an_readAt :: "time option"
  an_scheduledAt :: "time option"
  an_isRecurring :: bool
  an_cron :: "string option"
  an_timezone :: string

record notify_state =
  nf_rows :: "app_notification list"
  nf_ws :: ws_state
  nf_sms :: sms_state
  nf_mails :: "(string \<times> string) list"

definition find_notification :: "string \<Rightarrow> notify_state \<Rightarrow> app_notification option" where
  "find_notification i s = tbl_find an_id i (nf_rows s)"

definition update_notification :: "string \<Rightarrow> (app_notification \<Rightarrow> app_notification) \<Rightarrow> notify_state \<Rightarrow> notify_state" where
  "update_notification i f s = s\<lparr>nf_rows := tbl_update an_id i f (nf_rows s)\<rparr>"

definition of_user :: "string option \<Rightarrow> app_notification \<Rightarrow> bool" where
  "of_user userId n \<longleftrightarrow> (case userId of None \<Rightarrow> True | Some u \<Rightarrow> an_userId n = u)"

definition not_found_or_unauthorized :: http_error where
  "not_found_or_unauthorized = InternalError ''Notification not found or unauthorized''"

interpretation notifications: keyed_table an_id "tbl_find an_id" "tbl_update an_id" tbl_create
  by (rule keyed_table_tbl)

subsection \<open>Sending\<close>

definition new_notification :: "string \<Rightarrow> string \<Rightarrow> string \<Rightarrow> string \<Rightarrow> string \<Rightarrow> json \<Rightarrow> time \<Rightarrow> app_notification" where
  "new_notification newId userId title message ty metadata now =
     \<lparr>an_id = newId, an_userId = userId, an_title = title, an_message = message, an_type = ty, an_status = NS_PENDING,
      an_metadata = Some metadata, an_createdAt = now, an_readAt = None, an_scheduledAt = None, an_isRecurring = False,
      an_cron = None, an_timezone = ''UTC''\<rparr>"

text \<open>The first half: the row and the message to the sockets; whether it counts as delivered is the second component.\<close>

definition send_begin ::
  "bool \<Rightarrow> (string \<Rightarrow> bool) \<Rightarrow> string \<Rightarrow> string \<Rightarrow> string \<Rightarrow> string \<Rightarrow> string \<Rightarrow> json option \<Rightarrow> time \<Rightarrow> notify_state \<Rightarrow>
   (app_notification \<times> bool, notify_state) outcome" where
  "send_begin redis_ok user_exists newId userId title message ty metadata now s =
     (if \<not> user_exists userId then (Inl foreign_key_error, s)
      else (let row = new_notification newId userId title message ty (keep_or metadata (JObject [])) now;
                (delivered, w) = sendToUser redis_ok userId ''notification'' now (nf_ws s)
            in (Inr (row, delivered), s\<lparr>nf_rows := tbl_create row (nf_rows s), nf_ws := w\<rparr>)))"

definition mark_delivered :: "string list \<Rightarrow> notify_state \<Rightarrow> notify_state" where
  "mark_delivered ids s =
     s\<lparr>nf_rows := tbl_update_many (\<lambda>n. an_id n \<in> set ids) (\<lambda>n. n\<lparr>an_status := NS_DELIVERED\<rparr>) (nf_rows s)\<rparr>"

definition send_finish :: "string \<Rightarrow> notify_state \<Rightarrow> (unit, notify_state) outcome" where
  "send_finish i s =
     (if find_notification i s = None then (Inl record_not_found, s)
      else (Inr (), update_notification i (\<lambda>n. n\<lparr>an_status := NS_DELIVERED\<rparr>) s))"

definition sendNotification ::
  "bool \<Rightarrow> (string \<Rightarrow> bool) \<Rightarrow> string \<Rightarrow> string \<Rightarrow> string \<Rightarrow> string \<Rightarrow> string \<Rightarrow> json option \<Rightarrow> time \<Rightarrow> notify_state \<Rightarrow>
   (app_notification, notify_state) outcome" where
  "sendNotification redis_ok user_exists newId userId title message ty metadata now s =
     (case send_begin redis_ok user_exists newId userId title message ty metadata now s of
        (Inl e, s1) \<Rightarrow> (Inl e, s1)
      | (Inr (row, delivered), s1) \<Rightarrow>
          if delivered then (case send_finish newId s1 of (Inl e, s2) \<Rightarrow> (Inl e, s2) | (Inr _, s2) \<Rightarrow> (Inr row, s2))
          else (Inr row, s1))"

subsection \<open>Reading\<close>

definition getUserNotifications :: "string option \<Rightarrow> notify_state \<Rightarrow> app_notification list" where
  "getUserNotifications userId s = take 50 (tbl_desc an_createdAt (filter (of_user userId) (nf_rows s)))"

definition notification_markAsRead :: "string \<Rightarrow> string option \<Rightarrow> time \<Rightarrow> notify_state \<Rightarrow> (app_notification, notify_state) outcome" where
  "notification_markAsRead i userId now s =
     (case find_notification i s of
        None \<Rightarrow> (Inl not_found_or_unauthorized, s)
      | Some n \<Rightarrow>
          if Some (an_userId n) \<noteq> userId then (Inl not_found_or_unauthorized, s)
          else (let f = (\<lambda>n. n\<lparr>an_status := NS_READ, an_readAt := Some now\<rparr>) in (Inr (f n), update_notification i f s)))"

definition unread_of :: "string option \<Rightarrow> app_notification \<Rightarrow> bool" where
  "unread_of userId n \<longleftrightarrow> of_user userId n \<and> an_status n \<noteq> NS_READ"

definition markAllAsRead :: "string option \<Rightarrow> time \<Rightarrow> notify_state \<Rightarrow> nat \<times> notify_state" where
  "markAllAsRead userId now s =
     (tbl_count (unread_of userId) (nf_rows s),
      s\<lparr>nf_rows := tbl_update_many (unread_of userId) (\<lambda>n. n\<lparr>an_status := NS_READ, an_readAt := Some now\<rparr>) (nf_rows s)\<rparr>)"

definition getUnreadCount :: "string option \<Rightarrow> notify_state \<Rightarrow> nat" where
  "getUnreadCount userId s = tbl_count (unread_of userId) (nf_rows s)"

definition deleteNotification :: "string \<Rightarrow> string option \<Rightarrow> notify_state \<Rightarrow> (app_notification, notify_state) outcome" where
  "deleteNotification i userId s =
     (case find_notification i s of
        None \<Rightarrow> (Inl not_found_or_unauthorized, s)
      | Some n \<Rightarrow>
          if Some (an_userId n) \<noteq> userId then (Inl not_found_or_unauthorized, s)
          else (Inr n, s\<lparr>nf_rows := tbl_delete_many (\<lambda>n. an_id n = i) (nf_rows s)\<rparr>))"

subsection \<open>Pending and scheduled notifications\<close>

text \<open>\<open>deliverPending\<close>: the query and the messages, with the ids that count as delivered; then the batch update, which is not made
  for no ids.\<close>

fun deliver_loop :: "bool \<Rightarrow> string \<Rightarrow> time \<Rightarrow> app_notification list \<Rightarrow> ws_state \<Rightarrow> string list \<times> ws_state" where
  "deliver_loop redis_ok userId now [] w = ([], w)"
| "deliver_loop redis_ok userId now (n # ns) w =
     (let (delivered, w1) = sendToUser redis_ok userId ''notification'' now w;
          (ids, w2) = deliver_loop redis_ok userId now ns w1
      in (if delivered then an_id n # ids else ids, w2))"

definition deliver_begin :: "bool \<Rightarrow> string \<Rightarrow> time \<Rightarrow> notify_state \<Rightarrow> string list \<times> notify_state" where
  "deliver_begin redis_ok userId now s =
     (let pending = filter (\<lambda>n. an_userId n = userId \<and> an_status n = NS_PENDING) (nf_rows s);
          (ids, w) = deliver_loop redis_ok userId now pending (nf_ws s)
      in (ids, s\<lparr>nf_ws := w\<rparr>))"

definition deliverPending :: "bool \<Rightarrow> string \<Rightarrow> time \<Rightarrow> notify_state \<Rightarrow> notify_state" where
  "deliverPending redis_ok userId now s =
     (case deliver_begin redis_ok userId now s of (ids, s1) \<Rightarrow> if 0 < length ids then mark_delivered ids s1 else s1)"

record schedule_data =
  sd_scheduledAt :: time
  sd_isRecurring :: "bool option"
  sd_cron :: "string option"
  sd_timezone :: "string option"

definition scheduleNotification ::
  "(string \<Rightarrow> bool) \<Rightarrow> string \<Rightarrow> string \<Rightarrow> string \<Rightarrow> string \<Rightarrow> string \<Rightarrow> schedule_data \<Rightarrow> time \<Rightarrow> notify_state \<Rightarrow>
   (app_notification, notify_state) outcome" where
  "scheduleNotification user_exists newId userId title message ty d now s =
     (if \<not> user_exists userId then (Inl foreign_key_error, s)
      else (let row = (new_notification newId userId title message ty JNull now)
                  \<lparr>an_metadata := None, an_scheduledAt := Some (sd_scheduledAt d), an_isRecurring := keep_or (sd_isRecurring d) False,
                   an_cron := sd_cron d, an_timezone := keep_or (sd_timezone d) ''UTC''\<rparr>
            in (Inr row, s\<lparr>nf_rows := tbl_create row (nf_rows s)\<rparr>)))"

definition cancelScheduledNotification :: "string \<Rightarrow> notify_state \<Rightarrow> nat \<times> notify_state" where
  "cancelScheduledNotification i s =
     (let scheduled = (\<lambda>n. an_id n = i \<and> an_status n = NS_PENDING \<and> an_scheduledAt n \<noteq> None)
      in (tbl_count scheduled (nf_rows s), s\<lparr>nf_rows := tbl_delete_many scheduled (nf_rows s)\<rparr>))"

subsection \<open>Transactions\<close>

text \<open>A party with its preferences, where it has some, and \<open>transaction.status\<close> with the title of the property.  \<open>newId\<close> is the
  id of the notification that would be written.\<close>

record notified_party =
  py_userId :: string
  py_email :: string
  py_phone :: "string option"
  py_preferences :: "preferences option"

record notify_env =
  ne_redis_ok :: bool
  ne_user_exists :: "string \<Rightarrow> bool"
  ne_clock :: "string \<Rightarrow> time \<Rightarrow> string option"
  ne_with_cache :: bool
  ne_provider :: sms_provider

definition NOTIFICATION_PREFERENCES_DEFAULTS :: preferences where
  "NOTIFICATION_PREFERENCES_DEFAULTS = default_preferences []"

definition transaction_title :: "string \<Rightarrow> string" where
  "transaction_title status = ''Transaction '' @ status"

definition transaction_message :: "string \<Rightarrow> string \<Rightarrow> string" where
  "transaction_message property status =
     ''Your transaction for property '' @ [CHR 0x22] @ property @ [CHR 0x22] @ '' has been updated to '' @ status @ ''.''"

definition notify_party ::
  "notify_env \<Rightarrow> string \<Rightarrow> string \<Rightarrow> string \<Rightarrow> string \<Rightarrow> time \<Rightarrow> notified_party \<Rightarrow> notify_state \<Rightarrow> (unit, notify_state) outcome" where
  "notify_party E newId txId status property now q s =
     (let prefs = keep_or (py_preferences q) NOTIFICATION_PREFERENCES_DEFAULTS;
          decide = shouldDeliverNotificationFromPrefs (ne_clock E) now prefs ''TRANSACTION_UPDATE'';
          message = transaction_message property status
      in case (decide Channel_inApp, decide Channel_email, decide Channel_sms) of
           (Inr canInApp, Inr canEmail, Inr canSms) \<Rightarrow>
             (let (r1, s1) = (if canInApp
                    then apfst (map_sum id (\<lambda>_. ())) (sendNotification (ne_redis_ok E) (ne_user_exists E) newId (py_userId q)
                      (transaction_title status) message ''TRANSACTION_UPDATE''
                      (Some (JObject [(''transactionId'', JText txId), (''status'', JText status)])) now s)
                    else (Inr (), s));
                  s2 = (if canEmail then s1\<lparr>nf_mails := nf_mails s1 @ [(py_email q, status)]\<rparr> else s1);
                  phone = (case py_phone q of None \<Rightarrow> [] | Some ph \<Rightarrow> ph);
                  (r3, s3) = (if canSms \<and> phone \<noteq> []
                    then (case sendSms (ne_with_cache E) (ne_redis_ok E) (ne_provider E) phone message now (nf_sms s2) of
                        (res, sms) \<Rightarrow> (map_sum id (\<lambda>_. ()) res, s2\<lparr>nf_sms := sms\<rparr>))
                    else (Inr (), s2))
              in (case r1 of Inl e \<Rightarrow> Inl e | Inr _ \<Rightarrow> r3, s3))
         | (Inl e, _, _) \<Rightarrow> (Inl e, s)
         | (_, Inl e, _) \<Rightarrow> (Inl e, s)
         | (_, _, Inl e) \<Rightarrow> (Inl e, s))"

text \<open>\<open>Promise.all\<close> over the two parties: both are notified, and the call fails when one of them does.\<close>

definition handleTransactionUpdate ::
  "notify_env \<Rightarrow> (string \<times> string) \<Rightarrow> string \<Rightarrow> (string \<times> string \<times> notified_party \<times> notified_party) option \<Rightarrow> time \<Rightarrow>
   notify_state \<Rightarrow> (unit, notify_state) outcome" where
  "handleTransactionUpdate E newIds txId tx now s =
     (case tx of
        None \<Rightarrow> (Inr (), s)
      | Some (status, property, buyer, seller) \<Rightarrow>
          (case notify_party E (fst newIds) txId status property now buyer s of
             (r1, s1) \<Rightarrow> (case notify_party E (snd newIds) txId status property now seller s1 of
                (r2, s2) \<Rightarrow> (case r1 of Inl e \<Rightarrow> Inl e | Inr _ \<Rightarrow> r2, s2))))"

subsection \<open>The controller\<close>

definition list_endpoint :: "access_identity \<Rightarrow> notify_state \<Rightarrow> app_notification list" where
  "list_endpoint user s = getUserNotifications (caller_id user) s"

definition unread_endpoint :: "access_identity \<Rightarrow> notify_state \<Rightarrow> nat" where
  "unread_endpoint user s = getUnreadCount (caller_id user) s"

definition read_endpoint :: "access_identity \<Rightarrow> string \<Rightarrow> time \<Rightarrow> notify_state \<Rightarrow> (app_notification, notify_state) outcome" where
  "read_endpoint user i now s = notification_markAsRead i (caller_id user) now s"

definition read_all_endpoint :: "access_identity \<Rightarrow> time \<Rightarrow> notify_state \<Rightarrow> nat \<times> notify_state" where
  "read_all_endpoint user now s = markAllAsRead (caller_id user) now s"

definition delete_endpoint :: "access_identity \<Rightarrow> string \<Rightarrow> notify_state \<Rightarrow> (app_notification, notify_state) outcome" where
  "delete_endpoint user i s = deleteNotification i (caller_id user) s"

end
