(* ===== verification/Notification_Life.thy ===== *)
theory Notification_Life
  imports Notifications
begin

text \<open>
  What becomes of notifications: the hours of quiet, the caller of the endpoints, and what happens to a notification that is read
  while it is being delivered.
\<close>

subsection \<open>Quiet hours\<close>

lemma digit_not_special:
  assumes "is_digit c"
  shows "c \<noteq> CHR ''-''" "c \<noteq> CHR ''+''" "c \<noteq> CHR ''x''" "c \<noteq> CHR ''X''" "c \<noteq> CHR ''o''" "c \<noteq> CHR ''O''"
    "c \<noteq> CHR ''b''" "c \<noteq> CHR ''B''" "c \<noteq> CHR '':''"
  using assms by (auto simp: is_digit_def Let_def)

lemma digit_val_less: "is_digit c \<Longrightarrow> digit_val c < 10"
  by (auto simp: is_digit_def digit_val_def Let_def)

lemma two_digits:
  assumes "is_digit a" and "is_digit b"
  shows "js_number_integer [a, b] = Some (int (10 * digit_val a + digit_val b))"
  using assms
  by (simp add: js_number_integer_def js_trim_def is_digit_not_space js_decimal_integer_def split_sign_def digit_not_special
      nat_of_digits_def)

lemma time_text:
  assumes "TIME_REGEX t"
  obtains m where "timeToMinutes t = Some m" and "0 \<le> m" and "m < 1440"
proof -
  obtain a b d e where t: "t = [a, b, CHR '':'', d, e]"
    and h: "a \<in> {CHR ''0'', CHR ''1''} \<and> is_digit b \<or> a = CHR ''2'' \<and> b \<in> {CHR ''0'', CHR ''1'', CHR ''2'', CHR ''3''}"
    and m: "d \<in> {CHR ''0'', CHR ''1'', CHR ''2'', CHR ''3'', CHR ''4'', CHR ''5''}" "is_digit e"
    using assms by (auto simp: TIME_REGEX_def split: list.splits)
  have digits: "is_digit a" "is_digit b" "is_digit d" using h m by (auto simp: is_digit_def)
  have "js_split (CHR '':'') t = [[a, b], [d, e]]"
    using digits m(2) by (simp add: t digit_not_special)
  then have "timeToMinutes t = Some (int ((10 * digit_val a + digit_val b) * 60 + (10 * digit_val d + digit_val e)))"
    using digits m(2) by (simp add: timeToMinutes_def two_digits)
  moreover have "10 * digit_val a + digit_val b < 24"
    using h digit_val_less [OF digits(2)] by (auto simp: digit_val_def)
  moreover have "10 * digit_val d + digit_val e < 60"
    using m digit_val_less [OF m(2)] by (auto simp: digit_val_def)
  ultimately show thesis using that by simp
qed

text \<open>C38: The hours of quiet go round the clock: for times as the request accepts them, the window starts with its first minute,
  lasts until before its last one, over midnight where that is needed, and a window that ends when it starts is empty.\<close>

theorem quiet_window_goes_round_the_clock:
  assumes "TIME_REGEX current" and "TIME_REGEX start" and "TIME_REGEX finish"
  shows "isInQuietWindow current start finish \<longleftrightarrow>
    (the (timeToMinutes current) - the (timeToMinutes start)) mod 1440
      < (the (timeToMinutes finish) - the (timeToMinutes start)) mod 1440"
proof -
  obtain c s e where t: "timeToMinutes current = Some c" "timeToMinutes start = Some s" "timeToMinutes finish = Some e"
    and r: "0 \<le> c" "c < 1440" "0 \<le> s" "s < 1440" "0 \<le> e" "e < 1440"
    using time_text [OF assms(1)] time_text [OF assms(2)] time_text [OF assms(3)] by metis
  have m: "(x - s) mod 1440 = (if s \<le> x then x - s else x - s + 1440)" if "0 \<le> x" "x < 1440" for x
  proof (cases "s \<le> x")
    case False
    then have "(x - s + 1440) mod 1440 = x - s + 1440" using that r by (intro mod_pos_pos_trivial) auto
    then show ?thesis using False by simp
  qed (use that r in simp)
  show ?thesis
    using m [OF r(1,2)] m [OF r(5,6)] r by (auto simp: isInQuietWindow_def num_le_def num_less_def t)
qed

text \<open>No user can set or read preferences over the API: each of the six endpoints fails for everybody and changes nothing.\<close>

theorem preferences_endpoints_fail:
  "preferences_endpoint user_exists user q t = (Inl missing_argument, t)"
  by (cases q) (simp_all add: caller_id_def findByUserId_def preferences_create_def preferences_update_def preferences_remove_def
      getNotificationPreferences_def updateNotificationPreferences_def)

subsection \<open>The endpoints\<close>

text \<open>The endpoints of notifications lose their caller: the list shows the newest fifty notifications of all users and the count
  is that of all users, \<open>read-all\<close> marks every notification of every user as read, and reading or deleting a single one is refused to
  everybody, its owner included.\<close>

theorem notification_endpoints_lose_caller:
  "list_endpoint user s = take 50 (tbl_desc an_createdAt (nf_rows s))
   \<and> unread_endpoint user s = tbl_count (\<lambda>n. an_status n \<noteq> NS_READ) (nf_rows s)
   \<and> (\<forall>n \<in> set (nf_rows (snd (read_all_endpoint user now s))). an_status n = NS_READ)
   \<and> read_endpoint user i now s = (Inl not_found_or_unauthorized, s)
   \<and> delete_endpoint user i s = (Inl not_found_or_unauthorized, s)"
proof -
  have "of_user None = (\<lambda>_. True)" by (simp add: of_user_def fun_eq_iff)
  moreover have "unread_of None = (\<lambda>n. an_status n \<noteq> NS_READ)" by (simp add: unread_of_def of_user_def fun_eq_iff)
  ultimately show ?thesis
    by (auto simp: list_endpoint_def unread_endpoint_def read_all_endpoint_def read_endpoint_def delete_endpoint_def caller_id_def
        getUserNotifications_def getUnreadCount_def markAllAsRead_def notification_markAsRead_def deleteNotification_def
        tbl_update_many_def split: option.split)
qed

subsection \<open>Requests that come between\<close>

text \<open>\<open>nr_flight\<close> are the deliveries whose update is still to come, each the list of its ids, and \<open>nr_issued\<close> the ids that were ever
  given to a notification; ids are fresh.\<close>

record notify_run =
  nr_state :: notify_state
  nr_flight :: "string list list"
  nr_issued :: "string list"

inductive notify_step :: "notify_run \<Rightarrow> notify_run \<Rightarrow> bool" where
  step_send: "\<lbrakk>send_begin ok ue i u title message ty md now (nr_state c) = (Inr (row, delivered), s'); i \<notin> set (nr_issued c)\<rbrakk> \<Longrightarrow>
     notify_step c (c\<lparr>nr_state := s', nr_flight := nr_flight c @ (if delivered then [[i]] else []), nr_issued := i # nr_issued c\<rparr>)"
| step_schedule: "\<lbrakk>scheduleNotification ue i u title message ty d now (nr_state c) = (Inr row, s'); i \<notin> set (nr_issued c)\<rbrakk> \<Longrightarrow>
     notify_step c (c\<lparr>nr_state := s', nr_issued := i # nr_issued c\<rparr>)"
| step_pending: "deliver_begin ok u now (nr_state c) = (ids, s') \<Longrightarrow>
     notify_step c (c\<lparr>nr_state := s', nr_flight := nr_flight c @ [ids]\<rparr>)"
| step_delivered: "nr_flight c = xs @ ids # ys \<Longrightarrow>
     notify_step c (c\<lparr>nr_state := mark_delivered ids (nr_state c), nr_flight := xs @ ys\<rparr>)"
| step_read: "notification_markAsRead i u now (nr_state c) = (res, s') \<Longrightarrow> notify_step c (c\<lparr>nr_state := s'\<rparr>)"
| step_read_all: "markAllAsRead u now (nr_state c) = (k, s') \<Longrightarrow> notify_step c (c\<lparr>nr_state := s'\<rparr>)"
| step_delete: "deleteNotification i u (nr_state c) = (res, s') \<Longrightarrow> notify_step c (c\<lparr>nr_state := s'\<rparr>)"
| step_cancel: "cancelScheduledNotification i (nr_state c) = (k, s') \<Longrightarrow> notify_step c (c\<lparr>nr_state := s'\<rparr>)"
| step_sockets: "notify_step c (c\<lparr>nr_state := (nr_state c)\<lparr>nf_ws := w\<rparr>\<rparr>)"

definition no_notifications :: notify_run where
  "no_notifications = \<lparr>nr_state = \<lparr>nf_rows = [], nf_ws = \<lparr>gw_connected = [], gw_userSockets = [], gw_socketUsers = [],
     gw_socketSessions = [], gw_presence = (\<lambda>_. None), gw_received = []\<rparr>, nf_sms = no_texts, nf_mails = []\<rparr>,
     nr_flight = [], nr_issued = []\<rparr>"

lemma deliver_loop_ids: "deliver_loop ok u now ns w = (ids, w') \<Longrightarrow> set ids \<subseteq> an_id ` set ns"
proof (induction ns arbitrary: w ids w')
  case (Cons n ns)
  obtain d w1 ids1 w2 where "sendToUser ok u ''notification'' now w = (d, w1)" and rest: "deliver_loop ok u now ns w1 = (ids1, w2)"
    by fastforce
  then show ?case using Cons.prems Cons.IH [OF rest] by (auto split: if_splits)
qed simp

lemma send_begin_rows:
  "send_begin ok ue i u title message ty md now s = (Inr (row, delivered), s') \<Longrightarrow> nf_rows s' = nf_rows s @ [row] \<and> an_id row = i"
  by (auto simp: send_begin_def new_notification_def tbl_create_def Let_def split: if_splits prod.splits)

lemma schedule_rows:
  "scheduleNotification ue i u title message ty d now s = (Inr row, s') \<Longrightarrow> nf_rows s' = nf_rows s @ [row] \<and> an_id row = i"
  by (auto simp: scheduleNotification_def new_notification_def tbl_create_def Let_def split: if_splits)

lemma deliver_begin_rows: "deliver_begin ok u now s = (ids, s') \<Longrightarrow>
   nf_rows s' = nf_rows s \<and> set ids \<subseteq> an_id ` {n \<in> set (nf_rows s). an_status n = NS_PENDING}"
  by (fastforce simp: deliver_begin_def Let_def split: prod.splits dest: deliver_loop_ids)

text \<open>What a step may do to the rows: change some in place, keeping their ids, drop some, or add one with a fresh id.\<close>

definition ids_ok :: "notify_run \<Rightarrow> bool" where
  "ids_ok c \<longleftrightarrow> distinct (map an_id (nf_rows (nr_state c))) \<and> an_id ` set (nf_rows (nr_state c)) \<subseteq> set (nr_issued c)"

lemma ids_of_update [simp]:
  "map an_id (tbl_update an_id i (\<lambda>n. n\<lparr>an_status := st, an_readAt := r\<rparr>) ns) = map an_id ns"
  "map an_id (tbl_update_many p (\<lambda>n. n\<lparr>an_status := st, an_readAt := r\<rparr>) ns) = map an_id ns"
  "map an_id (tbl_update_many p (\<lambda>n. n\<lparr>an_status := st\<rparr>) ns) = map an_id ns"
  by (simp_all add: tbl_update_def tbl_update_many_def)

lemma ids_ok_map: "map an_id (nf_rows s') = map an_id (nf_rows (nr_state c)) \<Longrightarrow> ids_ok c \<Longrightarrow> nr_issued c' = nr_issued c \<Longrightarrow>
   nr_state c' = s' \<Longrightarrow> ids_ok c'"
  by (simp add: ids_ok_def) (metis list.set_map)

lemma ids_ok_filter: "nf_rows s' = filter p (nf_rows (nr_state c)) \<Longrightarrow> ids_ok c \<Longrightarrow> nr_issued c' = nr_issued c \<Longrightarrow>
   nr_state c' = s' \<Longrightarrow> ids_ok c'"
  by (auto simp: ids_ok_def distinct_map_filter)

lemma ids_ok_add: "nf_rows s' = nf_rows (nr_state c) @ [row] \<and> an_id row = i \<Longrightarrow> i \<notin> set (nr_issued c) \<Longrightarrow> ids_ok c \<Longrightarrow>
   nr_issued c' = i # nr_issued c \<Longrightarrow> nr_state c' = s' \<Longrightarrow> ids_ok c'"
  by (auto simp: ids_ok_def)

lemma read_rows:
  "notification_markAsRead i u now s = (res, s') \<Longrightarrow>
   nf_rows s' = nf_rows s \<or> nf_rows s' = tbl_update an_id i (\<lambda>n. n\<lparr>an_status := NS_READ, an_readAt := Some now\<rparr>) (nf_rows s)"
  by (auto simp: notification_markAsRead_def update_notification_def Let_def split: option.splits if_splits)

lemma delete_rows:
  "deleteNotification i u s = (res, s') \<Longrightarrow> \<exists>p. nf_rows s' = filter p (nf_rows s)"
  by (auto simp: deleteNotification_def tbl_delete_many_def split: option.splits if_splits intro: exI [of _ "\<lambda>_. True"])

lemma step_ids_ok: "notify_step c c' \<Longrightarrow> ids_ok c \<Longrightarrow> ids_ok c'"
proof (induction rule: notify_step.induct)
  case (step_send ok ue i u title message ty md now c row delivered s')
  from ids_ok_add [OF send_begin_rows [OF step_send(1)] step_send(2,3)] show ?case by simp
next
  case (step_schedule ue i u title message ty d now c row s')
  from ids_ok_add [OF schedule_rows [OF step_schedule(1)] step_schedule(2,3)] show ?case by simp
next
  case (step_pending ok u now c ids s')
  then show ?case using deliver_begin_rows [OF step_pending(1)] by (simp add: ids_ok_def)
next
  case (step_delivered c xs ids ys)
  have "map an_id (nf_rows (mark_delivered ids (nr_state c))) = map an_id (nf_rows (nr_state c))" by (simp add: mark_delivered_def)
  from ids_ok_map [OF this step_delivered(2)] show ?case by simp
next
  case (step_read i u now c res s')
  have "map an_id (nf_rows s') = map an_id (nf_rows (nr_state c))" using read_rows [OF step_read(1)] by (elim disjE) simp_all
  from ids_ok_map [OF this step_read(2)] show ?case by simp
next
  case (step_read_all u now c k s')
  have "map an_id (nf_rows s') = map an_id (nf_rows (nr_state c))" using step_read_all(1) by (auto simp: markAllAsRead_def)
  from ids_ok_map [OF this step_read_all(2)] show ?case by simp
next
  case (step_delete i u c res s')
  then obtain p where "nf_rows s' = filter p (nf_rows (nr_state c))" using delete_rows by blast
  then show ?case using step_delete(2) by (rule ids_ok_filter) simp_all
next
  case (step_cancel i c k s')
  from step_cancel(1) obtain p where "nf_rows s' = filter p (nf_rows (nr_state c))"
    by (auto simp: cancelScheduledNotification_def tbl_delete_many_def Let_def)
  then show ?case using step_cancel(2) by (rule ids_ok_filter) simp_all
next
  case (step_sockets c w)
  then show ?case by (simp add: ids_ok_def)
qed

lemma reachable_ids_ok: "notify_step\<^sup>*\<^sup>* no_notifications c \<Longrightarrow> ids_ok c"
proof (induction rule: rtranclp_induct)
  case base
  show ?case by (simp add: ids_ok_def no_notifications_def)
qed (rule step_ids_ok)

subsection \<open>Read notifications\<close>

definition settled :: "string \<Rightarrow> notify_run \<Rightarrow> bool" where
  "settled i c \<longleftrightarrow> i \<in> set (nr_issued c) \<and> (\<forall>ids \<in> set (nr_flight c). i \<notin> set ids)
     \<and> (\<forall>n \<in> set (nf_rows (nr_state c)). an_id n = i \<longrightarrow> an_status n = NS_READ)"

lemma step_settled: "notify_step c c' \<Longrightarrow> settled i c \<Longrightarrow> settled i c'"
proof (induction rule: notify_step.induct)
  case (step_send ok ue j u title message ty md now c row delivered s')
  then show ?case using send_begin_rows [OF step_send(1)] by (auto simp: settled_def)
next
  case (step_schedule ue j u title message ty d now c row s')
  then show ?case using schedule_rows [OF step_schedule(1)] by (auto simp: settled_def)
next
  case (step_pending ok u now c ids s')
  then show ?case using deliver_begin_rows [OF step_pending(1)] by (auto simp: settled_def)
next
  case (step_delivered c xs ids ys)
  then show ?case by (auto simp: settled_def mark_delivered_def tbl_update_many_def)
next
  case (step_read j u now c res s')
  then show ?case using read_rows [OF step_read(1)] by (auto simp: settled_def tbl_update_def)
next
  case (step_read_all u now c k s')
  then show ?case by (auto simp: settled_def markAllAsRead_def tbl_update_many_def)
next
  case (step_delete j u c res s')
  then obtain p where "nf_rows s' = filter p (nf_rows (nr_state c))" using delete_rows by blast
  then show ?case using step_delete(2) by (auto simp: settled_def)
next
  case (step_cancel j c k s')
  then show ?case by (auto simp: settled_def cancelScheduledNotification_def Let_def)
next
  case (step_sockets c w)
  then show ?case by (simp add: settled_def)
qed

lemma notification_found:
  assumes "find_notification i s = Some n"
  shows "n \<in> set (nf_rows s)" and "an_id n = i"
  using tbl_find_Some [OF assms [unfolded find_notification_def]] by simp_all

lemma one_row_found:
  "ids_ok c \<Longrightarrow> find_notification i (nr_state c) = Some n \<Longrightarrow> m \<in> set (nf_rows (nr_state c)) \<Longrightarrow> an_id m = i \<Longrightarrow> m = n"
  unfolding ids_ok_def find_notification_def by (metis option.inject tbl_find_distinct)

text \<open>C34: A notification that is read and whose delivery is not under way stays read, whatever requests follow and in whatever order,
  until it is deleted; its id is never used again.\<close>

theorem read_notification_stays_read:
  assumes "notify_step\<^sup>*\<^sup>* no_notifications c" and "find_notification i (nr_state c) = Some n" and "an_status n = NS_READ"
    and "\<forall>ids \<in> set (nr_flight c). i \<notin> set ids" and "notify_step\<^sup>*\<^sup>* c c'"
  shows "case find_notification i (nr_state c') of None \<Rightarrow> True | Some m \<Rightarrow> an_status m = NS_READ"
proof -
  note ok = reachable_ids_ok [OF assms(1)]
  note n = notification_found [OF assms(2)]
  have "settled i c"
    unfolding settled_def
  proof (intro conjI ballI impI)
    show "i \<in> set (nr_issued c)" using ok n by (auto simp: ids_ok_def)
    show "an_status m = NS_READ" if "m \<in> set (nf_rows (nr_state c))" "an_id m = i" for m
      using one_row_found [OF ok assms(2) that] assms(3) by simp
  qed (use assms(4) in blast)
  with assms(5) have "settled i c'"
    by (induction rule: rtranclp_induct) (auto intro: step_settled)
  then show ?thesis
    using tbl_find_Some [of an_id i "nf_rows (nr_state c')"] by (auto simp: settled_def find_notification_def split: option.split)
qed

lemma find_mark_delivered:
  "find_notification i (mark_delivered ids s) =
     map_option (\<lambda>n. if i \<in> set ids then n\<lparr>an_status := NS_DELIVERED\<rparr> else n) (find_notification i s)"
proof -
  have "List.find (\<lambda>r. an_id r = i) (map (\<lambda>n. if an_id n \<in> set ids then n\<lparr>an_status := NS_DELIVERED\<rparr> else n) ns)
      = map_option (\<lambda>n. if i \<in> set ids then n\<lparr>an_status := NS_DELIVERED\<rparr> else n) (List.find (\<lambda>r. an_id r = i) ns)" for ns
    by (induction ns) auto
  then show ?thesis by (simp add: find_notification_def mark_delivered_def tbl_update_many_def tbl_find_def)
qed

text \<open>C35: A delivery that is still under way undoes reading: when the owner reads a notification before the update that marks it as
  delivered, the notification counts as unread again afterwards, with a time of reading.\<close>

theorem late_delivery_undoes_reading:
  assumes "find_notification i (nr_state c) = Some n" and "nr_flight c = xs @ ids # ys" and "i \<in> set ids"
  shows "\<exists>s1 c'. notification_markAsRead i (Some (an_userId n)) now (nr_state c) = (Inr (n\<lparr>an_status := NS_READ, an_readAt := Some now\<rparr>), s1)
    \<and> notify_step\<^sup>*\<^sup>* c c' \<and> nr_state c' = mark_delivered ids s1
    \<and> find_notification i (nr_state c') = Some (n\<lparr>an_status := NS_DELIVERED, an_readAt := Some now\<rparr>)
    \<and> 0 < getUnreadCount (Some (an_userId n)) (nr_state c')"
proof -
  define s1 where "s1 = update_notification i (\<lambda>n. n\<lparr>an_status := NS_READ, an_readAt := Some now\<rparr>) (nr_state c)"
  define c' where "c' = c\<lparr>nr_state := mark_delivered ids s1, nr_flight := xs @ ys\<rparr>"
  have read: "notification_markAsRead i (Some (an_userId n)) now (nr_state c) = (Inr (n\<lparr>an_status := NS_READ, an_readAt := Some now\<rparr>), s1)"
    by (simp add: notification_markAsRead_def assms(1) s1_def Let_def)
  have "notify_step c (c\<lparr>nr_state := s1\<rparr>)" by (rule step_read [OF read])
  moreover have "notify_step (c\<lparr>nr_state := s1\<rparr>) c'"
    using step_delivered [of "c\<lparr>nr_state := s1\<rparr>" xs ids ys] assms(2) by (simp add: c'_def)
  ultimately have run: "notify_step\<^sup>*\<^sup>* c c'" by (meson converse_rtranclp_into_rtranclp rtranclp.rtrancl_refl)
  have "find_notification i s1 = Some (n\<lparr>an_status := NS_READ, an_readAt := Some now\<rparr>)"
    using assms(1) notifications.update_same [of i "nf_rows (nr_state c)" n "\<lambda>n. n\<lparr>an_status := NS_READ, an_readAt := Some now\<rparr>"]
    by (simp add: s1_def update_notification_def find_notification_def)
  then have found: "find_notification i (nr_state c') = Some (n\<lparr>an_status := NS_DELIVERED, an_readAt := Some now\<rparr>)"
    using assms(3) by (simp add: c'_def find_mark_delivered)
  let ?m = "n\<lparr>an_status := NS_DELIVERED, an_readAt := Some now\<rparr>"
  have "?m \<in> set (filter (unread_of (Some (an_userId n))) (nf_rows (nr_state c')))"
    using notification_found(1) [OF found] by (simp add: unread_of_def of_user_def)
  then have "0 < getUnreadCount (Some (an_userId n)) (nr_state c')"
    unfolding getUnreadCount_def tbl_count_def by (rule length_pos_if_in_set)
  then show ?thesis using read run found by (intro exI [of _ s1] exI [of _ c']) (simp add: c'_def)
qed

text \<open>\<open>deliverPending\<close> does not look at the clock: a notification that was scheduled for later is sent and marked as delivered as soon
  as its user is connected and it is asked for.\<close>

theorem scheduled_notification_sent_early:
  assumes "n \<in> set (nf_rows s)" and "an_status n = NS_PENDING" and "an_scheduledAt n = Some later" and "now < later"
    and "isUserConnected now (an_userId n) (gw_presence (nf_ws s))"
  shows "n\<lparr>an_status := NS_DELIVERED\<rparr> \<in> set (nf_rows (deliverPending True (an_userId n) now s))"
proof -
  have all: "fst (deliver_loop True u now ns w) = map an_id ns"
    if "isUserConnected now u (gw_presence w)" for u ns w
    using that by (induction ns arbitrary: w) (simp_all add: sendToUser_def Let_def case_prod_beta)
  let ?pending = "filter (\<lambda>m. an_userId m = an_userId n \<and> an_status m = NS_PENDING) (nf_rows s)"
  obtain w where "deliver_begin True (an_userId n) now s = (map an_id ?pending, s\<lparr>nf_ws := w\<rparr>)"
    using all [OF assms(5), of ?pending] by (auto simp: deliver_begin_def Let_def case_prod_beta)
  moreover have "n \<in> set ?pending" using assms(1,2) by simp
  then have "an_id n \<in> set (map an_id ?pending)" "0 < length (map an_id ?pending)" by (simp, simp only: length_map length_pos_if_in_set)
  ultimately have "nf_rows (deliverPending True (an_userId n) now s)
      = map (\<lambda>m. if an_id m \<in> set (map an_id ?pending) then m\<lparr>an_status := NS_DELIVERED\<rparr> else m) (nf_rows s)"
    by (simp add: deliverPending_def mark_delivered_def tbl_update_many_def)
  then show ?thesis
    using assms(1) \<open>an_id n \<in> set (map an_id ?pending)\<close> by (simp only: set_map) (rule image_eqI, simp_all)
qed

subsection \<open>Examples\<close>

theorem quiet_window_goes_round_the_clock_witness:
  "isInQuietWindow ''23:30'' ''22:00'' ''08:00'' \<and> \<not> isInQuietWindow ''08:00'' ''22:00'' ''08:00''"
proof -
  have "TIME_REGEX ''23:30''" "TIME_REGEX ''22:00''" "TIME_REGEX ''08:00''" by code_simp+
  note t = quiet_window_goes_round_the_clock [OF this] quiet_window_goes_round_the_clock [OF this(3,2,3)]
  have "timeToMinutes ''23:30'' = Some 1410" "timeToMinutes ''22:00'' = Some 1320" "timeToMinutes ''08:00'' = Some 480" by code_simp+
  then show ?thesis by (simp add: t)
qed

definition example_run :: notify_run where
  "example_run = \<lparr>nr_state = (nr_state no_notifications)\<lparr>nf_rows := [new_notification ''n1'' ''u1'' ''Title'' ''Text'' ''SYSTEM'' JNull 5]\<rparr>,
     nr_flight = [[''n1'']], nr_issued = [''n1'']\<rparr>"

theorem late_delivery_undoes_reading_witness:
  "\<exists>c'. notify_step\<^sup>*\<^sup>* example_run c' \<and> 0 < getUnreadCount (Some ''u1'') (nr_state c')
     \<and> map_option an_readAt (find_notification ''n1'' (nr_state c')) = Some (Some 9)"
proof -
  let ?n = "new_notification ''n1'' ''u1'' ''Title'' ''Text'' ''SYSTEM'' JNull 5"
  have "find_notification ''n1'' (nr_state example_run) = Some ?n"
    by (simp add: find_notification_def tbl_find_def example_run_def new_notification_def)
  from late_delivery_undoes_reading [OF this, of "[]" "[''n1'']" "[]" 9] show ?thesis
    by (auto simp: example_run_def new_notification_def)
qed

theorem read_notification_stays_read_witness:
  "\<exists>c c'. notify_step\<^sup>*\<^sup>* no_notifications c \<and> find_notification ''n1'' (nr_state c) \<noteq> None \<and> notify_step\<^sup>*\<^sup>* c c' \<and> c' \<noteq> c
     \<and> (case find_notification ''n1'' (nr_state c') of None \<Rightarrow> True | Some m \<Rightarrow> an_status m = NS_READ)"
proof -
  obtain row s1 where send: "send_begin False (\<lambda>_. True) ''n1'' ''u1'' [] [] [] None 5 (nr_state no_notifications) = (Inr (row, False), s1)"
    and row: "nf_rows s1 = [row]" "an_id row = ''n1''" "an_userId row = ''u1''"
    by (simp add: send_begin_def sendToUser_def no_notifications_def new_notification_def tbl_create_def Let_def)
  define c1 where "c1 = no_notifications\<lparr>nr_state := s1, nr_issued := [''n1'']\<rparr>"
  have s1: "notify_step no_notifications c1"
    using step_send [OF send] by (simp add: c1_def no_notifications_def)
  have found: "find_notification ''n1'' s1 = Some row" using row by (simp add: find_notification_def tbl_find_def)
  define s2 where "s2 = update_notification ''n1'' (\<lambda>n. n\<lparr>an_status := NS_READ, an_readAt := Some 6\<rparr>) s1"
  define c2 where "c2 = c1\<lparr>nr_state := s2\<rparr>"
  have "notification_markAsRead ''n1'' (Some ''u1'') 6 (nr_state c1) = (Inr (row\<lparr>an_status := NS_READ, an_readAt := Some 6\<rparr>), s2)"
    using found row(3) by (simp add: notification_markAsRead_def c1_def s2_def Let_def)
  then have "notify_step c1 c2" unfolding c2_def by (rule step_read)
  with s1 have run: "notify_step\<^sup>*\<^sup>* no_notifications c2" by (meson converse_rtranclp_into_rtranclp rtranclp.rtrancl_refl)
  have read: "find_notification ''n1'' (nr_state c2) = Some (row\<lparr>an_status := NS_READ, an_readAt := Some 6\<rparr>)"
    using row by (simp add: c2_def s2_def update_notification_def find_notification_def tbl_find_def tbl_update_def)
  define c3 where "c3 = c2\<lparr>nr_flight := [[]]\<rparr>"
  have "deliver_begin False ''u2'' 7 (nr_state c2) = ([], nr_state c2)"
    using row by (simp add: deliver_begin_def c2_def s2_def update_notification_def tbl_update_def)
  from step_pending [OF this] have "notify_step c2 c3" by (simp add: c3_def c2_def c1_def no_notifications_def)
  then have run2: "notify_step\<^sup>*\<^sup>* c2 c3" by blast
  have "c3 \<noteq> c2" "\<forall>ids \<in> set (nr_flight c2). ''n1'' \<notin> set ids" by (simp_all add: c3_def c2_def c1_def no_notifications_def)
  moreover from read_notification_stays_read [OF run read _ this(2) run2]
  have "case find_notification ''n1'' (nr_state c3) of None \<Rightarrow> True | Some m \<Rightarrow> an_status m = NS_READ" by simp
  ultimately show ?thesis using run run2 read by blast
qed

theorem scheduled_notification_sent_early_witness:
  "\<exists>s n. n \<in> set (nf_rows s) \<and> an_scheduledAt n = Some 1000000
     \<and> n\<lparr>an_status := NS_DELIVERED\<rparr> \<in> set (nf_rows (deliverPending True ''u1'' 5 s))"
proof -
  let ?n = "(new_notification ''n1'' ''u1'' [] [] [] JNull 0)\<lparr>an_scheduledAt := Some 1000000\<rparr>"
  let ?s = "(nr_state no_notifications)\<lparr>nf_rows := [?n], nf_ws := (nf_ws (nr_state no_notifications))\<lparr>gw_presence := [''u1'' \<mapsto> ([''x''], 9)]\<rparr>\<rparr>"
  have "?n\<lparr>an_status := NS_DELIVERED\<rparr> \<in> set (nf_rows (deliverPending True (an_userId ?n) 5 ?s))"
    by (rule scheduled_notification_sent_early [where later = 1000000])
      (simp_all add: new_notification_def isUserConnected_def live_hash_def)
  then show ?thesis by (intro exI [of _ ?s] exI [of _ ?n]) (simp add: new_notification_def)
qed

end
