(* ===== verification/User_Import.thy ===== *)
theory User_Import
  imports Auth_Accounts
begin

text \<open>
  Importing users from a CSV file: \<open>src/users/user-import.service.ts\<close> and the checks of its controller.

  The rows are those that the CSV parser gives, or its error; a column that the file does not have is \<open>None\<close>.  Hashes,
  identifiers and the six hexadecimal digits of a referral code are arguments, by row.  The rows are written in one transaction,
  which the database refuses when a mail address or a referral code is taken, and then nothing is written.
\<close>

subsection \<open>Rows and reports\<close>

record import_record =
  ir_email :: "string option"
  ir_firstName :: "string option"
  ir_lastName :: "string option"
  ir_password :: "string option"
  ir_role :: "string option"
  ir_phone :: "string option"

record import_error =
  ie_row :: nat
  ie_email :: string
  ie_error :: string

record import_report =
  rp_total :: nat
  rp_success :: nat
  rp_failed :: nat
  rp_errors :: "import_error list"

record import_env =
  im_config :: "string \<Rightarrow> string option"
  im_hash :: "nat \<Rightarrow> string \<Rightarrow> string"
  im_hex :: "nat \<Rightarrow> string"
  im_userId :: "nat \<Rightarrow> string"
  im_entryId :: "nat \<Rightarrow> string"

definition ALLOWED_IMPORT_ROLES :: "string list" where
  "ALLOWED_IMPORT_ROLES = [''USER'', ''AGENT'']"

definition text_of :: "string option \<Rightarrow> string" where
  "text_of v = (case v of None \<Rightarrow> [] | Some s \<Rightarrow> s)"

text \<open>\<open>/^[^\s@]+@[^\s@]+\.[^\s@]+$/\<close>: one at sign, no white space, something before it, and a full stop after it that is neither
  first nor last.\<close>

definition emailRegex :: "string \<Rightarrow> bool" where
  "emailRegex e \<longleftrightarrow> list_all (\<lambda>c. \<not> js_space c) e \<and>
     (case js_split (CHR ''@'') e of
        [name, domain] \<Rightarrow> name \<noteq> [] \<and> CHR ''.'' \<in> set (tl (butlast domain))
      | _ \<Rightarrow> False)"

subsection \<open>One row\<close>

record import_user =
  iu_row :: nat
  iu_email :: string
  iu_firstName :: string
  iu_lastName :: string
  iu_passwordHash :: string
  iu_role :: string
  iu_phone :: "string option"
  iu_referralCode :: string

definition import_role :: "string \<Rightarrow> string + string" where
  "import_role role =
     (if role = [] then Inr ''USER''
      else if js_upper role \<in> set ALLOWED_IMPORT_ROLES then Inr (js_upper role)
      else Inl (''Role '' @ [CHR 0x27] @ role @ [CHR 0x27] @ '' is not importable from CSV. Allowed roles: '' @ js_join '', '' ALLOWED_IMPORT_ROLES))"

definition check_row :: "import_env \<Rightarrow> string set \<Rightarrow> import_user list \<Rightarrow> nat \<Rightarrow> import_record \<Rightarrow> string + import_user" where
  "check_row E existingEmailSet usersToCreate i r =
     (let email = text_of (ir_email r); firstName = text_of (ir_firstName r); lastName = text_of (ir_lastName r);
          password = text_of (ir_password r); role = text_of (ir_role r)
      in if email = [] \<or> firstName = [] \<or> lastName = [] \<or> password = []
         then Inl ''Missing required fields (email, firstName, lastName, password)''
         else if \<not> emailRegex email then Inl (''Invalid email format: '' @ email)
         else if validatePassword (im_config E) password \<noteq> []
         then Inl (''Password does not meet policy: '' @ js_join ''; '' (validatePassword (im_config E) password))
         else (case import_role role of
             Inl e \<Rightarrow> Inl e
           | Inr normalizedRole \<Rightarrow>
               if js_lower email \<in> existingEmailSet then Inl ''User with this email already exists''
               else if list_ex (\<lambda>u. js_lower (iu_email u) = js_lower email) usersToCreate then Inl ''Duplicate email in CSV''
               else Inr \<lparr>iu_row = i, iu_email = email, iu_firstName = firstName, iu_lastName = lastName,
                 iu_passwordHash = im_hash E i password, iu_role = normalizedRole,
                 iu_phone = (if text_of (ir_phone r) = [] then None else ir_phone r),
                 iu_referralCode = ''REF-'' @ js_upper (im_hex E i)\<rparr>))"

subsection \<open>The import\<close>

fun import_loop ::
  "import_env \<Rightarrow> string set \<Rightarrow> nat \<Rightarrow> import_record list \<Rightarrow> import_user list \<Rightarrow> import_error list \<Rightarrow> import_user list \<times> import_error list" where
  "import_loop E existing i [] usersToCreate errors = (usersToCreate, errors)"
| "import_loop E existing i (r # rs) usersToCreate errors =
     (case check_row E existing usersToCreate i r of
        Inr u \<Rightarrow> import_loop E existing (Suc i) rs (usersToCreate @ [u]) errors
      | Inl e \<Rightarrow> import_loop E existing (Suc i) rs usersToCreate
          (errors @ [\<lparr>ie_row = i + 2, ie_email = (if text_of (ir_email r) = [] then ''N/A'' else text_of (ir_email r)), ie_error = e\<rparr>]))"

definition imported_user :: "import_env \<Rightarrow> time \<Rightarrow> import_user \<Rightarrow> user" where
  "imported_user E now u =
     (blank_user (im_userId E (iu_row u)) (iu_email u) now)\<lparr>us_firstName := iu_firstName u, us_lastName := iu_lastName u,
       us_password := Some (iu_passwordHash u), us_role := iu_role u, us_phone := iu_phone u,
       us_referralCode := Some (iu_referralCode u)\<rparr>"

definition imported_password :: "import_env \<Rightarrow> time \<Rightarrow> import_user \<Rightarrow> password_entry" where
  "imported_password E now u =
     \<lparr>pe_id = im_entryId E (iu_row u), pe_userId = im_userId E (iu_row u), pe_passwordHash = iu_passwordHash u, pe_createdAt = now\<rparr>"

text \<open>The unique columns of users, over all rows there would be.\<close>

definition unique_users :: "user list \<Rightarrow> bool" where
  "unique_users us \<longleftrightarrow> distinct (map us_email us) \<and> distinct (filter (\<lambda>c. c \<noteq> None) (map us_referralCode us))"

definition bulk_create :: "import_env \<Rightarrow> time \<Rightarrow> import_user list \<Rightarrow> account_state \<Rightarrow> account_state option" where
  "bulk_create E now us st =
     (let users = as_users st @ map (imported_user E now) us
      in if \<not> unique_users users then None
         else Some (st\<lparr>as_users := users, as_passwords := as_passwords st @ map (imported_password E now) us\<rparr>))"

text \<open>\<open>actor\<close> is the id of the importer.  The entry of the audit is lost when it cannot be written.\<close>

definition recordImportAudit :: "string option \<Rightarrow> account_state \<Rightarrow> account_state" where
  "recordImportAudit actor st =
     (let i = text_of actor
      in if i = [] \<or> find_user i st = None then st
         else st\<lparr>as_activity := as_activity st @ [\<lparr>ac_userId = i, ac_action = ''USER_IMPORT'', ac_entityType = ''USER'', ac_entityId = []\<rparr>]\<rparr>)"

definition existing_emails :: "import_record list \<Rightarrow> account_state \<Rightarrow> string set" where
  "existing_emails records st =
     (let emailList = filter (\<lambda>e. e \<noteq> []) (map (\<lambda>r. text_of (ir_email r)) records)
      in set (map (\<lambda>u. js_lower (us_email u)) (filter (\<lambda>u. us_email u \<in> set emailList) (as_users st))))"

definition importFromCsv ::
  "import_env \<Rightarrow> (string + import_record list) \<Rightarrow> string option \<Rightarrow> time \<Rightarrow> account_state \<Rightarrow> (import_report, account_state) outcome" where
  "importFromCsv E parsed actor now st =
     (case parsed of
        Inl e \<Rightarrow> (Inl (BadRequest (''Invalid CSV format: '' @ e)), st)
      | Inr records \<Rightarrow>
          if length records = 0 then (Inl (BadRequest ''CSV file is empty''), st)
          else (let (us, errors) = import_loop E (existing_emails records st) 0 records [] [];
                    report = \<lparr>rp_total = length records, rp_success = length us, rp_failed = length errors, rp_errors = errors\<rparr>
                in if 0 < length us then
                     (case bulk_create E now us st of
                        None \<Rightarrow> (Inl (BadRequest ''Bulk creation failed. Please check the CSV data.''), st)
                      | Some st1 \<Rightarrow> (Inr report, recordImportAudit actor st1))
                   else (Inr report, recordImportAudit actor st)))"

text \<open>The controller: the name and the type the client gives to the file, and what the parser makes of its content.\<close>

definition importCsv ::
  "import_env \<Rightarrow> (string \<times> string \<times> (string + import_record list)) option \<Rightarrow> access_identity \<Rightarrow> time \<Rightarrow> account_state \<Rightarrow>
   (import_report, account_state) outcome" where
  "importCsv E upload user now st =
     (case upload of
        None \<Rightarrow> (Inl (BadRequest ''No file uploaded''), st)
      | Some (originalname, mimetype, parsed) \<Rightarrow>
          if \<not> ends_with ''.csv'' (js_lower originalname) \<and> \<not> (mimetype = ''text/csv'' \<or> mimetype = ''application/vnd.ms-excel'')
          then (Inl (BadRequest ''Only CSV files are allowed''), st)
          else importFromCsv E parsed (Some (ai_sub user)) now st)"

subsection \<open>What an import creates\<close>

lemma check_row_ok:
  assumes "check_row E existing us i r = Inr u"
  shows "iu_row u = i" and "Some (iu_email u) = ir_email r" and "emailRegex (iu_email u)"
    and "iu_role u \<in> set ALLOWED_IMPORT_ROLES" and "js_lower (iu_email u) \<notin> existing"
    and "js_lower (iu_email u) \<notin> (\<lambda>u. js_lower (iu_email u)) ` set us"
    and "\<exists>pw. ir_password r = Some pw \<and> validatePassword (im_config E) pw = [] \<and> iu_passwordHash u = im_hash E i pw"
  using assms
  by (auto simp: check_row_def import_role_def ALLOWED_IMPORT_ROLES_def text_of_def Let_def list_ex_iff
      split: if_splits sum.splits option.splits)

text \<open>The loop as a relation between the rows and the two lists it makes.\<close>

definition import_invariant :: "import_env \<Rightarrow> string set \<Rightarrow> nat \<Rightarrow> import_user list \<Rightarrow> import_error list \<Rightarrow> bool" where
  "import_invariant E existing n us errors \<longleftrightarrow>
     length us + length errors = n
     \<and> distinct (map (\<lambda>u. js_lower (iu_email u)) us)
     \<and> (\<forall>u \<in> set us. js_lower (iu_email u) \<notin> existing \<and> iu_role u \<in> set ALLOWED_IMPORT_ROLES \<and> emailRegex (iu_email u))
     \<and> sorted_wrt (<) (map iu_row us) \<and> sorted_wrt (<) (map ie_row errors)
     \<and> (\<forall>u \<in> set us. iu_row u < n) \<and> (\<forall>e \<in> set errors. ie_row e < n + 2)"

lemma import_loop_invariant:
  "import_invariant E existing i us errors \<Longrightarrow> import_loop E existing i rs us errors = (us', errors') \<Longrightarrow>
   import_invariant E existing (i + length rs) us' errors'"
proof (induction rs arbitrary: i us errors)
  case (Cons r rs)
  show ?case
  proof (cases "check_row E existing us i r")
    case (Inl e)
    have "import_invariant E existing (Suc i) us (errors @ [\<lparr>ie_row = i + 2,
        ie_email = (if text_of (ir_email r) = [] then ''N/A'' else text_of (ir_email r)), ie_error = e\<rparr>])"
      using Cons.prems(1) by (auto simp: import_invariant_def sorted_wrt_append less_SucI)
    from Cons.IH [OF this] show ?thesis using Cons.prems(2) by (simp add: Inl)
  next
    case (Inr u)
    note ok = check_row_ok [OF Inr]
    have "import_invariant E existing (Suc i) (us @ [u]) errors"
      using Cons.prems(1) ok by (auto simp: import_invariant_def sorted_wrt_append less_SucI)
    from Cons.IH [OF this] show ?thesis using Cons.prems(2) by (simp add: Inr)
  qed
qed simp

lemma import_cases:
  assumes "importFromCsv E parsed actor now st = (Inr report, st')"
  obtains records us errors where "parsed = Inr records"
    and "import_loop E (existing_emails records st) 0 records [] [] = (us, errors)"
    and "report = \<lparr>rp_total = length records, rp_success = length us, rp_failed = length errors, rp_errors = errors\<rparr>"
    and "as_users st' = as_users st @ map (imported_user E now) us"
    and "as_passwords st' = as_passwords st @ map (imported_password E now) us"
    and "us \<noteq> [] \<longrightarrow> unique_users (as_users st')"
proof -
  obtain records where records: "parsed = Inr records" "records \<noteq> []"
    using assms by (auto simp: importFromCsv_def split: sum.splits if_splits)
  obtain us errors where loop: "import_loop E (existing_emails records st) 0 records [] [] = (us, errors)" by fastforce
  have audit: "as_users (recordImportAudit actor s) = as_users s" "as_passwords (recordImportAudit actor s) = as_passwords s" for s
    by (simp_all add: recordImportAudit_def Let_def)
  show thesis
  proof (rule that [OF records(1) loop])
    show "report = \<lparr>rp_total = length records, rp_success = length us, rp_failed = length errors, rp_errors = errors\<rparr>"
      "as_users st' = as_users st @ map (imported_user E now) us"
      "as_passwords st' = as_passwords st @ map (imported_password E now) us"
      "us \<noteq> [] \<longrightarrow> unique_users (as_users st')"
      using assms records loop audit
      by (auto simp: importFromCsv_def bulk_create_def Let_def split: if_splits option.splits)
  qed
qed


text \<open>An import that fails has stored nothing, neither users nor an entry of the audit.\<close>

theorem failed_import_stores_nothing:
  assumes "importCsv E upload user now st = (Inl e, st')"
  shows "st' = st"
  using assms by (auto simp: importCsv_def importFromCsv_def Let_def split: option.splits prod.splits if_splits sum.splits)

text \<open>The check against the users there are depends on case, although it compares in lower case: a row whose mail address differs
  only in case from that of a user is imported as a second user.\<close>

theorem import_creates_case_variants:
  assumes "ir_email r = Some e" and "emailRegex e" and "text_of (ir_firstName r) \<noteq> []" and "text_of (ir_lastName r) \<noteq> []"
    and "ir_password r = Some pw" and "pw \<noteq> []" and "validatePassword (im_config E) pw = []" and "ir_role r = None"
    and "unique_users (as_users st)" and "e \<notin> us_email ` set (as_users st)"
    and "Some (''REF-'' @ js_upper (im_hex E 0)) \<notin> us_referralCode ` set (as_users st)"
  shows "\<exists>report st' u. importFromCsv E (Inr [r]) actor now st = (Inr report, st') \<and> rp_success report = 1
    \<and> as_users st' = as_users st @ [u] \<and> us_email u = e"
proof -
  have "e \<noteq> []" using assms(2) by (auto simp: emailRegex_def)
  have "existing_emails [r] st = {}"
    using assms(1,10) by (auto simp: existing_emails_def text_of_def filter_empty_conv Let_def)
  then obtain u where row: "check_row E (existing_emails [r] st) [] 0 r = Inr u" and u: "iu_email u = e"
      "iu_referralCode u = ''REF-'' @ js_upper (im_hex E 0)"
    using assms(1-8) \<open>e \<noteq> []\<close> by (simp add: check_row_def import_role_def text_of_def Let_def)
  have "unique_users (as_users st @ [imported_user E now u])"
    using assms(9-11) u by (auto simp: unique_users_def imported_user_def)
  then show ?thesis
    using row u(1) by (simp add: importFromCsv_def bulk_create_def recordImportAudit_def imported_user_def Let_def)
qed

subsection \<open>Examples\<close>

definition example_import :: import_env where
  "example_import = \<lparr>im_config = (\<lambda>_. None), im_hash = (\<lambda>i p. p), im_hex = show_nat, im_userId = show_nat, im_entryId = show_nat\<rparr>"

definition example_row :: "string \<Rightarrow> import_record" where
  "example_row email = \<lparr>ir_email = Some email, ir_firstName = Some ''Bob'', ir_lastName = Some ''Lee'', ir_password = Some ''Passw0rd!'',
     ir_role = None, ir_phone = None\<rparr>"

lemma example_import_run:
  "case importFromCsv example_import (Inr [example_row ''bob@example.org'', example_row ''BOB@example.org'']) None 7 example_account_state of
     (Inr report, st') \<Rightarrow> rp_success report = 1 \<and> map ie_row (rp_errors report) = [3] | _ \<Rightarrow> False"
  by code_simp


theorem failed_import_stores_nothing_witness:
  "snd (importCsv example_import (Some (''users.txt'', ''text/plain'', Inr []))
     \<lparr>ai_sub = ''u1'', ai_email = [], ai_role = ''ADMIN'', ai_tier = [], ai_jti = []\<rparr> 7 example_account_state) = example_account_state"
proof -
  let ?run = "importCsv example_import (Some (''users.txt'', ''text/plain'', Inr []))
     \<lparr>ai_sub = ''u1'', ai_email = [], ai_role = ''ADMIN'', ai_tier = [], ai_jti = []\<rparr> 7 example_account_state"
  have "case fst ?run of Inl _ \<Rightarrow> True | Inr _ \<Rightarrow> False" by code_simp
  then obtain e st' where "?run = (Inl e, st')" by (cases ?run) (auto split: sum.splits)
  with failed_import_stores_nothing [OF this] show ?thesis by simp
qed

theorem import_creates_case_variants_witness:
  "\<exists>report st' u. importFromCsv example_import (Inr [example_row ''Ann@example.org'']) None 7 example_account_state = (Inr report, st')
     \<and> as_users st' = as_users example_account_state @ [u] \<and> us_email u = ''Ann@example.org''"
proof -
  have "emailRegex ''Ann@example.org''" "validatePassword (im_config example_import) ''Passw0rd!'' = []" by code_simp+
  moreover have "unique_users (as_users example_account_state)" "''Ann@example.org'' \<notin> us_email ` set (as_users example_account_state)"
      "Some (''REF-'' @ js_upper (im_hex example_import 0)) \<notin> us_referralCode ` set (as_users example_account_state)"
    by code_simp+
  ultimately show ?thesis
    using import_creates_case_variants [of "example_row ''Ann@example.org''" "''Ann@example.org''" "''Passw0rd!''" example_import example_account_state None 7]
    by (simp add: example_row_def text_of_def) blast
qed

end
