(* ===== verification/Date_Periods.thy ===== *)
theory Date_Periods
  imports Calendar
begin

text \<open>
  The reporting periods of \<open>src/transactions/transactions.service.ts\<close>: \<open>formatAnalyticsPeriod\<close> and
  \<open>getIsoWeek\<close>.  The theory first shows that the civil year the model computes for a day is the year
  ECMAScript's day formula gives, and then that \<open>getIsoWeek\<close> is the week of ISO 8601.  Days and times are
  those of \<open>Calendar\<close>; quotients of two integers below \<open>2 ^ 53\<close> are exact enough for \<open>Math.ceil\<close>, so the
  week is computed with integers.
\<close>

subsection \<open>Dates\<close>

definition getUTCFullYear :: "time \<Rightarrow> int" where
  "getUTCFullYear t = fst (civil_of_days (day_number t))"

definition getUTCMonth :: "time \<Rightarrow> int" where
  "getUTCMonth t = fst (snd (civil_of_days (day_number t))) - 1"

definition getUTCDate :: "time \<Rightarrow> int" where
  "getUTCDate t = snd (snd (civil_of_days (day_number t)))"

text \<open>1970-01-01 was a Thursday; Sunday is 0.\<close>

definition getUTCDay :: "time \<Rightarrow> int" where
  "getUTCDay t = (day_number t + 4) mod 7"

text \<open>\<open>DayFromYear\<close> of the ECMAScript standard, and \<open>Date.UTC(y, 0, 1)\<close>, which reads the years 0 to 99 as 1900 to 1999.\<close>

definition day_from_year :: "int \<Rightarrow> int" where
  "day_from_year y = 365 * (y - 1970) + (y - 1969) div 4 - (y - 1901) div 100 + (y - 1601) div 400"

definition first_of_year :: "int \<Rightarrow> time" where
  "first_of_year y = day_from_year (if 0 \<le> y \<and> y \<le> 99 then 1900 + y else y) * ms_day"

definition pad2 :: "int \<Rightarrow> string" where
  "pad2 n = replicate (2 - length (show_int n)) (CHR ''0'') @ show_int n"

subsection \<open>Periods\<close>

datatype granularity = DAY | WEEK | MONTH

definition getIsoWeek :: "time \<Rightarrow> int \<times> int" where
  "getIsoWeek date =
     (let normalized = start_of_day date;
          day = (if getUTCDay normalized = 0 then 7 else getUTCDay normalized);
          normalized' = normalized + (4 - day) * ms_day;
          yearStart = first_of_year (getUTCFullYear normalized');
          week = ceil_div ((normalized' - yearStart) div ms_day + 1) 7
      in (getUTCFullYear normalized', week))"

definition formatAnalyticsPeriod :: "time \<Rightarrow> granularity \<Rightarrow> string" where
  "formatAnalyticsPeriod date g =
     (let year = show_int (getUTCFullYear date);
          month = pad2 (getUTCMonth date + 1);
          day = pad2 (getUTCDate date)
      in case g of
           DAY \<Rightarrow> year @ ''-'' @ month @ ''-'' @ day
         | WEEK \<Rightarrow> (let (y, w) = getIsoWeek date in show_int y @ ''-W'' @ pad2 w)
         | MONTH \<Rightarrow> year @ ''-'' @ month)"

lemma period_examples:
  "formatAnalyticsPeriod 1735516800000 DAY = ''2024-12-30''"
  "formatAnalyticsPeriod 1735516800000 WEEK = ''2025-W01''"
  "formatAnalyticsPeriod 1735516800000 MONTH = ''2024-12''"
  by code_simp+

subsection \<open>The year of a day\<close>

text \<open>\<open>march_days y\<close> counts the days of the years before \<open>y\<close> when years start on 1 March.\<close>

definition march_days :: "int \<Rightarrow> int" where
  "march_days y = 365 * y + y div 4 - y div 100 + y div 400"

definition era_year :: "int \<Rightarrow> int" where
  "era_year doe = (doe - doe div 1460 + doe div 36524 - doe div 146096) div 365"

lemma div_step:
  fixes y n :: int
  assumes "0 < n"
  shows "(y + 1) div n = y div n + (if n dvd y + 1 then 1 else 0)"
proof (cases "y mod n = n - 1")
  case True
  have y: "y + 1 = n * (y div n + 1)"
    using div_mult_mod_eq [of y n] True by (simp add: algebra_simps)
  have "(y + 1) div n = y div n + 1" unfolding y using assms by simp
  moreover have "n dvd y + 1" unfolding y by simp
  ultimately show ?thesis by simp
next
  case False
  have "0 \<le> y mod n" "y mod n < n" using assms by simp_all
  then have r: "0 \<le> y mod n + 1" "y mod n + 1 < n" using False by linarith+
  have y: "y + 1 = (y mod n + 1) + n * (y div n)"
    using div_mult_mod_eq [of y n] by (simp add: algebra_simps)
  have q: "(r + n * q) div n = q" "(r + n * q) mod n = r" if "0 \<le> r" "r < n" for r q
    using that by (simp_all add: div_pos_pos_trivial mod_pos_pos_trivial)
  have "(y + 1) div n = y div n" "(y + 1) mod n = y mod n + 1"
    using q [OF r, of "y div n"] by (simp_all only: y [symmetric])
  moreover have "y mod n + 1 \<noteq> 0" using \<open>0 \<le> y mod n\<close> by linarith
  ultimately show ?thesis by (simp add: dvd_eq_mod_eq_0)
qed

lemma div_shift: "0 < n \<Longrightarrow> (y + n * k) div n = y div n + (k :: int)"
  by simp

lemma march_days_step: "march_days y + 365 \<le> march_days (y + 1)" "march_days (y + 1) \<le> march_days y + 366"
proof -
  have "4 dvd y + 1" if "100 dvd y + 1" using dvd_trans [of 4 100 "y + 1"] that by simp
  moreover have "100 dvd y + 1" if "400 dvd y + 1" using dvd_trans [of 100 400 "y + 1"] that by simp
  ultimately show "march_days y + 365 \<le> march_days (y + 1)" "march_days (y + 1) \<le> march_days y + 366"
    by (auto simp: march_days_def div_step)
qed

lemma march_days_era: "march_days (y + 400 * e) = march_days y + 146097 * e"
  using div_shift [of 4 y "100 * e"] div_shift [of 100 y "4 * e"] div_shift [of 400 y e]
  by (simp add: march_days_def)

lemma day_from_year_march: "day_from_year (y + 1) = march_days y - 719468 + 306"
  using div_shift [of 4 y "- 492"] div_shift [of 100 y "- 19"] div_shift [of 400 y "- 4"]
  by (simp add: march_days_def day_from_year_def)

lemma march_days_mono: "y \<le> z \<Longrightarrow> march_days y \<le> march_days z"
proof (induction rule: int_ge_induct)
  case (step z)
  then show ?case using march_days_step(1) [of z] by linarith
qed simp

lemma minus_div_mono:
  fixes a b n :: int
  assumes "a \<le> b" "1 < n"
  shows "a - a div n \<le> b - b div n"
  using assms(1)
proof (induction rule: int_ge_induct)
  case (step b)
  then show ?case using div_step [of n b] assms(2) by (simp split: if_split_asm)
qed simp

lemma era_year_mono:
  assumes "0 \<le> a" "a \<le> b" "b < 146097"
  shows "era_year a \<le> era_year b"
proof -
  define num where "num = (\<lambda>d :: int. d - d div 1460 + d div 36524)"
  have mono: "num x \<le> num y" if "x \<le> y" for x y
    unfolding num_def using minus_div_mono [OF that, of 1460] zdiv_mono1 [OF that, of 36524] by linarith
  have e: "era_year d = num d div 365" if "0 \<le> d" "d < 146096" for d
    using div_pos_pos_trivial [of d 146096] that by (simp add: era_year_def num_def)
  show ?thesis
  proof (cases "b = 146096")
    case False
    then have "b < 146096" using assms(3) by linarith
    then show ?thesis using e [of a] e [of b] mono [OF assms(2)] assms zdiv_mono1 [of "num a" "num b" 365] by simp
  next
    case True
    show ?thesis
    proof (cases "a = 146096")
      case False
      then have "a < 146096" "a \<le> 146095" using assms True by linarith+
      moreover have "num 146095 = 145998" by (simp add: num_def)
      ultimately have "era_year a \<le> 145998 div 365"
        using e [of a] mono [of a 146095] assms(1) zdiv_mono1 [of "num a" 145998 365] by simp
      then show ?thesis by (simp add: True era_year_def)
    qed (simp add: True)
  qed
qed

text \<open>The two ends of each of the 400 years of an era.\<close>

lemma era_year_ends:
  "list_all (\<lambda>y. era_year (march_days y) = y \<and> era_year (march_days (y + 1) - 1) = y) [0..399]"
  by code_simp

lemma march_year_exists: "0 \<le> d \<Longrightarrow> d < march_days (int k) \<Longrightarrow> \<exists>y. 0 \<le> y \<and> y < int k \<and> march_days y \<le> d \<and> d < march_days (y + 1)"
proof (induction k)
  case 0
  then show ?case by (simp add: march_days_def)
next
  case (Suc k)
  show ?case
  proof (cases "d < march_days (int k)")
    case True
    then show ?thesis using Suc by fastforce
  next
    case False
    then show ?thesis using Suc.prems by (intro exI [of _ "int k"]) (simp add: add.commute)
  qed
qed

lemma era_year_bounds:
  assumes "0 \<le> d" "d < 146097"
  shows "0 \<le> era_year d" "era_year d < 400" "march_days (era_year d) \<le> d" "d < march_days (era_year d + 1)"
proof -
  have "d < march_days (int 400)" using assms by (simp add: march_days_def)
  then obtain y where y: "0 \<le> y" "y < 400" "march_days y \<le> d" "d < march_days (y + 1)"
    using march_year_exists [of d 400] assms(1) by auto
  have "era_year (march_days y) = y" "era_year (march_days (y + 1) - 1) = y"
    using era_year_ends y(1,2) by (simp_all add: list_all_iff)
  moreover have "0 \<le> march_days y" using march_days_mono [OF y(1)] by (simp add: march_days_def)
  moreover have "march_days (y + 1) - 1 < 146097" using march_days_mono [of "y + 1" 400] y(2) by (simp add: march_days_def)
  ultimately have "era_year d = y"
    using era_year_mono [of "march_days y" d] era_year_mono [of d "march_days (y + 1) - 1"] y assms by simp
  with y show "0 \<le> era_year d" "era_year d < 400" "march_days (era_year d) \<le> d" "d < march_days (era_year d + 1)"
    by simp_all
qed

lemma march_day_january: "0 \<le> doy \<Longrightarrow> doy \<le> 366 \<Longrightarrow>
  (let (mp, d) = month_day doy in (if mp < 10 then mp + 3 else mp - 9) \<le> 2) \<longleftrightarrow> 306 \<le> doy"
  by (auto simp: month_day_def Let_def split: if_splits)

lemma civil_year:
  assumes "civil_of_days n = (y, m, d)"
  shows "day_from_year y \<le> n" "n < day_from_year (y + 1)"
proof -
  define era where "era = (n + 719468) div 146097"
  define doe where "doe = (n + 719468) mod 146097"
  define Y where "Y = era_year doe + 400 * era"
  define doy where "doy = doe - march_days (era_year doe)"
  have doe: "0 \<le> doe" "doe < 146097" by (simp_all add: doe_def)
  note b = era_year_bounds [OF doe]
  have n: "n = march_days Y - 719468 + doy"
    using div_mult_mod_eq [of "n + 719468" 146097]
    by (simp add: Y_def doy_def march_days_era doe_def era_def algebra_simps)
  have doy: "0 \<le> doy" "doy \<le> 366" "n < march_days (Y + 1) - 719468"
  proof -
    show "0 \<le> doy" "doy \<le> 366" using b march_days_step [of "era_year doe"] by (simp_all add: doy_def)
    have "march_days (Y + 1) = march_days (era_year doe + 1) + 146097 * era"
      using march_days_era [of "era_year doe + 1" era] by (simp add: Y_def algebra_simps)
    then show "n < march_days (Y + 1) - 719468"
      using b(4) march_days_era [of "era_year doe" era] by (simp add: n Y_def doy_def)
  qed
  have div0: "era_year doe div 400 = 0" using b by (intro div_pos_pos_trivial)
  have "y = Y + (if 306 \<le> doy then 1 else 0)"
    using assms march_day_january [OF doy(1,2)] div0
    unfolding civil_of_days_def Let_def era_def [symmetric] doe_def [symmetric] era_year_def [symmetric]
    by (auto simp: Y_def doy_def march_days_def split_def Let_def algebra_simps split: if_split_asm)
  then show "day_from_year y \<le> n" "n < day_from_year (y + 1)"
    using day_from_year_march [of Y] day_from_year_march [of "Y - 1"] day_from_year_march [of "Y + 1"]
      march_days_step [of "Y - 1"] march_days_step [of Y] doy n
    by (simp_all add: add.commute split: if_split_asm)
qed


lemma day_from_year_mono: "y \<le> z \<Longrightarrow> day_from_year y \<le> day_from_year z"
  using day_from_year_march [of "y - 1"] day_from_year_march [of "z - 1"] march_days_mono [of "y - 1" "z - 1"] by simp

lemma civil_year_after_1970:
  assumes "civil_of_days n = (y, m, d)" "0 \<le> n"
  shows "1970 \<le> y"
proof (rule ccontr)
  assume "\<not> 1970 \<le> y"
  then have "day_from_year (y + 1) \<le> day_from_year 1970" by (intro day_from_year_mono) simp
  then show False using civil_year(2) [OF assms(1)] assms(2) by (simp add: day_from_year_def)
qed

subsection \<open>ISO 8601\<close>

text \<open>The weeks of a year, as ISO 8601 defines them: week 1 is the week, Monday to Sunday, that contains 4 January.\<close>

definition iso_year_start :: "int \<Rightarrow> int" where
  "iso_year_start y = (let jan4 = day_from_year y + 3 in jan4 - (jan4 + 3) mod 7)"

lemma day_number_start [simp]: "day_number (start_of_day t) = day_number t"
  by (simp add: start_of_day_def day_number_def)

lemma day_number_shift: "day_number (start_of_day t + k * ms_day) = day_number t + k"
proof -
  have "start_of_day t + k * ms_day = (day_number t + k) * ms_day"
    by (simp add: start_of_day_def distrib_right)
  moreover have "(day_number t + k) * ms_day div ms_day = day_number t + k"
    by (rule nonzero_mult_div_cancel_right) simp
  ultimately show ?thesis by (simp only: day_number_def)
qed

text \<open>The arithmetic of the week: \<open>th\<close> is the Thursday of the week of day \<open>n\<close>, in the year that starts on day \<open>a\<close>.\<close>

lemma thursday_of_week:
  fixes n :: int
  shows "n + (4 - (if (n + 4) mod 7 = 0 then 7 else (n + 4) mod 7)) = n - (n + 3) mod 7 + 3"
proof -
  have "(n + 4) mod 7 = ((n + 3) mod 7 + 1) mod 7" by (simp add: mod_simps add.assoc)
  also have "\<dots> = (if (n + 3) mod 7 = 6 then 0 else (n + 3) mod 7 + 1)"
  proof -
    have "(r + 1) mod 7 = (if r = 6 then 0 else r + 1)" if "0 \<le> r" "r < 7" for r :: int
      using that by simp
    then show ?thesis by simp
  qed
  moreover have "0 \<le> (n + 3) mod 7" by simp
  then have "(n + 3) mod 7 + 1 \<noteq> 0" by linarith
  ultimately show ?thesis by simp
qed

lemma week_arith:
  fixes a n :: int
  assumes "a \<le> th" "th < b" "th = n - (n + 3) mod 7 + 3"
  defines "s \<equiv> a + 3 - (a + 6) mod 7" and "s' \<equiv> b + 3 - (b + 6) mod 7"
  shows "s \<le> n" "n < s'" "ceil_div (th - a + 1) 7 = (n - s) div 7 + 1"
proof -
  define w where "w = (n + 3) div 7"
  have n: "n + 3 = 7 * w + (n + 3) mod 7" "0 \<le> (n + 3) mod 7" "(n + 3) mod 7 < 7"
    using div_mult_mod_eq [of "n + 3" 7] by (simp_all add: w_def)
  have th: "th = 7 * w" using n(1) assms(3) by simp
  define v where "v = (a + 6) div 7"
  have a: "a + 6 = 7 * v + (a + 6) mod 7" "0 \<le> (a + 6) mod 7" "(a + 6) mod 7 < 7"
    using div_mult_mod_eq [of "a + 6" 7] by (simp_all add: v_def)
  define v' where "v' = (b + 6) div 7"
  have b: "b + 6 = 7 * v' + (b + 6) mod 7" "0 \<le> (b + 6) mod 7" "(b + 6) mod 7 < 7"
    using div_mult_mod_eq [of "b + 6" 7] by (simp_all add: v'_def)
  have s: "s = 7 * v - 3" "s' = 7 * v' - 3" using a(1) b(1) by (simp_all add: s_def s'_def)
  have v: "v \<le> w" using assms(1) th a by linarith
  have v': "w < v'" using assms(2) th b by linarith
  show "s \<le> n" using v n s by linarith
  show "n < s'" using v' n s by linarith
  have "ceil_div (th - a + 1) 7 = w - v + 1"
  proof -
    have "- (th - a + 1) = 7 * (v - w - 1) + (a + 6) mod 7" using th a(1) by simp
    then have "(- (th - a + 1)) div 7 = v - w - 1"
      using a(2,3) by (simp only:) (simp add: div_pos_pos_trivial)
    then show ?thesis unfolding ceil_div_def by linarith
  qed
  moreover have "(n - s) div 7 = w - v"
  proof -
    have "n - s = 7 * (w - v) + (n + 3) mod 7" using n(1) s by simp
    then show ?thesis using n(2,3) by (simp only:) (simp add: div_pos_pos_trivial)
  qed
  ultimately show "ceil_div (th - a + 1) 7 = (n - s) div 7 + 1" by simp
qed

text \<open>C24: \<open>getIsoWeek\<close> is the week of ISO 8601: for every time from 1970 on, the day lies between the first Monday of the
  returned year's first week and that of the next year, and the returned week counts the weeks from that Monday.\<close>

theorem iso_week_is_standard:
  assumes "0 \<le> t" and "getIsoWeek t = (y, w)"
  shows "iso_year_start y \<le> day_number t \<and> day_number t < iso_year_start (y + 1)
    \<and> w = (day_number t - iso_year_start y) div 7 + 1"
proof -
  let ?n = "day_number t"
  define th where "th = ?n - (?n + 3) mod 7 + 3"
  have shift: "start_of_day t + (4 - (if getUTCDay (start_of_day t) = 0 then 7 else getUTCDay (start_of_day t))) * ms_day
      = th * ms_day"
    unfolding getUTCDay_def day_number_start th_def thursday_of_week [symmetric]
    unfolding start_of_day_def by (rule distrib_right [symmetric])
  have day: "day_number (th * ms_day) = th" unfolding day_number_def by (rule nonzero_mult_div_cancel_right) simp
  have n0: "0 \<le> ?n" using assms(1) by (simp add: day_number_def pos_imp_zdiv_nonneg_iff)
  have th0: "0 \<le> th"
  proof -
    have "?n = 7 * ((?n + 3) div 7) + (?n + 3) mod 7 - 3" using div_mult_mod_eq [of "?n + 3" 7] by simp
    moreover have "0 \<le> (?n + 3) div 7" using n0 by simp
    ultimately show ?thesis unfolding th_def by linarith
  qed
  obtain y' m d where c: "civil_of_days th = (y', m, d)" by (metis prod_cases3)
  have y': "1970 \<le> y'" using civil_year_after_1970 [OF c th0] .
  have fy: "first_of_year y' = day_from_year y' * ms_day" using y' by (simp add: first_of_year_def)
  have y: "y = y'" and w: "w = ceil_div (th - day_from_year y' + 1) 7"
  proof -
    have "(th * ms_day - first_of_year y') div ms_day = th - day_from_year y'"
      unfolding fy left_diff_distrib [symmetric] by (rule nonzero_mult_div_cancel_right) simp
    moreover have "getUTCFullYear (th * ms_day) = y'" unfolding getUTCFullYear_def day c by simp
    ultimately have "getIsoWeek t = (y', ceil_div (th - day_from_year y' + 1) 7)"
      by (simp only: getIsoWeek_def Let_def shift)
    then show "y = y'" "w = ceil_div (th - day_from_year y' + 1) 7" using assms(2) by simp_all
  qed
  show ?thesis
    using week_arith [OF civil_year [OF c] th_def] by (simp add: iso_year_start_def y w add.commute)
qed

theorem iso_week_is_standard_witness:
  "iso_year_start 2025 \<le> day_number 1735516800000 \<and> day_number 1735516800000 < iso_year_start (2025 + 1)
    \<and> 1 = (day_number 1735516800000 - iso_year_start 2025) div 7 + 1"
proof -
  have "getIsoWeek 1735516800000 = (2025, 1)" by code_simp
  then show ?thesis by (intro iso_week_is_standard) simp_all
qed

end
