(* ===== verification/Tx_Analytics.thy ===== *)
theory Tx_Analytics
  imports Transactions Date_Periods Doubles
begin

text \<open>
  The queries of \<open>src/transactions/transactions.service.ts\<close> over the transaction table (\<open>findAll\<close>,
  \<open>findOne\<close>, \<open>getAnalytics\<close>), its tax strategies, and \<open>recordOnBlockchain\<close>.  The table and its rows are those of \<open>Transactions\<close>;
  numbers of a response are doubles (\<open>Doubles\<close>), since \<open>toNumber\<close> turns the exact decimals of the
  database into JavaScript numbers.  The cursor of a page is the base64 text of an ISO time with milliseconds; the
  model keeps the time it decodes to, and a text that decodes to no time as \<open>Cursor_malformed\<close>.
\<close>

subsection \<open>Responses\<close>

definition toNumber :: "rat \<Rightarrow> rat" where
  "toNumber value = dbl value"

definition roundCurrency :: "rat \<Rightarrow> rat" where
  "roundCurrency value = dbl (of_int (math_round (dbl (value * 100))) / 100)"

definition roundPercentage :: "rat \<Rightarrow> rat" where
  "roundPercentage value = dbl (of_int (math_round (dbl (value * 100))) / 100)"

record tx_response =
  tr_id :: string
  tr_propertyId :: string
  tr_buyerId :: string
  tr_sellerId :: string
  tr_amount :: rat
  tr_type :: string
  tr_status :: transaction_status
  tr_blockchainHash :: "string option"
  tr_contractAddress :: "string option"
  tr_notes :: "string option"
  tr_escrowStatus :: "string option"
  tr_escrowAmount :: "rat option"
  tr_paymentStatus :: "string option"
  tr_createdAt :: time

definition toResponseDto :: "transaction \<Rightarrow> tx_response" where
  "toResponseDto t = \<lparr>tr_id = tx_id t, tr_propertyId = tx_propertyId t, tr_buyerId = tx_buyerId t,
     tr_sellerId = tx_sellerId t, tr_amount = toNumber (tx_amount t), tr_type = tx_type t,
     tr_status = tx_status t, tr_blockchainHash = tx_blockchainHash t,
     tr_contractAddress = tx_contractAddress t, tr_notes = tx_notes t,
     tr_escrowStatus = tx_escrowStatus t, tr_escrowAmount = tx_escrowAmount t,
     tr_paymentStatus = tx_paymentStatus t, tr_createdAt = tx_createdAt t\<rparr>"

definition tx_findOne :: "string \<Rightarrow> tx_state \<Rightarrow> tx_response result" where
  "tx_findOne i s =
     (case find_tx i s of
        None \<Rightarrow> Inl (NotFound ''Transaction not found'')
      | Some t \<Rightarrow> Inr (toResponseDto t))"

subsection \<open>Recording on the blockchain\<close>

text \<open>\<open>chain\<close> is \<open>BlockchainService.recordTransactionOnBlockchain\<close>, which returns the hash and the contract, or throws; an
  invalid address is only logged.\<close>

record chain_request =
  ch_transactionId :: string
  ch_propertyId :: string
  ch_buyerAddress :: string
  ch_sellerAddress :: string
  ch_amount :: rat
  ch_transactionType :: string
  ch_propertyAddress :: "string option"

definition wallet_of :: "string option \<Rightarrow> string \<Rightarrow> string" where
  "wallet_of given userId =
     (case given of Some a \<Rightarrow> if a = [] then ''0x'' @ take 40 userId else a | None \<Rightarrow> ''0x'' @ take 40 userId)"

definition recordOnBlockchain ::
  "(chain_request \<Rightarrow> (string \<times> string option) result) \<Rightarrow> (string \<Rightarrow> string option) \<Rightarrow> string \<Rightarrow> string option \<Rightarrow> string option \<Rightarrow>
   tx_state \<Rightarrow> (tx_response, tx_state) outcome" where
  "recordOnBlockchain chain address_of i buyer seller s =
     (case find_tx i s of
        None \<Rightarrow> (Inl (NotFound ''Transaction not found''), s)
      | Some t \<Rightarrow>
          if (case tx_blockchainHash t of Some h \<Rightarrow> h \<noteq> [] | None \<Rightarrow> False)
          then (Inl (BadRequest ''Transaction already recorded on blockchain''), s)
          else
            (case chain \<lparr>ch_transactionId = i, ch_propertyId = tx_propertyId t,
                 ch_buyerAddress = wallet_of buyer (tx_buyerId t), ch_sellerAddress = wallet_of seller (tx_sellerId t),
                 ch_amount = toNumber (tx_amount t), ch_transactionType = tx_type t,
                 ch_propertyAddress = address_of (tx_propertyId t)\<rparr> of
               Inl e \<Rightarrow> (Inl e, s)
             | Inr (h, contract) \<Rightarrow>
                 (let f = (\<lambda>t. t\<lparr>tx_blockchainHash := Some h,
                       tx_contractAddress := (case contract of Some c \<Rightarrow> Some c | None \<Rightarrow> tx_contractAddress t)\<rparr>)
                  in (Inr (toResponseDto (f t)), update_tx i f s))))"

subsection \<open>Pages\<close>

datatype page_cursor = No_cursor | Cursor_at time | Cursor_malformed

record tx_list_query =
  lq_cursor :: page_cursor
  lq_propertyId :: "string option"
  lq_buyerId :: "string option"
  lq_sellerId :: "string option"
  lq_status :: "transaction_status option"
  lq_type :: "string option"
  lq_page :: nat
  lq_limit :: nat

record tx_page =
  pg_total :: nat
  pg_page :: nat
  pg_limit :: nat
  pg_items :: "tx_response list"
  pg_nextCursor :: "time option"
  pg_previousCursor :: page_cursor

definition tx_where :: "tx_list_query \<Rightarrow> transaction \<Rightarrow> bool" where
  "tx_where q t \<longleftrightarrow>
     filter_by (lq_propertyId q) (tx_propertyId t) \<and> filter_by (lq_buyerId q) (tx_buyerId t)
     \<and> filter_by (lq_sellerId q) (tx_sellerId t)
     \<and> (case lq_status q of None \<Rightarrow> True | Some st \<Rightarrow> tx_status t = st)
     \<and> filter_by (lq_type q) (tx_type t)
     \<and> (case lq_cursor q of Cursor_at c \<Rightarrow> tx_createdAt t < c | _ \<Rightarrow> True)"

text \<open>A malformed cursor is an invalid date, which Prisma rejects; an empty page of size 0 has no last element.\<close>

definition tx_findAll :: "tx_list_query \<Rightarrow> tx_state \<Rightarrow> tx_page result" where
  "tx_findAll q s =
     (if lq_cursor q = Cursor_malformed then Inl (InternalError ''Invalid value for argument `lt`'')
      else
        (let skip = (if lq_cursor q = No_cursor then (lq_page q - 1) * lq_limit q else 0);
             rows = filter (tx_where q) (ts_transactions s);
             txs = tbl_page skip (lq_limit q) (tbl_desc tx_createdAt rows)
         in if length txs = lq_limit q \<and> txs = []
            then Inl (InternalError ''Cannot read properties of undefined'')
            else Inr \<lparr>pg_total = length rows, pg_page = lq_page q, pg_limit = lq_limit q,
                   pg_items = map toResponseDto txs,
                   pg_nextCursor = (if length txs = lq_limit q then Some (tx_createdAt (last txs)) else None),
                   pg_previousCursor = lq_cursor q\<rparr>))"

text \<open>A client that follows \<open>nextCursor\<close> until it is null.\<close>

fun read_pages :: "nat \<Rightarrow> tx_list_query \<Rightarrow> tx_state \<Rightarrow> tx_response list" where
  "read_pages 0 q s = []"
| "read_pages (Suc fuel) q s =
     (case tx_findAll q s of
        Inl e \<Rightarrow> []
      | Inr p \<Rightarrow> pg_items p @
          (case pg_nextCursor p of None \<Rightarrow> [] | Some c \<Rightarrow> read_pages fuel (q\<lparr>lq_cursor := Cursor_at c\<rparr>) s))"

subsection \<open>Analytics\<close>

record analytics_query =
  aq_startDate :: "time option"
  aq_endDate :: "time option"
  aq_granularity :: "granularity option"
  aq_type :: "string option"
  aq_maxDays :: "int option"

definition max_days :: "analytics_query \<Rightarrow> int" where
  "max_days q = (case aq_maxDays q of Some d \<Rightarrow> d | None \<Rightarrow> 365)"

definition check_range :: "analytics_query \<Rightarrow> http_error option" where
  "check_range q =
     (case (aq_startDate q, aq_endDate q) of
        (Some a, Some b) \<Rightarrow>
          if b < a then Some (BadRequest ''endDate must be on or after startDate'')
          else if b - a > max_days q * ms_day
          then Some (BadRequest (''Date range cannot exceed '' @ show_int (max_days q) @ '' days''))
          else None
      | _ \<Rightarrow> None)"

text \<open>\<open>setDate\<close> on a server in UTC moves a time by whole days.\<close>

definition created_range :: "analytics_query \<Rightarrow> time option \<times> time option" where
  "created_range q =
     (case (aq_startDate q, aq_endDate q) of
        (None, None) \<Rightarrow> (None, None)
      | (Some a, None) \<Rightarrow> (Some a, Some (a + max_days q * ms_day))
      | (None, Some b) \<Rightarrow> (Some (b - max_days q * ms_day), Some b)
      | (Some a, Some b) \<Rightarrow> (Some a, Some b))"

definition analytics_where :: "analytics_query \<Rightarrow> transaction \<Rightarrow> bool" where
  "analytics_where q t \<longleftrightarrow>
     filter_by (aq_type q) (tx_type t)
     \<and> range_filter (fst (created_range q)) (snd (created_range q)) (Some (tx_createdAt t))"

record bucket =
  bu_transactionCount :: nat
  bu_totalVolume :: rat
  bu_completedCount :: nat
  bu_revenue :: rat

definition add_to_bucket :: "transaction \<Rightarrow> bucket \<Rightarrow> bucket" where
  "add_to_bucket t b =
     (let amount = toNumber (tx_amount t);
          b1 = b\<lparr>bu_transactionCount := bu_transactionCount b + 1, bu_totalVolume := dbl (bu_totalVolume b + amount)\<rparr>
      in if tx_status t = Tx_COMPLETED
         then b1\<lparr>bu_completedCount := bu_completedCount b1 + 1, bu_revenue := dbl (bu_revenue b1 + amount)\<rparr>
         else b1)"

text \<open>A \<open>Map\<close> keeps the order of first insertion.\<close>

fun bucket_put :: "string \<Rightarrow> (bucket \<Rightarrow> bucket) \<Rightarrow> (string \<times> bucket) list \<Rightarrow> (string \<times> bucket) list" where
  "bucket_put p f [] = [(p, f \<lparr>bu_transactionCount = 0, bu_totalVolume = 0, bu_completedCount = 0, bu_revenue = 0\<rparr>)]"
| "bucket_put p f ((p', b) # bs) = (if p' = p then (p', f b) # bs else (p', b) # bucket_put p f bs)"

definition volume_buckets :: "transaction list \<Rightarrow> granularity \<Rightarrow> (string \<times> bucket) list" where
  "volume_buckets txs g =
     foldl (\<lambda>bs t. bucket_put (formatAnalyticsPeriod (tx_createdAt t) g) (add_to_bucket t) bs) [] txs"

definition buildVolumeTrends :: "transaction list \<Rightarrow> granularity \<Rightarrow> (string \<times> bucket) list" where
  "buildVolumeTrends txs g =
     map (\<lambda>(p, b). (p, b\<lparr>bu_totalVolume := roundCurrency (bu_totalVolume b), bu_revenue := roundCurrency (bu_revenue b)\<rparr>))
       (volume_buckets txs g)"

record tx_analytics =
  an_totalTransactions :: nat
  an_completedTransactions :: nat
  an_pendingTransactions :: nat
  an_cancelledTransactions :: nat
  an_totalVolume :: rat
  an_averagePrice :: rat
  an_completionRate :: rat
  an_revenue :: rat
  an_volumeTrends :: "(string \<times> bucket) list"

definition sum_amounts :: "transaction list \<Rightarrow> rat" where
  "sum_amounts txs = foldl (\<lambda>acc t. dbl (acc + toNumber (tx_amount t))) 0 txs"

definition getAnalytics :: "analytics_query \<Rightarrow> tx_state \<Rightarrow> tx_analytics result" where
  "getAnalytics q s =
     (case check_range q of
        Some e \<Rightarrow> Inl e
      | None \<Rightarrow>
          (let txs = tbl_asc tx_createdAt (filter (analytics_where q) (ts_transactions s));
               total = length txs;
               completed = filter (\<lambda>t. tx_status t = Tx_COMPLETED) txs;
               totalVolume = roundCurrency (sum_amounts txs)
           in Inr \<lparr>an_totalTransactions = total,
                an_completedTransactions = length completed,
                an_pendingTransactions = length (filter (\<lambda>t. tx_status t = Tx_PENDING) txs),
                an_cancelledTransactions = length (filter (\<lambda>t. tx_status t = Tx_CANCELLED) txs),
                an_totalVolume = totalVolume,
                an_averagePrice = (if total > 0 then roundCurrency (dbl (totalVolume / of_nat total)) else 0),
                an_completionRate =
                  (if total > 0 then roundPercentage (dbl (dbl (of_nat (length completed) / of_nat total) * 100)) else 0),
                an_revenue = roundCurrency (sum_amounts completed),
                an_volumeTrends =
                  buildVolumeTrends txs (case aq_granularity q of Some g \<Rightarrow> g | None \<Rightarrow> MONTH)\<rparr>))"

subsection \<open>Tax strategies\<close>

record tax_strategy =
  st_id :: string
  st_transactionId :: string
  st_createdById :: string
  st_strategyType :: string
  st_jurisdiction :: string
  st_explanation :: string
  st_version :: nat

record tax_state = tx_state +
  xs_strategies :: "tax_strategy list"

record tax_dto =
  xd_strategyType :: string
  xd_estimatedTaxRate :: "rat option"
  xd_explanation :: "string option"

definition join_jurisdiction :: "string option list \<Rightarrow> string" where
  "join_jurisdiction parts =
     (let j = js_join '', '' (filter (\<lambda>p. p \<noteq> []) (map (\<lambda>p. case p of Some v \<Rightarrow> v | None \<Rightarrow> []) parts))
      in if j = [] then ''Unknown'' else j)"

definition tax_notice :: "string \<Rightarrow> string \<Rightarrow> notification" where
  "tax_notice userId message =
     \<lparr>no_userId = userId, no_title = ''Tax Strategy Created'', no_message = message, no_type = ''TAX_STRATEGY_CREATED''\<rparr>"

text \<open>\<open>place\<close> is the city, state and country of the transaction's property.\<close>

definition createTaxStrategySuggestion ::
  "(string \<Rightarrow> string option list) \<Rightarrow> string \<Rightarrow> string \<Rightarrow> tax_dto \<Rightarrow> string \<Rightarrow> tax_state \<Rightarrow> (tax_strategy, tax_state) outcome" where
  "createTaxStrategySuggestion place newId transactionId dto sub s =
     (case tbl_find tx_id transactionId (ts_transactions s) of
        None \<Rightarrow> (Inl (NotFound ''Transaction not found''), s)
      | Some t \<Rightarrow>
          (let r = \<lparr>st_id = newId, st_transactionId = transactionId, st_createdById = sub,
                 st_strategyType = xd_strategyType dto,
                 st_jurisdiction = join_jurisdiction (place (tx_propertyId t)),
                 st_explanation = (case xd_explanation dto of Some x \<Rightarrow> x | None \<Rightarrow> []),
                 st_version = 1\<rparr>;
               sent = [tax_notice sub (''Tax strategy \"'' @ xd_strategyType dto @ ''\" created for transaction '' @ transactionId),
                       tax_notice (tx_buyerId t) (''A tax strategy was created for your transaction '' @ transactionId)]
           in (Inr r, s\<lparr>xs_strategies := tbl_create r (xs_strategies s), ts_sent := ts_sent s @ sent\<rparr>)))"

record tax_update =
  xu_strategyType :: "string option"
  xu_jurisdiction :: "string option"

definition or_keep :: "string option \<Rightarrow> string \<Rightarrow> string" where
  "or_keep v old = (case v of None \<Rightarrow> old | Some w \<Rightarrow> if w = [] then old else w)"

text \<open>The two statements of \<open>updateTaxStrategySuggestion\<close>: the read, and the write that uses its version.\<close>

definition find_strategy :: "string \<Rightarrow> string \<Rightarrow> tax_state \<Rightarrow> tax_strategy option" where
  "find_strategy transactionId strategyId s =
     List.find (\<lambda>r. st_id r = strategyId \<and> st_transactionId r = transactionId) (xs_strategies s)"

definition patch_strategy :: "tax_update \<Rightarrow> tax_strategy \<Rightarrow> tax_strategy \<Rightarrow> tax_strategy" where
  "patch_strategy dto existing r = r\<lparr>
     st_strategyType := or_keep (xu_strategyType dto) (st_strategyType r),
     st_jurisdiction := or_keep (xu_jurisdiction dto) (st_jurisdiction r),
     st_version := st_version existing + 1\<rparr>"

definition write_strategy :: "string \<Rightarrow> tax_update \<Rightarrow> tax_strategy \<Rightarrow> tax_state \<Rightarrow> tax_state" where
  "write_strategy strategyId dto existing s =
     s\<lparr>xs_strategies := tbl_update st_id strategyId (patch_strategy dto existing) (xs_strategies s)\<rparr>"

definition updateTaxStrategySuggestion ::
  "string \<Rightarrow> string \<Rightarrow> tax_update \<Rightarrow> tax_state \<Rightarrow> (tax_strategy, tax_state) outcome" where
  "updateTaxStrategySuggestion transactionId strategyId dto s =
     (case find_strategy transactionId strategyId s of
        None \<Rightarrow> (Inl (NotFound ''Tax strategy not found''), s)
      | Some existing \<Rightarrow> (Inr (patch_strategy dto existing existing), write_strategy strategyId dto existing s))"

subsection \<open>Reading page by page\<close>

lemma filter_below_last:
  assumes "sorted_wrt (\<lambda>a b. (f b :: int) < f a) L" "take n L \<noteq> []"
  shows "filter (\<lambda>x. f x < f (last (take n L))) L = drop n L"
proof -
  obtain xs z where z: "take n L = xs @ [z]" using assms(2) by (metis rev_exhaust)
  have L: "L = (xs @ [z]) @ drop n L" using z by (metis append_take_drop_id)
  have "sorted_wrt (\<lambda>a b. f b < f a) ((xs @ [z]) @ drop n L)" using assms(1) by (subst (asm) L)
  then have "filter (\<lambda>x. f x < f z) ((xs @ [z]) @ drop n L) = drop n L"
    by (fastforce simp: sorted_wrt_append filter_empty_conv filter_id_conv)
  then have "filter (\<lambda>x. f x < f z) L = drop n L" by (simp only: L [symmetric])
  then show ?thesis by (simp add: z)
qed

definition page_rows :: "tx_list_query \<Rightarrow> tx_state \<Rightarrow> transaction list" where
  "page_rows q s = tbl_desc tx_createdAt (filter (tx_where q) (ts_transactions s))"

definition from_start :: "tx_list_query \<Rightarrow> bool" where
  "from_start q \<longleftrightarrow> lq_cursor q \<noteq> Cursor_malformed \<and> (lq_cursor q = No_cursor \<longrightarrow> lq_page q = 1)"

lemma where_next:
  assumes "lq_cursor q \<noteq> Cursor_malformed" "tx_where q r"
  shows "tx_where (q\<lparr>lq_cursor := Cursor_at (tx_createdAt r)\<rparr>) t \<longleftrightarrow> tx_where q t \<and> tx_createdAt t < tx_createdAt r"
  using assms by (cases "lq_cursor q") (auto simp: tx_where_def)

lemma page_rows_next:
  assumes "lq_cursor q \<noteq> Cursor_malformed" "r \<in> set (page_rows q s)"
  shows "page_rows (q\<lparr>lq_cursor := Cursor_at (tx_createdAt r)\<rparr>) s
    = filter (\<lambda>t. tx_createdAt t < tx_createdAt r) (page_rows q s)"
proof -
  have w: "tx_where q r" using assms(2) by (simp add: page_rows_def)
  have e: "tx_where (q\<lparr>lq_cursor := Cursor_at (tx_createdAt r)\<rparr>)
      = (\<lambda>t. tx_where q t \<and> tx_createdAt t < tx_createdAt r)"
    by (intro ext where_next assms(1) w)
  show ?thesis unfolding page_rows_def tbl_desc_def e filter_sort filter_filter ..
qed

lemma findAll_from_start:
  assumes "from_start q" "1 \<le> lq_limit q"
  shows "tx_findAll q s = Inr \<lparr>pg_total = length (page_rows q s), pg_page = lq_page q, pg_limit = lq_limit q,
    pg_items = map toResponseDto (take (lq_limit q) (page_rows q s)),
    pg_nextCursor = (if lq_limit q \<le> length (page_rows q s)
       then Some (tx_createdAt (last (take (lq_limit q) (page_rows q s)))) else None),
    pg_previousCursor = lq_cursor q\<rparr>"
proof -
  define L where "L = page_rows q s"
  have skip: "(if lq_cursor q = No_cursor then (lq_page q - 1) * lq_limit q else 0) = 0"
    and cursor: "lq_cursor q \<noteq> Cursor_malformed" using assms(1) by (auto simp: from_start_def)
  have len: "length (filter (tx_where q) (ts_transactions s)) = length L" by (simp add: L_def page_rows_def)
  have n: "length (take (lq_limit q) L) = lq_limit q \<longleftrightarrow> lq_limit q \<le> length L" by auto
  have ne: "\<not> (lq_limit q \<le> length L \<and> take (lq_limit q) L = [])" using assms(2) by auto
  show ?thesis
    unfolding tx_findAll_def Let_def skip len tbl_page_def drop_0 page_rows_def [symmetric] L_def [symmetric] n
    using cursor ne by (simp only: if_False)
qed

lemma read_pages_rows:
  assumes "sorted_wrt (\<lambda>a b. tx_createdAt b < tx_createdAt a) (page_rows q s)" "from_start q" "1 \<le> lq_limit q"
    and "length (page_rows q s) < fuel"
  shows "read_pages fuel q s = map toResponseDto (page_rows q s)"
  using assms
proof (induction fuel arbitrary: q)
  case (Suc fuel)
  let ?L = "page_rows q s" and ?n = "lq_limit q"
  show ?case
  proof (cases "?n \<le> length ?L")
    case False
    then show ?thesis using findAll_from_start [OF Suc.prems(2,3), of s] by simp
  next
    case True
    let ?z = "last (take ?n ?L)"
    let ?q = "q\<lparr>lq_cursor := Cursor_at (tx_createdAt ?z)\<rparr>"
    have ne: "take ?n ?L \<noteq> []" using True Suc.prems(3) by auto
    have "?z \<in> set ?L" using last_in_set [OF ne] by (rule in_set_takeD)
    then have rows: "page_rows ?q s = drop ?n ?L"
      using page_rows_next [of q ?z s] filter_below_last [OF Suc.prems(1) ne] Suc.prems(2) by (simp add: from_start_def)
    have "read_pages fuel ?q s = map toResponseDto (drop ?n ?L)"
      using Suc.IH [of ?q] Suc.prems True unfolding rows
      by (simp add: sorted_wrt_drop from_start_def)
    moreover have "take ?n ?L @ drop ?n ?L = ?L" by simp
    ultimately show ?thesis
      using findAll_from_start [OF Suc.prems(2,3), of s] True by (simp flip: map_append)
  qed
qed simp

lemma desc_strict:
  assumes "distinct (map f xs)"
  shows "sorted_wrt (\<lambda>a b. (f b :: int) < f a) (tbl_desc f xs)"
proof -
  have "distinct (map (\<lambda>r. - f r) (tbl_desc f xs))"
    using assms by (simp add: tbl_desc_def distinct_map inj_on_def)
  moreover have "sorted (map (\<lambda>r. - f r) (tbl_desc f xs))" by (simp add: tbl_desc_def)
  ultimately have "sorted_wrt (<) (map (\<lambda>r. - f r) (tbl_desc f xs))" by (simp add: strict_sorted_iff)
  then show ?thesis by (simp add: sorted_wrt_map)
qed

text \<open>C25: a client that follows \<open>nextCursor\<close> from the first page reads every matching transaction exactly once,
  newest first, when no two of them were created in the same millisecond; as many requests as there are rows, and
  one more, are enough.\<close>

theorem cursor_pages_are_complete:
  assumes "distinct (map tx_createdAt (filter (tx_where q) (ts_transactions s)))"
    and "lq_cursor q = No_cursor" and "lq_page q = 1" and "1 \<le> lq_limit q"
  shows "read_pages (Suc (length (filter (tx_where q) (ts_transactions s)))) q s
    = map toResponseDto (tbl_desc tx_createdAt (filter (tx_where q) (ts_transactions s)))"
  using read_pages_rows [of q s] desc_strict [OF assms(1)] assms(2-) by (simp add: page_rows_def from_start_def del: read_pages.simps)

definition tx_at :: "string \<Rightarrow> time \<Rightarrow> transaction" where
  "tx_at i now = new_tx i \<lparr>ct_propertyId = ''p'', ct_buyerId = ''b'', ct_sellerId = ''s'', ct_amount = 100,
     ct_type = ''SALE'', ct_notes = None\<rparr> now"

definition txs_at :: "time list \<Rightarrow> tx_state" where
  "txs_at ts = \<lparr>ts_transactions = map (\<lambda>(i, t). tx_at (show_nat i) t) (enumerate 0 ts),
     ts_commissions = [], ts_history = [], ts_milestones = [], ts_sent = []\<rparr>"

definition pages_of :: "nat \<Rightarrow> page_cursor \<Rightarrow> tx_list_query" where
  "pages_of n c = \<lparr>lq_cursor = c, lq_propertyId = Some ''p'', lq_buyerId = None, lq_sellerId = None,
     lq_status = None, lq_type = None, lq_page = 1, lq_limit = n\<rparr>"

theorem cursor_pages_are_complete_witness:
  "length (read_pages 4 (pages_of 2 No_cursor) (txs_at [5, 9, 7])) = 3"
proof -
  have f: "filter (tx_where (pages_of 2 No_cursor)) (ts_transactions (txs_at [5, 9, 7])) = ts_transactions (txs_at [5, 9, 7])"
    by code_simp
  have "distinct (map tx_createdAt (ts_transactions (txs_at [5, 9, 7])))" "length (ts_transactions (txs_at [5, 9, 7])) = 3"
    by code_simp+
  then show ?thesis
    using cursor_pages_are_complete [of "pages_of 2 No_cursor" "txs_at [5, 9, 7]"] unfolding f
    by (simp add: pages_of_def eval_nat_numeral del: read_pages.simps)
qed

lemma read_pages_below:
  "r \<in> set (read_pages fuel (q\<lparr>lq_cursor := Cursor_at c\<rparr>) s) \<Longrightarrow> tr_createdAt r < c"
proof (induction fuel arbitrary: c)
  case (Suc fuel)
  let ?q = "q\<lparr>lq_cursor := Cursor_at c\<rparr>"
  let ?T = "tbl_page 0 (lq_limit q) (page_rows ?q s)"
  have in_page: "tx_createdAt t < c" if "t \<in> set ?T" for t
    using that by (auto simp: tbl_page_def page_rows_def tx_where_def dest: in_set_takeD)
  show ?case
  proof (cases "tx_findAll ?q s")
    case (Inr p)
    have p: "pg_items p = map toResponseDto ?T" "pg_nextCursor p = (if ?T \<noteq> [] \<and> length ?T = lq_limit q then Some (tx_createdAt (last ?T)) else None)"
      using Inr by (auto simp: tx_findAll_def page_rows_def Let_def split: if_splits)
    consider "r \<in> set (pg_items p)" | c' where "pg_nextCursor p = Some c'" "r \<in> set (read_pages fuel (q\<lparr>lq_cursor := Cursor_at c'\<rparr>) s)"
      using Suc.prems Inr by (cases "pg_nextCursor p") auto
    then show ?thesis
    proof cases
      case 1
      then show ?thesis using in_page by (auto simp: p toResponseDto_def)
    next
      case 2
      then have "c' < c" using in_page last_in_set by (auto simp: p(2) split: if_splits)
      then show ?thesis using Suc.IH [OF 2(2)] by simp
    qed
  qed (use Suc.prems in simp)
qed simp

text \<open>the cursor of a page is the creation time of its last row alone, and the next page starts strictly below it: a
  matching transaction created in the same millisecond as the last row of a page, but not on that page, is on none of the
  pages a client reads from there.\<close>

theorem cursor_pages_lose_ties:
  assumes "tx_findAll q s = Inr p" and "pg_nextCursor p = Some c"
    and "tx_createdAt t = c" and "toResponseDto t \<notin> set (pg_items p)"
  shows "toResponseDto t \<notin> set (pg_items p @ read_pages fuel (q\<lparr>lq_cursor := Cursor_at c\<rparr>) s)"
  using assms read_pages_below [where r = "toResponseDto t" and fuel = fuel and q = q and c = c and s = s] by (auto simp: toResponseDto_def)

theorem cursor_pages_lose_ties_witness:
  "toResponseDto (tx_at ''2'' 7) \<notin> set (read_pages 9 (pages_of 2 (Cursor_at 7)) (txs_at [9, 7, 7]))
    \<and> tx_at ''2'' 7 \<in> set (ts_transactions (txs_at [9, 7, 7]))"
proof -
  obtain p where p: "tx_findAll (pages_of 2 No_cursor) (txs_at [9, 7, 7]) = Inr p"
    and cur: "pg_nextCursor p = Some 7" and items: "map tr_id (pg_items p) = [''0'', ''1'']"
  proof -
    have "(case tx_findAll (pages_of 2 No_cursor) (txs_at [9, 7, 7]) of Inr p \<Rightarrow>
        pg_nextCursor p = Some 7 \<and> map tr_id (pg_items p) = [''0'', ''1''] | Inl e \<Rightarrow> False)" by code_simp
    then show ?thesis using that by (auto split: sum.splits)
  qed
  have "tr_id (toResponseDto (tx_at ''2'' 7)) = ''2''" "tx_createdAt (tx_at ''2'' 7) = 7" by code_simp+
  then have "toResponseDto (tx_at ''2'' 7) \<notin> set (pg_items p)"
    using items by (auto dest: arg_cong [of _ _ set] simp: set_eq_iff image_iff)
  with \<open>tx_createdAt (tx_at ''2'' 7) = 7\<close>
  have "toResponseDto (tx_at ''2'' 7) \<notin> set (pg_items p @ read_pages 9 (pages_of 2 No_cursor\<lparr>lq_cursor := Cursor_at 7\<rparr>) (txs_at [9, 7, 7]))"
    by (intro cursor_pages_lose_ties [OF p cur])
  moreover have "pages_of 2 No_cursor\<lparr>lq_cursor := Cursor_at 7\<rparr> = pages_of 2 (Cursor_at 7)" by (simp add: pages_of_def)
  moreover have "tx_at ''2'' 7 \<in> set (ts_transactions (txs_at [9, 7, 7]))" by code_simp
  ultimately show ?thesis by simp
qed


subsection \<open>What the analytics count\<close>

lemma getAnalytics_Inr:
  assumes "getAnalytics q s = Inr a"
  obtains txs g where "check_range q = None"
    and "txs = tbl_asc tx_createdAt (filter (analytics_where q) (ts_transactions s))"
    and "an_totalTransactions a = length txs"
    and "an_completedTransactions a = length (filter (\<lambda>t. tx_status t = Tx_COMPLETED) txs)"
    and "an_pendingTransactions a = length (filter (\<lambda>t. tx_status t = Tx_PENDING) txs)"
    and "an_cancelledTransactions a = length (filter (\<lambda>t. tx_status t = Tx_CANCELLED) txs)"
    and "an_completionRate a = (if length txs > 0
      then roundPercentage (dbl (dbl (of_nat (length (filter (\<lambda>t. tx_status t = Tx_COMPLETED) txs)) / of_nat (length txs)) * 100)) else 0)"
    and "an_volumeTrends a = buildVolumeTrends txs g"
proof (cases "check_range q")
  case None
  note a = assms [unfolded getAnalytics_def Let_def None option.case sum.inject, symmetric]
  show ?thesis
    by (rule that [OF None refl, where g = "case aq_granularity q of Some g \<Rightarrow> g | None \<Rightarrow> MONTH"])
      (simp_all only: a tx_analytics.simps)
qed (use assms in \<open>simp add: getAnalytics_def\<close>)

lemma getAnalytics_total:
  "check_range q = None \<Longrightarrow> \<exists>a. getAnalytics q s = Inr a \<and> an_totalTransactions a = length (filter (analytics_where q) (ts_transactions s))"
  by (simp add: getAnalytics_def Let_def tbl_asc_def)

text \<open>analytics with a start or an end date count the transactions of a window of at most \<open>maxDays\<close> days, 365 when the
  query names none, whichever of the two dates is given.\<close>

theorem analytics_window_is_bounded:
  assumes "getAnalytics q s = Inr a" and "aq_startDate q \<noteq> None \<or> aq_endDate q \<noteq> None"
  shows "\<exists>lo hi. hi - lo \<le> max_days q * ms_day \<and> an_totalTransactions a
    = length (filter (\<lambda>t. filter_by (aq_type q) (tx_type t) \<and> lo \<le> tx_createdAt t \<and> tx_createdAt t \<le> hi) (ts_transactions s))"
proof -
  have range: "check_range q = None" and
    n: "an_totalTransactions a = length (filter (analytics_where q) (ts_transactions s))"
    using getAnalytics_Inr [OF assms(1)] by (auto simp: tbl_asc_def)
  obtain lo hi where r: "created_range q = (Some lo, Some hi)" "hi - lo \<le> max_days q * ms_day"
    using assms(2) range by (cases "aq_startDate q"; cases "aq_endDate q") (auto simp: created_range_def check_range_def split: if_splits)
  have "analytics_where q = (\<lambda>t. filter_by (aq_type q) (tx_type t) \<and> lo \<le> tx_createdAt t \<and> tx_createdAt t \<le> hi)"
    by (intro ext) (simp add: analytics_where_def r(1) range_filter_def)
  with r(2) n show ?thesis by metis
qed

definition sales_from :: "time \<Rightarrow> analytics_query" where
  "sales_from a = \<lparr>aq_startDate = Some a, aq_endDate = None, aq_granularity = Some WEEK, aq_type = Some ''SALE'', aq_maxDays = None\<rparr>"

theorem analytics_window_is_bounded_witness:
  "\<exists>a lo hi. getAnalytics (sales_from 0) (txs_at [5, 40000000000]) = Inr a \<and> an_totalTransactions a = 1
    \<and> hi - lo \<le> 365 * ms_day \<and> 1 = length (filter (\<lambda>t. filter_by (Some ''SALE'') (tx_type t) \<and> lo \<le> tx_createdAt t \<and> tx_createdAt t \<le> hi)
      (ts_transactions (txs_at [5, 40000000000])))"
proof -
  have "length (filter (analytics_where (sales_from 0)) (ts_transactions (txs_at [5, 40000000000]))) = 1" by code_simp
  then obtain a where a: "getAnalytics (sales_from 0) (txs_at [5, 40000000000]) = Inr a" "an_totalTransactions a = 1"
    using getAnalytics_total [of "sales_from 0" "txs_at [5, 40000000000]"] by (auto simp: check_range_def sales_from_def)
  show ?thesis
    using analytics_window_is_bounded [OF a(1)] a by (auto simp: sales_from_def max_days_def)
qed

lemma bucket_put_keys: "fst ` set (bucket_put p f bs) = insert p (fst ` set bs)"
  by (induction p f bs rule: bucket_put.induct) (simp_all add: insert_commute)

lemma bucket_put_distinct: "distinct (map fst bs) \<Longrightarrow> distinct (map fst (bucket_put p f bs))"
proof (induction bs)
  case (Cons b bs)
  then show ?case using bucket_put_keys [of p f bs] by (cases b) auto
qed simp

lemma bucket_put_sum:
  assumes "\<And>b. g (f b) = g b + (d :: nat)" "g \<lparr>bu_transactionCount = 0, bu_totalVolume = 0, bu_completedCount = 0, bu_revenue = 0\<rparr> = 0"
  shows "(\<Sum>(p, b)\<leftarrow>bucket_put p f bs. g b) = (\<Sum>(p, b)\<leftarrow>bs. g b) + d"
  using assms by (induction bs) auto

lemma volume_buckets_snoc:
  "volume_buckets (txs @ [t]) g = bucket_put (formatAnalyticsPeriod (tx_createdAt t) g) (add_to_bucket t) (volume_buckets txs g)"
  by (simp add: volume_buckets_def)

lemma volume_buckets_count:
  "distinct (map fst (volume_buckets txs g))
   \<and> fst ` set (volume_buckets txs g) = (\<lambda>t. formatAnalyticsPeriod (tx_createdAt t) g) ` set txs
   \<and> (\<Sum>(p, b)\<leftarrow>volume_buckets txs g. bu_transactionCount b) = length txs
   \<and> (\<Sum>(p, b)\<leftarrow>volume_buckets txs g. bu_completedCount b) = length (filter (\<lambda>t. tx_status t = Tx_COMPLETED) txs)"
proof (induction txs rule: rev_induct)
  case (snoc t txs)
  have "bu_transactionCount (add_to_bucket t b) = bu_transactionCount b + 1"
    "bu_completedCount (add_to_bucket t b) = bu_completedCount b + (if tx_status t = Tx_COMPLETED then 1 else 0)" for b
    by (simp_all add: add_to_bucket_def Let_def)
  then show ?case
    using snoc.IH
    by (simp add: volume_buckets_snoc bucket_put_keys bucket_put_distinct bucket_put_sum [where g = bu_transactionCount]
        bucket_put_sum [where g = bu_completedCount])
qed (simp add: volume_buckets_def)

lemma trends_count:
  "(\<Sum>(p, b)\<leftarrow>buildVolumeTrends txs g. bu_transactionCount b) = (\<Sum>(p, b)\<leftarrow>volume_buckets txs g. bu_transactionCount b)"
  "(\<Sum>(p, b)\<leftarrow>buildVolumeTrends txs g. bu_completedCount b) = (\<Sum>(p, b)\<leftarrow>volume_buckets txs g. bu_completedCount b)"
  "map fst (buildVolumeTrends txs g) = map fst (volume_buckets txs g)"
  by (simp_all add: buildVolumeTrends_def split_def comp_def)

lemma status_counts:
  "length txs = length (filter (\<lambda>t. tx_status t = Tx_COMPLETED) txs) + length (filter (\<lambda>t. tx_status t = Tx_PENDING) txs)
    + length (filter (\<lambda>t. tx_status t = Tx_CANCELLED) txs)"
proof (induction txs)
  case (Cons t txs)
  then show ?case by (cases "tx_status t") simp_all
qed simp

text \<open>C26: the trends of the analytics partition the transactions they count: no period is listed twice, the counts of the
  periods add up to the total, their completed counts to the completed total, and the three statuses to the total.\<close>

theorem trends_partition_transactions:
  assumes "getAnalytics q s = Inr a"
  shows "distinct (map fst (an_volumeTrends a))
    \<and> (\<Sum>(p, b)\<leftarrow>an_volumeTrends a. bu_transactionCount b) = an_totalTransactions a
    \<and> (\<Sum>(p, b)\<leftarrow>an_volumeTrends a. bu_completedCount b) = an_completedTransactions a
    \<and> an_totalTransactions a = an_completedTransactions a + an_pendingTransactions a + an_cancelledTransactions a"
proof -
  obtain txs g where a: "an_totalTransactions a = length txs"
      "an_completedTransactions a = length (filter (\<lambda>t. tx_status t = Tx_COMPLETED) txs)"
      "an_pendingTransactions a = length (filter (\<lambda>t. tx_status t = Tx_PENDING) txs)"
      "an_cancelledTransactions a = length (filter (\<lambda>t. tx_status t = Tx_CANCELLED) txs)"
      "an_volumeTrends a = buildVolumeTrends txs g"
    using getAnalytics_Inr [OF assms] by metis
  show ?thesis unfolding a trends_count using volume_buckets_count [of txs g] status_counts [of txs] by simp
qed

theorem trends_partition_transactions_witness:
  "\<exists>a. getAnalytics (sales_from 0) (txs_at [5, 10, 1000000000]) = Inr a
    \<and> (\<Sum>(p, b)\<leftarrow>an_volumeTrends a. bu_transactionCount b) = 3"
proof -
  have "length (filter (analytics_where (sales_from 0)) (ts_transactions (txs_at [5, 10, 1000000000]))) = 3" by code_simp
  then obtain a where a: "getAnalytics (sales_from 0) (txs_at [5, 10, 1000000000]) = Inr a" "an_totalTransactions a = 3"
    using getAnalytics_total [of "sales_from 0" "txs_at [5, 10, 1000000000]"] by (auto simp: check_range_def sales_from_def)
  then show ?thesis using trends_partition_transactions [OF a(1)] by metis
qed

lemma roundPercentage_bounds:
  assumes "0 \<le> v" "v \<le> 100"
  shows "0 \<le> roundPercentage v \<and> roundPercentage v \<le> 100"
proof -
  define m where "m = math_round (dbl (v * 100))"
  have "0 \<le> dbl (v * 100)" "dbl (v * 100) \<le> 10000"
    using assms dbl_nonneg [of "v * 100"] dbl_mono [of "v * 100" 10000] by simp_all
  then have "math_round 0 \<le> m" "m \<le> math_round 10000" by (simp_all only: m_def math_round_mono)
  then have "0 \<le> m" "m \<le> 10000"
    using math_round_of_int [of 0] math_round_of_int [of 10000] by simp_all
  then have "(0 :: rat) \<le> of_int m / 100" "(of_int m / 100 :: rat) \<le> 100"
    using of_int_le_iff [of m 10000, where 'a = rat] by simp_all
  then show ?thesis
    unfolding roundPercentage_def m_def [symmetric] using dbl_nonneg dbl_mono [of "of_int m / 100" 100] by simp
qed

text \<open>the completion rate is a percentage: whatever the rounding of its two divisions, it lies between 0 and 100.\<close>

theorem completion_rate_is_percentage:
  assumes "getAnalytics q s = Inr a"
  shows "0 \<le> an_completionRate a \<and> an_completionRate a \<le> 100"
proof -
  have rate: "0 \<le> roundPercentage (dbl (dbl (of_nat c / of_nat n) * 100)) \<and> roundPercentage (dbl (dbl (of_nat c / of_nat n) * 100)) \<le> 100"
    if "c \<le> n" "0 < n" for c n :: nat
  proof -
    have "(0::rat) \<le> of_nat c / of_nat n" "(of_nat c / of_nat n :: rat) \<le> 1" using that by simp_all
    then have "0 \<le> dbl (of_nat c / of_nat n)" "dbl (of_nat c / of_nat n) \<le> 1"
      using dbl_nonneg dbl_mono [of "of_nat c / of_nat n" 1] by simp_all
    then have "0 \<le> dbl (dbl (of_nat c / of_nat n) * 100)" "dbl (dbl (of_nat c / of_nat n) * 100) \<le> 100"
      using dbl_nonneg [of "dbl (of_nat c / of_nat n) * 100"] dbl_mono [of "dbl (of_nat c / of_nat n) * 100" 100] by simp_all
    then show ?thesis using roundPercentage_bounds by simp
  qed
  show ?thesis
  proof (rule getAnalytics_Inr [OF assms])
    fix txs g
    assume a: "an_completionRate a = (if length txs > 0
      then roundPercentage (dbl (dbl (of_nat (length (filter (\<lambda>t. tx_status t = Tx_COMPLETED) txs)) / of_nat (length txs)) * 100)) else 0)"
    show ?thesis
    proof (cases "length txs > 0")
      case True
      then show ?thesis unfolding a using rate [OF length_filter_le True] by simp
    qed (simp add: a)
  qed
qed

theorem completion_rate_is_percentage_witness:
  "\<exists>a. getAnalytics (sales_from 0) (txs_at [5, 10]) = Inr a \<and> 0 \<le> an_completionRate a \<and> an_completionRate a \<le> 100"
proof -
  obtain a where "getAnalytics (sales_from 0) (txs_at [5, 10]) = Inr a"
    using getAnalytics_total [of "sales_from 0" "txs_at [5, 10]"] by (auto simp: check_range_def sales_from_def)
  then show ?thesis using completion_rate_is_percentage by metis
qed

subsection \<open>Versions of a tax strategy\<close>

lemma find_after_write:
  "find_strategy i k (write_strategy k d e s) = map_option (patch_strategy d e) (find_strategy i k s)"
proof -
  have "List.find (\<lambda>r. st_id r = k \<and> st_transactionId r = i) (tbl_update st_id k (patch_strategy d e) rs)
      = map_option (patch_strategy d e) (List.find (\<lambda>r. st_id r = k \<and> st_transactionId r = i) rs)" for rs
    by (induction rs) (auto simp: tbl_update_def patch_strategy_def)
  then show ?thesis by (simp add: find_strategy_def write_strategy_def)
qed

text \<open>the version of a tax strategy counts its updates only while they do not overlap: two updates one after the other
  raise it by two, but when both have read the row before either writes, the second write stores the same version as
  the first, with the fields of both.\<close>

theorem overlapping_updates_share_a_version:
  assumes "find_strategy i k s = Some r"
  shows "map_option st_version (find_strategy i k (snd (updateTaxStrategySuggestion i k d2 (snd (updateTaxStrategySuggestion i k d1 s)))))
      = Some (st_version r + 2)
    \<and> map_option st_version (find_strategy i k (write_strategy k d2 r (write_strategy k d1 r s))) = Some (st_version r + 1)
    \<and> map_option st_version (find_strategy i k (write_strategy k d1 r s)) = Some (st_version r + 1)
    \<and> map_option st_strategyType (find_strategy i k (write_strategy k d2 r (write_strategy k d1 r s)))
      = Some (or_keep (xu_strategyType d2) (or_keep (xu_strategyType d1) (st_strategyType r)))"
  using assms by (simp add: updateTaxStrategySuggestion_def find_after_write patch_strategy_def)

definition one_strategy :: "(tax_strategy, tax_state) outcome" where
  "one_strategy = createTaxStrategySuggestion (\<lambda>p. [Some ''Lagos'', None, Some ''Nigeria'']) ''x'' ''0''
     \<lparr>xd_strategyType = ''DEFERRAL'', xd_estimatedTaxRate = Some 10, xd_explanation = None\<rparr> ''u''
     (tx_state.extend (txs_at [5]) \<lparr>xs_strategies = []\<rparr>)"

theorem overlapping_updates_share_a_version_witness:
  "\<exists>r. fst one_strategy = Inr r \<and> st_jurisdiction r = ''Lagos, Nigeria''
    \<and> (\<forall>d1 d2. map_option st_version (find_strategy ''0'' ''x'' (write_strategy ''x'' d2 r (write_strategy ''x'' d1 r (snd one_strategy)))) = Some 2)"
proof -
  have "(case fst one_strategy of Inr r \<Rightarrow> st_jurisdiction r = ''Lagos, Nigeria'' \<and> st_version r = 1
      \<and> find_strategy ''0'' ''x'' (snd one_strategy) = Some r | Inl e \<Rightarrow> False)" by code_simp
  then obtain r where r: "fst one_strategy = Inr r" "st_jurisdiction r = ''Lagos, Nigeria''" "st_version r = 1"
      and found: "find_strategy ''0'' ''x'' (snd one_strategy) = Some r"
    by (auto split: sum.splits)
  have "map_option st_version (find_strategy ''0'' ''x'' (write_strategy ''x'' d2 r (write_strategy ''x'' d1 r (snd one_strategy)))) = Some 2"
    for d1 d2
    using overlapping_updates_share_a_version [OF found, of d2 d1] r(3) by (simp add: eval_nat_numeral)
  with r show ?thesis by blast
qed

subsection \<open>Recording once\<close>

text \<open>A transaction that has been recorded keeps its hash: every later attempt, with whatever addresses and whatever the
  chain would answer, is refused and changes nothing.\<close>

theorem recorded_hash_is_final:
  assumes "recordOnBlockchain chain address_of i buyer seller s = (Inr r, s')" and "tr_blockchainHash r \<noteq> Some []"
  shows "recordOnBlockchain chain' address_of' i buyer' seller' s'
    = (Inl (BadRequest ''Transaction already recorded on blockchain''), s')"
proof -
  obtain t h where t: "find_tx i s = Some t" "h \<noteq> []" "\<exists>t'. find_tx i s' = Some t' \<and> tx_blockchainHash t' = Some h"
    using assms
    by (auto simp: recordOnBlockchain_def Let_def find_tx_def update_tx_def toResponseDto_def transactions.lookup_update
        split: option.splits if_splits sum.splits prod.splits)
  then show ?thesis by (auto simp: recordOnBlockchain_def)
qed

theorem recorded_hash_is_final_witness:
  "recordOnBlockchain (\<lambda>q. Inl (ServiceUnavailable ''node'')) (\<lambda>p. None) ''0'' (Some ''0xb'') None
     (snd (recordOnBlockchain (\<lambda>q. Inr (''0xabc'', None)) (\<lambda>p. Some ''1 Main St'') ''0'' None None (txs_at [5])))
   = (Inl (BadRequest ''Transaction already recorded on blockchain''),
      snd (recordOnBlockchain (\<lambda>q. Inr (''0xabc'', None)) (\<lambda>p. Some ''1 Main St'') ''0'' None None (txs_at [5])))"
proof -
  let ?o = "recordOnBlockchain (\<lambda>q. Inr (''0xabc'', None)) (\<lambda>p. Some ''1 Main St'') ''0'' None None (txs_at [5])"
  have "(case fst ?o of Inr r \<Rightarrow> tr_blockchainHash r = Some ''0xabc'' | Inl e \<Rightarrow> False)" by code_simp
  then obtain r where "fst ?o = Inr r" "tr_blockchainHash r \<noteq> Some []" by (auto split: sum.splits)
  moreover from this have "?o = (Inr r, snd ?o)" by (simp add: prod_eq_iff)
  ultimately show ?thesis by (intro recorded_hash_is_final)
qed

end
