(* ===== verification/Spec2Isabelle.thy ===== *)
theory Spec2Isabelle
  imports Prelude Store Status_Machines Doubles Retry Security_Utils Totp Fixed_Window Rate_Limit Rate_Guards
    Login_Lockout Calendar Api_Keys Two_Factor Passwords Transactions Tx_Records Sanitize Sessions Accounts Fraud Auth_Tokens Auth_Accounts Fraud_Frame
    Account_Security Password_Life Registration User_Accounts User_Life User_Deletion
    Sliding_Window Webhook_Url Webhooks Webhook_Life Properties Property_Life Property_Rules File_Content Documents Document_Life
    Property_Images Image_Life Duplicates Duplicate_Life Support_Tickets Ticket_Life Ws_Gateway Ws_Life Trust_Score
    Cache Listing_Cache Sms Preferences Notifications Notification_Life User_Import
    Date_Periods Tx_Analytics
begin

text \<open>
  PropChain back end (\<open>src/\<close>): a NestJS server for a real-estate platform.  This development models its
  authentication, abuse protection, users, transactions, listings with their images and duplicates, documents, webhooks,
  support tickets, notifications with their preferences and text messages, user imports, the cache and trust scores, and proves what they guarantee.  All file names below
  are under \<open>src/src/\<close>.

  \<^bold>\<open>How the model reads.\<close>  A Prisma table is the list of its rows in insertion order, with the operations of
  theory \<open>Store\<close> for the documented Prisma calls; a service is a record of its tables, and each method a function
  that returns its result or exception (\<open>http_error + 'a\<close>) with the new state, along every branch and early
  return.  The clock, random values, identifiers, environment variables, hash functions, bcrypt, the JWT library,
  the cache manager and the mail service are arguments.  What a proof needs of them is a named predicate or a
  locale: \<open>jwt_library\<close> and \<open>ws_library\<close> (a signed token verifies with its secret until it expires), \<open>ttl_cache\<close> (an entry is there
  until its time to live is over), \<open>cr_compare p (cr_hash p)\<close> (bcrypt).  Times are milliseconds, or seconds where the
  code says so, as integers; numbers that the code keeps as JavaScript doubles are rounded as binary64 where it
  matters (theory \<open>Doubles\<close>); bit operations are on 32-bit words (theories \<open>Security_Utils\<close>, \<open>Totp\<close>).  One
  request runs to its end before the next one starts, except where an operation is split in two at a point where it waits
  (\<open>send_begin\<close> and \<open>mark_delivered\<close>, \<open>remember_begin\<close> and \<open>remember_finish\<close>, \<open>reminders_begin\<close> and \<open>reminders_finish\<close>, the dispatches of
  the webhooks): there the halves of several requests interleave in any order.

  \<^bold>\<open>Parts.\<close>
  \<^item> Foundations: \<open>Prelude\<close> (errors, outcomes, JavaScript strings and number parsing), \<open>Store\<close> (tables; locale
    \<open>keyed_table\<close>, interpreted for every table), \<open>Calendar\<close> (days and months), \<open>Doubles\<close> (binary64).
  \<^item> Abuse protection: \<open>Fixed_Window\<close> (a locale for counters in fixed windows, interpreted for the investments
    guard and for the cache-backed limiter), \<open>Rate_Limit\<close> (\<open>auth/rate-limit.config.ts\<close>,
    \<open>auth/rate-limit.service.ts\<close>), \<open>Rate_Guards\<close> (the guards and the client address), \<open>Login_Lockout\<close>
    (\<open>auth/login-rate-limit.service.ts\<close>), \<open>Retry\<close> (the retry helpers), \<open>Sanitize\<close> (\<open>sessions/sanitize.util.ts\<close>),
    \<open>Fraud\<close> (\<open>fraud/fraud.service.ts\<close>) and \<open>Fraud_Frame\<close> (what the fraud service leaves alone: locales
    \<open>fraud_frame\<close> and \<open>session_frame\<close>).
  \<^item> Credentials: \<open>Security_Utils\<close> and \<open>Totp\<close> (\<open>auth/security.utils.ts\<close>), \<open>Passwords\<close> (\<open>auth/password.utils.ts\<close>),
    \<open>Two_Factor\<close> (\<open>auth/two-factor.service.ts\<close> and its guard), \<open>Api_Keys\<close> (scopes, guards, life cycle, quota).
  \<^item> Accounts: \<open>Sessions\<close> (\<open>sessions/sessions.service.ts\<close>), \<open>Accounts\<close> (the shared state), \<open>Auth_Tokens\<close> and
    \<open>Auth_Accounts\<close> (\<open>auth/auth.service.ts\<close>: tokens, then registration, login, second factor, passwords), with the
    properties in \<open>Account_Security\<close>, \<open>Password_Life\<close> and \<open>Registration\<close>; \<open>database/cleanup.service.ts\<close> is in
    \<open>Auth_Tokens\<close>.
  \<^item> Users: \<open>User_Accounts\<close> (\<open>users/users.service.ts\<close>, \<open>users/email-verification.service.ts\<close>,
    \<open>users/account-deletion.service.ts\<close>; \<open>prisma_update_user\<close> and \<open>delete_user_row\<close> are the database with the unique
    columns and the foreign keys of the schema), with the properties in \<open>User_Life\<close> and \<open>User_Deletion\<close>.
  \<^item> Transactions: \<open>Status_Machines\<close> (the two status tables), \<open>Transactions\<close> (\<open>transactions/transactions.service.ts\<close>,
    cancellation, audit log, \<open>commissions/commissions.service.ts\<close>), \<open>Tx_Records\<close> (documents, notes, disputes,
    timeline, reminders), \<open>Date_Periods\<close> and \<open>Tx_Analytics\<close> (the queries of \<open>transactions/transactions.service.ts\<close>: pages with
    a cursor, analytics by day, ISO week or month, on doubles; tax strategies; recording on the blockchain).
  \<^item> Listings: \<open>Properties\<close> (\<open>properties/properties.service.ts\<close>, \<open>search-where.builder.ts\<close>,
    \<open>property-expiry.service.ts\<close>, the address comparison of \<open>geocoding.service.ts\<close>), with the properties in
    \<open>Property_Life\<close> (addresses, prices, coordinates) and \<open>Property_Rules\<close> (references, the nightly job, searches);
    \<open>Property_Images\<close> (\<open>properties/property-images.service.ts\<close>: the table of images and the files on disk), with the
    properties in \<open>Image_Life\<close>; \<open>Duplicates\<close> (\<open>duplicate-detection/duplicate-detection.service.ts\<close>, on the listings and the
    gallery), with the properties in \<open>Duplicate_Life\<close>.
  \<^item> Files and documents: \<open>File_Content\<close> (\<open>common/security/magic-bytes.ts\<close>, \<open>documents/document-upload.service.ts\<close>),
    \<open>Documents\<close> (\<open>documents/\<close>: service, access checks of the controllers, signed URLs, versions in memory), with the
    properties in \<open>Document_Life\<close>.
  \<^item> Webhooks: \<open>Webhook_Url\<close> (\<open>webhooks/url-validator.util.ts\<close>), \<open>Sliding_Window\<close> (the interface of an in-memory limiter,
    interpreted for the triggers), \<open>Webhooks\<close> (\<open>webhooks/webhooks.service.ts\<close> and the delivery processor; the queue is
    a list of dispatches that have not run, and a step runs any of them), with the properties in \<open>Webhook_Life\<close>.

  \<^item> Support: \<open>Support_Tickets\<close> (\<open>support-tickets/\<close>: service, five-minute check, what the controller passes), with the
    properties in \<open>Ticket_Life\<close>.
  \<^item> Sockets: \<open>Ws_Gateway\<close> (\<open>notifications/notifications.gateway.ts\<close>, \<open>ws-ticket.service.ts\<close>, \<open>redis-presence.service.ts\<close>,
    with the sessions of \<open>Sessions\<close>), with the properties in \<open>Ws_Life\<close>.
  \<^item> Cache: \<open>Cache\<close> (\<open>cache/cache.service.ts\<close> with its counters, the dashboard snapshot, the readiness probe), \<open>Listing_Cache\<close>
    (\<open>properties/properties-listings-cache.service.ts\<close>: searches cached by several replicas over one Redis); the lock of the reminder run
    in \<open>Tx_Records\<close> and the text messages use \<open>Cache\<close>.
  \<^item> Notifications: \<open>Preferences\<close> (\<open>users/user-preferences.service.ts\<close>: the table, hours of quiet, the decision), \<open>Sms\<close>
    (\<open>notifications/sms.service.ts\<close>; its limiter interprets \<open>sliding_window\<close>), \<open>Notifications\<close>
    (\<open>notifications/notifications.service.ts\<close> and the endpoints; sending is split where it waits for Redis), with the properties in
    \<open>Notification_Life\<close>.
  \<^item> Imports: \<open>User_Import\<close> (\<open>users/user-import.service.ts\<close>; the CSV parser is an argument).
  \<^item> Trust scores: \<open>Trust_Score\<close> (\<open>trust-score/trust-score.service.ts\<close>, on doubles, with the transactions of \<open>Transactions\<close>).

  A login calls the lockout, the second factor, the fraud service and the session service in the order of the
  code; a refresh calls the blacklist, the fraud service and the session service; a status change calls the status
  table, the commissions, the audit log and the timeline.  The composed operations are the definitions of the
  same names.

  \<^bold>\<open>What is proved.\<close>  Single use over histories (\<open>auth_step\<close>, \<open>reset_step\<close>, \<open>device_step\<close>, \<open>key_step\<close>: refresh
  tokens, reset tokens, recovery codes, revoked keys and devices); invariants over all operations of a component
  (\<open>webhook_step\<close>, \<open>listing_step\<close>, \<open>property_step\<close>, \<open>image_step\<close>, \<open>ticket_step\<close>, \<open>ws_step\<close>, \<open>notify_step\<close>, \<open>search_step\<close>); refinement of a limiter that never forgets by the one
  that drops old times; exact limits (lockout, quotas, rate limits over any
  traffic, concurrent sessions); the factors of a login; invariants of tables (document versions, commissions, final
  statuses); equivalence with reference definitions (base32 as a bit string, TOTP as RFC 4226, batched deletion as
  one deletion, the week of a date as ISO 8601, the address filter as a list of networks, a nightly run as one pass over the rows); round trips
  (registration, remembered devices, the order of images); bounds of the retry delays; error behaviour.
  Several properties state what the code does where its comments say otherwise; the manifest lists them as findings.

  \<^bold>\<open>Termination.\<close>  No definition that models code uses fuel; the client that follows the cursors of a list
  (\<open>read_pages\<close>) does, and one request more than there are rows is proved to be enough.  The loop that draws referral codes may not end and is a partial
  function (\<open>free_referral_code\<close>); that it returns is part of a property.  Every other loop is structural or has a measure (attempts left in
  \<open>retry_loop\<close>, characters left in \<open>strip_tags\<close>, matching rows left in \<open>cleanup_batches\<close>, digits left in the printers, bytes left in \<open>skip_spaces\<close>).

  \<^bold>\<open>Not modelled.\<close>  Controllers, DTO validation and modules (declarative routing); Prisma, the mailers, Redis,
  BullMQ and the blockchain client (code outside the repository or glue to it); metrics, logging and tracing (no effect on results); seeds and administration scripts; read-only reports.  Services that are
  not modelled: search rankings, mail, payments, platform analytics, administration; the manifest lists each with its reason.
\<close>

end
